(* ===== verification/GoStrings.thy ===== *)
theory GoStrings
  imports Prelude
begin

text \<open>
  The functions of Go's \<open>strings\<close>, \<open>strconv\<close> and \<open>fmt\<close> packages the program calls on
  text. A Go string is a sequence of bytes, so it is a \<^typ>\<open>string\<close> whose characters
  are bytes; text outside ASCII is its UTF-8 encoding.

  \<open>TrimSpace\<close> strips the Unicode white space runes, written here as their UTF-8 sequences.
  \<open>ToLower\<close> maps the ASCII letters and the two other runes whose lower case is ASCII (U+0130 to
  \<open>i\<close> and U+212A to \<open>k\<close>), and keeps the rest: the program only compares lowered text with ASCII
  text, and no further rune has an ASCII lower case, so every such comparison comes out as in Go.
\<close>

section \<open>Prefixes, suffixes and substrings\<close>

definition has_prefix :: "string \<Rightarrow> string \<Rightarrow> bool" where
  "has_prefix s p = prefix p s"

definition has_suffix :: "string \<Rightarrow> string \<Rightarrow> bool" where
  "has_suffix s p = suffix p s"

definition str_contains :: "string \<Rightarrow> string \<Rightarrow> bool" where
  "str_contains s t = sublist t s"

definition contains_any :: "string \<Rightarrow> string \<Rightarrow> bool" where
  "contains_any s chars = list_ex (\<lambda>c. List.member chars c) s"

definition trim_prefix :: "string \<Rightarrow> string \<Rightarrow> string" where
  "trim_prefix s p = (if prefix p s then drop (length p) s else s)"

definition cut_prefix :: "string \<Rightarrow> string \<Rightarrow> string option" where
  "cut_prefix s p = (if prefix p s then Some (drop (length p) s) else None)"

lemma contains_any_iff: "contains_any s chars \<longleftrightarrow> (\<exists>c \<in> set s. c \<in> set chars)"
  by (simp add: contains_any_def list_ex_iff)

lemma trim_prefix_append [simp]: "trim_prefix (p @ s) p = s"
  by (simp add: trim_prefix_def)

lemma cut_prefix_Some: "cut_prefix s p = Some t \<longleftrightarrow> s = p @ t"
  by (auto simp: cut_prefix_def prefix_def)

section \<open>Splitting at a character\<close>

text \<open>\<open>strings.Split\<close> with a separator of one byte, and \<open>strings.Cut\<close>.\<close>

fun split_on :: "char \<Rightarrow> string \<Rightarrow> string list" where
  "split_on c [] = [[]]"
| "split_on c (x # xs) =
     (if x = c then [] # split_on c xs
      else case split_on c xs of [] \<Rightarrow> [[x]] | w # ws \<Rightarrow> (x # w) # ws)"

definition str_cut :: "char \<Rightarrow> string \<Rightarrow> string \<times> string \<times> bool" where
  "str_cut c s =
     (if List.member s c
      then (takeWhile (\<lambda>x. x \<noteq> c) s, tl (dropWhile (\<lambda>x. x \<noteq> c) s), True)
      else (s, [], False))"

lemma split_on_nonempty [simp]: "split_on c s \<noteq> []"
  by (induction s) (auto split: list.splits)

lemma split_on_parts: "w \<in> set (split_on c s) \<Longrightarrow> c \<notin> set w"
  by (induction s arbitrary: w) (auto split: list.splits if_splits)

lemma split_on_none: "c \<notin> set s \<Longrightarrow> split_on c s = [s]"
  by (induction s) auto

lemma split_on_sep: "c \<notin> set s \<Longrightarrow> split_on c (s @ c # t) = s # split_on c t"
  by (induction s) auto

lemma split_on_append: "split_on c (s @ c # t) = split_on c s @ split_on c t"
  by (induction s) (auto split: list.splits simp: neq_Nil_conv Cons_eq_append_conv)

lemma str_cut_append: "c \<notin> set k \<Longrightarrow> str_cut c (k @ c # v) = (k, v, True)"
  by (induction k) (auto simp: str_cut_def split: if_splits)

lemma str_cut_found: "str_cut c s = (k, v, True) \<Longrightarrow> s = k @ c # v \<and> c \<notin> set k"
proof -
  assume "str_cut c s = (k, v, True)"
  then have "c \<in> set s" and k: "k = takeWhile (\<lambda>x. x \<noteq> c) s"
    and v: "v = tl (dropWhile (\<lambda>x. x \<noteq> c) s)"
    by (auto simp: str_cut_def split: if_splits)
  from \<open>c \<in> set s\<close> obtain ys zs where s: "s = ys @ c # zs" "c \<notin> set ys"
    by (meson split_list_first)
  then have "takeWhile (\<lambda>x. x \<noteq> c) s = ys"
    by (induction ys arbitrary: s) auto
  moreover from s have "dropWhile (\<lambda>x. x \<noteq> c) s = c # zs"
    by (induction ys arbitrary: s) auto
  ultimately have "takeWhile (\<lambda>x. x \<noteq> c) s = ys" "dropWhile (\<lambda>x. x \<noteq> c) s = c # zs"
    by simp_all
  with s k v show ?thesis by simp
qed

section \<open>White space and case\<close>

text \<open>The UTF-8 sequences of the runes for which \<open>unicode.IsSpace\<close> holds.\<close>

definition space_seqs :: "string list" where
  "space_seqs =
     [[CHR 0x09], [CHR 0x0A], [CHR 0x0B], [CHR 0x0C], [CHR 0x0D], [CHR 0x20],
      [CHR 0xC2, CHR 0x85], [CHR 0xC2, CHR 0xA0], [CHR 0xE1, CHR 0x9A, CHR 0x80],
      [CHR 0xE2, CHR 0x80, CHR 0x80], [CHR 0xE2, CHR 0x80, CHR 0x81],
      [CHR 0xE2, CHR 0x80, CHR 0x82], [CHR 0xE2, CHR 0x80, CHR 0x83],
      [CHR 0xE2, CHR 0x80, CHR 0x84], [CHR 0xE2, CHR 0x80, CHR 0x85],
      [CHR 0xE2, CHR 0x80, CHR 0x86], [CHR 0xE2, CHR 0x80, CHR 0x87],
      [CHR 0xE2, CHR 0x80, CHR 0x88], [CHR 0xE2, CHR 0x80, CHR 0x89],
      [CHR 0xE2, CHR 0x80, CHR 0x8A], [CHR 0xE2, CHR 0x80, CHR 0xA8],
      [CHR 0xE2, CHR 0x80, CHR 0xA9], [CHR 0xE2, CHR 0x80, CHR 0xAF],
      [CHR 0xE2, CHR 0x81, CHR 0x9F], [CHR 0xE3, CHR 0x80, CHR 0x80]]"

text \<open>Drop one of the given sequences from the front, and all of them.\<close>

fun strip_one :: "string list \<Rightarrow> string \<Rightarrow> string option" where
  "strip_one [] s = None"
| "strip_one (p # ps) s = (if prefix p s then Some (drop (length p) s) else strip_one ps s)"

lemma strip_one_Some: "strip_one ps s = Some t \<Longrightarrow> \<exists>p \<in> set ps. s = p @ t"
  by (induction ps) (auto simp: prefix_def split: if_splits)

lemma strip_one_None: "strip_one ps s = None \<longleftrightarrow> (\<forall>p \<in> set ps. \<not> prefix p s)"
  by (induction ps) auto

function strip_all :: "string list \<Rightarrow> string \<Rightarrow> string" where
  "strip_all ps s =
     (case strip_one ps s of None \<Rightarrow> s
      | Some t \<Rightarrow> if length t < length s then strip_all ps t else s)"
  by pat_completeness auto
termination
  by (relation "measure (\<lambda>(ps, s). length s)") auto

declare strip_all.simps [simp del]

lemma strip_all_None: "strip_one ps s = None \<Longrightarrow> strip_all ps s = s"
  by (subst strip_all.simps) simp

lemma strip_all_Some: "strip_one ps s = Some t \<Longrightarrow> length t < length s \<Longrightarrow> strip_all ps s = strip_all ps t"
  by (subst strip_all.simps) simp

lemma strip_all_stuck: "strip_one ps s = Some t \<Longrightarrow> \<not> length t < length s \<Longrightarrow> strip_all ps s = s"
  by (subst strip_all.simps) simp

definition trim_left :: "string \<Rightarrow> string" where
  "trim_left s = strip_all space_seqs s"

definition trim_right :: "string \<Rightarrow> string" where
  "trim_right s = rev (strip_all (map rev space_seqs) (rev s))"

definition trim_space :: "string \<Rightarrow> string" where
  "trim_space s = trim_right (trim_left s)"

abbreviation blank :: "string \<Rightarrow> bool" where
  "blank s \<equiv> trim_space s = []"

lemma strip_all_suffix: "\<exists>r. s = r @ strip_all ps s"
proof (induction ps s rule: strip_all.induct)
  case (1 ps s)
  show ?case
  proof (cases "strip_one ps s")
    case None
    then show ?thesis by (simp add: strip_all_None)
  next
    case (Some t)
    then obtain p where p: "s = p @ t" using strip_one_Some by blast
    show ?thesis
    proof (cases "length t < length s")
      case True
      with Some 1 obtain r where "t = r @ strip_all ps t" by blast
      then have "s = (p @ r) @ strip_all ps t" using p by simp
      with Some True show ?thesis by (metis strip_all_Some)
    qed (simp add: strip_all_stuck [OF Some])
  qed
qed

lemma strip_all_done: "[] \<notin> set ps \<Longrightarrow> p \<in> set ps \<Longrightarrow> \<not> prefix p (strip_all ps s)"
proof (induction ps s rule: strip_all.induct)
  case (1 ps s)
  show ?case
  proof (cases "strip_one ps s")
    case None
    with 1 show ?thesis by (simp add: strip_all_None strip_one_None)
  next
    case (Some t)
    then obtain q where q: "q \<in> set ps" "s = q @ t" using strip_one_Some by blast
    with 1 have "length t < length s" by (cases q) auto
    with Some 1 show ?thesis by (simp add: strip_all_Some)
  qed
qed

lemma strip_all_id: "\<forall>p \<in> set ps. \<not> prefix p s \<Longrightarrow> strip_all ps s = s"
  by (simp add: strip_all_None strip_one_None)

lemma space_seqs_nonempty: "[] \<notin> set space_seqs"
  by (simp add: space_seqs_def)

lemma trim_left_done: "p \<in> set space_seqs \<Longrightarrow> \<not> prefix p (trim_left s)"
  by (simp add: trim_left_def strip_all_done space_seqs_nonempty)

lemma trim_right_done: "p \<in> set space_seqs \<Longrightarrow> \<not> suffix p (trim_right s)"
  using strip_all_done [of "map rev space_seqs" "rev p" "rev s"] space_seqs_nonempty
  by (auto simp: trim_right_def suffix_to_prefix)

lemma trim_right_prefix: "prefix (trim_right s) s"
proof -
  obtain r where "rev s = r @ strip_all (map rev space_seqs) (rev s)"
    using strip_all_suffix by blast
  then have "s = rev (strip_all (map rev space_seqs) (rev s)) @ rev r"
    by (metis rev_append rev_rev_ident)
  then show ?thesis unfolding trim_right_def prefix_def by blast
qed

lemma trim_right_id: "\<forall>p \<in> set space_seqs. \<not> suffix p s \<Longrightarrow> trim_right s = s"
  by (simp add: trim_right_def strip_all_id suffix_to_prefix)

lemma trim_left_id: "\<forall>p \<in> set space_seqs. \<not> prefix p s \<Longrightarrow> trim_left s = s"
  by (simp add: trim_left_def strip_all_id)

lemma trim_space_idem [simp]: "trim_space (trim_space s) = trim_space s"
proof -
  have "\<forall>p \<in> set space_seqs. \<not> prefix p (trim_space s)"
    unfolding trim_space_def
    using trim_left_done trim_right_prefix prefix_order.order_trans by blast
  then have "trim_left (trim_space s) = trim_space s" by (rule trim_left_id)
  moreover have "trim_right (trim_space s) = trim_space s"
    unfolding trim_space_def by (rule trim_right_id) (simp add: trim_right_done)
  ultimately show ?thesis by (simp add: trim_space_def)
qed

lemma trim_space_Nil [simp]: "trim_space [] = []"
  by (simp add: trim_space_def trim_left_def trim_right_def strip_all_id space_seqs_def)

lemma trim_space_subset: "set (trim_space s) \<subseteq> set s"
proof -
  obtain r where "s = r @ trim_left s"
    unfolding trim_left_def using strip_all_suffix by blast
  then have "set (trim_left s) \<subseteq> set s" by (metis Un_iff set_append subsetI)
  moreover have "set (trim_right (trim_left s)) \<subseteq> set (trim_left s)"
    by (rule set_mono_prefix [OF trim_right_prefix])
  ultimately show ?thesis by (auto simp: trim_space_def)
qed

definition ascii_lower :: "char \<Rightarrow> char" where
  "ascii_lower c =
     (let n = (of_char c :: nat) in if 65 \<le> n \<and> n \<le> 90 then char_of (n + 32) else c)"

definition ascii_upper :: "char \<Rightarrow> char" where
  "ascii_upper c =
     (let n = (of_char c :: nat) in if 97 \<le> n \<and> n \<le> 122 then char_of (n - 32) else c)"

fun to_lower :: "string \<Rightarrow> string" where
  "to_lower [] = []"
| "to_lower (c # cs) =
     (if prefix [CHR 0xC4, CHR 0xB0] (c # cs) then CHR ''i'' # to_lower (drop 1 cs)
      else if prefix [CHR 0xE2, CHR 0x84, CHR 0xAA] (c # cs) then CHR ''k'' # to_lower (drop 2 cs)
      else ascii_lower c # to_lower cs)"

section \<open>Numbers as text\<close>

definition digit_char :: "nat \<Rightarrow> char" where
  "digit_char n = char_of (48 + n)"

fun dec_nat :: "nat \<Rightarrow> string" where
  "dec_nat n =
     (if n < 10 then [digit_char n] else dec_nat (n div 10) @ [digit_char (n mod 10)])"

declare dec_nat.simps [simp del]

definition dec_int :: "int \<Rightarrow> string" where
  "dec_int i = (if i < 0 then CHR ''-'' # dec_nat (nat (- i)) else dec_nat (nat i))"

definition is_digit :: "char \<Rightarrow> bool" where
  "is_digit c = (let n = (of_char c :: nat) in 48 \<le> n \<and> n \<le> 57)"

definition digit_val :: "char \<Rightarrow> nat" where
  "digit_val c = of_char c - 48"

definition digits_nat :: "string \<Rightarrow> nat" where
  "digits_nat s = foldl (\<lambda>n c. 10 * n + digit_val c) 0 s"

lemma is_digit_char: "n < 10 \<Longrightarrow> is_digit (digit_char n)"
  by (simp add: is_digit_def digit_char_def)

lemma digit_val_char: "n < 10 \<Longrightarrow> digit_val (digit_char n) = n"
  by (simp add: digit_val_def digit_char_def)

lemma dec_nat_digits: "c \<in> set (dec_nat n) \<Longrightarrow> is_digit c"
proof (induction n rule: dec_nat.induct)
  case (1 n)
  then show ?case
    by (cases "n < 10") (auto simp: dec_nat.simps [of n] is_digit_char)
qed

lemma digits_nat_dec_nat [simp]: "digits_nat (dec_nat n) = n"
proof (induction n rule: dec_nat.induct)
  case (1 n)
  then show ?case
    by (cases "n < 10") (auto simp: dec_nat.simps [of n] digits_nat_def digit_val_char)
qed

lemma dec_nat_inject [simp]: "dec_nat m = dec_nat n \<longleftrightarrow> m = n"
  by (metis digits_nat_dec_nat)

lemma dec_nat_nonempty [simp]: "dec_nat n \<noteq> []"
  by (subst dec_nat.simps) simp

text \<open>
  \<open>strconv.ParseInt(s, 10, 64)\<close>: an optional sign and digits; a value outside the 64-bit range
  is an error that still returns the nearest bound, and other text is an error with value 0.
\<close>

definition parse_int :: "string \<Rightarrow> int \<times> bool" where
  "parse_int s =
     (let (neg, ds) = (case s of c # cs \<Rightarrow> (if c = CHR ''-'' then (True, cs)
                         else if c = CHR ''+'' then (False, cs) else (False, s)) | [] \<Rightarrow> (False, s));
          n = int (digits_nat ds)
      in if ds = [] \<or> \<not> list_all is_digit ds then (0, False)
         else if neg then (if n \<le> 2 ^ 63 then (- n, True) else (- (2 ^ 63), False))
         else (if n < 2 ^ 63 then (n, True) else (2 ^ 63 - 1, False)))"

text \<open>\<open>strconv.Atoi\<close> with its error dropped, as every caller in the program does.\<close>

definition atoi :: "string \<Rightarrow> int" where
  "atoi s = fst (parse_int s)"

lemma parse_int_range: "- (2 ^ 63) \<le> fst (parse_int s) \<and> fst (parse_int s) < 2 ^ 63"
  by (auto simp: parse_int_def Let_def split: list.splits if_splits prod.splits)

text \<open>
  \<open>strconv.Quote\<close>, the \<open>%q\<close> of error messages: quotes, backslashes and control characters are
  escaped; bytes from 0x80 on are kept, as Quote keeps printable runes.
\<close>

definition hex_char :: "nat \<Rightarrow> char" where
  "hex_char n = (if n < 10 then char_of (48 + n) else char_of (87 + n))"

definition quote_char :: "char \<Rightarrow> string" where
  "quote_char c =
     (let n = (of_char c :: nat) in
      if c = CHR 0x22 \<or> c = CHR 0x5C then [CHR 0x5C, c]
      else if c = CHR 0x07 then [CHR 0x5C, CHR ''a''] else if c = CHR 0x08 then [CHR 0x5C, CHR ''b'']
      else if c = CHR 0x0C then [CHR 0x5C, CHR ''f''] else if c = CHR 0x0A then [CHR 0x5C, CHR ''n'']
      else if c = CHR 0x0D then [CHR 0x5C, CHR ''r''] else if c = CHR 0x09 then [CHR 0x5C, CHR ''t'']
      else if c = CHR 0x0B then [CHR 0x5C, CHR ''v'']
      else if n < 32 \<or> n = 127
      then [CHR 0x5C, CHR ''x'', hex_char (n div 16), hex_char (n mod 16)]
      else [c])"

definition go_quote :: "string \<Rightarrow> string" where
  "go_quote s = CHR 0x22 # concat (map quote_char s) @ [CHR 0x22]"

end
