(* ===== verification/GoFloat.thy ===== *)
theory GoFloat
  imports GoStrings
begin

text \<open>
  Go's \<open>float32\<close> and \<open>float64\<close>, as far as the program computes with them: conversion from
  integers and from decimal text (round to nearest, ties to even), comparison, and the shortest
  decimal text that reads back as the same value, which is how \<open>fmt.Sprint\<close> prints one. A finite
  value is a sign, a mantissa and a binary exponent. Every number of a webhook payload, of a
  stored graph or of a snapshot passes through these when it is decoded from JSON.
\<close>

section \<open>Values\<close>

datatype float = FNaN | FInf bool | FFin bool nat int

text \<open>Precision, least exponent and greatest exponent of the two formats.\<close>

record float_format =
  mantissa_bits :: nat
  exp_min :: int
  exp_max :: int

definition format64 :: float_format where
  "format64 = \<lparr>mantissa_bits = 53, exp_min = -1074, exp_max = 971\<rparr>"

definition format32 :: float_format where
  "format32 = \<lparr>mantissa_bits = 24, exp_min = -149, exp_max = 104\<rparr>"

fun bit_length :: "nat \<Rightarrow> nat" where
  "bit_length n = (if n = 0 then 0 else Suc (bit_length (n div 2)))"

declare bit_length.simps [simp del]

text \<open>Division rounded to the nearest integer, ties to even.\<close>

definition div_round :: "nat \<Rightarrow> nat \<Rightarrow> nat" where
  "div_round p q =
     (let d = p div q; r = p mod q in
      if 2 * r < q then d else if q < 2 * r then Suc d else if even d then d else Suc d)"

text \<open>The value nearest to the ratio \<open>p / q\<close>.\<close>

definition round_ratio :: "float_format \<Rightarrow> bool \<Rightarrow> nat \<Rightarrow> nat \<Rightarrow> float" where
  "round_ratio f neg p q =
     (if p = 0 then FFin neg 0 0
      else
        let e0 = int (bit_length p) - int (bit_length q) - int (mantissa_bits f);
            num = (\<lambda>e. p * 2 ^ nat (- e));
            den = (\<lambda>e. q * 2 ^ nat e);
            e1 = (if 2 ^ mantissa_bits f \<le> num e0 div den e0 then e0 + 1 else e0);
            e = max e1 (exp_min f);
            m = div_round (num e) (den e);
            (m', e') = (if m = 2 ^ mantissa_bits f then (m div 2, e + 1) else (m, e))
        in if m' = 0 then FFin neg 0 0 else if exp_max f < e' then FInf neg else FFin neg m' e')"

definition float_of_int :: "float_format \<Rightarrow> int \<Rightarrow> float" where
  "float_of_int f i = round_ratio f (i < 0) (nat \<bar>i\<bar>) 1"

section \<open>Comparison\<close>

definition signed_mantissa :: "bool \<Rightarrow> nat \<Rightarrow> int" where
  "signed_mantissa neg m = (if neg then - int m else int m)"

text \<open>The IEEE order: a comparison with NaN is false, and the two zeros are equal.\<close>

fun float_le :: "float \<Rightarrow> float \<Rightarrow> bool" where
  "float_le FNaN y = False"
| "float_le x FNaN = False"
| "float_le (FInf n) y = (n \<or> y = FInf False)"
| "float_le x (FInf n) = (\<not> n)"
| "float_le (FFin n1 m1 e1) (FFin n2 m2 e2) =
     (let e = min e1 e2
      in signed_mantissa n1 m1 * 2 ^ nat (e1 - e) \<le> signed_mantissa n2 m2 * 2 ^ nat (e2 - e))"

definition float_lt :: "float \<Rightarrow> float \<Rightarrow> bool" where
  "float_lt x y = (float_le x y \<and> \<not> float_le y x)"

fun float_finite :: "float \<Rightarrow> bool" where
  "float_finite (FFin n m e) = True"
| "float_finite _ = False"

text \<open>\<open>math.Trunc(v) == v\<close> for a finite value: no bit of the value is below the point.\<close>

fun float_is_integer :: "float \<Rightarrow> bool" where
  "float_is_integer (FFin n m e) = (0 \<le> e \<or> m mod 2 ^ nat (- e) = 0)"
| "float_is_integer _ = False"

text \<open>
  \<open>int(v)\<close> truncates towards zero. For NaN, an infinity or a value outside the 64-bit range Go
  leaves the result to the implementation; amd64 gives the least integer, and so does the model.
\<close>

fun float_to_int :: "float \<Rightarrow> int" where
  "float_to_int (FFin n m e) =
     (let a = (if 0 \<le> e then m * 2 ^ nat e else m div 2 ^ nat (- e)); i = signed_mantissa n a
      in if - (2 ^ 63) \<le> i \<and> i < 2 ^ 63 then i else - (2 ^ 63))"
| "float_to_int _ = - (2 ^ 63)"

section \<open>Reading decimal text\<close>

text \<open>
  \<open>strconv.ParseFloat\<close> on the texts the program gives it: JSON numbers and texts that match
  \<open>numberPattern\<close>. The flag is \<open>err == nil\<close>; a magnitude out of range is an error.
\<close>

definition scale_decimal :: "float_format \<Rightarrow> bool \<Rightarrow> nat \<Rightarrow> int \<Rightarrow> float" where
  "scale_decimal f neg n k =
     (if 0 \<le> k then round_ratio f neg (n * 10 ^ nat k) 1 else round_ratio f neg n (10 ^ nat (- k)))"

definition span_digits :: "string \<Rightarrow> string \<times> string" where
  "span_digits s = (takeWhile is_digit s, dropWhile is_digit s)"

definition parse_exponent :: "string \<Rightarrow> int option" where
  "parse_exponent s =
     (case s of [] \<Rightarrow> Some 0
      | c # cs \<Rightarrow>
          if c = CHR ''e'' \<or> c = CHR ''E'' then
            (let (neg, ds) = (case cs of d # r \<Rightarrow> (if d = CHR ''-'' then (True, r)
                               else if d = CHR ''+'' then (False, r) else (False, cs))
                             | [] \<Rightarrow> (False, cs))
             in if ds = [] \<or> \<not> list_all is_digit ds then None
                else Some (if neg then - int (digits_nat ds) else int (digits_nat ds)))
          else None)"

definition parse_float :: "string \<Rightarrow> float \<times> bool" where
  "parse_float s =
     (let (neg, body) = (case s of c # cs \<Rightarrow> (if c = CHR ''-'' then (True, cs) else (False, s))
                         | [] \<Rightarrow> (False, s));
          (ip, rest) = span_digits body;
          (fp, rest') = (case rest of c # cs \<Rightarrow> (if c = CHR ''.'' then span_digits cs else ([], rest))
                         | [] \<Rightarrow> ([], []))
      in if ip = [] \<and> fp = [] then (FFin False 0 0, False)
         else case parse_exponent rest' of
             None \<Rightarrow> (FFin False 0 0, False)
           | Some x \<Rightarrow>
               let v = scale_decimal format64 neg (digits_nat (ip @ fp)) (x - int (length fp))
               in (v, float_finite v))"

section \<open>Shortest decimal text\<close>

text \<open>
  The value of \<open>m * 2 ^ e\<close> with \<open>n\<close> decimal digits: the digits as a number and the exponent of
  the last digit. Both neighbours on the \<open>n\<close>-digit grid are tried; the nearer one that reads back
  as the value is taken.
\<close>

definition float_ratio :: "nat \<Rightarrow> int \<Rightarrow> nat \<times> nat" where
  "float_ratio m e = (m * 2 ^ nat e, 2 ^ nat (- e))"

text \<open>The decimal exponent \<open>d\<close> with \<open>10 ^ (d - 1) \<le> p / q < 10 ^ d\<close>.\<close>

definition dec_ge :: "nat \<Rightarrow> nat \<Rightarrow> int \<Rightarrow> bool" where
  "dec_ge p q k = (q * 10 ^ nat k \<le> p * 10 ^ nat (- k))"

fun dec_point :: "nat \<Rightarrow> nat \<Rightarrow> nat \<Rightarrow> int \<Rightarrow> int" where
  "dec_point 0 p q k = k"
| "dec_point (Suc fuel) p q k = (if dec_ge p q k then dec_point fuel p q (k + 1) else k)"

text \<open>
  The search starts from an estimate by the bit lengths: \<open>p / q\<close> is at least
  \<open>2 ^ (bit_length p - bit_length q - 1)\<close> and below four times that, so four steps suffice.
\<close>

definition decimal_point :: "nat \<Rightarrow> nat \<Rightarrow> int" where
  "decimal_point p q =
     dec_point 8 p q ((int (bit_length p) - int (bit_length q) - 1) * 30103 div 100000 - 1)"

definition candidate :: "float_format \<Rightarrow> nat \<Rightarrow> int \<Rightarrow> nat \<Rightarrow> int \<Rightarrow> (nat \<times> int) option" where
  "candidate f m e n dp =
     (let (p, q) = float_ratio m e;
          k = dp - int n;
          num = p * 10 ^ nat (- k); den = q * 10 ^ nat k;
          lo = num div den; hi = Suc lo; r = num mod den;
          v = FFin False m e;
          ok = (\<lambda>d. scale_decimal f False d k = v)
      in if ok lo \<and> (\<not> ok hi \<or> 2 * r < den \<or> (2 * r = den \<and> even lo)) then Some (lo, k)
         else if ok hi then Some (hi, k) else None)"

fun shortest :: "float_format \<Rightarrow> nat \<Rightarrow> int \<Rightarrow> int \<Rightarrow> nat \<Rightarrow> nat \<Rightarrow> nat \<times> int" where
  "shortest f m e dp n 0 = (m, e)"
| "shortest f m e dp n (Suc fuel) =
     (case candidate f m e n dp of Some r \<Rightarrow> r | None \<Rightarrow> shortest f m e dp (Suc n) fuel)"

definition strip_zeros :: "string \<Rightarrow> string" where
  "strip_zeros s = rev (dropWhile (\<lambda>c. c = CHR ''0'') (rev s))"

text \<open>
  The \<open>%v\<close> verb: the exponent form when the decimal exponent is below -4 or at least 6, the
  threshold \<open>strconv\<close> uses for the shortest text, and plain digits otherwise.
\<close>

definition float_digits :: "float_format \<Rightarrow> nat \<Rightarrow> int \<Rightarrow> string \<times> int" where
  "float_digits f m e =
     (let (p, q) = float_ratio m e; dp = decimal_point p q; (d, k) = shortest f m e dp 1 17;
          ds = dec_nat d
      in (strip_zeros ds, int (length ds) + k))"

definition exponent_text :: "int \<Rightarrow> string" where
  "exponent_text x =
     (if x < 0 then ''-'' else ''+'') @ (if \<bar>x\<bar> < 10 then ''0'' else []) @ dec_nat (nat \<bar>x\<bar>)"

definition plain_text :: "string \<Rightarrow> int \<Rightarrow> string" where
  "plain_text ds dp =
     (if dp \<le> 0 then ''0.'' @ replicate (nat (- dp)) (CHR ''0'') @ ds
      else if int (length ds) \<le> dp then ds @ replicate (nat dp - length ds) (CHR ''0'')
      else take (nat dp) ds @ ''.'' @ drop (nat dp) ds)"

fun sprint_float :: "float_format \<Rightarrow> float \<Rightarrow> string" where
  "sprint_float f FNaN = ''NaN''"
| "sprint_float f (FInf n) = (if n then ''-Inf'' else ''+Inf'')"
| "sprint_float f (FFin n m e) =
     (if n then ''-'' else []) @
     (if m = 0 then ''0''
      else let (ds, dp) = float_digits f m e; x = dp - 1 in
        if x < -4 \<or> 6 \<le> x
        then take 1 ds @ (if length ds = 1 then [] else ''.'' @ drop 1 ds) @ ''e'' @ exponent_text x
        else plain_text ds dp)"

end
