(* ===== verification/GoValue.thy ===== *)
theory GoValue
  imports GoFloat
begin

text \<open>
  Go's dynamic values: what an \<open>any\<close> holds when it comes out of a JSON document, a node
  configuration or a parser of the program. The constructors keep the dynamic types apart that
  the program's type switches tell apart: \<open>VStr\<close> is a \<open>string\<close>, \<open>VNamed\<close> a value of a named
  string type such as \<open>domain.ID\<close>, \<open>VNumber\<close> a \<open>json.Number\<close>, \<open>VInt\<close> an integer of a given
  kind, \<open>VStrs\<close> a \<open>[]string\<close>, \<open>VArr\<close> a \<open>[]any\<close> and \<open>VObj\<close> a \<open>map[string]any\<close>, an association
  list whose order stands for the iteration order. Text is taken to be valid UTF-8, as
  everything decoded from JSON is.
\<close>

datatype ikind = KInt | KInt8 | KInt16 | KInt32 | KInt64 | KUint | KUint8 | KUint16 | KUint32
  | KUint64

datatype gval = VNil | VBool bool | VStr string | VNamed string | VNumber string
  | VInt ikind int | VFloat float | VFloat32 float | VStrs "string list" | VArr "gval list"
  | VObj "(string \<times> gval) list"

type_synonym gobj = "(string \<times> gval) list"

lemma size_field [termination_simp]:
  "(k, v) \<in> set kvs \<Longrightarrow> size v < Suc (size_list (size_prod (\<lambda>_. 0) size) kvs)"
  by (induction kvs) auto

lemma size_field_snd [termination_simp]:
  "kv \<in> set kvs \<Longrightarrow> size (snd kv) < Suc (size_list (size_prod (\<lambda>_. 0) size) kvs)"
  by (cases kv) (simp add: size_field)

text \<open>Induction over a value: what holds of the members of an array or object lifts to it.\<close>

lemma gval_induct [case_names atom arr obj]:
  assumes "\<And>v. (\<forall>vs. v \<noteq> VArr vs) \<Longrightarrow> (\<forall>m. v \<noteq> VObj m) \<Longrightarrow> P v"
    and "\<And>vs. (\<And>v. v \<in> set vs \<Longrightarrow> P v) \<Longrightarrow> P (VArr vs)"
    and "\<And>m. (\<And>k v. (k, v) \<in> set m \<Longrightarrow> P v) \<Longrightarrow> P (VObj m)"
  shows "P v"
proof (induction "size v" arbitrary: v rule: less_induct)
  case less
  show ?case
  proof (cases v)
    case (VArr vs)
    then show ?thesis using less assms(2) [of vs] by (simp add: size_list_estimation')
      (metis less_Suc_eq_le order_refl size_list_estimation')
  next
    case (VObj m)
    then show ?thesis using less assms(3) [of m] size_field by fastforce
  qed (use assms(1) in auto)
qed

section \<open>Objects\<close>

text \<open>\<open>m[k]\<close>: a missing key reads as nil.\<close>

definition obj_get :: "gobj \<Rightarrow> string \<Rightarrow> gval" where
  "obj_get m k = (case map_of m k of None \<Rightarrow> VNil | Some v \<Rightarrow> v)"

abbreviation obj_set :: "gobj \<Rightarrow> string \<Rightarrow> gval \<Rightarrow> gobj" where
  "obj_set m k v \<equiv> AList.update k v m"

text \<open>The type assertion \<open>v.(map[string]any)\<close>, and the same with its zero value \<open>{}\<close>.\<close>

fun as_obj :: "gval \<Rightarrow> gobj option" where
  "as_obj (VObj m) = Some m"
| "as_obj _ = None"

fun as_str :: "gval \<Rightarrow> string option" where
  "as_str (VStr s) = Some s"
| "as_str _ = None"

fun as_arr :: "gval \<Rightarrow> gval list option" where
  "as_arr (VArr vs) = Some vs"
| "as_arr _ = None"

fun as_bool :: "gval \<Rightarrow> bool option" where
  "as_bool (VBool b) = Some b"
| "as_bool _ = None"

lemma as_obj_Some [simp]: "as_obj v = Some m \<longleftrightarrow> v = VObj m"
  by (cases v) auto

lemma as_str_Some [simp]: "as_str v = Some s \<longleftrightarrow> v = VStr s"
  by (cases v) auto

lemma as_arr_Some [simp]: "as_arr v = Some vs \<longleftrightarrow> v = VArr vs"
  by (cases v) auto

lemma as_bool_Some [simp]: "as_bool v = Some b \<longleftrightarrow> v = VBool b"
  by (cases v) auto

lemma obj_get_update [simp]:
  "obj_get (AList.update k v m) k' = (if k' = k then v else obj_get m k')"
  by (simp add: obj_get_def)

lemma obj_get_Nil [simp]: "obj_get [] k = VNil"
  by (simp add: obj_get_def)

lemma obj_get_Cons [simp]: "obj_get ((k', v) # m) k = (if k' = k then v else obj_get m k)"
  by (auto simp: obj_get_def)

lemma obj_get_missing: "\<not> has_key m k \<Longrightarrow> obj_get m k = VNil"
  by (force simp: obj_get_def dest: map_of_SomeD split: option.split)

text \<open>A Go map has one value per key, at every depth.\<close>

fun wf_val :: "gval \<Rightarrow> bool" where
  "wf_val (VArr vs) = list_all wf_val vs"
| "wf_val (VObj m) = (distinct (map fst m) \<and> list_all (\<lambda>kv. wf_val (snd kv)) m)"
| "wf_val _ = True"

section \<open>Text of a value\<close>

definition join_space :: "string list \<Rightarrow> string" where
  "join_space ws =
     (case ws of [] \<Rightarrow> [] | w # rest \<Rightarrow> w @ concat (map (\<lambda>x. CHR '' '' # x) rest))"

text \<open>\<open>fmt.Sprint\<close>: maps print in key order, named strings and \<open>json.Number\<close> as their text.\<close>

fun sprint :: "gval \<Rightarrow> string" where
  "sprint VNil = ''<nil>''"
| "sprint (VBool b) = (if b then ''true'' else ''false'')"
| "sprint (VStr s) = s"
| "sprint (VNamed s) = s"
| "sprint (VNumber s) = s"
| "sprint (VInt k i) = dec_int i"
| "sprint (VFloat f) = sprint_float format64 f"
| "sprint (VFloat32 f) = sprint_float format32 f"
| "sprint (VStrs ss) = ''['' @ join_space ss @ '']''"
| "sprint (VArr vs) = ''['' @ join_space (map sprint vs) @ '']''"
| "sprint (VObj m) =
     ''map['' @ join_space (map (\<lambda>(k, t). k @ '':'' @ t)
       (sort_key fst (map (\<lambda>kv. (fst kv, sprint (snd kv))) m))) @ '']''"

section \<open>JSON\<close>

text \<open>
  \<open>json.Marshal\<close>. The document is a value again: object members in key order, and a number as
  the \<open>float64\<close> its text reads as (a \<open>json.Number\<close> keeps its text, which may be out of range).
  \<open>None\<close> is an error: NaN, an infinity, or a \<open>json.Number\<close> that is no JSON number.
\<close>

definition json_number_text :: "string \<Rightarrow> bool" where
  "json_number_text s =
     (let body = (case s of c # cs \<Rightarrow> (if c = CHR ''-'' then cs else s) | [] \<Rightarrow> []);
          (ip, rest) = span_digits body
      in ip \<noteq> [] \<and> (hd ip = CHR ''0'' \<longrightarrow> length ip = 1) \<and>
         (case rest of [] \<Rightarrow> True
          | c # cs \<Rightarrow> (if c = CHR ''.''
                       then fst (span_digits cs) \<noteq> [] \<and> parse_exponent (snd (span_digits cs)) \<noteq> None
                       else parse_exponent rest \<noteq> None)))"

fun json_marshal :: "gval \<Rightarrow> gval option" where
  "json_marshal VNil = Some VNil"
| "json_marshal (VBool b) = Some (VBool b)"
| "json_marshal (VStr s) = Some (VStr s)"
| "json_marshal (VNamed s) = Some (VStr s)"
| "json_marshal (VNumber s) =
     (if s = [] then Some (VNumber ''0'') else if json_number_text s then Some (VNumber s) else None)"
| "json_marshal (VInt k i) = Some (VFloat (float_of_int format64 i))"
| "json_marshal (VFloat f) = (if float_finite f then Some (VFloat f) else None)"
| "json_marshal (VFloat32 f) =
     (if float_finite f then Some (VFloat (fst (parse_float (sprint_float format32 f)))) else None)"
| "json_marshal (VStrs ss) = Some (VArr (map VStr ss))"
| "json_marshal (VArr vs) = map_option VArr (those (map json_marshal vs))"
| "json_marshal (VObj m) =
     map_option (\<lambda>vs. VObj (sort_key fst (zip (map fst m) vs)))
       (those (map (\<lambda>kv. json_marshal (snd kv)) m))"

text \<open>\<open>json.Unmarshal\<close> of a document into an \<open>any\<close>: every number becomes a \<open>float64\<close>.\<close>

fun json_unmarshal :: "gval \<Rightarrow> gval option" where
  "json_unmarshal (VNumber s) =
     (let (f, ok) = parse_float s in if ok then Some (VFloat f) else None)"
| "json_unmarshal (VArr vs) = map_option VArr (those (map json_unmarshal vs))"
| "json_unmarshal (VObj m) =
     map_option (\<lambda>vs. VObj (zip (map fst m) vs)) (those (map (\<lambda>kv. json_unmarshal (snd kv)) m))"
| "json_unmarshal v = Some v"

definition json_clone :: "gval \<Rightarrow> gval option" where
  "json_clone v = Option.bind (json_marshal v) json_unmarshal"

end
