(* ===== verification/Domain.thy ===== *)
theory Domain
  imports GoValue
begin

text \<open>
  Package \<open>internal/domain\<close>: sentinel errors, identifiers, the string enumerations, the flow
  graph document and the entities the other components store, with the \<open>Validate\<close> methods. An
  enumeration is a named Go string that may hold any text, so each is a \<^typ>\<open>string\<close>
  with its constants. An instant is a number of nanoseconds; a pointer or a map whose nil differs
  from its zero value is an option.
\<close>

section \<open>Errors\<close>

text \<open>
  An error either wraps a sentinel, \<open>fmt.Errorf("%w: text", sentinel)\<close>, or is plain text;
  \<open>err_is\<close> is \<open>errors.Is\<close> and \<open>err_text\<close> the \<open>Error\<close> method.
\<close>

datatype sentinel = ErrInvalid | ErrNotFound | ErrConflict | ErrImmutable | ErrForbidden

datatype gerr = GErr sentinel string | Plain string

fun sentinel_text :: "sentinel \<Rightarrow> string" where
  "sentinel_text ErrInvalid = ''invalid domain value''"
| "sentinel_text ErrNotFound = ''domain object not found''"
| "sentinel_text ErrConflict = ''domain conflict''"
| "sentinel_text ErrImmutable = ''domain object is immutable''"
| "sentinel_text ErrForbidden = ''domain operation forbidden''"

fun err_text :: "gerr \<Rightarrow> string" where
  "err_text (GErr s t) = sentinel_text s @ '': '' @ t"
| "err_text (Plain t) = t"

fun err_is :: "gerr \<Rightarrow> sentinel \<Rightarrow> bool" where
  "err_is (GErr s t) s' = (s = s')"
| "err_is (Plain t) s' = False"

abbreviation fail :: "sentinel \<Rightarrow> string \<Rightarrow> gerr + 'a" where
  "fail s t \<equiv> Inl (GErr s t)"

section \<open>Identifiers and instants\<close>

type_synonym ID = string
type_synonym gtime = int

definition requireID :: "string \<Rightarrow> ID \<Rightarrow> gerr + unit" where
  "requireID name i = (if i = [] then fail ErrInvalid (name @ '' is required'') else Inr ())"

definition requireWorkspaceID :: "ID \<Rightarrow> gerr + unit" where
  "requireWorkspaceID w = requireID ''workspace_id'' w"

lemma requireID_Inr [err_simps]: "requireID name i = Inr u \<longleftrightarrow> i \<noteq> []"
  by (simp add: requireID_def)

lemma requireWorkspaceID_Inr [err_simps]: "requireWorkspaceID w = Inr u \<longleftrightarrow> w \<noteq> []"
  by (simp add: requireWorkspaceID_def err_simps)

section \<open>Enumerations\<close>

abbreviation NodeConnector :: string where "NodeConnector \<equiv> ''connector''"
abbreviation NodeGeneric :: string where "NodeGeneric \<equiv> ''generic''"
abbreviation NodeTerminal :: string where "NodeTerminal \<equiv> ''terminal''"

abbreviation PortInput :: string where "PortInput \<equiv> ''input''"
abbreviation PortOutput :: string where "PortOutput \<equiv> ''output''"

abbreviation BindingFixed :: string where "BindingFixed \<equiv> ''fixed''"
abbreviation BindingConnectionRef :: string where "BindingConnectionRef \<equiv> ''connection_ref''"
abbreviation BindingResourceRef :: string where "BindingResourceRef \<equiv> ''resource_ref''"
abbreviation BindingSecretRef :: string where "BindingSecretRef \<equiv> ''secret_ref''"
abbreviation BindingRuntimeRef :: string where "BindingRuntimeRef \<equiv> ''runtime_ref''"

abbreviation DirectionInput :: string where "DirectionInput \<equiv> ''input''"
abbreviation DirectionOutput :: string where "DirectionOutput \<equiv> ''output''"

abbreviation DefinitionDraft :: string where "DefinitionDraft \<equiv> ''draft''"
abbreviation DefinitionPublished :: string where "DefinitionPublished \<equiv> ''published''"
abbreviation DefinitionDeprecated :: string where "DefinitionDeprecated \<equiv> ''deprecated''"
abbreviation DefinitionDisabled :: string where "DefinitionDisabled \<equiv> ''disabled''"

abbreviation FlowDraft :: string where "FlowDraft \<equiv> ''draft''"
abbreviation FlowPublished :: string where "FlowPublished \<equiv> ''published''"
abbreviation FlowPaused :: string where "FlowPaused \<equiv> ''paused''"
abbreviation FlowArchived :: string where "FlowArchived \<equiv> ''archived''"

abbreviation RoleAdmin :: string where "RoleAdmin \<equiv> ''admin''"
abbreviation RoleOperator :: string where "RoleOperator \<equiv> ''operator''"
abbreviation RoleViewer :: string where "RoleViewer \<equiv> ''viewer''"

abbreviation ExecutionQueued :: string where "ExecutionQueued \<equiv> ''queued''"
abbreviation ExecutionRunning :: string where "ExecutionRunning \<equiv> ''running''"
abbreviation ExecutionSucceeded :: string where "ExecutionSucceeded \<equiv> ''succeeded''"
abbreviation ExecutionFailed :: string where "ExecutionFailed \<equiv> ''failed''"
abbreviation ExecutionSkipped :: string where "ExecutionSkipped \<equiv> ''skipped''"
abbreviation ExecutionIndeterminate :: string where "ExecutionIndeterminate \<equiv> ''indeterminate''"
abbreviation ExecutionReconciliationNeeded :: string where
  "ExecutionReconciliationNeeded \<equiv> ''reconciliation-required''"

abbreviation ExecutionAttentionNone :: string where "ExecutionAttentionNone \<equiv> ''none''"
abbreviation ExecutionAttentionOpen :: string where "ExecutionAttentionOpen \<equiv> ''open''"
abbreviation ExecutionAttentionAcknowledged :: string where
  "ExecutionAttentionAcknowledged \<equiv> ''acknowledged''"

abbreviation ProjectionActive :: string where "ProjectionActive \<equiv> ''active''"
abbreviation ProjectionDone :: string where "ProjectionDone \<equiv> ''done''"
abbreviation ProjectionCancelled :: string where "ProjectionCancelled \<equiv> ''cancelled''"

definition IsActionableExecutionStatus :: "string \<Rightarrow> bool" where
  "IsActionableExecutionStatus status =
     (status = ExecutionFailed \<or> status = ExecutionIndeterminate \<or>
      status = ExecutionReconciliationNeeded)"

section \<open>The flow graph\<close>

record port =
  port_id :: string
  port_name :: string
  port_direction :: string
  port_model :: string
  port_roles :: "string list"
  port_required :: bool

record binding =
  bind_kind :: string
  bind_value :: gval
  bind_ref :: string

type_synonym bindings = "(string, binding) gomap"

record connector_node =
  conn_behavior_key :: string
  conn_behavior_version :: string
  conn_bindings :: bindings

record generic_node =
  gen_type :: string
  gen_bindings :: bindings

record node_position =
  pos_x :: float
  pos_y :: float

record flow_node =
  node_id :: ID
  node_kind :: string
  node_name :: string
  node_position :: node_position
  node_inputs :: "port list"
  node_outputs :: "port list"
  node_connector :: "connector_node option"
  node_generic :: "generic_node option"
  node_config :: "gobj option"

record flow_edge =
  edge_id :: string
  edge_from :: ID
  edge_from_port :: string
  edge_to :: ID
  edge_to_port :: string

record flow_terminal =
  term_id :: string
  term_kind :: string
  term_reason :: string

record flow_graph =
  graph_nodes :: "flow_node list"
  graph_edges :: "flow_edge list"
  graph_terminals :: "flow_terminal list"

abbreviation graph_ids :: "flow_graph \<Rightarrow> ID list" where
  "graph_ids g \<equiv> map node_id (graph_nodes g)"

text \<open>The ports a node declares, inputs first: \<open>append(node.Inputs..., node.Outputs...)\<close>.\<close>

definition node_ports :: "flow_node \<Rightarrow> port list" where
  "node_ports n = node_inputs n @ node_outputs n"

subsection \<open>ValidateShape\<close>

fun check_ports :: "ID \<Rightarrow> string list \<Rightarrow> port list \<Rightarrow> gerr + unit" where
  "check_ports nid seen [] = Inr ()"
| "check_ports nid seen (p # ps) =
     (if blank (port_id p) then fail ErrInvalid (''node '' @ nid @ '' has port without id'')
      else if port_id p \<in> set seen
      then fail ErrInvalid (''duplicate port '' @ port_id p @ '' on node '' @ nid)
      else check_ports nid (port_id p # seen) ps)"

definition check_kind :: "flow_node \<Rightarrow> gerr + unit" where
  "check_kind n =
     (if node_kind n = NodeConnector then
        (case node_connector n of
           None \<Rightarrow> fail ErrInvalid (''connector node '' @ node_id n @ '' needs behavior key and version'')
         | Some c \<Rightarrow>
             if blank (conn_behavior_key c) \<or> blank (conn_behavior_version c)
             then fail ErrInvalid (''connector node '' @ node_id n @ '' needs behavior key and version'')
             else Inr ())
      else if node_kind n = NodeGeneric then
        (case node_generic n of
           None \<Rightarrow> fail ErrInvalid (''generic node '' @ node_id n @ '' needs type'')
         | Some c \<Rightarrow>
             if blank (gen_type c) then fail ErrInvalid (''generic node '' @ node_id n @ '' needs type'')
             else Inr ())
      else if node_kind n = NodeTerminal then Inr ()
      else fail ErrInvalid (''unsupported node kind '' @ go_quote (node_kind n)))"

fun check_nodes :: "ID list \<Rightarrow> flow_node list \<Rightarrow> gerr + unit" where
  "check_nodes seen [] = Inr ()"
| "check_nodes seen (n # ns) =
     bind_result (requireID ''node.id'' (node_id n)) (\<lambda>_.
       if node_id n \<in> set seen then fail ErrInvalid (''duplicate node '' @ node_id n)
       else bind_result (check_kind n) (\<lambda>_.
         bind_result (check_ports (node_id n) [] (node_ports n)) (\<lambda>_.
           check_nodes (node_id n # seen) ns)))"

fun check_edges :: "ID set \<Rightarrow> string list \<Rightarrow> flow_edge list \<Rightarrow> gerr + unit" where
  "check_edges ids seen [] = Inr ()"
| "check_edges ids seen (e # es) =
     (if blank (edge_id e) then fail ErrInvalid ''edge id is required''
      else if edge_id e \<in> set seen then fail ErrInvalid (''duplicate edge '' @ edge_id e)
      else if edge_from e \<notin> ids then fail ErrInvalid (''edge '' @ edge_id e @ '' source node missing'')
      else if edge_to e \<notin> ids then fail ErrInvalid (''edge '' @ edge_id e @ '' target node missing'')
      else if edge_from e = edge_to e then fail ErrInvalid (''self edge '' @ edge_id e)
      else check_edges ids (edge_id e # seen) es)"

definition ValidateShape :: "flow_graph \<Rightarrow> gerr + unit" where
  "ValidateShape g =
     bind_result (check_nodes [] (graph_nodes g)) (\<lambda>_.
       check_edges (set (graph_ids g)) [] (graph_edges g))"

text \<open>
  What \<open>ValidateShape\<close> promises of a graph it accepts: node identifiers are present and
  distinct, a node carries the configuration its kind needs, port identifiers are present and
  distinct within their node, edge identifiers are present and distinct, and an edge joins two
  different nodes of the graph.
\<close>

definition kind_ok :: "flow_node \<Rightarrow> bool" where
  "kind_ok n =
     (node_kind n = NodeConnector \<and>
        (\<exists>c. node_connector n = Some c \<and> \<not> blank (conn_behavior_key c) \<and>
              \<not> blank (conn_behavior_version c)) \<or>
      node_kind n = NodeGeneric \<and> (\<exists>c. node_generic n = Some c \<and> \<not> blank (gen_type c)) \<or>
      node_kind n = NodeTerminal)"

definition ports_ok :: "port list \<Rightarrow> bool" where
  "ports_ok ps = (distinct (map port_id ps) \<and> (\<forall>p \<in> set ps. \<not> blank (port_id p)))"

definition edge_ok :: "ID set \<Rightarrow> flow_edge \<Rightarrow> bool" where
  "edge_ok ids e =
     (\<not> blank (edge_id e) \<and> edge_from e \<in> ids \<and> edge_to e \<in> ids \<and> edge_from e \<noteq> edge_to e)"

definition well_shaped :: "flow_graph \<Rightarrow> bool" where
  "well_shaped g =
     (distinct (graph_ids g) \<and> [] \<notin> set (graph_ids g) \<and>
      (\<forall>n \<in> set (graph_nodes g). kind_ok n \<and> ports_ok (node_ports n)) \<and>
      distinct (map edge_id (graph_edges g)) \<and>
      (\<forall>e \<in> set (graph_edges g). edge_ok (set (graph_ids g)) e))"

lemma check_ports_iff:
  "check_ports nid seen ps = Inr () \<longleftrightarrow> ports_ok ps \<and> set (map port_id ps) \<inter> set seen = {}"
  by (induction nid seen ps rule: check_ports.induct) (auto simp: ports_ok_def)

lemma check_kind_iff: "check_kind n = Inr () \<longleftrightarrow> kind_ok n"
  by (auto simp: check_kind_def kind_ok_def split: option.splits)

lemma check_nodes_iff:
  "check_nodes seen ns = Inr () \<longleftrightarrow>
     distinct (map node_id ns) \<and> [] \<notin> set (map node_id ns) \<and>
     set (map node_id ns) \<inter> set seen = {} \<and>
     (\<forall>n \<in> set ns. kind_ok n \<and> ports_ok (node_ports n))"
proof (induction seen ns rule: check_nodes.induct)
  case (2 seen n ns)
  then show ?case by (auto simp: err_simps check_kind_iff check_ports_iff)
qed simp

lemma check_edges_iff:
  "check_edges ids seen es = Inr () \<longleftrightarrow>
     distinct (map edge_id es) \<and> set (map edge_id es) \<inter> set seen = {} \<and>
     (\<forall>e \<in> set es. edge_ok ids e)"
  by (induction ids seen es rule: check_edges.induct) (auto simp: edge_ok_def)

lemma shape_accepted: "ValidateShape g = Inr () \<longleftrightarrow> well_shaped g"
  by (auto simp: ValidateShape_def well_shaped_def err_simps check_nodes_iff check_edges_iff)

lemma check_ports_err: "check_ports nid seen ps = Inl e \<Longrightarrow> err_is e ErrInvalid"
  by (induction nid seen ps rule: check_ports.induct) (auto split: if_splits)

lemma check_kind_err: "check_kind n = Inl e \<Longrightarrow> err_is e ErrInvalid"
  by (auto simp: check_kind_def split: option.splits if_splits)

lemma check_nodes_err: "check_nodes seen ns = Inl e \<Longrightarrow> err_is e ErrInvalid"
proof (induction seen ns rule: check_nodes.induct)
  case (2 seen n ns)
  then show ?case
    by (auto simp: err_simps requireID_def dest: check_kind_err check_ports_err split: if_splits)
qed simp

lemma check_edges_err: "check_edges ids seen es = Inl e \<Longrightarrow> err_is e ErrInvalid"
  by (induction ids seen es rule: check_edges.induct) (auto split: if_splits)

text \<open>
  The shape check of a graph document, with its early returns and its maps of seen
  identifiers, returns no error exactly on the graphs of \<open>well_shaped\<close>; and whatever it rejects
  it rejects with \<open>ErrInvalid\<close>, which the HTTP layer maps to a client error.
\<close>

theorem ValidateShape_correct:
  "case ValidateShape g of Inr _ \<Rightarrow> well_shaped g
   | Inl e \<Rightarrow> err_is e ErrInvalid \<and> \<not> well_shaped g"
proof (cases "ValidateShape g")
  case (Inl e)
  then have "\<not> well_shaped g" using shape_accepted [of g] by simp
  moreover from Inl have "err_is e ErrInvalid"
    by (auto simp: ValidateShape_def err_simps dest: check_nodes_err check_edges_err)
  ultimately show ?thesis using Inl by simp
next
  case (Inr u)
  then show ?thesis using shape_accepted [of g] by simp
qed

section \<open>Entities\<close>

record secret_ref =
  secret_id :: ID
  secret_workspace :: ID
  secret_alias :: string
  secret_kind :: string

record workspace =
  ws_id :: ID
  ws_slug :: string
  ws_name :: string
  ws_status :: string
  ws_created :: gtime
  ws_updated :: gtime

record role_binding =
  rb_id :: ID
  rb_workspace :: ID
  rb_membership :: ID
  rb_role :: string
  rb_scope_type :: string
  rb_scope_id :: ID

record project_ref =
  proj_instance :: ID
  proj_external :: string
  proj_group :: string
  proj_full_path :: string
  proj_name :: string
  proj_web_url :: string
  proj_ssh_url :: string
  proj_https_url :: string

record connection =
  cn_id :: ID
  cn_workspace :: ID
  cn_name :: string
  cn_source :: project_ref
  cn_target :: project_ref
  cn_status :: string
  cn_configured :: gtime
  cn_ready :: "gtime option"
  cn_disabled :: "gtime option"
  cn_created_by :: ID

record connector_type =
  ct_id :: ID
  ct_workspace :: ID
  ct_key :: string
  ct_version :: string
  ct_display_name :: string
  ct_provider :: string
  ct_status :: string
  ct_metadata :: "gobj option"

record behavior =
  bh_id :: ID
  bh_workspace :: ID
  bh_type_key :: string
  bh_type_version :: string
  bh_key :: string
  bh_version :: string
  bh_display_name :: string
  bh_direction :: string
  bh_parameter_schema :: "gobj option"
  bh_input_model :: string
  bh_output_model :: string
  bh_event_schema :: "gobj option"
  bh_capabilities :: "string list"
  bh_operation :: string
  bh_idempotency :: string
  bh_reconciliation :: string
  bh_status :: string

record data_model =
  dm_id :: ID
  dm_workspace :: ID
  dm_key :: string
  dm_version :: string
  dm_display_name :: string
  dm_description :: string
  dm_schema :: "gobj option"
  dm_required :: "string list"
  dm_roles :: "(string, string) gomap"
  dm_extensions :: bool
  dm_status :: string

definition SecretRef_Validate :: "secret_ref \<Rightarrow> gerr + unit" where
  "SecretRef_Validate r =
     bind_result (requireID ''id'' (secret_id r)) (\<lambda>_.
     bind_result (requireWorkspaceID (secret_workspace r)) (\<lambda>_.
       if blank (secret_alias r) then fail ErrInvalid ''secret alias is required''
       else if secret_kind r = [] then fail ErrInvalid ''secret kind is required''
       else Inr ()))"

definition Workspace_Validate :: "workspace \<Rightarrow> gerr + unit" where
  "Workspace_Validate w =
     bind_result (requireID ''id'' (ws_id w)) (\<lambda>_.
       if blank (ws_slug w) then fail ErrInvalid ''slug is required''
       else if blank (ws_name w) then fail ErrInvalid ''name is required''
       else if ws_status w = [] then fail ErrInvalid ''status is required''
       else Inr ())"

definition Connection_Validate :: "connection \<Rightarrow> gerr + unit" where
  "Connection_Validate c =
     bind_result (requireID ''id'' (cn_id c)) (\<lambda>_.
     bind_result (requireWorkspaceID (cn_workspace c)) (\<lambda>_.
     bind_result (requireID ''source_gitlab_project.instance_id'' (proj_instance (cn_source c))) (\<lambda>_.
       if blank (proj_external (cn_source c))
       then fail ErrInvalid ''source project external_id is required''
       else bind_result (requireID ''target_multica_project.instance_id'' (proj_instance (cn_target c)))
         (\<lambda>_. if blank (proj_external (cn_target c))
              then fail ErrInvalid ''target project external_id is required''
              else if cn_status c = [] then fail ErrInvalid ''connection status is required''
              else Inr ()))))"

end
