(* ===== verification/Tables.thy ===== *)
theory Tables
  imports Domain GoFloat
begin

text \<open>
  What the stores share of SQL: rows with unique keys, and instants written as text. A table is the
  list of its rows. A write that breaks a key or a reference fails with \<open>ErrConflict\<close>
  (\<open>constraintError\<close>, \<open>store/repository.go\<close>) and leaves the table as it was; of such an error the
  model keeps the name of the operation and not the driver's text. Any other failure of the
  database is not modelled: every operation runs to its end, in a transaction of its own.
\<close>

section \<open>Rows and keys\<close>

definition insert_row :: "string \<Rightarrow> ('r \<Rightarrow> 'r \<Rightarrow> bool) \<Rightarrow> 'r \<Rightarrow> 'r list \<Rightarrow> gerr + 'r list" where
  "insert_row operation clash new rows =
     (if list_ex (clash new) rows then fail ErrConflict operation else Inr (rows @ [new]))"

definition update_rows :: "('r \<Rightarrow> bool) \<Rightarrow> ('r \<Rightarrow> 'r) \<Rightarrow> 'r list \<Rightarrow> 'r list" where
  "update_rows P f rows = map (\<lambda>r. if P r then f r else r) rows"

definition require_row :: "string \<Rightarrow> bool \<Rightarrow> gerr + unit" where
  "require_row operation present = (if present then Inr () else fail ErrConflict operation)"

lemma insert_row_Inr [err_simps]:
  "insert_row operation clash new rows = Inr rows' \<longleftrightarrow>
     (\<forall>r \<in> set rows. \<not> clash new r) \<and> rows' = rows @ [new]"
  by (auto simp: insert_row_def list_ex_iff)

lemma insert_row_Inl: "insert_row operation clash new rows = Inl e \<Longrightarrow> err_is e ErrConflict"
  by (auto simp: insert_row_def split: if_splits)

lemma require_row_Inr [err_simps]: "require_row operation present = Inr u \<longleftrightarrow> present"
  by (simp add: require_row_def)

lemma require_row_Inl: "require_row operation present = Inl e \<Longrightarrow> err_is e ErrConflict"
  by (auto simp: require_row_def split: if_splits)

lemma find_append:
  "List.find P (xs @ ys) = (case List.find P xs of None \<Rightarrow> List.find P ys | Some x \<Rightarrow> Some x)"
  by (induction xs) auto

lemma find_snoc_other [simp]: "\<not> P x \<Longrightarrow> List.find P (xs @ [x]) = List.find P xs"
  by (simp add: find_append split: option.split)

lemma set_update_rows:
  "set (update_rows P f rows) = {r \<in> set rows. \<not> P r} \<union> f ` {r \<in> set rows. P r}"
  by (auto simp: update_rows_def)

lemma update_rows_Nil [simp]: "update_rows P f [] = []"
  by (simp add: update_rows_def)

lemma update_rows_id: "(\<And>r. r \<in> set rows \<Longrightarrow> \<not> P r) \<Longrightarrow> update_rows P f rows = rows"
  unfolding update_rows_def by (rule map_idI) simp

lemma map_update_same: "(\<And>r. P r \<Longrightarrow> g (f r) = g r) \<Longrightarrow> map g (update_rows P f rows) = map g rows"
  by (simp add: update_rows_def)

lemma length_update_rows [simp]: "length (update_rows P f rows) = length rows"
  by (simp add: update_rows_def)

lemma find_update_other:
  "(\<And>r. P r \<Longrightarrow> \<not> Q r \<and> \<not> Q (f r)) \<Longrightarrow> List.find Q (update_rows P f rows) = List.find Q rows"
  by (induction rows) (auto simp: update_rows_def)

text \<open>A text that is blank is stored as NULL, and comes back empty.\<close>

definition nullString :: "string \<Rightarrow> string" where
  "nullString s = (if blank s then [] else s)"

text \<open>The column of a reference holds its identifier, or nothing.\<close>

definition id_ref :: "ID \<Rightarrow> secret_ref" where
  "id_ref i = \<lparr>secret_id = i, secret_workspace = [], secret_alias = [], secret_kind = []\<rparr>"

definition secretRefID :: "secret_ref option \<Rightarrow> secret_ref option" where
  "secretRefID ref =
     (case ref of None \<Rightarrow> None | Some r \<Rightarrow> if secret_id r = [] then None else Some (id_ref (secret_id r)))"

text \<open>A column, or several, whose values the table keeps distinct.\<close>

locale unique_key =
  fixes key :: "'r \<Rightarrow> 'k" and clash :: "'r \<Rightarrow> 'r \<Rightarrow> bool"
  assumes key_clash: "key a = key b \<Longrightarrow> clash a b"
begin

lemma insert_distinct:
  "insert_row operation clash new rows = Inr rows' \<Longrightarrow> distinct (map key rows) \<Longrightarrow>
     distinct (map key rows')"
  using key_clash by (force simp: err_simps)

lemma insert_find:
  "insert_row operation clash new rows = Inr rows' \<Longrightarrow>
     List.find (\<lambda>r. key r = k) rows' = (if k = key new then Some new else List.find (\<lambda>r. key r = k) rows)"
proof -
  assume "insert_row operation clash new rows = Inr rows'"
  then have rows': "rows' = rows @ [new]" and "\<forall>r \<in> set rows. key r \<noteq> key new"
    using key_clash by (auto simp: err_simps)
  then have "List.find (\<lambda>r. key r = key new) rows = None" by (auto simp: find_None_iff)
  then show ?thesis by (auto simp: rows' find_append split: option.split)
qed

lemma insert_existing:
  "r \<in> set rows \<Longrightarrow> key r = key new \<Longrightarrow> insert_row operation clash new rows = fail ErrConflict operation"
  using key_clash [of new r] by (auto simp: insert_row_def list_ex_iff)

lemma update_distinct:
  assumes "\<And>r. P r \<Longrightarrow> key (f r) = key r"
  shows "distinct (map key (update_rows P f rows)) \<longleftrightarrow> distinct (map key rows)"
proof -
  have "map key (update_rows P f rows) = map key rows"
    using assms by (simp add: update_rows_def)
  then show ?thesis by simp
qed

lemma update_find:
  assumes "\<And>r. P r \<Longrightarrow> key (f r) = key r"
  shows "List.find (\<lambda>r. key r = k) (update_rows P f rows) =
         map_option (\<lambda>r. if P r then f r else r) (List.find (\<lambda>r. key r = k) rows)"
  using assms by (induction rows) (auto simp: update_rows_def)

lemma find_unique:
  "distinct (map key rows) \<Longrightarrow> r \<in> set rows \<Longrightarrow> List.find (\<lambda>x. key x = key r) rows = Some r"
  by (induction rows) (auto simp: rev_image_eqI)

end

text \<open>Reading a computed result: what it returned, without computing it again.\<close>

lemma returned: "(case r of Inl e \<Rightarrow> False | Inr a \<Rightarrow> P a) \<Longrightarrow> \<exists>a. r = Inr a \<and> P a"
  by (cases r) auto

lemma returned_pair: "(case r of Inl e \<Rightarrow> False | Inr (a, b) \<Rightarrow> P a b) \<Longrightarrow> \<exists>a b. r = Inr (a, b) \<and> P a b"
  by (cases r) auto

section \<open>Instants\<close>

text \<open>
  An instant is a number of nanoseconds since the zero time of Go, in UTC. The database holds it as
  RFC 3339 text with the fraction of the second cut behind its last digit that is not zero, and
  SQL compares such texts character by character. For the years 0 to 9999 the date and time of day
  have a fixed width, so they compare like the number of seconds; \<open>stored_time\<close> is the pair of
  that number and of the text behind it.
\<close>

definition IsZero :: "gtime \<Rightarrow> bool" where
  "IsZero t \<longleftrightarrow> t = 0"

definition nanoseconds :: int where "nanoseconds = 1000000000"

definition fraction_text :: "nat \<Rightarrow> string" where
  "fraction_text n =
     (if n = 0 then ''Z''
      else CHR ''.'' # strip_zeros (drop 1 (dec_nat (1000000000 + n))) @ ''Z'')"

definition stored_time :: "gtime \<Rightarrow> int \<times> string" where
  "stored_time t = (t div nanoseconds, fraction_text (nat (t mod nanoseconds)))"

lemma stored_time_seconds: "t div nanoseconds < t' div nanoseconds \<Longrightarrow> stored_time t < stored_time t'"
  by (simp add: stored_time_def less_prod_def)

lemma stored_time_less_seconds: "stored_time t < stored_time t' \<Longrightarrow> t < t' + nanoseconds"
proof -
  assume "stored_time t < stored_time t'"
  then have "t div nanoseconds \<le> t' div nanoseconds" by (auto simp: stored_time_def less_prod_def)
  then have "nanoseconds * (t div nanoseconds) \<le> nanoseconds * (t' div nanoseconds)"
    by (simp add: nanoseconds_def)
  moreover have "t = nanoseconds * (t div nanoseconds) + t mod nanoseconds"
    "t' = nanoseconds * (t' div nanoseconds) + t' mod nanoseconds" by simp_all
  moreover have "t mod nanoseconds < nanoseconds" "0 \<le> t' mod nanoseconds"
    by (simp_all add: nanoseconds_def)
  ultimately show ?thesis by linarith
qed

end
