(* ===== verification/Accounts.thy ===== *)
theory Accounts
  imports Tables GoStrings
begin

text \<open>
  Accounts, memberships, roles and sessions: the tables of \<open>store/auth_repository.go\<close> and the local
  identity provider of \<open>auth/local.go\<close> over them. Hashing is not code of the repository:
  \<open>hash\<close> is the hash of a token, \<open>generate\<close> and \<open>matches\<close> are bcrypt's, and random tokens and fresh
  identifiers are arguments. An operation that fails returns no state, as its transaction is
  rolled back.
\<close>

section \<open>Tables\<close>

abbreviation WorkspaceActive :: string where "WorkspaceActive \<equiv> ''active''"
abbreviation AccountPending :: string where "AccountPending \<equiv> ''pending''"
abbreviation AccountActive :: string where "AccountActive \<equiv> ''active''"

record account =
  acc_id :: ID
  acc_email :: string
  acc_display :: string
  acc_status :: string
  acc_created :: gtime
  acc_updated :: gtime

record membership =
  wm_id :: ID
  wm_workspace :: ID
  wm_account :: ID
  wm_status :: string
  wm_created :: gtime

record session =
  ses_id :: ID
  ses_account :: ID
  ses_token_hash :: string
  ses_csrf_hash :: string
  ses_expires :: gtime
  ses_created :: gtime
  ses_revoked :: "gtime option"

record external_identity =
  ei_id :: ID
  ei_account :: ID
  ei_provider :: ID
  ei_subject :: string
  ei_email :: string
  ei_created :: gtime

record identity_provider =
  ip_id :: ID
  ip_workspace :: ID
  ip_kind :: string
  ip_name :: string
  ip_issuer :: string
  ip_client :: string
  ip_secret :: "secret_ref option"
  ip_enabled :: bool

record auth_db =
  db_workspaces :: "workspace list"
  db_accounts :: "account list"
  db_passwords :: "(ID \<times> string) list"
  db_memberships :: "membership list"
  db_bindings :: "role_binding list"
  db_sessions :: "session list"
  db_providers :: "identity_provider list"
  db_identities :: "external_identity list"

text \<open>The keys: when two rows may not stand in one table.\<close>

definition workspace_clash :: "workspace \<Rightarrow> workspace \<Rightarrow> bool" where
  "workspace_clash a b \<longleftrightarrow> ws_id a = ws_id b \<or> ws_slug a = ws_slug b"

definition account_clash :: "account \<Rightarrow> account \<Rightarrow> bool" where
  "account_clash a b \<longleftrightarrow> acc_id a = acc_id b \<or> acc_email a = acc_email b"

definition password_clash :: "ID \<times> string \<Rightarrow> ID \<times> string \<Rightarrow> bool" where
  "password_clash a b \<longleftrightarrow> fst a = fst b"

definition membership_clash :: "membership \<Rightarrow> membership \<Rightarrow> bool" where
  "membership_clash a b \<longleftrightarrow>
     wm_id a = wm_id b \<or> wm_workspace a = wm_workspace b \<and> wm_account a = wm_account b"

text \<open>An empty scope is stored as NULL, which no other value equals.\<close>

definition role_clash :: "role_binding \<Rightarrow> role_binding \<Rightarrow> bool" where
  "role_clash a b \<longleftrightarrow>
     rb_id a = rb_id b \<or>
     rb_workspace a = rb_workspace b \<and> rb_membership a = rb_membership b \<and> rb_role a = rb_role b \<and>
     rb_scope_type a = rb_scope_type b \<and> rb_scope_id a = rb_scope_id b \<and> rb_scope_id a \<noteq> []"

definition session_clash :: "session \<Rightarrow> session \<Rightarrow> bool" where
  "session_clash a b \<longleftrightarrow> ses_id a = ses_id b \<or> ses_token_hash a = ses_token_hash b"

definition provider_clash :: "identity_provider \<Rightarrow> identity_provider \<Rightarrow> bool" where
  "provider_clash a b \<longleftrightarrow> ip_id a = ip_id b \<or> ip_workspace a = ip_workspace b \<and> ip_name a = ip_name b"

definition identity_clash :: "external_identity \<Rightarrow> external_identity \<Rightarrow> bool" where
  "identity_clash a b \<longleftrightarrow>
     ei_id a = ei_id b \<or> ei_provider a = ei_provider b \<and> ei_subject a = ei_subject b"

interpretation account_by_id: unique_key acc_id account_clash
  by unfold_locales (simp add: account_clash_def)

interpretation account_by_email: unique_key acc_email account_clash
  by unfold_locales (simp add: account_clash_def)

interpretation workspace_by_slug: unique_key ws_slug workspace_clash
  by unfold_locales (simp add: workspace_clash_def)

interpretation password_by_account: unique_key fst password_clash
  by unfold_locales (simp add: password_clash_def)

interpretation session_by_token: unique_key ses_token_hash session_clash
  by unfold_locales (simp add: session_clash_def)

interpretation session_by_id: unique_key ses_id session_clash
  by unfold_locales (simp add: session_clash_def)

section \<open>The repository\<close>

definition requireAccount :: "account \<Rightarrow> gerr + unit" where
  "requireAccount a =
     (if acc_id a = [] then fail ErrInvalid ''account id is required''
      else if blank (acc_email a) then fail ErrInvalid ''account email is required''
      else if blank (acc_display a) then fail ErrInvalid ''account display_name is required''
      else if acc_status a = [] then fail ErrInvalid ''account status is required''
      else Inr ())"

definition workspace_defaults :: "gtime \<Rightarrow> workspace \<Rightarrow> workspace" where
  "workspace_defaults now w =
     (let w1 = (if ws_status w = [] then w\<lparr>ws_status := WorkspaceActive\<rparr> else w);
          w2 = (if IsZero (ws_created w1) then w1\<lparr>ws_created := now\<rparr> else w1)
      in if IsZero (ws_updated w2) then w2\<lparr>ws_updated := ws_created w2\<rparr> else w2)"

definition CreateWorkspace :: "gtime \<Rightarrow> workspace \<Rightarrow> auth_db \<Rightarrow> gerr + auth_db" where
  "CreateWorkspace now w0 db =
     (let w = workspace_defaults now w0
      in bind_result (Workspace_Validate w) (\<lambda>_.
         bind_result (insert_row ''create workspace'' workspace_clash w (db_workspaces db)) (\<lambda>rows.
           Inr (db\<lparr>db_workspaces := rows\<rparr>))))"

definition GetWorkspaceBySlug :: "string \<Rightarrow> auth_db \<Rightarrow> gerr + workspace" where
  "GetWorkspaceBySlug slug db =
     (case List.find (\<lambda>w. ws_slug w = trim_space slug) (db_workspaces db) of
        None \<Rightarrow> fail ErrNotFound (''workspace '' @ slug)
      | Some w \<Rightarrow> Inr w)"

definition CreateIdentityProvider :: "identity_provider \<Rightarrow> auth_db \<Rightarrow> gerr + auth_db" where
  "CreateIdentityProvider p db =
     (if ip_id p = [] then fail ErrInvalid ''identity provider id is required''
      else bind_result (requireWorkspaceID (ip_workspace p)) (\<lambda>_.
        if blank (ip_kind p) \<or> blank (ip_name p)
        then fail ErrInvalid ''identity provider kind and name are required''
        else bind_result (require_row ''create identity provider''
               (ip_workspace p \<in> set (map ws_id (db_workspaces db)))) (\<lambda>_.
             bind_result (insert_row ''create identity provider'' provider_clash
               (p\<lparr>ip_issuer := nullString (ip_issuer p), ip_client := nullString (ip_client p),
                  ip_secret := secretRefID (ip_secret p)\<rparr>) (db_providers db)) (\<lambda>rows.
               Inr (db\<lparr>db_providers := rows\<rparr>)))))"

definition CreateMembership :: "gtime \<Rightarrow> membership \<Rightarrow> auth_db \<Rightarrow> gerr + auth_db" where
  "CreateMembership now m0 db =
     (if wm_id m0 = [] \<or> wm_account m0 = []
      then fail ErrInvalid ''membership id and account_id are required''
      else bind_result (requireWorkspaceID (wm_workspace m0)) (\<lambda>_.
        let m1 = (if wm_status m0 = [] then m0\<lparr>wm_status := ''active''\<rparr> else m0);
            m = (if IsZero (wm_created m1) then m1\<lparr>wm_created := now\<rparr> else m1)
        in bind_result (require_row ''create workspace membership''
             (wm_workspace m \<in> set (map ws_id (db_workspaces db)) \<and>
              wm_account m \<in> set (map acc_id (db_accounts db)))) (\<lambda>_.
           bind_result (insert_row ''create workspace membership'' membership_clash m
             (db_memberships db)) (\<lambda>rows. Inr (db\<lparr>db_memberships := rows\<rparr>)))))"

definition GrantRole :: "role_binding \<Rightarrow> auth_db \<Rightarrow> gerr + auth_db" where
  "GrantRole b0 db =
     (if rb_id b0 = [] \<or> rb_membership b0 = []
      then fail ErrInvalid ''role binding id and membership_id are required''
      else bind_result (requireWorkspaceID (rb_workspace b0)) (\<lambda>_.
        if rb_role b0 \<noteq> RoleAdmin \<and> rb_role b0 \<noteq> RoleOperator \<and> rb_role b0 \<noteq> RoleViewer
        then fail ErrInvalid (''unsupported role '' @ go_quote (rb_role b0))
        else if blank (rb_scope_type b0) then fail ErrInvalid ''role binding scope_type is required''
        else let b = (if rb_scope_type b0 = ''workspace'' then b0\<lparr>rb_scope_id := []\<rparr> else b0)
          in case List.find (\<lambda>m. wm_id m = rb_membership b) (db_memberships db) of
               None \<Rightarrow> fail ErrNotFound (''membership '' @ rb_membership b)
             | Some m \<Rightarrow>
                 if wm_workspace m \<noteq> rb_workspace b
                 then fail ErrForbidden ''role membership belongs to another workspace''
                 else bind_result (insert_row ''grant role'' role_clash b (db_bindings db)) (\<lambda>rows.
                   Inr (db\<lparr>db_bindings := rows\<rparr>))))"

definition store_BootstrapFirstAdmin ::
  "gtime \<Rightarrow> account \<Rightarrow> string \<Rightarrow> workspace \<Rightarrow> ID \<Rightarrow> ID \<Rightarrow> auth_db \<Rightarrow> gerr + auth_db" where
  "store_BootstrapFirstAdmin now a passwordHash w0 membershipID roleBindingID db =
     bind_result (requireAccount a) (\<lambda>_.
       if blank passwordHash then fail ErrInvalid ''password hash is required''
       else let w = workspace_defaults now w0
         in bind_result (Workspace_Validate w) (\<lambda>_.
            if membershipID = [] \<or> roleBindingID = []
            then fail ErrInvalid ''bootstrap membership and role binding IDs are required''
            else if db_accounts db \<noteq> [] then fail ErrConflict ''first administrator already exists''
            else bind_result (insert_row ''bootstrap account'' account_clash a (db_accounts db)) (\<lambda>accounts.
            bind_result (insert_row ''bootstrap password'' password_clash (acc_id a, passwordHash)
              (db_passwords db)) (\<lambda>passwords.
            bind_result (case List.find (\<lambda>r. ws_slug r = ws_slug w) (db_workspaces db) of
                None \<Rightarrow> bind_result (insert_row ''bootstrap workspace'' workspace_clash w (db_workspaces db))
                          (\<lambda>rows. Inr (ws_id w, rows))
              | Some r \<Rightarrow> Inr (ws_id r, db_workspaces db)) (\<lambda>(workspaceID, workspaces).
            bind_result (insert_row ''bootstrap membership'' membership_clash
              \<lparr>wm_id = membershipID, wm_workspace = workspaceID, wm_account = acc_id a,
               wm_status = ''active'', wm_created = now\<rparr> (db_memberships db)) (\<lambda>memberships.
            bind_result (insert_row ''bootstrap admin role'' role_clash
              \<lparr>rb_id = roleBindingID, rb_workspace = workspaceID, rb_membership = membershipID,
               rb_role = RoleAdmin, rb_scope_type = ''workspace'', rb_scope_id = []\<rparr>
              (db_bindings db)) (\<lambda>bindings.
              Inr (db\<lparr>db_accounts := accounts, db_passwords := passwords, db_workspaces := workspaces,
                      db_memberships := memberships, db_bindings := bindings\<rparr>))))))))"

definition FindAccountByEmail :: "string \<Rightarrow> auth_db \<Rightarrow> gerr + account" where
  "FindAccountByEmail email db =
     (case List.find (\<lambda>a. acc_email a = email) (db_accounts db) of
        None \<Rightarrow> fail ErrNotFound ''account'' | Some a \<Rightarrow> Inr a)"

definition GetAccount :: "ID \<Rightarrow> auth_db \<Rightarrow> gerr + account" where
  "GetAccount accountID db =
     (case List.find (\<lambda>a. acc_id a = accountID) (db_accounts db) of
        None \<Rightarrow> fail ErrNotFound (''account '' @ accountID) | Some a \<Rightarrow> Inr a)"

definition GetPasswordHash :: "ID \<Rightarrow> auth_db \<Rightarrow> gerr + string" where
  "GetPasswordHash accountID db =
     (case List.find (\<lambda>r. fst r = accountID) (db_passwords db) of
        None \<Rightarrow> fail ErrNotFound ''password credential'' | Some r \<Rightarrow> Inr (snd r))"

definition CreateSession :: "gtime \<Rightarrow> session \<Rightarrow> auth_db \<Rightarrow> gerr + auth_db" where
  "CreateSession now s0 db =
     (if ses_id s0 = [] \<or> ses_account s0 = [] \<or> ses_token_hash s0 = [] \<or> ses_csrf_hash s0 = []
      then fail ErrInvalid ''incomplete session''
      else let s = (if IsZero (ses_created s0) then s0\<lparr>ses_created := now\<rparr> else s0)
        in if IsZero (ses_expires s) then fail ErrInvalid ''session expiry is required''
           else bind_result (require_row ''create session''
                  (ses_account s \<in> set (map acc_id (db_accounts db)))) (\<lambda>_.
                bind_result (insert_row ''create session'' session_clash s (db_sessions db)) (\<lambda>rows.
                  Inr (db\<lparr>db_sessions := rows\<rparr>))))"

definition GetSessionByTokenHash :: "string \<Rightarrow> auth_db \<Rightarrow> gerr + session" where
  "GetSessionByTokenHash tokenHash db =
     (case List.find (\<lambda>s. ses_token_hash s = tokenHash) (db_sessions db) of
        None \<Rightarrow> fail ErrNotFound ''session'' | Some s \<Rightarrow> Inr s)"

definition RotateSessionCSRF :: "ID \<Rightarrow> string \<Rightarrow> auth_db \<Rightarrow> gerr + auth_db" where
  "RotateSessionCSRF sessionID csrfTokenHash db =
     (if sessionID = [] \<or> blank csrfTokenHash
      then fail ErrInvalid ''session id and CSRF token hash are required''
      else if \<not> list_ex (\<lambda>s. ses_id s = sessionID \<and> ses_revoked s = None) (db_sessions db)
      then fail ErrNotFound (''session '' @ sessionID)
      else Inr (db\<lparr>db_sessions := update_rows (\<lambda>s. ses_id s = sessionID \<and> ses_revoked s = None)
                    (\<lambda>s. s\<lparr>ses_csrf_hash := csrfTokenHash\<rparr>) (db_sessions db)\<rparr>))"

definition RevokeSession :: "gtime \<Rightarrow> ID \<Rightarrow> auth_db \<Rightarrow> auth_db" where
  "RevokeSession now sessionID db =
     db\<lparr>db_sessions := update_rows (\<lambda>s. ses_id s = sessionID \<and> ses_revoked s = None)
          (\<lambda>s. s\<lparr>ses_revoked := Some now\<rparr>) (db_sessions db)\<rparr>"

definition CreateExternalIdentity :: "gtime \<Rightarrow> external_identity \<Rightarrow> auth_db \<Rightarrow> gerr + auth_db" where
  "CreateExternalIdentity now i0 db =
     (if ei_id i0 = [] \<or> ei_account i0 = [] \<or> ei_provider i0 = [] \<or> blank (ei_subject i0)
      then fail ErrInvalid ''incomplete external identity''
      else let i = (if IsZero (ei_created i0) then i0\<lparr>ei_created := now\<rparr> else i0)
        in bind_result (require_row ''create external identity''
             (ei_account i \<in> set (map acc_id (db_accounts db)) \<and> ei_provider i \<in> set (map ip_id (db_providers db)))) (\<lambda>_.
           bind_result (insert_row ''create external identity'' identity_clash i (db_identities db)) (\<lambda>rows.
             Inr (db\<lparr>db_identities := rows\<rparr>))))"

definition CreatePendingExternalAccount ::
  "gtime \<Rightarrow> account \<Rightarrow> external_identity \<Rightarrow> auth_db \<Rightarrow> gerr + auth_db" where
  "CreatePendingExternalAccount now a0 i0 db =
     (let a1 = (if acc_status a0 = [] then a0\<lparr>acc_status := AccountPending\<rparr> else a0)
      in if acc_status a1 \<noteq> AccountPending
         then fail ErrInvalid ''external first-login account must be pending''
         else bind_result (requireAccount a1) (\<lambda>_.
           if ei_account i0 \<noteq> acc_id a1 then fail ErrInvalid ''identity account mismatch''
           else if ei_id i0 = [] \<or> ei_provider i0 = [] \<or> blank (ei_subject i0)
           then fail ErrInvalid ''incomplete external identity''
           else let i = (if IsZero (ei_created i0) then i0\<lparr>ei_created := now\<rparr> else i0);
                    a2 = (if IsZero (acc_created a1) then a1\<lparr>acc_created := ei_created i\<rparr> else a1);
                    a = (if IsZero (acc_updated a2) then a2\<lparr>acc_updated := acc_created a2\<rparr> else a2)
             in bind_result (insert_row ''create pending external account'' account_clash a
                  (db_accounts db)) (\<lambda>accounts.
                bind_result (require_row ''link pending external identity''
                  (ei_provider i \<in> set (map ip_id (db_providers db)))) (\<lambda>_.
                bind_result (insert_row ''link pending external identity'' identity_clash i
                  (db_identities db)) (\<lambda>identities.
                  Inr (db\<lparr>db_accounts := accounts, db_identities := identities\<rparr>))))))"

definition FindAccountByIdentity :: "ID \<Rightarrow> string \<Rightarrow> auth_db \<Rightarrow> gerr + account" where
  "FindAccountByIdentity providerID subject db =
     (case List.find (\<lambda>(a, i). ei_account i = acc_id a \<and> ei_provider i = providerID \<and> ei_subject i = subject)
             (List.product (db_accounts db) (db_identities db)) of
        None \<Rightarrow> fail ErrNotFound ''external identity'' | Some (a, i) \<Rightarrow> Inr a)"

text \<open>The join of the bindings of a workspace with the account's active memberships in it.\<close>

definition active_member :: "ID \<Rightarrow> ID \<Rightarrow> membership \<Rightarrow> bool" where
  "active_member accountID workspaceID m \<longleftrightarrow>
     wm_workspace m = workspaceID \<and> wm_account m = accountID \<and> wm_status m = ''active''"

definition ListRoleBindings :: "ID \<Rightarrow> ID \<Rightarrow> auth_db \<Rightarrow> gerr + role_binding list" where
  "ListRoleBindings accountID workspaceID db =
     bind_result (requireWorkspaceID workspaceID) (\<lambda>_.
       Inr (sort_key (\<lambda>b. (rb_role b, rb_scope_type b, rb_scope_id b))
         [b. b \<leftarrow> db_bindings db, m \<leftarrow> db_memberships db,
             rb_workspace b = workspaceID \<and> wm_id m = rb_membership b \<and>
             active_member accountID workspaceID m]))"

section \<open>The local identity provider\<close>

datatype auth_error = ErrInvalidCredentials | ErrInvalidSession | ErrCSRF | DomainError gerr

fun lift_domain :: "gerr + 'a \<Rightarrow> auth_error + 'a" where
  "lift_domain (Inl e) = Inl (DomainError e)"
| "lift_domain (Inr a) = Inr a"

lemma lift_domain_Inr [err_simps]: "lift_domain r = Inr a \<longleftrightarrow> r = Inr a"
  by (cases r) auto

record session_credentials =
  sc_session :: ID
  sc_token :: string
  sc_csrf :: string
  sc_expires :: gtime

text \<open>
  \<open>strings.ToLower\<close> maps all of Unicode, \<open>to_lower\<close> only ASCII and the two letters with an ASCII image: for an
  address with other capital letters the stored text differs from the program's.
\<close>

definition NormalizeEmail :: "string \<Rightarrow> string" where
  "NormalizeEmail email = to_lower (trim_space email)"

definition HashPassword :: "(string \<Rightarrow> string option) \<Rightarrow> string \<Rightarrow> gerr + string" where
  "HashPassword generate password =
     (if length password < 8 then fail ErrInvalid ''password must contain at least 8 characters''
      else case generate password of None \<Rightarrow> Inl (Plain ''hash password'') | Some h \<Rightarrow> Inr h)"

definition LocalProvider_BootstrapFirstAdmin ::
  "(string \<Rightarrow> string option) \<Rightarrow> gtime \<Rightarrow> ID \<Rightarrow> ID \<Rightarrow> ID \<Rightarrow> ID \<Rightarrow> string \<Rightarrow> string \<Rightarrow> string \<Rightarrow> auth_db \<Rightarrow>
   gerr + account \<times> workspace \<times> auth_db" where
  "LocalProvider_BootstrapFirstAdmin generate now i1 i2 i3 i4 email0 password displayName db =
     (let email = NormalizeEmail email0
      in if email = [] \<or> blank displayName
         then fail ErrInvalid ''administrator email and display name are required''
         else bind_result (HashPassword generate password) (\<lambda>h.
           let a = \<lparr>acc_id = i1, acc_email = email, acc_display = trim_space displayName,
                    acc_status = AccountActive, acc_created = now, acc_updated = now\<rparr>;
               fresh = \<lparr>ws_id = i2, ws_slug = ''default'', ws_name = ''Default Workspace'',
                        ws_status = WorkspaceActive, ws_created = now, ws_updated = now\<rparr>;
               w = (case GetWorkspaceBySlug ''default'' db of Inl _ \<Rightarrow> fresh | Inr existing \<Rightarrow> existing)
           in bind_result (store_BootstrapFirstAdmin now a h w i3 i4 db) (\<lambda>db'. Inr (a, w, db'))))"

text \<open>A session lasts twelve hours unless the length is set.\<close>

definition default_session_ttl :: gtime where
  "default_session_ttl = 12 * 3600 * nanoseconds"

definition SetSessionTTL :: "gtime \<Rightarrow> gtime \<Rightarrow> gerr + gtime" where
  "SetSessionTTL ttl old = (if ttl \<le> 0 then fail ErrInvalid ''session TTL must be positive'' else Inr ttl)"

definition Login ::
  "(string \<Rightarrow> string) \<Rightarrow> (string \<Rightarrow> string \<Rightarrow> bool) \<Rightarrow> gtime \<Rightarrow> gtime \<Rightarrow> string \<Rightarrow> string \<Rightarrow> ID \<Rightarrow>
   string \<Rightarrow> string \<Rightarrow> auth_db \<Rightarrow> auth_error + account \<times> session_credentials \<times> auth_db" where
  "Login hash matches sessionTTL now token csrf sessionID email password db =
     (case FindAccountByEmail (NormalizeEmail email) db of
        Inl _ \<Rightarrow> Inl ErrInvalidCredentials
      | Inr a \<Rightarrow>
          if acc_status a \<noteq> AccountActive then Inl ErrInvalidCredentials
          else case GetPasswordHash (acc_id a) db of
            Inl _ \<Rightarrow> Inl ErrInvalidCredentials
          | Inr h \<Rightarrow>
              if \<not> matches h password then Inl ErrInvalidCredentials
              else let expires = now + sessionTTL;
                       s = \<lparr>ses_id = sessionID, ses_account = acc_id a, ses_token_hash = hash token,
                            ses_csrf_hash = hash csrf, ses_expires = expires, ses_created = now,
                            ses_revoked = None\<rparr>
                in bind_result (lift_domain (CreateSession now s db)) (\<lambda>db'.
                     Inr (a, \<lparr>sc_session = sessionID, sc_token = token, sc_csrf = csrf, sc_expires = expires\<rparr>,
                          db')))"

definition Authenticate :: "(string \<Rightarrow> string) \<Rightarrow> gtime \<Rightarrow> string \<Rightarrow> auth_db \<Rightarrow> auth_error + session" where
  "Authenticate hash now token db =
     (if token = [] then Inl ErrInvalidSession
      else case GetSessionByTokenHash (hash token) db of
        Inl _ \<Rightarrow> Inl ErrInvalidSession
      | Inr s \<Rightarrow> if ses_revoked s \<noteq> None \<or> \<not> now < ses_expires s then Inl ErrInvalidSession else Inr s)"

definition ValidateCSRF :: "(string \<Rightarrow> string) \<Rightarrow> session \<Rightarrow> string \<Rightarrow> auth_error + unit" where
  "ValidateCSRF hash s csrfToken =
     (if csrfToken = [] \<or> ses_csrf_hash s = [] then Inl ErrCSRF
      else if hash csrfToken \<noteq> ses_csrf_hash s then Inl ErrCSRF
      else Inr ())"

definition RefreshCSRF :: "(string \<Rightarrow> string) \<Rightarrow> session \<Rightarrow> string \<Rightarrow> auth_db \<Rightarrow> auth_error + string \<times> auth_db" where
  "RefreshCSRF hash s csrf db =
     (if ses_id s = [] then Inl ErrInvalidSession
      else bind_result (lift_domain (RotateSessionCSRF (ses_id s) (hash csrf) db)) (\<lambda>db'. Inr (csrf, db')))"

definition Logout :: "gtime \<Rightarrow> ID \<Rightarrow> auth_db \<Rightarrow> auth_error + auth_db" where
  "Logout now sessionID db =
     (if sessionID = [] then Inl ErrInvalidSession else Inr (RevokeSession now sessionID db))"

end
