(* ===== verification/Authorization.thy ===== *)
theory Authorization
  imports Accounts
begin

text \<open>
  Who may do what: the fixed role hierarchy and the scopes of \<open>auth/authorization.go\<close>, and the
  checks the HTTP handlers make with them, \<open>httpapi/server.go\<close> and \<open>httpapi/integration.go\<close>. The
  theorems characterise an accepted check in terms of the rows of the account tables and follow a
  session from login to logout.
\<close>

record scope =
  scope_type :: string
  scope_id :: ID

definition roleSatisfies :: "string \<Rightarrow> string \<Rightarrow> bool" where
  "roleSatisfies granted required =
     (if granted = RoleAdmin then True
      else if granted = RoleOperator then required = RoleOperator \<or> required = RoleViewer
      else if granted = RoleViewer then required = RoleViewer
      else False)"

definition scopeMatches :: "role_binding \<Rightarrow> scope \<Rightarrow> bool" where
  "scopeMatches b requested \<longleftrightarrow>
     rb_scope_type b = ''workspace'' \<or>
     rb_scope_type b = scope_type requested \<and> rb_scope_id b = scope_id requested"

definition supported_role :: "string \<Rightarrow> bool" where
  "supported_role r \<longleftrightarrow> r = RoleAdmin \<or> r = RoleOperator \<or> r = RoleViewer"

definition Authorize :: "ID \<Rightarrow> ID \<Rightarrow> string \<Rightarrow> scope \<Rightarrow> auth_db \<Rightarrow> gerr + unit" where
  "Authorize accountID workspaceID required scope db =
     (if accountID = [] \<or> workspaceID = [] then fail ErrForbidden ''authorization context is incomplete''
      else if \<not> supported_role required then fail ErrForbidden ''custom roles are not supported''
      else bind_result (ListRoleBindings accountID workspaceID db) (\<lambda>bs.
        if list_ex (\<lambda>b. roleSatisfies (rb_role b) required \<and> scopeMatches b scope) bs then Inr ()
        else fail ErrForbidden (''account is not authorized for '' @ scope_type scope)))"

section \<open>The checks of the HTTP handlers\<close>

definition connectionScope :: "connection \<Rightarrow> scope" where
  "connectionScope c =
     (if \<not> blank (proj_group (cn_source c))
      then \<lparr>scope_type = ''gitlab_group'', scope_id = proj_group (cn_source c)\<rparr>
      else \<lparr>scope_type = ''connection'', scope_id = cn_id c\<rparr>)"

definition authorize_request :: "session \<Rightarrow> ID \<Rightarrow> string \<Rightarrow> scope \<Rightarrow> auth_db \<Rightarrow> auth_error + unit" where
  "authorize_request s workspaceID role scope db =
     lift_domain (Authorize (ses_account s) workspaceID role scope db)"

definition authorizeMutation ::
  "(string \<Rightarrow> string) \<Rightarrow> string \<Rightarrow> session \<Rightarrow> ID \<Rightarrow> string \<Rightarrow> scope \<Rightarrow> auth_db \<Rightarrow> auth_error + unit" where
  "authorizeMutation hash csrf s workspaceID role scope db =
     bind_result (ValidateCSRF hash s csrf) (\<lambda>_. authorize_request s workspaceID role scope db)"

definition authorizeConnection ::
  "(string \<Rightarrow> string) \<Rightarrow> string \<Rightarrow> session \<Rightarrow> connection \<Rightarrow> string \<Rightarrow> bool \<Rightarrow> auth_db \<Rightarrow> auth_error + unit" where
  "authorizeConnection hash csrf s c role mutation db =
     (if mutation then authorizeMutation hash csrf s (cn_workspace c) role (connectionScope c) db
      else authorize_request s (cn_workspace c) role (connectionScope c) db)"

definition visibleConnections :: "session \<Rightarrow> ID \<Rightarrow> connection list \<Rightarrow> auth_db \<Rightarrow> connection list" where
  "visibleConnections s workspaceID connections db =
     (if Authorize (ses_account s) workspaceID RoleViewer
           \<lparr>scope_type = ''workspace'', scope_id = workspaceID\<rparr> db = Inr () then connections
      else filter (\<lambda>c. Authorize (ses_account s) workspaceID RoleViewer (connectionScope c) db = Inr ())
             connections)"

section \<open>What a check decides\<close>

text \<open>The hierarchy as a rank, and a right spelled out over the rows of the tables.\<close>

definition role_rank :: "string \<Rightarrow> nat" where
  "role_rank r =
     (if r = RoleAdmin then 3 else if r = RoleOperator then 2 else if r = RoleViewer then 1 else 0)"

lemma roleSatisfies_rank: "supported_role required \<Longrightarrow> roleSatisfies granted required \<longleftrightarrow> role_rank required \<le> role_rank granted"
  by (auto simp: roleSatisfies_def supported_role_def role_rank_def)

definition grants :: "auth_db \<Rightarrow> ID \<Rightarrow> ID \<Rightarrow> string \<Rightarrow> scope \<Rightarrow> bool" where
  "grants db accountID workspaceID required scope \<longleftrightarrow>
     (\<exists>b \<in> set (db_bindings db). \<exists>m \<in> set (db_memberships db).
        wm_account m = accountID \<and> wm_workspace m = workspaceID \<and> wm_status m = ''active'' \<and>
        rb_membership b = wm_id m \<and> rb_workspace b = workspaceID \<and>
        role_rank required \<le> role_rank (rb_role b) \<and>
        (rb_scope_type b = ''workspace'' \<or>
         (rb_scope_type b, rb_scope_id b) = (scope_type scope, scope_id scope)))"

lemma ListRoleBindings_set:
  assumes "workspaceID \<noteq> []"
  shows "\<exists>bs. ListRoleBindings accountID workspaceID db = Inr bs \<and>
    set bs = {b \<in> set (db_bindings db). rb_workspace b = workspaceID \<and>
       (\<exists>m \<in> set (db_memberships db). wm_id m = rb_membership b \<and> active_member accountID workspaceID m)}"
  using assms by (auto simp: ListRoleBindings_def requireWorkspaceID_def requireID_def)

lemma Authorize_grants:
  "Authorize accountID workspaceID required scope db = Inr () \<longleftrightarrow>
     accountID \<noteq> [] \<and> workspaceID \<noteq> [] \<and> supported_role required \<and>
     grants db accountID workspaceID required scope"
proof (cases "supported_role required \<and> accountID \<noteq> [] \<and> workspaceID \<noteq> []")
  case True
  then obtain bs where "ListRoleBindings accountID workspaceID db = Inr bs"
    and bs: "set bs = {b \<in> set (db_bindings db). rb_workspace b = workspaceID \<and>
       (\<exists>m \<in> set (db_memberships db). wm_id m = rb_membership b \<and> active_member accountID workspaceID m)}"
    using ListRoleBindings_set by blast
  then have "Authorize accountID workspaceID required scope db = Inr () \<longleftrightarrow>
      (\<exists>b \<in> set bs. roleSatisfies (rb_role b) required \<and> scopeMatches b scope)"
    using True by (simp add: Authorize_def list_ex_iff)
  also have "\<dots> \<longleftrightarrow> grants db accountID workspaceID required scope"
    unfolding bs grants_def using True
    by (fastforce simp: roleSatisfies_rank scopeMatches_def active_member_def)
  finally show ?thesis using True by blast
qed (auto simp: Authorize_def)

lemma Authorize_Inl:
  "Authorize accountID workspaceID required scope db = Inl e \<Longrightarrow> err_is e ErrForbidden"
  by (auto simp: Authorize_def ListRoleBindings_def requireWorkspaceID_def requireID_def err_simps
      split: if_splits)

lemma grants_weaker:
  "grants db a w r s \<Longrightarrow> role_rank r' \<le> role_rank r \<Longrightarrow> grants db a w r' s"
  unfolding grants_def by (blast intro: le_trans)

lemma grants_workspace_scope:
  assumes "grants db a w r q" "scope_type q = ''workspace''"
  shows "grants db a w r s"
  using assms by (auto simp: grants_def)

text \<open>
  C36: a check succeeds exactly when the account holds an active membership of that very workspace to
  which a binding of the workspace gives a sufficient role, for the whole workspace or for exactly
  the scope that is asked for; and every refusal is \<open>ErrForbidden\<close>.
\<close>

theorem Authorize_iff:
  "case Authorize accountID workspaceID required scope db of
     Inr _ \<Rightarrow> accountID \<noteq> [] \<and> workspaceID \<noteq> [] \<and> supported_role required \<and>
              grants db accountID workspaceID required scope
   | Inl e \<Rightarrow> err_is e ErrForbidden \<and>
              \<not> (accountID \<noteq> [] \<and> workspaceID \<noteq> [] \<and> supported_role required \<and>
                 grants db accountID workspaceID required scope)"
proof (cases "Authorize accountID workspaceID required scope db")
  case (Inl e)
  then show ?thesis using Authorize_Inl [OF Inl] Authorize_grants [of accountID workspaceID required scope db]
    by simp
next
  case (Inr u)
  then show ?thesis using Authorize_grants [of accountID workspaceID required scope db] by simp
qed

text \<open>
  rights are monotone. Whoever passes a check for a role passes it for every weaker role in the
  same scope, and whoever passes it for the workspace passes it for every scope inside it.
\<close>

theorem Authorize_monotone:
  assumes "Authorize accountID workspaceID granted scope db = Inr ()"
    and "supported_role required" "roleSatisfies granted required"
  shows "Authorize accountID workspaceID required scope db = Inr () \<and>
         (scope_type scope = ''workspace'' \<longrightarrow>
            (\<forall>other. Authorize accountID workspaceID required other db = Inr ()))"
proof -
  have g: "grants db accountID workspaceID required scope"
    using assms grants_weaker by (auto simp: Authorize_grants roleSatisfies_rank)
  moreover have "grants db accountID workspaceID required other" if "scope_type scope = ''workspace''" for other
    by (rule grants_workspace_scope [OF g that])
  ultimately show ?thesis using assms by (auto simp: Authorize_grants)
qed

text \<open>
  The list of connections a session may see is exactly the sublist of those its account may view.
  The shortcut for workspace-wide viewers shows them nothing that the check of each connection
  would not.
\<close>

theorem visibleConnections_exact:
  "visibleConnections s workspaceID connections db =
     filter (\<lambda>c. Authorize (ses_account s) workspaceID RoleViewer (connectionScope c) db = Inr ()) connections"
proof (cases "Authorize (ses_account s) workspaceID RoleViewer
    \<lparr>scope_type = ''workspace'', scope_id = workspaceID\<rparr> db = Inr ()")
  case True
  then have "Authorize (ses_account s) workspaceID RoleViewer (connectionScope c) db = Inr ()" for c
    by (auto simp: Authorize_grants intro: grants_workspace_scope)
  then show ?thesis by (simp add: visibleConnections_def)
qed (simp add: visibleConnections_def)

section \<open>Sessions\<close>

lemma Login_D:
  assumes "Login hash matches ttl now token csrf i email password db = Inr (a, cred, db')"
  shows "acc_status a = AccountActive \<and> FindAccountByEmail (NormalizeEmail email) db = Inr a \<and>
         (\<exists>h. GetPasswordHash (acc_id a) db = Inr h \<and> matches h password) \<and>
         (\<exists>s. CreateSession now s db = Inr db' \<and> ses_id s = i \<and> ses_account s = acc_id a \<and>
            ses_token_hash s = hash token \<and> ses_csrf_hash s = hash csrf \<and> ses_expires s = now + ttl \<and>
            ses_revoked s = None) \<and>
         cred = \<lparr>sc_session = i, sc_token = token, sc_csrf = csrf, sc_expires = now + ttl\<rparr>"
proof -
  obtain h where "FindAccountByEmail (NormalizeEmail email) db = Inr a" "acc_status a = AccountActive"
    "GetPasswordHash (acc_id a) db = Inr h" "matches h password"
    "CreateSession now \<lparr>ses_id = i, ses_account = acc_id a, ses_token_hash = hash token,
       ses_csrf_hash = hash csrf, ses_expires = now + ttl, ses_created = now, ses_revoked = None\<rparr> db = Inr db'"
    "cred = \<lparr>sc_session = i, sc_token = token, sc_csrf = csrf, sc_expires = now + ttl\<rparr>"
    using assms by (auto simp: Login_def err_simps Let_def split: sum.splits if_splits)
  then show ?thesis by auto
qed

lemma CreateSession_D:
  assumes "CreateSession now s db = Inr db'" "ses_revoked s = None"
  shows "\<exists>s'. insert_row ''create session'' session_clash s' (db_sessions db) = Inr (db_sessions db') \<and>
           ses_id s' = ses_id s \<and> ses_account s' = ses_account s \<and> ses_token_hash s' = ses_token_hash s \<and>
           ses_csrf_hash s' = ses_csrf_hash s \<and> ses_expires s' = ses_expires s \<and> ses_revoked s' = None \<and>
           ses_id s \<noteq> []"
proof -
  obtain rows where "insert_row ''create session'' session_clash
      (if IsZero (ses_created s) then s\<lparr>ses_created := now\<rparr> else s) (db_sessions db) = Inr rows"
    "db' = db\<lparr>db_sessions := rows\<rparr>" "ses_id s \<noteq> []"
    using assms by (auto simp: CreateSession_def err_simps Let_def split: if_splits)
  then show ?thesis using assms(2)
    by (intro exI [of _ "if IsZero (ses_created s) then s\<lparr>ses_created := now\<rparr> else s"]) simp
qed

lemma find_session_inserted:
  "insert_row ''create session'' session_clash s rows = Inr rows' \<Longrightarrow>
     GetSessionByTokenHash h (db\<lparr>db_sessions := rows'\<rparr>) =
     (if h = ses_token_hash s then Inr s else GetSessionByTokenHash h (db\<lparr>db_sessions := rows\<rparr>))"
  using session_by_token.insert_find [of "''create session''" s rows rows' h]
  by (simp add: GetSessionByTokenHash_def)

lemma GetSession_cong: "db_sessions db = db_sessions db2 \<Longrightarrow>
    GetSessionByTokenHash h db = GetSessionByTokenHash h db2"
  by (simp add: GetSessionByTokenHash_def)

lemma find_session_revoked:
  "GetSessionByTokenHash h (RevokeSession t i db) =
     (case GetSessionByTokenHash h db of Inl e \<Rightarrow> Inl e
      | Inr s \<Rightarrow> Inr (if ses_id s = i \<and> ses_revoked s = None then s\<lparr>ses_revoked := Some t\<rparr> else s))"
  by (simp add: GetSessionByTokenHash_def RevokeSession_def session_by_token.update_find
      split: option.split)

text \<open>
  A login makes its token, and no other, name a session of that account: until the session
  expires the token authenticates as the account whose password was given and the CSRF token that
  came with it is accepted; what other tokens authenticate as is unchanged; and after the logout
  of that session the token is refused for good.
\<close>

theorem Login_session:
  assumes "Login hash matches ttl now token csrf i email password db = Inr (a, cred, db')"
    and "token \<noteq> []" "csrf \<noteq> []" "hash csrf \<noteq> []"
  shows "acc_status a = AccountActive \<and> acc_email a = NormalizeEmail email \<and>
         (\<forall>t. t < now + ttl \<longrightarrow> (\<exists>s. Authenticate hash t token db' = Inr s \<and> ses_account s = acc_id a \<and>
            ValidateCSRF hash s csrf = Inr ())) \<and>
         (\<forall>t. \<not> t < now + ttl \<longrightarrow> Authenticate hash t token db' = Inl ErrInvalidSession) \<and>
         (\<forall>t other. hash other \<noteq> hash token \<longrightarrow>
            Authenticate hash t other db' = Authenticate hash t other db) \<and>
         (\<forall>out t db''. Logout out (sc_session cred) db' = Inr db'' \<longrightarrow>
            Authenticate hash t token db'' = Inl ErrInvalidSession)"
proof -
  obtain s where s: "CreateSession now s db = Inr db'" "ses_id s = i" "ses_account s = acc_id a"
      "ses_token_hash s = hash token" "ses_csrf_hash s = hash csrf" "ses_expires s = now + ttl"
      "ses_revoked s = None" and cred: "sc_session cred = i"
    and a: "acc_status a = AccountActive" "FindAccountByEmail (NormalizeEmail email) db = Inr a"
    using Login_D [OF assms(1)] by auto
  obtain s' where s': "insert_row ''create session'' session_clash s' (db_sessions db) = Inr (db_sessions db')"
      "ses_id s' = i" "ses_account s' = acc_id a" "ses_token_hash s' = hash token"
      "ses_csrf_hash s' = hash csrf" "ses_expires s' = now + ttl" "ses_revoked s' = None" "i \<noteq> []"
    using CreateSession_D [OF s(1,7)] s by auto
  have get: "GetSessionByTokenHash h db' = (if h = hash token then Inr s' else GetSessionByTokenHash h db)" for h
    using find_session_inserted [OF s'(1), of h db] s'(4)
      GetSession_cong [of "db\<lparr>db_sessions := db_sessions db'\<rparr>" db' h]
      GetSession_cong [of "db\<lparr>db_sessions := db_sessions db\<rparr>" db h] by simp
  have "acc_email a = NormalizeEmail email"
    using a(2) find_SomeD by (fastforce simp: FindAccountByEmail_def split: option.splits)
  moreover have "Authenticate hash t token db'' = Inl ErrInvalidSession"
    if "Logout out (sc_session cred) db' = Inr db''" for out t db''
    using that s' by (auto simp: Logout_def Authenticate_def find_session_revoked get cred split: if_splits)
  ultimately show ?thesis using a(1) s' assms(2-4)
    by (auto simp: Authenticate_def get ValidateCSRF_def)
qed

definition sample_auth :: auth_db where
  "sample_auth =
     \<lparr>db_workspaces = [], db_accounts = [], db_passwords = [], db_memberships = [], db_bindings = [],
      db_sessions = [], db_providers = [], db_identities = []\<rparr>"

definition sample_admin :: "gerr + account \<times> workspace \<times> auth_db" where
  "sample_admin = LocalProvider_BootstrapFirstAdmin Some 7 ''a1'' ''w1'' ''m1'' ''r1''
     '' Ann@Example.org'' ''password'' ''Ann'' sample_auth"

definition sample_auth_db :: auth_db where
  "sample_auth_db = (case sample_admin of Inr (a, w, db) \<Rightarrow> db | Inl _ \<Rightarrow> sample_auth)"

lemma returned_db:
  "(case r of Inl e \<Rightarrow> False | Inr (a, w, db) \<Rightarrow> P a w) \<Longrightarrow>
     \<exists>a w. r = Inr (a, w, case r of Inr (a, w, db) \<Rightarrow> db | Inl _ \<Rightarrow> d) \<and> P a w"
  by (cases r) auto

lemma sample_bootstrap: "\<exists>a w. sample_admin = Inr (a, w, sample_auth_db) \<and> acc_id a = ''a1'' \<and> ws_id w = ''w1''"
  unfolding sample_auth_db_def by (rule returned_db) code_simp

theorem Login_session_witness:
  "\<exists>a cred db'. Login (\<lambda>x. x) (\<lambda>h p. h = p) 100 10 ''tok'' ''csrf'' ''s1'' ''ann@example.org'' ''password''
       sample_auth_db = Inr (a, cred, db') \<and>
     (\<exists>s. Authenticate (\<lambda>x. x) 50 ''tok'' db' = Inr s \<and> ses_account s = acc_id a)"
proof -
  have "case Login (\<lambda>x. x) (\<lambda>h p. h = p) 100 10 ''tok'' ''csrf'' ''s1'' ''ann@example.org'' ''password''
       sample_auth_db of Inl e \<Rightarrow> False | Inr r \<Rightarrow> True" by code_simp
  then obtain a cred db' where l: "Login (\<lambda>x. x) (\<lambda>h p. h = p) 100 10 ''tok'' ''csrf'' ''s1''
      ''ann@example.org'' ''password'' sample_auth_db = Inr (a, cred, db')"
    by (auto split: sum.splits)
  have "\<exists>s. Authenticate (\<lambda>x. x) 50 ''tok'' db' = Inr s \<and> ses_account s = acc_id a"
    using spec [OF conjunct1 [OF conjunct2 [OF conjunct2 [OF Login_session [OF l]]]], of 50] by auto
  with l show ?thesis by blast
qed

theorem Authorize_monotone_witness:
  "Authorize ''a1'' ''w1'' RoleViewer \<lparr>scope_type = ''connection'', scope_id = ''c1''\<rparr> sample_auth_db = Inr ()"
proof -
  have a: "Authorize ''a1'' ''w1'' RoleAdmin \<lparr>scope_type = ''workspace'', scope_id = ''w1''\<rparr> sample_auth_db = Inr ()"
    by code_simp
  show ?thesis
    using Authorize_monotone [OF a, of RoleViewer] by (simp add: supported_role_def roleSatisfies_def)
qed

section \<open>The first administrator\<close>

lemma ins: "insert_row operation clash new rows = Inr rows' \<Longrightarrow> rows' = rows @ [new]"
  by (simp add: err_simps)

lemma bootstrap_D:
  assumes "store_BootstrapFirstAdmin now a h w i3 i4 db = Inr db'"
  defines "wid \<equiv> (case List.find (\<lambda>r. ws_slug r = ws_slug w) (db_workspaces db) of
                      None \<Rightarrow> ws_id w | Some r \<Rightarrow> ws_id r)"
  shows "db_accounts db = [] \<and> db_accounts db' = [a] \<and> db_passwords db' = db_passwords db @ [(acc_id a, h)] \<and>
         (\<forall>r \<in> set (db_passwords db). fst r \<noteq> acc_id a) \<and> acc_id a \<noteq> [] \<and> ws_id w \<noteq> [] \<and>
         db_sessions db' = db_sessions db \<and>
         (\<exists>m b. m \<in> set (db_memberships db') \<and> b \<in> set (db_bindings db') \<and>
            active_member (acc_id a) wid m \<and> rb_workspace b = wid \<and>
            rb_membership b = wm_id m \<and> rb_role b = RoleAdmin \<and> rb_scope_type b = ''workspace'')"
proof -
  let ?w = "workspace_defaults now w"
  have slug: "ws_slug ?w = ws_slug w" "ws_id ?w = ws_id w" by (simp_all add: workspace_defaults_def Let_def)
  have acc: "requireAccount a = Inr ()" and wv: "Workspace_Validate ?w = Inr ()" and e: "db_accounts db = []"
    using assms(1) by (auto simp: store_BootstrapFirstAdmin_def Let_def err_simps split: if_splits)
  obtain accounts passwords i wss ms bs where
    st: "insert_row ''bootstrap account'' account_clash a (db_accounts db) = Inr accounts"
      "insert_row ''bootstrap password'' password_clash (acc_id a, h) (db_passwords db) = Inr passwords"
      "(case List.find (\<lambda>r. ws_slug r = ws_slug ?w) (db_workspaces db) of
          None \<Rightarrow> bind_result (insert_row ''bootstrap workspace'' workspace_clash ?w (db_workspaces db))
                    (\<lambda>rows. Inr (ws_id ?w, rows))
        | Some r \<Rightarrow> Inr (ws_id r, db_workspaces db)) = Inr (i, wss)"
      "insert_row ''bootstrap membership'' membership_clash
         \<lparr>wm_id = i3, wm_workspace = i, wm_account = acc_id a, wm_status = ''active'', wm_created = now\<rparr>
         (db_memberships db) = Inr ms"
      "insert_row ''bootstrap admin role'' role_clash
         \<lparr>rb_id = i4, rb_workspace = i, rb_membership = i3, rb_role = RoleAdmin,
          rb_scope_type = ''workspace'', rb_scope_id = []\<rparr> (db_bindings db) = Inr bs"
    and db': "db' = db\<lparr>db_accounts := accounts, db_passwords := passwords, db_workspaces := wss,
                db_memberships := ms, db_bindings := bs\<rparr>"
    using assms(1) by (auto simp: store_BootstrapFirstAdmin_def Let_def bind_result_Inr split: if_splits)
  have "wid = i"
    using st(3) by (auto simp: wid_def slug err_simps split: option.splits)
  moreover have "(\<forall>r \<in> set (db_passwords db). fst r \<noteq> acc_id a)"
    using st(2) by (auto simp: err_simps password_clash_def)
  moreover have "acc_id a \<noteq> []" using acc by (auto simp: requireAccount_def split: if_splits)
  moreover have "ws_id w \<noteq> []" using wv by (auto simp: Workspace_Validate_def err_simps slug)
  ultimately show ?thesis
    using e ins [OF st(1)] ins [OF st(2)] ins [OF st(4)] ins [OF st(5)]
    by (force simp: db' active_member_def)
qed

lemma bootstrap_login:
  assumes "store_BootstrapFirstAdmin now a h w i3 i4 db = Inr db'"
    and a: "acc_email a = NormalizeEmail email" "acc_status a = AccountActive" and m: "matches h password"
    and new: "i \<noteq> [] \<and> hash token \<noteq> [] \<and> hash csrf \<noteq> [] \<and> t + ttl \<noteq> 0 \<and>
        (\<forall>s \<in> set (db_sessions db). ses_id s \<noteq> i \<and> ses_token_hash s \<noteq> hash token)"
  shows "\<exists>r. Login hash matches ttl t token csrf i email password db' = Inr r"
proof -
  note D = bootstrap_D [OF assms(1)]
  have f: "FindAccountByEmail (NormalizeEmail email) db' = Inr a"
    using D a by (simp add: FindAccountByEmail_def)
  have "\<forall>r \<in> set (db_passwords db). fst r \<noteq> acc_id a" using D by blast
  then have "List.find (\<lambda>r. fst r = acc_id a) (db_passwords db) = None" unfolding find_None_iff by blast
  then have g: "GetPasswordHash (acc_id a) db' = Inr h"
    using D by (simp add: GetPasswordHash_def find_append)
  have "\<exists>db''. CreateSession t \<lparr>ses_id = i, ses_account = acc_id a, ses_token_hash = hash token,
     ses_csrf_hash = hash csrf, ses_expires = t + ttl, ses_created = t, ses_revoked = None\<rparr> db' = Inr db''"
    using D new by (auto simp: CreateSession_def Let_def require_row_def insert_row_def list_ex_iff
        session_clash_def IsZero_def)
  then show ?thesis using f g a(2) m by (auto simp: Login_def Let_def)
qed

lemma provider_bootstrap_D:
  assumes "LocalProvider_BootstrapFirstAdmin generate now i1 i2 i3 i4 email password name db = Inr (a, w, db')"
  shows "\<exists>h. generate password = Some h \<and> store_BootstrapFirstAdmin now a h w i3 i4 db = Inr db' \<and>
           acc_email a = NormalizeEmail email \<and> acc_status a = AccountActive \<and>
           (case List.find (\<lambda>r. ws_slug r = ws_slug w) (db_workspaces db) of
              None \<Rightarrow> True | Some r \<Rightarrow> r = w)"
proof -
  have t: "trim_space ''default'' = ''default''" by code_simp
  obtain h where h: "HashPassword generate password = Inr h"
      "store_BootstrapFirstAdmin now a h w i3 i4 db = Inr db'"
    and a: "acc_email a = NormalizeEmail email" "acc_status a = AccountActive"
    and w: "w = (case GetWorkspaceBySlug ''default'' db of
              Inl _ \<Rightarrow> \<lparr>ws_id = i2, ws_slug = ''default'', ws_name = ''Default Workspace'',
                        ws_status = WorkspaceActive, ws_created = now, ws_updated = now\<rparr>
            | Inr existing \<Rightarrow> existing)"
    using assms
    by (auto simp: LocalProvider_BootstrapFirstAdmin_def Let_def bind_result_Inr split: if_splits)
  have "generate password = Some h"
    using h(1) by (auto simp: HashPassword_def split: if_splits option.splits)
  moreover have "case List.find (\<lambda>r. ws_slug r = ws_slug w) (db_workspaces db) of None \<Rightarrow> True | Some r \<Rightarrow> r = w"
  proof (cases "List.find (\<lambda>r. ws_slug r = ''default'') (db_workspaces db)")
    case None
    then show ?thesis by (simp add: w GetWorkspaceBySlug_def t)
  next
    case (Some r)
    then have "ws_slug r = ''default''" using find_SomeD by fast
    with Some show ?thesis by (simp add: w GetWorkspaceBySlug_def t)
  qed
  ultimately show ?thesis using h(2) a by blast
qed

text \<open>
  Bootstrapping makes an installation usable and happens once. The account it returns may
  administer the workspace it returns in every scope, and can log in with the given password
  wherever bcrypt accepts the password it hashed. On an installation that has an account, every
  further attempt fails.
\<close>

theorem BootstrapFirstAdmin_once:
  assumes "LocalProvider_BootstrapFirstAdmin generate now i1 i2 i3 i4 email password name db = Inr (a, w, db')"
    and "\<And>p h. generate p = Some h \<Longrightarrow> matches h p"
  shows "(\<forall>role scope. supported_role role \<longrightarrow> Authorize (acc_id a) (ws_id w) role scope db' = Inr ()) \<and>
         (\<forall>hash ttl t token csrf i. i \<noteq> [] \<and> hash token \<noteq> [] \<and> hash csrf \<noteq> [] \<and> t + ttl \<noteq> 0 \<and>
            (\<forall>s \<in> set (db_sessions db). ses_id s \<noteq> i \<and> ses_token_hash s \<noteq> hash token) \<longrightarrow>
            (\<exists>r. Login hash matches ttl t token csrf i email password db' = Inr r)) \<and>
         (\<forall>g n j1 j2 j3 j4 em p nm. \<exists>e.
            LocalProvider_BootstrapFirstAdmin g n j1 j2 j3 j4 em p nm db' = Inl e)"
proof (intro conjI allI impI)
  obtain h where h: "generate password = Some h" "store_BootstrapFirstAdmin now a h w i3 i4 db = Inr db'"
    and a: "acc_email a = NormalizeEmail email" "acc_status a = AccountActive"
    and w: "case List.find (\<lambda>r. ws_slug r = ws_slug w) (db_workspaces db) of None \<Rightarrow> True | Some r \<Rightarrow> r = w"
    using provider_bootstrap_D [OF assms(1)] by blast
  have wid: "(case List.find (\<lambda>r. ws_slug r = ws_slug w) (db_workspaces db) of
       None \<Rightarrow> ws_id w | Some r \<Rightarrow> ws_id r) = ws_id w" using w by (auto split: option.splits)
  note D = bootstrap_D [OF h(2), unfolded wid]
  show "Authorize (acc_id a) (ws_id w) role scope db' = Inr ()" if "supported_role role" for role scope
  proof -
    obtain m b where "m \<in> set (db_memberships db')" "b \<in> set (db_bindings db')"
      "active_member (acc_id a) (ws_id w) m" "rb_workspace b = ws_id w" "rb_membership b = wm_id m"
      "rb_role b = RoleAdmin" "rb_scope_type b = ''workspace''" using D by blast
    moreover have "role_rank role \<le> role_rank RoleAdmin" by (simp add: role_rank_def)
    ultimately have "grants db' (acc_id a) (ws_id w) role scope"
      unfolding grants_def active_member_def by force
    then show ?thesis using D that by (simp add: Authorize_grants)
  qed
  show "\<exists>r. Login hash matches ttl t token csrf i email password db' = Inr r"
    if "i \<noteq> [] \<and> hash token \<noteq> [] \<and> hash csrf \<noteq> [] \<and> t + ttl \<noteq> 0 \<and>
        (\<forall>s \<in> set (db_sessions db). ses_id s \<noteq> i \<and> ses_token_hash s \<noteq> hash token)"
    for hash ttl t token csrf i
    using h(2) a assms(2) [OF h(1)] that by (rule bootstrap_login)
  show "\<exists>e. LocalProvider_BootstrapFirstAdmin g n j1 j2 j3 j4 em p nm db' = Inl e" for g n j1 j2 j3 j4 em p nm
  proof (cases "LocalProvider_BootstrapFirstAdmin g n j1 j2 j3 j4 em p nm db'")
    case (Inr r)
    then obtain a2 w2 db2 where "LocalProvider_BootstrapFirstAdmin g n j1 j2 j3 j4 em p nm db' = Inr (a2, w2, db2)"
      by (metis prod_cases3)
    from provider_bootstrap_D [OF this] obtain h2 where
      "store_BootstrapFirstAdmin n a2 h2 w2 j3 j4 db' = Inr db2" by blast
    from bootstrap_D [OF this] have "db_accounts db' = []" by (rule conjunct1)
    then show ?thesis using D by simp
  qed simp
qed

theorem BootstrapFirstAdmin_once_witness:
  "\<exists>a w. sample_admin = Inr (a, w, sample_auth_db) \<and>
     Authorize (acc_id a) (ws_id w) RoleOperator \<lparr>scope_type = ''connection'', scope_id = ''c1''\<rparr>
       sample_auth_db = Inr ()"
proof -
  obtain a w where s: "sample_admin = Inr (a, w, sample_auth_db)" using sample_bootstrap by blast
  note B = BootstrapFirstAdmin_once [OF s [unfolded sample_admin_def], of "\<lambda>h p. h = p"]
  have "Authorize (acc_id a) (ws_id w) RoleOperator \<lparr>scope_type = ''connection'', scope_id = ''c1''\<rparr>
       sample_auth_db = Inr ()"
    using conjunct1 [OF B] by (simp add: supported_role_def)
  with s show ?thesis by blast
qed

end
