(* ===== verification/RuntimeStore.thy ===== *)
theory RuntimeStore
  imports Tables GoValue
begin

text \<open>
  The run-time tables of \<open>store/runtime.go\<close>: inbound events, flow executions, node executions and
  jobs, with the operations that write and read them. The Go entities are the rows; a column that
  holds JSON holds the document, so a payload is marshalled on the way in and unmarshalled on the
  way out. \<open>hash_payload\<close> is the digest of a document, fresh identifiers and the clock are
  arguments. Where an insert both meets the identity that it is told to ignore and repeats a
  primary key, the identity decides.
\<close>

section \<open>Entities\<close>

record inbound_event =
  ie_id :: ID
  ie_workspace :: ID
  ie_connection :: ID
  ie_provider :: string
  ie_source_instance :: ID
  ie_source_project :: string
  ie_behavior_key :: string
  ie_behavior_version :: string
  ie_delivery :: string
  ie_payload :: gobj
  ie_payload_hash :: string
  ie_received :: gtime
  ie_retention :: "gtime option"

record flow_execution =
  fx_id :: ID
  fx_workspace :: ID
  fx_connection :: ID
  fx_flow :: ID
  fx_version_id :: ID
  fx_version :: int
  fx_event :: ID
  fx_delivery :: string
  fx_key :: string
  fx_correlation :: string
  fx_status :: string
  fx_attention :: string
  fx_attention_actor :: ID
  fx_attention_updated :: "gtime option"
  fx_current_node :: ID
  fx_requests :: "string list"
  fx_error_category :: string
  fx_error_message :: string
  fx_created :: gtime
  fx_updated :: gtime

record node_execution =
  nx_id :: ID
  nx_workspace :: ID
  nx_execution :: ID
  nx_node :: ID
  nx_status :: string
  nx_attempt :: int
  nx_input :: gobj
  nx_output :: gobj
  nx_error_category :: string
  nx_error_message :: string
  nx_request :: string
  nx_retention :: "gtime option"

record job =
  job_id :: ID
  job_workspace :: ID
  job_kind :: string
  job_payload :: gobj
  job_available :: gtime
  job_lease :: "gtime option"
  job_leased_by :: string
  job_attempts :: int
  job_status :: string
  job_created :: gtime
  job_updated :: gtime

text \<open>The rows, and of the tables they refer to the keys: flows and versions with their workspace.\<close>

record runtime_db =
  rd_workspaces :: "ID list"
  rd_connections :: "ID list"
  rd_flows :: "(ID \<times> ID) list"
  rd_versions :: "((ID \<times> ID) \<times> ID) list"
  rd_events :: "inbound_event list"
  rd_executions :: "flow_execution list"
  rd_nodes :: "node_execution list"
  rd_jobs :: "job list"

abbreviation ProviderGitLab :: string where "ProviderGitLab \<equiv> ''gitlab''"
abbreviation ProviderMultica :: string where "ProviderMultica \<equiv> ''multica''"

abbreviation NodeQueued :: string where "NodeQueued \<equiv> ''queued''"
abbreviation NodeRunning :: string where "NodeRunning \<equiv> ''running''"
abbreviation NodeSucceeded :: string where "NodeSucceeded \<equiv> ''succeeded''"
abbreviation NodeFailed :: string where "NodeFailed \<equiv> ''failed''"
abbreviation NodeSkipped :: string where "NodeSkipped \<equiv> ''skipped''"
abbreviation NodeIndeterminate :: string where "NodeIndeterminate \<equiv> ''indeterminate''"

section \<open>Keys and columns\<close>

text \<open>The identity of a delivery: what makes two webhook requests the same event.\<close>

definition delivery_identity :: "inbound_event \<Rightarrow> ID \<times> ID \<times> string \<times> string \<times> string \<times> string" where
  "delivery_identity e =
     (ie_workspace e, ie_source_instance e, ie_source_project e, ie_behavior_key e,
      ie_behavior_version e, ie_delivery e)"

definition execution_key :: "flow_execution \<Rightarrow> ID \<times> string" where
  "execution_key x = (fx_workspace x, fx_key x)"

definition same_event_id :: "inbound_event \<Rightarrow> inbound_event \<Rightarrow> bool" where
  "same_event_id a b \<longleftrightarrow> ie_id a = ie_id b"

definition execution_clash :: "flow_execution \<Rightarrow> flow_execution \<Rightarrow> bool" where
  "execution_clash a b \<longleftrightarrow> fx_id a = fx_id b \<or> execution_key a = execution_key b"

definition node_clash :: "node_execution \<Rightarrow> node_execution \<Rightarrow> bool" where
  "node_clash a b \<longleftrightarrow>
     nx_id a = nx_id b \<or>
     nx_workspace a = nx_workspace b \<and> nx_execution a = nx_execution b \<and> nx_node a = nx_node b \<and>
     nx_attempt a = nx_attempt b"

definition job_clash :: "job \<Rightarrow> job \<Rightarrow> bool" where
  "job_clash a b \<longleftrightarrow> job_id a = job_id b"

interpretation execution_by_key: unique_key execution_key execution_clash
  by unfold_locales (simp add: execution_clash_def)

interpretation execution_by_id: unique_key fx_id execution_clash
  by unfold_locales (simp add: execution_clash_def)

interpretation job_by_id: unique_key job_id job_clash
  by unfold_locales (simp add: job_clash_def)

definition marshalJSON :: "gobj \<Rightarrow> gerr + gobj" where
  "marshalJSON m =
     (case json_marshal (VObj m) of
        None \<Rightarrow> Inl (Plain ''json'')
      | Some d \<Rightarrow> Inr (case as_obj d of None \<Rightarrow> [] | Some doc \<Rightarrow> doc))"

definition unmarshalJSON :: "string \<Rightarrow> gobj \<Rightarrow> gerr + gobj" where
  "unmarshalJSON operation doc =
     (case json_unmarshal (VObj doc) of
        None \<Rightarrow> Inl (Plain operation)
      | Some d \<Rightarrow> Inr (case as_obj d of None \<Rightarrow> [] | Some m \<Rightarrow> m))"

definition truncateMessage :: "string \<Rightarrow> string" where
  "truncateMessage message = (if length message > 1000 then take 1000 message else message)"

definition or_default :: "'a \<Rightarrow> ('a \<Rightarrow> bool) \<Rightarrow> 'a \<Rightarrow> 'a" where
  "or_default x unset d = (if unset x then d else x)"

section \<open>Attention\<close>

definition normalizeExecutionAttention :: "flow_execution \<Rightarrow> flow_execution" where
  "normalizeExecutionAttention x =
     (if \<not> IsActionableExecutionStatus (fx_status x)
      then x\<lparr>fx_attention := ExecutionAttentionNone, fx_attention_actor := [], fx_attention_updated := None\<rparr>
      else if fx_attention x = ExecutionAttentionOpen \<or> fx_attention x = ExecutionAttentionAcknowledged then x
      else x\<lparr>fx_attention := ExecutionAttentionOpen, fx_attention_actor := [], fx_attention_updated := None\<rparr>)"

section \<open>Events\<close>

definition insert_event :: "string \<Rightarrow> inbound_event \<Rightarrow> runtime_db \<Rightarrow> gerr + runtime_db" where
  "insert_event operation e db =
     (if list_ex (\<lambda>r. delivery_identity r = delivery_identity e) (rd_events db) then Inr db
      else bind_result (require_row operation
             (ie_workspace e \<in> set (rd_workspaces db) \<and> ie_connection e \<in> set (rd_connections db))) (\<lambda>_.
           bind_result (insert_row operation same_event_id e (rd_events db)) (\<lambda>rows.
             Inr (db\<lparr>rd_events := rows\<rparr>))))"

definition event_of_delivery :: "inbound_event \<Rightarrow> runtime_db \<Rightarrow> inbound_event option" where
  "event_of_delivery e db = List.find (\<lambda>r. delivery_identity r = delivery_identity e) (rd_events db)"

definition read_event :: "inbound_event \<Rightarrow> gerr + inbound_event" where
  "read_event r =
     bind_result (unmarshalJSON ''decode inbound event'' (ie_payload r)) (\<lambda>p. Inr (r\<lparr>ie_payload := p\<rparr>))"

definition GetInboundEvent :: "ID \<Rightarrow> ID \<Rightarrow> runtime_db \<Rightarrow> gerr + inbound_event" where
  "GetInboundEvent workspaceID eventID db =
     (case List.find (\<lambda>r. ie_workspace r = workspaceID \<and> ie_id r = eventID) (rd_events db) of
        None \<Rightarrow> fail ErrNotFound (''inbound event '' @ eventID)
      | Some r \<Rightarrow> read_event r)"

definition GetInboundEventByDelivery :: "inbound_event \<Rightarrow> runtime_db \<Rightarrow> gerr + inbound_event" where
  "GetInboundEventByDelivery e db =
     (case event_of_delivery e db of
        None \<Rightarrow> fail ErrNotFound (''inbound event delivery '' @ ie_delivery e)
      | Some r \<Rightarrow> GetInboundEvent (ie_workspace e) (ie_id r) db)"

definition SaveInboundEvent ::
  "(gobj \<Rightarrow> string) \<Rightarrow> gtime \<Rightarrow> ID \<Rightarrow> inbound_event \<Rightarrow> runtime_db \<Rightarrow> gerr + inbound_event \<times> runtime_db" where
  "SaveInboundEvent hash_payload now newID e0 db =
     (let e1 = e0\<lparr>ie_id := or_default (ie_id e0) (\<lambda>i. i = []) newID\<rparr>
      in bind_result (requireWorkspaceID (ie_workspace e1)) (\<lambda>_.
         if ie_connection e1 = [] \<or> ie_source_instance e1 = [] \<or> blank (ie_source_project e1) \<or>
            blank (ie_behavior_key e1) \<or> blank (ie_behavior_version e1) \<or> blank (ie_delivery e1)
         then fail ErrInvalid ''incomplete inbound event identity''
         else bind_result (marshalJSON (ie_payload e1)) (\<lambda>payload.
           let e = e1\<lparr>ie_provider := or_default (ie_provider e1) (\<lambda>p. p = []) ProviderGitLab,
                      ie_received := or_default (ie_received e1) IsZero now,
                      ie_payload := payload,
                      ie_payload_hash := or_default (ie_payload_hash e1) (\<lambda>h. h = []) (hash_payload payload)\<rparr>
           in bind_result (insert_event ''save inbound event'' e db) (\<lambda>db'.
              bind_result (GetInboundEventByDelivery e db') (\<lambda>stored. Inr (stored, db'))))))"

section \<open>Executions\<close>

definition GetFlowExecution :: "ID \<Rightarrow> ID \<Rightarrow> runtime_db \<Rightarrow> gerr + flow_execution" where
  "GetFlowExecution workspaceID executionID db =
     (case List.find (\<lambda>r. fx_workspace r = workspaceID \<and> fx_id r = executionID) (rd_executions db) of
        None \<Rightarrow> fail ErrNotFound (''FlowExecution '' @ executionID)
      | Some r \<Rightarrow> Inr (normalizeExecutionAttention r))"

definition execution_references :: "flow_execution \<Rightarrow> runtime_db \<Rightarrow> bool" where
  "execution_references x db \<longleftrightarrow>
     fx_workspace x \<in> set (rd_workspaces db) \<and> fx_connection x \<in> set (rd_connections db) \<and>
     fx_flow x \<in> fst ` set (rd_flows db) \<and> fx_version_id x \<in> fst ` fst ` set (rd_versions db)"

definition job_defaults :: "gtime \<Rightarrow> job \<Rightarrow> job" where
  "job_defaults now j =
     (let available = or_default (job_available j) IsZero now;
          created = or_default (job_created j) IsZero available
      in j\<lparr>job_available := available, job_created := created,
           job_updated := or_default (job_updated j) IsZero created\<rparr>)"

definition insert_job_row :: "string \<Rightarrow> job \<Rightarrow> runtime_db \<Rightarrow> gerr + runtime_db" where
  "insert_job_row operation j db =
     bind_result (require_row operation (job_workspace j \<in> set (rd_workspaces db))) (\<lambda>_.
     bind_result (insert_row operation job_clash j (rd_jobs db)) (\<lambda>rows. Inr (db\<lparr>rd_jobs := rows\<rparr>)))"

definition insertJobTx :: "gtime \<Rightarrow> ID \<Rightarrow> job \<Rightarrow> runtime_db \<Rightarrow> gerr + runtime_db" where
  "insertJobTx now newID j0 db =
     (let j1 = j0\<lparr>job_id := or_default (job_id j0) (\<lambda>i. i = []) newID\<rparr>
      in bind_result (requireWorkspaceID (job_workspace j1)) (\<lambda>_.
         if blank (job_kind j1) then fail ErrInvalid ''job kind is required''
         else let j2 = job_defaults now (j1\<lparr>job_status := or_default (job_status j1) (\<lambda>s. s = []) ''queued''\<rparr>)
           in bind_result (marshalJSON (job_payload j2)) (\<lambda>payload.
                insert_job_row ''enqueue job'' (j2\<lparr>job_payload := payload\<rparr>) db)))"

definition EnqueueJob :: "gtime \<Rightarrow> ID \<Rightarrow> job \<Rightarrow> runtime_db \<Rightarrow> gerr + runtime_db" where
  "EnqueueJob now newID j db = insertJobTx now newID j db"

definition execution_times :: "gtime \<Rightarrow> flow_execution \<Rightarrow> flow_execution" where
  "execution_times now x =
     (let created = or_default (fx_created x) IsZero now
      in x\<lparr>fx_created := created, fx_updated := or_default (fx_updated x) IsZero created\<rparr>)"

definition insertFlowExecutionTx :: "gtime \<Rightarrow> flow_execution \<Rightarrow> runtime_db \<Rightarrow> gerr + runtime_db" where
  "insertFlowExecutionTx now x0 db =
     (if fx_id x0 = [] \<or> fx_event x0 = [] \<or> fx_version_id x0 = [] \<or> fx_connection x0 = [] \<or>
         fx_flow x0 = [] \<or> blank (fx_key x0) \<or> blank (fx_correlation x0)
      then fail ErrInvalid ''incomplete FlowExecution''
      else bind_result (requireWorkspaceID (fx_workspace x0)) (\<lambda>_.
        let x = execution_times now (normalizeExecutionAttention
                  (x0\<lparr>fx_status := or_default (fx_status x0) (\<lambda>s. s = []) ExecutionQueued\<rparr>))
        in case map_of (rd_flows db) (fx_flow x) of
             None \<Rightarrow> fail ErrNotFound (''flow '' @ fx_flow x)
           | Some w \<Rightarrow>
               if w \<noteq> fx_workspace x then fail ErrForbidden ''execution Flow belongs to another workspace''
               else case map_of (rd_versions db) (fx_version_id x, fx_flow x) of
                 None \<Rightarrow> fail ErrNotFound (''FlowVersion '' @ fx_version_id x)
               | Some vw \<Rightarrow>
                   if vw \<noteq> fx_workspace x
                   then fail ErrForbidden ''execution FlowVersion belongs to another workspace''
                   else bind_result (require_row ''create FlowExecution'' (execution_references x db)) (\<lambda>_.
                        bind_result (insert_row ''create FlowExecution'' execution_clash x (rd_executions db))
                          (\<lambda>rows. Inr (db\<lparr>rd_executions := rows\<rparr>)))))"

definition CreateFlowExecution :: "gtime \<Rightarrow> flow_execution \<Rightarrow> runtime_db \<Rightarrow> gerr + runtime_db" where
  "CreateFlowExecution now x db = insertFlowExecutionTx now x db"

definition CreateFlowExecutionAndEnqueue ::
  "gtime \<Rightarrow> ID \<Rightarrow> flow_execution \<Rightarrow> job \<Rightarrow> runtime_db \<Rightarrow> gerr + runtime_db" where
  "CreateFlowExecutionAndEnqueue now newID x j db =
     bind_result (insertFlowExecutionTx now x db) (insertJobTx now newID j)"

text \<open>
  One delivery and its execution, in one transaction: the defaults and checks of the three rows
  come first, then the event, the execution it resolves to and, for a new execution, its job.
\<close>

definition accept_prepared ::
  "(gobj \<Rightarrow> string) \<Rightarrow> gtime \<Rightarrow> ID \<Rightarrow> ID \<Rightarrow> ID \<Rightarrow> inbound_event \<Rightarrow> flow_execution \<Rightarrow> job \<Rightarrow>
   gerr + inbound_event \<times> flow_execution \<times> job" where
  "accept_prepared hash_payload now i1 i2 i3 e0 x0 j0 =
     (let e1 = e0\<lparr>ie_id := or_default (ie_id e0) (\<lambda>i. i = []) i1\<rparr>;
          x1 = x0\<lparr>fx_id := or_default (fx_id x0) (\<lambda>i. i = []) i2\<rparr>;
          j1 = j0\<lparr>job_id := or_default (job_id j0) (\<lambda>i. i = []) i3\<rparr>
      in bind_result (requireWorkspaceID (ie_workspace e1)) (\<lambda>_.
         if ie_workspace e1 \<noteq> fx_workspace x1 \<or> ie_connection e1 \<noteq> fx_connection x1
         then fail ErrInvalid ''inbound event and execution scope mismatch''
         else let x2 = x1\<lparr>fx_event := or_default (fx_event x1) (\<lambda>i. i = []) (ie_id e1)\<rparr>
         in if fx_event x2 \<noteq> ie_id e1 then fail ErrInvalid ''execution event mismatch''
         else let x3 = normalizeExecutionAttention
                    (x2\<lparr>fx_status := or_default (fx_status x2) (\<lambda>s. s = []) ExecutionQueued\<rparr>);
                  j2 = j1\<lparr>job_workspace := or_default (job_workspace j1) (\<lambda>w. w = []) (ie_workspace e1)\<rparr>
         in if job_workspace j2 \<noteq> ie_workspace e1 then fail ErrInvalid ''job workspace mismatch''
         else let j3 = job_defaults now
                    (j2\<lparr>job_kind := or_default (job_kind j2) blank ''flow.execute'',
                        job_status := or_default (job_status j2) blank ''queued''\<rparr>)
         in bind_result (marshalJSON (ie_payload e1)) (\<lambda>payload.
            bind_result (marshalJSON (job_payload j3)) (\<lambda>jobPayload.
              Inr (e1\<lparr>ie_received := or_default (ie_received e1) IsZero now, ie_payload := payload,
                      ie_payload_hash := or_default (ie_payload_hash e1) (\<lambda>h. h = []) (hash_payload payload)\<rparr>,
                   (execution_times now x3)\<lparr>fx_error_message := truncateMessage (fx_error_message x3)\<rparr>,
                   j3\<lparr>job_payload := jobPayload\<rparr>)))))"

definition accept_execution ::
  "flow_execution \<Rightarrow> job \<Rightarrow> runtime_db \<Rightarrow> gerr + flow_execution \<times> bool \<times> runtime_db" where
  "accept_execution x j db =
     (case List.find (\<lambda>r. execution_key r = execution_key x) (rd_executions db) of
        Some existing \<Rightarrow>
          bind_result (GetFlowExecution (fx_workspace x) (fx_id existing) db) (\<lambda>found.
            Inr (found, False, db))
      | None \<Rightarrow>
          bind_result (require_row ''accept FlowExecution'' (execution_references x db)) (\<lambda>_.
          bind_result (insert_row ''accept FlowExecution'' execution_clash x (rd_executions db)) (\<lambda>rows.
          bind_result (insert_job_row ''enqueue accepted FlowExecution'' j (db\<lparr>rd_executions := rows\<rparr>)) (\<lambda>db2.
          bind_result (GetFlowExecution (fx_workspace x) (fx_id x) db2) (\<lambda>created.
            Inr (created, True, db2))))))"

definition AcceptInboundEvent ::
  "(gobj \<Rightarrow> string) \<Rightarrow> gtime \<Rightarrow> ID \<Rightarrow> ID \<Rightarrow> ID \<Rightarrow> inbound_event \<Rightarrow> flow_execution \<Rightarrow> job \<Rightarrow> runtime_db \<Rightarrow>
   gerr + flow_execution \<times> bool \<times> runtime_db" where
  "AcceptInboundEvent hash_payload now i1 i2 i3 e0 x0 j0 db =
     bind_result (accept_prepared hash_payload now i1 i2 i3 e0 x0 j0) (\<lambda>(e, x, j).
     bind_result (insert_event ''accept inbound event'' e db) (\<lambda>db1.
       case event_of_delivery e db1 of
         None \<Rightarrow> Inl (Plain ''resolve accepted inbound event'')
       | Some stored \<Rightarrow> accept_execution (x\<lparr>fx_event := ie_id stored\<rparr>) j db1))"

definition RequeueFlowExecution ::
  "gtime \<Rightarrow> ID \<Rightarrow> flow_execution \<Rightarrow> job \<Rightarrow> runtime_db \<Rightarrow> gerr + runtime_db" where
  "RequeueFlowExecution now newID x j0 db =
     (if fx_status x \<noteq> ExecutionQueued
      then fail ErrInvalid ''requeued execution must have queued status''
      else bind_result (requireWorkspaceID (fx_workspace x)) (\<lambda>_.
        let j = j0\<lparr>job_workspace := or_default (job_workspace j0) (\<lambda>w. w = []) (fx_workspace x)\<rparr>
        in if job_workspace j \<noteq> fx_workspace x then fail ErrInvalid ''retry job workspace mismatch''
        else let target = (\<lambda>r. fx_workspace r = fx_workspace x \<and> fx_id r = fx_id x)
        in if \<not> list_ex (\<lambda>r. target r \<and> IsActionableExecutionStatus (fx_status r)) (rd_executions db)
           then case List.find target (rd_executions db) of
                  None \<Rightarrow> fail ErrNotFound (''FlowExecution '' @ fx_id x)
                | Some r \<Rightarrow> fail ErrConflict
                    (''FlowExecution '' @ fx_id x @ '' is '' @ fx_status r @ '' and cannot be retried'')
           else insertJobTx now newID j
             (db\<lparr>rd_executions := update_rows (\<lambda>r. target r \<and> IsActionableExecutionStatus (fx_status r))
                (\<lambda>r. r\<lparr>fx_status := ExecutionQueued, fx_attention := ExecutionAttentionNone,
                       fx_attention_actor := [], fx_attention_updated := None,
                       fx_current_node := fx_current_node x, fx_requests := fx_requests x,
                       fx_error_category := fx_error_category x,
                       fx_error_message := truncateMessage (fx_error_message x), fx_updated := now\<rparr>)
                (rd_executions db)\<rparr>)))"

definition UpdateFlowExecution :: "gtime \<Rightarrow> flow_execution \<Rightarrow> runtime_db \<Rightarrow> gerr + runtime_db" where
  "UpdateFlowExecution now x0 db =
     bind_result (requireWorkspaceID (fx_workspace x0)) (\<lambda>_.
       let x = normalizeExecutionAttention x0;
           target = (\<lambda>r. fx_workspace r = fx_workspace x \<and> fx_id r = fx_id x)
       in if \<not> list_ex target (rd_executions db) then fail ErrNotFound (''FlowExecution '' @ fx_id x)
          else Inr (db\<lparr>rd_executions := update_rows target
                 (\<lambda>r. r\<lparr>fx_status := fx_status x, fx_attention := fx_attention x,
                        fx_attention_actor := fx_attention_actor x,
                        fx_attention_updated := fx_attention_updated x,
                        fx_current_node := fx_current_node x, fx_requests := fx_requests x,
                        fx_error_category := fx_error_category x,
                        fx_error_message := truncateMessage (fx_error_message x), fx_updated := now\<rparr>)
                 (rd_executions db)\<rparr>))"

section \<open>Node executions\<close>

definition CreateNodeExecution :: "node_execution \<Rightarrow> runtime_db \<Rightarrow> gerr + runtime_db" where
  "CreateNodeExecution n db =
     (if nx_id n = [] \<or> nx_execution n = [] \<or> nx_node n = [] \<or> nx_attempt n < 0
      then fail ErrInvalid ''incomplete NodeExecution''
      else bind_result (requireWorkspaceID (nx_workspace n)) (\<lambda>_.
           bind_result (marshalJSON (nx_input n)) (\<lambda>inp.
           bind_result (marshalJSON (nx_output n)) (\<lambda>outp.
           bind_result (require_row ''create NodeExecution''
             (nx_workspace n \<in> set (rd_workspaces db) \<and> nx_execution n \<in> set (map fx_id (rd_executions db)))) (\<lambda>_.
           bind_result (insert_row ''create NodeExecution'' node_clash
             (n\<lparr>nx_status := or_default (nx_status n) (\<lambda>s. s = []) NodeQueued, nx_input := inp, nx_output := outp,
                nx_error_message := truncateMessage (nx_error_message n)\<rparr>) (rd_nodes db)) (\<lambda>rows.
             Inr (db\<lparr>rd_nodes := rows\<rparr>)))))))"

definition UpdateNodeExecution :: "node_execution \<Rightarrow> runtime_db \<Rightarrow> gerr + runtime_db" where
  "UpdateNodeExecution n db =
     bind_result (marshalJSON (nx_input n)) (\<lambda>inp.
     bind_result (marshalJSON (nx_output n)) (\<lambda>outp.
       let target = (\<lambda>r. nx_workspace r = nx_workspace n \<and> nx_id r = nx_id n)
       in if \<not> list_ex target (rd_nodes db) then fail ErrNotFound (''NodeExecution '' @ nx_id n)
          else Inr (db\<lparr>rd_nodes := update_rows target
                 (\<lambda>r. r\<lparr>nx_status := nx_status n, nx_input := inp, nx_output := outp,
                        nx_error_category := nx_error_category n,
                        nx_error_message := truncateMessage (nx_error_message n),
                        nx_request := nx_request n, nx_retention := nx_retention n\<rparr>) (rd_nodes db)\<rparr>)))"

definition ListNodeExecutions :: "ID \<Rightarrow> ID \<Rightarrow> runtime_db \<Rightarrow> gerr + node_execution list" where
  "ListNodeExecutions workspaceID executionID db =
     map_result (\<lambda>r. bind_result (unmarshalJSON ''json'' (nx_input r)) (\<lambda>inp.
                     bind_result (unmarshalJSON ''json'' (nx_output r)) (\<lambda>outp.
                       Inr (r\<lparr>nx_input := inp, nx_output := outp\<rparr>))))
       (sort_key (\<lambda>r. (nx_attempt r, nx_node r))
         (filter (\<lambda>r. nx_workspace r = workspaceID \<and> nx_execution r = executionID) (rd_nodes db)))"

section \<open>Retention\<close>

definition expired :: "gtime \<Rightarrow> gtime option \<Rightarrow> bool" where
  "expired now retention \<longleftrightarrow>
     (case retention of None \<Rightarrow> False | Some t \<Rightarrow> stored_time t \<le> stored_time now)"

definition PurgeExpiredRuntimePayloads :: "gtime \<Rightarrow> gtime \<Rightarrow> runtime_db \<Rightarrow> int \<times> runtime_db" where
  "PurgeExpiredRuntimePayloads clock now0 db =
     (let now = or_default now0 IsZero clock;
          stale_event = (\<lambda>e. expired now (ie_retention e) \<and> ie_payload e \<noteq> []);
          stale_node = (\<lambda>n. expired now (nx_retention n) \<and> (nx_input n \<noteq> [] \<or> nx_output n \<noteq> []))
      in (int (length (filter stale_event (rd_events db))) + int (length (filter stale_node (rd_nodes db))),
          db\<lparr>rd_events := update_rows stale_event (\<lambda>e. e\<lparr>ie_payload := []\<rparr>) (rd_events db),
             rd_nodes := update_rows stale_node (\<lambda>n. n\<lparr>nx_input := [], nx_output := []\<rparr>) (rd_nodes db)\<rparr>))"

end
