(* ===== verification/Registry.thy ===== *)
theory Registry
  imports Domain
begin

text \<open>
  \<open>internal/registry/registry.go\<close>: the rules an administrator's connector behavior or data model
  must meet, the allowlist of deployed adapters, and the validation of a bundle of definitions.
  \<open>ValidateBehavior\<close> is the client of the \<open>AdapterCatalog\<close> interface, stated as the locale
  \<open>adapter_catalog\<close> and interpreted on \<open>AdapterAllowlist\<close>.
\<close>

section \<open>Definitions of behaviors and data models\<close>

definition StableKey :: "string \<Rightarrow> string \<Rightarrow> string" where
  "StableKey key version = trim_space key @ ''@'' @ trim_space version"

text \<open>An \<open>AdapterCatalog\<close> that may be nil is an optional predicate.\<close>

definition ValidateBehavior :: "behavior \<Rightarrow> (string \<Rightarrow> bool) option \<Rightarrow> gerr + unit" where
  "ValidateBehavior item adapters =
     (if blank (bh_type_key item) \<or> blank (bh_type_version item) \<or> blank (bh_key item) \<or>
         blank (bh_version item) \<or> blank (bh_display_name item) \<or> blank (bh_operation item)
      then fail ErrInvalid ''behavior type, key, version, display name and adapter operation are required''
      else if bh_direction item \<noteq> DirectionInput \<and> bh_direction item \<noteq> DirectionOutput
      then fail ErrInvalid ''behavior direction is invalid''
      else if bh_capabilities item = []
      then fail ErrInvalid (''behavior '' @ bh_key item @ '' must declare required capabilities'')
      else if blank (bh_idempotency item)
      then fail ErrInvalid (''behavior '' @ bh_key item @ '' must declare an idempotency strategy'')
      else if blank (bh_reconciliation item)
      then fail ErrInvalid (''behavior '' @ bh_key item @ '' must declare reconciliation capability'')
      else if bh_direction item = DirectionInput \<and> blank (bh_output_model item)
      then fail ErrInvalid (''input behavior '' @ bh_key item @ '' must declare an output model'')
      else if bh_direction item = DirectionOutput \<and> blank (bh_input_model item)
      then fail ErrInvalid (''output behavior '' @ bh_key item @ '' must declare an input model'')
      else if adapters = None \<or> \<not> the adapters (bh_operation item)
      then fail ErrForbidden (''adapter operation '' @ bh_operation item @
             '' is not deployed and allowlisted'')
      else Inr ())"

definition executable_key :: "string \<Rightarrow> bool" where
  "executable_key key =
     (to_lower (trim_space key) \<in> {''script'', ''code'', ''program'', ''expression''})"

fun containsExecutableDefinition :: "gval \<Rightarrow> bool" where
  "containsExecutableDefinition (VObj m) =
     list_ex (\<lambda>kv. executable_key (fst kv) \<or> containsExecutableDefinition (snd kv)) m"
| "containsExecutableDefinition (VArr vs) = list_ex containsExecutableDefinition vs"
| "containsExecutableDefinition _ = False"

definition ValidateDataModel :: "data_model \<Rightarrow> gerr + unit" where
  "ValidateDataModel item =
     (case dm_schema item of
        None \<Rightarrow> fail ErrInvalid ''data model key, version, display name and schema are required''
      | Some schema \<Rightarrow>
          if blank (dm_key item) \<or> blank (dm_version item) \<or> blank (dm_display_name item)
          then fail ErrInvalid ''data model key, version, display name and schema are required''
          else if (\<exists>t \<in> set_option (as_str (obj_get schema ''type'')). t \<noteq> ''object'')
          then fail ErrInvalid (''data model '' @ dm_key item @ '' schema must be an object'')
          else if has_key schema ''properties'' \<and> as_obj (obj_get schema ''properties'') = None
          then fail ErrInvalid (''data model '' @ dm_key item @ '' properties must be an object'')
          else if list_ex blank (dm_required item)
          then fail ErrInvalid (''data model '' @ dm_key item @ '' has an empty required field'')
          else if list_ex (\<lambda>fr. blank (fst fr) \<or> blank (snd fr)) (dm_roles item)
          then fail ErrInvalid (''data model '' @ dm_key item @ '' has an incomplete semantic role'')
          else if containsExecutableDefinition (VObj schema)
          then fail ErrForbidden (''data model '' @ dm_key item @
                 '' contains executable definition content'')
          else Inr ())"

section \<open>No executable content at any depth\<close>

text \<open>The values nested in a value, through the objects and arrays the check walks.\<close>

inductive nested :: "gval \<Rightarrow> gval \<Rightarrow> bool" where
  nested_self: "nested v v"
| nested_member: "nested v c \<Longrightarrow> (k, c) \<in> set m \<Longrightarrow> nested v (VObj m)"
| nested_element: "nested v c \<Longrightarrow> c \<in> set vs \<Longrightarrow> nested v (VArr vs)"

inductive_simps nested_obj_simps: "nested v (VObj m)"
inductive_simps nested_arr_simps: "nested v (VArr vs)"

lemma executable_nested_iff:
  "containsExecutableDefinition v \<longleftrightarrow>
     (\<exists>m k. nested (VObj m) v \<and> has_key m k \<and> executable_key k)"
proof (induction v rule: gval_induct)
  case (atom v)
  then show ?case by (cases v) (auto elim: nested.cases)
next
  case (arr vs)
  then show ?case by (auto simp: list_ex_iff nested_arr_simps)
next
  case (obj m)
  have "containsExecutableDefinition (VObj m) \<longleftrightarrow>
        (\<exists>k. has_key m k \<and> executable_key k) \<or>
        (\<exists>k v. (k, v) \<in> set m \<and> containsExecutableDefinition v)"
    by (force simp: list_ex_iff)
  also have "\<dots> \<longleftrightarrow> (\<exists>k. has_key m k \<and> executable_key k) \<or>
        (\<exists>k v. (k, v) \<in> set m \<and> (\<exists>m k. nested (VObj m) v \<and> has_key m k \<and> executable_key k))"
    by (intro disj_cong iff_exI conj_cong refl) (rule obj)
  also have "\<dots> \<longleftrightarrow> (\<exists>m' k. nested (VObj m') (VObj m) \<and> has_key m' k \<and> executable_key k)"
    unfolding nested_obj_simps by blast
  finally show ?case .
qed

lemma ValidateDataModel_D:
  "ValidateDataModel item = Inr () \<Longrightarrow>
     \<exists>schema. dm_schema item = Some schema \<and> \<not> blank (dm_key item) \<and>
       \<not> blank (dm_version item) \<and> \<not> blank (dm_display_name item) \<and>
       \<not> containsExecutableDefinition (VObj schema)"
  by (cases "dm_schema item")
    (simp_all add: ValidateDataModel_def del: containsExecutableDefinition.simps split: if_splits)

text \<open>
  a data model \<open>ValidateDataModel\<close> accepts is named, versioned and titled, has an object
  schema, and no object nested anywhere in that schema has a member called script, code, program
  or expression in any spelling of case and surrounding space.
\<close>

theorem ValidateDataModel_no_code:
  assumes "ValidateDataModel item = Inr ()"
  shows "\<exists>schema. dm_schema item = Some schema \<and> \<not> blank (dm_key item) \<and>
           \<not> blank (dm_version item) \<and> \<not> blank (dm_display_name item) \<and>
           (\<forall>m k. nested (VObj m) (VObj schema) \<and> has_key m k \<longrightarrow> \<not> executable_key k)"
  using ValidateDataModel_D [OF assms] executable_nested_iff by blast

definition sample_model :: data_model where
  "sample_model =
     \<lparr>dm_id = [], dm_workspace = [], dm_key = ''ChangePublication'', dm_version = ''v1'',
      dm_display_name = ''Change'', dm_description = [],
      dm_schema = Some [(''type'', VStr ''object''),
        (''properties'', VObj [(''change_id'', VObj [(''type'', VStr ''string'')])])],
      dm_required = [''change_id''], dm_roles = [(''change_id'', ''identity'')],
      dm_extensions = False, dm_status = DefinitionPublished\<rparr>"

lemma sample_model_valid: "ValidateDataModel sample_model = Inr ()"
  by code_simp

theorem ValidateDataModel_no_code_witness:
  "\<exists>schema. dm_schema sample_model = Some schema \<and> \<not> executable_key (fst (hd schema))"
proof -
  obtain schema where s: "dm_schema sample_model = Some schema"
    and n: "\<forall>m k. nested (VObj m) (VObj schema) \<and> has_key m k \<longrightarrow> \<not> executable_key k"
    using ValidateDataModel_no_code [OF sample_model_valid] by blast
  have "has_key schema (fst (hd schema))" using s by (auto simp: sample_model_def)
  then show ?thesis using s n nested_self by blast
qed

section \<open>Deployed adapters\<close>

type_synonym adapter_allowlist = "(string, bool) gomap"

definition IsAllowlisted :: "adapter_allowlist \<Rightarrow> string \<Rightarrow> bool" where
  "IsAllowlisted a operation = (case map_of a operation of None \<Rightarrow> False | Some b \<Rightarrow> b)"

definition Operations :: "adapter_allowlist \<Rightarrow> string list" where
  "Operations a = sort (map fst (filter snd a))"

locale adapter_catalog =
  fixes valid :: "'a \<Rightarrow> bool"
    and allowed :: "'a \<Rightarrow> string \<Rightarrow> bool"
    and operations :: "'a \<Rightarrow> string list"
  assumes operations_allowed: "valid a \<Longrightarrow> set (operations a) = {p. allowed a p}"
    and operations_sorted: "valid a \<Longrightarrow> sorted (operations a) \<and> distinct (operations a)"
begin

lemma behavior_accepted:
  "valid a \<Longrightarrow> ValidateBehavior item (Some (allowed a)) = Inr () \<Longrightarrow>
     bh_operation item \<in> set (operations a)"
  by (simp add: ValidateBehavior_def operations_allowed split: if_splits)

lemma behavior_forbidden:
  "valid a \<Longrightarrow> bh_operation item \<notin> set (operations a) \<Longrightarrow>
     ValidateBehavior item (Some (allowed a)) \<noteq> Inr ()"
  using behavior_accepted by blast

end

lemma Operations_set:
  assumes "distinct (map fst a)"
  shows "set (Operations a) = {p. IsAllowlisted a p}"
proof -
  have "p \<in> set (Operations a) \<longleftrightarrow> (p, True) \<in> set a" for p
    by (force simp: Operations_def)
  moreover have "IsAllowlisted a p \<longleftrightarrow> map_of a p = Some True" for p
    by (auto simp: IsAllowlisted_def split: option.split)
  ultimately show ?thesis using assms by auto
qed

lemma Operations_sorted:
  "distinct (map fst a) \<Longrightarrow> sorted (Operations a) \<and> distinct (Operations a)"
  by (simp add: Operations_def distinct_map_filter)

interpretation allowlist: adapter_catalog "\<lambda>a. distinct (map fst a)" IsAllowlisted Operations
  by unfold_locales (simp_all add: Operations_set Operations_sorted)

section \<open>Bundles of definitions\<close>

record registry_bundle =
  bd_types :: "connector_type list"
  bd_behaviors :: "behavior list"
  bd_models :: "data_model list"

abbreviation type_key :: "connector_type \<Rightarrow> string" where
  "type_key t \<equiv> StableKey (ct_key t) (ct_version t)"

abbreviation behavior_key :: "behavior \<Rightarrow> string" where
  "behavior_key b \<equiv> StableKey (bh_key b) (bh_version b)"

abbreviation model_key :: "data_model \<Rightarrow> string" where
  "model_key m \<equiv> StableKey (dm_key m) (dm_version m)"

fun validate_types :: "string list \<Rightarrow> connector_type list \<Rightarrow> gerr + string list" where
  "validate_types seen [] = Inr seen"
| "validate_types seen (t # ts) =
     (if blank (ct_key t) \<or> blank (ct_version t)
      then fail ErrInvalid ''connector type key and version are required''
      else if blank (ct_display_name t) \<or> ct_provider t = []
      then fail ErrInvalid (''connector type '' @ ct_key t @ '' has incomplete metadata'')
      else if type_key t \<in> set seen
      then fail ErrConflict (''duplicate connector type '' @ type_key t)
      else validate_types (type_key t # seen) ts)"

fun validate_behaviors :: "string list \<Rightarrow> string list \<Rightarrow> behavior list \<Rightarrow> gerr + unit" where
  "validate_behaviors types seen [] = Inr ()"
| "validate_behaviors types seen (b # bs) =
     (if blank (bh_key b) \<or> blank (bh_version b) \<or> blank (bh_operation b)
      then fail ErrInvalid ''behavior key, version and adapter operation are required''
      else if bh_direction b \<noteq> DirectionInput \<and> bh_direction b \<noteq> DirectionOutput
      then fail ErrInvalid (''behavior '' @ bh_key b @ '' has invalid direction '' @
             go_quote (bh_direction b))
      else if StableKey (bh_type_key b) (bh_type_version b) \<notin> set types
      then fail ErrInvalid (''behavior '' @ bh_key b @ '' references unknown connector type '' @
             bh_type_key b)
      else if behavior_key b \<in> set seen
      then fail ErrConflict (''duplicate behavior '' @ behavior_key b)
      else validate_behaviors types (behavior_key b # seen) bs)"

fun validate_models :: "string list \<Rightarrow> data_model list \<Rightarrow> gerr + unit" where
  "validate_models seen [] = Inr ()"
| "validate_models seen (m # ms) =
     (if blank (dm_key m) \<or> blank (dm_version m) \<or> dm_schema m = None
      then fail ErrInvalid (''data model '' @ dm_key m @ '' has incomplete definition'')
      else if model_key m \<in> set seen
      then fail ErrConflict (''duplicate data model '' @ model_key m)
      else validate_models (model_key m # seen) ms)"

definition Bundle_Validate :: "registry_bundle \<Rightarrow> gerr + unit" where
  "Bundle_Validate b =
     bind_result (validate_types [] (bd_types b)) (\<lambda>types.
     bind_result (validate_behaviors types [] (bd_behaviors b)) (\<lambda>_.
       validate_models [] (bd_models b)))"

lemma validate_types_Inr:
  "validate_types seen ts = Inr r \<longleftrightarrow>
     r = rev (map type_key ts) @ seen \<and> distinct (map type_key ts) \<and>
     set (map type_key ts) \<inter> set seen = {} \<and>
     (\<forall>t \<in> set ts. \<not> blank (ct_key t) \<and> \<not> blank (ct_version t) \<and>
        \<not> blank (ct_display_name t) \<and> ct_provider t \<noteq> [])"
  by (induction seen ts rule: validate_types.induct) auto

lemma validate_behaviors_Inr:
  "validate_behaviors types seen bs = Inr () \<longleftrightarrow>
     distinct (map behavior_key bs) \<and> set (map behavior_key bs) \<inter> set seen = {} \<and>
     (\<forall>b \<in> set bs. \<not> blank (bh_key b) \<and> \<not> blank (bh_version b) \<and> \<not> blank (bh_operation b) \<and>
        bh_direction b \<in> {DirectionInput, DirectionOutput} \<and>
        StableKey (bh_type_key b) (bh_type_version b) \<in> set types)"
  by (induction types seen bs rule: validate_behaviors.induct) auto

lemma validate_models_Inr:
  "validate_models seen ms = Inr () \<longleftrightarrow>
     distinct (map model_key ms) \<and> set (map model_key ms) \<inter> set seen = {} \<and>
     (\<forall>m \<in> set ms. \<not> blank (dm_key m) \<and> \<not> blank (dm_version m) \<and> dm_schema m \<noteq> None)"
  by (induction seen ms rule: validate_models.induct) auto

text \<open>
  \<open>Bundle.Validate\<close>, run over every bundle of built-in definitions at start-up, accepts exactly
  the bundles whose connector types, behaviors and data models are complete and pairwise distinct
  under \<open>StableKey\<close> and in which every behavior has a direction and belongs to a connector type
  of the same bundle.
\<close>

theorem Bundle_Validate_iff:
  "Bundle_Validate b = Inr () \<longleftrightarrow>
     distinct (map type_key (bd_types b)) \<and> distinct (map behavior_key (bd_behaviors b)) \<and>
     distinct (map model_key (bd_models b)) \<and>
     (\<forall>t \<in> set (bd_types b). \<not> blank (ct_key t) \<and> \<not> blank (ct_version t) \<and>
        \<not> blank (ct_display_name t) \<and> ct_provider t \<noteq> []) \<and>
     (\<forall>h \<in> set (bd_behaviors b). \<not> blank (bh_key h) \<and> \<not> blank (bh_version h) \<and>
        \<not> blank (bh_operation h) \<and> bh_direction h \<in> {DirectionInput, DirectionOutput} \<and>
        (\<exists>t \<in> set (bd_types b). StableKey (bh_type_key h) (bh_type_version h) = type_key t)) \<and>
     (\<forall>m \<in> set (bd_models b). \<not> blank (dm_key m) \<and> \<not> blank (dm_version m) \<and>
        dm_schema m \<noteq> None)"
  unfolding Bundle_Validate_def err_simps validate_types_Inr validate_behaviors_Inr
    validate_models_Inr
  by (simp add: validate_behaviors_Inr image_iff) blast

definition sample_bundle :: registry_bundle where
  "sample_bundle =
     \<lparr>bd_types = [\<lparr>ct_id = [], ct_workspace = [], ct_key = ''gitlab'', ct_version = ''1.0.0'',
        ct_display_name = ''GitLab'', ct_provider = ''gitlab'', ct_status = DefinitionPublished,
        ct_metadata = None\<rparr>], bd_behaviors = [], bd_models = [sample_model]\<rparr>"

theorem Bundle_Validate_iff_witness: "Bundle_Validate sample_bundle = Inr ()"
  unfolding Bundle_Validate_iff by code_simp

end
