(* ===== verification/Catalog.thy ===== *)
theory Catalog
  imports Registry
begin

text \<open>
  The registry view a flow is validated against, \<open>flow.Catalog\<close> in
  \<open>internal/flow/validation.go\<close>: its construction, the lookup of behaviors and data models, and
  \<open>ValidateModelValue\<close>, which checks a run-time value against a registered data model.
\<close>

section \<open>The catalog\<close>

record catalog =
  cat_behaviors :: "(string, behavior) gomap"
  cat_models :: "(string, data_model) gomap"
  cat_adapters :: "(string, bool) gomap"

definition NewCatalog :: "behavior list \<Rightarrow> data_model list \<Rightarrow> string list \<Rightarrow> catalog" where
  "NewCatalog behaviors models operations =
     \<lparr>cat_behaviors = foldl (\<lambda>m b. AList.update (behavior_key b) b m) [] behaviors,
      cat_models = foldl (\<lambda>m d. AList.update (model_key d) d m) [] models,
      cat_adapters = foldl (\<lambda>m p. AList.update p True m) [] operations\<rparr>"

definition catalog_behavior :: "catalog \<Rightarrow> string \<Rightarrow> string \<Rightarrow> behavior option" where
  "catalog_behavior c key version = map_of (cat_behaviors c) (StableKey key version)"

definition catalog_model :: "catalog \<Rightarrow> string \<Rightarrow> data_model option" where
  "catalog_model c ref =
     (case map_of (cat_models c) ref of
        Some d \<Rightarrow> Some d
      | None \<Rightarrow> map_option snd (List.find (\<lambda>(stable, d). stable = ref \<or>
            dm_key d @ ''.'' @ dm_version d = ref \<or> dm_key d @ ''@'' @ dm_version d = ref)
          (cat_models c)))"

definition adapter_deployed :: "catalog \<Rightarrow> string \<Rightarrow> bool" where
  "adapter_deployed c operation =
     (case map_of (cat_adapters c) operation of None \<Rightarrow> False | Some b \<Rightarrow> b)"

lemma foldl_update_map_of:
  "map_of (foldl (\<lambda>m b. AList.update (f b) b m) m0 bs) =
     (\<lambda>k. case List.find (\<lambda>b. f b = k) (rev bs) of Some b \<Rightarrow> Some b | None \<Rightarrow> map_of m0 k)"
proof (induction bs rule: rev_induct)
  case (snoc b bs)
  then show ?case by (auto split: option.split)
qed simp

lemma catalog_behavior_new:
  "catalog_behavior (NewCatalog bs ds ops) key version =
     List.find (\<lambda>b. behavior_key b = StableKey key version) (rev bs)"
  by (simp add: catalog_behavior_def NewCatalog_def foldl_update_map_of split: option.split)

lemma catalog_behavior_key:
  "catalog_behavior (NewCatalog bs ds ops) key version = Some b \<Longrightarrow>
     b \<in> set bs \<and> behavior_key b = StableKey key version"
  by (auto simp: catalog_behavior_new dest: find_SomeD)

lemma adapter_deployed_new: "adapter_deployed (NewCatalog bs ds ops) p \<longleftrightarrow> p \<in> set ops"
proof -
  have "map_of (foldl (\<lambda>m p. AList.update p True m) m0 ops) p =
        (if p \<in> set ops then Some True else map_of m0 p)" for m0 :: "(string, bool) gomap"
    by (induction ops arbitrary: m0) auto
  then show ?thesis by (simp add: adapter_deployed_def NewCatalog_def)
qed

section \<open>Values of a data model\<close>

fun blankValue :: "gval \<Rightarrow> bool" where
  "blankValue VNil = True"
| "blankValue (VStr s) = blank s"
| "blankValue _ = False"

definition propertyType :: "gval \<Rightarrow> string" where
  "propertyType v = (case as_str v of None \<Rightarrow> [] | Some s \<Rightarrow> s)"

text \<open>\<open>reflect.ValueOf(v).Kind() == reflect.String\<close> holds of every type whose base is string.\<close>

fun string_kind :: "gval \<Rightarrow> bool" where
  "string_kind (VStr _) = True"
| "string_kind (VNamed _) = True"
| "string_kind (VNumber _) = True"
| "string_kind _ = False"

fun integerValue :: "gval \<Rightarrow> bool" where
  "integerValue (VInt k i) = True"
| "integerValue (VFloat32 f) = (case f of FNaN \<Rightarrow> False | FInf n \<Rightarrow> True | FFin n m e \<Rightarrow> float_is_integer f)"
| "integerValue (VFloat f) = float_is_integer f"
| "integerValue (VNumber s) = snd (parse_int s)"
| "integerValue _ = False"

fun modelNumberValue :: "gval \<Rightarrow> float \<times> bool" where
  "modelNumberValue (VInt k i) = (float_of_int format64 i, True)"
| "modelNumberValue (VFloat32 f) = (f, True)"
| "modelNumberValue (VFloat f) = (f, float_finite f)"
| "modelNumberValue (VNumber s) = parse_float s"
| "modelNumberValue _ = (FFin False 0 0, False)"

definition modelValuesEqual :: "gval \<Rightarrow> gval \<Rightarrow> bool" where
  "modelValuesEqual l r =
     (case (as_str l, as_str r) of (Some s, Some t) \<Rightarrow> s = t | _ \<Rightarrow> sprint l = sprint r)"

definition containsModelValue :: "gval list \<Rightarrow> gval \<Rightarrow> bool" where
  "containsModelValue values actual = list_ex (modelValuesEqual actual) values"

definition field_error :: "string \<Rightarrow> string \<Rightarrow> string \<Rightarrow> gerr + unit" where
  "field_error model field what =
     fail ErrInvalid (''model '' @ model @ '' field '' @ field @ what)"

definition check_type :: "string \<Rightarrow> string \<Rightarrow> string \<Rightarrow> gval \<Rightarrow> gerr + unit" where
  "check_type model field t actual =
     (if t = ''string'' then
        (if string_kind actual then Inr () else field_error model field '' must be a string'')
      else if t = ''integer'' then
        (if integerValue actual then Inr () else field_error model field '' must be an integer'')
      else if t = ''number'' then
        (if snd (modelNumberValue actual) then Inr () else field_error model field '' must be a number'')
      else if t = ''boolean'' then
        (if as_bool actual \<noteq> None then Inr () else field_error model field '' must be a boolean'')
      else Inr ())"

definition check_field :: "string \<Rightarrow> gobj \<Rightarrow> string \<times> gval \<Rightarrow> gerr + unit" where
  "check_field model value fr =
     (let field = fst fr; actual = obj_get value field;
          property = (case as_obj (snd fr) of None \<Rightarrow> [] | Some p \<Rightarrow> p)
      in if actual = VNil then Inr ()
         else bind_result (check_type model field (propertyType (obj_get property ''type'')) actual)
           (\<lambda>_. if has_key property ''const'' \<and> \<not> modelValuesEqual actual (obj_get property ''const'')
                then field_error model field '' has an invalid constant''
                else case as_arr (obj_get property ''enum'') of
                    None \<Rightarrow> Inr ()
                  | Some allowed \<Rightarrow>
                      if containsModelValue allowed actual then Inr ()
                      else field_error model field '' has an unsupported value''))"

definition schema_properties :: "data_model \<Rightarrow> gobj" where
  "schema_properties d =
     (case dm_schema d of None \<Rightarrow> []
      | Some s \<Rightarrow> (case as_obj (obj_get s ''properties'') of None \<Rightarrow> [] | Some p \<Rightarrow> p))"

definition ValidateModelValue :: "catalog \<Rightarrow> string \<Rightarrow> gobj \<Rightarrow> gerr + unit" where
  "ValidateModelValue c model value =
     (case catalog_model c model of
        None \<Rightarrow> fail ErrInvalid (''model '' @ model @ '' is not registered'')
      | Some d \<Rightarrow>
          bind_result (each_result (\<lambda>field. if blankValue (obj_get value field)
              then fail ErrInvalid (''model '' @ model @ '' requires '' @ field) else Inr ())
            (dm_required d))
          (\<lambda>_. each_result (check_field model value) (schema_properties d)))"

text \<open>What the properties of a schema ask of a member that is present.\<close>

definition member_fits :: "gobj \<Rightarrow> gval \<Rightarrow> bool" where
  "member_fits property v =
     ((obj_get property ''type'' = VStr ''string'' \<longrightarrow> string_kind v) \<and>
      (obj_get property ''type'' = VStr ''integer'' \<longrightarrow> integerValue v) \<and>
      (obj_get property ''type'' = VStr ''number'' \<longrightarrow> snd (modelNumberValue v)) \<and>
      (obj_get property ''type'' = VStr ''boolean'' \<longrightarrow> (\<exists>b. v = VBool b)) \<and>
      (has_key property ''const'' \<longrightarrow> modelValuesEqual v (obj_get property ''const'')) \<and>
      (\<forall>allowed. obj_get property ''enum'' = VArr allowed \<longrightarrow> containsModelValue allowed v))"

lemma propertyType_iff:
  "t \<noteq> [] \<Longrightarrow> propertyType v = t \<longleftrightarrow> v = VStr t"
  by (cases v) (auto simp: propertyType_def)

lemma check_type_iff:
  "check_type model field (propertyType v) actual = Inr () \<longleftrightarrow>
     (v = VStr ''string'' \<longrightarrow> string_kind actual) \<and> (v = VStr ''integer'' \<longrightarrow> integerValue actual) \<and>
     (v = VStr ''number'' \<longrightarrow> snd (modelNumberValue actual)) \<and>
     (v = VStr ''boolean'' \<longrightarrow> (\<exists>b. actual = VBool b))"
  by (auto simp: check_type_def propertyType_iff field_error_def)

lemma check_field_iff:
  "check_field model value (field, raw) = Inr () \<longleftrightarrow>
     obj_get value field = VNil \<or>
     member_fits (case as_obj raw of None \<Rightarrow> [] | Some p \<Rightarrow> p) (obj_get value field)"
  unfolding check_field_def Let_def
  by (auto simp: err_simps check_type_iff member_fits_def field_error_def split: option.splits if_splits)

text \<open>
  \<open>ValidateModelValue\<close> accepts a value exactly when the model is registered, every required
  field holds something that is not blank, and every member the schema describes that is present
  has the declared type, equals the declared constant and is one of the declared values. The
  answer does not depend on the order in which Go walks the schema's properties.
\<close>

theorem ValidateModelValue_iff:
  "ValidateModelValue c model value = Inr () \<longleftrightarrow>
     (\<exists>d. catalog_model c model = Some d \<and>
        (\<forall>field \<in> set (dm_required d). \<not> blankValue (obj_get value field)) \<and>
        (\<forall>(field, raw) \<in> set (schema_properties d). obj_get value field = VNil \<or>
           member_fits (case as_obj raw of None \<Rightarrow> [] | Some p \<Rightarrow> p) (obj_get value field)))"
proof (cases "catalog_model c model")
  case (Some d)
  then show ?thesis
    by (auto simp: ValidateModelValue_def err_simps check_field_iff split: if_splits)
qed (simp add: ValidateModelValue_def)

theorem ValidateModelValue_iff_witness:
  "ValidateModelValue (NewCatalog [] [sample_model] []) ''ChangePublication.v1''
     [(''change_id'', VStr ''c-1'')] = Inr ()"
proof -
  have "catalog_model (NewCatalog [] [sample_model] []) ''ChangePublication.v1'' = Some sample_model"
    by code_simp
  then show ?thesis
    unfolding ValidateModelValue_iff by (simp add: sample_model_def schema_properties_def
        member_fits_def) code_simp
qed

end
