(* ===== verification/FlowNodes.thy ===== *)
theory FlowNodes
  imports Catalog
begin

text \<open>
  \<open>internal/flow/nodes.go\<close>: the evaluators of the three generic nodes. Parse/Normalize turns a
  provider event into a data model, Mapping/Template builds an object from declared references,
  Condition/Filter evaluates a tree of comparisons. The default parsers read \<open>key: value\<close> lines
  of an issue description.
\<close>

section \<open>Values\<close>

record runtime_context =
  rc_workspace :: ID
  rc_connection :: ID
  rc_execution :: ID
  rc_event :: ID
  rc_source_project :: string
  rc_target_project :: string
  rc_target_ref :: string

definition stringValue :: "gval \<Rightarrow> string" where
  "stringValue v = (case v of VNil \<Rightarrow> [] | VStr s \<Rightarrow> s | _ \<Rightarrow> sprint v)"

lemma stringValue_simps [simp, go_simps]:
  "stringValue VNil = []" "stringValue (VStr s) = s" "stringValue (VNamed s) = s"
  by (simp_all add: stringValue_def)

fun intValue :: "gval \<Rightarrow> int" where
  "intValue (VInt k i) = (if k = KInt then i else 0)"
| "intValue (VFloat f) = float_to_int f"
| "intValue (VStr s) = atoi s"
| "intValue _ = 0"

definition valuesEqual :: "gval \<Rightarrow> gval \<Rightarrow> bool" where
  "valuesEqual l r = (stringValue l = stringValue r)"

definition isEmptyValue :: "gval \<Rightarrow> bool" where
  "isEmptyValue v = (v = VNil \<or> stringValue v = [])"

definition object_of :: "gval \<Rightarrow> gobj" where
  "object_of v = (case as_obj v of None \<Rightarrow> [] | Some m \<Rightarrow> m)"

definition cloneObject :: "gobj \<Rightarrow> gobj" where
  "cloneObject m =
     (case json_clone (VObj m) of None \<Rightarrow> []
      | Some v \<Rightarrow> (case as_obj v of None \<Rightarrow> [] | Some m' \<Rightarrow> m'))"

fun firstValue :: "gval list \<Rightarrow> string" where
  "firstValue [] = []"
| "firstValue (v # vs) = (if blank (stringValue v) then firstValue vs else stringValue v)"

lemma firstValue_blank_iff: "blank (firstValue vs) \<longleftrightarrow> (\<forall>v \<in> set vs. blank (stringValue v))"
  by (induction vs) auto

lemma firstValue_Nil_iff: "firstValue vs = [] \<longleftrightarrow> blank (firstValue vs)"
  by (induction vs) auto

lemma firstValue_last: "\<not> blank s \<Longrightarrow> \<not> blank (firstValue (vs @ [VStr s]))"
  by (simp add: firstValue_blank_iff)

text \<open>\<open>numberPattern\<close>: an optional minus sign, digits, and an optional fraction.\<close>

definition numberPattern :: "string \<Rightarrow> bool" where
  "numberPattern s =
     (let body = (case s of c # cs \<Rightarrow> (if c = CHR ''-'' then cs else s) | [] \<Rightarrow> []);
          (ip, rest) = span_digits body
      in ip \<noteq> [] \<and>
         (case rest of [] \<Rightarrow> True
          | c # cs \<Rightarrow> c = CHR ''.'' \<and> cs \<noteq> [] \<and> list_all is_digit cs))"

fun numberValue :: "gval \<Rightarrow> float \<times> bool" where
  "numberValue (VFloat f) = (f, True)"
| "numberValue (VInt k i) =
     (if k = KInt \<or> k = KInt64 then (float_of_int format64 i, True) else (FFin False 0 0, False))"
| "numberValue (VStr s) = (if numberPattern s then parse_float s else (FFin False 0 0, False))"
| "numberValue _ = (FFin False 0 0, False)"

fun lookup_segments :: "gval \<Rightarrow> string list \<Rightarrow> gval" where
  "lookup_segments current [] = current"
| "lookup_segments current (seg # segs) =
     (case as_obj current of None \<Rightarrow> VNil | Some m \<Rightarrow> lookup_segments (obj_get m seg) segs)"

definition lookupPath :: "gobj \<Rightarrow> string \<Rightarrow> gval" where
  "lookupPath input path = lookup_segments (VObj input) (split_on (CHR ''.'') path)"

section \<open>Parse/Normalize\<close>

definition description_keys :: "string list" where
  "description_keys =
     [''change_id'', ''branch'', ''branch_head_sha'', ''target_ref'', ''status'', ''assignee'',
      ''lifecycle_reason'', ''specwire_reason'', ''specwire-reason'', ''abandon_reason'',
      ''abandon-reason'', ''reason'']"

definition description_line :: "(string, string) gomap \<Rightarrow> string \<Rightarrow> (string, string) gomap" where
  "description_line result raw =
     (let line = trim_space raw in
      if line = [] then result
      else
        let cut1 = str_cut (CHR '':'') line;
            (k, v, ok) = (if snd (snd cut1) then cut1 else str_cut (CHR ''='') line)
        in if \<not> ok then result
           else let key = to_lower (trim_space k); value = trim_space v
                in if key \<in> set description_keys then AList.update key value result else result)"

definition parseDescriptionFields :: "string \<Rightarrow> (string, string) gomap" where
  "parseDescriptionFields description = foldl description_line [] (split_on (CHR 0x0A) description)"

text \<open>\<open>fields[key]\<close>, passed on as an \<open>any\<close>: a missing key is the empty string.\<close>

definition field_val :: "(string, string) gomap \<Rightarrow> string \<Rightarrow> gval" where
  "field_val flds k = VStr (case map_of flds k of None \<Rightarrow> [] | Some s \<Rightarrow> s)"

definition str_of :: "gobj \<Rightarrow> string \<Rightarrow> gval" where
  "str_of m k = VStr (stringValue (obj_get m k))"

definition project_path :: "gobj \<Rightarrow> gval" where
  "project_path event = str_of (object_of (obj_get event ''project'')) ''path_with_namespace''"

abbreviation main_ref :: string where "main_ref \<equiv> ''refs/heads/main''"

definition put_iid :: "gobj \<Rightarrow> gobj \<Rightarrow> gobj" where
  "put_iid attributes output =
     (let iid = intValue (obj_get attributes ''iid'') in
      if iid \<noteq> 0 then obj_set output ''issue_iid'' (VInt KInt iid) else output)"

definition put_url :: "gobj \<Rightarrow> gobj \<Rightarrow> gobj \<Rightarrow> gobj" where
  "put_url attributes event output =
     (let url = firstValue [str_of attributes ''url'', str_of attributes ''web_url'',
                            str_of event ''issue_url''] in
      if url \<noteq> [] then obj_set output ''issue_url'' (VStr url) else output)"

definition parsePublication :: "gobj \<Rightarrow> runtime_context \<Rightarrow> gobj" where
  "parsePublication event rc =
     (let attributes = object_of (obj_get event ''object_attributes'');
          description = stringValue (obj_get attributes ''description'');
          flds = parseDescriptionFields description;
          o1 = [(''change_id'', VStr (firstValue [field_val flds ''change_id'', obj_get event ''change_id''])),
                (''branch'', VStr (firstValue [field_val flds ''branch'', obj_get event ''branch''])),
                (''branch_head_sha'', VStr (firstValue [field_val flds ''branch_head_sha'', obj_get event ''branch_head_sha''])),
                (''source_project'', VStr (firstValue [VStr (rc_source_project rc), project_path event, str_of event ''source_project''])),
                (''description'', VStr description)];
          o2 = put_url attributes event (put_iid attributes o1);
          o3 = obj_set o2 ''target_ref'' (VStr (firstValue [field_val flds ''target_ref'', VStr (rc_target_ref rc), VStr main_ref]));
          o4 = obj_set o3 ''status'' (VStr (firstValue [field_val flds ''status'', VStr ''backlog'']))
      in obj_set o4 ''assignee'' (VStr (firstValue [field_val flds ''assignee'', VStr []])))"

definition parseArchiveCompletion :: "gobj \<Rightarrow> runtime_context \<Rightarrow> gobj" where
  "parseArchiveCompletion event rc =
     (let flds = parseDescriptionFields (stringValue (obj_get event ''message''));
          o1 = [(''change_id'', VStr (firstValue [str_of event ''change_id'', field_val flds ''change_id''])),
                (''source_project'', VStr (firstValue [VStr (rc_source_project rc), project_path event, str_of event ''source_project''])),
                (''target_ref'', VStr (firstValue [str_of event ''ref'', VStr (rc_target_ref rc), VStr main_ref])),
                (''provider_delivery_id'', VStr (firstValue [str_of event ''provider_delivery_id'', str_of event ''delivery_id'']))];
          le = stringValue (obj_get event ''lifecycle_event'');
          lr = stringValue (obj_get event ''lifecycle_reason'');
          o2 = (if le \<noteq> [] then obj_set o1 ''lifecycle_event'' (VStr le) else o1)
      in if lr \<noteq> [] then obj_set o2 ''lifecycle_reason'' (VStr lr) else o2)"

text \<open>The default reason, in UTF-8: GitLab Issue, then \<open>add\<close>, the label, then \<open>label\<close> in Chinese.\<close>

definition abandoned_reason :: string where
  "abandoned_reason =
     ''GitLab Issue '' @
     [CHR 0xE6, CHR 0xB7, CHR 0xBB, CHR 0xE5, CHR 0x8A, CHR 0xA0] @
     '' specwire::abandoned '' @
     [CHR 0xE6, CHR 0xA0, CHR 0x87, CHR 0xE7, CHR 0xAD, CHR 0xBE]"

definition parseChangeLifecycle :: "gobj \<Rightarrow> runtime_context \<Rightarrow> gobj" where
  "parseChangeLifecycle event rc =
     (let attributes = object_of (obj_get event ''object_attributes'');
          flds = parseDescriptionFields (stringValue (obj_get attributes ''description''));
          o1 = [(''change_id'', VStr (firstValue [field_val flds ''change_id'', str_of event ''change_id''])),
                (''source_project'', VStr (firstValue [VStr (rc_source_project rc), project_path event, str_of event ''source_project''])),
                (''target_ref'', VStr (firstValue [str_of event ''target_ref'', VStr (rc_target_ref rc), VStr main_ref])),
                (''provider_delivery_id'', VStr (firstValue [str_of event ''provider_delivery_id'', str_of event ''delivery_id''])),
                (''lifecycle_event'', VStr (firstValue [str_of event ''lifecycle_event'', VStr ''abandoned''])),
                (''lifecycle_reason'', VStr (firstValue [str_of event ''lifecycle_reason'',
                   field_val flds ''specwire_reason'', field_val flds ''specwire-reason'',
                   field_val flds ''abandon_reason'', field_val flds ''abandon-reason'',
                   field_val flds ''reason'', VStr abandoned_reason]))]
      in put_url attributes event (put_iid attributes o1))"

definition required_fields :: "string \<Rightarrow> string list" where
  "required_fields model =
     (if model \<in> {''ChangePublication.v1'', ''ChangePublication@v1''}
      then [''change_id'', ''branch'', ''branch_head_sha'']
      else if model \<in> {''ArchiveCompletion.v1'', ''ArchiveCompletion@v1''}
      then [''change_id'', ''source_project'', ''target_ref'', ''provider_delivery_id'']
      else if model \<in> {''ChangeLifecycle.v1'', ''ChangeLifecycle@v1''}
      then [''change_id'', ''source_project'', ''target_ref'', ''provider_delivery_id'',
            ''lifecycle_event'', ''lifecycle_reason'']
      else [])"

definition validateRequiredModel :: "gobj \<Rightarrow> string \<Rightarrow> gerr + unit" where
  "validateRequiredModel value model =
     each_result (\<lambda>field. if blank (stringValue (obj_get value field))
         then fail ErrInvalid (''model '' @ model @ '' requires '' @ field) else Inr ())
       (required_fields model)"

definition with_extensions :: "gobj \<Rightarrow> gobj \<Rightarrow> gobj" where
  "with_extensions event output =
     obj_set output ''extensions'' (VObj [(''provider_event'', VObj (cloneObject event))])"

definition normalize_event :: "gobj \<Rightarrow> string \<Rightarrow> runtime_context \<Rightarrow> catalog \<Rightarrow> gerr + gobj" where
  "normalize_event event model rc c =
     (if model \<in> {''ChangePublication.v1'', ''ChangePublication@v1''}
      then Inr (parsePublication event rc)
      else if model \<in> {''ArchiveCompletion.v1'', ''ArchiveCompletion@v1''}
      then Inr (parseArchiveCompletion event rc)
      else if model \<in> {''ChangeLifecycle.v1'', ''ChangeLifecycle@v1''}
      then Inr (parseChangeLifecycle event rc)
      else case catalog_model c model of
          None \<Rightarrow> fail ErrInvalid (''Parse/Normalize has no built-in parser for model '' @ model)
        | Some d \<Rightarrow>
            let output = cloneObject event
            in Inr (if dm_extensions d then with_extensions event output else output))"

definition parseNormalize ::
  "gobj option \<Rightarrow> string \<Rightarrow> runtime_context \<Rightarrow> catalog \<Rightarrow> gerr + gobj" where
  "parseNormalize providerEvent model rc c =
     (case providerEvent of
        None \<Rightarrow> fail ErrInvalid ''provider event is required''
      | Some event \<Rightarrow>
          bind_result (normalize_event event model rc c) (\<lambda>output.
          bind_result (validateRequiredModel output model) (\<lambda>_.
            case catalog_model c model of
              None \<Rightarrow> Inr output
            | Some d \<Rightarrow>
                bind_result (ValidateModelValue c model output) (\<lambda>_.
                  Inr (if dm_extensions d \<and> \<not> has_key output ''extensions''
                       then with_extensions event output else output)))))"

definition empty_catalog :: catalog where
  "empty_catalog = \<lparr>cat_behaviors = [], cat_models = [], cat_adapters = []\<rparr>"

definition ParseNormalize :: "gobj option \<Rightarrow> string \<Rightarrow> runtime_context \<Rightarrow> gerr + gobj" where
  "ParseNormalize event model rc = parseNormalize event model rc empty_catalog"

definition ParseNormalizeWithCatalog ::
  "gobj option \<Rightarrow> string \<Rightarrow> runtime_context \<Rightarrow> catalog \<Rightarrow> gerr + gobj" where
  "ParseNormalizeWithCatalog event model rc c = parseNormalize event model rc c"

section \<open>Mapping/Template\<close>

record mapping_rule =
  mr_source :: string
  mr_constant :: gval
  mr_default :: gval
  mr_concat :: "string list"

type_synonym mapping_spec = "(string, mapping_rule) gomap"

definition no_rule :: mapping_rule where
  "no_rule = \<lparr>mr_source = [], mr_constant = VNil, mr_default = VNil, mr_concat = []\<rparr>"

abbreviation from_source :: "string \<Rightarrow> mapping_rule" where
  "from_source s \<equiv> no_rule\<lparr>mr_source := s\<rparr>"

abbreviation from_source_or :: "string \<Rightarrow> string \<Rightarrow> mapping_rule" where
  "from_source_or s d \<equiv> no_rule\<lparr>mr_source := s, mr_default := VStr d\<rparr>"

definition DefaultMappingForModel :: "string \<Rightarrow> mapping_spec option" where
  "DefaultMappingForModel model =
     (if model \<in> {''MulticaCreateIssueInput.v1'', ''MulticaCreateIssueInput@v1''} then
        Some [(''target_project'', from_source ''$connection.target_project''),
              (''title'', no_rule\<lparr>mr_concat := [''literal:[SpecWire] '', ''$input.change_id'']\<rparr>),
              (''description'', from_source_or ''$input.description'' []),
              (''status'', from_source_or ''$input.status'' ''backlog''),
              (''assignee'', from_source_or ''$input.assignee'' []),
              (''change_id'', from_source ''$input.change_id''),
              (''branch'', from_source ''$input.branch''),
              (''branch_head_sha'', from_source ''$input.branch_head_sha''),
              (''target_ref'', from_source_or ''$input.target_ref'' main_ref),
              (''issue_iid'', from_source ''$input.issue_iid'')]
      else if model \<in> {''MulticaCompleteIssueInput.v1'', ''MulticaCompleteIssueInput@v1''} then
        Some [(''correlation_id'', from_source ''$input.change_id''),
              (''change_id'', from_source ''$input.change_id''),
              (''desired_status'', no_rule\<lparr>mr_constant := VStr ''done''\<rparr>)]
      else None)"

definition executable_chars :: string where
  "executable_chars = '';{}()[]'' @ [CHR 0x60, CHR 0x0A, CHR 0x09, CHR 0x0D]"

definition resolveReference :: "gobj \<Rightarrow> string \<Rightarrow> runtime_context \<Rightarrow> gerr + gval" where
  "resolveReference input ref rc =
     (if has_prefix ref ''literal:'' then Inr (VStr (trim_prefix ref ''literal:''))
      else if contains_any ref executable_chars
      then fail ErrInvalid ''executable mapping reference is forbidden''
      else if has_prefix ref ''$connection.'' then
        (let name = trim_prefix ref ''$connection.'' in
         if name = ''source_project'' then Inr (VStr (rc_source_project rc))
         else if name = ''target_project'' then Inr (VStr (rc_target_project rc))
         else if name = ''target_ref'' then Inr (VStr (firstValue [VStr (rc_target_ref rc), VStr main_ref]))
         else fail ErrInvalid (''undeclared Connection reference '' @ ref))
      else if has_prefix ref ''$runtime.'' then
        (let name = trim_prefix ref ''$runtime.'' in
         if name = ''workspace_id'' then Inr (VNamed (rc_workspace rc))
         else if name = ''connection_id'' then Inr (VNamed (rc_connection rc))
         else if name = ''flow_execution_id'' then Inr (VNamed (rc_execution rc))
         else if name = ''event_id'' then Inr (VNamed (rc_event rc))
         else fail ErrInvalid (''undeclared runtime reference '' @ ref))
      else Inr (lookupPath input (trim_prefix ref ''$input.'')))"

definition apply_rule ::
  "gobj \<Rightarrow> runtime_context \<Rightarrow> string \<Rightarrow> mapping_rule \<Rightarrow> gerr + gval" where
  "apply_rule input rc target rule =
     (if mr_constant rule \<noteq> VNil then Inr (mr_constant rule)
      else if mr_concat rule \<noteq> [] then
        bind_result (map_result (\<lambda>part. resolveReference input part rc) (mr_concat rule))
          (\<lambda>vs. Inr (VStr (concat (map stringValue vs))))
      else if mr_source rule \<noteq> [] then
        bind_result (resolveReference input (mr_source rule) rc)
          (\<lambda>v. Inr (if isEmptyValue v \<and> mr_default rule \<noteq> VNil then mr_default rule else v))
      else if mr_default rule \<noteq> VNil then Inr (mr_default rule)
      else fail ErrInvalid (''mapping '' @ target @ '' has no source, constant or default''))"

fun apply_rules ::
  "gobj \<Rightarrow> runtime_context \<Rightarrow> gobj \<Rightarrow> mapping_spec \<Rightarrow> gerr + gobj" where
  "apply_rules input rc output [] = Inr output"
| "apply_rules input rc output ((target, rule) # spec) =
     bind_result (apply_rule input rc target rule)
       (\<lambda>v. apply_rules input rc (obj_set output target v) spec)"

definition ApplyMapping :: "gobj \<Rightarrow> mapping_spec \<Rightarrow> runtime_context \<Rightarrow> gerr + gobj" where
  "ApplyMapping input spec rc = apply_rules input rc [] spec"

section \<open>Condition/Filter\<close>

datatype filter = Filter (filter_op: string) (filter_field: string) (filter_value: gval)
  (filter_children: "filter list")

lemma size_filter_child [termination_simp]:
  "child \<in> set children \<Longrightarrow> size child < Suc (size_list size children)"
  by (induction children) auto

abbreviation comparison_op :: "string \<Rightarrow> bool" where
  "comparison_op operation \<equiv> operation \<in> {''gt'', ''gte'', ''lt'', ''lte''}"

fun ValidateFilter :: "filter \<Rightarrow> gerr + unit" where
  "ValidateFilter (Filter rawop fieldname value children) =
     (let operation = to_lower (trim_space rawop) in
      if operation \<in> {''and'', ''or''} then
        (if children = [] then fail ErrInvalid ''Boolean filter requires children''
         else each_result ValidateFilter children)
      else if operation \<in> {''exists'', ''equals'', ''contains'', ''prefix'', ''suffix''} \<or>
              comparison_op operation then
        (if blank fieldname then fail ErrInvalid ''filter field is required''
         else if operation \<noteq> ''exists'' \<and> value = VNil
         then fail ErrInvalid ''filter value is required''
         else if comparison_op operation \<and> value \<noteq> VNil \<and> \<not> snd (numberValue value)
         then fail ErrInvalid ''comparison filter requires a numeric value''
         else Inr ())
      else fail ErrInvalid (''unsupported filter operator '' @ rawop))"

definition compare_numbers :: "string \<Rightarrow> float \<Rightarrow> float \<Rightarrow> bool" where
  "compare_numbers operation actual expected =
     (if operation = ''gt'' then float_lt expected actual
      else if operation = ''gte'' then float_le expected actual
      else if operation = ''lt'' then float_lt actual expected
      else float_le actual expected)"

definition compare_texts :: "string \<Rightarrow> string \<Rightarrow> string \<Rightarrow> bool" where
  "compare_texts operation actual expected =
     (if operation = ''contains'' then str_contains actual expected
      else if operation = ''prefix'' then has_prefix actual expected
      else has_suffix actual expected)"

fun EvaluateFilter :: "gobj \<Rightarrow> filter \<Rightarrow> gerr + bool" where
  "EvaluateFilter input (Filter rawop fieldname value children) =
     (let operation = to_lower rawop; actual = lookupPath input fieldname in
      if operation \<in> {''and'', ''or''} then
        (if children = [] then fail ErrInvalid ''Boolean filter requires children''
         else bind_result (map_result (EvaluateFilter input) children)
           (\<lambda>bs. Inr (if operation = ''and'' then list_all (\<lambda>b. b) bs else list_ex (\<lambda>b. b) bs)))
      else if operation = ''exists'' then Inr (actual \<noteq> VNil)
      else if operation = ''equals'' then Inr (valuesEqual actual value)
      else if operation \<in> {''contains'', ''prefix'', ''suffix''} then
        Inr (compare_texts operation (stringValue actual) (stringValue value))
      else if comparison_op operation then
        (if \<not> snd (numberValue actual) \<or> \<not> snd (numberValue value)
         then fail ErrInvalid ''comparison filter requires numbers''
         else Inr (compare_numbers operation (fst (numberValue actual)) (fst (numberValue value))))
      else fail ErrInvalid (''unsupported filter operator '' @ rawop))"

section \<open>Mappings are evaluated target by target\<close>

lemma apply_rules_Inr:
  "apply_rules input rc acc spec = Inr out \<Longrightarrow>
     (\<forall>(t, r) \<in> set spec. \<exists>v. apply_rule input rc t r = Inr v) \<and>
     (\<forall>t. map_of out t = (if has_key spec t then map_of out t else map_of acc t))"
proof (induction input rc acc spec rule: apply_rules.induct)
  case (2 input rc acc target rule spec)
  then obtain v where v: "apply_rule input rc target rule = Inr v"
    and *: "apply_rules input rc (obj_set acc target v) spec = Inr out"
    by (auto simp: err_simps)
  from 2(1) [OF v *] v show ?case by (auto simp: fun_upd_apply split: if_splits)
qed simp

lemma apply_rules_value:
  "apply_rules input rc acc spec = Inr out \<Longrightarrow> distinct (map fst spec) \<Longrightarrow>
     (t, r) \<in> set spec \<Longrightarrow> apply_rule input rc t r = Inr (obj_get out t) \<and> has_key out t"
proof (induction input rc acc spec rule: apply_rules.induct)
  case (2 input rc acc target rule spec)
  then obtain v where v: "apply_rule input rc target rule = Inr v"
    and *: "apply_rules input rc (obj_set acc target v) spec = Inr out"
    by (auto simp: err_simps)
  show ?case
  proof (cases "(t, r) \<in> set spec")
    case True
    with 2(1) [OF v *] 2(3) show ?thesis by simp
  next
    case False
    with 2 have t: "t = target" "r = rule" by auto
    with 2(3) have "\<not> has_key spec t" by simp
    with apply_rules_Inr [OF *] t have "map_of out t = Some v"
      by (metis (mono_tags, lifting) fun_upd_same map_of_update)
    with v t show ?thesis by (metis obj_get_def has_key_map_of option.discI option.simps(5))
  qed
qed simp

lemma apply_rules_total:
  "(\<exists>out. apply_rules input rc acc spec = Inr out) \<longleftrightarrow>
     (\<forall>(t, r) \<in> set spec. \<exists>v. apply_rule input rc t r = Inr v)"
proof (induction input rc acc spec rule: apply_rules.induct)
  case (2 input rc acc target rule spec)
  then show ?case by (cases "apply_rule input rc target rule") auto
qed simp

lemma ApplyMapping_value:
  assumes "distinct (map fst spec)" "ApplyMapping input spec rc = Inr out"
  shows "(\<forall>t. has_key out t \<longleftrightarrow> has_key spec t) \<and>
         (\<forall>(t, r) \<in> set spec. apply_rule input rc t r = Inr (obj_get out t))"
proof -
  note * = assms(2) [unfolded ApplyMapping_def]
  have "has_key out t \<longleftrightarrow> has_key spec t" for t
  proof (cases "has_key spec t")
    case True
    then show ?thesis using apply_rules_value [OF *] assms(1) by fastforce
  next
    case False
    then have "map_of out t = None" using apply_rules_Inr [OF *] by (metis map_of.simps(1))
    with False show ?thesis by (simp add: map_of_eq_None_iff)
  qed
  moreover have "apply_rule input rc t r = Inr (obj_get out t)" if "(t, r) \<in> set spec" for t r
    using apply_rules_value [OF * assms(1) that] by simp
  ultimately show ?thesis by auto
qed

text \<open>
  What a rule asks for: a constant comes first, then the parts of a concatenation, each resolved and
  written out, then a source, for which a default that is given stands in when the value is empty,
  and last a default alone. A rule with none of them asks for nothing.
\<close>

definition rule_gives :: "gobj \<Rightarrow> runtime_context \<Rightarrow> mapping_rule \<Rightarrow> gval \<Rightarrow> bool" where
  "rule_gives input rc r v \<longleftrightarrow>
     mr_constant r \<noteq> VNil \<and> v = mr_constant r \<or>
     mr_constant r = VNil \<and> mr_concat r \<noteq> [] \<and>
       (\<exists>parts. list_all2 (\<lambda>ref part. resolveReference input ref rc = Inr part) (mr_concat r) parts \<and>
                v = VStr (concat (map stringValue parts))) \<or>
     mr_constant r = VNil \<and> mr_concat r = [] \<and> mr_source r \<noteq> [] \<and>
       (\<exists>found. resolveReference input (mr_source r) rc = Inr found \<and>
                (isEmptyValue found \<and> mr_default r \<noteq> VNil \<and> v = mr_default r \<or>
                 \<not> (isEmptyValue found \<and> mr_default r \<noteq> VNil) \<and> v = found)) \<or>
     mr_constant r = VNil \<and> mr_concat r = [] \<and> mr_source r = [] \<and> mr_default r \<noteq> VNil \<and> v = mr_default r"

lemma map_result_all2: "map_result f xs = Inr ys \<longleftrightarrow> list_all2 (\<lambda>x y. f x = Inr y) xs ys"
  by (induction xs arbitrary: ys) (auto simp: bind_result_Inr list_all2_Cons1)

lemma apply_rule_gives: "apply_rule input rc t r = Inr v \<longleftrightarrow> rule_gives input rc r v"
  by (auto simp: apply_rule_def rule_gives_def bind_result_Inr map_result_all2)

text \<open>
  C27: \<open>ApplyMapping\<close> walks a Go map, whose order is open. For a mapping with one rule per target,
  it succeeds exactly when every rule asks for some value, and then the output holds under every
  target the value that its rule asks for - the constant, the concatenation, the source with its default
  standing in for an empty value, or the default - and nothing under any other name: the result does
  not depend on the order of the walk, and no rule sees another's output.
\<close>

theorem ApplyMapping_pointwise:
  assumes "distinct (map fst spec)"
  shows "((\<exists>out. ApplyMapping input spec rc = Inr out) \<longleftrightarrow>
            (\<forall>(t, r) \<in> set spec. \<exists>v. rule_gives input rc r v)) \<and>
         (\<forall>out. ApplyMapping input spec rc = Inr out \<longrightarrow>
            (\<forall>t. has_key out t \<longleftrightarrow> has_key spec t) \<and>
            (\<forall>(t, r) \<in> set spec. rule_gives input rc r (obj_get out t)))"
  using ApplyMapping_value [OF assms] by (simp add: ApplyMapping_def apply_rules_total apply_rule_gives)

text \<open>
  whatever a mapping reference resolves to, it was a literal, taken verbatim, or text free of
  statement and bracket characters that names a Connection value, a run-time identifier or a path
  into the input. No other reference yields a value.
\<close>

theorem resolveReference_declared:
  assumes "resolveReference input ref rc = Inr v"
  shows "(\<exists>t. ref = ''literal:'' @ t \<and> v = VStr t) \<or>
         set ref \<inter> set executable_chars = {} \<and>
         (ref = ''$connection.source_project'' \<and> v = VStr (rc_source_project rc) \<or>
          ref = ''$connection.target_project'' \<and> v = VStr (rc_target_project rc) \<or>
          ref = ''$connection.target_ref'' \<and> v = VStr (firstValue [VStr (rc_target_ref rc), VStr main_ref]) \<or>
          (\<exists>name i. ref = ''$runtime.'' @ name \<and> v = VNamed i \<and>
             (name, i) \<in> {(''workspace_id'', rc_workspace rc), (''connection_id'', rc_connection rc),
                          (''flow_execution_id'', rc_execution rc), (''event_id'', rc_event rc)}) \<or>
          v = lookupPath input (trim_prefix ref ''$input.''))"
proof (cases "has_prefix ref ''literal:''")
  case True
  then obtain t where "ref = ''literal:'' @ t" by (auto simp: has_prefix_def prefix_def)
  with assms show ?thesis by (simp add: resolveReference_def has_prefix_def trim_prefix_def)
next
  case False
  with assms have "set ref \<inter> set executable_chars = {}"
    by (auto simp: resolveReference_def contains_any_iff split: if_splits)
  moreover {
    assume "has_prefix ref ''$connection.''"
    then obtain n where "ref = ''$connection.'' @ n" by (auto simp: has_prefix_def prefix_def)
    with False assms have ?thesis using calculation
      by (simp add: resolveReference_def has_prefix_def trim_prefix_def Let_def split: if_splits)
  }
  moreover {
    assume "has_prefix ref ''$runtime.''"
    then obtain n where "ref = ''$runtime.'' @ n" by (auto simp: has_prefix_def prefix_def)
    with False assms have ?thesis using calculation(1)
      by (simp add: resolveReference_def has_prefix_def trim_prefix_def Let_def split: if_splits)
  }
  ultimately show ?thesis using False assms
    by (auto simp: resolveReference_def split: if_splits)
qed

definition sample_context :: runtime_context where
  "sample_context =
     \<lparr>rc_workspace = ''w'', rc_connection = ''c'', rc_execution = ''x'', rc_event = ''e'',
      rc_source_project = ''group/app'', rc_target_project = ''board'', rc_target_ref = []\<rparr>"

definition sample_spec :: mapping_spec where
  "sample_spec = [(''title'', no_rule\<lparr>mr_concat := [''literal:change '', ''$input.id'']\<rparr>),
                  (''project'', from_source ''$connection.target_project'')]"

theorem ApplyMapping_pointwise_witness:
  "\<exists>out. ApplyMapping [(''id'', VStr ''7'')] sample_spec sample_context = Inr out \<and>
     has_key out ''title''"
proof -
  have d: "distinct (map fst sample_spec)" by code_simp
  have out: "ApplyMapping [(''id'', VStr ''7'')] sample_spec sample_context =
      Inr [(''title'', VStr ''change 7''), (''project'', VStr ''board'')]" by code_simp
  have "has_key sample_spec ''title''" by (simp add: sample_spec_def)
  with ApplyMapping_pointwise [OF d, of "[(''id'', VStr ''7'')]" sample_context] out
  show ?thesis by blast
qed

theorem resolveReference_declared_witness:
  "set ''$connection.target_ref'' \<inter> set executable_chars = {}"
proof -
  have "resolveReference [] ''$connection.target_ref'' sample_context = Inr (VStr main_ref)"
    by code_simp
  from resolveReference_declared [OF this] show ?thesis by simp
qed

section \<open>Filters\<close>


text \<open>
  The conditions under which a filter that passed validation can be evaluated on an input: no
  operator is padded with white space, and every field compared as a number holds one.
\<close>

fun plain_operators :: "filter \<Rightarrow> bool" where
  "plain_operators (Filter rawop fieldname value children) =
     (trim_space rawop = rawop \<and> list_all plain_operators children)"

fun numeric_fields :: "gobj \<Rightarrow> filter \<Rightarrow> bool" where
  "numeric_fields input (Filter rawop fieldname value children) =
     ((comparison_op (to_lower rawop) \<longrightarrow> snd (numberValue (lookupPath input fieldname))) \<and>
      list_all (numeric_fields input) children)"

lemma numberValue_VNil [simp]: "\<not> snd (numberValue VNil)"
  by simp

lemma validated_filter_evaluates_aux:
  "ValidateFilter f = Inr () \<Longrightarrow> plain_operators f \<Longrightarrow> numeric_fields input f \<Longrightarrow>
     \<exists>b. EvaluateFilter input f = Inr b"
proof (induction f rule: ValidateFilter.induct)
  case (1 rawop fieldname val children)
  let ?o = "to_lower rawop"
  from 1(3) have o: "to_lower (trim_space rawop) = ?o" by simp
  show ?case
  proof (cases "?o \<in> {''and'', ''or''}")
    case True
    with 1(2) o have ne: "children \<noteq> []"
      and valid: "\<forall>c \<in> set children. ValidateFilter c = Inr ()"
      by (auto simp: Let_def err_simps split: if_splits)
    have "\<forall>c \<in> set children. \<exists>b. EvaluateFilter input c = Inr b"
      using 1(1) [OF refl] True o ne valid 1(3,4) by (auto simp: list_all_iff)
    then obtain bs where "map_result (EvaluateFilter input) children = Inr bs"
      using map_result_total by metis
    with True ne show ?thesis by (auto simp: Let_def)
  next
    case False
    with 1(2,4) o show ?thesis by (auto simp: Let_def split: if_splits)
  qed
qed

text \<open>
  A filter that \<open>ValidateFilter\<close> accepts evaluates without error on every input that has
  numbers where the filter compares numbers, provided no operator is padded with white space.
\<close>

theorem validated_filter_evaluates:
  assumes "ValidateFilter f = Inr ()" "plain_operators f" "numeric_fields input f"
  shows "\<exists>b. EvaluateFilter input f = Inr b"
  by (rule validated_filter_evaluates_aux [OF assms])

theorem validated_filter_evaluates_witness:
  "\<exists>b. EvaluateFilter [(''status'', VStr ''open'')]
     (Filter ''AND'' [] VNil [Filter ''equals'' ''status'' (VStr ''open'') []]) = Inr b"
  by (rule validated_filter_evaluates) code_simp+

text \<open>
  The proviso is needed. \<open>ValidateFilter\<close> trims the operator and \<open>EvaluateFilter\<close> only lowers
  it, so a filter whose operator carries a space passes validation and fails on every input.
\<close>

theorem padded_operator_never_evaluates:
  "ValidateFilter (Filter '' equals'' ''status'' (VStr ''open'') []) = Inr () \<and>
   EvaluateFilter input (Filter '' equals'' ''status'' (VStr ''open'') []) =
     fail ErrInvalid ''unsupported filter operator  equals''"
proof -
  have "to_lower '' equals'' = '' equals''" by code_simp
  then have "EvaluateFilter input (Filter '' equals'' ''status'' (VStr ''open'') []) =
     fail ErrInvalid ''unsupported filter operator  equals''"
    by (simp add: Let_def del: to_lower.simps)
  moreover have "ValidateFilter (Filter '' equals'' ''status'' (VStr ''open'') []) = Inr ()"
    by code_simp
  ultimately show ?thesis by blast
qed

section \<open>Normalised events\<close>

lemma validateRequiredModel_iff:
  "validateRequiredModel m model = Inr () \<longleftrightarrow>
     (\<forall>f \<in> set (required_fields model). \<not> blank (stringValue (obj_get m f)))"
  by (auto simp: validateRequiredModel_def err_simps)

lemma required_not_extensions: "f \<in> set (required_fields model) \<Longrightarrow> f \<noteq> ''extensions''"
  by (auto simp: required_fields_def split: if_splits)

lemma with_extensions_other: "f \<noteq> ''extensions'' \<Longrightarrow> obj_get (with_extensions e m) f = obj_get m f"
  by (simp add: with_extensions_def)

lemma ValidateModelValue_required:
  "ValidateModelValue c model m = Inr () \<Longrightarrow> catalog_model c model = Some d \<Longrightarrow>
     f \<in> set (dm_required d) \<Longrightarrow> \<not> blankValue (obj_get m f)"
  by (auto simp: ValidateModelValue_def err_simps split: if_splits)

text \<open>
  an event that Parse/Normalize lets through carries every field its model requires, those of
  the built-in table and those of the registered data model, and none of them is blank.
\<close>

theorem parseNormalize_required:
  assumes "parseNormalize event model rc c = Inr out"
  shows "(\<forall>f \<in> set (required_fields model). \<not> blank (stringValue (obj_get out f))) \<and>
         (case catalog_model c model of None \<Rightarrow> True
          | Some d \<Rightarrow> \<forall>f \<in> set (dm_required d). \<not> blankValue (obj_get out f))"
proof -
  obtain e m where e: "event = Some e" "validateRequiredModel m model = Inr ()"
    and rest: "(case catalog_model c model of None \<Rightarrow> Inr m | Some d \<Rightarrow>
        bind_result (ValidateModelValue c model m) (\<lambda>_. Inr (if dm_extensions d \<and>
          \<not> has_key m ''extensions'' then with_extensions e m else m))) = Inr out"
    using assms by (auto simp: parseNormalize_def err_simps split: option.splits)
  show ?thesis
  proof (cases "catalog_model c model")
    case None
    with e rest show ?thesis by (simp add: validateRequiredModel_iff)
  next
    case (Some d)
    with rest have valid: "ValidateModelValue c model m = Inr ()"
      and out: "out = m \<or> \<not> has_key m ''extensions'' \<and> out = with_extensions e m"
      by (auto simp: err_simps split: if_splits)
    have "\<not> blankValue (obj_get out f)" if "f \<in> set (dm_required d)" for f
    proof -
      have nb: "\<not> blankValue (obj_get m f)"
        using ValidateModelValue_required [OF valid Some that] .
      then have "has_key m f" using obj_get_missing by fastforce
      with out nb show ?thesis using with_extensions_other by (metis (no_types))
    qed
    moreover have "\<not> blank (stringValue (obj_get out f))" if "f \<in> set (required_fields model)" for f
      using e(2) out that required_not_extensions with_extensions_other
      by (metis validateRequiredModel_iff)
    ultimately show ?thesis using Some by simp
  qed
qed

theorem parseNormalize_required_witness:
  "\<exists>out. parseNormalize (Some [(''message'', VStr ''change_id: 42''), (''delivery_id'', VStr ''d'')])
     ''ArchiveCompletion.v1'' sample_context empty_catalog = Inr out \<and>
     \<not> blank (stringValue (obj_get out ''change_id''))"
proof -
  have "parseNormalize (Some [(''message'', VStr ''change_id: 42''), (''delivery_id'', VStr ''d'')])
     ''ArchiveCompletion.v1'' sample_context empty_catalog =
     Inr [(''change_id'', VStr ''42''), (''source_project'', VStr ''group/app''),
          (''target_ref'', VStr main_ref), (''provider_delivery_id'', VStr ''d'')]" by code_simp
  with parseNormalize_required [OF this] show ?thesis by (auto simp: required_fields_def)
qed

text \<open>The identity an abandoned change is found by.\<close>

definition lifecycle_fields :: "gobj \<Rightarrow> (string, string) gomap" where
  "lifecycle_fields event = parseDescriptionFields
     (stringValue (obj_get (object_of (obj_get event ''object_attributes'')) ''description''))"

lemma parseChangeLifecycle_fields:
  "obj_get (parseChangeLifecycle event rc) ''change_id'' =
     VStr (firstValue [field_val (lifecycle_fields event) ''change_id'', str_of event ''change_id''])"
  "obj_get (parseChangeLifecycle event rc) ''source_project'' =
     VStr (firstValue [VStr (rc_source_project rc), project_path event, str_of event ''source_project''])"
  "obj_get (parseChangeLifecycle event rc) ''provider_delivery_id'' =
     VStr (firstValue [str_of event ''provider_delivery_id'', str_of event ''delivery_id''])"
  "\<not> blank (stringValue (obj_get (parseChangeLifecycle event rc) ''target_ref''))"
  "\<not> blank (stringValue (obj_get (parseChangeLifecycle event rc) ''lifecycle_event''))"
  "\<not> blank (stringValue (obj_get (parseChangeLifecycle event rc) ''lifecycle_reason''))"
proof -
  have "\<not> blank main_ref" "\<not> blank ''abandoned''" "\<not> blank abandoned_reason" by code_simp+
  note nb = this
  show "obj_get (parseChangeLifecycle event rc) ''change_id'' =
     VStr (firstValue [field_val (lifecycle_fields event) ''change_id'', str_of event ''change_id''])"
   "obj_get (parseChangeLifecycle event rc) ''source_project'' =
     VStr (firstValue [VStr (rc_source_project rc), project_path event, str_of event ''source_project''])"
   "obj_get (parseChangeLifecycle event rc) ''provider_delivery_id'' =
     VStr (firstValue [str_of event ''provider_delivery_id'', str_of event ''delivery_id''])"
   "\<not> blank (stringValue (obj_get (parseChangeLifecycle event rc) ''target_ref''))"
   "\<not> blank (stringValue (obj_get (parseChangeLifecycle event rc) ''lifecycle_event''))"
   "\<not> blank (stringValue (obj_get (parseChangeLifecycle event rc) ''lifecycle_reason''))"
    using nb by (simp_all add: parseChangeLifecycle_def lifecycle_fields_def Let_def put_iid_def
        put_url_def firstValue_blank_iff del: firstValue.simps)
qed

text \<open>
  the lifecycle parser fills in what a label event does not say (the ref, the event name and
  the reason), so an event is normalised exactly when it tells which change, which project and
  which delivery it belongs to.
\<close>

theorem ChangeLifecycle_accepted_iff:
  "(\<exists>out. ParseNormalize (Some event) ''ChangeLifecycle.v1'' rc = Inr out) \<longleftrightarrow>
     (\<not> blank (stringValue (field_val (lifecycle_fields event) ''change_id'')) \<or>
      \<not> blank (stringValue (obj_get event ''change_id''))) \<and>
     (\<not> blank (rc_source_project rc) \<or> \<not> blank (stringValue (project_path event)) \<or>
      \<not> blank (stringValue (obj_get event ''source_project''))) \<and>
     (\<not> blank (stringValue (obj_get event ''provider_delivery_id'')) \<or>
      \<not> blank (stringValue (obj_get event ''delivery_id'')))"
proof -
  have none: "catalog_model empty_catalog m = None" for m
    by (simp add: catalog_model_def empty_catalog_def)
  have "(\<exists>out. ParseNormalize (Some event) ''ChangeLifecycle.v1'' rc = Inr out) \<longleftrightarrow>
        validateRequiredModel (parseChangeLifecycle event rc) ''ChangeLifecycle.v1'' = Inr ()"
    by (simp add: ParseNormalize_def parseNormalize_def normalize_event_def err_simps none)
  also have "\<dots> \<longleftrightarrow> (\<forall>f \<in> {''change_id'', ''source_project'', ''provider_delivery_id''}.
      \<not> blank (stringValue (obj_get (parseChangeLifecycle event rc) f)))"
    unfolding validateRequiredModel_iff
    by (simp add: required_fields_def parseChangeLifecycle_fields(4-6))
  finally show ?thesis
    by (simp add: parseChangeLifecycle_fields(1-3) firstValue_blank_iff str_of_def
        del: firstValue.simps)
qed

theorem ChangeLifecycle_accepted_iff_witness:
  "\<exists>out. ParseNormalize (Some [(''change_id'', VStr ''c-7''), (''delivery_id'', VStr ''d-1'')])
     ''ChangeLifecycle.v1'' sample_context = Inr out"
  unfolding ChangeLifecycle_accepted_iff by code_simp

end
