(* ===== verification/Redaction.thy ===== *)
theory Redaction
  imports Registry FlowNodes
begin

text \<open>
  Redaction of provider payloads, \<open>security/vault.go\<close>. Every payload, node input and node output
  passes \<open>RedactValue\<close> before it is stored or shown. The lemmas below say what is left of a
  value: no member with a sensitive name keeps its value, at any depth, and nothing else changes.
\<close>

section \<open>Sensitive names\<close>

definition normalize_key :: "string \<Rightarrow> string" where
  "normalize_key key = to_lower (map (\<lambda>c. if c = CHR ''-'' \<or> c = CHR '' '' then CHR ''_'' else c) key)"

definition sensitiveKeys :: "string list" where
  "sensitiveKeys =
     [''token'', ''access_token'', ''refresh_token'', ''private_token'',
      ''password'', ''passwd'', ''secret'', ''client_secret'',
      ''authorization'', ''authorization_code'', ''webhook_secret'',
      ''signing_secret'', ''signing_token'', ''api_key'', ''apikey'']"

definition isSecretReferenceKey :: "string \<Rightarrow> bool" where
  "isSecretReferenceKey key =
     (let normalized = normalize_key key
      in normalized = ''secret_ref'' \<or> has_suffix normalized ''_secret_ref'' \<or>
         normalized = ''credential_ref'' \<or> has_suffix normalized ''_credential_ref'' \<or>
         normalized = ''secret_alias'' \<or> has_suffix normalized ''_secret_alias'')"

definition isSensitiveKey :: "string \<Rightarrow> bool" where
  "isSensitiveKey key =
     (let normalized = normalize_key key
      in if isSecretReferenceKey normalized then False
         else if normalized \<in> set sensitiveKeys then True
         else list_ex (str_contains normalized)
           [''token'', ''password'', ''passwd'', ''client_secret'', ''authorization'', ''signing_secret''])"

section \<open>Redaction\<close>

abbreviation redacted :: gval where "redacted \<equiv> VStr ''[REDACTED]''"

fun RedactValue :: "gval \<Rightarrow> gval" where
  "RedactValue (VObj m) =
     VObj (map (\<lambda>(key, child). (key, if isSensitiveKey key then redacted else RedactValue child)) m)"
| "RedactValue (VArr vs) = VArr (map RedactValue vs)"
| "RedactValue v = v"

definition redact_object :: "gobj \<Rightarrow> gobj" where
  "redact_object m =
     map (\<lambda>(key, child). (key, if isSensitiveKey key then redacted else RedactValue child)) m"

lemma RedactValue_object [simp]: "RedactValue (VObj m) = VObj (redact_object m)"
  by (simp add: redact_object_def)

declare RedactValue.simps(1) [simp del]

lemma redact_object_keys [simp]: "map fst (redact_object m) = map fst m"
  by (simp add: redact_object_def case_prod_unfold comp_def)

lemma obj_get_redact_object:
  "obj_get (redact_object m) k =
     (if isSensitiveKey k \<and> has_key m k then redacted else RedactValue (obj_get m k))"
proof (induction m)
  case (Cons kv m)
  then show ?case by (cases kv) (simp add: redact_object_def)
qed (simp add: redact_object_def)

section \<open>What redaction guarantees\<close>

text \<open>A value keeps no secret when no object in it has a sensitive member that is not masked.\<close>

definition keeps_no_secret :: "gval \<Rightarrow> bool" where
  "keeps_no_secret v =
     (\<forall>m key child. nested (VObj m) v \<and> (key, child) \<in> set m \<and> isSensitiveKey key \<longrightarrow> child = redacted)"

lemma nested_atom: "(\<forall>vs. v \<noteq> VArr vs) \<Longrightarrow> (\<forall>m. v \<noteq> VObj m) \<Longrightarrow> nested w v \<longleftrightarrow> w = v"
  by (auto elim: nested.cases intro: nested_self)

lemma keeps_no_secret_atom: "(\<forall>vs. v \<noteq> VArr vs) \<Longrightarrow> (\<forall>m. v \<noteq> VObj m) \<Longrightarrow> keeps_no_secret v"
  by (auto simp: keeps_no_secret_def nested_atom)

lemma keeps_no_secret_arr: "keeps_no_secret (VArr vs) \<longleftrightarrow> (\<forall>v \<in> set vs. keeps_no_secret v)"
  unfolding keeps_no_secret_def nested_arr_simps by blast

lemma keeps_no_secret_obj:
  "keeps_no_secret (VObj m) \<longleftrightarrow>
     (\<forall>(key, child) \<in> set m. (isSensitiveKey key \<longrightarrow> child = redacted) \<and> keeps_no_secret child)"
  unfolding keeps_no_secret_def nested_obj_simps by blast

lemma keeps_no_secret_redacted [simp]: "keeps_no_secret redacted"
  by (simp add: keeps_no_secret_atom)

lemma RedactValue_keeps_no_secret: "keeps_no_secret (RedactValue v)"
proof (induction v rule: gval_induct)
  case (atom v)
  then show ?case by (cases v) (auto intro: keeps_no_secret_atom)
next
  case (arr vs)
  then show ?case by (simp add: keeps_no_secret_arr)
next
  case (obj m)
  then show ?case by (auto simp: keeps_no_secret_obj redact_object_def)
qed

lemma RedactValue_id: "keeps_no_secret v \<Longrightarrow> RedactValue v = v"
proof (induction v rule: gval_induct)
  case (atom v)
  then show ?case by (cases v) auto
next
  case (arr vs)
  then show ?case by (auto simp: keeps_no_secret_arr intro: map_idI)
next
  case (obj m)
  then have "redact_object m = m"
    by (fastforce simp: redact_object_def keeps_no_secret_obj intro: map_idI)
  then show ?case by simp
qed

lemma RedactValue_fixed_iff: "RedactValue v = v \<longleftrightarrow> keeps_no_secret v"
  using RedactValue_id RedactValue_keeps_no_secret by metis

lemma RedactValue_Nil_iff [simp]: "RedactValue v = VNil \<longleftrightarrow> v = VNil"
  by (cases v) auto

lemma as_obj_Redact: "as_obj (RedactValue v) = map_option redact_object (as_obj v)"
  by (cases v) auto

lemma lookup_segments_Redact:
  "list_all (\<lambda>seg. \<not> isSensitiveKey seg) segs \<Longrightarrow>
     lookup_segments (RedactValue v) segs = RedactValue (lookup_segments v segs)"
proof (induction segs arbitrary: v)
  case (Cons seg segs)
  then show ?case
    by (cases v) (simp_all add: obj_get_redact_object)
qed simp

text \<open>A place in a value: members and items from the root to it.\<close>

datatype place_step = Member string | Item nat

fun child_at :: "place_step \<Rightarrow> gval \<Rightarrow> gval option" where
  "child_at (Member k) (VObj m) = (if has_key m k then Some (obj_get m k) else None)"
| "child_at (Item n) (VArr vs) = (if n < length vs then Some (vs ! n) else None)"
| "child_at _ _ = None"

fun at_place :: "place_step list \<Rightarrow> gval \<Rightarrow> gval option" where
  "at_place [] v = Some v"
| "at_place (s # p) v = (case child_at s v of None \<Rightarrow> None | Some c \<Rightarrow> at_place p c)"

fun plain_step :: "place_step \<Rightarrow> bool" where
  "plain_step (Member k) = (\<not> isSensitiveKey k)"
| "plain_step (Item n) = True"

lemma redact_object_members [simp]: "fst ` set (redact_object m) = fst ` set m"
  by (metis list.set_map redact_object_keys)

lemma child_at_Redact:
  "child_at s (RedactValue v) = map_option (\<lambda>c. if plain_step s then RedactValue c else redacted) (child_at s v)"
  by (cases s; cases v) (auto simp: obj_get_redact_object)

lemma at_place_append: "at_place (p @ q) v = (case at_place p v of None \<Rightarrow> None | Some c \<Rightarrow> at_place q c)"
  by (induction p arbitrary: v) (auto split: option.split)

lemma at_place_Redact: "list_all plain_step p \<Longrightarrow> at_place p (RedactValue v) = map_option RedactValue (at_place p v)"
proof (induction p arbitrary: v)
  case (Cons s p)
  then show ?case by (cases "child_at s v") (simp_all add: child_at_Redact)
qed simp

lemma at_secret_Redact:
  "list_all plain_step p \<Longrightarrow> isSensitiveKey k \<Longrightarrow>
     at_place (p @ [Member k]) (RedactValue v) = map_option (\<lambda>_. redacted) (at_place (p @ [Member k]) v)"
  by (cases "at_place p v") (auto simp: at_place_append at_place_Redact child_at_Redact split: option.split)

text \<open>
  C37: what is stored of a payload holds no secret, and redaction changes nothing else. In the redacted
  value every member with a sensitive name, at any depth, reads \<open>[REDACTED]\<close>. A place that no sensitive
  name leads to exists in it exactly when it exists in the value, and holds the redaction of what is
  there, which is the same thing unless it is an array or an object with something to mask; a
  sensitive member in such a place is kept, masked. So a value without such members comes back as
  it is, and redacting twice is redacting once.
\<close>

theorem RedactValue_no_secret:
  "keeps_no_secret (RedactValue v) \<and> (RedactValue v = v \<longleftrightarrow> keeps_no_secret v) \<and>
   RedactValue (RedactValue v) = RedactValue v \<and>
   (list_all plain_step p \<longrightarrow>
      at_place p (RedactValue v) = map_option RedactValue (at_place p v) \<and>
      (isSensitiveKey k \<longrightarrow>
         at_place (p @ [Member k]) (RedactValue v) = map_option (\<lambda>_. redacted) (at_place (p @ [Member k]) v)))"
  using RedactValue_keeps_no_secret RedactValue_fixed_iff at_place_Redact at_secret_Redact by blast

theorem RedactValue_no_secret_witness:
  "at_place [Member ''list'', Item 1, Member ''token'']
     (RedactValue (VObj [(''list'', VArr [VNil, VObj [(''token'', VStr ''k'')]])])) = Some redacted"
proof -
  have "list_all plain_step [Member ''list'', Item 1]" "isSensitiveKey ''token''" by code_simp+
  then show ?thesis
    using RedactValue_no_secret [of "VObj [(''list'', VArr [VNil, VObj [(''token'', VStr ''k'')]])]" "[Member ''list'', Item 1]" "''token''"]
    by simp
qed

text \<open>
  redaction keeps the structure a flow reads: a path none of whose segments is a sensitive name
  leads in the redacted payload to the redaction of what it leads to in the payload, and a text or
  number found there is the original one.
\<close>

theorem RedactValue_path:
  assumes "list_all (\<lambda>seg. \<not> isSensitiveKey seg) (split_on (CHR ''.'') path)"
  shows "lookupPath (redact_object payload) path = RedactValue (lookupPath payload path) \<and>
         ((\<forall>vs. lookupPath payload path \<noteq> VArr vs) \<and> (\<forall>m. lookupPath payload path \<noteq> VObj m) \<longrightarrow>
            lookupPath (redact_object payload) path = lookupPath payload path)"
proof -
  have "lookupPath (redact_object payload) path = RedactValue (lookupPath payload path)"
    using lookup_segments_Redact [OF assms, of "VObj payload"] by (simp add: lookupPath_def)
  then show ?thesis by (cases "lookupPath payload path") auto
qed

theorem RedactValue_path_witness:
  "lookupPath (redact_object [(''user'', VObj [(''api-key'', VStr ''k''), (''name'', VStr ''ann'')])])
     ''user.name'' = VStr ''ann''"
proof -
  have "lookupPath (redact_object [(''user'', VObj [(''api-key'', VStr ''k''), (''name'', VStr ''ann'')])])
     ''user.name'' =
     RedactValue (lookupPath [(''user'', VObj [(''api-key'', VStr ''k''), (''name'', VStr ''ann'')])] ''user.name'')"
    by (rule conjunct1 [OF RedactValue_path]) code_simp
  also have "\<dots> = VStr ''ann''" by code_simp
  finally show ?thesis .
qed

end
