(* ===== verification/AuditTrail.thy ===== *)
theory AuditTrail
  imports Accounts RuntimeStore Redaction
begin

text \<open>
  The audit trail, \<open>store/audit.go\<close>: what the control plane and the runtime record of their effects.
  A payload is redacted once more on the way into the table, by the rules below.
\<close>

section \<open>Rows\<close>

record audit_event =
  au_id :: ID
  au_workspace :: ID
  au_actor :: ID
  au_action :: string
  au_entity_type :: string
  au_entity :: ID
  au_payload :: gobj
  au_created :: gtime

record audit_db =
  ab_auth :: auth_db
  ab_rows :: "audit_event list"

definition audit_clash :: "audit_event \<Rightarrow> audit_event \<Rightarrow> bool" where
  "audit_clash a b \<longleftrightarrow> au_id a = au_id b"

interpretation audit_by_id: unique_key au_id audit_clash
  by unfold_locales (simp add: audit_clash_def)

section \<open>Redaction\<close>

definition audit_sensitive :: "string \<Rightarrow> bool" where
  "audit_sensitive key =
     (let normalized = normalize_key key
      in normalized \<in> set sensitiveKeys \<or>
         list_ex (str_contains normalized) [''token'', ''password'', ''client_secret'', ''authorization'', ''signing_secret''])"

fun redactAuditValue :: "gval \<Rightarrow> gval" where
  "redactAuditValue (VObj m) =
     VObj (map (\<lambda>(key, child). (key, if audit_sensitive key then redacted else redactAuditValue child)) m)"
| "redactAuditValue (VArr vs) = VArr (map redactAuditValue vs)"
| "redactAuditValue v = v"

section \<open>Writing and reading\<close>

definition audit_member :: "ID \<Rightarrow> ID \<Rightarrow> auth_db \<Rightarrow> bool" where
  "audit_member accountID workspaceID db \<longleftrightarrow>
     list_ex (\<lambda>a. acc_id a = accountID) (db_accounts db) \<and>
     list_ex (\<lambda>m. wm_account m = accountID \<and> wm_workspace m = workspaceID \<and> wm_status m = ''active'') (db_memberships db)"

definition CreateAuditEvent :: "gtime \<Rightarrow> ID \<Rightarrow> audit_event \<Rightarrow> audit_db \<Rightarrow> gerr + audit_db" where
  "CreateAuditEvent now newID e0 db =
     (let e = e0\<lparr>au_id := or_default (au_id e0) (\<lambda>i. i = []) newID\<rparr>
      in bind_result (requireWorkspaceID (au_workspace e)) (\<lambda>_.
         if blank (au_action e) \<or> blank (au_entity_type e) \<or> au_entity e = []
         then fail ErrInvalid ''audit action, entity_type and entity_id are required''
         else if au_actor e \<noteq> [] \<and> \<not> audit_member (au_actor e) (au_workspace e) (ab_auth db)
         then fail ErrForbidden ''audit actor is not a Workspace member''
         else bind_result (marshalJSON (object_of (redactAuditValue (VObj (au_payload e))))) (\<lambda>payload.
              bind_result (require_row ''create audit event'' (au_workspace e \<in> set (map ws_id (db_workspaces (ab_auth db))))) (\<lambda>_.
              bind_result (insert_row ''create audit event'' audit_clash
                (e\<lparr>au_created := or_default (au_created e) IsZero now, au_payload := payload\<rparr>) (ab_rows db)) (\<lambda>rows.
                Inr (db\<lparr>ab_rows := rows\<rparr>))))))"

definition ListAuditEvents :: "ID \<Rightarrow> string \<Rightarrow> ID \<Rightarrow> int \<Rightarrow> audit_db \<Rightarrow> gerr + audit_event list" where
  "ListAuditEvents workspaceID entityType entityID limit0 db =
     bind_result (requireWorkspaceID workspaceID) (\<lambda>_.
       let limit = (if limit0 \<le> 0 \<or> limit0 > 500 then 100 else limit0);
           selected = filter (\<lambda>e. au_workspace e = workspaceID \<and> (blank entityType \<or> au_entity_type e = entityType) \<and>
                                  (entityID = [] \<or> au_entity e = entityID)) (ab_rows db)
       in map_result (\<lambda>e. bind_result (unmarshalJSON ''decode audit payload'' (au_payload e)) (\<lambda>p.
                            Inr (e\<lparr>au_payload := p\<rparr>)))
            (take (nat limit) (rev (sort_key (\<lambda>e. (stored_time (au_created e), au_id e)) selected))))"

text \<open>No member with a sensitive name survives in the audit trail, at any depth.\<close>

lemma redactAuditValue_masks:
  "nested (VObj m) (redactAuditValue v) \<Longrightarrow> (key, child) \<in> set m \<Longrightarrow> audit_sensitive key \<Longrightarrow> child = redacted"
proof (induction v rule: gval_induct)
  case (atom v)
  have "redactAuditValue v = v" using atom.hyps by (cases v) auto
  then show ?case using atom by (auto simp: nested_atom)
next
  case (arr vs)
  then show ?case by (auto simp: nested_arr_simps)
next
  case (obj n)
  from obj.prems(1) consider
      "m = map (\<lambda>(key, child). (key, if audit_sensitive key then redacted else redactAuditValue child)) n"
    | k c where "(k, c) \<in> set n" "nested (VObj m) (if audit_sensitive k then redacted else redactAuditValue c)"
    unfolding redactAuditValue.simps nested_obj_simps by fastforce
  then show ?case
  proof cases
    case 1
    then show ?thesis using obj.prems(2,3) by auto
  next
    case 2
    then have "\<not> audit_sensitive k" by (auto simp: nested_atom)
    then show ?thesis using obj(1) [OF 2(1)] obj.prems(2,3) 2(2) by simp
  qed
qed

end
