(* ===== verification/Effects.thy ===== *)
theory Effects
  imports Domain
begin

text \<open>
  What the parts of the program that call a provider share: the errors such a part ends with, the parts
  themselves, and the interface \<open>effect_relation\<close> under which a relation on the states that holds of every
  elementary effect holds of a whole run.
\<close>

section \<open>Errors\<close>

text \<open>
  The errors of a node: the two marker types, an error of a provider with its category, and what wraps
  another one. \<open>errors.As\<close> and \<open>errors.Is\<close> look through the wrappers.
\<close>

datatype exec_err =
    ESkip
  | EErr gerr
  | EWrap string exec_err
  | EAfter exec_err string
  | EReconcile exec_err
  | EProvider string string string string "exec_err option"

abbreviation ErrorTransient :: string where "ErrorTransient \<equiv> ''transient''"
abbreviation ErrorRateLimited :: string where "ErrorRateLimited \<equiv> ''rate-limited''"
abbreviation ErrorTimeout :: string where "ErrorTimeout \<equiv> ''timeout''"
abbreviation ErrorIndeterminate :: string where "ErrorIndeterminate \<equiv> ''indeterminate''"

fun exec_text :: "exec_err \<Rightarrow> string" where
  "exec_text ESkip = ''condition did not match''"
| "exec_text (EErr e) = err_text e"
| "exec_text (EWrap p e) = p @ '': '' @ exec_text e"
| "exec_text (EAfter e s) = exec_text e @ s"
| "exec_text (EReconcile e) = exec_text e"
| "exec_text (EProvider p operation category request None) = p @ '' '' @ operation @ '': '' @ category"
| "exec_text (EProvider p operation category request (Some e)) =
     p @ '' '' @ operation @ '': '' @ category @ '': '' @ exec_text e"

fun is_skip :: "exec_err \<Rightarrow> bool" where
  "is_skip ESkip = True"
| "is_skip (EWrap p e) = is_skip e"
| "is_skip (EAfter e t) = is_skip e"
| "is_skip (EReconcile e) = is_skip e"
| "is_skip (EProvider p operation category request (Some e)) = is_skip e"
| "is_skip _ = False"

fun is_reconcile :: "exec_err \<Rightarrow> bool" where
  "is_reconcile (EReconcile e) = True"
| "is_reconcile (EWrap p e) = is_reconcile e"
| "is_reconcile (EAfter e t) = is_reconcile e"
| "is_reconcile (EProvider p operation category request (Some e)) = is_reconcile e"
| "is_reconcile _ = False"

fun provider_category :: "exec_err \<Rightarrow> string option" where
  "provider_category (EProvider p operation category request e) = Some category"
| "provider_category (EWrap p e) = provider_category e"
| "provider_category (EAfter e t) = provider_category e"
| "provider_category (EReconcile e) = provider_category e"
| "provider_category _ = None"

fun exec_is :: "exec_err \<Rightarrow> sentinel \<Rightarrow> bool" where
  "exec_is (EErr e) s = err_is e s"
| "exec_is (EWrap p e) s = exec_is e s"
| "exec_is (EAfter e t) s = exec_is e s"
| "exec_is (EReconcile e) s = exec_is e s"
| "exec_is (EProvider p operation category request (Some e)) s = exec_is e s"
| "exec_is _ s = False"

definition Retryable :: "string \<Rightarrow> bool" where
  "Retryable category \<longleftrightarrow> category = ErrorTransient \<or> category = ErrorRateLimited \<or> category = ErrorTimeout"

abbreviation bad :: "sentinel \<Rightarrow> string \<Rightarrow> exec_err + 'a" where
  "bad s t \<equiv> Inl (EErr (GErr s t))"

section \<open>Parts of a run\<close>

text \<open>A part of a run returns or fails, in a new state of the world.\<close>

type_synonym ('w, 'a) proc = "'w \<Rightarrow> (exec_err + 'a) \<times> 'w"

definition pass :: "'a \<Rightarrow> ('w, 'a) proc" where
  "pass x w = (Inr x, w)"

definition stop :: "exec_err \<Rightarrow> ('w, 'a) proc" where
  "stop e w = (Inl e, w)"

definition branch :: "('w, 'a) proc \<Rightarrow> (exec_err \<Rightarrow> ('w, 'b) proc) \<Rightarrow> ('a \<Rightarrow> ('w, 'b) proc) \<Rightarrow> ('w, 'b) proc" where
  "branch m f g w = (case m w of (Inl e, w') \<Rightarrow> f e w' | (Inr x, w') \<Rightarrow> g x w')"

definition seq :: "('w, 'a) proc \<Rightarrow> ('a \<Rightarrow> ('w, 'b) proc) \<Rightarrow> ('w, 'b) proc" where
  "seq m f = branch m stop f"

definition look :: "gerr + 'a \<Rightarrow> ('w, 'a) proc" where
  "look r = (case r of Inl e \<Rightarrow> stop (EErr e) | Inr x \<Rightarrow> pass x)"

text \<open>A reader of the state, an operation that changes it, and one whose error is dropped.\<close>

definition ask :: "('w \<Rightarrow> gerr + 'a) \<Rightarrow> ('w, 'a) proc" where
  "ask f w = look (f w) w"

definition act :: "('w \<Rightarrow> gerr + 'a \<times> 'w) \<Rightarrow> ('w, 'a) proc" where
  "act f w = (case f w of Inl e \<Rightarrow> (Inl (EErr e), w) | Inr (x, w') \<Rightarrow> (Inr x, w'))"

definition ignoring :: "('w, 'a) proc \<Rightarrow> ('w, unit) proc" where
  "ignoring m w = (Inr (), snd (m w))"

lemma pass_simps [simp]: "pass x w = (Inr x, w)" "stop e w = (Inl e, w)"
  by (simp_all add: pass_def stop_def)

lemma branch_simps [simp]:
  "m w = (Inl e, w') \<Longrightarrow> branch m f g w = f e w'" "m w = (Inr x, w') \<Longrightarrow> branch m f g w = g x w'"
  by (simp_all add: branch_def)

lemma seq_simps [simp]:
  "m w = (Inl e, w') \<Longrightarrow> seq m g w = (Inl e, w')" "m w = (Inr x, w') \<Longrightarrow> seq m g w = g x w'"
  by (simp_all add: seq_def)

lemma branch_Inr:
  "branch m f g w = (Inr y, w') \<longleftrightarrow>
     (\<exists>e w1. m w = (Inl e, w1) \<and> f e w1 = (Inr y, w')) \<or> (\<exists>x w1. m w = (Inr x, w1) \<and> g x w1 = (Inr y, w'))"
  by (auto simp: branch_def split: prod.splits sum.splits)

lemma seq_Inr: "seq m f w = (Inr y, w') \<longleftrightarrow> (\<exists>x w1. m w = (Inr x, w1) \<and> f x w1 = (Inr y, w'))"
  by (auto simp: seq_def branch_Inr)

lemma seq_Inl:
  "seq m f w = (Inl e, w') \<longleftrightarrow> m w = (Inl e, w') \<or> (\<exists>x w1. m w = (Inr x, w1) \<and> f x w1 = (Inl e, w'))"
  by (auto simp: seq_def branch_def split: prod.splits sum.splits)

lemma seq_cases:
  assumes "seq m f w = (res, w')"
  obtains (stopped) e where "m w = (Inl e, w')" "res = Inl e" | (continued) x w1 where "m w = (Inr x, w1)" "f x w1 = (res, w')"
  using assms by (auto simp: seq_def branch_def split: prod.splits sum.splits)

lemma look_Inr [simp]: "look r w = (Inr x, w') \<longleftrightarrow> r = Inr x \<and> w' = w"
  by (auto simp: look_def split: sum.splits)

lemma look_world [simp]: "snd (look r w) = w"
  by (simp add: look_def split: sum.splits)

lemma look_simps [simp]: "look (Inr x) w = (Inr x, w)" "look (Inl e) w = (Inl (EErr e), w)"
  by (simp_all add: look_def)

lemma ask_Inr [simp]: "ask f w = (Inr x, w') \<longleftrightarrow> f w = Inr x \<and> w' = w"
  by (simp add: ask_def)

lemma ask_world [simp]: "snd (ask f w) = w"
  by (simp add: ask_def)

lemma act_Inr: "act f w = (Inr x, w') \<longleftrightarrow> f w = Inr (x, w')"
  by (auto simp: act_def split: sum.splits prod.splits)

lemma act_Inl: "act f w = (Inl e, w') \<longleftrightarrow> (\<exists>g. e = EErr g \<and> f w = Inl g \<and> w' = w)"
  by (auto simp: act_def split: sum.splits prod.splits)

lemma ignoring_simps [simp]: "ignoring m w = (Inr u, w') \<longleftrightarrow> w' = snd (m w)" "snd (ignoring m w) = snd (m w)"
  by (auto simp: ignoring_def)

section \<open>The interface\<close>

definition keeps :: "('w \<Rightarrow> 'w \<Rightarrow> bool) \<Rightarrow> ('w, 'a) proc \<Rightarrow> bool" where
  "keeps R m \<longleftrightarrow> (\<forall>w. R w (snd (m w)))"

lemma keepsD: "keeps R m \<Longrightarrow> m w = (r, w') \<Longrightarrow> R w w'"
  unfolding keeps_def by (metis snd_conv)

locale effect_relation =
  fixes R :: "'w \<Rightarrow> 'w \<Rightarrow> bool"
  assumes R_refl: "R w w"
    and R_trans: "R a b \<Longrightarrow> R b c \<Longrightarrow> R a c"
begin

lemma pass_R: "keeps R (pass x)" and stop_R: "keeps R (stop e)"
  by (simp_all add: keeps_def R_refl)

lemma branch_R: "keeps R m \<Longrightarrow> (\<And>e. keeps R (f e)) \<Longrightarrow> (\<And>x. keeps R (g x)) \<Longrightarrow> keeps R (branch m f g)"
  unfolding keeps_def branch_def by (auto split: prod.splits sum.splits) (metis R_trans snd_conv)+

lemma seq_R: "keeps R m \<Longrightarrow> (\<And>x. keeps R (f x)) \<Longrightarrow> keeps R (seq m f)"
  unfolding seq_def by (intro branch_R stop_R)

lemma look_R: "keeps R (look r)" and ask_R: "keeps R (ask h)"
  by (simp_all add: keeps_def R_refl)

lemma act_R: "(\<And>w x w'. f w = Inr (x, w') \<Longrightarrow> R w w') \<Longrightarrow> keeps R (act f)"
  by (auto simp: keeps_def act_def R_refl split: sum.splits)

lemma ignoring_R: "keeps R m \<Longrightarrow> keeps R (ignoring m)"
  by (simp add: keeps_def)

lemma if_R: "keeps R m \<Longrightarrow> keeps R m' \<Longrightarrow> keeps R (if b then m else m')"
  by simp

lemma option_R: "keeps R m \<Longrightarrow> (\<And>x. keeps R (f x)) \<Longrightarrow> keeps R (case y of None \<Rightarrow> m | Some x \<Rightarrow> f x)"
  by (cases y) simp_all

lemmas flow_rules = if_R option_R pass_R stop_R branch_R seq_R look_R ask_R

end

end
