(* ===== verification/GraphOrder.thy ===== *)
theory GraphOrder
  imports Domain "HOL-Library.Multiset"
begin

text \<open>
  The orders the engine runs a flow graph in. \<open>simulationOrder\<close> (\<open>internal/flow/simulation.go\<close>),
  \<open>executionOrder\<close> (\<open>internal/runtime/executor.go\<close>) and the loop of \<open>Compile\<close>
  (\<open>internal/flow/compile.go\<close>) are the same worklist algorithm over a map of in-degrees. The
  worklist is verified once, for every initial queue that holds the sources of the graph in some
  order; the locale \<open>topo_sorter\<close> states what the callers rely on.
\<close>

section \<open>The worklist\<close>

type_synonym degrees = "(ID, int) gomap"

definition degree :: "degrees \<Rightarrow> ID \<Rightarrow> int" where
  "degree deg k = (case map_of deg k of None \<Rightarrow> 0 | Some d \<Rightarrow> d)"

text \<open>\<open>adjacency[id]\<close> after the loop over the edges: the targets, in the order of the edges.\<close>

definition adjacency :: "flow_edge list \<Rightarrow> ID \<Rightarrow> ID list" where
  "adjacency es k = map edge_to (filter (\<lambda>e. edge_from e = k) es)"

fun relax :: "degrees \<Rightarrow> ID list \<Rightarrow> ID list \<Rightarrow> degrees \<times> ID list" where
  "relax deg queue [] = (deg, queue)"
| "relax deg queue (k # ks) =
     (let d = degree deg k - 1
      in relax (AList.update k d deg) (if d = 0 then queue @ [k] else queue) ks)"

definition positive_entries :: "degrees \<Rightarrow> nat" where
  "positive_entries deg = length (filter (\<lambda>kd. 0 < snd kd) deg)"

lemma positive_update_le:
  "d < degree deg k \<Longrightarrow> positive_entries (AList.update k d deg) \<le> positive_entries deg"
  by (induction deg) (auto simp: positive_entries_def degree_def split: if_splits)

lemma positive_update_zero:
  "degree deg k = 1 \<Longrightarrow> Suc (positive_entries (AList.update k 0 deg)) = positive_entries deg"
  by (induction deg) (auto simp: positive_entries_def degree_def split: if_splits option.splits)

lemma relax_measure:
  "relax deg queue ks = (deg', queue') \<Longrightarrow>
     length queue' + positive_entries deg' \<le> length queue + positive_entries deg"
proof (induction deg queue ks rule: relax.induct)
  case (2 deg queue k ks)
  show ?case
  proof (cases "degree deg k = 1")
    case True
    with 2 show ?thesis using positive_update_zero [OF True] by force
  next
    case False
    with 2 show ?thesis using positive_update_le [of "degree deg k - 1" deg k] by force
  qed
qed simp

function kahn :: "(ID \<Rightarrow> ID list) \<Rightarrow> degrees \<Rightarrow> ID list \<Rightarrow> ID list \<Rightarrow> ID list" where
  "kahn adj deg [] order = order"
| "kahn adj deg (k # queue) order =
     (let (deg', queue') = relax deg queue (adj k) in kahn adj deg' queue' (order @ [k]))"
  by pat_completeness auto
termination
proof (relation "measure (\<lambda>(adj, deg, queue, order). length queue + positive_entries deg)")
  fix adj :: "ID \<Rightarrow> ID list" and deg k queue order x deg' queue'
  assume "x = relax deg queue (adj k)" "(deg', queue') = x"
  then show "((adj, deg', queue', order @ [k]), adj, deg, k # queue, order)
      \<in> measure (\<lambda>(adj, deg, queue, order). length queue + positive_entries deg)"
    using relax_measure [of deg queue "adj k" deg' queue'] by simp
qed simp

section \<open>The map of in-degrees\<close>

definition init_degrees :: "ID list \<Rightarrow> degrees" where
  "init_degrees ids = foldl (\<lambda>deg k. AList.update k 0 deg) [] ids"

fun count_edges :: "degrees \<Rightarrow> flow_edge list \<Rightarrow> gerr + degrees" where
  "count_edges deg [] = Inr deg"
| "count_edges deg (e # es) =
     (if \<not> has_key deg (edge_from e) then fail ErrInvalid ''edge source node is missing''
      else if \<not> has_key deg (edge_to e) then fail ErrInvalid ''edge target node is missing''
      else count_edges (AList.update (edge_to e) (degree deg (edge_to e) + 1) deg) es)"

definition topo_order :: "flow_graph \<Rightarrow> gerr + ID list" where
  "topo_order g =
     bind_result (count_edges (init_degrees (graph_ids g)) (graph_edges g)) (\<lambda>deg.
       let queue = filter (\<lambda>k. degree deg k = 0) (graph_ids g);
           order = kahn (adjacency (graph_edges g)) deg queue []
       in if length order \<noteq> length deg
          then fail ErrInvalid ''Flow graph contains a cycle'' else Inr order)"

text \<open>The two functions are textual copies of each other in two packages.\<close>

definition simulationOrder :: "flow_graph \<Rightarrow> gerr + ID list" where
  "simulationOrder g = topo_order g"

definition executionOrder :: "flow_graph \<Rightarrow> gerr + ID list" where
  "executionOrder g = topo_order g"

lemma degree_update [simp]:
  "degree (AList.update k d deg) k' = (if k' = k then d else degree deg k')"
  by (simp add: degree_def)

lemma init_degrees_aux:
  "distinct (map fst deg) \<Longrightarrow>
   distinct (map fst (foldl (\<lambda>deg k. AList.update k 0 deg) deg ids)) \<and>
   fst ` set (foldl (\<lambda>deg k. AList.update k 0 deg) deg ids) = fst ` set deg \<union> set ids \<and>
   ((\<forall>k. degree deg k = 0) \<longrightarrow> (\<forall>k. degree (foldl (\<lambda>deg k. AList.update k 0 deg) deg ids) k = 0))"
proof (induction ids arbitrary: deg)
  case (Cons k ids)
  then show ?case using Cons.IH [of "AList.update k 0 deg"] by (auto simp: dom_update)
qed simp

lemma init_degrees_keys: "distinct (map fst (init_degrees ids)) \<and> fst ` set (init_degrees ids) = set ids"
  using init_degrees_aux [of "[]" ids] by (simp add: init_degrees_def)

lemma init_degrees_zero: "degree (init_degrees ids) k = 0"
  using init_degrees_aux [of "[]" ids] by (simp add: init_degrees_def degree_def)

abbreviation edge_into :: "flow_edge list \<Rightarrow> ID set \<Rightarrow> ID \<Rightarrow> nat" where
  "edge_into es dn k \<equiv> length (filter (\<lambda>e. edge_to e = k \<and> edge_from e \<notin> dn) es)"

lemma count_edges_facts:
  "count_edges deg es = Inr deg' \<Longrightarrow> distinct (map fst deg) \<Longrightarrow>
     distinct (map fst deg') \<and> fst ` set deg' = fst ` set deg \<and>
     (\<forall>e \<in> set es. has_key deg (edge_from e) \<and> has_key deg (edge_to e)) \<and>
     (\<forall>k. degree deg' k = degree deg k + int (edge_into es {} k))"
proof (induction deg es rule: count_edges.induct)
  case (2 deg e es)
  then have keys: "has_key deg (edge_from e)" "has_key deg (edge_to e)"
    by (auto split: if_splits)
  let ?u = "AList.update (edge_to e) (degree deg (edge_to e) + 1) deg"
  have "fst ` set ?u = fst ` set deg" using keys by (auto simp: dom_update)
  with 2 keys show ?case by auto
qed simp

lemma count_edges_total:
  "(\<exists>deg'. count_edges deg es = Inr deg') \<longleftrightarrow>
     (\<forall>e \<in> set es. has_key deg (edge_from e) \<and> has_key deg (edge_to e))"
proof (induction deg es rule: count_edges.induct)
  case (2 deg e es)
  show ?case
  proof (cases "has_key deg (edge_from e) \<and> has_key deg (edge_to e)")
    case True
    then have "fst ` set (AList.update (edge_to e) (degree deg (edge_to e) + 1) deg) = fst ` set deg"
      by (auto simp: dom_update)
    with 2 True show ?thesis by simp
  qed auto
qed simp

section \<open>Correctness of the worklist\<close>

definition precedes :: "'a list \<Rightarrow> 'a \<Rightarrow> 'a \<Rightarrow> bool" where
  "precedes xs a b = (\<exists>us vs ws. xs = us @ a # vs @ b # ws)"

definition topological :: "flow_edge list \<Rightarrow> ID list \<Rightarrow> bool" where
  "topological es order = (\<forall>e \<in> set es. precedes order (edge_from e) (edge_to e))"

lemma precedes_append: "precedes xs a b \<Longrightarrow> precedes (xs @ ys) a b"
  by (force simp: precedes_def)

lemma precedes_snoc: "a \<in> set xs \<Longrightarrow> precedes (xs @ [b]) a b"
  by (force simp: precedes_def in_set_conv_decomp)

lemma precedes_in_set: "precedes xs a b \<Longrightarrow> a \<in> set xs \<and> b \<in> set xs"
  by (auto simp: precedes_def)

lemma precedes_irrefl: "distinct xs \<Longrightarrow> \<not> precedes xs a a"
  by (auto simp: precedes_def)

lemma precedes_trans: "distinct xs \<Longrightarrow> precedes xs a b \<Longrightarrow> precedes xs b c \<Longrightarrow> precedes xs a c"
proof -
  assume d: "distinct xs" "precedes xs a b" "precedes xs b c"
  from d(2) obtain us vs ws where 1: "xs = us @ a # vs @ b # ws" unfolding precedes_def by blast
  from d(3) obtain us' vs' ws' where 2: "xs = us' @ b # vs' @ c # ws'"
    unfolding precedes_def by blast
  note * = 1 2
  have "b \<notin> set us'" using d(1) 2 by auto
  moreover have "b \<notin> set (us @ a # vs)" using d(1) 1 by auto
  moreover have "(us @ a # vs) @ b # ws = us' @ b # (vs' @ c # ws')" using 1 2 by simp
  ultimately have "us @ a # vs = us'" "ws = vs' @ c # ws'"
    using append_sep_inject [of b "us @ a # vs" us' ws "vs' @ c # ws'"] by blast+
  then have "xs = us @ a # (vs @ b # vs') @ c # ws'" using * by simp
  then show ?thesis unfolding precedes_def by blast
qed

lemma edge_into_insert:
  "edge_into es dn j =
     edge_into es (insert k dn) j + (if k \<in> dn then 0 else count_list (adjacency es k) j)"
  by (induction es) (auto simp: adjacency_def)

lemma relax_spec:
  "relax deg queue ks = (deg', queue') \<Longrightarrow> (\<forall>k. int (count_list ks k) \<le> degree deg k) \<Longrightarrow>
     (\<forall>k. degree deg' k = degree deg k - int (count_list ks k)) \<and>
     (\<exists>new. queue' = queue @ new \<and> distinct new \<and>
        set new = {k \<in> set ks. degree deg k = int (count_list ks k)})"
proof (induction deg queue ks rule: relax.induct)
  case (2 deg queue k ks)
  let ?d = "degree deg k - 1"
  let ?u = "AList.update k ?d deg"
  have le: "\<forall>j. int (count_list ks j) \<le> degree ?u j"
  proof
    fix j show "int (count_list ks j) \<le> degree ?u j"
      using 2(3) [THEN spec, of j] by (auto split: if_splits)
  qed
  from 2(2) have r: "relax ?u (if ?d = 0 then queue @ [k] else queue) ks = (deg', queue')"
    by (simp add: Let_def)
  from 2(1) [OF refl r le] obtain new where new:
    "\<forall>j. degree deg' j = degree ?u j - int (count_list ks j)"
    "queue' = (if ?d = 0 then queue @ [k] else queue) @ new" "distinct new"
    "set new = {j \<in> set ks. degree ?u j = int (count_list ks j)}" by blast
  have "\<forall>j. degree deg' j = degree deg j - int (count_list (k # ks) j)"
    using new(1) by auto
  moreover have "\<exists>new'. queue' = queue @ new' \<and> distinct new' \<and>
      set new' = {j \<in> set (k # ks). degree deg j = int (count_list (k # ks) j)}"
  proof (cases "?d = 0")
    case True
    with le have "count_list ks k = 0" by (metis degree_update of_nat_le_0_iff)
    then have "k \<notin> set ks" by (simp add: count_list_0_iff)
    then have new': "set new = {j \<in> set ks. degree deg j = int (count_list (k # ks) j)}"
      using new(4) by auto
    moreover have "degree deg k = int (count_list (k # ks) k)"
      using True \<open>count_list ks k = 0\<close> by simp
    ultimately have "set (k # new) = {j \<in> set (k # ks). degree deg j = int (count_list (k # ks) j)}"
      by auto
    moreover have "distinct (k # new)" using new' \<open>k \<notin> set ks\<close> new(3) by simp
    moreover have "queue' = queue @ k # new" using new(2) True by simp
    ultimately show ?thesis by blast
  next
    case False
    have kin: "k \<in> set ks" if "degree deg k = 1 + int (count_list ks k)"
      using that False count_notin [of k ks] by fastforce
    have "j \<in> set new \<longleftrightarrow> j \<in> set (k # ks) \<and> degree deg j = int (count_list (k # ks) j)" for j
    proof (cases "j = k")
      case True
      have "j \<in> set new \<longleftrightarrow> k \<in> set ks \<and> degree deg k = 1 + int (count_list ks k)"
        unfolding new(4) True by auto
      with kin True show ?thesis by auto
    next
      case False
      then show ?thesis unfolding new(4) by simp
    qed
    then have "set new = {j \<in> set (k # ks). degree deg j = int (count_list (k # ks) j)}" by blast
    with False new(2,3) show ?thesis by auto
  qed
  ultimately show ?case by blast
qed simp

definition kahn_inv :: "flow_edge list \<Rightarrow> ID set \<Rightarrow> degrees \<Rightarrow> ID list \<Rightarrow> ID list \<Rightarrow> bool" where
  "kahn_inv es V deg queue order =
     (distinct (order @ queue) \<and> set (order @ queue) \<subseteq> V \<and>
      (\<forall>k. degree deg k = int (edge_into es (set order) k)) \<and>
      (\<forall>k \<in> V. k \<in> set (order @ queue) \<longleftrightarrow> degree deg k = 0) \<and>
      (\<forall>e \<in> set es. edge_to e \<in> set order \<longrightarrow> precedes order (edge_from e) (edge_to e)))"

lemma edge_into_0: "edge_into es dn k = 0 \<longleftrightarrow> (\<forall>e \<in> set es. edge_to e = k \<longrightarrow> edge_from e \<in> dn)"
  by (auto simp: filter_empty_conv)

lemma kahn_inv_step:
  assumes inv: "kahn_inv es V deg (k # queue) order"
    and V: "\<forall>e \<in> set es. edge_from e \<in> V \<and> edge_to e \<in> V"
    and r: "relax deg queue (adjacency es k) = (deg', queue')"
  shows "kahn_inv es V deg' queue' (order @ [k])"
proof -
  let ?ks = "adjacency es k" and ?order = "order @ [k]"
  have k: "k \<notin> set order" "k \<in> V" "degree deg k = 0" using inv by (auto simp: kahn_inv_def)
  have deg: "degree deg j = int (edge_into es (set order) j)" for j
    using inv by (simp add: kahn_inv_def)
  have split: "edge_into es (set order) j = edge_into es (set ?order) j + count_list ?ks j" for j
    using edge_into_insert [where es = es and dn = "set order" and j = j and k = k] k(1) by simp
  have "\<forall>j. int (count_list ?ks j) \<le> degree deg j" using deg split by simp
  from relax_spec [OF r this] obtain new where
    deg': "\<forall>j. degree deg' j = degree deg j - int (count_list ?ks j)" and
    new: "queue' = queue @ new" "distinct new"
      "set new = {j \<in> set ?ks. degree deg j = int (count_list ?ks j)}" by blast
  have d': "\<forall>j. degree deg' j = int (edge_into es (set ?order) j)" using deg deg' split by simp
  have ksV: "set ?ks \<subseteq> V" using V by (auto simp: adjacency_def)
  have newdeg: "j \<in> set new \<longleftrightarrow> j \<in> set ?ks \<and> degree deg' j = 0" for j
    using new(3) deg' by auto
  have fresh: "degree deg j > 0" if "j \<in> set ?ks" for j
  proof -
    have "count_list ?ks j \<noteq> 0" using that by (simp add: count_list_0_iff)
    with deg' [THEN spec, of j] d' [THEN spec, of j] show ?thesis by linarith
  qed
  have old: "j \<in> set (order @ k # queue) \<Longrightarrow> degree deg j = 0 \<and> j \<in> V" for j
    using inv by (auto simp: kahn_inv_def)
  have queued: "j \<in> set (?order @ queue') \<longleftrightarrow> degree deg' j = 0" if "j \<in> V" for j
  proof (cases "j \<in> set ?ks")
    case True
    then have "degree deg j > 0" by (rule fresh)
    then have "j \<notin> set (order @ k # queue)" using old by force
    with new(1) newdeg True show ?thesis by auto
  next
    case False
    then have "degree deg' j = degree deg j" using deg' by (simp add: count_notin)
    with inv that False new(1) newdeg show ?thesis by (auto simp: kahn_inv_def)
  qed
  have "set new \<inter> set (order @ k # queue) = {}" using new(3) fresh old by force
  then have dist: "distinct (?order @ queue')" using inv new by (auto simp: kahn_inv_def)
  have sub: "set (?order @ queue') \<subseteq> V" using inv new ksV by (auto simp: kahn_inv_def)
  have topo: "precedes ?order (edge_from e) (edge_to e)"
    if e: "e \<in> set es" "edge_to e \<in> set ?order" for e
  proof (cases "edge_to e \<in> set order")
    case True
    then show ?thesis using inv e by (simp add: kahn_inv_def precedes_append)
  next
    case False
    then have "edge_to e = k" using e by simp
    moreover have "edge_into es (set order) k = 0" using deg [of k] k(3) by simp
    then have "edge_from e \<in> set order"
      using e calculation unfolding edge_into_0 by blast
    ultimately show ?thesis using precedes_snoc by fastforce
  qed
  from dist sub d' queued topo show ?thesis unfolding kahn_inv_def by blast
qed

lemma kahn_final:
  "kahn_inv es V deg queue order \<Longrightarrow> \<forall>e \<in> set es. edge_from e \<in> V \<and> edge_to e \<in> V \<Longrightarrow>
     \<exists>deg'. kahn_inv es V deg' [] (kahn (adjacency es) deg queue order)"
proof (induction "adjacency es" deg queue order rule: kahn.induct)
  case (2 deg k queue order)
  obtain deg' queue' where r: "relax deg queue (adjacency es k) = (deg', queue')"
    by (cases "relax deg queue (adjacency es k)")
  from kahn_inv_step [OF 2(2,3) r] have "kahn_inv es V deg' queue' (order @ [k])" .
  with 2(1) [OF r [symmetric] refl] 2(3) r show ?case by simp
qed auto

section \<open>Topological orders\<close>

definition arcs :: "flow_graph \<Rightarrow> (ID \<times> ID) set" where
  "arcs g = (\<lambda>e. (edge_from e, edge_to e)) ` set (graph_edges g)"

definition closed_edges :: "flow_graph \<Rightarrow> bool" where
  "closed_edges g =
     (\<forall>e \<in> set (graph_edges g). edge_from e \<in> set (graph_ids g) \<and> edge_to e \<in> set (graph_ids g))"

lemma finite_arcs [simp]: "finite (arcs g)"
  by (simp add: arcs_def)

lemma topological_trancl:
  assumes "topological (graph_edges g) order" "distinct order" "(a, b) \<in> (arcs g)\<^sup>+"
  shows "precedes order a b"
  using assms(3)
proof induction
  case (base b)
  with assms(1) show ?case by (auto simp: arcs_def topological_def)
next
  case (step b c)
  then have "precedes order b c" using assms(1) by (auto simp: arcs_def topological_def)
  then show ?case by (rule precedes_trans [OF assms(2) step.IH])
qed

lemma topological_acyclic:
  "topological (graph_edges g) order \<Longrightarrow> distinct order \<Longrightarrow> acyclic (arcs g)"
  unfolding acyclic_def
  by (intro allI notI) (rule notE [OF precedes_irrefl], assumption, rule topological_trancl)

text \<open>A finished worklist is a topological order, and it holds every node unless there is a cycle.\<close>

lemma kahn_inv_done:
  "kahn_inv es V deg [] order \<Longrightarrow> set order = V \<Longrightarrow> \<forall>e \<in> set es. edge_to e \<in> V \<Longrightarrow>
     topological es order"
  unfolding kahn_inv_def topological_def by blast

lemma kahn_inv_placed:
  assumes "kahn_inv es V deg [] order" "k \<in> V"
  shows "k \<in> set order \<longleftrightarrow> edge_into es (set order) k = 0"
proof -
  from assms have "degree deg k = int (edge_into es (set order) k)"
    "k \<in> set order \<longleftrightarrow> degree deg k = 0" by (simp_all only: kahn_inv_def append_Nil2)
  then show ?thesis by linarith
qed

lemma kahn_distinct: "kahn_inv es V deg queue order \<Longrightarrow> distinct order \<and> set order \<subseteq> V"
  by (simp add: kahn_inv_def)

lemma kahn_inv_acyclic:
  assumes inv: "kahn_inv (graph_edges g) V deg [] order" and "acyclic (arcs g)"
    and V: "\<forall>e \<in> set (graph_edges g). edge_from e \<in> V"
  shows "set order = V"
proof (rule ccontr)
  assume "set order \<noteq> V"
  with kahn_distinct [OF inv] obtain x where "x \<in> V - set order" by blast
  moreover have "wf (arcs g)" using assms(2) by (simp add: finite_acyclic_wf)
  ultimately obtain m where m: "m \<in> V - set order" "\<And>y. (y, m) \<in> arcs g \<Longrightarrow> y \<notin> V - set order"
    using wfE_min by metis
  have "\<forall>e \<in> set (graph_edges g). edge_to e = m \<longrightarrow> edge_from e \<in> set order"
  proof (intro ballI impI)
    fix e assume e: "e \<in> set (graph_edges g)" "edge_to e = m"
    then have "(edge_from e, m) \<in> arcs g" by (force simp: arcs_def)
    with m(2) e V show "edge_from e \<in> set order" by blast
  qed
  then have "edge_into (graph_edges g) (set order) m = 0" unfolding edge_into_0 .
  with kahn_inv_placed [OF inv, of m] m(1) show False by blast
qed

lemma kahn_inv_initial:
  assumes "distinct queue" "set queue = {k \<in> V. degree deg k = 0}"
    and "\<forall>k. degree deg k = int (edge_into es {} k)"
  shows "kahn_inv es V deg queue []"
  using assms by (auto simp: kahn_inv_def)

lemma topo_order_run:
  assumes "distinct (graph_ids g)" "closed_edges g"
  obtains deg deg' where "count_edges (init_degrees (graph_ids g)) (graph_edges g) = Inr deg"
    "length deg = length (graph_ids g)"
    "kahn_inv (graph_edges g) (set (graph_ids g)) deg' []
       (kahn (adjacency (graph_edges g)) deg (filter (\<lambda>k. degree deg k = 0) (graph_ids g)) [])"
proof -
  let ?ids = "graph_ids g" and ?es = "graph_edges g"
  have keys: "fst ` set (init_degrees ?ids) = set ?ids" "distinct (map fst (init_degrees ?ids))"
    using init_degrees_keys by blast+
  with assms(2) obtain deg where deg: "count_edges (init_degrees ?ids) ?es = Inr deg"
    using count_edges_total [of "init_degrees ?ids" ?es] unfolding closed_edges_def by auto
  from count_edges_facts [OF this keys(2)] have f: "distinct (map fst deg)"
    "fst ` set deg = set ?ids" "\<forall>k. degree deg k = int (edge_into ?es {} k)"
    using keys(1) init_degrees_zero by auto
  have "length deg = length ?ids"
    using f(1,2) assms(1) by (metis distinct_card length_map set_map)
  moreover have "kahn_inv ?es (set ?ids) deg (filter (\<lambda>k. degree deg k = 0) ?ids) []"
    by (rule kahn_inv_initial) (use assms(1) f(3) in auto)
  then obtain deg' where "kahn_inv ?es (set ?ids) deg' []
      (kahn (adjacency ?es) deg (filter (\<lambda>k. degree deg k = 0) ?ids) [])"
    using kahn_final assms(2) unfolding closed_edges_def by blast
  ultimately show thesis using that deg by blast
qed

lemma topo_order_closed: "topo_order g = Inr order \<Longrightarrow> closed_edges g"
  using count_edges_total [of "init_degrees (graph_ids g)" "graph_edges g"]
    init_degrees_keys [of "graph_ids g"]
  by (auto simp: topo_order_def err_simps closed_edges_def)

lemma topo_order_sound:
  assumes d: "distinct (graph_ids g)" and o: "topo_order g = Inr order"
  shows "distinct order \<and> set order = set (graph_ids g) \<and> topological (graph_edges g) order"
proof -
  have c: "closed_edges g" using topo_order_closed [OF o] .
  obtain deg deg' where run: "count_edges (init_degrees (graph_ids g)) (graph_edges g) = Inr deg"
    "length deg = length (graph_ids g)"
    "kahn_inv (graph_edges g) (set (graph_ids g)) deg' []
       (kahn (adjacency (graph_edges g)) deg (filter (\<lambda>k. degree deg k = 0) (graph_ids g)) [])"
    by (rule topo_order_run [OF d c])
  with o have order: "order = kahn (adjacency (graph_edges g)) deg
      (filter (\<lambda>k. degree deg k = 0) (graph_ids g)) []" and len: "length order = length (graph_ids g)"
    by (auto simp: topo_order_def Let_def split: if_splits)
  have inv: "kahn_inv (graph_edges g) (set (graph_ids g)) deg' [] order" using run order by simp
  note dist = kahn_distinct [OF this]
  have "card (set order) = card (set (graph_ids g))"
    using distinct_card [OF conjunct1 [OF dist]] distinct_card [OF d] len by (simp only:)
  then have "set order = set (graph_ids g)"
    using dist by (simp add: card_subset_eq)
  with dist kahn_inv_done [OF inv] c show ?thesis by (auto simp: closed_edges_def)
qed

lemma topo_order_complete:
  assumes d: "distinct (graph_ids g)" and c: "closed_edges g" and a: "acyclic (arcs g)"
  shows "\<exists>order. topo_order g = Inr order"
proof -
  obtain deg deg' where run: "count_edges (init_degrees (graph_ids g)) (graph_edges g) = Inr deg"
    "length deg = length (graph_ids g)"
    "kahn_inv (graph_edges g) (set (graph_ids g)) deg' []
       (kahn (adjacency (graph_edges g)) deg (filter (\<lambda>k. degree deg k = 0) (graph_ids g)) [])"
    by (rule topo_order_run [OF d c])
  let ?order = "kahn (adjacency (graph_edges g)) deg (filter (\<lambda>k. degree deg k = 0) (graph_ids g)) []"
  have "set ?order = set (graph_ids g)"
    using kahn_inv_acyclic [OF run(3) a] c by (auto simp: closed_edges_def)
  then have "length ?order = length deg"
    using kahn_distinct [OF run(3)] d run(2) by (metis distinct_card)
  with run(1) show ?thesis by (simp add: topo_order_def Let_def)
qed

section \<open>The contract of an order\<close>

locale topo_sorter =
  fixes sorter :: "flow_graph \<Rightarrow> gerr + ID list"
  assumes sound: "distinct (graph_ids g) \<Longrightarrow> sorter g = Inr order \<Longrightarrow>
      distinct order \<and> set order = set (graph_ids g) \<and> topological (graph_edges g) order"
    and closed: "sorter g = Inr order \<Longrightarrow> closed_edges g"
    and complete: "distinct (graph_ids g) \<Longrightarrow> closed_edges g \<Longrightarrow> acyclic (arcs g) \<Longrightarrow>
      \<exists>order. sorter g = Inr order"
begin

lemma succeeds_iff:
  "distinct (graph_ids g) \<Longrightarrow>
     (\<exists>order. sorter g = Inr order) \<longleftrightarrow> closed_edges g \<and> acyclic (arcs g)"
  using sound closed complete topological_acyclic by meson

lemma ancestors_first:
  "distinct (graph_ids g) \<Longrightarrow> sorter g = Inr order \<Longrightarrow> (a, b) \<in> (arcs g)\<^sup>+ \<Longrightarrow>
     precedes order a b"
  using sound topological_trancl by blast

lemma shaped_succeeds:
  "well_shaped g \<Longrightarrow> acyclic (arcs g) \<Longrightarrow> \<exists>order. sorter g = Inr order \<and>
     mset order = mset (graph_ids g)"
proof -
  assume w: "well_shaped g" and a: "acyclic (arcs g)"
  then have d: "distinct (graph_ids g)" and c: "closed_edges g"
    by (auto simp: well_shaped_def closed_edges_def edge_ok_def)
  from complete [OF d c a] obtain order where o: "sorter g = Inr order" by blast
  with sound [OF d o] d show ?thesis using set_eq_iff_mset_eq_distinct by blast
qed

end

interpretation simulation: topo_sorter simulationOrder
  by unfold_locales (auto simp: simulationOrder_def dest: topo_order_sound topo_order_closed
      topo_order_complete)

interpretation execution: topo_sorter executionOrder
  by unfold_locales (auto simp: executionOrder_def dest: topo_order_sound topo_order_closed
      topo_order_complete)

lemma mset_eq_distinct: "distinct xs \<Longrightarrow> distinct ys \<Longrightarrow> set xs = set ys \<Longrightarrow> mset xs = mset ys"
  using set_eq_iff_mset_eq_distinct by blast

text \<open>
  C5: the order the executor runs a stored graph in visits every node exactly once, and a node
  only after everything it depends on, directly or through other nodes.
\<close>

theorem executionOrder_dependencies_first:
  assumes "distinct (graph_ids g)" "executionOrder g = Inr order"
  shows "mset order = mset (graph_ids g) \<and> (\<forall>(a, b) \<in> (arcs g)\<^sup>+. precedes order a b)"
proof
  show "mset order = mset (graph_ids g)"
    by (rule mset_eq_distinct) (use execution.sound [OF assms] assms(1) in simp_all)
qed (use execution.ancestors_first [OF assms] in blast)

text \<open>
  An order exists exactly when the graph has no cycle: on a graph with distinct nodes and edges
  between them \<open>executionOrder\<close> returns one iff the arcs are acyclic, and it always returns.
\<close>

theorem executionOrder_iff_acyclic:
  assumes "distinct (graph_ids g)"
  shows "(\<exists>order. executionOrder g = Inr order) \<longleftrightarrow> closed_edges g \<and> acyclic (arcs g)"
  by (rule execution.succeeds_iff [OF assms])

text \<open>A diamond of four nodes, used as the concrete input of several witnesses.\<close>

definition bare_node :: "ID \<Rightarrow> string \<Rightarrow> flow_node" where
  "bare_node k kind =
     \<lparr>node_id = k, node_kind = kind, node_name = [],
      node_position = \<lparr>pos_x = FFin False 0 0, pos_y = FFin False 0 0\<rparr>,
      node_inputs = [], node_outputs = [], node_connector = None, node_generic = None,
      node_config = None\<rparr>"

definition bare_edge :: "string \<Rightarrow> ID \<Rightarrow> ID \<Rightarrow> flow_edge" where
  "bare_edge i a b =
     \<lparr>edge_id = i, edge_from = a, edge_from_port = ''out'', edge_to = b, edge_to_port = ''in''\<rparr>"

definition diamond :: flow_graph where
  "diamond =
     \<lparr>graph_nodes = map (\<lambda>k. bare_node k NodeTerminal) [''d'', ''b'', ''c'', ''a''],
      graph_edges = [bare_edge ''1'' ''a'' ''b'', bare_edge ''2'' ''a'' ''c'',
                     bare_edge ''3'' ''b'' ''d'', bare_edge ''4'' ''c'' ''d''],
      graph_terminals = []\<rparr>"

lemma diamond_order: "executionOrder diamond = Inr [''a'', ''b'', ''c'', ''d'']"
  by code_simp

lemma diamond_distinct: "distinct (graph_ids diamond)"
  by code_simp

lemma diamond_path: "(''a'', ''d'') \<in> (arcs diamond)\<^sup>+"
proof -
  have "(''a'', ''b'') \<in> arcs diamond" "(''b'', ''d'') \<in> arcs diamond"
    by (simp_all add: arcs_def diamond_def bare_edge_def)
  then show ?thesis by (meson trancl.simps)
qed

theorem executionOrder_dependencies_first_witness:
  "precedes [''a'', ''b'', ''c'', ''d''] ''a'' ''d''"
  using executionOrder_dependencies_first [OF diamond_distinct diamond_order] diamond_path by blast

theorem executionOrder_iff_acyclic_witness:
  "acyclic (arcs diamond)"
  using executionOrder_iff_acyclic [OF diamond_distinct] diamond_order by blast

end
