(* ===== verification/GraphSearch.thy ===== *)
theory GraphSearch
  imports GraphOrder
begin

text \<open>
  The two graph searches of \<open>internal/flow/validation.go\<close>: \<open>hasCycle\<close>, a depth-first search
  with three colours, and the breadth-first search of \<open>reachableFromInput\<close>. The first is shown to
  find exactly the cyclic graphs and the second exactly the reachable nodes, in whatever order Go
  walks its maps.
\<close>

section \<open>hasCycle\<close>

text \<open>The code writes the colours 0, 1 and 2; a missing key of \<open>state\<close> reads as 0.\<close>

datatype mark = Unseen | OnStack | Finished

type_synonym colours = "(ID, mark) gomap"

definition colour :: "colours \<Rightarrow> ID \<Rightarrow> mark" where
  "colour st k = (case map_of st k of None \<Rightarrow> Unseen | Some c \<Rightarrow> c)"

lemma colour_update [simp]: "colour (AList.update k c st) k' = (if k' = k then c else colour st k')"
  by (simp add: colour_def)

text \<open>
  \<open>visit\<close> over a list: the loop over \<open>adj[id]\<close> inside it and the loop over the nodes around it
  stop at the first \<open>true\<close>. Successors outside the map of nodes are skipped.
\<close>

function visit_all :: "(ID \<Rightarrow> ID list) \<Rightarrow> ID list \<Rightarrow> colours \<Rightarrow> ID list \<Rightarrow> bool \<times> colours" where
  "visit_all adj ids st [] = (False, st)"
| "visit_all adj ids st (k # ks) =
     (if colour st k = OnStack then (True, st)
      else if colour st k = Finished then visit_all adj ids st ks
      else let (found, st') = visit_all adj ids (AList.update k OnStack st)
                  (filter (\<lambda>n. n \<in> set ids) (adj k))
           in if found then (True, st') else visit_all adj ids (AList.update k Finished st') ks)"
  by pat_completeness auto

definition whites :: "ID list \<Rightarrow> colours \<Rightarrow> ID list \<Rightarrow> ID set" where
  "whites ids st ks = {k \<in> set ids \<union> set ks. colour st k = Unseen}"

lemma finite_whites [simp]: "finite (whites ids st ks)"
  by (simp add: whites_def)

lemma visit_all_unseen_dom:
  "visit_all_dom (adj, ids, st, ks) \<Longrightarrow> colour (snd (visit_all adj ids st ks)) k = Unseen \<Longrightarrow>
     colour st k = Unseen"
proof (induction adj ids st ks arbitrary: k rule: visit_all.pinduct)
  case (2 adj ids st x xs)
  note unfold = visit_all.psimps(2) [OF 2(1)]
  consider "colour st x = OnStack" | "colour st x = Finished" | "colour st x = Unseen"
    by (cases "colour st x") auto
  then show ?case
  proof cases
    case 3
    let ?r = "visit_all adj ids (AList.update x OnStack st) (filter (\<lambda>n. n \<in> set ids) (adj x))"
    obtain found st' where r: "?r = (found, st')" by (cases ?r)
    have inner: "colour st' j = Unseen \<Longrightarrow> colour st j = Unseen" for j
      using 2(3) [of j] 3 r by (auto split: if_splits)
    show ?thesis
    proof (cases found)
      case True
      with 2(5) r 3 inner show ?thesis by (simp add: unfold)
    next
      case False
      with 2(5) r 3 have "colour (snd (visit_all adj ids (AList.update x Finished st') xs)) k = Unseen"
        by (simp add: unfold)
      with 2(4) [of ?r found st' k] r False 3 have "colour (AList.update x Finished st') k = Unseen"
        by simp
      with inner show ?thesis by (auto split: if_splits)
    qed
  qed (use 2 in \<open>auto simp: unfold\<close>)
qed (simp add: visit_all.psimps(1))

lemma whites_smaller:
  "A \<subseteq> whites ids st (k # ks) \<Longrightarrow> colour st k = Unseen \<Longrightarrow> k \<notin> A \<Longrightarrow>
     card A < card (whites ids st (k # ks))"
  by (rule psubset_card_mono) (auto simp: whites_def)

termination visit_all
proof (relation "inv_image (less_than <*lex*> less_than)
    (\<lambda>(adj, ids, st, ks). (card (whites ids st ks), length ks))", goal_cases)
  case 1
  show ?case by auto
next
  case (2 adj ids st k ks)
  have "whites ids st ks \<subseteq> whites ids st (k # ks)" by (auto simp: whites_def)
  then have "card (whites ids st ks) \<le> card (whites ids st (k # ks))" by (simp add: card_mono)
  then show ?case by auto
next
  case (3 adj ids st k ks)
  then have "colour st k = Unseen" by (cases "colour st k") auto
  then have "card (whites ids (AList.update k OnStack st) (filter (\<lambda>n. n \<in> set ids) (adj k)))
      < card (whites ids st (k # ks))"
    by (intro whites_smaller) (auto simp: whites_def split: if_splits)
  then show ?case by simp
next
  case (4 adj ids st k ks x found st')
  then have "colour st k = Unseen" by (cases "colour st k") auto
  moreover have "st' = snd (visit_all adj ids (AList.update k OnStack st)
      (filter (\<lambda>n. n \<in> set ids) (adj k)))" using 4(3,4) by (metis snd_conv)
  then have "colour st' j = Unseen \<Longrightarrow> colour st j = Unseen" for j
    using visit_all_unseen_dom [OF 4(6), of j] by (auto split: if_splits)
  ultimately have "card (whites ids (AList.update k Finished st') ks) < card (whites ids st (k # ks))"
    by (intro whites_smaller) (auto simp: whites_def split: if_splits)
  then show ?case by simp
qed

lemmas visit_all_total_unseen = visit_all_unseen_dom [OF "visit_all.termination" [THEN spec]]

definition search_arcs :: "(ID \<Rightarrow> ID list) \<Rightarrow> ID list \<Rightarrow> (ID \<times> ID) set" where
  "search_arcs adj ids = {(a, b). b \<in> set (adj a) \<and> b \<in> set ids}"

text \<open>The stack is a path: everything on it reaches what is visited next.\<close>

lemma visit_all_stack:
  "visit_all adj ids st ks = (False, st') \<Longrightarrow> colour st' k = OnStack \<longleftrightarrow> colour st k = OnStack"
proof (induction adj ids st ks arbitrary: st' rule: visit_all.induct)
  case (2 adj ids st x xs)
  consider "colour st x = OnStack" | "colour st x = Finished" | "colour st x = Unseen"
    by (cases "colour st x") auto
  then show ?case
  proof cases
    case 3
    obtain found s1 where r: "visit_all adj ids (AList.update x OnStack st)
        (filter (\<lambda>n. n \<in> set ids) (adj x)) = (found, s1)" by fastforce
    with 2(4) 3 have f: "\<not> found" "visit_all adj ids (AList.update x Finished s1) xs = (False, st')"
      by (auto split: if_splits)
    have "colour s1 k = OnStack \<longleftrightarrow> colour (AList.update x OnStack st) k = OnStack"
      using 2(2) [of s1] 3 r f(1) by simp
    moreover have "colour st' k = OnStack \<longleftrightarrow> colour (AList.update x Finished s1) k = OnStack"
      using 2(3) [OF _ _ r [symmetric] refl f(1)] 3 f(2) by simp
    ultimately show ?thesis using 3 by auto
  qed (use 2 in auto)
qed simp

lemma visit_all_sound:
  "visit_all adj ids st ks = (True, st') \<Longrightarrow>
     (\<forall>g. colour st g = OnStack \<longrightarrow> (\<forall>k \<in> set ks. (g, k) \<in> (search_arcs adj ids)\<^sup>+)) \<Longrightarrow>
     \<exists>k. (k, k) \<in> (search_arcs adj ids)\<^sup>+"
proof (induction adj ids st ks arbitrary: st' rule: visit_all.induct)
  case (2 adj ids st x xs)
  consider "colour st x = OnStack" | "colour st x = Finished" | "colour st x = Unseen"
    by (cases "colour st x") auto
  then show ?case
  proof cases
    case 3
    let ?E = "search_arcs adj ids" and ?succ = "filter (\<lambda>n. n \<in> set ids) (adj x)"
    obtain found s1 where r: "visit_all adj ids (AList.update x OnStack st) ?succ = (found, s1)"
      by fastforce
    show ?thesis
    proof (cases found)
      case True
      have arc: "(x, n) \<in> ?E" if "n \<in> set ?succ" for n using that by (simp add: search_arcs_def)
      have "(g, n) \<in> ?E\<^sup>+" if "colour (AList.update x OnStack st) g = OnStack" "n \<in> set ?succ" for g n
      proof (cases "g = x")
        case True
        with arc that show ?thesis by blast
      next
        case False
        with that(1) 2(5) have "(g, x) \<in> ?E\<^sup>+" by simp
        then show ?thesis by (rule trancl_into_trancl [OF _ arc [OF that(2)]])
      qed
      with 2(2) [of s1] 3 r True show ?thesis by simp
    next
      case False
      with 2(4) 3 r have rest: "visit_all adj ids (AList.update x Finished s1) xs = (True, st')"
        by simp
      have "colour (AList.update x Finished s1) g = OnStack \<Longrightarrow> colour st g = OnStack" for g
        using visit_all_stack [of adj ids "AList.update x OnStack st" ?succ s1 g] r False
        by (auto split: if_splits)
      then have "\<forall>g. colour (AList.update x Finished s1) g = OnStack \<longrightarrow>
          (\<forall>k \<in> set xs. (g, k) \<in> ?E\<^sup>+)" using 2(5) by (meson list.set_intros(2))
      with 2(3) [OF _ _ r [symmetric] refl False rest] 3 show ?thesis by simp
    qed
  qed (use 2 in auto)
qed simp

text \<open>The finished nodes are closed under arcs and on no cycle.\<close>

definition finished_ok :: "(ID \<times> ID) set \<Rightarrow> colours \<Rightarrow> bool" where
  "finished_ok E st =
     (\<forall>a. colour st a = Finished \<longrightarrow> (\<forall>b. (a, b) \<in> E \<longrightarrow> colour st b = Finished) \<and> (a, a) \<notin> E\<^sup>+)"

lemma finished_closed:
  "finished_ok E st \<Longrightarrow> colour st a = Finished \<Longrightarrow> (a, b) \<in> E\<^sup>+ \<Longrightarrow> colour st b = Finished"
  by (rotate_tac 2, induction rule: trancl_induct) (auto simp: finished_ok_def)

lemma finish_node:
  assumes "finished_ok E st" "colour st x = OnStack" "\<And>b. (x, b) \<in> E \<Longrightarrow> colour st b = Finished"
  shows "finished_ok E (AList.update x Finished st)"
proof -
  have "(x, x) \<notin> E\<^sup>+"
  proof
    assume "(x, x) \<in> E\<^sup>+"
    then obtain y where "(x, y) \<in> E" "y = x \<or> (y, x) \<in> E\<^sup>+" by (meson tranclD rtranclD)
    with assms finished_closed show False by fastforce
  qed
  with assms show ?thesis unfolding finished_ok_def by auto
qed

lemma visit_all_complete:
  "visit_all adj ids st ks = (False, st') \<Longrightarrow> finished_ok (search_arcs adj ids) st \<Longrightarrow>
     finished_ok (search_arcs adj ids) st' \<and> (\<forall>k \<in> set ks. colour st' k = Finished) \<and>
     (\<forall>k. colour st k = Finished \<longrightarrow> colour st' k = Finished)"
proof (induction adj ids st ks arbitrary: st' rule: visit_all.induct)
  case (2 adj ids st x xs)
  consider "colour st x = OnStack" | "colour st x = Finished" | "colour st x = Unseen"
    by (cases "colour st x") auto
  then show ?case
  proof cases
    case 3
    let ?E = "search_arcs adj ids" and ?succ = "filter (\<lambda>n. n \<in> set ids) (adj x)"
    let ?s0 = "AList.update x OnStack st"
    obtain found s1 where r: "visit_all adj ids ?s0 ?succ = (found, s1)" by fastforce
    with 2(4) 3 have f: "\<not> found" "visit_all adj ids (AList.update x Finished s1) xs = (False, st')"
      by (auto split: if_splits)
    have "finished_ok ?E ?s0" using 2(5) 3 unfolding finished_ok_def by auto
    with 2(2) [of s1] 3 r f(1) have in1: "finished_ok ?E s1" "\<forall>k \<in> set ?succ. colour s1 k = Finished"
      "\<forall>k. colour ?s0 k = Finished \<longrightarrow> colour s1 k = Finished" by simp_all
    have "colour s1 x = OnStack" using visit_all_stack [of adj ids ?s0 ?succ s1 x] r f(1) by simp
    moreover have "colour s1 b = Finished" if "(x, b) \<in> ?E" for b
      using in1(2) that by (simp add: search_arcs_def)
    ultimately have "finished_ok ?E (AList.update x Finished s1)" using finish_node in1(1) by blast
    with 2(3) [OF _ _ r [symmetric] refl f(1,2)] 3
    have "finished_ok ?E st'" "\<forall>k \<in> set xs. colour st' k = Finished"
      "\<forall>k. colour (AList.update x Finished s1) k = Finished \<longrightarrow> colour st' k = Finished" by simp_all
    moreover from this(3) have "colour st' x = Finished" by simp
    moreover have "colour st' k = Finished" if "colour st k = Finished" for k
      using in1(3) that 3 calculation(3) by (auto split: if_splits)
    ultimately show ?thesis by simp
  next
    case 1
    with 2(4) show ?thesis by simp
  next
    case 2
    note x = this
    with \<open>visit_all adj ids st (x # xs) = (False, st')\<close> have "visit_all adj ids st xs = (False, st')"
      by simp
    from "2.IH"(1) [OF _ x this \<open>finished_ok _ st\<close>] x show ?thesis by simp
  qed
qed simp

lemma visit_all_iff:
  assumes "set ks = set ids"
  shows "fst (visit_all adj ids [] ks) \<longleftrightarrow> \<not> acyclic (search_arcs adj ids)"
proof
  assume "fst (visit_all adj ids [] ks)"
  then obtain st' where "visit_all adj ids [] ks = (True, st')" by (metis prod.collapse)
  from visit_all_sound [OF this] show "\<not> acyclic (search_arcs adj ids)"
    by (auto simp: acyclic_def colour_def)
next
  assume cyc: "\<not> acyclic (search_arcs adj ids)"
  show "fst (visit_all adj ids [] ks)"
  proof (rule ccontr)
    assume "\<not> fst (visit_all adj ids [] ks)"
    then obtain st' where "visit_all adj ids [] ks = (False, st')" by (metis prod.collapse)
    from visit_all_complete [OF this] assms
    have ok: "finished_ok (search_arcs adj ids) st'" "\<forall>k \<in> set ids. colour st' k = Finished"
      by (auto simp: finished_ok_def colour_def)
    from cyc obtain k where k: "(k, k) \<in> (search_arcs adj ids)\<^sup>+" by (auto simp: acyclic_def)
    then have "k \<in> set ids" by (induction rule: trancl_induct) (auto simp: search_arcs_def)
    with ok k show False by (auto simp: finished_ok_def)
  qed
qed

text \<open>\<open>walk\<close> is the order in which \<open>range nodes\<close> yields the identifiers.\<close>

definition hasCycle :: "flow_graph \<Rightarrow> ID list \<Rightarrow> bool" where
  "hasCycle g walk = fst (visit_all (adjacency (graph_edges g)) (graph_ids g) [] walk)"

lemma search_arcs_graph:
  "search_arcs (adjacency (graph_edges g)) (graph_ids g) = arcs g \<inter> {(a, b). b \<in> set (graph_ids g)}"
  by (auto simp: search_arcs_def adjacency_def arcs_def)

lemma search_arcs_closed: "closed_edges g \<Longrightarrow> search_arcs (adjacency (graph_edges g)) (graph_ids g) = arcs g"
  unfolding search_arcs_graph by (auto simp: closed_edges_def arcs_def)

lemma hasCycle_iff:
  "closed_edges g \<Longrightarrow> set walk = set (graph_ids g) \<Longrightarrow> hasCycle g walk \<longleftrightarrow> \<not> acyclic (arcs g)"
  by (simp add: hasCycle_def visit_all_iff search_arcs_closed)

section \<open>reachableFromInput\<close>

text \<open>The search from a list of start nodes. \<open>seen\<close> is returned in the order it was filled.\<close>

function bfs :: "(ID \<Rightarrow> ID list) \<Rightarrow> ID list \<Rightarrow> ID list \<Rightarrow> ID list \<Rightarrow> ID list" where
  "bfs adj ids seen [] = seen"
| "bfs adj ids seen (k # queue) =
     (if k \<in> set seen then bfs adj ids seen queue
      else bfs adj ids (seen @ [k]) (queue @ filter (\<lambda>n. n \<in> set ids) (adj k)))"
  by pat_completeness auto
termination
proof (relation "inv_image (less_than <*lex*> less_than)
    (\<lambda>(adj, ids, seen, queue). (card ((set ids \<union> set queue) - set seen), length queue))", goal_cases)
  case (2 adj ids seen k queue)
  have "card ((set ids \<union> set queue) - set seen) \<le> card ((set ids \<union> set (k # queue)) - set seen)"
    by (rule card_mono) auto
  then show ?case by auto
next
  case (3 adj ids seen k queue)
  have "card ((set ids \<union> set (queue @ filter (\<lambda>n. n \<in> set ids) (adj k))) - set (seen @ [k]))
      < card ((set ids \<union> set (k # queue)) - set seen)"
    by (rule psubset_card_mono) (use 3 in auto)
  then show ?case by simp
qed auto

lemma bfs_reaches:
  "set seen \<subseteq> R \<Longrightarrow> set queue \<subseteq> R \<Longrightarrow> (\<And>a b. a \<in> R \<Longrightarrow> (a, b) \<in> search_arcs adj ids \<Longrightarrow> b \<in> R) \<Longrightarrow>
     set (bfs adj ids seen queue) \<subseteq> R"
proof (induction adj ids seen queue rule: bfs.induct)
  case (2 adj ids seen k queue)
  show ?case
  proof (cases "k \<in> set seen")
    case False
    have "set (filter (\<lambda>n. n \<in> set ids) (adj k)) \<subseteq> R"
      using 2(4) 2(5) [of k] by (auto simp: search_arcs_def)
    with 2 False show ?thesis by simp
  qed (use 2 in simp)
qed simp

lemma bfs_closed:
  "(\<And>a b. a \<in> set seen \<Longrightarrow> (a, b) \<in> search_arcs adj ids \<Longrightarrow> b \<in> set seen \<union> set queue) \<Longrightarrow>
     set seen \<union> set queue \<subseteq> set (bfs adj ids seen queue) \<and>
     (\<forall>a \<in> set (bfs adj ids seen queue). \<forall>b. (a, b) \<in> search_arcs adj ids \<longrightarrow>
        b \<in> set (bfs adj ids seen queue))"
proof (induction adj ids seen queue rule: bfs.induct)
  case (2 adj ids seen k queue)
  show ?case
  proof (cases "k \<in> set seen")
    case True
    with 2(1,3) show ?thesis by auto
  next
    case False
    have "b \<in> set (seen @ [k]) \<union> set (queue @ filter (\<lambda>n. n \<in> set ids) (adj k))"
      if "a \<in> set (seen @ [k])" "(a, b) \<in> search_arcs adj ids" for a b
      using 2(3) [of a b] that by (auto simp: search_arcs_def)
    with 2(2) False show ?thesis by auto
  qed
qed auto

lemma bfs_correct:
  "set (bfs adj ids [] queue) = {b. \<exists>a \<in> set queue. (a, b) \<in> (search_arcs adj ids)\<^sup>*}"
proof
  let ?E = "search_arcs adj ids"
  show "set (bfs adj ids [] queue) \<subseteq> {b. \<exists>a \<in> set queue. (a, b) \<in> ?E\<^sup>*}"
  proof (rule bfs_reaches)
    fix a b assume "a \<in> {b. \<exists>a \<in> set queue. (a, b) \<in> ?E\<^sup>*}" and arc: "(a, b) \<in> ?E"
    then obtain s where s: "s \<in> set queue" "(s, a) \<in> ?E\<^sup>*" by blast
    from rtrancl_into_rtrancl [OF s(2) arc] s(1) show "b \<in> {b. \<exists>a \<in> set queue. (a, b) \<in> ?E\<^sup>*}"
      by blast
  qed auto
  have closed: "set queue \<subseteq> set (bfs adj ids [] queue)"
    "\<forall>a \<in> set (bfs adj ids [] queue). \<forall>b. (a, b) \<in> ?E \<longrightarrow> b \<in> set (bfs adj ids [] queue)"
    using bfs_closed [of "[]" adj ids queue] by auto
  show "{b. \<exists>a \<in> set queue. (a, b) \<in> ?E\<^sup>*} \<subseteq> set (bfs adj ids [] queue)"
  proof
    fix b assume "b \<in> {b. \<exists>a \<in> set queue. (a, b) \<in> ?E\<^sup>*}"
    then obtain a where "a \<in> set queue" "(a, b) \<in> ?E\<^sup>*" by blast
    from this(2,1) show "b \<in> set (bfs adj ids [] queue)"
      by (induction rule: rtrancl_induct) (use closed in auto)
  qed
qed

text \<open>
  C38: the colouring search of \<open>hasCycle\<close> answers correctly whatever order the map of nodes is walked
  in: it reports a cycle exactly when some node of the graph can be reached from itself along at
  least one edge. It agrees with the executor, which fails on exactly the same graphs.
\<close>

theorem hasCycle_correct:
  assumes "well_shaped g" "set walk = set (graph_ids g)"
  shows "(hasCycle g walk \<longleftrightarrow> (\<exists>k. (k, k) \<in> (arcs g)\<^sup>+)) \<and>
         (hasCycle g walk \<longleftrightarrow> (\<forall>order. executionOrder g \<noteq> Inr order))"
proof -
  have c: "closed_edges g" and d: "distinct (graph_ids g)"
    using assms(1) by (auto simp: well_shaped_def closed_edges_def edge_ok_def)
  have "hasCycle g walk \<longleftrightarrow> \<not> acyclic (arcs g)" by (rule hasCycle_iff [OF c assms(2)])
  with execution.succeeds_iff [OF d] c show ?thesis by (auto simp: acyclic_def)
qed

theorem hasCycle_correct_witness: "\<not> hasCycle diamond [''b'', ''c'', ''a'', ''d'']"
proof -
  have "well_shaped diamond"
    unfolding shape_accepted [symmetric] by code_simp
  moreover have "set [''b'', ''c'', ''a'', ''d''] = set (graph_ids diamond)" by (auto simp: diamond_def bare_node_def)
  ultimately show ?thesis using hasCycle_correct diamond_order by blast
qed

end
