(* ===== verification/NodeConfig.thy ===== *)
theory NodeConfig
  imports FlowNodes
begin

text \<open>
  How a node's configuration becomes a mapping or a filter: \<open>fixedModel\<close>,
  \<open>simulationMapping\<close> and \<open>simulationFilter\<close> of \<open>internal/flow/simulation.go\<close> and their copies
  in \<open>internal/runtime/executor.go\<close>. Both marshal the stored value and unmarshal it into the Go
  struct, so this theory holds the rules of \<open>encoding/json\<close> for those structs: members match a
  field under case folding, \<open>null\<close> leaves a field alone, a member of the wrong type is an error,
  unknown members are ignored, and members are taken in the order of the document, which
  \<open>Marshal\<close> sorts by key.
\<close>

section \<open>Decoding\<close>

text \<open>
  The folding of member names: ASCII letters, and the two other runes that fold to one (U+017F to
  \<open>s\<close>, U+212A to \<open>k\<close>).
\<close>

fun json_fold :: "string \<Rightarrow> string" where
  "json_fold [] = []"
| "json_fold (c # cs) =
     (if prefix [CHR 0xC5, CHR 0xBF] (c # cs) then CHR ''s'' # json_fold (drop 1 cs)
      else if prefix [CHR 0xE2, CHR 0x84, CHR 0xAA] (c # cs) then CHR ''k'' # json_fold (drop 2 cs)
      else ascii_lower c # json_fold cs)"

fun decode_string :: "string \<Rightarrow> gval \<Rightarrow> string option" where
  "decode_string old VNil = Some old"
| "decode_string old (VStr s) = Some s"
| "decode_string old _ = None"

fun decode_elements :: "string list \<Rightarrow> gval list \<Rightarrow> string list option" where
  "decode_elements olds [] = Some []"
| "decode_elements olds (v # vs) =
     Option.bind (decode_string (case olds of [] \<Rightarrow> [] | s # _ \<Rightarrow> s) v) (\<lambda>s.
       map_option (\<lambda>ss. s # ss) (decode_elements (tl olds) vs))"

fun decode_strings :: "string list \<Rightarrow> gval \<Rightarrow> string list option" where
  "decode_strings olds VNil = Some []"
| "decode_strings olds (VArr vs) = decode_elements olds vs"
| "decode_strings olds _ = None"

definition decode_rule_member :: "mapping_rule \<Rightarrow> string \<times> gval \<Rightarrow> mapping_rule option" where
  "decode_rule_member r kv =
     (let name = json_fold (fst kv); v = snd kv in
      if name = ''source'' then map_option (\<lambda>s. r\<lparr>mr_source := s\<rparr>) (decode_string (mr_source r) v)
      else if name = ''constant'' then map_option (\<lambda>c. r\<lparr>mr_constant := c\<rparr>) (json_unmarshal v)
      else if name = ''default'' then map_option (\<lambda>d. r\<lparr>mr_default := d\<rparr>) (json_unmarshal v)
      else if name = ''concat'' then map_option (\<lambda>c. r\<lparr>mr_concat := c\<rparr>) (decode_strings (mr_concat r) v)
      else Some r)"

fun decode_members :: "('s \<Rightarrow> string \<times> gval \<Rightarrow> 's option) \<Rightarrow> 's \<Rightarrow> gobj \<Rightarrow> 's option" where
  "decode_members f s [] = Some s"
| "decode_members f s (kv # m) = Option.bind (f s kv) (\<lambda>s'. decode_members f s' m)"

fun decode_rule :: "gval \<Rightarrow> mapping_rule option" where
  "decode_rule VNil = Some no_rule"
| "decode_rule (VObj m) = decode_members decode_rule_member no_rule m"
| "decode_rule _ = None"

fun decode_spec :: "gval \<Rightarrow> mapping_spec option" where
  "decode_spec VNil = Some []"
| "decode_spec (VObj m) =
     map_option (zip (map fst m)) (those (map (\<lambda>kv. decode_rule (snd kv)) m))"
| "decode_spec _ = None"

definition no_filter :: filter where
  "no_filter = Filter [] [] VNil []"

function decode_filter :: "filter \<Rightarrow> gval \<Rightarrow> filter option"
  and decode_filter_members :: "filter \<Rightarrow> gobj \<Rightarrow> filter option"
  and decode_children :: "filter list \<Rightarrow> gval list \<Rightarrow> filter list option" where
  "decode_filter old v =
     (case v of VNil \<Rightarrow> Some old | VObj m \<Rightarrow> decode_filter_members old m | _ \<Rightarrow> None)"
| "decode_filter_members (Filter p f x cs) [] = Some (Filter p f x cs)"
| "decode_filter_members (Filter p f x cs) ((k, v) # m) =
     (let name = json_fold k in
      if name = ''op'' then
        Option.bind (decode_string p v) (\<lambda>p'. decode_filter_members (Filter p' f x cs) m)
      else if name = ''field'' then
        Option.bind (decode_string f v) (\<lambda>f'. decode_filter_members (Filter p f' x cs) m)
      else if name = ''value'' then
        Option.bind (json_unmarshal v) (\<lambda>x'. decode_filter_members (Filter p f x' cs) m)
      else if name = ''children'' then
        (case v of VNil \<Rightarrow> decode_filter_members (Filter p f x []) m
         | VArr vs \<Rightarrow> Option.bind (decode_children cs vs)
             (\<lambda>cs'. decode_filter_members (Filter p f x cs') m)
         | _ \<Rightarrow> None)
      else decode_filter_members (Filter p f x cs) m)"
| "decode_children olds [] = Some []"
| "decode_children olds (v # vs) =
     Option.bind (decode_filter (case olds of [] \<Rightarrow> no_filter | c # _ \<Rightarrow> c) v) (\<lambda>c.
       map_option (\<lambda>cs. c # cs) (decode_children (tl olds) vs))"
  by pat_completeness auto
termination
  by (relation "measure (\<lambda>x. case x of Inl (_, v) \<Rightarrow> size v
        | Inr (Inl (_, m)) \<Rightarrow> size_list (size_prod (\<lambda>_. 0) size) m
        | Inr (Inr (_, vs)) \<Rightarrow> size_list size vs)") auto

section \<open>Mappings and filters of a node\<close>

definition fixedModel :: "bindings \<Rightarrow> string \<Rightarrow> string" where
  "fixedModel bs name =
     (case map_of bs name of None \<Rightarrow> []
      | Some b \<Rightarrow> if bind_kind b \<noteq> BindingFixed then []
                  else (case as_str (bind_value b) of None \<Rightarrow> [] | Some s \<Rightarrow> trim_space s))"

definition decodeMapping :: "gval \<Rightarrow> gerr + mapping_spec" where
  "decodeMapping raw =
     (case Option.bind (json_marshal raw) decode_spec of
        None \<Rightarrow> fail ErrInvalid ''invalid mapping definition''
      | Some spec \<Rightarrow> Inr spec)"

text \<open>\<open>node.Generic\<close> is not nil where the function is called.\<close>

definition simulationMapping :: "gobj option \<Rightarrow> generic_node \<Rightarrow> string \<Rightarrow> gerr + mapping_spec" where
  "simulationMapping config generic model =
     (case Option.bind config (\<lambda>c. map_of c ''mapping'') of
        Some raw \<Rightarrow> decodeMapping raw
      | None \<Rightarrow>
          (case map_of (gen_bindings generic) ''mapping'' of
             Some b \<Rightarrow> if bind_value b \<noteq> VNil then decodeMapping (bind_value b)
                       else (case DefaultMappingForModel model of Some spec \<Rightarrow> Inr spec
                             | None \<Rightarrow> fail ErrInvalid (''no default mapping for model '' @ model))
           | None \<Rightarrow> (case DefaultMappingForModel model of Some spec \<Rightarrow> Inr spec
                      | None \<Rightarrow> fail ErrInvalid (''no default mapping for model '' @ model))))"

definition decode_filter_value :: "gval \<Rightarrow> gerr + filter" where
  "decode_filter_value raw =
     (case Option.bind (json_marshal raw) (decode_filter no_filter) of
        None \<Rightarrow> fail ErrInvalid ''invalid filter definition''
      | Some f \<Rightarrow> if blank (filter_op f) then fail ErrInvalid ''invalid filter definition'' else Inr f)"

definition simulationFilter :: "gobj option \<Rightarrow> gerr + filter" where
  "simulationFilter config =
     (case config of
        None \<Rightarrow> fail ErrInvalid ''Condition/Filter definition is required''
      | Some c \<Rightarrow> decode_filter_value (obj_get c ''filter''))"

definition filterForNode :: "gobj option \<Rightarrow> gerr + filter" where
  "filterForNode config =
     (case Option.bind config (\<lambda>c. map_of c ''filter'') of
        None \<Rightarrow> fail ErrInvalid ''Condition/Filter definition is required''
      | Some raw \<Rightarrow> decode_filter_value raw)"

end
