(* ===== verification/Validation.thy ===== *)
theory Validation
  imports GraphSearch NodeConfig
begin

text \<open>
  \<open>Catalog.Validate\<close> of \<open>internal/flow/validation.go\<close>, with every check it calls. Each check is
  the list of diagnostics it adds; an early \<open>continue\<close> or \<open>return\<close> is the end of that list. A
  \<open>range\<close> over a Go map is a walk of the association list, and the final sort by path and code
  makes the result independent of it up to the order of diagnostics with the same path and code.
\<close>

section \<open>Diagnostics\<close>

record diagnostic =
  diag_path :: string
  diag_code :: string
  diag_message :: string

abbreviation diag :: "string \<Rightarrow> string \<Rightarrow> string \<Rightarrow> diagnostic list" where
  "diag path code message \<equiv> [\<lparr>diag_path = path, diag_code = code, diag_message = message\<rparr>]"

abbreviation sub :: "string \<Rightarrow> string \<Rightarrow> string" where
  "sub path name \<equiv> path @ ''.'' @ name"

definition indexed :: "string \<Rightarrow> nat \<Rightarrow> string" where
  "indexed name i = name @ ''['' @ dec_nat i @ '']''"

section \<open>Bindings and parameters\<close>

definition expression_chars :: string where
  "expression_chars = '';{}()[]'' @ [CHR 0x0A, CHR 0x09, CHR 0x0D]"

abbreviation ref_kind :: "string \<Rightarrow> bool" where
  "ref_kind k \<equiv> k \<in> {BindingConnectionRef, BindingResourceRef, BindingSecretRef, BindingRuntimeRef}"

definition validateBinding :: "string \<Rightarrow> string \<times> binding \<Rightarrow> diagnostic list" where
  "validateBinding path nb =
     (let p = sub path (fst nb); b = snd nb in
      if bind_kind b = [] then diag p ''binding_kind_missing'' ''parameter binding kind is required''
      else
        (if bind_kind b = BindingFixed then
           (if bind_value b = VNil then diag p ''fixed_value_missing'' ''fixed parameter needs a value'' else [])
         else if ref_kind (bind_kind b) then
           (if blank (bind_ref b) then diag p ''reference_missing'' ''reference binding needs a ref'' else []) @
           (if bind_value b \<noteq> VNil
            then diag p ''reference_value_forbidden'' ''reference binding cannot contain an inline value'' else [])
         else diag p ''binding_kind_unsupported'' ''parameter binding kind is not supported'') @
        (if contains_any (bind_ref b) expression_chars
         then diag p ''expression_forbidden'' ''arbitrary expressions are not allowed in parameter references''
         else []))"

definition validateBindings :: "string \<Rightarrow> bindings \<Rightarrow> diagnostic list" where
  "validateBindings path bs = concat (map (validateBinding path) bs)"

fun stringList :: "gval \<Rightarrow> string list option" where
  "stringList (VArr items) = Some (concat (map (\<lambda>v. case as_str v of None \<Rightarrow> [] | Some s \<Rightarrow> [s]) items))"
| "stringList (VStrs ss) = Some ss"
| "stringList _ = None"

definition requiredParameterNames :: "gobj \<Rightarrow> string list" where
  "requiredParameterNames schema =
     (case stringList (obj_get schema ''required'') of None \<Rightarrow> [] | Some names \<Rightarrow> names)"

definition binding_unset :: "bindings \<Rightarrow> string \<Rightarrow> bool" where
  "binding_unset bs name =
     (case map_of bs name of None \<Rightarrow> True
      | Some b \<Rightarrow> bind_kind b = [] \<or> bind_kind b = BindingFixed \<and> bind_value b = VNil \<or>
                  ref_kind (bind_kind b) \<and> blank (bind_ref b))"

definition validateParameterSchema :: "string \<Rightarrow> gobj option \<Rightarrow> bindings \<Rightarrow> diagnostic list" where
  "validateParameterSchema path schema bs =
     (case schema of None \<Rightarrow> [] | Some s \<Rightarrow>
        if s = [] then []
        else
          let properties = object_of (obj_get s ''properties'') in
          concat (map (\<lambda>(name, b).
            if properties \<noteq> [] \<and> \<not> has_key properties name
            then diag (sub path name) ''parameter_not_declared''
                   ''parameter is not declared by the ConnectorBehavior schema''
            else case as_obj (obj_get properties name) of None \<Rightarrow> []
              | Some property \<Rightarrow>
                  (case stringList (obj_get property ''binding_kinds'') of None \<Rightarrow> []
                   | Some allowed \<Rightarrow>
                       if allowed \<noteq> [] \<and> bind_kind b \<notin> set allowed
                       then diag (sub path name) ''binding_kind_forbidden''
                              ''parameter binding kind is not allowed by the ConnectorBehavior schema''
                       else [])) bs) @
          concat (map (\<lambda>name. if binding_unset bs name
            then diag (sub path name) ''required_parameter_missing''
                   ''required ConnectorBehavior parameter is not configured'' else [])
            (requiredParameterNames s)))"

definition containsExecutableText :: "string \<Rightarrow> bool" where
  "containsExecutableText s =
     list_ex (str_contains (to_lower s))
       [''eval('', ''exec('', ''javascript:'', ''python:'', ''shell:'', ''bash:'']"

abbreviation no_code :: "string \<Rightarrow> diagnostic list" where
  "no_code p \<equiv> diag p ''no_code_parameter''
     ''generic nodes cannot execute scripts or arbitrary expressions''"

definition validateNoCodeParameters :: "string \<Rightarrow> bindings \<Rightarrow> diagnostic list" where
  "validateNoCodeParameters path bs =
     concat (map (\<lambda>(name, b).
       (if executable_key name then no_code (sub path name) else []) @
       (if bind_kind b = BindingFixed \<and> (\<exists>s \<in> set_option (as_str (bind_value b)). containsExecutableText s)
        then no_code (sub path name) else [])) bs)"

definition validateNoCodeConfig :: "string \<Rightarrow> gobj option \<Rightarrow> diagnostic list" where
  "validateNoCodeConfig path config =
     (case config of None \<Rightarrow> [] | Some c \<Rightarrow>
        concat (map (\<lambda>(name, v).
          (if executable_key name then no_code (sub path name) else []) @
          (if \<exists>s \<in> set_option (as_str v). containsExecutableText s
           then no_code (sub path name) else [])) c))"

section \<open>Models, ports and mappings\<close>

definition isProviderModel :: "string \<Rightarrow> bool" where
  "isProviderModel ref = has_prefix ref ''provider:''"

definition designModelAvailable :: "data_model \<Rightarrow> bool" where
  "designModelAvailable d = (dm_status d = [] \<or> dm_status d = DefinitionPublished)"

definition validateDesignModel :: "string \<Rightarrow> string \<Rightarrow> catalog \<Rightarrow> diagnostic list" where
  "validateDesignModel path ref c =
     (case catalog_model c ref of
        None \<Rightarrow> diag path ''model_not_found'' ''DataModel reference is not registered''
      | Some d \<Rightarrow> if designModelAvailable d then []
                  else diag path ''model_unavailable'' ''DataModel version is not published'')"

definition hasModelPort :: "port list \<Rightarrow> string \<Rightarrow> string \<Rightarrow> bool" where
  "hasModelPort ports model direction =
     list_ex (\<lambda>p. port_direction p = direction \<and> port_model p = model) ports"

definition validateConnectorModelContract :: "string \<Rightarrow> flow_node \<Rightarrow> behavior \<Rightarrow> diagnostic list" where
  "validateConnectorModelContract path n b =
     (if bh_direction b = DirectionInput \<and> bh_output_model b \<noteq> [] \<and>
         \<not> hasModelPort (node_outputs n) (bh_output_model b) PortOutput
      then diag (sub path ''outputs'') ''behavior_output_model_mismatch''
             ''input ConnectorBehavior output port must expose the behavior output model'' else []) @
     (if bh_direction b = DirectionOutput \<and> bh_input_model b \<noteq> [] \<and>
         \<not> hasModelPort (node_inputs n) (bh_input_model b) PortInput
      then diag (sub path ''inputs'') ''behavior_input_model_mismatch''
             ''output ConnectorBehavior input port must accept the behavior input model'' else [])"

definition systemMappingField :: "string \<Rightarrow> string \<Rightarrow> bool" where
  "systemMappingField model field =
     (model \<in> {''MulticaCreateIssueInput.v1'', ''MulticaCreateIssueInput@v1''} \<and>
      field \<in> {''change_id'', ''branch'', ''branch_head_sha'', ''target_ref'', ''issue_iid''})"

definition declared_references :: "string list" where
  "declared_references =
     [''$connection.source_project'', ''$connection.target_project'', ''$connection.target_ref'',
      ''$runtime.workspace_id'', ''$runtime.connection_id'', ''$runtime.flow_execution_id'',
      ''$runtime.event_id'']"

definition validateMappingReference :: "string \<Rightarrow> string \<Rightarrow> diagnostic list" where
  "validateMappingReference path raw =
     (let ref = trim_space raw in
      if ref = [] then diag path ''mapping_reference_missing'' ''mapping reference cannot be empty''
      else if has_prefix ref ''literal:'' \<or> has_prefix ref ''$input.'' then []
      else if ref \<in> set declared_references then []
      else diag path ''mapping_reference_invalid''
             ''mapping reference must use a declared input, Connection, runtime, or literal value'')"

definition validateRule :: "string \<Rightarrow> string \<Rightarrow> data_model \<Rightarrow> string \<times> mapping_rule \<Rightarrow> diagnostic list" where
  "validateRule path model d tr =
     (let target = fst tr; rule = snd tr; properties = schema_properties d;
          operations = (if mr_source rule \<noteq> [] then 1 else 0 :: nat) +
                       (if mr_constant rule \<noteq> VNil then 1 else 0) +
                       (if mr_concat rule \<noteq> [] then 1 else 0)
      in (if properties \<noteq> [] \<and> \<not> has_key properties target \<and> \<not> dm_extensions d \<and>
             \<not> systemMappingField model target
          then diag (sub path target) ''mapping_field_not_declared''
                 ''mapping target is not declared by the DataModel'' else []) @
         (if mr_source rule \<noteq> []
          then validateMappingReference (sub (sub path target) ''source'') (mr_source rule) else []) @
         concat (map (\<lambda>(i, ref). validateMappingReference
             (sub (sub path target) (indexed ''concat'' i)) ref) (enumerate 0 (mr_concat rule))) @
         (if operations = 0 \<and> mr_default rule = VNil
          then diag (sub path target) ''mapping_operation_missing''
                 ''mapping needs a source, constant, concat, or default'' else []) @
         (if operations > 1
          then diag (sub path target) ''mapping_operation_ambiguous''
                 ''mapping must declare one primary operation'' else []))"

definition validateMapping :: "string \<Rightarrow> mapping_spec \<Rightarrow> string \<Rightarrow> catalog \<Rightarrow> diagnostic list" where
  "validateMapping path spec model c =
     (case catalog_model c model of None \<Rightarrow> []
      | Some d \<Rightarrow> concat (map (validateRule path model d) spec))"

section \<open>Generic nodes\<close>

abbreviation GenericParseNormalize :: string where "GenericParseNormalize \<equiv> ''parse-normalize''"
abbreviation GenericMappingTemplate :: string where "GenericMappingTemplate \<equiv> ''mapping-template''"
abbreviation GenericConditionFilter :: string where "GenericConditionFilter \<equiv> ''condition-filter''"

definition supportedGeneric :: "string \<Rightarrow> bool" where
  "supportedGeneric kind =
     (kind = GenericParseNormalize \<or> kind = GenericMappingTemplate \<or> kind = GenericConditionFilter)"

definition validateGenericNode :: "string \<Rightarrow> flow_node \<Rightarrow> generic_node \<Rightarrow> catalog \<Rightarrow> diagnostic list" where
  "validateGenericNode path n gen c =
     (let model = fixedModel (gen_bindings gen) ''model'';
          mpath = path @ ''.generic.parameter_bindings.model'' in
      if gen_type gen = GenericParseNormalize then
        (if model = []
         then diag mpath ''model_binding_required'' ''Parse/Normalize requires a fixed DataModel reference''
         else validateDesignModel mpath model c @
           (if hasModelPort (node_outputs n) model PortOutput then []
            else diag (sub path ''outputs'') ''parse_output_model_mismatch''
                   ''Parse/Normalize output must expose its selected DataModel''))
      else if gen_type gen = GenericMappingTemplate then
        (if model = []
         then diag mpath ''model_binding_required'' ''Mapping/Template requires a fixed target DataModel reference''
         else validateDesignModel mpath model c @
           (case simulationMapping (node_config n) gen model of
              Inl e \<Rightarrow> diag (path @ ''.config.mapping'') ''mapping_invalid'' (err_text e)
            | Inr spec \<Rightarrow> validateMapping (path @ ''.config.mapping'') spec model c))
      else if gen_type gen = GenericConditionFilter then
        (case node_config n of
           None \<Rightarrow> diag (path @ ''.config.filter'') ''filter_required''
                     ''Condition/Filter requires a declarative filter''
         | Some config \<Rightarrow>
             (if as_bool (obj_get config ''mutually_exclusive'') = Some False
              then diag path ''nonexclusive_condition'' ''Condition/Filter branches must be mutually exclusive''
              else []) @
             (case simulationFilter (Some config) of
                Inl e \<Rightarrow> diag (path @ ''.config.filter'') ''filter_invalid'' (err_text e)
              | Inr f \<Rightarrow> (case ValidateFilter f of
                    Inl e \<Rightarrow> diag (path @ ''.config.filter'') ''filter_invalid'' (err_text e)
                  | Inr _ \<Rightarrow> [])))
      else [])"

section \<open>Nodes\<close>

definition node_path :: "nat \<Rightarrow> string" where
  "node_path i = indexed ''nodes'' i"

text \<open>
  The connector case. The flag tells whether the loop goes on to the ports: an unregistered or
  unpublished behavior is a \<open>continue\<close>.
\<close>

definition validateConnector ::
  "string \<Rightarrow> flow_node \<Rightarrow> connector_node \<Rightarrow> catalog \<Rightarrow> diagnostic list \<times> bool" where
  "validateConnector path n cn c =
     (case catalog_behavior c (conn_behavior_key cn) (conn_behavior_version cn) of
        None \<Rightarrow> (diag path ''behavior_not_found'' ''connector behavior is not registered'', False)
      | Some b \<Rightarrow>
          if bh_status b \<noteq> [] \<and> bh_status b \<noteq> DefinitionPublished
          then (diag path ''behavior_unavailable'' ''connector behavior is not published'', False)
          else
            ((if \<not> adapter_deployed c (bh_operation b)
              then diag path ''adapter_not_allowlisted''
                     ''connector behavior does not reference an allowlisted deployed adapter'' else []) @
             (if bh_direction b \<noteq> DirectionInput \<and> bh_direction b \<noteq> DirectionOutput
              then diag path ''invalid_direction'' ''connector behavior has an invalid direction'' else []) @
             validateBindings (path @ ''.connector.parameter_bindings'') (conn_bindings cn) @
             validateParameterSchema (path @ ''.connector.parameter_bindings'')
               (bh_parameter_schema b) (conn_bindings cn) @
             validateConnectorModelContract path n b, True))"

definition counts_input :: "catalog \<Rightarrow> flow_node \<Rightarrow> bool" where
  "counts_input c n =
     (node_kind n = NodeConnector \<and>
      (case node_connector n of None \<Rightarrow> False
       | Some cn \<Rightarrow> (case catalog_behavior c (conn_behavior_key cn) (conn_behavior_version cn) of
             None \<Rightarrow> False
           | Some b \<Rightarrow> (bh_status b = [] \<or> bh_status b = DefinitionPublished) \<and>
                       bh_direction b = DirectionInput)))"

definition validatePorts :: "string \<Rightarrow> flow_node \<Rightarrow> catalog \<Rightarrow> diagnostic list" where
  "validatePorts path n c =
     concat (map (\<lambda>(i, p).
       if port_model p \<noteq> [] \<and> \<not> isProviderModel (port_model p) then
         (case catalog_model c (port_model p) of
            None \<Rightarrow> diag (sub path (indexed ''ports'' i)) ''model_not_found''
                      ''port references an unregistered DataModel version''
          | Some d \<Rightarrow> if designModelAvailable d then []
              else diag (sub path (indexed ''ports'' i)) ''model_unavailable''
                     ''port references a DataModel version that is not published'')
       else []) (enumerate 0 (node_ports n)))"

definition validateTerminal :: "string \<Rightarrow> flow_node \<Rightarrow> diagnostic list" where
  "validateTerminal path n =
     (if \<exists>config \<in> set_option (node_config n). obj_get config ''kind'' = VStr ''error''
      then diag path ''unsupported_terminal'' ''error branches are not supported'' else [])"

text \<open>After \<open>ValidateShape\<close> the configuration a kind needs is there, so no \<open>None\<close> case is reached.\<close>

definition validateNode :: "catalog \<Rightarrow> nat \<times> flow_node \<Rightarrow> diagnostic list" where
  "validateNode c inode =
     (let n = snd inode; path = node_path (fst inode) in
      if node_kind n = NodeConnector then
        (case node_connector n of None \<Rightarrow> []
         | Some cn \<Rightarrow> (let (ds, go) = validateConnector path n cn c
                       in ds @ (if go then validatePorts path n c else [])))
      else if node_kind n = NodeGeneric then
        (case node_generic n of None \<Rightarrow> []
         | Some gen \<Rightarrow>
             (if supportedGeneric (gen_type gen) then []
              else diag path ''unsupported_node''
                ''only Parse/Normalize, Mapping/Template, and Condition/Filter nodes are supported'') @
             validateBindings (path @ ''.generic.parameter_bindings'') (gen_bindings gen) @
             validateNoCodeParameters (path @ ''.generic.parameter_bindings'') (gen_bindings gen) @
             validateNoCodeConfig (path @ ''.config'') (node_config n) @
             validateGenericNode path n gen c @ validatePorts path n c)
      else if node_kind n = NodeTerminal then validateTerminal path n @ validatePorts path n c
      else validatePorts path n c)"

section \<open>Edges and paths\<close>

definition find_node :: "flow_graph \<Rightarrow> ID \<Rightarrow> flow_node option" where
  "find_node g k = List.find (\<lambda>n. node_id n = k) (rev (graph_nodes g))"

definition findPort :: "flow_node \<Rightarrow> string \<Rightarrow> string \<Rightarrow> port option" where
  "findPort n pid direction =
     List.find (\<lambda>p. port_id p = pid \<and> port_direction p = direction)
       (if direction = PortOutput then node_outputs n else node_inputs n)"

definition modelsCompatible :: "string \<Rightarrow> string \<Rightarrow> flow_node \<Rightarrow> bool" where
  "modelsCompatible a b n =
     (a = b \<or> node_kind n = NodeGeneric \<and>
        (\<exists>gen \<in> set_option (node_generic n). gen_type gen = GenericMappingTemplate))"

definition validateEdge :: "flow_graph \<Rightarrow> nat \<times> flow_edge \<Rightarrow> diagnostic list" where
  "validateEdge g ie =
     (let e = snd ie; path = indexed ''edges'' (fst ie) in
      case (find_node g (edge_from e), find_node g (edge_to e)) of
        (Some a, Some b) \<Rightarrow>
          (case (findPort a (edge_from_port e) PortOutput, findPort b (edge_to_port e) PortInput) of
             (Some p, Some q) \<Rightarrow>
               if port_model p \<noteq> [] \<and> port_model q \<noteq> [] \<and>
                  \<not> modelsCompatible (port_model p) (port_model q) a
               then diag path ''incompatible_model''
                      ''port DataModels are incompatible; use Mapping/Template to declare the conversion''
               else []
           | _ \<Rightarrow> diag path ''port_not_found'' ''edge must connect an output port to an input port'')
      | _ \<Rightarrow> [])"

definition connected :: "flow_graph \<Rightarrow> flow_node \<Rightarrow> port \<Rightarrow> bool" where
  "connected g n p = list_ex (\<lambda>e. edge_to e = node_id n \<and> edge_to_port e = port_id p) (graph_edges g)"

definition validateRequiredInputs :: "flow_graph \<Rightarrow> flow_node \<Rightarrow> diagnostic list" where
  "validateRequiredInputs g n =
     (if node_kind n \<noteq> NodeGeneric then []
      else concat (map (\<lambda>p. if port_required p \<and> \<not> connected g n p
        then diag (''node:'' @ node_id n) ''required_input_missing'' ''required input port is not connected''
        else []) (node_inputs n)))"

definition hasOutgoing :: "flow_graph \<Rightarrow> ID \<Rightarrow> bool" where
  "hasOutgoing g k = list_ex (\<lambda>e. edge_from e = k) (graph_edges g)"

definition node_behavior :: "catalog \<Rightarrow> flow_node \<Rightarrow> behavior option" where
  "node_behavior c n =
     Option.bind (node_connector n)
       (\<lambda>cn. catalog_behavior c (conn_behavior_key cn) (conn_behavior_version cn))"

definition is_input :: "catalog \<Rightarrow> flow_node \<Rightarrow> bool" where
  "is_input c n =
     (node_kind n = NodeConnector \<and>
      (\<exists>b \<in> set_option (node_behavior c n). bh_direction b = DirectionInput))"

definition reachableFromInput :: "flow_graph \<Rightarrow> catalog \<Rightarrow> ID list" where
  "reachableFromInput g c =
     bfs (adjacency (graph_edges g)) (graph_ids g) []
       (map node_id (filter (is_input c) (graph_nodes g)))"

definition validateTermination :: "flow_graph \<Rightarrow> catalog \<Rightarrow> flow_node \<Rightarrow> diagnostic list" where
  "validateTermination g c n =
     (if node_id n \<notin> set (reachableFromInput g c) then []
      else if hasOutgoing g (node_id n) then []
      else if node_kind n = NodeTerminal then []
      else if node_kind n \<noteq> NodeConnector \<or> node_connector n = None
      then diag (''node:'' @ node_id n) ''path_not_terminated''
             ''every executable path must terminate at an output ConnectorNode or filtered terminal''
      else if \<exists>b \<in> set_option (node_behavior c n). bh_direction b = DirectionOutput then []
      else diag (''node:'' @ node_id n) ''output_required''
             ''path terminator must be an output ConnectorNode'')"

section \<open>The validation\<close>

record validation_result =
  vr_valid :: bool
  vr_diagnostics :: "diagnostic list"

definition diag_order :: "diagnostic \<Rightarrow> string \<times> string" where
  "diag_order d = (diag_path d, diag_code d)"

definition input_count :: "catalog \<Rightarrow> flow_graph \<Rightarrow> nat" where
  "input_count c g = length (filter (counts_input c) (graph_nodes g))"

definition validate_diagnostics :: "catalog \<Rightarrow> flow_graph \<Rightarrow> bool \<Rightarrow> diagnostic list" where
  "validate_diagnostics c g publish =
     concat (map (validateNode c) (enumerate 0 (graph_nodes g))) @
     (if input_count c g \<noteq> 1
      then diag ''graph'' ''input_count''
             (''publishable Flow requires exactly one input ConnectorNode; found '' @
              dec_nat (input_count c g)) else []) @
     (if hasCycle g (graph_ids g)
      then diag ''edges'' ''cycle'' ''Flow graph must be acyclic; loops and waits are not supported''
      else []) @
     concat (map (validateEdge g) (enumerate 0 (graph_edges g))) @
     concat (map (validateRequiredInputs g) (graph_nodes g)) @
     (if publish then concat (map (validateTermination g c) (graph_nodes g)) else [])"

definition Validate :: "catalog \<Rightarrow> flow_graph \<Rightarrow> bool \<Rightarrow> validation_result" where
  "Validate c g publish =
     (case ValidateShape g of
        Inl e \<Rightarrow> \<lparr>vr_valid = False, vr_diagnostics = diag ''graph'' ''invalid_shape'' (err_text e)\<rparr>
      | Inr _ \<Rightarrow>
          let ds = validate_diagnostics c g publish
          in \<lparr>vr_valid = (ds = []), vr_diagnostics = sort_key diag_order ds\<rparr>)"

section \<open>What a valid graph guarantees\<close>

lemma valid_iff: "vr_valid (Validate c g publish) \<longleftrightarrow> well_shaped g \<and> validate_diagnostics c g publish = []"
proof (cases "ValidateShape g")
  case (Inl e)
  then show ?thesis using shape_accepted [of g] by (simp add: Validate_def)
next
  case (Inr u)
  then show ?thesis using shape_accepted [of g] by (simp add: Validate_def Let_def)
qed

lemma well_shaped_closed: "well_shaped g \<Longrightarrow> closed_edges g"
  by (auto simp: well_shaped_def closed_edges_def edge_ok_def)

lemma well_shaped_distinct: "well_shaped g \<Longrightarrow> distinct (graph_ids g)"
  by (simp add: well_shaped_def)

lemma enumerate_mem: "x \<in> set xs \<Longrightarrow> \<exists>i. (i, x) \<in> set (enumerate k xs)"
  by (induction xs arbitrary: k) auto

lemma concat_enumerate_Nil: "concat (map f (enumerate k xs)) = [] \<Longrightarrow> x \<in> set xs \<Longrightarrow> \<exists>i. f (i, x) = []"
  using enumerate_mem [of x xs k] by auto

lemma no_diagnostics:
  assumes "validate_diagnostics c g publish = []"
  shows "n \<in> set (graph_nodes g) \<Longrightarrow> \<exists>i. validateNode c (i, n) = []"
    and "input_count c g = 1" and "\<not> hasCycle g (graph_ids g)"
    and "e \<in> set (graph_edges g) \<Longrightarrow> \<exists>i. validateEdge g (i, e) = []"
    and "n \<in> set (graph_nodes g) \<Longrightarrow> validateRequiredInputs g n = []"
    and "publish \<Longrightarrow> n \<in> set (graph_nodes g) \<Longrightarrow> validateTermination g c n = []"
  using assms concat_enumerate_Nil [of "validateNode c" 0 "graph_nodes g" n]
    concat_enumerate_Nil [of "validateEdge g" 0 "graph_edges g" e]
  unfolding validate_diagnostics_def by (auto split: if_splits)

lemma valid_acyclic: "vr_valid (Validate c g publish) \<Longrightarrow> acyclic (arcs g)"
  using valid_iff no_diagnostics(3) hasCycle_iff well_shaped_closed by blast

lemma valid_order: "vr_valid (Validate c g publish) \<Longrightarrow> \<exists>order. executionOrder g = Inr order"
  using valid_iff valid_acyclic execution.succeeds_iff well_shaped_distinct well_shaped_closed by blast

lemma valid_simulation_order: "vr_valid (Validate c g publish) \<Longrightarrow> \<exists>order. simulationOrder g = Inr order"
  using valid_iff valid_acyclic simulation.succeeds_iff well_shaped_distinct well_shaped_closed by blast

lemma find_node_iff:
  assumes "distinct (graph_ids g)"
  shows "find_node g k = Some n \<longleftrightarrow> n \<in> set (graph_nodes g) \<and> node_id n = k"
proof
  assume "find_node g k = Some n"
  then show "n \<in> set (graph_nodes g) \<and> node_id n = k" by (auto simp: find_node_def dest: find_SomeD)
next
  assume n: "n \<in> set (graph_nodes g) \<and> node_id n = k"
  show "find_node g k = Some n"
  proof (cases "find_node g k")
    case None
    from find_NoneD [OF None [unfolded find_node_def], of n] n show ?thesis by simp
  next
    case (Some m)
    then have "m \<in> set (graph_nodes g)" "node_id m = k" by (auto simp: find_node_def dest: find_SomeD)
    with n assms Some show ?thesis by (auto simp: distinct_map inj_on_def)
  qed
qed

lemma counts_input_is_input: "counts_input c n \<Longrightarrow> is_input c n"
  by (auto simp: counts_input_def is_input_def node_behavior_def split: option.splits)

text \<open>
  In a valid graph the only input connector is the one the validation counted, so the search for
  it, the simulation and the executor all start from the same node.
\<close>

lemma valid_node_connector:
  assumes "validateNode c (i, n) = []" "node_kind n = NodeConnector" "kind_ok n"
  shows "\<exists>cn b. node_connector n = Some cn \<and> node_behavior c n = Some b \<and>
           (bh_status b = [] \<or> bh_status b = DefinitionPublished) \<and>
           adapter_deployed c (bh_operation b) \<and>
           (bh_direction b = DirectionInput \<or> bh_direction b = DirectionOutput)"
proof -
  from assms(2,3) obtain cn where cn: "node_connector n = Some cn" by (auto simp: kind_ok_def)
  with assms(1,2) have "fst (validateConnector (node_path i) n cn c) = []"
    by (auto simp: validateNode_def Let_def split: prod.splits)
  with cn show ?thesis
    by (auto simp: validateConnector_def node_behavior_def split: option.splits if_splits)
qed

lemma valid_inputs_agree:
  assumes "vr_valid (Validate c g publish)" "n \<in> set (graph_nodes g)"
  shows "is_input c n \<longleftrightarrow> counts_input c n"
proof
  assume i: "is_input c n"
  from assms have "well_shaped g" "validate_diagnostics c g publish = []" using valid_iff by blast+
  then obtain j where "validateNode c (j, n) = []" using no_diagnostics(1) assms(2) by blast
  moreover have "kind_ok n" using \<open>well_shaped g\<close> assms(2) by (simp add: well_shaped_def)
  moreover have "node_kind n = NodeConnector" using i by (simp add: is_input_def)
  ultimately obtain cn b where "node_connector n = Some cn" "node_behavior c n = Some b"
    "bh_status b = [] \<or> bh_status b = DefinitionPublished" using valid_node_connector by blast
  with i show "counts_input c n"
    by (auto simp: counts_input_def is_input_def node_behavior_def)
qed (rule counts_input_is_input)

lemma valid_one_input:
  assumes "vr_valid (Validate c g publish)"
  shows "\<exists>n. filter (is_input c) (graph_nodes g) = [n]"
proof -
  from assms have "length (filter (counts_input c) (graph_nodes g)) = 1"
    using valid_iff no_diagnostics(2) unfolding input_count_def by blast
  moreover have "filter (is_input c) (graph_nodes g) = filter (counts_input c) (graph_nodes g)"
    using valid_inputs_agree [OF assms] by (rule filter_cong [OF refl])
  ultimately show ?thesis by (auto simp: length_Suc_conv)
qed

lemma reachableFromInput_iff:
  "closed_edges g \<Longrightarrow> set (reachableFromInput g c) =
     {k. \<exists>n \<in> set (graph_nodes g). is_input c n \<and> (node_id n, k) \<in> (arcs g)\<^sup>*}"
  unfolding reachableFromInput_def bfs_correct search_arcs_closed by auto

lemma hasOutgoing_iff: "hasOutgoing g k \<longleftrightarrow> (\<exists>j. (k, j) \<in> arcs g)"
  by (auto simp: hasOutgoing_def list_ex_iff arcs_def image_iff)

lemma valid_node_generic:
  assumes "validateNode c (i, n) = []" "node_kind n = NodeGeneric" "node_generic n = Some gen"
  shows "supportedGeneric (gen_type gen)"
    and "validateNoCodeParameters (node_path i @ ''.generic.parameter_bindings'') (gen_bindings gen) = []"
    and "validateNoCodeConfig (node_path i @ ''.config'') (node_config n) = []"
    and "validateGenericNode (node_path i) n gen c = []"
  using assms by (auto simp: validateNode_def Let_def split: if_splits)

lemma valid_generic_evaluable:
  assumes "validateGenericNode path n gen c = []"
  shows "gen_type gen = GenericParseNormalize \<Longrightarrow> fixedModel (gen_bindings gen) ''model'' \<noteq> []"
    and "gen_type gen = GenericMappingTemplate \<Longrightarrow>
      fixedModel (gen_bindings gen) ''model'' \<noteq> [] \<and>
      (\<exists>spec. simulationMapping (node_config n) gen (fixedModel (gen_bindings gen) ''model'') = Inr spec)"
    and "gen_type gen = GenericConditionFilter \<Longrightarrow>
      (\<exists>f. simulationFilter (node_config n) = Inr f \<and> ValidateFilter f = Inr ())"
  using assms by (auto simp: validateGenericNode_def Let_def split: if_splits option.splits sum.splits)

lemma no_code_parameters_Nil:
  "validateNoCodeParameters path bs = [] \<longleftrightarrow>
     (\<forall>(name, b) \<in> set bs. \<not> executable_key name \<and>
        \<not> (bind_kind b = BindingFixed \<and> (\<exists>s. bind_value b = VStr s \<and> containsExecutableText s)))"
  unfolding validateNoCodeParameters_def by (induction bs) (auto split: if_splits)

lemma no_code_config_Nil:
  "validateNoCodeConfig path config = [] \<longleftrightarrow>
     (\<forall>c. config = Some c \<longrightarrow> (\<forall>(name, v) \<in> set c. \<not> executable_key name \<and>
        \<not> (\<exists>s. v = VStr s \<and> containsExecutableText s)))"
proof (cases config)
  case (Some c)
  have "concat (map (\<lambda>(name, v). (if executable_key name then no_code (sub path name) else []) @
      (if \<exists>s \<in> set_option (as_str v). containsExecutableText s then no_code (sub path name) else [])) c) = []
    \<longleftrightarrow> (\<forall>(name, v) \<in> set c. \<not> executable_key name \<and> \<not> (\<exists>s. v = VStr s \<and> containsExecutableText s))"
    by (induction c) (auto split: if_splits)
  with Some show ?thesis by (simp add: validateNoCodeConfig_def)
qed (simp add: validateNoCodeConfig_def)

section \<open>Properties\<close>

text \<open>
  a validation result is consistent: it is valid exactly when it reports nothing, and what it
  reports is ordered by path and then by code, whatever order the maps were walked in.
\<close>

theorem Validate_report:
  "(vr_valid (Validate c g publish) \<longleftrightarrow> vr_diagnostics (Validate c g publish) = []) \<and>
   sorted (map diag_order (vr_diagnostics (Validate c g publish)))"
  by (auto simp: Validate_def Let_def split: sum.split)

text \<open>
  C4: a graph that passes validation for publication has exactly one input connector, can be put in
  an execution order, and every node reachable from the input at which a path ends is a terminal or
  a connector whose behavior is an output with a deployed adapter.
\<close>

theorem publishable_graph:
  assumes "vr_valid (Validate c g True)"
  shows "(\<exists>n. filter (is_input c) (graph_nodes g) = [n]) \<and>
         (\<exists>order. executionOrder g = Inr order) \<and>
         (\<forall>n \<in> set (graph_nodes g). \<forall>m \<in> set (graph_nodes g).
            is_input c m \<and> (node_id m, node_id n) \<in> (arcs g)\<^sup>* \<and> (\<forall>j. (node_id n, j) \<notin> arcs g) \<longrightarrow>
            node_kind n = NodeTerminal \<or>
            node_kind n = NodeConnector \<and>
            (\<exists>b. node_behavior c n = Some b \<and> bh_direction b = DirectionOutput \<and>
                 adapter_deployed c (bh_operation b)))"
proof (intro conjI ballI impI)
  show "\<exists>n. filter (is_input c) (graph_nodes g) = [n]" using valid_one_input [OF assms] .
  show "\<exists>order. executionOrder g = Inr order" using valid_order [OF assms] .
  fix n m assume n: "n \<in> set (graph_nodes g)" and m: "m \<in> set (graph_nodes g)"
    and path: "is_input c m \<and> (node_id m, node_id n) \<in> (arcs g)\<^sup>* \<and> (\<forall>j. (node_id n, j) \<notin> arcs g)"
  from assms have w: "well_shaped g" and nd: "validate_diagnostics c g True = []"
    using valid_iff by blast+
  have "node_id n \<in> set (reachableFromInput g c)"
    using reachableFromInput_iff [OF well_shaped_closed [OF w]] path m by blast
  moreover have "\<not> hasOutgoing g (node_id n)" using path by (simp add: hasOutgoing_iff)
  moreover have "validateTermination g c n = []" using no_diagnostics(6) [OF nd _ n] by simp
  ultimately have t: "node_kind n = NodeTerminal \<or> node_kind n = NodeConnector \<and>
      (\<exists>b. node_behavior c n = Some b \<and> bh_direction b = DirectionOutput)"
    by (auto simp: validateTermination_def split: if_splits)
  obtain i where i: "validateNode c (i, n) = []" using no_diagnostics(1) [OF nd n] by blast
  have k: "kind_ok n" using w n by (simp add: well_shaped_def)
  show "node_kind n = NodeTerminal \<or> node_kind n = NodeConnector \<and>
      (\<exists>b. node_behavior c n = Some b \<and> bh_direction b = DirectionOutput \<and>
           adapter_deployed c (bh_operation b))"
    using t valid_node_connector [OF i _ k] by auto
qed

text \<open>
  C39: every edge of a valid graph joins a declared output port to a declared input port, and where
  both ports name a data model the models are the same or a Mapping/Template node converts them.
\<close>

theorem valid_edges_typed:
  assumes "vr_valid (Validate c g publish)" "e \<in> set (graph_edges g)"
  shows "\<exists>a b p q. find_node g (edge_from e) = Some a \<and> find_node g (edge_to e) = Some b \<and>
           p \<in> set (node_outputs a) \<and> port_id p = edge_from_port e \<and> port_direction p = PortOutput \<and>
           q \<in> set (node_inputs b) \<and> port_id q = edge_to_port e \<and> port_direction q = PortInput \<and>
           (port_model p = [] \<or> port_model q = [] \<or> modelsCompatible (port_model p) (port_model q) a)"
proof -
  from assms(1) have w: "well_shaped g" and nd: "validate_diagnostics c g publish = []"
    using valid_iff by blast+
  obtain i where i: "validateEdge g (i, e) = []" using no_diagnostics(4) [OF nd assms(2)] by blast
  have "edge_from e \<in> set (graph_ids g)" "edge_to e \<in> set (graph_ids g)"
    using well_shaped_closed [OF w] assms(2) unfolding closed_edges_def by blast+
  then obtain a b where ab: "find_node g (edge_from e) = Some a" "find_node g (edge_to e) = Some b"
    using find_node_iff [OF well_shaped_distinct [OF w]] by force
  with i obtain p q where pq: "findPort a (edge_from_port e) PortOutput = Some p"
    "findPort b (edge_to_port e) PortInput = Some q"
    "port_model p = [] \<or> port_model q = [] \<or> modelsCompatible (port_model p) (port_model q) a"
    by (auto simp: validateEdge_def Let_def split: option.splits if_splits)
  have "p \<in> set (node_outputs a) \<and> port_id p = edge_from_port e \<and> port_direction p = PortOutput"
    using find_SomeD [OF pq(1) [unfolded findPort_def]] by simp
  moreover have "q \<in> set (node_inputs b) \<and> port_id q = edge_to_port e \<and> port_direction q = PortInput"
    using find_SomeD [OF pq(2) [unfolded findPort_def]] by simp
  ultimately show ?thesis using ab pq(3) by blast
qed

text \<open>
  No generic node of a valid graph has a binding or a configuration entry named script, code,
  expression or program, and none of their fixed texts holds a call or a scheme that executes.
\<close>

theorem valid_generic_no_code:
  assumes "vr_valid (Validate c g publish)" "n \<in> set (graph_nodes g)"
    and "node_kind n = NodeGeneric" "node_generic n = Some gen"
  shows "(\<forall>(name, b) \<in> set (gen_bindings gen). \<not> executable_key name \<and>
            \<not> (bind_kind b = BindingFixed \<and> (\<exists>s. bind_value b = VStr s \<and> containsExecutableText s))) \<and>
         (\<forall>config. node_config n = Some config \<longrightarrow> (\<forall>(name, v) \<in> set config. \<not> executable_key name \<and>
            \<not> (\<exists>s. v = VStr s \<and> containsExecutableText s)))"
proof -
  from assms(1) have nd: "validate_diagnostics c g publish = []" using valid_iff by blast
  obtain i where i: "validateNode c (i, n) = []" using no_diagnostics(1) [OF nd assms(2)] by blast
  from valid_node_generic(2,3) [OF i assms(3,4)] show ?thesis
    by (simp add: no_code_parameters_Nil no_code_config_Nil)
qed

section \<open>A concrete flow\<close>

text \<open>A two-step flow: an issue hook whose events pass a filter into a projection.\<close>

definition sample_behavior :: "string \<Rightarrow> string \<Rightarrow> behavior" where
  "sample_behavior key direction =
     \<lparr>bh_id = [], bh_workspace = [], bh_type_key = ''t'', bh_type_version = ''1'', bh_key = key,
      bh_version = ''1'', bh_display_name = key, bh_direction = direction,
      bh_parameter_schema = None, bh_input_model = [], bh_output_model = [], bh_event_schema = None,
      bh_capabilities = [''c''], bh_operation = ''op'', bh_idempotency = ''i'', bh_reconciliation = ''r'',
      bh_status = DefinitionPublished\<rparr>"

definition sample_catalog :: catalog where
  "sample_catalog =
     NewCatalog [sample_behavior ''hook'' DirectionInput, sample_behavior ''sink'' DirectionOutput] []
       [''op'']"

definition sample_port :: "string \<Rightarrow> string \<Rightarrow> port" where
  "sample_port i direction =
     \<lparr>port_id = i, port_name = [], port_direction = direction, port_model = [], port_roles = [],
      port_required = False\<rparr>"

definition sample_connector :: "ID \<Rightarrow> string \<Rightarrow> flow_node" where
  "sample_connector k key =
     (bare_node k NodeConnector)\<lparr>node_inputs := [sample_port ''in'' PortInput],
        node_outputs := [sample_port ''out'' PortOutput],
        node_connector := Some \<lparr>conn_behavior_key = key, conn_behavior_version = ''1'', conn_bindings = []\<rparr>\<rparr>"

definition sample_generic :: generic_node where
  "sample_generic = \<lparr>gen_type = GenericConditionFilter, gen_bindings = []\<rparr>"

definition sample_filter_node :: flow_node where
  "sample_filter_node =
     (bare_node ''f'' NodeGeneric)\<lparr>node_inputs := [sample_port ''in'' PortInput],
        node_outputs := [sample_port ''out'' PortOutput], node_generic := Some sample_generic,
        node_config := Some [(''filter'', VObj [(''op'', VStr ''exists''), (''field'', VStr ''id'')])]\<rparr>"

definition sample_graph :: flow_graph where
  "sample_graph =
     \<lparr>graph_nodes = [sample_connector ''i'' ''hook'', sample_filter_node, sample_connector ''o'' ''sink''],
      graph_edges = [bare_edge ''1'' ''i'' ''f'', bare_edge ''2'' ''f'' ''o''],
      graph_terminals = []\<rparr>"

lemma sample_valid: "vr_valid (Validate sample_catalog sample_graph True)"
  by code_simp

theorem publishable_graph_witness:
  "\<exists>n. filter (is_input sample_catalog) (graph_nodes sample_graph) = [n]"
  using publishable_graph [OF sample_valid] by blast

theorem valid_edges_typed_witness:
  "\<exists>a. find_node sample_graph ''i'' = Some a"
proof -
  have "bare_edge ''1'' ''i'' ''f'' \<in> set (graph_edges sample_graph)" by (simp add: sample_graph_def)
  from valid_edges_typed [OF sample_valid this] show ?thesis by (auto simp: bare_edge_def)
qed

theorem valid_generic_no_code_witness: "\<not> executable_key ''filter''"
proof -
  have "sample_filter_node \<in> set (graph_nodes sample_graph)" by (simp add: sample_graph_def)
  from valid_generic_no_code [OF sample_valid this, of sample_generic] show ?thesis
    by (auto simp: sample_filter_node_def bare_node_def)
qed

end
