(* ===== verification/Compile.thy ===== *)
theory Compile
  imports Validation
begin

text \<open>
  \<open>internal/flow/compile.go\<close>: the plan stored with a published version, and the reference lists
  of \<open>internal/flow/service.go\<close>. \<open>Compile\<close> starts its worklist from the map of in-degrees, so the
  order of the plan depends on the order Go walks that map: \<open>walk\<close> below. Every walk gives a
  topological order of all nodes.
\<close>

definition bump_edges :: "degrees \<Rightarrow> flow_edge list \<Rightarrow> degrees" where
  "bump_edges deg es = foldl (\<lambda>d e. AList.update (edge_to e) (degree d (edge_to e) + 1) d) deg es"

definition compile_order :: "flow_graph \<Rightarrow> ID list \<Rightarrow> ID list" where
  "compile_order g walk =
     (let deg = bump_edges (init_degrees (graph_ids g)) (graph_edges g)
      in kahn (adjacency (graph_edges g)) deg (filter (\<lambda>k. degree deg k = 0) walk) [])"

definition uniqueStrings :: "string list \<Rightarrow> string list" where
  "uniqueStrings values = unique [] values"

definition behavior_ref :: "connector_node \<Rightarrow> string" where
  "behavior_ref cn = conn_behavior_key cn @ ''@'' @ conn_behavior_version cn"

definition compiled_node :: "flow_node \<Rightarrow> gobj" where
  "compiled_node n =
     [(''id'', VNamed (node_id n)), (''kind'', VNamed (node_kind n)), (''name'', VStr (node_name n))] @
     (case node_connector n of None \<Rightarrow> [] | Some cn \<Rightarrow> [(''behavior_ref'', VStr (behavior_ref cn))]) @
     (case node_generic n of None \<Rightarrow> [] | Some gen \<Rightarrow> [(''generic_type'', VStr (gen_type gen))])"

definition find_all :: "flow_graph \<Rightarrow> ID list \<Rightarrow> flow_node list" where
  "find_all g ks = concat (map (\<lambda>k. case find_node g k of None \<Rightarrow> [] | Some n \<Rightarrow> [n]) ks)"

definition node_refs :: "flow_node list \<Rightarrow> string list" where
  "node_refs ns = concat (map (\<lambda>n. case node_connector n of None \<Rightarrow> [] | Some cn \<Rightarrow> [behavior_ref cn]) ns)"

definition Compile :: "flow_graph \<Rightarrow> catalog \<Rightarrow> ID list \<Rightarrow> gerr + gobj" where
  "Compile g c walk =
     (let v = Validate c g True in
      if \<not> vr_valid v
      then Inl (Plain (''flow graph is not publishable: '' @ diag_message (hd (vr_diagnostics v))))
      else let ns = find_all g (compile_order g walk) in
        Inr [(''plan_version'', VStr ''1''),
             (''node_order'', VArr (map (\<lambda>n. VObj (compiled_node n)) ns)),
             (''behavior_refs'', VStrs (uniqueStrings (node_refs ns))),
             (''edge_count'', VInt KInt (int (length (graph_edges g))))])"

definition behaviorRefs :: "flow_graph \<Rightarrow> string list" where
  "behaviorRefs g = uniqueStrings (node_refs (graph_nodes g))"

definition modelRefs :: "flow_graph \<Rightarrow> string list" where
  "modelRefs g =
     unique [] (filter (\<lambda>m. m \<noteq> [] \<and> \<not> isProviderModel m)
       (map port_model (concat (map node_ports (graph_nodes g)))))"

lemma count_edges_bump:
  "\<forall>e \<in> set es. has_key deg (edge_from e) \<and> has_key deg (edge_to e) \<Longrightarrow>
     count_edges deg es = Inr (bump_edges deg es)"
proof (induction deg es rule: count_edges.induct)
  case (2 deg e es)
  then have keys: "has_key deg (edge_from e)" "has_key deg (edge_to e)" by simp_all
  then have "fst ` set (AList.update (edge_to e) (degree deg (edge_to e) + 1) deg) = fst ` set deg"
    by (auto simp: dom_update)
  with 2 keys show ?case by (simp add: bump_edges_def)
qed (simp add: bump_edges_def)

lemma compile_order_spec:
  assumes d: "distinct (graph_ids g)" and c: "closed_edges g" and a: "acyclic (arcs g)"
    and w: "distinct walk" "set walk = set (graph_ids g)"
  shows "distinct (compile_order g walk) \<and> set (compile_order g walk) = set (graph_ids g) \<and>
         topological (graph_edges g) (compile_order g walk)"
proof -
  let ?ids = "graph_ids g" and ?es = "graph_edges g"
  let ?deg = "bump_edges (init_degrees ?ids) ?es"
  have keys: "fst ` set (init_degrees ?ids) = set ?ids" "distinct (map fst (init_degrees ?ids))"
    using init_degrees_keys by blast+
  have "count_edges (init_degrees ?ids) ?es = Inr ?deg"
    by (rule count_edges_bump) (use c keys in \<open>auto simp: closed_edges_def\<close>)
  from count_edges_facts [OF this keys(2)]
  have deg: "\<forall>k. degree ?deg k = int (edge_into ?es {} k)" using init_degrees_zero by auto
  have "kahn_inv ?es (set ?ids) ?deg (filter (\<lambda>k. degree ?deg k = 0) walk) []"
    by (rule kahn_inv_initial) (use w deg in auto)
  moreover have V: "\<forall>e \<in> set ?es. edge_from e \<in> set ?ids \<and> edge_to e \<in> set ?ids"
    using c by (simp add: closed_edges_def)
  ultimately obtain deg' where inv: "kahn_inv ?es (set ?ids) deg' [] (compile_order g walk)"
    using kahn_final unfolding compile_order_def Let_def by blast
  have s: "set (compile_order g walk) = set ?ids"
    using kahn_inv_acyclic [OF inv a] V by blast
  from kahn_distinct [OF inv] kahn_inv_done [OF inv s] V s show ?thesis by blast
qed

lemma find_all_ids:
  "\<forall>k \<in> set ks. \<exists>n. find_node g k = Some n \<and> node_id n = k \<Longrightarrow> map node_id (find_all g ks) = ks"
  by (induction ks) (auto simp: find_all_def)

lemma set_node_refs:
  "r \<in> set (node_refs ns) \<longleftrightarrow> (\<exists>n \<in> set ns. \<exists>cn. node_connector n = Some cn \<and> r = behavior_ref cn)"
  by (induction ns) (auto simp: node_refs_def split: option.splits, metis)

lemma behaviorRefs_set:
  "distinct (behaviorRefs g) \<and> set (behaviorRefs g) =
     {behavior_ref cn | n cn. n \<in> set (graph_nodes g) \<and> node_connector n = Some cn}"
  unfolding behaviorRefs_def uniqueStrings_def set_unique
  by (auto simp: distinct_unique set_node_refs) metis+

text \<open>
  \<open>Compile\<close> succeeds exactly on the graphs that validate for publication, and for every order
  in which Go may walk its map of in-degrees the plan lists each node of the graph once, after all
  its predecessors.
\<close>

theorem Compile_plan_topological:
  assumes "distinct walk" "set walk = set (graph_ids g)"
  shows "case Compile g c walk of
           Inl e \<Rightarrow> \<not> vr_valid (Validate c g True)
         | Inr plan \<Rightarrow> vr_valid (Validate c g True) \<and>
             (\<exists>ns. obj_get plan ''node_order'' = VArr (map (\<lambda>n. VObj (compiled_node n)) ns) \<and>
                mset (map node_id ns) = mset (graph_ids g) \<and>
                topological (graph_edges g) (map node_id ns))"
proof (cases "vr_valid (Validate c g True)")
  case True
  then have w: "well_shaped g" using valid_iff by blast
  note d = well_shaped_distinct [OF w] and cl = well_shaped_closed [OF w]
  note o = compile_order_spec [OF d cl valid_acyclic [OF True] assms]
  have "\<exists>n. find_node g k = Some n \<and> node_id n = k" if k: "k \<in> set (graph_ids g)" for k
  proof -
    from k obtain n where "n \<in> set (graph_nodes g)" "node_id n = k" by auto
    then show ?thesis using find_node_iff [OF d] by blast
  qed
  then have "map node_id (find_all g (compile_order g walk)) = compile_order g walk"
    using o by (intro find_all_ids) simp
  moreover have "mset (compile_order g walk) = mset (graph_ids g)"
    using o d mset_eq_distinct by blast
  ultimately show ?thesis using True o
    by (simp add: Compile_def Let_def del: mset_map) (metis mset_map)
qed (simp add: Compile_def Let_def)

theorem Compile_plan_topological_witness:
  "\<exists>plan. Compile sample_graph sample_catalog [''o'', ''i'', ''f''] = Inr plan \<and>
     (\<exists>ns. obj_get plan ''node_order'' = VArr (map (\<lambda>n. VObj (compiled_node n)) ns))"
proof -
  have "distinct [''o'', ''i'', ''f'']" "set [''o'', ''i'', ''f''] = set (graph_ids sample_graph)"
    by (auto simp: sample_graph_def sample_connector_def sample_filter_node_def bare_node_def)
  from Compile_plan_topological [OF this, of sample_catalog] sample_valid show ?thesis
    by (auto split: sum.splits)
qed

end
