(* ===== verification/Builtins.thy ===== *)
theory Builtins
  imports Compile
begin

text \<open>
  What the program ships: the connector types, behaviors and data models embedded from
  \<open>internal/registry/definitions/\<close> (one definition per JSON file, decoded into its Go struct, in
  the order \<open>LoadBuiltins\<close> sorts them), the allowlist and catalog \<open>persistent.go\<close> builds, and the
  flow templates of \<open>internal/flow/templates.go\<close>.
\<close>

section \<open>The embedded definitions\<close>

definition ct_def_gitlab :: connector_type where
  "ct_def_gitlab =
     \<lparr>ct_id = [], ct_workspace = [], ct_key = ''gitlab'', ct_version = ''1.0.0'',
      ct_display_name = ''GitLab'', ct_provider = ''gitlab'', ct_status = ''published'',
      ct_metadata = Some [(''category'', VStr ''source-control''), (''supports_shared_hook'',
      VBool True)]\<rparr>"

definition ct_def_multica :: connector_type where
  "ct_def_multica =
     \<lparr>ct_id = [], ct_workspace = [], ct_key = ''multica'', ct_version = ''1.0.0'',
      ct_display_name = ''Multica'', ct_provider = ''multica'', ct_status = ''published'',
      ct_metadata = Some [(''category'', VStr ''work-management''), (''runtime_access'',
      VStr ''glab-managed'')]\<rparr>"

definition bh_def_gitlab_issue_abandon_hook :: behavior where
  "bh_def_gitlab_issue_abandon_hook =
     \<lparr>bh_id = [], bh_workspace = [], bh_type_key = ''gitlab'', bh_type_version = ''1.0.0'',
      bh_key = ''gitlab.issue-abandon-hook'', bh_version = ''1.0.0'',
      bh_display_name = ''GitLab Abandon Label Hook'', bh_direction = ''input'',
      bh_parameter_schema = Some [], bh_input_model = [],
      bh_output_model = ''provider:gitlab.issue.v1'', bh_event_schema = Some [(''type'',
      VStr ''object''), (''required'', VArr [VStr ''object_kind'', VStr ''object_attributes'',
      VStr ''project''])], bh_capabilities = [''gitlab.project.webhook.read''],
      bh_operation = ''gitlab.events.issue'', bh_idempotency = ''provider_delivery_id'',
      bh_reconciliation = ''delivery_lookup'', bh_status = ''published''\<rparr>"

definition bh_def_gitlab_issue_hook :: behavior where
  "bh_def_gitlab_issue_hook =
     \<lparr>bh_id = [], bh_workspace = [], bh_type_key = ''gitlab'', bh_type_version = ''1.0.0'',
      bh_key = ''gitlab.issue-hook'', bh_version = ''1.0.0'',
      bh_display_name = ''GitLab Issue Hook'', bh_direction = ''input'',
      bh_parameter_schema = Some [], bh_input_model = [],
      bh_output_model = ''provider:gitlab.issue.v1'', bh_event_schema = Some [(''type'',
      VStr ''object''), (''required'', VArr [VStr ''object_kind'', VStr ''object_attributes'',
      VStr ''project''])], bh_capabilities = [''gitlab.project.webhook.read''],
      bh_operation = ''gitlab.events.issue'', bh_idempotency = ''provider_delivery_id'',
      bh_reconciliation = ''delivery_lookup'', bh_status = ''published''\<rparr>"

definition bh_def_gitlab_push_hook :: behavior where
  "bh_def_gitlab_push_hook =
     \<lparr>bh_id = [], bh_workspace = [], bh_type_key = ''gitlab'', bh_type_version = ''1.0.0'',
      bh_key = ''gitlab.push-hook'', bh_version = ''1.0.0'',
      bh_display_name = ''GitLab Push Hook'', bh_direction = ''input'',
      bh_parameter_schema = Some [], bh_input_model = [],
      bh_output_model = ''provider:gitlab.push.v1'', bh_event_schema = Some [(''type'',
      VStr ''object''), (''required'', VArr [VStr ''ref'', VStr ''after'', VStr ''project'',
      VStr ''commits''])], bh_capabilities = [''gitlab.project.webhook.read''],
      bh_operation = ''gitlab.events.push'', bh_idempotency = ''provider_delivery_id'',
      bh_reconciliation = ''delivery_lookup'', bh_status = ''published''\<rparr>"

definition bh_def_multica_cancel_issue :: behavior where
  "bh_def_multica_cancel_issue =
     \<lparr>bh_id = [], bh_workspace = [], bh_type_key = ''multica'', bh_type_version = ''1.0.0'',
      bh_key = ''multica.cancel-issue'', bh_version = ''1.0.0'',
      bh_display_name = ''Multica Cancel Issue'', bh_direction = ''output'',
      bh_parameter_schema = Some [(''type'', VStr ''object''), (''properties'',
      VObj [(''project'', VObj [(''type'', VStr ''string''), (''binding_kinds'',
      VArr [VStr ''connection_ref''])])]), (''required'', VArr [VStr ''project''])],
      bh_input_model = ''MulticaCancelIssueInput.v1'', bh_output_model = [],
      bh_event_schema = None, bh_capabilities = [''multica.issue.update''],
      bh_operation = ''multica.issue.status'', bh_idempotency = ''correlation_id'',
      bh_reconciliation = ''issue_status_read'', bh_status = ''published''\<rparr>"

definition bh_def_multica_complete_issue :: behavior where
  "bh_def_multica_complete_issue =
     \<lparr>bh_id = [], bh_workspace = [], bh_type_key = ''multica'', bh_type_version = ''1.0.0'',
      bh_key = ''multica.complete-issue'', bh_version = ''1.0.0'',
      bh_display_name = ''Multica Complete Issue'', bh_direction = ''output'',
      bh_parameter_schema = Some [(''type'', VStr ''object''), (''properties'',
      VObj [(''project'', VObj [(''type'', VStr ''string''), (''binding_kinds'',
      VArr [VStr ''connection_ref''])])]), (''required'', VArr [VStr ''project''])],
      bh_input_model = ''MulticaCompleteIssueInput.v1'', bh_output_model = [],
      bh_event_schema = None, bh_capabilities = [''multica.issue.update''],
      bh_operation = ''multica.issue.status'', bh_idempotency = ''correlation_id'',
      bh_reconciliation = ''issue_status_read'', bh_status = ''published''\<rparr>"

definition bh_def_multica_create_issue :: behavior where
  "bh_def_multica_create_issue =
     \<lparr>bh_id = [], bh_workspace = [], bh_type_key = ''multica'', bh_type_version = ''1.0.0'',
      bh_key = ''multica.create-issue'', bh_version = ''1.0.0'',
      bh_display_name = ''Multica Create Issue'', bh_direction = ''output'',
      bh_parameter_schema = Some [(''type'', VStr ''object''), (''properties'',
      VObj [(''project'', VObj [(''type'', VStr ''string''), (''binding_kinds'',
      VArr [VStr ''connection_ref''])])]), (''required'', VArr [VStr ''project''])],
      bh_input_model = ''MulticaCreateIssueInput.v1'', bh_output_model = [],
      bh_event_schema = None, bh_capabilities = [''multica.issue.create''],
      bh_operation = ''multica.issue.create'', bh_idempotency = ''correlation_id'',
      bh_reconciliation = ''issue_search_by_correlation'', bh_status = ''published''\<rparr>"

definition dm_def_archive_completion :: data_model where
  "dm_def_archive_completion =
     \<lparr>dm_id = [], dm_workspace = [], dm_key = ''ArchiveCompletion'', dm_version = ''v1'',
      dm_display_name = ''Archive Completion'',
      dm_description = ''Canonical completion event used to close an existing projection.'',
      dm_schema = Some [(''type'', VStr ''object''), (''properties'', VObj [(''change_id'',
      VObj [(''type'', VStr ''string'')]), (''source_project'', VObj [(''type'',
      VStr ''string'')]), (''target_ref'', VObj [(''type'', VStr ''string''), (''default'',
      VStr ''refs/heads/main'')]), (''provider_delivery_id'', VObj [(''type'',
      VStr ''string'')])])], dm_required = [''change_id'', ''source_project'', ''target_ref'',
      ''provider_delivery_id''], dm_roles = [(''change_id'', ''change_identity''),
      (''source_project'', ''source_project_identity''), (''target_ref'', ''target_ref''),
      (''provider_delivery_id'', ''delivery_identity'')], dm_extensions = True,
      dm_status = ''published''\<rparr>"

definition dm_def_change_lifecycle :: data_model where
  "dm_def_change_lifecycle =
     \<lparr>dm_id = [], dm_workspace = [], dm_key = ''ChangeLifecycle'', dm_version = ''v1'',
      dm_display_name = ''Change Lifecycle'',
      dm_description = ''Canonical lifecycle event for changing an existing projection state.'',
      dm_schema = Some [(''type'', VStr ''object''), (''properties'', VObj [(''change_id'',
      VObj [(''type'', VStr ''string'')]), (''source_project'', VObj [(''type'',
      VStr ''string'')]), (''target_ref'', VObj [(''type'', VStr ''string''), (''default'',
      VStr ''refs/heads/main'')]), (''provider_delivery_id'', VObj [(''type'',
      VStr ''string'')]), (''lifecycle_event'', VObj [(''type'', VStr ''string'')]),
      (''lifecycle_reason'', VObj [(''type'', VStr ''string'')]), (''issue_iid'',
      VObj [(''type'', VStr ''integer'')]), (''issue_url'', VObj [(''type'',
      VStr ''string'')])])], dm_required = [''change_id'', ''source_project'', ''target_ref'',
      ''provider_delivery_id'', ''lifecycle_event'', ''lifecycle_reason''],
      dm_roles = [(''change_id'', ''change_identity''), (''source_project'',
      ''source_project_identity''), (''target_ref'', ''target_ref''),
      (''provider_delivery_id'', ''delivery_identity''), (''lifecycle_event'',
      ''lifecycle_event''), (''lifecycle_reason'', ''lifecycle_reason'')],
      dm_extensions = True, dm_status = ''published''\<rparr>"

definition dm_def_change_publication :: data_model where
  "dm_def_change_publication =
     \<lparr>dm_id = [], dm_workspace = [], dm_key = ''ChangePublication'', dm_version = ''v1'',
      dm_display_name = ''Change Publication'',
      dm_description = ''Canonical publication event for a proposed change.'',
      dm_schema = Some [(''type'', VStr ''object''), (''properties'', VObj [(''change_id'',
      VObj [(''type'', VStr ''string'')]), (''branch'', VObj [(''type'', VStr ''string'')]),
      (''branch_head_sha'', VObj [(''type'', VStr ''string'')]), (''source_project'',
      VObj [(''type'', VStr ''string'')]), (''issue_iid'', VObj [(''type'',
      VStr ''integer'')]), (''issue_url'', VObj [(''type'', VStr ''string'')]),
      (''target_ref'', VObj [(''type'', VStr ''string''), (''default'',
      VStr ''refs/heads/main'')]), (''status'', VObj [(''type'', VStr ''string''),
      (''default'', VStr ''backlog'')]), (''assignee'', VObj [(''type'', VStr ''string'')])])],
      dm_required = [''change_id'', ''branch'', ''branch_head_sha''],
      dm_roles = [(''change_id'', ''change_identity''), (''branch'', ''source_branch''),
      (''branch_head_sha'', ''frozen_revision'')], dm_extensions = True,
      dm_status = ''published''\<rparr>"

definition dm_def_multica_cancel_issue_input :: data_model where
  "dm_def_multica_cancel_issue_input =
     \<lparr>dm_id = [], dm_workspace = [], dm_key = ''MulticaCancelIssueInput'',
      dm_version = ''v1'', dm_display_name = ''Multica Cancel Issue Input'',
      dm_description = ''Target lifecycle action input for cancelling a correlated Multica issue.'',
      dm_schema = Some [(''type'', VStr ''object''), (''properties'',
      VObj [(''correlation_id'', VObj [(''type'', VStr ''string'')]), (''change_id'',
      VObj [(''type'', VStr ''string'')]), (''desired_status'', VObj [(''type'',
      VStr ''string''), (''const'', VStr ''cancelled'')]), (''lifecycle_event'',
      VObj [(''type'', VStr ''string''), (''const'', VStr ''abandoned'')]),
      (''lifecycle_reason'', VObj [(''type'', VStr ''string'')])])],
      dm_required = [''correlation_id'', ''change_id'', ''desired_status'',
      ''lifecycle_event'', ''lifecycle_reason''], dm_roles = [(''correlation_id'',
      ''projection_identity''), (''change_id'', ''change_identity''), (''desired_status'',
      ''completion_status''), (''lifecycle_event'', ''lifecycle_event''),
      (''lifecycle_reason'', ''lifecycle_reason'')], dm_extensions = False,
      dm_status = ''published''\<rparr>"

definition dm_def_multica_complete_issue_input :: data_model where
  "dm_def_multica_complete_issue_input =
     \<lparr>dm_id = [], dm_workspace = [], dm_key = ''MulticaCompleteIssueInput'',
      dm_version = ''v1'', dm_display_name = ''Multica Complete Issue Input'',
      dm_description = ''Target action input for completing a correlated Multica issue.'',
      dm_schema = Some [(''type'', VStr ''object''), (''properties'',
      VObj [(''correlation_id'', VObj [(''type'', VStr ''string'')]), (''change_id'',
      VObj [(''type'', VStr ''string'')]), (''desired_status'', VObj [(''type'',
      VStr ''string''), (''const'', VStr ''done'')])])], dm_required = [''correlation_id'',
      ''change_id'', ''desired_status''], dm_roles = [(''correlation_id'',
      ''projection_identity''), (''change_id'', ''change_identity''), (''desired_status'',
      ''completion_status'')], dm_extensions = False, dm_status = ''published''\<rparr>"

definition dm_def_multica_create_issue_input :: data_model where
  "dm_def_multica_create_issue_input =
     \<lparr>dm_id = [], dm_workspace = [], dm_key = ''MulticaCreateIssueInput'',
      dm_version = ''v1'', dm_display_name = ''Multica Create Issue Input'',
      dm_description = ''Target action input for creating a Multica issue.'',
      dm_schema = Some [(''type'', VStr ''object''), (''properties'',
      VObj [(''target_project'', VObj [(''type'', VStr ''string'')]), (''title'',
      VObj [(''type'', VStr ''string'')]), (''description'', VObj [(''type'',
      VStr ''string'')]), (''status'', VObj [(''type'', VStr ''string''), (''default'',
      VStr ''backlog'')]), (''assignee'', VObj [(''type'', VStr ''string'')])])],
      dm_required = [''target_project'', ''title'', ''description''],
      dm_roles = [(''target_project'', ''target_project_identity''), (''title'',
      ''issue_title''), (''description'', ''issue_description'')], dm_extensions = False,
      dm_status = ''published''\<rparr>"

definition LoadBuiltins :: registry_bundle where
  "LoadBuiltins =
     \<lparr>bd_types = [ct_def_gitlab, ct_def_multica],
      bd_behaviors = [bh_def_gitlab_issue_abandon_hook, bh_def_gitlab_issue_hook, bh_def_gitlab_push_hook,
        bh_def_multica_cancel_issue, bh_def_multica_complete_issue,
        bh_def_multica_create_issue],
      bd_models = [dm_def_archive_completion, dm_def_change_lifecycle, dm_def_change_publication,
        dm_def_multica_cancel_issue_input, dm_def_multica_complete_issue_input,
        dm_def_multica_create_issue_input]\<rparr>"

definition deployed_operations :: "string list" where
  "deployed_operations =
     [''gitlab.events.issue'', ''gitlab.events.push'', ''multica.issue.create'', ''multica.issue.status'']"

definition deployed_allowlist :: adapter_allowlist where
  "deployed_allowlist = map (\<lambda>p. (p, True)) deployed_operations"

definition builtin_catalog :: catalog where
  "builtin_catalog = NewCatalog (bd_behaviors LoadBuiltins) (bd_models LoadBuiltins) deployed_operations"

section \<open>Templates\<close>

record flow_template =
  ft_id :: ID
  ft_workspace :: ID
  ft_key :: string
  ft_version :: string
  ft_name :: string
  ft_description :: string
  ft_graph :: flow_graph
  ft_status :: string

abbreviation TemplatePublishChange :: string where "TemplatePublishChange \<equiv> ''publish-change''"
abbreviation TemplateCompleteArchive :: string where "TemplateCompleteArchive \<equiv> ''complete-archive''"
abbreviation TemplateAbandonChange :: string where "TemplateAbandonChange \<equiv> ''abandon-change''"

text \<open>The struct literals of the templates, with the fields they leave at their zero value.\<close>

definition tpl_port :: "string \<Rightarrow> string \<Rightarrow> string \<Rightarrow> string \<Rightarrow> bool \<Rightarrow> port" where
  "tpl_port i name direction model required =
     \<lparr>port_id = i, port_name = name, port_direction = direction, port_model = model, port_roles = [],
      port_required = required\<rparr>"

definition tpl_hook :: "ID \<Rightarrow> string \<Rightarrow> string \<Rightarrow> string \<Rightarrow> string \<Rightarrow> flow_node" where
  "tpl_hook k name pname model behavior =
     (bare_node k NodeConnector)\<lparr>node_name := name,
        node_outputs := [tpl_port ''event'' pname PortOutput model False],
        node_connector := Some \<lparr>conn_behavior_key = behavior, conn_behavior_version = ''1.0.0'',
          conn_bindings = []\<rparr>\<rparr>"

definition tpl_generic :: "ID \<Rightarrow> string \<Rightarrow> string \<Rightarrow> string \<times> string \<Rightarrow> string \<times> string \<Rightarrow> flow_node" where
  "tpl_generic k name gtype inp outp =
     (bare_node k NodeGeneric)\<lparr>node_name := name,
        node_inputs := [tpl_port (fst inp) [] PortInput (snd inp) True],
        node_outputs := [tpl_port (fst outp) [] PortOutput (snd outp) False],
        node_generic := Some \<lparr>gen_type = gtype, gen_bindings =
          [(''model'', \<lparr>bind_kind = BindingFixed, bind_value = VStr (snd outp), bind_ref = []\<rparr>)]\<rparr>\<rparr>"

definition tpl_sink :: "ID \<Rightarrow> string \<Rightarrow> string \<times> string \<Rightarrow> string \<Rightarrow> flow_node" where
  "tpl_sink k name inp behavior =
     (bare_node k NodeConnector)\<lparr>node_name := name,
        node_inputs := [tpl_port (fst inp) [] PortInput (snd inp) True],
        node_connector := Some \<lparr>conn_behavior_key = behavior, conn_behavior_version = ''1.0.0'',
          conn_bindings = [(''project'', \<lparr>bind_kind = BindingConnectionRef, bind_value = VNil,
             bind_ref = ''$connection.target_project''\<rparr>)]\<rparr>\<rparr>"

definition tpl_edge :: "string \<Rightarrow> ID \<Rightarrow> ID \<Rightarrow> string \<Rightarrow> flow_edge" where
  "tpl_edge i a b port =
     \<lparr>edge_id = i, edge_from = a, edge_from_port = port, edge_to = b, edge_to_port = port\<rparr>"

definition publicationGraph :: flow_graph where
  "publicationGraph =
     \<lparr>graph_nodes =
        [tpl_hook ''gitlab-issue-input'' ''GitLab Issue Hook'' ''GitLab Issue Event''
           ''provider:gitlab.issue.v1'' ''gitlab.issue-hook'',
         tpl_generic ''parse-publication'' ''Parse / Normalize'' GenericParseNormalize
           (''event'', ''provider:gitlab.issue.v1'') (''publication'', ''ChangePublication.v1''),
         tpl_generic ''map-issue'' ''Build Multica Input'' GenericMappingTemplate
           (''publication'', ''ChangePublication.v1'') (''issue-input'', ''MulticaCreateIssueInput.v1''),
         tpl_sink ''multica-create'' ''Multica Create Issue''
           (''issue-input'', ''MulticaCreateIssueInput.v1'') ''multica.create-issue''],
      graph_edges =
        [tpl_edge ''edge-issue-parse'' ''gitlab-issue-input'' ''parse-publication'' ''event'',
         tpl_edge ''edge-parse-map'' ''parse-publication'' ''map-issue'' ''publication'',
         tpl_edge ''edge-map-create'' ''map-issue'' ''multica-create'' ''issue-input''],
      graph_terminals = []\<rparr>"

definition archiveGraph :: flow_graph where
  "archiveGraph =
     \<lparr>graph_nodes =
        [tpl_hook ''gitlab-push-input'' ''GitLab Push Hook'' ''GitLab Push Event''
           ''provider:gitlab.push.v1'' ''gitlab.push-hook'',
         tpl_generic ''parse-archive'' ''Parse / Normalize'' GenericParseNormalize
           (''event'', ''provider:gitlab.push.v1'') (''completion'', ''ArchiveCompletion.v1''),
         tpl_generic ''map-complete'' ''Build Completion Input'' GenericMappingTemplate
           (''completion'', ''ArchiveCompletion.v1'') (''complete-input'', ''MulticaCompleteIssueInput.v1''),
         tpl_sink ''multica-complete'' ''Multica Complete Issue''
           (''complete-input'', ''MulticaCompleteIssueInput.v1'') ''multica.complete-issue''],
      graph_edges =
        [tpl_edge ''edge-push-parse'' ''gitlab-push-input'' ''parse-archive'' ''event'',
         tpl_edge ''edge-archive-map'' ''parse-archive'' ''map-complete'' ''completion'',
         tpl_edge ''edge-map-complete'' ''map-complete'' ''multica-complete'' ''complete-input''],
      graph_terminals = []\<rparr>"

text \<open>
  The \<open>MappingSpec\<close> in the configuration of \<open>map-cancel\<close> is the value it marshals to, with the
  zero members left out; the program only ever reads it by marshalling it.
\<close>

definition cancel_mapping :: gval where
  "cancel_mapping =
     VObj [(''correlation_id'', VObj [(''source'', VStr ''$input.change_id'')]),
           (''change_id'', VObj [(''source'', VStr ''$input.change_id'')]),
           (''desired_status'', VObj [(''constant'', VStr ''cancelled'')]),
           (''lifecycle_event'', VObj [(''constant'', VStr ''abandoned'')]),
           (''lifecycle_reason'', VObj [(''source'', VStr ''$input.lifecycle_reason'')])]"

definition abandonGraph :: flow_graph where
  "abandonGraph =
     \<lparr>graph_nodes =
        [tpl_hook ''gitlab-abandon-input'' ''GitLab Abandon Label Hook'' ''GitLab Issue Event''
           ''provider:gitlab.issue.v1'' ''gitlab.issue-abandon-hook'',
         tpl_generic ''parse-lifecycle'' ''Parse / Normalize'' GenericParseNormalize
           (''event'', ''provider:gitlab.issue.v1'') (''lifecycle'', ''ChangeLifecycle.v1''),
         (tpl_generic ''map-cancel'' ''Build Cancellation Input'' GenericMappingTemplate
           (''lifecycle'', ''ChangeLifecycle.v1'') (''cancel-input'', ''MulticaCancelIssueInput.v1''))
           \<lparr>node_config := Some [(''mapping'', cancel_mapping)]\<rparr>,
         tpl_sink ''multica-cancel'' ''Multica Cancel Issue''
           (''cancel-input'', ''MulticaCancelIssueInput.v1'') ''multica.cancel-issue''],
      graph_edges =
        [tpl_edge ''edge-abandon-parse'' ''gitlab-abandon-input'' ''parse-lifecycle'' ''event'',
         tpl_edge ''edge-lifecycle-map'' ''parse-lifecycle'' ''map-cancel'' ''lifecycle'',
         tpl_edge ''edge-map-cancel'' ''map-cancel'' ''multica-cancel'' ''cancel-input''],
      graph_terminals = []\<rparr>"

definition builtin_template :: "string \<Rightarrow> string \<Rightarrow> string \<Rightarrow> flow_graph \<Rightarrow> flow_template" where
  "builtin_template key name descr g =
     \<lparr>ft_id = [], ft_workspace = [], ft_key = key, ft_version = ''1.0.0'', ft_name = name,
      ft_description = descr, ft_graph = g, ft_status = DefinitionPublished\<rparr>"

definition BuiltinTemplates :: "flow_template list" where
  "BuiltinTemplates =
     [builtin_template TemplatePublishChange ''Publish Change''
        ''Project a GitLab change Issue into Multica.'' publicationGraph,
      builtin_template TemplateCompleteArchive ''Complete Archive''
        ''Complete the correlated Multica projection after archive.'' archiveGraph,
      builtin_template TemplateAbandonChange ''Abandon Change''
        ''Cancel the correlated Multica projection when the source Change Issue receives the specwire::abandoned label.''
        abandonGraph]"

section \<open>The shipped definitions fit together\<close>

lemma builtin_bundle_valid: "Bundle_Validate LoadBuiltins = Inr ()"
  by code_simp

lemma builtin_behaviors_valid:
  "list_all (\<lambda>b. ValidateBehavior b (Some (IsAllowlisted deployed_allowlist)) = Inr ()) (bd_behaviors LoadBuiltins)"
  by code_simp

lemma builtin_models_valid: "list_all (\<lambda>d. ValidateDataModel d = Inr ()) (bd_models LoadBuiltins)"
  by code_simp

lemma publication_valid: "vr_valid (Validate builtin_catalog publicationGraph True)"
  by code_simp

lemma archive_valid: "vr_valid (Validate builtin_catalog archiveGraph True)"
  by code_simp

lemma abandon_valid: "vr_valid (Validate builtin_catalog abandonGraph True)"
  by code_simp

text \<open>
  The built-in definitions fit together: the bundle passes \<open>Bundle.Validate\<close>, every behavior in
  it passes the rules for administrators' behaviors against the deployed adapters, every data model
  those for data models, and each of the three shipped templates is publishable as it is.
\<close>

theorem builtins_publishable:
  "Bundle_Validate LoadBuiltins = Inr () \<and>
   list_all (\<lambda>b. ValidateBehavior b (Some (IsAllowlisted deployed_allowlist)) = Inr ())
     (bd_behaviors LoadBuiltins) \<and>
   list_all (\<lambda>d. ValidateDataModel d = Inr ()) (bd_models LoadBuiltins) \<and>
   list_all (\<lambda>t. vr_valid (Validate builtin_catalog (ft_graph t) True)) BuiltinTemplates"
  using builtin_bundle_valid builtin_behaviors_valid builtin_models_valid publication_valid
    archive_valid abandon_valid
  by (simp add: BuiltinTemplates_def builtin_template_def)

text \<open>
  the default mapping of the publish template never fails: for every input and context it
  resolves, the title is \<open>[SpecWire]\<close> and the change, the project is the Connection's target, and the
  status falls back to the backlog.
\<close>

theorem create_mapping_total:
  "\<exists>spec out. DefaultMappingForModel ''MulticaCreateIssueInput.v1'' = Some spec \<and>
     ApplyMapping input spec rc = Inr out \<and>
     obj_get out ''title'' = VStr (''[SpecWire] '' @ stringValue (lookupPath input ''change_id'')) \<and>
     obj_get out ''target_project'' = VStr (rc_target_project rc) \<and>
     obj_get out ''change_id'' = lookupPath input ''change_id'' \<and>
     obj_get out ''status'' = (if isEmptyValue (lookupPath input ''status'') then VStr ''backlog''
                             else lookupPath input ''status'')"
proof -
  note defs = ApplyMapping_def apply_rule_def DefaultMappingForModel_def no_rule_def
  have r: "resolveReference input (''$input.'' @ f) rc = Inr (lookupPath input f)"
    if "set f \<inter> set executable_chars = {}" for f
  proof -
    have "\<not> contains_any (''$input.'' @ f) executable_chars"
      using that by (auto simp: contains_any_iff executable_chars_def)
    then show ?thesis by (simp add: resolveReference_def has_prefix_def trim_prefix_def)
  qed
  have refs: "resolveReference input ''$input.change_id'' rc = Inr (lookupPath input ''change_id'')"
    "resolveReference input ''$input.description'' rc = Inr (lookupPath input ''description'')"
    "resolveReference input ''$input.status'' rc = Inr (lookupPath input ''status'')"
    "resolveReference input ''$input.assignee'' rc = Inr (lookupPath input ''assignee'')"
    "resolveReference input ''$input.branch'' rc = Inr (lookupPath input ''branch'')"
    "resolveReference input ''$input.branch_head_sha'' rc = Inr (lookupPath input ''branch_head_sha'')"
    "resolveReference input ''$input.target_ref'' rc = Inr (lookupPath input ''target_ref'')"
    "resolveReference input ''$input.issue_iid'' rc = Inr (lookupPath input ''issue_iid'')"
    using r [of "''change_id''"] r [of "''description''"] r [of "''status''"] r [of "''assignee''"]
      r [of "''branch''"] r [of "''branch_head_sha''"] r [of "''target_ref''"] r [of "''issue_iid''"]
    by (simp_all add: executable_chars_def)
  have lit: "resolveReference input ''literal:[SpecWire] '' rc = Inr (VStr ''[SpecWire] '')"
    "resolveReference input ''$connection.target_project'' rc = Inr (VStr (rc_target_project rc))"
    by (simp_all add: resolveReference_def has_prefix_def trim_prefix_def contains_any_iff
        executable_chars_def)
  show ?thesis by (simp add: defs refs lit)
qed

end
