(* ===== verification/FlowStore.thy ===== *)
theory FlowStore
  imports Builtins RuntimeStore
begin

text \<open>
  Flows, drafts, versions and templates: \<open>store/repository.go\<close>, \<open>store/flow_drafts.go\<close> and
  \<open>store/templates.go\<close>. A stored graph is its JSON document: \<open>graph_to_document\<close> is
  \<open>json.Marshal\<close> and \<open>graph_of_document\<close> is \<open>json.Unmarshal\<close>, with \<open>omitempty\<close> taking an empty
  configuration to none. A slice that is nil and one that is empty are not told apart.
\<close>

section \<open>Graphs as documents\<close>

fun traverse :: "('a \<Rightarrow> 'b option) \<Rightarrow> 'a option \<Rightarrow> 'b option option" where
  "traverse f None = Some None"
| "traverse f (Some x) = map_option Some (f x)"

definition json_object :: "(gval \<Rightarrow> gval option) \<Rightarrow> gobj \<Rightarrow> gobj option" where
  "json_object step m = Option.bind (step (VObj m)) as_obj"

definition json_binding :: "(gval \<Rightarrow> gval option) \<Rightarrow> binding \<Rightarrow> binding option" where
  "json_binding step b = map_option (\<lambda>v. b\<lparr>bind_value := v\<rparr>) (step (bind_value b))"

definition json_bindings :: "(gval \<Rightarrow> gval option) \<Rightarrow> bindings \<Rightarrow> bindings option" where
  "json_bindings step bs =
     map_option (\<lambda>vs. sort_key fst (zip (map fst bs) vs)) (those (map (\<lambda>kb. json_binding step (snd kb)) bs))"

definition json_connector :: "(gval \<Rightarrow> gval option) \<Rightarrow> connector_node \<Rightarrow> connector_node option" where
  "json_connector step c = map_option (\<lambda>bs. c\<lparr>conn_bindings := bs\<rparr>) (json_bindings step (conn_bindings c))"

definition json_generic :: "(gval \<Rightarrow> gval option) \<Rightarrow> generic_node \<Rightarrow> generic_node option" where
  "json_generic step c = map_option (\<lambda>bs. c\<lparr>gen_bindings := bs\<rparr>) (json_bindings step (gen_bindings c))"

definition json_config :: "(gval \<Rightarrow> gval option) \<Rightarrow> gobj option \<Rightarrow> gobj option option" where
  "json_config step c = (if c = Some [] then Some None else traverse (json_object step) c)"

definition json_node :: "(gval \<Rightarrow> gval option) \<Rightarrow> flow_node \<Rightarrow> flow_node option" where
  "json_node step n =
     (if \<not> (float_finite (pos_x (node_position n)) \<and> float_finite (pos_y (node_position n))) then None
      else Option.bind (traverse (json_connector step) (node_connector n)) (\<lambda>c.
           Option.bind (traverse (json_generic step) (node_generic n)) (\<lambda>g.
           map_option (\<lambda>cfg. n\<lparr>node_connector := c, node_generic := g, node_config := cfg\<rparr>)
             (json_config step (node_config n)))))"

definition json_graph :: "(gval \<Rightarrow> gval option) \<Rightarrow> flow_graph \<Rightarrow> flow_graph option" where
  "json_graph step g =
     map_option (\<lambda>ns. g\<lparr>graph_nodes := ns\<rparr>) (those (map (json_node step) (graph_nodes g)))"

definition graph_to_document :: "flow_graph \<Rightarrow> flow_graph option" where
  "graph_to_document = json_graph json_marshal"

definition graph_of_document :: "flow_graph \<Rightarrow> flow_graph option" where
  "graph_of_document = json_graph json_unmarshal"

definition empty_graph :: flow_graph where
  "empty_graph = \<lparr>graph_nodes = [], graph_edges = [], graph_terminals = []\<rparr>"

text \<open>\<open>cloneGraph\<close> of \<open>flow/service.go\<close> ignores the errors: a graph that does not marshal becomes empty.\<close>

definition cloneGraph :: "flow_graph \<Rightarrow> flow_graph" where
  "cloneGraph g =
     (case Option.bind (graph_to_document g) graph_of_document of None \<Rightarrow> empty_graph | Some g' \<Rightarrow> g')"

section \<open>Tables\<close>

record flow =
  fl_id :: ID
  fl_workspace :: ID
  fl_connection :: ID
  fl_name :: string
  fl_description :: string
  fl_status :: string
  fl_active :: int
  fl_created_by :: ID
  fl_updated :: gtime

record flow_draft =
  dr_flow :: ID
  dr_workspace :: ID
  dr_graph :: flow_graph
  dr_updated :: gtime

record flow_version =
  fv_id :: ID
  fv_workspace :: ID
  fv_flow :: ID
  fv_version :: int
  fv_status :: string
  fv_graph :: flow_graph
  fv_plan :: gobj
  fv_behaviors :: "string list"
  fv_models :: "string list"
  fv_published :: "gtime option"
  fv_published_by :: ID

record flow_db =
  fd_workspaces :: "ID list"
  fd_accounts :: "ID list"
  fd_connections :: "(ID \<times> ID) list"
  fd_flows :: "flow list"
  fd_drafts :: "flow_draft list"
  fd_versions :: "flow_version list"
  fd_templates :: "flow_template list"

definition flow_clash :: "flow \<Rightarrow> flow \<Rightarrow> bool" where
  "flow_clash a b \<longleftrightarrow> fl_id a = fl_id b"

definition version_key :: "flow_version \<Rightarrow> ID \<times> ID \<times> int" where
  "version_key v = (fv_workspace v, fv_flow v, fv_version v)"

text \<open>The keys of \<open>flow_versions\<close>, with the partial index that allows one published version per flow.\<close>

definition version_clash :: "flow_version \<Rightarrow> flow_version \<Rightarrow> bool" where
  "version_clash a b \<longleftrightarrow>
     fv_id a = fv_id b \<or> version_key a = version_key b \<or>
     fv_workspace a = fv_workspace b \<and> fv_flow a = fv_flow b \<and> fv_status a = FlowPublished \<and>
     fv_status b = FlowPublished"

definition template_clash :: "flow_template \<Rightarrow> flow_template \<Rightarrow> bool" where
  "template_clash a b \<longleftrightarrow>
     ft_id a = ft_id b \<or>
     ft_workspace a = ft_workspace b \<and> ft_key a = ft_key b \<and> ft_version a = ft_version b"

interpretation flow_by_id: unique_key fl_id flow_clash
  by unfold_locales (simp add: flow_clash_def)

interpretation version_by_id: unique_key fv_id version_clash
  by unfold_locales (simp add: version_clash_def)

interpretation version_by_number: unique_key version_key version_clash
  by unfold_locales (simp add: version_clash_def)

section \<open>Flows and drafts\<close>

definition account_ref :: "ID \<Rightarrow> flow_db \<Rightarrow> bool" where
  "account_ref i db \<longleftrightarrow> i = [] \<or> i \<in> set (fd_accounts db)"

definition CreateFlow :: "gtime \<Rightarrow> flow \<Rightarrow> flow_db \<Rightarrow> gerr + flow_db" where
  "CreateFlow now f0 db =
     (let f = f0\<lparr>fl_status := or_default (fl_status f0) (\<lambda>s. s = []) FlowDraft,
                fl_updated := or_default (fl_updated f0) IsZero now\<rparr>
      in if fl_id f = [] then fail ErrInvalid ''flow id is required''
         else bind_result (requireWorkspaceID (fl_workspace f)) (\<lambda>_.
           if fl_connection f = [] then fail ErrInvalid ''flow connection_id is required''
           else if blank (fl_name f) then fail ErrInvalid ''flow name is required''
           else case map_of (fd_connections db) (fl_connection f) of
                  None \<Rightarrow> fail ErrNotFound (''connection '' @ fl_connection f)
                | Some w \<Rightarrow>
                    if w \<noteq> fl_workspace f then fail ErrForbidden ''flow connection belongs to another workspace''
                    else bind_result (require_row ''create flow''
                           (fl_workspace f \<in> set (fd_workspaces db) \<and> account_ref (fl_created_by f) db)) (\<lambda>_.
                         bind_result (insert_row ''create flow'' flow_clash f (fd_flows db)) (\<lambda>rows.
                           Inr (db\<lparr>fd_flows := rows\<rparr>)))))"

definition GetFlow :: "ID \<Rightarrow> ID \<Rightarrow> flow_db \<Rightarrow> gerr + flow" where
  "GetFlow workspaceID flowID db =
     (case List.find (\<lambda>f. fl_workspace f = workspaceID \<and> fl_id f = flowID) (fd_flows db) of
        None \<Rightarrow> fail ErrNotFound (''flow '' @ flowID)
      | Some f \<Rightarrow> Inr f)"

definition ListFlows :: "ID \<Rightarrow> ID \<Rightarrow> flow_db \<Rightarrow> gerr + flow list" where
  "ListFlows workspaceID connectionID db =
     bind_result (requireWorkspaceID workspaceID) (\<lambda>_.
       Inr (sort_key (\<lambda>f. (fl_name f, fl_id f))
         (filter (\<lambda>f. fl_workspace f = workspaceID \<and> (connectionID = [] \<or> fl_connection f = connectionID))
           (fd_flows db))))"

definition SaveFlowDraft :: "gtime \<Rightarrow> ID \<Rightarrow> ID \<Rightarrow> flow_graph \<Rightarrow> flow_db \<Rightarrow> gerr + flow_db" where
  "SaveFlowDraft now workspaceID flowID g db =
     bind_result (requireWorkspaceID workspaceID) (\<lambda>_.
       if flowID = [] then fail ErrInvalid ''flow id is required''
       else case List.find (\<lambda>f. fl_id f = flowID) (fd_flows db) of
              None \<Rightarrow> fail ErrNotFound (''flow '' @ flowID)
            | Some f \<Rightarrow>
                if fl_workspace f \<noteq> workspaceID then fail ErrForbidden ''flow draft belongs to another workspace''
                else bind_result (ValidateShape g) (\<lambda>_.
                  case graph_to_document g of
                    None \<Rightarrow> Inl (Plain ''json'')
                  | Some doc \<Rightarrow>
                      if list_ex (\<lambda>d. dr_flow d = flowID) (fd_drafts db)
                      then Inr (db\<lparr>fd_drafts := update_rows (\<lambda>d. dr_flow d = flowID \<and> dr_workspace d = workspaceID)
                             (\<lambda>d. d\<lparr>dr_graph := doc, dr_updated := now\<rparr>) (fd_drafts db)\<rparr>)
                      else bind_result (require_row ''save flow draft'' (workspaceID \<in> set (fd_workspaces db))) (\<lambda>_.
                        Inr (db\<lparr>fd_drafts := fd_drafts db @
                          [\<lparr>dr_flow = flowID, dr_workspace = workspaceID, dr_graph = doc, dr_updated = now\<rparr>]\<rparr>))))"

definition GetFlowDraft :: "ID \<Rightarrow> ID \<Rightarrow> flow_db \<Rightarrow> gerr + flow_graph" where
  "GetFlowDraft workspaceID flowID db =
     (case List.find (\<lambda>d. dr_workspace d = workspaceID \<and> dr_flow d = flowID) (fd_drafts db) of
        None \<Rightarrow> fail ErrNotFound (''flow draft '' @ flowID)
      | Some d \<Rightarrow> (case graph_of_document (dr_graph d) of
          None \<Rightarrow> Inl (Plain ''decode flow draft'') | Some g \<Rightarrow> Inr g))"

section \<open>Versions\<close>

text \<open>A published version archives the one before it and becomes the active version of its flow.\<close>

definition insert_version :: "gtime \<Rightarrow> flow_version \<Rightarrow> flow_db \<Rightarrow> gerr + flow_db" where
  "insert_version now v db =
     (let live = (\<lambda>r. fv_workspace r = fv_workspace v \<and> fv_flow r = fv_flow v \<and> fv_status r = FlowPublished);
          earlier = (if fv_status v = FlowPublished
                     then update_rows live (\<lambda>r. r\<lparr>fv_status := FlowArchived\<rparr>) (fd_versions db)
                     else fd_versions db)
      in bind_result (require_row ''save flow version''
           (fv_workspace v \<in> set (fd_workspaces db) \<and> account_ref (fv_published_by v) db)) (\<lambda>_.
         bind_result (insert_row ''save flow version'' version_clash v earlier) (\<lambda>rows.
           Inr (db\<lparr>fd_versions := rows,
                  fd_flows := if fv_status v = FlowPublished
                    then update_rows (\<lambda>f. fl_workspace f = fv_workspace v \<and> fl_id f = fv_flow v)
                           (\<lambda>f. f\<lparr>fl_status := FlowPublished, fl_active := fv_version v, fl_updated := now\<rparr>)
                           (fd_flows db)
                    else fd_flows db\<rparr>))))"

definition same_content :: "flow_version \<Rightarrow> flow_version \<Rightarrow> bool" where
  "same_content a b \<longleftrightarrow>
     fv_graph a = fv_graph b \<and> fv_plan a = fv_plan b \<and> fv_behaviors a = fv_behaviors b \<and>
     fv_models a = fv_models b \<and> fv_status a = fv_status b"

definition SaveFlowVersion :: "gtime \<Rightarrow> flow_version \<Rightarrow> flow_db \<Rightarrow> gerr + flow_db" where
  "SaveFlowVersion now v0 db =
     (if fv_id v0 = [] then fail ErrInvalid ''flow version id is required''
      else bind_result (requireWorkspaceID (fv_workspace v0)) (\<lambda>_.
        if fv_flow v0 = [] then fail ErrInvalid ''flow version flow_id is required''
        else if fv_version v0 \<le> 0 then fail ErrInvalid ''flow version must be positive''
        else let v1 = v0\<lparr>fv_status := or_default (fv_status v0) (\<lambda>s. s = []) FlowDraft\<rparr>
        in bind_result (ValidateShape (fv_graph v1)) (\<lambda>_.
           case graph_to_document (fv_graph v1) of
             None \<Rightarrow> Inl (Plain ''marshal flow graph'')
           | Some doc \<Rightarrow>
               bind_result (marshalJSON (fv_plan v1)) (\<lambda>plan.
                 let v = v1\<lparr>fv_graph := doc, fv_plan := plan\<rparr>
                 in case List.find (\<lambda>f. fl_id f = fv_flow v) (fd_flows db) of
                      None \<Rightarrow> fail ErrNotFound (''flow '' @ fv_flow v)
                    | Some f \<Rightarrow>
                        if fl_workspace f \<noteq> fv_workspace v then fail ErrForbidden ''flow belongs to another workspace''
                        else (case List.find (\<lambda>r. version_key r = version_key v) (fd_versions db) of
                                Some existing \<Rightarrow>
                                  if same_content existing v then Inr db
                                  else fail ErrImmutable (''flow '' @ fv_flow v @ '' version '' @ dec_int (fv_version v))
                              | None \<Rightarrow> insert_version now v db)))))"

definition read_version :: "flow_version \<Rightarrow> gerr + flow_version" where
  "read_version r =
     (case graph_of_document (fv_graph r) of
        None \<Rightarrow> Inl (Plain ''decode flow graph'')
      | Some g \<Rightarrow>
          bind_result (unmarshalJSON ''decode compiled plan'' (fv_plan r)) (\<lambda>plan.
            Inr (r\<lparr>fv_graph := g, fv_plan := plan\<rparr>)))"

definition GetFlowVersion :: "ID \<Rightarrow> ID \<Rightarrow> int \<Rightarrow> flow_db \<Rightarrow> gerr + flow_version" where
  "GetFlowVersion workspaceID flowID n db =
     (case List.find (\<lambda>r. version_key r = (workspaceID, flowID, n)) (fd_versions db) of
        None \<Rightarrow> fail ErrNotFound (''flow '' @ flowID @ '' version '' @ dec_int n)
      | Some r \<Rightarrow> read_version r)"

definition flow_versions :: "ID \<Rightarrow> ID \<Rightarrow> flow_db \<Rightarrow> flow_version list" where
  "flow_versions workspaceID flowID db =
     filter (\<lambda>r. fv_workspace r = workspaceID \<and> fv_flow r = flowID) (fd_versions db)"

definition ListFlowVersions :: "ID \<Rightarrow> ID \<Rightarrow> flow_db \<Rightarrow> gerr + flow_version list" where
  "ListFlowVersions workspaceID flowID db =
     bind_result (requireWorkspaceID workspaceID) (\<lambda>_.
       map_result (\<lambda>r. GetFlowVersion workspaceID flowID (fv_version r) db)
         (sort_key (\<lambda>r. - fv_version r) (flow_versions workspaceID flowID db)))"

definition NextFlowVersion :: "ID \<Rightarrow> ID \<Rightarrow> flow_db \<Rightarrow> int" where
  "NextFlowVersion workspaceID flowID db =
     (case map fv_version (flow_versions workspaceID flowID db) of
        [] \<Rightarrow> 1 | n # ns \<Rightarrow> fold max ns n + 1)"

definition validFlowStatus :: "string \<Rightarrow> bool" where
  "validFlowStatus s \<longleftrightarrow> s = FlowDraft \<or> s = FlowPublished \<or> s = FlowPaused \<or> s = FlowArchived"

definition UpdateFlowStatus :: "gtime \<Rightarrow> ID \<Rightarrow> ID \<Rightarrow> string \<Rightarrow> flow_db \<Rightarrow> gerr + flow_db" where
  "UpdateFlowStatus now workspaceID flowID status db =
     bind_result (requireWorkspaceID workspaceID) (\<lambda>_.
       if \<not> validFlowStatus status then fail ErrInvalid (''unsupported Flow status '' @ go_quote status)
       else let target = (\<lambda>f. fl_workspace f = workspaceID \<and> fl_id f = flowID)
       in if \<not> list_ex target (fd_flows db) then fail ErrNotFound (''flow '' @ flowID)
          else Inr (db\<lparr>fd_flows := update_rows target (\<lambda>f. f\<lparr>fl_status := status, fl_updated := now\<rparr>) (fd_flows db)\<rparr>))"

section \<open>Templates\<close>

definition CreateFlowTemplate :: "ID \<Rightarrow> flow_template \<Rightarrow> flow_db \<Rightarrow> gerr + flow_db" where
  "CreateFlowTemplate newID t0 db =
     (let t = t0\<lparr>ft_id := or_default (ft_id t0) (\<lambda>i. i = []) newID\<rparr>
      in bind_result (requireWorkspaceID (ft_workspace t)) (\<lambda>_.
         if ft_key t = [] \<or> ft_version t = [] \<or> ft_name t = [] then fail ErrInvalid ''incomplete flow template''
         else bind_result (ValidateShape (ft_graph t)) (\<lambda>_.
           case graph_to_document (ft_graph t) of
             None \<Rightarrow> Inl (Plain ''json'')
           | Some doc \<Rightarrow>
               bind_result (require_row ''create flow template'' (ft_workspace t \<in> set (fd_workspaces db))) (\<lambda>_.
               bind_result (insert_row ''create flow template'' template_clash (t\<lparr>ft_graph := doc\<rparr>) (fd_templates db))
                 (\<lambda>rows. Inr (db\<lparr>fd_templates := rows\<rparr>))))))"

definition read_template :: "flow_template \<Rightarrow> gerr + flow_template" where
  "read_template r =
     (case graph_of_document (ft_graph r) of None \<Rightarrow> Inl (Plain ''json'') | Some g \<Rightarrow> Inr (r\<lparr>ft_graph := g\<rparr>))"

definition GetFlowTemplate :: "ID \<Rightarrow> string \<Rightarrow> string \<Rightarrow> flow_db \<Rightarrow> gerr + flow_template" where
  "GetFlowTemplate workspaceID key version db =
     (case List.find (\<lambda>r. ft_workspace r = workspaceID \<and> ft_key r = key \<and> ft_version r = version) (fd_templates db) of
        None \<Rightarrow> fail ErrNotFound (''flow template '' @ key @ ''@'' @ version)
      | Some r \<Rightarrow> read_template r)"

definition ListFlowTemplates :: "ID \<Rightarrow> flow_db \<Rightarrow> gerr + flow_template list" where
  "ListFlowTemplates workspaceID db =
     bind_result (requireWorkspaceID workspaceID) (\<lambda>_.
       map_result read_template
         (sort_key (\<lambda>r. (ft_key r, ft_version r)) (filter (\<lambda>r. ft_workspace r = workspaceID) (fd_templates db))))"

text \<open>A template that is there already is left alone; any other failure stops the loop.\<close>

fun SeedFlowTemplates ::
  "ID \<Rightarrow> (ID \<times> flow_template) list \<Rightarrow> flow_db \<Rightarrow> (gerr + unit) \<times> flow_db" where
  "SeedFlowTemplates workspaceID [] db = (Inr (), db)"
| "SeedFlowTemplates workspaceID ((newID, t) # rest) db =
     (case CreateFlowTemplate newID (t\<lparr>ft_workspace := workspaceID\<rparr>) db of
        Inr db' \<Rightarrow> SeedFlowTemplates workspaceID rest db'
      | Inl e \<Rightarrow> if err_is e ErrConflict then SeedFlowTemplates workspaceID rest db else (Inl e, db))"

section \<open>What survives the document\<close>

text \<open>
  A value that came out of a JSON document, in its canonical order: stored and read again it is the
  same. A draft is one, as it came from a request or from a document before.
\<close>

fun canonical :: "gval \<Rightarrow> bool" where
  "canonical VNil = True"
| "canonical (VBool b) = True"
| "canonical (VStr s) = True"
| "canonical (VFloat f) = float_finite f"
| "canonical (VArr vs) = list_all canonical vs"
| "canonical (VObj m) = (sorted (map fst m) \<and> list_all (\<lambda>kv. canonical (snd kv)) m)"
| "canonical v = False"

lemma those_map_Some: "(\<And>x. x \<in> set xs \<Longrightarrow> f x = Some (g x)) \<Longrightarrow> those (map f xs) = Some (map g xs)"
  by (induction xs) auto

lemma zip_fst_snd: "zip (map fst xs) (map snd xs) = xs"
  by (induction xs) auto

lemma sort_key_sorted: "sorted (map f xs) \<Longrightarrow> sort_key f xs = xs"
  by (rule sort_key_id_if_sorted)

lemma canonical_marshal: "canonical v \<Longrightarrow> json_marshal v = Some v"
proof (induction v rule: gval_induct)
  case (atom v)
  then show ?case by (cases v) auto
next
  case (arr vs)
  then have "those (map json_marshal vs) = Some (map (\<lambda>v. v) vs)"
    by (intro those_map_Some) (auto simp: list_all_iff)
  then show ?case by simp
next
  case (obj m)
  then have "those (map (\<lambda>kv. json_marshal (snd kv)) m) = Some (map snd m)"
    by (intro those_map_Some) (auto simp: list_all_iff)
  then show ?case using obj.prems by (simp add: zip_fst_snd sort_key_sorted)
qed

lemma canonical_unmarshal: "canonical v \<Longrightarrow> json_unmarshal v = Some v"
proof (induction v rule: gval_induct)
  case (atom v)
  then show ?case by (cases v) auto
next
  case (arr vs)
  then have "those (map json_unmarshal vs) = Some (map (\<lambda>v. v) vs)"
    by (intro those_map_Some) (auto simp: list_all_iff)
  then show ?case by simp
next
  case (obj m)
  then have "those (map (\<lambda>kv. json_unmarshal (snd kv)) m) = Some (map snd m)"
    by (intro those_map_Some) (auto simp: list_all_iff)
  then show ?case by (simp add: zip_fst_snd)
qed

definition canonical_bindings :: "bindings \<Rightarrow> bool" where
  "canonical_bindings bs \<longleftrightarrow> sorted (map fst bs) \<and> list_all (\<lambda>kb. canonical (bind_value (snd kb))) bs"

definition canonical_node :: "flow_node \<Rightarrow> bool" where
  "canonical_node n \<longleftrightarrow>
     float_finite (pos_x (node_position n)) \<and> float_finite (pos_y (node_position n)) \<and>
     (case node_connector n of None \<Rightarrow> True | Some c \<Rightarrow> canonical_bindings (conn_bindings c)) \<and>
     (case node_generic n of None \<Rightarrow> True | Some g \<Rightarrow> canonical_bindings (gen_bindings g)) \<and>
     (case node_config n of None \<Rightarrow> True | Some m \<Rightarrow> m \<noteq> [] \<and> canonical (VObj m))"

definition document_graph :: "flow_graph \<Rightarrow> bool" where
  "document_graph g \<longleftrightarrow> (\<forall>n \<in> set (graph_nodes g). canonical_node n)"

lemma json_bindings_id:
  "(\<And>v. canonical v \<Longrightarrow> step v = Some v) \<Longrightarrow> canonical_bindings bs \<Longrightarrow> json_bindings step bs = Some bs"
proof -
  assume step: "\<And>v. canonical v \<Longrightarrow> step v = Some v" and c: "canonical_bindings bs"
  have "those (map (\<lambda>kb. json_binding step (snd kb)) bs) = Some (map snd bs)"
    by (rule those_map_Some) (use step c in \<open>auto simp: json_binding_def canonical_bindings_def list_all_iff\<close>)
  then show ?thesis using c by (simp add: json_bindings_def zip_fst_snd sort_key_sorted canonical_bindings_def)
qed

lemma json_node_id:
  assumes "\<And>v. canonical v \<Longrightarrow> step v = Some v" "canonical_node n"
  shows "json_node step n = Some n"
proof -
  have c: "traverse (json_connector step) (node_connector n) = Some (node_connector n)"
    using assms json_bindings_id [OF assms(1)]
    by (cases "node_connector n") (simp_all add: canonical_node_def json_connector_def)
  have g: "traverse (json_generic step) (node_generic n) = Some (node_generic n)"
    using assms json_bindings_id [OF assms(1)]
    by (cases "node_generic n") (simp_all add: canonical_node_def json_generic_def)
  have cfg: "json_config step (node_config n) = Some (node_config n)"
    using assms by (cases "node_config n") (simp_all add: canonical_node_def json_config_def json_object_def del: canonical.simps)
  show ?thesis using assms(2) by (simp add: json_node_def c g cfg canonical_node_def)
qed

lemma json_graph_id:
  assumes "\<And>v. canonical v \<Longrightarrow> step v = Some v" "document_graph g"
  shows "json_graph step g = Some g"
proof -
  have "those (map (json_node step) (graph_nodes g)) = Some (map (\<lambda>n. n) (graph_nodes g))"
    by (rule those_map_Some) (use assms(2) json_node_id [OF assms(1)] in \<open>simp add: document_graph_def list_all_iff\<close>)
  then show ?thesis by (simp add: json_graph_def)
qed

lemma canonical_documents:
  "document_graph g \<Longrightarrow> graph_to_document g = Some g" "document_graph g \<Longrightarrow> graph_of_document g = Some g"
  by (simp_all add: graph_to_document_def graph_of_document_def json_graph_id canonical_marshal canonical_unmarshal)

lemma cloneGraph_id: "document_graph g \<Longrightarrow> cloneGraph g = g"
  by (simp add: cloneGraph_def canonical_documents)

end
