(* ===== verification/Vault.thy ===== *)
theory Vault
  imports Domain
begin

text \<open>
  The secret vault, \<open>security/vault.go\<close>, over the table of encrypted secrets,
  \<open>store/claims.go\<close>. The cipher is not part of the repository: \<open>seal\<close> and \<open>unseal\<close> stand for the
  \<open>Seal\<close> and \<open>Open\<close> of the AEAD, and where a lemma needs it, it states what the AEAD documents,
  that opening what was sealed under the same nonce and the same additional data gives the
  plaintext back. Bytes are characters. \<open>SecretBackend\<close>, the interface between the two, is the
  locale \<open>secret_backend\<close>; the SQL table is its interpretation. A constraint error of the
  database keeps the operation's name and not the driver's text.
\<close>

type_synonym bytes = string

section \<open>The table of secrets\<close>

record secret_record =
  rec_ref :: secret_ref
  rec_nonce :: bytes
  rec_ciphertext :: bytes
  rec_created :: gtime
  rec_updated :: gtime

text \<open>The rows of \<open>secrets\<close> and the keys of \<open>workspaces\<close>, which they reference.\<close>

record secret_table =
  st_workspaces :: "ID list"
  st_rows :: "secret_record list"

definition row_id :: "secret_record \<Rightarrow> ID" where
  "row_id r = secret_id (rec_ref r)"

definition upsert_secret :: "secret_record \<Rightarrow> secret_record list \<Rightarrow> secret_record list" where
  "upsert_secret new rows =
     (case List.find (\<lambda>r. row_id r = row_id new) rows of
        None \<Rightarrow> rows @ [new]
      | Some old \<Rightarrow> map (\<lambda>r. if row_id r = row_id new
                             then new\<lparr>rec_created := rec_created r\<rparr> else r) rows)"

definition PutSecretRecord ::
  "gtime \<Rightarrow> secret_ref \<Rightarrow> bytes \<Rightarrow> bytes \<Rightarrow> secret_table \<Rightarrow> gerr + secret_table" where
  "PutSecretRecord now ref nonce ciphertext t =
     bind_result (SecretRef_Validate ref) (\<lambda>_.
       if nonce = [] \<or> ciphertext = [] then fail ErrInvalid ''encrypted secret payload is required''
       else if secret_workspace ref \<notin> set (st_workspaces t) then fail ErrConflict ''put secret record''
       else if list_ex (\<lambda>r. row_id r \<noteq> secret_id ref \<and>
              secret_workspace (rec_ref r) = secret_workspace ref \<and>
              secret_alias (rec_ref r) = secret_alias ref) (st_rows t)
       then fail ErrConflict ''put secret record''
       else Inr (t\<lparr>st_rows := upsert_secret
              \<lparr>rec_ref = ref, rec_nonce = nonce, rec_ciphertext = ciphertext,
               rec_created = now, rec_updated = now\<rparr> (st_rows t)\<rparr>))"

definition GetSecretRecord :: "ID \<Rightarrow> ID \<Rightarrow> secret_table \<Rightarrow> gerr + secret_record" where
  "GetSecretRecord workspaceID refID t =
     (case List.find (\<lambda>r. secret_workspace (rec_ref r) = workspaceID \<and> row_id r = refID) (st_rows t) of
        None \<Rightarrow> fail ErrNotFound (''secret '' @ refID)
      | Some r \<Rightarrow> Inr r)"

section \<open>The vault\<close>

definition associated_data :: "secret_ref \<Rightarrow> bytes" where
  "associated_data ref = secret_workspace ref @ '':'' @ secret_id ref"

definition Vault_Put ::
  "(secret_ref \<Rightarrow> bytes \<Rightarrow> bytes \<Rightarrow> 's \<Rightarrow> gerr + 's) \<Rightarrow> (bytes \<Rightarrow> bytes \<Rightarrow> bytes \<Rightarrow> bytes) \<Rightarrow>
   bytes \<Rightarrow> secret_ref \<Rightarrow> bytes \<Rightarrow> 's \<Rightarrow> gerr + 's" where
  "Vault_Put put seal nonce ref material s =
     bind_result (SecretRef_Validate ref) (\<lambda>_.
       if material = [] then fail ErrInvalid ''secret material is required''
       else put ref nonce (seal nonce material (associated_data ref)) s)"

definition Vault_Resolve ::
  "(ID \<Rightarrow> ID \<Rightarrow> 's \<Rightarrow> gerr + secret_record) \<Rightarrow> (bytes \<Rightarrow> bytes \<Rightarrow> bytes \<Rightarrow> bytes option) \<Rightarrow>
   secret_ref \<Rightarrow> 's \<Rightarrow> gerr + bytes" where
  "Vault_Resolve get unseal ref s =
     bind_result (SecretRef_Validate ref) (\<lambda>_.
     bind_result (get (secret_workspace ref) (secret_id ref) s) (\<lambda>r.
       if secret_alias (rec_ref r) \<noteq> secret_alias ref \<or> secret_kind (rec_ref r) \<noteq> secret_kind ref
       then fail ErrForbidden ''secret reference metadata mismatch''
       else case unseal (rec_nonce r) (rec_ciphertext r) (associated_data ref) of
              None \<Rightarrow> fail ErrForbidden ''decrypt secret''
            | Some plaintext \<Rightarrow> Inr plaintext))"

section \<open>What the vault needs of its backend\<close>

locale secret_backend =
  fixes put :: "secret_ref \<Rightarrow> bytes \<Rightarrow> bytes \<Rightarrow> 's \<Rightarrow> gerr + 's"
    and get :: "ID \<Rightarrow> ID \<Rightarrow> 's \<Rightarrow> gerr + secret_record"
  assumes get_put: "put ref nonce ciphertext s = Inr s' \<Longrightarrow>
      \<exists>r. get (secret_workspace ref) (secret_id ref) s' = Inr r \<and>
          rec_ref r = ref \<and> rec_nonce r = nonce \<and> rec_ciphertext r = ciphertext"
    and get_other: "put ref nonce ciphertext s = Inr s' \<Longrightarrow> i \<noteq> secret_id ref \<Longrightarrow>
      get w i s' = get w i s"
    and put_moves: "put ref nonce ciphertext s = Inr s' \<Longrightarrow> w \<noteq> secret_workspace ref \<Longrightarrow>
      \<exists>e. get w (secret_id ref) s' = Inl e \<and> err_is e ErrNotFound"
begin

lemma Put_then_Resolve:
  assumes aead: "\<And>n m a. unseal n (seal n m a) a = Some m"
    and put: "Vault_Put put seal nonce ref material s = Inr s'"
  shows "Vault_Resolve get unseal ref s' = Inr material"
proof -
  have v: "SecretRef_Validate ref = Inr ()"
    and p: "put ref nonce (seal nonce material (associated_data ref)) s = Inr s'"
    using put by (auto simp: Vault_Put_def err_simps split: if_splits)
  obtain r where "get (secret_workspace ref) (secret_id ref) s' = Inr r" "rec_ref r = ref"
    "rec_nonce r = nonce" "rec_ciphertext r = seal nonce material (associated_data ref)"
    using get_put [OF p] by blast
  then show ?thesis using v aead by (simp add: Vault_Resolve_def)
qed

lemma Put_keeps_others:
  "Vault_Put put seal nonce ref material s = Inr s' \<Longrightarrow> secret_id other \<noteq> secret_id ref \<Longrightarrow>
     Vault_Resolve get unseal other s' = Vault_Resolve get unseal other s"
  by (auto simp: Vault_Put_def Vault_Resolve_def err_simps get_other split: if_splits)

lemma Resolve_confined:
  assumes "Vault_Put put seal nonce ref material s = Inr s'" "secret_id other = secret_id ref"
    and "secret_workspace other \<noteq> secret_workspace ref \<or> secret_alias other \<noteq> secret_alias ref \<or>
         secret_kind other \<noteq> secret_kind ref"
  shows "\<exists>e. Vault_Resolve get unseal other s' = Inl e"
proof -
  have p: "put ref nonce (seal nonce material (associated_data ref)) s = Inr s'"
    using assms(1) by (auto simp: Vault_Put_def err_simps split: if_splits)
  show ?thesis
  proof (cases "SecretRef_Validate other")
    case (Inr u)
    show ?thesis
    proof (cases "secret_workspace other = secret_workspace ref")
      case True
      then show ?thesis using get_put [OF p] assms(2,3) Inr
        by (force simp: Vault_Resolve_def)
    next
      case False
      then obtain e where "get (secret_workspace other) (secret_id ref) s' = Inl e"
        using put_moves [OF p] by blast
      then show ?thesis using Inr assms(2) by (simp add: Vault_Resolve_def)
    qed
  qed (simp add: Vault_Resolve_def)
qed

end

section \<open>The SQL table implements the backend\<close>

text \<open>
  The key of the table is the identifier alone, so the update of a secret moves it to the
  workspace of the new reference.
\<close>

lemma find_upsert_other:
  assumes "i \<noteq> row_id new"
  shows "List.find (\<lambda>r. P r \<and> row_id r = i) (upsert_secret new rows) =
         List.find (\<lambda>r. P r \<and> row_id r = i) rows"
proof -
  have 1: "List.find Q (xs @ [x]) = List.find Q xs" if "\<not> Q x" for Q xs and x :: secret_record
    using that by (induction xs) auto
  have 2: "List.find (\<lambda>r. P r \<and> row_id r = i)
      (map (\<lambda>r. if row_id r = row_id new then new\<lparr>rec_created := rec_created r\<rparr> else r) rows) =
      List.find (\<lambda>r. P r \<and> row_id r = i) rows"
    using assms by (induction rows) (auto simp: row_id_def)
  show ?thesis using assms 1 2 by (auto simp: upsert_secret_def split: option.split)
qed

lemma upsert_rows:
  "r \<in> set (upsert_secret new rows) \<Longrightarrow> row_id r = row_id new \<Longrightarrow>
     \<exists>c. r = new\<lparr>rec_created := c\<rparr>"
proof -
  assume r: "r \<in> set (upsert_secret new rows)" "row_id r = row_id new"
  show ?thesis
  proof (cases "List.find (\<lambda>r. row_id r = row_id new) rows")
    case None
    then have "\<forall>x \<in> set rows. row_id x \<noteq> row_id new" by (simp add: find_None_iff)
    then have "r = new" using None r by (auto simp: upsert_secret_def)
    then have "r = new\<lparr>rec_created := rec_created new\<rparr>" by simp
    then show ?thesis ..
  next
    case (Some old)
    then show ?thesis using r by (auto simp: upsert_secret_def split: if_splits)
  qed
qed

lemma upsert_present: "\<exists>r \<in> set (upsert_secret new rows). row_id r = row_id new"
proof (cases "List.find (\<lambda>r. row_id r = row_id new) rows")
  case (Some old)
  then have "old \<in> set rows" "row_id old = row_id new" using find_SomeD by fast+
  moreover have "row_id (new\<lparr>rec_created := c\<rparr>) = row_id new" for c by (simp add: row_id_def)
  ultimately show ?thesis using Some by (auto simp: upsert_secret_def image_iff)
qed (simp add: upsert_secret_def)

lemma PutSecretRecord_D:
  "PutSecretRecord now ref nonce ciphertext t = Inr t' \<Longrightarrow>
     t' = t\<lparr>st_rows := upsert_secret
              \<lparr>rec_ref = ref, rec_nonce = nonce, rec_ciphertext = ciphertext,
               rec_created = now, rec_updated = now\<rparr> (st_rows t)\<rparr>"
  by (auto simp: PutSecretRecord_def err_simps split: if_splits)

interpretation sql: secret_backend "PutSecretRecord now" GetSecretRecord for now
proof (unfold_locales, goal_cases)
  case (1 ref nonce ciphertext s s')
  let ?new = "\<lparr>rec_ref = ref, rec_nonce = nonce, rec_ciphertext = ciphertext,
               rec_created = now, rec_updated = now\<rparr>"
  let ?P = "\<lambda>r. secret_workspace (rec_ref r) = secret_workspace ref \<and> row_id r = secret_id ref"
  have s': "st_rows s' = upsert_secret ?new (st_rows s)" using PutSecretRecord_D [OF 1] by simp
  have new: "row_id ?new = secret_id ref" by (simp add: row_id_def)
  obtain r0 where "r0 \<in> set (st_rows s')" "row_id r0 = secret_id ref"
    using upsert_present [of ?new "st_rows s"] s' new by auto
  moreover from this obtain c where "r0 = ?new\<lparr>rec_created := c\<rparr>"
    using upsert_rows [of r0 ?new "st_rows s"] s' new by auto
  ultimately have "r0 \<in> set (st_rows s') \<and> ?P r0" by simp
  then have "List.find ?P (st_rows s') \<noteq> None" unfolding find_None_iff by blast
  then obtain r where r: "List.find ?P (st_rows s') = Some r" by blast
  then have "r \<in> set (st_rows s') \<and> ?P r" by (rule find_SomeD)
  then obtain d where "r = ?new\<lparr>rec_created := d\<rparr>"
    using upsert_rows [of r ?new "st_rows s"] s' new by auto
  then show ?case using r by (simp add: GetSecretRecord_def)
next
  case (2 ref nonce ciphertext s s' i w)
  let ?new = "\<lparr>rec_ref = ref, rec_nonce = nonce, rec_ciphertext = ciphertext,
               rec_created = now, rec_updated = now\<rparr>"
  have "i \<noteq> row_id ?new" using 2(2) by (simp add: row_id_def)
  then show ?case using PutSecretRecord_D [OF 2(1)] by (simp add: GetSecretRecord_def find_upsert_other)
next
  case (3 ref nonce ciphertext s s' w)
  let ?new = "\<lparr>rec_ref = ref, rec_nonce = nonce, rec_ciphertext = ciphertext,
               rec_created = now, rec_updated = now\<rparr>"
  have s': "st_rows s' = upsert_secret ?new (st_rows s)" using PutSecretRecord_D [OF 3(1)] by simp
  have "\<not> (secret_workspace (rec_ref r) = w \<and> row_id r = secret_id ref)" if "r \<in> set (st_rows s')" for r
    using upsert_rows [of r ?new "st_rows s"] that 3(2) s' by (auto simp: row_id_def)
  then have "List.find (\<lambda>r. secret_workspace (rec_ref r) = w \<and> row_id r = secret_id ref) (st_rows s') = None"
    by (simp add: find_None_iff)
  then show ?case by (simp add: GetSecretRecord_def)
qed

text \<open>
  A secret that was stored is resolved to the same bytes, under exactly the reference it was
  stored with: under another workspace, alias or kind the same identifier resolves to an error, and
  what other identifiers resolve to is unchanged. The cipher is assumed to open what it sealed.
\<close>

theorem Vault_roundtrip:
  assumes "\<And>n m a. unseal n (seal n m a) a = Some m"
    and "Vault_Put (PutSecretRecord now) seal nonce ref material t = Inr t'"
  shows "Vault_Resolve GetSecretRecord unseal ref t' = Inr material \<and>
         (\<forall>other. secret_id other \<noteq> secret_id ref \<longrightarrow>
            Vault_Resolve GetSecretRecord unseal other t' = Vault_Resolve GetSecretRecord unseal other t) \<and>
         (\<forall>other. secret_id other = secret_id ref \<and>
            (secret_workspace other \<noteq> secret_workspace ref \<or> secret_alias other \<noteq> secret_alias ref \<or>
             secret_kind other \<noteq> secret_kind ref) \<longrightarrow>
            (\<exists>e. Vault_Resolve GetSecretRecord unseal other t' = Inl e))"
  using sql.Put_then_Resolve [OF assms] sql.Put_keeps_others [OF assms(2)]
    sql.Resolve_confined [OF assms(2)] by blast

definition sample_secret :: secret_ref where
  "sample_secret =
     \<lparr>secret_id = ''s1'', secret_workspace = ''w1'', secret_alias = ''gitlab'', secret_kind = ''token''\<rparr>"

text \<open>A cipher that satisfies the assumption: the plaintext behind a tag byte.\<close>

theorem Vault_roundtrip_witness:
  "\<exists>t'. Vault_Put (PutSecretRecord 5) (\<lambda>n m a. CHR ''t'' # m) ''n'' sample_secret ''key''
           \<lparr>st_workspaces = [''w1''], st_rows = []\<rparr> = Inr t' \<and>
         Vault_Resolve GetSecretRecord (\<lambda>n c a. Some (tl c)) sample_secret t' = Inr ''key''"
proof -
  have "\<exists>t'. Vault_Put (PutSecretRecord 5) (\<lambda>n m a. CHR ''t'' # m) ''n'' sample_secret ''key''
           \<lparr>st_workspaces = [''w1''], st_rows = []\<rparr> = Inr t'"
    by (rule exI) code_simp
  then obtain t' where t': "Vault_Put (PutSecretRecord 5) (\<lambda>n m a. CHR ''t'' # m) ''n'' sample_secret ''key''
           \<lparr>st_workspaces = [''w1''], st_rows = []\<rparr> = Inr t'" ..
  have "Vault_Resolve GetSecretRecord (\<lambda>n c a. Some (tl c)) sample_secret t' = Inr ''key''"
    by (rule conjunct1 [OF Vault_roundtrip [OF _ t']]) simp
  with t' show ?thesis by blast
qed

end
