(* ===== verification/Endpoints.thy ===== *)
theory Endpoints
  imports Vault RuntimeStore
begin

text \<open>
  Provider endpoints of \<open>store/endpoints.go\<close> and \<open>store/credentials.go\<close>: GitLab and Multica
  instances, group bindings and credential profiles. A row names a secret by its identifier alone;
  the reader joins the table of secrets inside the workspace, so that a reference to a secret of
  another workspace comes back without its alias and kind.
\<close>

section \<open>Rows\<close>

text \<open>\<open>GitLabInstance\<close> and \<open>MulticaInstance\<close> have the same fields.\<close>

record endpoint =
  ep_id :: ID
  ep_workspace :: ID
  ep_name :: string
  ep_base_url :: string
  ep_external :: string
  ep_credential :: "secret_ref option"
  ep_status :: string
  ep_capabilities :: "string list"

record group_binding =
  gb_id :: ID
  gb_workspace :: ID
  gb_instance :: ID
  gb_group :: string
  gb_full_path :: string
  gb_profile :: ID
  gb_credential :: "secret_ref option"
  gb_inherit :: bool
  gb_status :: string

record credential_profile =
  cp_id :: ID
  cp_workspace :: ID
  cp_provider :: string
  cp_kind :: string
  cp_alias :: string
  cp_secret :: secret_ref
  cp_status :: string
  cp_capabilities :: "string list"

record endpoint_db =
  ed_secrets :: secret_table
  ed_gitlab :: "endpoint list"
  ed_multica :: "endpoint list"
  ed_groups :: "group_binding list"
  ed_profiles :: "credential_profile list"

abbreviation EndpointActive :: string where "EndpointActive \<equiv> ''active''"
abbreviation EndpointDisabled :: string where "EndpointDisabled \<equiv> ''disabled''"
abbreviation CredentialPAT :: string where "CredentialPAT \<equiv> ''pat''"
abbreviation CredentialGroupAccessToken :: string where "CredentialGroupAccessToken \<equiv> ''group_access_token''"
abbreviation CredentialActive :: string where "CredentialActive \<equiv> ''active''"
abbreviation SecretGroupCredential :: string where "SecretGroupCredential \<equiv> ''group_credential''"

abbreviation ed_workspaces :: "endpoint_db \<Rightarrow> ID list" where
  "ed_workspaces db \<equiv> st_workspaces (ed_secrets db)"

definition joined_ref :: "ID \<Rightarrow> secret_table \<Rightarrow> secret_ref option \<Rightarrow> secret_ref option" where
  "joined_ref workspaceID t ref =
     (case ref of None \<Rightarrow> None
      | Some r \<Rightarrow>
          if secret_id r = [] then None
          else case List.find (\<lambda>s. row_id s = secret_id r \<and> secret_workspace (rec_ref s) = workspaceID) (st_rows t) of
                 None \<Rightarrow> Some \<lparr>secret_id = secret_id r, secret_workspace = workspaceID, secret_alias = [], secret_kind = []\<rparr>
               | Some s \<Rightarrow> Some \<lparr>secret_id = secret_id r, secret_workspace = workspaceID,
                                secret_alias = secret_alias (rec_ref s), secret_kind = secret_kind (rec_ref s)\<rparr>)"

section \<open>Instances\<close>

definition endpoint_clash :: "endpoint \<Rightarrow> endpoint \<Rightarrow> bool" where
  "endpoint_clash a b \<longleftrightarrow>
     ep_id a = ep_id b \<or> ep_workspace a = ep_workspace b \<and> ep_name a = ep_name b \<or>
     ep_workspace a = ep_workspace b \<and> ep_external a \<noteq> [] \<and> ep_external a = ep_external b"

interpretation endpoint_by_id: unique_key ep_id endpoint_clash
  by unfold_locales (simp add: endpoint_clash_def)

text \<open>The two tables are written by the same code: \<open>noun\<close> is what the messages call the row.\<close>

definition create_endpoint :: "string \<Rightarrow> endpoint \<Rightarrow> ID list \<Rightarrow> endpoint list \<Rightarrow> gerr + endpoint list" where
  "create_endpoint noun i0 workspaces rows =
     (let i = i0\<lparr>ep_status := or_default (ep_status i0) (\<lambda>s. s = []) EndpointActive\<rparr>
      in if ep_id i = [] then fail ErrInvalid (noun @ '' instance id is required'')
         else bind_result (requireWorkspaceID (ep_workspace i)) (\<lambda>_.
           if blank (ep_name i) \<or> blank (ep_base_url i)
           then fail ErrInvalid (noun @ '' instance name and base_url are required'')
           else bind_result (require_row (''create '' @ noun @ '' instance'') (ep_workspace i \<in> set workspaces)) (\<lambda>_.
             insert_row (''create '' @ noun @ '' instance'') endpoint_clash
               (i\<lparr>ep_external := nullString (ep_external i), ep_credential := secretRefID (ep_credential i)\<rparr>) rows)))"

definition CreateGitLabInstance :: "endpoint \<Rightarrow> endpoint_db \<Rightarrow> gerr + endpoint_db" where
  "CreateGitLabInstance i db =
     bind_result (create_endpoint ''GitLab'' i (ed_workspaces db) (ed_gitlab db)) (\<lambda>rows. Inr (db\<lparr>ed_gitlab := rows\<rparr>))"

definition CreateMulticaInstance :: "endpoint \<Rightarrow> endpoint_db \<Rightarrow> gerr + endpoint_db" where
  "CreateMulticaInstance i db =
     bind_result (create_endpoint ''Multica'' i (ed_workspaces db) (ed_multica db)) (\<lambda>rows. Inr (db\<lparr>ed_multica := rows\<rparr>))"

definition read_endpoint :: "ID \<Rightarrow> secret_table \<Rightarrow> endpoint \<Rightarrow> endpoint" where
  "read_endpoint workspaceID t r = r\<lparr>ep_credential := joined_ref workspaceID t (ep_credential r)\<rparr>"

definition get_endpoint :: "string \<Rightarrow> ID \<Rightarrow> ID \<Rightarrow> secret_table \<Rightarrow> endpoint list \<Rightarrow> gerr + endpoint" where
  "get_endpoint noun workspaceID instanceID t rows =
     (case List.find (\<lambda>r. ep_workspace r = workspaceID \<and> ep_id r = instanceID) rows of
        None \<Rightarrow> fail ErrNotFound (noun @ '' instance '' @ instanceID)
      | Some r \<Rightarrow> Inr (read_endpoint workspaceID t r))"

definition GetGitLabInstance :: "ID \<Rightarrow> ID \<Rightarrow> endpoint_db \<Rightarrow> gerr + endpoint" where
  "GetGitLabInstance workspaceID instanceID db =
     get_endpoint ''GitLab'' workspaceID instanceID (ed_secrets db) (ed_gitlab db)"

definition GetMulticaInstance :: "ID \<Rightarrow> ID \<Rightarrow> endpoint_db \<Rightarrow> gerr + endpoint" where
  "GetMulticaInstance workspaceID instanceID db =
     get_endpoint ''Multica'' workspaceID instanceID (ed_secrets db) (ed_multica db)"

definition list_endpoints :: "ID \<Rightarrow> secret_table \<Rightarrow> endpoint list \<Rightarrow> gerr + endpoint list" where
  "list_endpoints workspaceID t rows =
     bind_result (requireWorkspaceID workspaceID) (\<lambda>_.
       Inr (map (read_endpoint workspaceID t)
         (sort_key (\<lambda>r. (ep_name r, ep_id r)) (filter (\<lambda>r. ep_workspace r = workspaceID) rows))))"

definition ListGitLabInstances :: "ID \<Rightarrow> endpoint_db \<Rightarrow> gerr + endpoint list" where
  "ListGitLabInstances workspaceID db = list_endpoints workspaceID (ed_secrets db) (ed_gitlab db)"

definition ListMulticaInstances :: "ID \<Rightarrow> endpoint_db \<Rightarrow> gerr + endpoint list" where
  "ListMulticaInstances workspaceID db = list_endpoints workspaceID (ed_secrets db) (ed_multica db)"

definition disableEndpoint :: "ID \<Rightarrow> ID \<Rightarrow> endpoint list \<Rightarrow> gerr + endpoint list" where
  "disableEndpoint workspaceID instanceID rows =
     bind_result (requireWorkspaceID workspaceID) (\<lambda>_.
       let target = (\<lambda>r. ep_workspace r = workspaceID \<and> ep_id r = instanceID)
       in if \<not> list_ex target rows then fail ErrNotFound (''endpoint '' @ instanceID)
          else Inr (update_rows target (\<lambda>r. r\<lparr>ep_status := EndpointDisabled\<rparr>) rows))"

definition DisableGitLabInstance :: "ID \<Rightarrow> ID \<Rightarrow> endpoint_db \<Rightarrow> gerr + endpoint_db" where
  "DisableGitLabInstance workspaceID instanceID db =
     bind_result (disableEndpoint workspaceID instanceID (ed_gitlab db)) (\<lambda>rows. Inr (db\<lparr>ed_gitlab := rows\<rparr>))"

definition DisableMulticaInstance :: "ID \<Rightarrow> ID \<Rightarrow> endpoint_db \<Rightarrow> gerr + endpoint_db" where
  "DisableMulticaInstance workspaceID instanceID db =
     bind_result (disableEndpoint workspaceID instanceID (ed_multica db)) (\<lambda>rows. Inr (db\<lparr>ed_multica := rows\<rparr>))"

definition updateEndpointCapabilities :: "ID \<Rightarrow> ID \<Rightarrow> string list \<Rightarrow> endpoint list \<Rightarrow> gerr + endpoint list" where
  "updateEndpointCapabilities workspaceID instanceID capabilities rows =
     (let target = (\<lambda>r. ep_workspace r = workspaceID \<and> ep_id r = instanceID)
      in if \<not> list_ex target rows then fail ErrNotFound (''endpoint '' @ instanceID)
         else Inr (update_rows target (\<lambda>r. r\<lparr>ep_capabilities := capabilities\<rparr>) rows))"

definition UpdateGitLabCapabilities :: "ID \<Rightarrow> ID \<Rightarrow> string list \<Rightarrow> endpoint_db \<Rightarrow> gerr + endpoint_db" where
  "UpdateGitLabCapabilities workspaceID instanceID capabilities db =
     bind_result (updateEndpointCapabilities workspaceID instanceID capabilities (ed_gitlab db)) (\<lambda>rows.
       Inr (db\<lparr>ed_gitlab := rows\<rparr>))"

definition UpdateMulticaCapabilities :: "ID \<Rightarrow> ID \<Rightarrow> string list \<Rightarrow> endpoint_db \<Rightarrow> gerr + endpoint_db" where
  "UpdateMulticaCapabilities workspaceID instanceID capabilities db =
     bind_result (updateEndpointCapabilities workspaceID instanceID capabilities (ed_multica db)) (\<lambda>rows.
       Inr (db\<lparr>ed_multica := rows\<rparr>))"

definition UpdateGitLabInstanceCredential :: "ID \<Rightarrow> ID \<Rightarrow> secret_ref option \<Rightarrow> endpoint_db \<Rightarrow> gerr + endpoint_db" where
  "UpdateGitLabInstanceCredential workspaceID instanceID ref0 db =
     bind_result (requireWorkspaceID workspaceID) (\<lambda>_.
       case ref0 of
         None \<Rightarrow> fail ErrInvalid ''GitLab credential reference is required''
       | Some ref \<Rightarrow>
           bind_result (SecretRef_Validate ref) (\<lambda>_.
             if secret_workspace ref \<noteq> workspaceID
             then fail ErrForbidden ''GitLab credential belongs to another workspace''
             else case List.find (\<lambda>s. row_id s = secret_id ref) (st_rows (ed_secrets db)) of
                    None \<Rightarrow> fail ErrNotFound (''GitLab credential secret '' @ secret_id ref)
                  | Some s \<Rightarrow>
                      if secret_workspace (rec_ref s) \<noteq> workspaceID \<or>
                         secret_alias (rec_ref s) \<noteq> secret_alias ref \<or> secret_kind (rec_ref s) \<noteq> secret_kind ref
                      then fail ErrForbidden ''GitLab credential secret metadata mismatch''
                      else let target = (\<lambda>r. ep_workspace r = workspaceID \<and> ep_id r = instanceID)
                      in if \<not> list_ex target (ed_gitlab db) then fail ErrNotFound (''GitLab instance '' @ instanceID)
                         else Inr (db\<lparr>ed_gitlab := update_rows target
                                (\<lambda>r. r\<lparr>ep_credential := Some (id_ref (secret_id ref))\<rparr>) (ed_gitlab db)\<rparr>)))"

section \<open>Credential profiles\<close>

definition profile_clash :: "credential_profile \<Rightarrow> credential_profile \<Rightarrow> bool" where
  "profile_clash a b \<longleftrightarrow> cp_id a = cp_id b \<or> cp_workspace a = cp_workspace b \<and> cp_alias a = cp_alias b"

definition secret_exists :: "ID \<Rightarrow> endpoint_db \<Rightarrow> bool" where
  "secret_exists i db \<longleftrightarrow> i \<in> row_id ` set (st_rows (ed_secrets db))"

definition CreateCredentialProfile :: "credential_profile \<Rightarrow> endpoint_db \<Rightarrow> gerr + endpoint_db" where
  "CreateCredentialProfile p db =
     (if cp_id p = [] \<or> secret_id (cp_secret p) = []
      then fail ErrInvalid ''credential profile and secret reference IDs are required''
      else bind_result (requireWorkspaceID (cp_workspace p)) (\<lambda>_.
        if secret_workspace (cp_secret p) \<noteq> cp_workspace p
        then fail ErrForbidden ''secret reference belongs to another workspace''
        else if cp_provider p \<noteq> ProviderGitLab \<and> cp_provider p \<noteq> ProviderMultica
        then fail ErrInvalid ''unsupported credential provider''
        else if cp_kind p \<noteq> CredentialPAT \<and> cp_kind p \<noteq> CredentialGroupAccessToken
        then fail ErrInvalid ''unsupported credential profile kind''
        else if blank (cp_alias p) then fail ErrInvalid ''credential alias is required''
        else bind_result (require_row ''create credential profile''
               (cp_workspace p \<in> set (ed_workspaces db) \<and> secret_exists (secret_id (cp_secret p)) db)) (\<lambda>_.
             bind_result (insert_row ''create credential profile'' profile_clash
               (p\<lparr>cp_secret := id_ref (secret_id (cp_secret p)),
                  cp_status := or_default (cp_status p) (\<lambda>s. s = []) CredentialActive\<rparr>) (ed_profiles db)) (\<lambda>rows.
               Inr (db\<lparr>ed_profiles := rows\<rparr>)))))"

definition GetCredentialProfile :: "ID \<Rightarrow> ID \<Rightarrow> endpoint_db \<Rightarrow> gerr + credential_profile" where
  "GetCredentialProfile workspaceID profileID db =
     (case List.find (\<lambda>r. cp_workspace r = workspaceID \<and> cp_id r = profileID) (ed_profiles db) of
        None \<Rightarrow> fail ErrNotFound (''credential profile '' @ profileID)
      | Some r \<Rightarrow> Inr (r\<lparr>cp_secret := \<lparr>secret_id = secret_id (cp_secret r), secret_workspace = workspaceID,
                                    secret_alias = cp_alias r, secret_kind = SecretGroupCredential\<rparr>\<rparr>))"

definition RotateCredentialProfile :: "ID \<Rightarrow> ID \<Rightarrow> secret_ref \<Rightarrow> endpoint_db \<Rightarrow> gerr + endpoint_db" where
  "RotateCredentialProfile workspaceID profileID ref db =
     bind_result (SecretRef_Validate ref) (\<lambda>_.
       if secret_workspace ref \<noteq> workspaceID then fail ErrForbidden ''secret reference belongs to another workspace''
       else let target = (\<lambda>r. cp_workspace r = workspaceID \<and> cp_id r = profileID)
       in if \<not> list_ex target (ed_profiles db) then fail ErrNotFound (''credential profile '' @ profileID)
          else bind_result (require_row ''rotate credential profile'' (secret_exists (secret_id ref) db)) (\<lambda>_.
            Inr (db\<lparr>ed_profiles := update_rows target
              (\<lambda>r. r\<lparr>cp_secret := id_ref (secret_id ref), cp_status := CredentialActive\<rparr>) (ed_profiles db)\<rparr>)))"

section \<open>Group bindings\<close>

definition group_clash :: "group_binding \<Rightarrow> group_binding \<Rightarrow> bool" where
  "group_clash a b \<longleftrightarrow>
     gb_id a = gb_id b \<or>
     gb_workspace a = gb_workspace b \<and> gb_instance a = gb_instance b \<and>
       (gb_group a = gb_group b \<or> gb_full_path a = gb_full_path b)"

definition profile_exists :: "ID \<Rightarrow> endpoint_db \<Rightarrow> bool" where
  "profile_exists i db \<longleftrightarrow> i \<in> cp_id ` set (ed_profiles db)"

definition CreateGitLabGroupBinding :: "group_binding \<Rightarrow> endpoint_db \<Rightarrow> gerr + endpoint_db" where
  "CreateGitLabGroupBinding b0 db =
     (let b = b0\<lparr>gb_status := or_default (gb_status b0) (\<lambda>s. s = []) EndpointActive\<rparr>
      in if gb_id b = [] then fail ErrInvalid ''GitLab group binding id is required''
         else bind_result (requireWorkspaceID (gb_workspace b)) (\<lambda>_.
           if gb_instance b = [] \<or> blank (gb_group b) \<or> blank (gb_full_path b)
           then fail ErrInvalid ''GitLab group binding instance, external_group_id and full_path are required''
           else case List.find (\<lambda>r. ep_id r = gb_instance b) (ed_gitlab db) of
                  None \<Rightarrow> fail ErrNotFound (''GitLab instance '' @ gb_instance b)
                | Some i \<Rightarrow>
                    if ep_workspace i \<noteq> gb_workspace b
                    then fail ErrForbidden ''GitLab group instance belongs to another workspace''
                    else bind_result (require_row ''create GitLab group binding''
                           (gb_workspace b \<in> set (ed_workspaces db) \<and>
                            (gb_profile b = [] \<or> profile_exists (gb_profile b) db))) (\<lambda>_.
                         bind_result (insert_row ''create GitLab group binding'' group_clash
                           (b\<lparr>gb_credential := secretRefID (gb_credential b)\<rparr>) (ed_groups db)) (\<lambda>rows.
                           Inr (db\<lparr>ed_groups := rows\<rparr>)))))"

definition GetGitLabGroupBinding :: "ID \<Rightarrow> ID \<Rightarrow> endpoint_db \<Rightarrow> gerr + group_binding" where
  "GetGitLabGroupBinding workspaceID bindingID db =
     (case List.find (\<lambda>r. gb_workspace r = workspaceID \<and> gb_id r = bindingID) (ed_groups db) of
        None \<Rightarrow> fail ErrNotFound (''GitLab group binding '' @ bindingID)
      | Some r \<Rightarrow> Inr (r\<lparr>gb_credential := joined_ref workspaceID (ed_secrets db) (gb_credential r)\<rparr>))"

definition GetGitLabGroupBindingByGroup :: "ID \<Rightarrow> ID \<Rightarrow> string \<Rightarrow> endpoint_db \<Rightarrow> gerr + group_binding" where
  "GetGitLabGroupBindingByGroup workspaceID instanceID externalGroupID db =
     (case List.find (\<lambda>r. gb_workspace r = workspaceID \<and> gb_instance r = instanceID \<and>
                          gb_group r = externalGroupID) (ed_groups db) of
        None \<Rightarrow> fail ErrNotFound (''GitLab Group '' @ externalGroupID)
      | Some r \<Rightarrow> GetGitLabGroupBinding workspaceID (gb_id r) db)"

definition ListGitLabGroupBindings :: "ID \<Rightarrow> ID \<Rightarrow> endpoint_db \<Rightarrow> gerr + group_binding list" where
  "ListGitLabGroupBindings workspaceID instanceID db =
     bind_result (requireWorkspaceID workspaceID) (\<lambda>_.
       map_result (\<lambda>r. GetGitLabGroupBinding workspaceID (gb_id r) db)
         (sort_key (\<lambda>r. (gb_full_path r, gb_id r))
           (filter (\<lambda>r. gb_workspace r = workspaceID \<and> gb_instance r = instanceID) (ed_groups db))))"

definition UpdateGitLabGroupCredential :: "ID \<Rightarrow> ID \<Rightarrow> ID \<Rightarrow> secret_ref option \<Rightarrow> endpoint_db \<Rightarrow> gerr + endpoint_db" where
  "UpdateGitLabGroupCredential workspaceID bindingID profileID ref0 db =
     bind_result (requireWorkspaceID workspaceID) (\<lambda>_.
       case ref0 of
         None \<Rightarrow> fail ErrInvalid ''credential profile and secret reference are required''
       | Some ref \<Rightarrow>
           if profileID = [] then fail ErrInvalid ''credential profile and secret reference are required''
           else if secret_workspace ref \<noteq> workspaceID then fail ErrForbidden ''credential belongs to another workspace''
           else case List.find (\<lambda>p. cp_id p = profileID) (ed_profiles db) of
                  None \<Rightarrow> fail ErrNotFound (''credential profile '' @ profileID)
                | Some p \<Rightarrow>
                    if cp_workspace p \<noteq> workspaceID
                    then fail ErrForbidden ''credential profile belongs to another workspace''
                    else let target = (\<lambda>r. gb_workspace r = workspaceID \<and> gb_id r = bindingID)
                    in if \<not> list_ex target (ed_groups db)
                       then fail ErrNotFound (''GitLab group binding '' @ bindingID)
                       else Inr (db\<lparr>ed_groups := update_rows target
                              (\<lambda>r. r\<lparr>gb_credential := Some (id_ref (secret_id ref)), gb_profile := profileID\<rparr>)
                              (ed_groups db)\<rparr>))"

section \<open>References\<close>

lemma joined_ref_workspace: "joined_ref w t ref = Some r \<Longrightarrow> secret_workspace r = w \<and> secret_id r \<noteq> []"
  by (auto simp: joined_ref_def split: option.splits if_splits)

lemma joined_ref_secret:
  "joined_ref w t ref = Some r \<Longrightarrow> secret_alias r \<noteq> [] \<Longrightarrow> \<exists>s \<in> set (st_rows t). rec_ref s = r"
proof -
  assume "joined_ref w t ref = Some r" "secret_alias r \<noteq> []"
  then obtain s where "List.find (\<lambda>s. row_id s = secret_id r \<and> secret_workspace (rec_ref s) = w) (st_rows t) = Some s"
    and "r = \<lparr>secret_id = secret_id r, secret_workspace = w, secret_alias = secret_alias (rec_ref s),
             secret_kind = secret_kind (rec_ref s)\<rparr>"
    by (auto simp: joined_ref_def split: option.splits if_splits)
  moreover from this(1) have "s \<in> set (st_rows t)" "secret_id (rec_ref s) = secret_id r" "secret_workspace (rec_ref s) = w"
    by (auto simp: find_Some_iff row_id_def in_set_conv_nth)
  ultimately show ?thesis by (metis secret_ref.surjective old.unit.exhaust)
qed

lemma find_update_target:
  "(\<And>r. P (f r) = P r) \<Longrightarrow> List.find P (update_rows P f rows) = map_option f (List.find P rows)"
  by (induction rows) (auto simp: update_rows_def)

text \<open>What is attached to an instance is what the reader of the instance gets.\<close>

lemma attached_credential:
  assumes "UpdateGitLabInstanceCredential w i ref db = Inr db'"
  shows "\<exists>e. GetGitLabInstance w i db' = Inr e \<and> ep_credential e = ref \<and> ref \<noteq> None"
proof -
  from assms obtain r s where ref: "ref = Some r" "SecretRef_Validate r = Inr ()" "secret_workspace r = w"
    and s: "List.find (\<lambda>s. row_id s = secret_id r) (st_rows (ed_secrets db)) = Some s"
    "secret_workspace (rec_ref s) = w" "secret_alias (rec_ref s) = secret_alias r" "secret_kind (rec_ref s) = secret_kind r"
    and some: "list_ex (\<lambda>r. ep_workspace r = w \<and> ep_id r = i) (ed_gitlab db)"
    and db': "db' = db\<lparr>ed_gitlab := update_rows (\<lambda>r. ep_workspace r = w \<and> ep_id r = i)
                (\<lambda>e. e\<lparr>ep_credential := Some (id_ref (secret_id r))\<rparr>) (ed_gitlab db)\<rparr>"
    by (auto simp: UpdateGitLabInstanceCredential_def err_simps Let_def split: option.splits if_splits)
  from some obtain e where e: "List.find (\<lambda>r. ep_workspace r = w \<and> ep_id r = i) (ed_gitlab db) = Some e"
    by (cases "List.find (\<lambda>r. ep_workspace r = w \<and> ep_id r = i) (ed_gitlab db)") (auto simp: find_None_iff list_ex_iff)
  have first: "List.find (\<lambda>s. row_id s = secret_id r \<and> secret_workspace (rec_ref s) = w) (st_rows (ed_secrets db)) = Some s"
    using s(1,2) by (auto simp: find_Some_iff)
  have "secret_id r \<noteq> []" using ref(2) by (auto simp: SecretRef_Validate_def err_simps)
  then have "joined_ref w (ed_secrets db) (Some (id_ref (secret_id r))) = Some r"
    using first s ref(3) by (simp add: joined_ref_def id_ref_def)
  then show ?thesis
    by (simp add: db' GetGitLabInstance_def get_endpoint_def find_update_target e read_endpoint_def ref(1))
qed

end
