(* ===== verification/Connections.thy ===== *)
theory Connections
  imports FlowStore Endpoints
begin

text \<open>
  Connections, hooks and hook routes: \<open>store/repository.go\<close>, \<open>store/endpoints.go\<close>,
  \<open>store/onboarding.go\<close>, \<open>store/hooks.go\<close> and the route queries of \<open>store/runtime.go\<close>. A connection
  joins a GitLab project to a Multica project; a hook is what GitLab calls for a project; a route
  says which version of which flow a hook feeds. The tables of flows and of endpoints are those of
  the theories above.
\<close>

section \<open>Rows\<close>

record hook =
  hk_id :: ID
  hk_workspace :: ID
  hk_connection :: ID
  hk_provider :: string
  hk_instance :: ID
  hk_project :: string
  hk_external :: string
  hk_signing :: "secret_ref option"
  hk_status :: string

record hook_route =
  hr_id :: ID
  hr_workspace :: ID
  hr_connection :: ID
  hr_source :: project_ref
  hr_behavior_key :: string
  hr_behavior_version :: string
  hr_flow :: ID
  hr_version :: int
  hr_filter :: gobj
  hr_hook :: ID
  hr_status :: string

record control_db =
  cb_endpoints :: endpoint_db
  cb_flows :: flow_db
  cb_connections :: "connection list"
  cb_hooks :: "hook list"
  cb_routes :: "hook_route list"

abbreviation HookActive :: string where "HookActive \<equiv> ''active''"
abbreviation HookDisabled :: string where "HookDisabled \<equiv> ''disabled''"
abbreviation ConnectionConfigured :: string where "ConnectionConfigured \<equiv> ''configured''"
abbreviation ConnectionDisabled :: string where "ConnectionDisabled \<equiv> ''disabled''"

abbreviation cb_workspaces :: "control_db \<Rightarrow> ID list" where
  "cb_workspaces db \<equiv> fd_workspaces (cb_flows db)"

text \<open>An update that must keep the keys of the table: the rows it does not touch stay different.\<close>

definition update_unique ::
  "string \<Rightarrow> ('r \<Rightarrow> 'r \<Rightarrow> bool) \<Rightarrow> ('r \<Rightarrow> bool) \<Rightarrow> ('r \<Rightarrow> 'r) \<Rightarrow> 'r list \<Rightarrow> gerr + 'r list" where
  "update_unique operation clash P f rows =
     (if list_ex (\<lambda>r. P r \<and> list_ex (\<lambda>s. \<not> P s \<and> clash (f r) s) rows) rows
      then fail ErrConflict operation else Inr (update_rows P f rows))"

section \<open>Connections\<close>

definition source_key :: "connection \<Rightarrow> ID \<times> ID \<times> string" where
  "source_key c = (cn_workspace c, proj_instance (cn_source c), proj_external (cn_source c))"

definition target_key :: "connection \<Rightarrow> ID \<times> ID \<times> string" where
  "target_key c = (cn_workspace c, proj_instance (cn_target c), proj_external (cn_target c))"

definition connection_clash :: "connection \<Rightarrow> connection \<Rightarrow> bool" where
  "connection_clash a b \<longleftrightarrow>
     cn_id a = cn_id b \<or>
     cn_status a \<noteq> ConnectionDisabled \<and> cn_status b \<noteq> ConnectionDisabled \<and>
       (source_key a = source_key b \<or> target_key a = target_key b)"

text \<open>The columns: the name of the source and most of the target are not stored.\<close>

definition connection_row :: "connection \<Rightarrow> connection" where
  "connection_row c =
     c\<lparr>cn_source := (cn_source c)\<lparr>proj_name := []\<rparr>,
       cn_target := (cn_target c)\<lparr>proj_group := [], proj_full_path := [], proj_ssh_url := [], proj_https_url := []\<rparr>\<rparr>"

definition endpoint_workspace :: "string \<Rightarrow> ID \<Rightarrow> ID \<Rightarrow> endpoint list \<Rightarrow> gerr + unit" where
  "endpoint_workspace noun workspaceID i rows =
     (case List.find (\<lambda>r. ep_id r = i) rows of
        None \<Rightarrow> fail ErrNotFound (noun @ '' instance '' @ i)
      | Some r \<Rightarrow>
          if ep_workspace r \<noteq> workspaceID then fail ErrForbidden (noun @ '' instance belongs to another workspace'')
          else Inr ())"

definition store_connections :: "connection list \<Rightarrow> control_db \<Rightarrow> control_db" where
  "store_connections rows db =
     db\<lparr>cb_connections := rows,
        cb_flows := (cb_flows db)\<lparr>fd_connections := map (\<lambda>c. (cn_id c, cn_workspace c)) rows\<rparr>\<rparr>"

definition CreateConnection :: "gtime \<Rightarrow> connection \<Rightarrow> control_db \<Rightarrow> gerr + control_db" where
  "CreateConnection now c0 db =
     (let c = c0\<lparr>cn_status := or_default (cn_status c0) (\<lambda>s. s = []) ConnectionConfigured,
                cn_configured := or_default (cn_configured c0) IsZero now\<rparr>
      in bind_result (Connection_Validate c) (\<lambda>_.
         bind_result (endpoint_workspace ''GitLab'' (cn_workspace c) (proj_instance (cn_source c))
                        (ed_gitlab (cb_endpoints db))) (\<lambda>_.
         bind_result (endpoint_workspace ''Multica'' (cn_workspace c) (proj_instance (cn_target c))
                        (ed_multica (cb_endpoints db))) (\<lambda>_.
         bind_result (require_row ''create connection''
           (cn_workspace c \<in> set (cb_workspaces db) \<and> account_ref (cn_created_by c) (cb_flows db))) (\<lambda>_.
         bind_result (insert_row ''create connection'' connection_clash (connection_row c) (cb_connections db)) (\<lambda>rows.
           Inr (store_connections rows db)))))))"

definition GetConnection :: "ID \<Rightarrow> ID \<Rightarrow> control_db \<Rightarrow> gerr + connection" where
  "GetConnection workspaceID connectionID db =
     (case List.find (\<lambda>c. cn_workspace c = workspaceID \<and> cn_id c = connectionID) (cb_connections db) of
        None \<Rightarrow> fail ErrNotFound (''connection '' @ connectionID)
      | Some c \<Rightarrow> Inr c)"

definition ListConnections :: "ID \<Rightarrow> control_db \<Rightarrow> gerr + connection list" where
  "ListConnections workspaceID db =
     bind_result (requireWorkspaceID workspaceID) (\<lambda>_.
       Inr (sort_key (\<lambda>c. (cn_name c, cn_id c)) (filter (\<lambda>c. cn_workspace c = workspaceID) (cb_connections db))))"

definition findConnection ::
  "(connection \<Rightarrow> ID \<times> ID \<times> string) \<Rightarrow> ID \<times> ID \<times> string \<Rightarrow> control_db \<Rightarrow> gerr + connection" where
  "findConnection key k db =
     (case List.find (\<lambda>c. key c = k \<and> cn_status c \<noteq> ConnectionDisabled) (cb_connections db) of
        None \<Rightarrow> fail ErrNotFound ''active connection''
      | Some c \<Rightarrow> GetConnection (fst k) (cn_id c) db)"

definition FindActiveConnectionBySource :: "ID \<Rightarrow> ID \<Rightarrow> string \<Rightarrow> control_db \<Rightarrow> gerr + connection" where
  "FindActiveConnectionBySource workspaceID instanceID externalID =
     findConnection source_key (workspaceID, instanceID, externalID)"

definition FindActiveConnectionByTarget :: "ID \<Rightarrow> ID \<Rightarrow> string \<Rightarrow> control_db \<Rightarrow> gerr + connection" where
  "FindActiveConnectionByTarget workspaceID instanceID externalID =
     findConnection target_key (workspaceID, instanceID, externalID)"

definition UpdateConnectionStatus ::
  "ID \<Rightarrow> ID \<Rightarrow> string \<Rightarrow> gtime option \<Rightarrow> control_db \<Rightarrow> gerr + control_db" where
  "UpdateConnectionStatus workspaceID connectionID status readyAt db =
     bind_result (requireWorkspaceID workspaceID) (\<lambda>_.
       let target = (\<lambda>c. cn_workspace c = workspaceID \<and> cn_id c = connectionID)
       in case update_unique ''update connection status'' connection_clash target
                 (\<lambda>c. c\<lparr>cn_status := status, cn_ready := readyAt\<rparr>) (cb_connections db) of
            Inl _ \<Rightarrow> Inl (Plain ''update connection status'')
          | Inr rows \<Rightarrow>
              if \<not> list_ex target (cb_connections db) then fail ErrNotFound (''connection '' @ connectionID)
              else Inr (store_connections rows db))"

definition disable_routes :: "(hook_route \<Rightarrow> bool) \<Rightarrow> control_db \<Rightarrow> control_db" where
  "disable_routes P db = db\<lparr>cb_routes := update_rows P (\<lambda>r. r\<lparr>hr_status := HookDisabled\<rparr>) (cb_routes db)\<rparr>"

definition DisableHookRoutesForConnection :: "ID \<Rightarrow> ID \<Rightarrow> control_db \<Rightarrow> control_db" where
  "DisableHookRoutesForConnection workspaceID connectionID =
     disable_routes (\<lambda>r. hr_workspace r = workspaceID \<and> hr_connection r = connectionID)"

definition DisableConnection :: "gtime \<Rightarrow> ID \<Rightarrow> ID \<Rightarrow> control_db \<Rightarrow> gerr + control_db" where
  "DisableConnection now workspaceID connectionID db =
     bind_result (requireWorkspaceID workspaceID) (\<lambda>_.
       let target = (\<lambda>c. cn_workspace c = workspaceID \<and> cn_id c = connectionID)
       in if \<not> list_ex target (cb_connections db) then fail ErrNotFound (''connection '' @ connectionID)
          else Inr (disable_routes (\<lambda>r. hr_workspace r = workspaceID \<and> hr_connection r = connectionID)
            (store_connections (update_rows target
               (\<lambda>c. c\<lparr>cn_status := ConnectionDisabled, cn_disabled := Some now\<rparr>) (cb_connections db)) db)))"

section \<open>Hooks\<close>

definition hook_key :: "hook \<Rightarrow> ID \<times> ID \<times> string" where
  "hook_key h = (hk_workspace h, hk_instance h, hk_project h)"

definition hook_clash :: "hook \<Rightarrow> hook \<Rightarrow> bool" where
  "hook_clash a b \<longleftrightarrow>
     hk_id a = hk_id b \<or>
     hk_workspace a = hk_workspace b \<and> hk_instance a = hk_instance b \<and> hk_external a = hk_external b \<or>
     hook_key a = hook_key b \<and> hk_project a \<noteq> []"

definition connection_workspace :: "string \<Rightarrow> ID \<Rightarrow> ID \<Rightarrow> control_db \<Rightarrow> gerr + unit" where
  "connection_workspace noun workspaceID connectionID db =
     (case List.find (\<lambda>c. cn_id c = connectionID) (cb_connections db) of
        None \<Rightarrow> fail ErrNotFound (''connection '' @ connectionID)
      | Some c \<Rightarrow>
          if cn_workspace c \<noteq> workspaceID then fail ErrForbidden (noun @ '' connection belongs to another workspace'')
          else Inr ())"

definition GetHook :: "ID \<Rightarrow> ID \<Rightarrow> control_db \<Rightarrow> gerr + hook" where
  "GetHook workspaceID hookID db =
     (case List.find (\<lambda>h. hk_workspace h = workspaceID \<and> hk_id h = hookID) (cb_hooks db) of
        None \<Rightarrow> fail ErrNotFound (''Hook '' @ hookID)
      | Some h \<Rightarrow> Inr (h\<lparr>hk_signing := joined_ref workspaceID (ed_secrets (cb_endpoints db)) (hk_signing h)\<rparr>))"

definition GetHookByProject :: "ID \<Rightarrow> ID \<Rightarrow> string \<Rightarrow> control_db \<Rightarrow> gerr + hook" where
  "GetHookByProject workspaceID instanceID project db =
     (case List.find (\<lambda>h. hook_key h = (workspaceID, instanceID, project)) (cb_hooks db) of
        None \<Rightarrow> fail ErrNotFound (''Hook for project '' @ project)
      | Some h \<Rightarrow> GetHook workspaceID (hk_id h) db)"

definition write_hook :: "hook \<Rightarrow> control_db \<Rightarrow> gerr + hook \<times> control_db" where
  "write_hook h db =
     (case List.find (\<lambda>r. hook_key r = hook_key h) (cb_hooks db) of
        Some existing \<Rightarrow>
          bind_result (update_unique ''update Hook'' hook_clash
            (\<lambda>r. hk_id r = hk_id existing \<and> hk_workspace r = hk_workspace h)
            (\<lambda>r. r\<lparr>hk_connection := hk_connection h, hk_provider := hk_provider h, hk_external := hk_external h,
                   hk_signing := secretRefID (hk_signing h), hk_status := hk_status h\<rparr>) (cb_hooks db)) (\<lambda>rows.
          bind_result (GetHook (hk_workspace h) (hk_id existing) (db\<lparr>cb_hooks := rows\<rparr>)) (\<lambda>stored.
            Inr (stored, db\<lparr>cb_hooks := rows\<rparr>)))
      | None \<Rightarrow>
          bind_result (require_row ''create Hook'' (hk_workspace h \<in> set (cb_workspaces db))) (\<lambda>_.
          bind_result (insert_row ''create Hook'' hook_clash
            (h\<lparr>hk_signing := secretRefID (hk_signing h)\<rparr>) (cb_hooks db)) (\<lambda>rows.
          bind_result (GetHook (hk_workspace h) (hk_id h) (db\<lparr>cb_hooks := rows\<rparr>)) (\<lambda>stored.
            Inr (stored, db\<lparr>cb_hooks := rows\<rparr>)))))"

definition UpsertHook :: "ID \<Rightarrow> hook \<Rightarrow> control_db \<Rightarrow> gerr + hook \<times> control_db" where
  "UpsertHook newID h0 db =
     (let h1 = h0\<lparr>hk_id := or_default (hk_id h0) (\<lambda>i. i = []) newID\<rparr>
      in bind_result (requireWorkspaceID (hk_workspace h1)) (\<lambda>_.
         if hk_connection h1 = [] \<or> hk_instance h1 = [] \<or> blank (hk_project h1) \<or> blank (hk_external h1)
         then fail ErrInvalid ''incomplete Hook identity''
         else let h = h1\<lparr>hk_provider := or_default (hk_provider h1) (\<lambda>s. s = []) ProviderGitLab,
                        hk_status := or_default (hk_status h1) (\<lambda>s. s = []) HookActive\<rparr>
         in bind_result (connection_workspace ''Hook'' (hk_workspace h) (hk_connection h) db) (\<lambda>_.
            if (case hk_signing h of None \<Rightarrow> False | Some r \<Rightarrow> secret_workspace r \<noteq> hk_workspace h)
            then fail ErrForbidden ''Hook signing secret belongs to another workspace''
            else write_hook h db)))"

section \<open>Routes\<close>

definition route_key :: "hook_route \<Rightarrow> ID \<times> ID \<times> string \<times> string \<times> ID \<times> int" where
  "route_key r = (hr_workspace r, hr_connection r, hr_behavior_key r, hr_behavior_version r, hr_flow r, hr_version r)"

definition route_clash :: "hook_route \<Rightarrow> hook_route \<Rightarrow> bool" where
  "route_clash a b \<longleftrightarrow> hr_id a = hr_id b \<or> route_key a = route_key b"

text \<open>The columns keep of the source project its instance and number.\<close>

definition source_ref :: "ID \<Rightarrow> string \<Rightarrow> project_ref" where
  "source_ref instanceID external =
     \<lparr>proj_instance = instanceID, proj_external = external, proj_group = [], proj_full_path = [], proj_name = [],
      proj_web_url = [], proj_ssh_url = [], proj_https_url = []\<rparr>"

definition source_columns :: "project_ref \<Rightarrow> project_ref" where
  "source_columns p = source_ref (proj_instance p) (proj_external p)"

definition write_route :: "hook_route \<Rightarrow> control_db \<Rightarrow> gerr + hook_route \<times> control_db" where
  "write_route route db =
     bind_result (marshalJSON (hr_filter route)) (\<lambda>filter.
       case List.find (\<lambda>r. route_key r = route_key route) (cb_routes db) of
         Some existing \<Rightarrow>
           bind_result (require_row ''update Hook route'' (hr_hook route \<in> hk_id ` set (cb_hooks db))) (\<lambda>_.
             Inr (route\<lparr>hr_id := hr_id existing\<rparr>, db\<lparr>cb_routes := update_rows
                    (\<lambda>r. hr_id r = hr_id existing \<and> hr_workspace r = hr_workspace route)
                    (\<lambda>r. r\<lparr>hr_source := source_columns (hr_source route), hr_filter := filter,
                           hr_hook := hr_hook route, hr_status := hr_status route\<rparr>) (cb_routes db)\<rparr>))
       | None \<Rightarrow>
           bind_result (require_row ''create Hook route''
             (hr_workspace route \<in> set (cb_workspaces db) \<and> hr_connection route \<in> cn_id ` set (cb_connections db) \<and>
              hr_hook route \<in> hk_id ` set (cb_hooks db))) (\<lambda>_.
           bind_result (insert_row ''create Hook route'' route_clash
             (route\<lparr>hr_source := source_columns (hr_source route), hr_filter := filter\<rparr>) (cb_routes db)) (\<lambda>rows.
             Inr (route, db\<lparr>cb_routes := rows\<rparr>))))"

definition upsertHookRouteTx :: "ID \<Rightarrow> hook_route \<Rightarrow> control_db \<Rightarrow> gerr + hook_route \<times> control_db" where
  "upsertHookRouteTx newID route0 db =
     (let route1 = route0\<lparr>hr_id := or_default (hr_id route0) (\<lambda>i. i = []) newID\<rparr>
      in bind_result (requireWorkspaceID (hr_workspace route1)) (\<lambda>_.
         if hr_connection route1 = [] \<or> hr_hook route1 = [] \<or> hr_flow route1 = [] \<or> hr_version route1 \<le> 0 \<or>
            blank (hr_behavior_key route1) \<or> blank (hr_behavior_version route1) \<or>
            blank (proj_external (hr_source route1))
         then fail ErrInvalid ''incomplete Hook route''
         else write_route (route1\<lparr>hr_status := or_default (hr_status route1) (\<lambda>s. s = []) HookActive\<rparr>) db))"

definition UpsertHookRoute :: "ID \<Rightarrow> hook_route \<Rightarrow> control_db \<Rightarrow> gerr + hook_route \<times> control_db" where
  "UpsertHookRoute = upsertHookRouteTx"

definition ActivateHookRoute :: "ID \<Rightarrow> hook_route \<Rightarrow> control_db \<Rightarrow> gerr + hook_route \<times> control_db" where
  "ActivateHookRoute newID route db =
     bind_result (upsertHookRouteTx newID route db) (\<lambda>(stored, db1).
       Inr (stored, disable_routes
         (\<lambda>r. hr_workspace r = hr_workspace stored \<and> hr_flow r = hr_flow stored \<and>
              hr_version r \<noteq> hr_version stored \<and> hr_status r \<noteq> HookDisabled) db1))"

definition DisableHookRoutesForFlow :: "ID \<Rightarrow> ID \<Rightarrow> int \<Rightarrow> control_db \<Rightarrow> gerr + control_db" where
  "DisableHookRoutesForFlow workspaceID flowID version db =
     (let target = (\<lambda>r. hr_workspace r = workspaceID \<and> hr_flow r = flowID \<and> (version = 0 \<or> hr_version r = version))
      in if \<not> list_ex target (cb_routes db) then fail ErrNotFound (''Hook route for flow '' @ flowID)
         else Inr (disable_routes target db))"

definition read_route :: "hook_route \<Rightarrow> gerr + hook_route" where
  "read_route r = bind_result (unmarshalJSON ''json'' (hr_filter r)) (\<lambda>filter. Inr (r\<lparr>hr_filter := filter\<rparr>))"

definition ListHookRoutes :: "ID \<Rightarrow> ID \<Rightarrow> control_db \<Rightarrow> gerr + hook_route list" where
  "ListHookRoutes workspaceID connectionID db =
     map_result read_route
       (sort_key (\<lambda>r. (hr_flow r, hr_version r))
         (filter (\<lambda>r. hr_workspace r = workspaceID \<and> hr_connection r = connectionID) (cb_routes db)))"

text \<open>A route is live when nothing on its way is disabled: the joins of the two route queries.\<close>

definition live_route :: "control_db \<Rightarrow> hook_route \<Rightarrow> bool" where
  "live_route db r \<longleftrightarrow>
     hr_status r = HookActive \<and>
     list_ex (\<lambda>c. cn_id c = hr_connection r \<and> cn_workspace c = hr_workspace r \<and> cn_status c \<noteq> ConnectionDisabled)
       (cb_connections db) \<and>
     list_ex (\<lambda>f. fl_id f = hr_flow r \<and> fl_workspace f = hr_workspace r \<and> fl_status f = FlowPublished)
       (fd_flows (cb_flows db)) \<and>
     list_ex (\<lambda>v. fv_flow v = hr_flow r \<and> fv_workspace v = hr_workspace r \<and> fv_version v = hr_version r \<and>
                  fv_status v = FlowPublished) (fd_versions (cb_flows db))"

definition ListActiveHookRoutesForEvent ::
  "ID \<Rightarrow> ID \<Rightarrow> string \<Rightarrow> string \<Rightarrow> string \<Rightarrow> control_db \<Rightarrow> gerr + hook_route list" where
  "ListActiveHookRoutesForEvent workspaceID instanceID project behaviorKey behaviorVersion db =
     map_result (\<lambda>r. read_route (r\<lparr>hr_behavior_key := [], hr_behavior_version := []\<rparr>))
       (sort_key (\<lambda>r. (hr_flow r, hr_version r))
         (filter (\<lambda>r. hr_workspace r = workspaceID \<and> proj_instance (hr_source r) = instanceID \<and>
                      proj_external (hr_source r) = project \<and> hr_behavior_key r = behaviorKey \<and>
                      hr_behavior_version r = behaviorVersion \<and> live_route db r) (cb_routes db)))"

definition ListHookRoutesForProject :: "ID \<Rightarrow> string \<Rightarrow> control_db \<Rightarrow> gerr + hook_route list" where
  "ListHookRoutesForProject instanceID project db =
     map_result read_route
       (sort_key (\<lambda>r. (hr_workspace r, hr_flow r, hr_version r))
         (filter (\<lambda>r. (instanceID = [] \<or> proj_instance (hr_source r) = instanceID) \<and>
                      proj_external (hr_source r) = project \<and> live_route db r) (cb_routes db)))"

end
