(* ===== verification/Simulation.thy ===== *)
theory Simulation
  imports Validation
begin

text \<open>
  \<open>internal/flow/simulation.go\<close>: the dry run of a draft against one sample event. It validates
  the graph as for publication, walks it in topological order, passes values along the edges and
  stops before every output connector. The inputs of the nodes are a map from a node to a map from
  its ports to values; \<open>active\<close> is the set of nodes something was sent to.
\<close>

section \<open>The trace\<close>

record sim_node =
  sn_id :: ID
  sn_name :: string
  sn_kind :: string
  sn_status :: string
  sn_input :: gobj
  sn_output :: "gobj option"
  sn_error :: string
  sn_suppressed :: bool

record sim_result =
  sr_valid :: bool
  sr_diagnostics :: "diagnostic list"
  sr_nodes :: "sim_node list"
  sr_suppressed :: bool

section \<open>One node\<close>

definition node_fields :: "gval \<Rightarrow> gobj" where
  "node_fields v = (case as_obj v of Some m \<Rightarrow> m | None \<Rightarrow> [(''value'', v)])"

text \<open>
  The last resort, \<open>range inputs\<close>, takes the first object the map yields: the first in the order of
  the list.
\<close>

definition simulationNodeInput :: "flow_node \<Rightarrow> gobj option \<Rightarrow> gobj" where
  "simulationNodeInput n inputs =
     (case inputs of None \<Rightarrow> []
      | Some m \<Rightarrow>
          if node_kind n = NodeConnector \<and> as_obj (obj_get m ''event'') \<noteq> None
          then [(''event'', obj_get m ''event'')]
          else case List.find (\<lambda>p. has_key m (port_id p)) (node_inputs n) of
              Some p \<Rightarrow> node_fields (obj_get m (port_id p))
            | None \<Rightarrow>
                (case List.find (\<lambda>kv. as_obj (snd kv) \<noteq> None) m of
                   Some kv \<Rightarrow> object_of (snd kv) | None \<Rightarrow> m))"

definition simulationValue :: "gval \<Rightarrow> gobj option" where
  "simulationValue v = (if v = VNil then None else Some (node_fields v))"

definition simulate_generic ::
  "flow_node \<Rightarrow> generic_node \<Rightarrow> gobj \<Rightarrow> catalog \<Rightarrow> runtime_context \<Rightarrow> gerr + gval" where
  "simulate_generic n gen input c rc =
     (let model = fixedModel (gen_bindings gen) ''model'' in
      if gen_type gen = GenericParseNormalize then
        (if model = [] then fail ErrInvalid ''Parse/Normalize model is required''
         else bind_result (ParseNormalizeWithCatalog (Some input) model rc c) (\<lambda>m. Inr (VObj m)))
      else if gen_type gen = GenericMappingTemplate then
        (if model = [] then fail ErrInvalid ''Mapping/Template target model is required''
         else bind_result (simulationMapping (node_config n) gen model) (\<lambda>spec.
              bind_result (ApplyMapping input spec rc) (\<lambda>m.
              bind_result (ValidateModelValue c model m) (\<lambda>_. Inr (VObj m)))))
      else if gen_type gen = GenericConditionFilter then
        bind_result (simulationFilter (node_config n)) (\<lambda>f.
        bind_result (EvaluateFilter input f) (\<lambda>matched. Inr (if matched then VObj input else VNil)))
      else fail ErrInvalid (''unsupported generic node '' @ gen_type gen))"

definition simulateNode ::
  "flow_node \<Rightarrow> gobj \<Rightarrow> catalog \<Rightarrow> runtime_context \<Rightarrow> gerr + gval \<times> bool" where
  "simulateNode n input c rc =
     (if node_kind n = NodeConnector then
        (case node_connector n of
           None \<Rightarrow> fail ErrInvalid ''connector node configuration is missing''
         | Some cn \<Rightarrow>
             (case catalog_behavior c (conn_behavior_key cn) (conn_behavior_version cn) of
                None \<Rightarrow> fail ErrInvalid ''connector behavior is not registered''
              | Some b \<Rightarrow> if bh_direction b = DirectionInput
                          then Inr (obj_get input ''event'', False) else Inr (VObj input, True)))
      else if node_kind n = NodeGeneric then
        (case node_generic n of
           None \<Rightarrow> fail ErrInvalid ''generic node configuration is missing''
         | Some gen \<Rightarrow> bind_result (simulate_generic n gen input c rc) (\<lambda>v. Inr (v, False)))
      else if node_kind n = NodeTerminal then Inr (VObj input, False)
      else fail ErrInvalid (''unsupported node kind '' @ node_kind n))"

section \<open>The walk\<close>

type_synonym port_inputs = "(ID, gobj) gomap"

definition deliver :: "gval \<Rightarrow> flow_edge \<Rightarrow> port_inputs \<times> ID list \<Rightarrow> port_inputs \<times> ID list" where
  "deliver v e st =
     (let m = (case map_of (fst st) (edge_to e) of None \<Rightarrow> [] | Some m \<Rightarrow> m)
      in (AList.update (edge_to e) (obj_set m (edge_to_port e) v) (fst st), edge_to e # snd st))"

definition propagate :: "flow_graph \<Rightarrow> ID \<Rightarrow> gval \<Rightarrow> port_inputs \<times> ID list \<Rightarrow> port_inputs \<times> ID list" where
  "propagate g k v st = fold (deliver v) (filter (\<lambda>e. edge_from e = k) (graph_edges g)) st"

definition is_filter_node :: "flow_node \<Rightarrow> bool" where
  "is_filter_node n =
     (node_kind n = NodeGeneric \<and>
      (\<exists>gen \<in> set_option (node_generic n). gen_type gen = GenericConditionFilter))"

definition trace_of :: "flow_node \<Rightarrow> string \<Rightarrow> gobj \<Rightarrow> gobj option \<Rightarrow> string \<Rightarrow> bool \<Rightarrow> sim_node" where
  "trace_of n status input out err suppressed =
     \<lparr>sn_id = node_id n, sn_name = node_name n, sn_kind = node_kind n, sn_status = status,
      sn_input = input, sn_output = out, sn_error = err, sn_suppressed = suppressed\<rparr>"

text \<open>\<open>nodes[nodeID]\<close> of an unknown identifier is the zero node; the order holds no such identifier.\<close>

definition node_at :: "flow_graph \<Rightarrow> ID \<Rightarrow> flow_node" where
  "node_at g k = (case find_node g k of None \<Rightarrow> bare_node [] [] | Some n \<Rightarrow> n)"

text \<open>The loop over the order: the trace it appends, and whether it got to the end.\<close>

fun sim_loop ::
  "flow_graph \<Rightarrow> catalog \<Rightarrow> runtime_context \<Rightarrow> port_inputs \<times> ID list \<Rightarrow> ID list \<Rightarrow> sim_node list \<times> bool" where
  "sim_loop g c rc st [] = ([], True)"
| "sim_loop g c rc st (k # ks) =
     (if k \<notin> set (snd st) then sim_loop g c rc st ks
      else
        let n = node_at g k; input = simulationNodeInput n (map_of (fst st) k) in
        case simulateNode n input c rc of
          Inl e \<Rightarrow> ([trace_of n ''failed'' input None (err_text e) False], False)
        | Inr (v, suppressed) \<Rightarrow>
            if v = VNil \<and> is_filter_node n
            then let (ts, ok) = sim_loop g c rc st ks
                 in (trace_of n ''skipped'' input None [] suppressed # ts, ok)
            else let (ts, ok) = sim_loop g c rc (propagate g k v st) ks
                 in (trace_of n (if suppressed then ''suppressed'' else ''succeeded'') input
                       (simulationValue v) [] suppressed # ts, ok))"

definition simulationInputID :: "flow_graph \<Rightarrow> catalog \<Rightarrow> ID" where
  "simulationInputID g c =
     (case List.find (is_input c) (graph_nodes g) of None \<Rightarrow> [] | Some n \<Rightarrow> node_id n)"

definition Simulate ::
  "flow_graph \<Rightarrow> catalog \<Rightarrow> gobj option \<Rightarrow> runtime_context \<Rightarrow> sim_result" where
  "Simulate g c event rc =
     (let v = Validate c g True;
          result = \<lparr>sr_valid = vr_valid v, sr_diagnostics = vr_diagnostics v, sr_nodes = [],
                    sr_suppressed = True\<rparr>;
          reject = (\<lambda>ds. result\<lparr>sr_valid := False, sr_diagnostics := vr_diagnostics v @ ds\<rparr>)
      in case event of
           None \<Rightarrow> reject (diag ''sample_event'' ''required'' ''sample event is required'')
         | Some ev \<Rightarrow>
             if \<not> vr_valid v then result
             else case simulationOrder g of
                 Inl e \<Rightarrow> reject (diag ''graph'' ''invalid_graph'' (err_text e))
               | Inr order \<Rightarrow>
                   let inputID = simulationInputID g c in
                   if inputID = [] then reject (diag ''graph'' ''input_count'' ''input ConnectorNode is required'')
                   else let (ts, ok) = sim_loop g c rc
                              ([(inputID, [(''event'', VObj ev)])], [inputID]) order
                        in result\<lparr>sr_valid := ok, sr_nodes := ts\<rparr>)"

section \<open>What the trace shows\<close>

definition delivered :: "sim_node \<Rightarrow> bool" where
  "delivered t = (sn_status t \<in> {''succeeded'', ''suppressed''})"

lemma trace_of_simps [simp]:
  "sn_id (trace_of n s i oo e b) = node_id n" "sn_kind (trace_of n s i oo e b) = node_kind n"
  "sn_status (trace_of n s i oo e b) = s" "sn_input (trace_of n s i oo e b) = i"
  "sn_output (trace_of n s i oo e b) = oo" "sn_error (trace_of n s i oo e b) = e"
  "sn_suppressed (trace_of n s i oo e b) = b"
  by (simp_all add: trace_of_def)

text \<open>The three ways a step of the loop goes.\<close>

lemma sim_loop_cases:
  assumes "sim_loop g c rc st (k # ks) = (ts, ok)"
  obtains (idle) "k \<notin> set (snd st)" "sim_loop g c rc st ks = (ts, ok)"
  | (failed) n input e where "k \<in> set (snd st)" "n = node_at g k" "simulateNode n input c rc = Inl e"
      "ts = [trace_of n ''failed'' input None (err_text e) False]" "\<not> ok"
  | (skipped) n input b ts' where "k \<in> set (snd st)" "n = node_at g k"
      "simulateNode n input c rc = Inr (VNil, b)" "is_filter_node n"
      "ts = trace_of n ''skipped'' input None [] b # ts'" "sim_loop g c rc st ks = (ts', ok)"
  | (passed) n input v b ts' where "k \<in> set (snd st)" "n = node_at g k"
      "simulateNode n input c rc = Inr (v, b)"
      "ts = trace_of n (if b then ''suppressed'' else ''succeeded'') input (simulationValue v) [] b # ts'"
      "sim_loop g c rc (propagate g k v st) ks = (ts', ok)"
proof (cases "k \<in> set (snd st)")
  case False
  with assms idle show thesis by simp
next
  case True
  let ?n = "node_at g k"
  let ?i = "simulationNodeInput ?n (map_of (fst st) k)"
  show thesis
  proof (cases "simulateNode ?n ?i c rc")
    case (Inl e)
    with True assms failed [of ?n ?i e] show thesis by (simp add: Let_def)
  next
    case (Inr vb)
    obtain v b where vb: "vb = (v, b)" by (cases vb)
    show thesis
    proof (cases "v = VNil \<and> is_filter_node ?n")
      case True
      obtain ts' ok' where "sim_loop g c rc st ks = (ts', ok')" by fastforce
      with True Inr vb \<open>k \<in> set (snd st)\<close> assms skipped [of ?n ?i b ts'] show thesis
        by (simp add: Let_def)
    next
      case False
      obtain ts' ok' where "sim_loop g c rc (propagate g k v st) ks = (ts', ok')" by fastforce
      with False Inr vb \<open>k \<in> set (snd st)\<close> assms passed [of ?n ?i v b ts'] show thesis
        by (auto simp: Let_def)
    qed
  qed
qed

lemma sim_loop_subseq:
  "sim_loop g c rc st ks = (ts, ok) \<Longrightarrow> \<forall>k \<in> set ks. node_id (node_at g k) = k \<Longrightarrow>
     subseq (map sn_id ts) ks"
proof (induction ks arbitrary: st ts)
  case (Cons k ks)
  have k: "node_id (node_at g k) = k" and ks: "\<forall>k \<in> set ks. node_id (node_at g k) = k"
    using Cons.prems(2) by simp_all
  from Cons.prems(1) show ?case
  proof (cases rule: sim_loop_cases)
    case idle
    with Cons.IH [OF idle(2) ks] show ?thesis by (simp add: list_emb_Cons)
  next
    case failed
    with k show ?thesis by (simp add: subseq_singleton_left)
  next
    case (skipped n input b ts')
    with Cons.IH [OF skipped(6) ks] k show ?thesis by simp
  next
    case (passed n input v b ts')
    with Cons.IH [OF passed(5) ks] k show ?thesis by simp
  qed
qed simp

definition traces :: "flow_node \<Rightarrow> catalog \<Rightarrow> runtime_context \<Rightarrow> sim_node \<Rightarrow> bool" where
  "traces n c rc t =
     (sn_id t = node_id n \<and> sn_kind t = node_kind n \<and>
      (case simulateNode n (sn_input t) c rc of
         Inl e \<Rightarrow> sn_status t = ''failed'' \<and> sn_error t = err_text e
       | Inr (v, b) \<Rightarrow> sn_suppressed t = b \<and>
           (if v = VNil \<and> is_filter_node n
            then sn_status t = ''skipped'' \<or> sn_status t = (if b then ''suppressed'' else ''succeeded'')
            else sn_status t = (if b then ''suppressed'' else ''succeeded'') \<and>
                 sn_output t = simulationValue v)))"

lemma sim_loop_node:
  "sim_loop g c rc st ks = (ts, ok) \<Longrightarrow> t \<in> set ts \<Longrightarrow> \<exists>k \<in> set ks. traces (node_at g k) c rc t"
proof (induction ks arbitrary: st ts)
  case (Cons k ks)
  from Cons.prems(1) show ?case
  proof (cases rule: sim_loop_cases)
    case idle
    from Cons.IH [OF idle(2) Cons.prems(2)] show ?thesis by (meson list.set_intros(2))
  next
    case failed
    with Cons.prems(2) show ?thesis by (intro bexI [of _ k]) (auto simp: traces_def)
  next
    case (skipped n input b ts')
    show ?thesis
    proof (cases "t \<in> set ts'")
      case True
      from Cons.IH [OF skipped(6) this] show ?thesis by (meson list.set_intros(2))
    next
      case False
      with skipped Cons.prems(2) show ?thesis by (intro bexI [of _ k]) (auto simp: traces_def)
    qed
  next
    case (passed n input v b ts')
    show ?thesis
    proof (cases "t \<in> set ts'")
      case True
      from Cons.IH [OF passed(5) this] show ?thesis by (meson list.set_intros(2))
    next
      case False
      with passed Cons.prems(2) show ?thesis by (intro bexI [of _ k]) (auto simp: traces_def)
    qed
  qed
qed simp

lemma propagate_active:
  "set (snd (propagate g k v st)) = set (snd st) \<union> {j. (k, j) \<in> arcs g}"
proof -
  have "set (snd (fold (deliver v) es st)) = set (snd st) \<union> set (map edge_to es)" for es
    by (induction es arbitrary: st) (auto simp: deliver_def Let_def)
  then show ?thesis by (auto simp: propagate_def arcs_def image_iff)
qed

lemma sim_loop_causes:
  "sim_loop g c rc st ks = (us @ t # vs, ok) \<Longrightarrow> \<forall>k \<in> set ks. node_id (node_at g k) = k \<Longrightarrow>
     sn_id t \<in> set (snd st) \<or> (\<exists>u \<in> set us. delivered u \<and> (sn_id u, sn_id t) \<in> arcs g)"
proof (induction ks arbitrary: st us)
  case (Cons k ks)
  from Cons.prems(1) show ?case
  proof (cases rule: sim_loop_cases)
    case idle
    with Cons show ?thesis by simp
  next
    case failed
    with Cons.prems(2) show ?thesis by (cases us) auto
  next
    case (skipped n input b ts')
    show ?thesis
    proof (cases us)
      case Nil
      with skipped Cons.prems(2) show ?thesis by auto
    next
      case (Cons u us')
      with skipped Cons.IH [of st us'] Cons.prems(2) show ?thesis by auto
    qed
  next
    case (passed n input v b ts')
    show ?thesis
    proof (cases us)
      case Nil
      with passed Cons.prems(2) show ?thesis by auto
    next
      case (Cons u us')
      then have u: "delivered u" "sn_id u = k" "us' @ t # vs = ts'"
        using passed Cons.prems(2) by (auto simp: delivered_def)
      from Cons.IH [of "propagate g k v st" us'] passed u(3) Cons.prems(2)
      have "sn_id t \<in> set (snd st) \<or> (k, sn_id t) \<in> arcs g \<or>
          (\<exists>u \<in> set us'. delivered u \<and> (sn_id u, sn_id t) \<in> arcs g)"
        by (simp add: propagate_active)
      with u Cons show ?thesis by auto
    qed
  qed
qed simp

text \<open>The node the walk starts from, and what a trace that is not empty was made of.\<close>

lemma input_node_id:
  "filter (is_input c) (graph_nodes g) = [n] \<Longrightarrow> simulationInputID g c = node_id n"
  by (simp add: simulationInputID_def find_filter)

lemma node_at_id: "distinct (graph_ids g) \<Longrightarrow> k \<in> set (graph_ids g) \<Longrightarrow>
    find_node g k = Some (node_at g k) \<and> node_id (node_at g k) = k"
proof -
  assume d: "distinct (graph_ids g)" and "k \<in> set (graph_ids g)"
  then obtain n where n: "n \<in> set (graph_nodes g)" "node_id n = k" by auto
  then have "find_node g k = Some n" using find_node_iff [OF d] by blast
  then show ?thesis using n(2) by (simp add: node_at_def)
qed

lemma Simulate_trace:
  assumes "t \<in> set (sr_nodes (Simulate g c event rc))"
  obtains ev order n where "event = Some ev" "vr_valid (Validate c g True)"
    "executionOrder g = Inr order" "filter (is_input c) (graph_nodes g) = [n]"
    "sim_loop g c rc ([(node_id n, [(''event'', VObj ev)])], [node_id n]) order =
       (sr_nodes (Simulate g c event rc), sr_valid (Simulate g c event rc))"
    "\<forall>k \<in> set order. find_node g k = Some (node_at g k) \<and> node_id (node_at g k) = k"
proof -
  from assms obtain ev where ev: "event = Some ev" and v: "vr_valid (Validate c g True)"
    by (auto simp: Simulate_def Let_def split: option.splits if_splits)
  obtain order where o: "simulationOrder g = Inr order" using valid_simulation_order [OF v] by blast
  obtain n where n: "filter (is_input c) (graph_nodes g) = [n]" using valid_one_input [OF v] by blast
  obtain ts ok where l: "sim_loop g c rc ([(node_id n, [(''event'', VObj ev)])], [node_id n]) order = (ts, ok)"
    by fastforce
  have d: "distinct (graph_ids g)" using v valid_iff well_shaped_distinct by blast
  have "sr_nodes (Simulate g c event rc) = ts \<and> sr_valid (Simulate g c event rc) = ok"
    using assms ev v o l input_node_id [OF n]
    by (auto simp: Simulate_def Let_def split: if_splits)
  moreover have "executionOrder g = Inr order" using o by (simp add: simulationOrder_def executionOrder_def)
  moreover have "\<forall>k \<in> set order. find_node g k = Some (node_at g k) \<and> node_id (node_at g k) = k"
    using node_at_id [OF d] simulation.sound [OF d o] by blast
  ultimately show thesis using that ev v n l by blast
qed

text \<open>
  C6: no dry run executes an output. Every connector in the trace of \<open>Simulate\<close> is the flow's input
  or is marked suppressed, with its input recorded as what would have been sent, whatever the graph,
  the sample event and the catalog.
\<close>

theorem Simulate_suppresses_outputs:
  assumes "t \<in> set (sr_nodes (Simulate g c event rc))" "sn_kind t = NodeConnector"
  shows "(\<exists>n. find_node g (sn_id t) = Some n \<and> is_input c n) \<or>
         sn_suppressed t \<and> sn_status t = ''suppressed'' \<and> sn_output t = Some (sn_input t)"
proof -
  obtain ev order m where "event = Some ev" and v: "vr_valid (Validate c g True)" and
    o: "executionOrder g = Inr order" and m: "filter (is_input c) (graph_nodes g) = [m]" and
    l: "sim_loop g c rc ([(node_id m, [(''event'', VObj ev)])], [node_id m]) order =
       (sr_nodes (Simulate g c event rc), sr_valid (Simulate g c event rc))" and
    at: "\<forall>k \<in> set order. find_node g k = Some (node_at g k) \<and> node_id (node_at g k) = k"
    by (rule Simulate_trace [OF assms(1)])
  from sim_loop_node [OF l assms(1)] obtain k where k: "k \<in> set order"
    and r: "traces (node_at g k) c rc t" by blast
  then have t: "sn_id t = node_id (node_at g k)" "sn_kind t = node_kind (node_at g k)"
    by (simp_all add: traces_def)
  let ?n = "node_at g k"
  have f: "find_node g (sn_id t) = Some ?n" using at k t(1) by simp
  have w: "well_shaped g" and nd: "validate_diagnostics c g True = []" using v valid_iff by blast+
  have mem: "?n \<in> set (graph_nodes g)" using f find_node_iff [OF well_shaped_distinct [OF w]] by blast
  obtain i where "validateNode c (i, ?n) = []" using no_diagnostics(1) [OF nd mem] by blast
  moreover have "kind_ok ?n" using w mem by (simp add: well_shaped_def)
  ultimately obtain cn b where cn: "node_connector ?n = Some cn" "node_behavior c ?n = Some b"
    using valid_node_connector assms(2) t(2) by metis
  show ?thesis
  proof (cases "bh_direction b = DirectionInput")
    case True
    with cn assms(2) t(2) have "is_input c ?n" by (simp add: is_input_def)
    with f show ?thesis by blast
  next
    case False
    with cn assms(2) t(2) have "simulateNode ?n (sn_input t) c rc = Inr (VObj (sn_input t), True)"
      by (simp add: simulateNode_def node_behavior_def)
    with r show ?thesis by (simp add: traces_def simulationValue_def node_fields_def)
  qed
qed

text \<open>
  The trace follows the flow: it visits nodes of the executor's order, each at most once and in
  that order, and a node other than the input is visited only after one of its predecessors
  delivered a value to it. What a filter skips is never followed.
\<close>

theorem Simulate_trace_causal:
  assumes "sr_nodes (Simulate g c event rc) = us @ t # vs"
  shows "(\<exists>order. executionOrder g = Inr order \<and> subseq (map sn_id (us @ t # vs)) order) \<and>
         distinct (map sn_id (us @ t # vs)) \<and>
         (sn_id t = simulationInputID g c \<or>
          (\<exists>u \<in> set us. delivered u \<and> (sn_id u, sn_id t) \<in> arcs g))"
proof -
  have tin: "t \<in> set (sr_nodes (Simulate g c event rc))" using assms by simp
  obtain ev order m where "event = Some ev" and v: "vr_valid (Validate c g True)" and
    o: "executionOrder g = Inr order" and m: "filter (is_input c) (graph_nodes g) = [m]" and
    l: "sim_loop g c rc ([(node_id m, [(''event'', VObj ev)])], [node_id m]) order =
       (sr_nodes (Simulate g c event rc), sr_valid (Simulate g c event rc))" and
    at: "\<forall>k \<in> set order. find_node g k = Some (node_at g k) \<and> node_id (node_at g k) = k"
    by (rule Simulate_trace [OF tin])
  note l' = l [unfolded assms]
  have sub: "subseq (map sn_id (us @ t # vs)) order" using sim_loop_subseq [OF l'] at by blast
  have "distinct (graph_ids g)" using v valid_iff well_shaped_distinct by blast
  then have "distinct order" using execution.sound o by blast
  with sub have "distinct (map sn_id (us @ t # vs))" by (rule subseq_distinct_mono)
  moreover have "sn_id t \<in> set [node_id m] \<or> (\<exists>u \<in> set us. delivered u \<and> (sn_id u, sn_id t) \<in> arcs g)"
    using sim_loop_causes [OF l'] at by simp
  ultimately show ?thesis using sub o input_node_id [OF m] by auto
qed

text \<open>
  On a graph that is valid for publication a dry run can only fail inside a generic node, on the
  data of the event: no connector or terminal fails, and no node is found without the configuration
  its kind needs.
\<close>

theorem Simulate_fails_only_in_generic:
  assumes "t \<in> set (sr_nodes (Simulate g c event rc))" "sn_status t = ''failed''"
  shows "\<exists>n gen. find_node g (sn_id t) = Some n \<and> node_kind n = NodeGeneric \<and>
           node_generic n = Some gen \<and> supportedGeneric (gen_type gen)"
proof -
  obtain ev order m where "event = Some ev" and v: "vr_valid (Validate c g True)" and
    o: "executionOrder g = Inr order" and m: "filter (is_input c) (graph_nodes g) = [m]" and
    l: "sim_loop g c rc ([(node_id m, [(''event'', VObj ev)])], [node_id m]) order =
       (sr_nodes (Simulate g c event rc), sr_valid (Simulate g c event rc))" and
    at: "\<forall>k \<in> set order. find_node g k = Some (node_at g k) \<and> node_id (node_at g k) = k"
    by (rule Simulate_trace [OF assms(1)])
  from sim_loop_node [OF l assms(1)] obtain k where k: "k \<in> set order"
    and r: "traces (node_at g k) c rc t" by blast
  then have t: "sn_id t = node_id (node_at g k)" "sn_kind t = node_kind (node_at g k)"
    by (simp_all add: traces_def)
  let ?n = "node_at g k"
  have f: "find_node g (sn_id t) = Some ?n" using at k t(1) by simp
  have w: "well_shaped g" and nd: "validate_diagnostics c g True = []" using v valid_iff by blast+
  have mem: "?n \<in> set (graph_nodes g)" using f find_node_iff [OF well_shaped_distinct [OF w]] by blast
  obtain i where i: "validateNode c (i, ?n) = []" using no_diagnostics(1) [OF nd mem] by blast
  have ko: "kind_ok ?n" using w mem by (simp add: well_shaped_def)
  show ?thesis
  proof (cases "node_kind ?n = NodeGeneric")
    case True
    with ko obtain gen where gen: "node_generic ?n = Some gen" by (auto simp: kind_ok_def)
    with valid_node_generic(1) [OF i True gen] True f show ?thesis by blast
  next
    case False
    have "\<exists>vb. simulateNode ?n (sn_input t) c rc = Inr vb"
      using False ko valid_node_connector [OF i _ ko]
      by (auto simp: simulateNode_def node_behavior_def kind_ok_def ex_bool_eq)
    with r assms(2) False show ?thesis by (auto simp: traces_def is_filter_node_def split: if_splits)
  qed
qed

section \<open>A concrete dry run\<close>

definition sample_run :: sim_result where
  "sample_run = Simulate sample_graph sample_catalog (Some [(''id'', VStr ''7'')]) sample_context"

lemma sample_run_nodes:
  "map (\<lambda>t. (sn_id t, sn_status t)) (sr_nodes sample_run) =
     [(''i'', ''succeeded''), (''f'', ''succeeded''), (''o'', ''suppressed'')]"
  by code_simp

lemma sample_run_split:
  "sr_nodes sample_run = take 2 (sr_nodes sample_run) @ (sr_nodes sample_run ! 2) # []"
  "sn_id (sr_nodes sample_run ! 2) = ''o''" "sn_kind (sr_nodes sample_run ! 2) = NodeConnector"
  by code_simp+

text \<open>The same flow with a padded operator: valid for publication, and failing in the filter.\<close>

definition padded_graph :: flow_graph where
  "padded_graph = sample_graph\<lparr>graph_nodes :=
     [sample_connector ''i'' ''hook'',
      sample_filter_node\<lparr>node_config := Some [(''filter'', VObj [(''op'', VStr '' equals''),
         (''field'', VStr ''id''), (''value'', VStr ''7'')])]\<rparr>,
      sample_connector ''o'' ''sink'']\<rparr>"

definition padded_run :: sim_result where
  "padded_run = Simulate padded_graph sample_catalog (Some [(''id'', VStr ''7'')]) sample_context"

lemma padded_run_nodes:
  "map (\<lambda>t. (sn_id t, sn_status t)) (sr_nodes padded_run) = [(''i'', ''succeeded''), (''f'', ''failed'')]"
  by code_simp

theorem Simulate_suppresses_outputs_witness:
  "(\<exists>n. find_node sample_graph ''o'' = Some n \<and> is_input sample_catalog n) \<or>
   sn_suppressed (sr_nodes sample_run ! 2)"
proof -
  have "sr_nodes sample_run ! 2 \<in> set (sr_nodes sample_run)"
    by (metis in_set_conv_decomp sample_run_split(1))
  from Simulate_suppresses_outputs [OF this [unfolded sample_run_def]] sample_run_split(2,3)
  show ?thesis unfolding sample_run_def by auto
qed

theorem Simulate_trace_causal_witness:
  "distinct (map sn_id (take 2 (sr_nodes sample_run) @ [sr_nodes sample_run ! 2]))"
  using Simulate_trace_causal [OF sample_run_split(1) [unfolded sample_run_def]]
  unfolding sample_run_def by blast

theorem Simulate_fails_only_in_generic_witness:
  "\<exists>n. find_node padded_graph ''f'' = Some n \<and> node_kind n = NodeGeneric"
proof -
  obtain a b where "sr_nodes padded_run = [a, b]" "sn_id b = ''f''" "sn_status b = ''failed''"
    using padded_run_nodes by auto
  with Simulate_fails_only_in_generic [of b padded_graph sample_catalog "Some [(''id'', VStr ''7'')]" sample_context]
  show ?thesis unfolding padded_run_def by auto
qed

end
