(* ===== verification/FlowService.thy ===== *)
theory FlowService
  imports FlowStore Simulation
begin

text \<open>
  \<open>flow/service.go\<close>: drafts are edited and validated, published into immutable versions, paused and
  archived. An operation yields its result and the state it leaves, as it is not one transaction
  and keeps what it stored before it failed. The catalog of a workspace and the activation of
  webhook routes are the two interfaces the service is given: \<open>resolve\<close> and \<open>routes\<close>; neither changes
  the tables of this theory.
\<close>

record route_activator =
  ActivateInputFlow :: "flow_version \<Rightarrow> gerr + unit"
  PauseInputFlow :: "flow_version \<Rightarrow> gerr + unit"

type_synonym ('a) service = "(gerr + 'a) \<times> flow_db"

text \<open>The next call of a handler: an error returns at once, with the state reached.\<close>

fun and_then :: "(gerr + 'a) \<times> 's \<Rightarrow> ('a \<Rightarrow> 's \<Rightarrow> (gerr + 'b) \<times> 's) \<Rightarrow> (gerr + 'b) \<times> 's" where
  "and_then (Inl e, s) f = (Inl e, s)"
| "and_then (Inr a, s) f = f a s"

text \<open>A transaction of the store, and a query, as such calls.\<close>

definition mutate :: "gerr + 's \<Rightarrow> 's \<Rightarrow> (gerr + unit) \<times> 's" where
  "mutate r s = (case r of Inl e \<Rightarrow> (Inl e, s) | Inr s' \<Rightarrow> (Inr (), s'))"

definition query :: "gerr + 'a \<Rightarrow> 's \<Rightarrow> (gerr + 'a) \<times> 's" where
  "query r s = (r, s)"

lemma and_then_Inr [err_simps]:
  "and_then p f = (Inr b, s'') \<longleftrightarrow> (\<exists>a s'. p = (Inr a, s') \<and> f a s' = (Inr b, s''))"
  by (cases "(p, f)" rule: and_then.cases) auto

lemma mutate_Inr [err_simps]: "mutate r s = (Inr u, s') \<longleftrightarrow> r = Inr s'"
  by (auto simp: mutate_def split: sum.splits)

lemma query_Inr [err_simps]: "query r s = (Inr a, s') \<longleftrightarrow> r = Inr a \<and> s' = s"
  by (auto simp: query_def)

section \<open>Creation and drafts\<close>

definition SeedBuiltins :: "ID list \<Rightarrow> ID \<Rightarrow> flow_db \<Rightarrow> unit service" where
  "SeedBuiltins newIDs workspaceID db = SeedFlowTemplates workspaceID (zip newIDs BuiltinTemplates) db"

definition new_flow :: "gtime \<Rightarrow> ID \<Rightarrow> ID \<Rightarrow> ID \<Rightarrow> ID \<Rightarrow> string \<Rightarrow> flow" where
  "new_flow now newID workspaceID connectionID actorID name =
     \<lparr>fl_id = newID, fl_workspace = workspaceID, fl_connection = connectionID, fl_name = name,
      fl_description = [], fl_status = FlowDraft, fl_active = 0, fl_created_by = actorID, fl_updated = now\<rparr>"

definition create_with_draft :: "gtime \<Rightarrow> flow \<Rightarrow> flow_graph \<Rightarrow> flow_db \<Rightarrow> flow service" where
  "create_with_draft now f g db =
     and_then (mutate (CreateFlow now f db) db) (\<lambda>_ db1.
     and_then (mutate (SaveFlowDraft now (fl_workspace f) (fl_id f) g db1) db1) (\<lambda>_ db2. (Inr f, db2)))"

definition CreateBlank :: "gtime \<Rightarrow> ID \<Rightarrow> ID \<Rightarrow> ID \<Rightarrow> ID \<Rightarrow> string \<Rightarrow> flow_db \<Rightarrow> flow service" where
  "CreateBlank now newID workspaceID connectionID actorID name db =
     create_with_draft now (new_flow now newID workspaceID connectionID actorID (trim_space name)) empty_graph db"

definition firstNonEmptyFlowName :: "string \<Rightarrow> string \<Rightarrow> string" where
  "firstNonEmptyFlowName name fallback = (if \<not> blank name then trim_space name else fallback)"

definition CreateFromTemplate ::
  "gtime \<Rightarrow> ID \<Rightarrow> ID \<Rightarrow> ID \<Rightarrow> ID \<Rightarrow> string \<Rightarrow> string \<Rightarrow> string \<Rightarrow> flow_db \<Rightarrow> flow service" where
  "CreateFromTemplate now newID workspaceID connectionID actorID key version name db =
     and_then (query (GetFlowTemplate workspaceID key version db) db) (\<lambda>t db1.
       create_with_draft now
         (new_flow now newID workspaceID connectionID actorID (firstNonEmptyFlowName name (ft_name t)))
         (cloneGraph (ft_graph t)) db1)"

definition SaveDraft ::
  "(ID \<Rightarrow> gerr + catalog) \<Rightarrow> gtime \<Rightarrow> ID \<Rightarrow> ID \<Rightarrow> flow_graph \<Rightarrow> flow_db \<Rightarrow> validation_result service" where
  "SaveDraft resolve now workspaceID flowID g db =
     and_then (mutate (SaveFlowDraft now workspaceID flowID g db) db) (\<lambda>_ db1.
     and_then (query (resolve workspaceID) db1) (\<lambda>c db2. (Inr (Validate c g False), db2)))"

definition ValidateDraft :: "(ID \<Rightarrow> gerr + catalog) \<Rightarrow> ID \<Rightarrow> ID \<Rightarrow> flow_db \<Rightarrow> validation_result service" where
  "ValidateDraft resolve workspaceID flowID db =
     and_then (query (GetFlowDraft workspaceID flowID db) db) (\<lambda>g db1.
     and_then (query (resolve workspaceID) db1) (\<lambda>c db2. (Inr (Validate c g True), db2)))"

definition service_Simulate ::
  "(ID \<Rightarrow> gerr + catalog) \<Rightarrow> ID \<Rightarrow> ID \<Rightarrow> gobj option \<Rightarrow> runtime_context \<Rightarrow> flow_db \<Rightarrow> sim_result service" where
  "service_Simulate resolve workspaceID flowID event ctx db =
     and_then (query (GetFlowDraft workspaceID flowID db) db) (\<lambda>g db1.
     and_then (query (resolve workspaceID) db1) (\<lambda>c db2. (Inr (Simulate g c event ctx), db2)))"

section \<open>Publication\<close>

definition no_validation :: validation_result where
  "no_validation = \<lparr>vr_valid = False, vr_diagnostics = []\<rparr>"

text \<open>
  The result carries the report next to the version or error. When the routes cannot be activated
  the version stays, and the flow is paused.
\<close>

definition store_publication ::
  "route_activator option \<Rightarrow> gtime \<Rightarrow> flow_version \<Rightarrow> validation_result \<Rightarrow> flow_db \<Rightarrow>
   (gerr + flow_version) \<times> validation_result \<times> flow_db" where
  "store_publication routes now version validation db =
     (case SaveFlowVersion now version db of
        Inl e \<Rightarrow> (Inl e, validation, db)
      | Inr db1 \<Rightarrow>
          (case routes of
             None \<Rightarrow> (Inr version, validation, db1)
           | Some r \<Rightarrow>
               (case ActivateInputFlow r version of
                  Inr _ \<Rightarrow> (Inr version, validation, db1)
                | Inl e \<Rightarrow> (Inl e, validation,
                    snd (mutate (UpdateFlowStatus now (fv_workspace version) (fv_flow version) FlowPaused db1) db1)))))"

definition Publish ::
  "(ID \<Rightarrow> gerr + catalog) \<Rightarrow> route_activator option \<Rightarrow> gtime \<Rightarrow> ID \<Rightarrow> ID list \<Rightarrow> ID \<Rightarrow> ID \<Rightarrow> ID \<Rightarrow> flow_db \<Rightarrow>
   (gerr + flow_version) \<times> validation_result \<times> flow_db" where
  "Publish resolve routes now newID walk workspaceID flowID actorID db =
     (case GetFlow workspaceID flowID db of
        Inl e \<Rightarrow> (Inl e, no_validation, db)
      | Inr f \<Rightarrow>
          if fl_status f = FlowArchived
          then (fail ErrConflict ''archived Flow cannot be published'', no_validation, db)
          else case GetFlowDraft workspaceID flowID db of
            Inl e \<Rightarrow> (Inl e, no_validation, db)
          | Inr g \<Rightarrow>
              (case resolve workspaceID of
                 Inl e \<Rightarrow> (Inl e, no_validation, db)
               | Inr c \<Rightarrow>
                   let validation = Validate c g True
                   in if \<not> vr_valid validation
                      then (fail ErrInvalid ''Flow cannot be published'', validation, db)
                      else case Compile g c walk of
                        Inl e \<Rightarrow> (Inl e, validation, db)
                      | Inr plan \<Rightarrow>
                          store_publication routes now
                            \<lparr>fv_id = newID, fv_workspace = workspaceID, fv_flow = flowID,
                             fv_version = NextFlowVersion workspaceID flowID db, fv_status = FlowPublished,
                             fv_graph = cloneGraph g, fv_plan = plan, fv_behaviors = behaviorRefs g,
                             fv_models = modelRefs g, fv_published = Some now, fv_published_by = actorID\<rparr>
                            validation db))"

definition Pause ::
  "route_activator option \<Rightarrow> gtime \<Rightarrow> ID \<Rightarrow> ID \<Rightarrow> int \<Rightarrow> flow_db \<Rightarrow> unit service" where
  "Pause routes now workspaceID flowID requested db =
     and_then (query (GetFlow workspaceID flowID db) db) (\<lambda>f db1.
       if fl_status f \<noteq> FlowPublished then (fail ErrConflict ''only a published Flow can be paused'', db1)
       else let activeVersion = (if requested \<le> 0 then fl_active f else requested)
       in if activeVersion \<le> 0 then (fail ErrConflict ''published Flow has no active version'', db1)
          else and_then (case routes of
              None \<Rightarrow> (Inr (), db1)
            | Some r \<Rightarrow> and_then (query (GetFlowVersion workspaceID flowID activeVersion db1) db1) (\<lambda>v db2.
                query (PauseInputFlow r v) db2)) (\<lambda>_ db2.
          mutate (UpdateFlowStatus now workspaceID flowID FlowPaused db2) db2))"

definition Archive :: "route_activator option \<Rightarrow> gtime \<Rightarrow> ID \<Rightarrow> ID \<Rightarrow> flow_db \<Rightarrow> unit service" where
  "Archive routes now workspaceID flowID db =
     and_then (query (GetFlow workspaceID flowID db) db) (\<lambda>f db1.
       if fl_status f \<noteq> FlowPublished \<and> fl_status f \<noteq> FlowPaused
       then (fail ErrConflict ''only a published or paused Flow can be archived'', db1)
       else and_then (case routes of
              None \<Rightarrow> (Inr (), db1)
            | Some r \<Rightarrow>
                if fl_active f > 0
                then and_then (query (GetFlowVersion workspaceID flowID (fl_active f) db1) db1) (\<lambda>v db2.
                  case PauseInputFlow r v of
                    Inl e \<Rightarrow> if err_is e ErrNotFound then (Inr (), db2) else (Inl e, db2)
                  | Inr _ \<Rightarrow> (Inr (), db2))
                else (Inr (), db1)) (\<lambda>_ db2.
            mutate (UpdateFlowStatus now workspaceID flowID FlowArchived db2) db2))"

text \<open>The reserved flow of a connection: published if it is not, created from its template if it is missing.\<close>

definition publish_reserved ::
  "(ID \<Rightarrow> gerr + catalog) \<Rightarrow> route_activator option \<Rightarrow> gtime \<Rightarrow> ID \<Rightarrow> ID list \<Rightarrow> ID \<Rightarrow> ID \<Rightarrow> ID \<Rightarrow> flow_db \<Rightarrow>
   flow service" where
  "publish_reserved resolve routes now versionID walk workspaceID flowID actorID db =
     (let (r, _, db1) = Publish resolve routes now versionID walk workspaceID flowID actorID db
      in and_then (r, db1) (\<lambda>_ db2. query (GetFlow workspaceID flowID db2) db2))"

definition EnsureAbandonFlow ::
  "(ID \<Rightarrow> gerr + catalog) \<Rightarrow> route_activator option \<Rightarrow> gtime \<Rightarrow> ID \<Rightarrow> ID \<Rightarrow> ID list \<Rightarrow> ID \<Rightarrow> ID \<Rightarrow> ID \<Rightarrow>
   flow_db \<Rightarrow> flow service" where
  "EnsureAbandonFlow resolve routes now newID versionID walk workspaceID connectionID actorID db =
     and_then (query (ListFlows workspaceID connectionID db) db) (\<lambda>items db1.
       case List.find (\<lambda>f. fl_name f = ''Abandon Change'') items of
         Some f \<Rightarrow>
           if fl_status f = FlowPublished \<or> fl_status f = FlowArchived then (Inr f, db1)
           else publish_reserved resolve routes now versionID walk workspaceID (fl_id f) actorID db1
       | None \<Rightarrow>
           and_then (CreateFromTemplate now newID workspaceID connectionID actorID TemplateAbandonChange
               ''1.0.0'' ''Abandon Change'' db1) (\<lambda>f db2.
             publish_reserved resolve routes now versionID walk workspaceID (fl_id f) actorID db2))"

section \<open>The store under the service\<close>

text \<open>
  What the service asks of the store, as steps: every operation of the service is a sequence of
  them. A version is stored, and a flow paused, only while the flow is not archived.
\<close>

definition not_archived :: "ID \<Rightarrow> ID \<Rightarrow> flow_db \<Rightarrow> bool" where
  "not_archived ws i db \<longleftrightarrow> (\<forall>f \<in> set (fd_flows db). fl_workspace f = ws \<and> fl_id f = i \<longrightarrow> fl_status f \<noteq> FlowArchived)"

inductive flow_step :: "flow_db \<Rightarrow> flow_db \<Rightarrow> bool" where
  create: "CreateFlow now f db = Inr db' \<Longrightarrow> fl_status f = FlowDraft \<Longrightarrow> flow_step db db'"
| draft: "SaveFlowDraft now ws i g db = Inr db' \<Longrightarrow> flow_step db db'"
| publish: "SaveFlowVersion now v db = Inr db' \<Longrightarrow> fv_status v = FlowPublished \<Longrightarrow>
    not_archived (fv_workspace v) (fv_flow v) db \<Longrightarrow> flow_step db db'"
| pause: "UpdateFlowStatus now ws i FlowPaused db = Inr db' \<Longrightarrow> not_archived ws i db \<Longrightarrow> flow_step db db'"
| archive: "UpdateFlowStatus now ws i FlowArchived db = Inr db' \<Longrightarrow> flow_step db db'"
| template: "CreateFlowTemplate i t db = Inr db' \<Longrightarrow> flow_step db db'"

definition flows_ok :: "flow_db \<Rightarrow> bool" where
  "flows_ok db \<longleftrightarrow>
     distinct (map fl_id (fd_flows db)) \<and> distinct (map fv_id (fd_versions db)) \<and>
     distinct (map version_key (fd_versions db)) \<and>
     (\<forall>f \<in> set (fd_flows db). fl_status f = FlowPublished \<longrightarrow>
        (\<exists>v \<in> set (fd_versions db). version_key v = (fl_workspace f, fl_id f, fl_active f) \<and> fv_status v = FlowPublished)) \<and>
     (\<forall>v \<in> set (fd_versions db). 0 < fv_version v) \<and>
     (\<forall>v \<in> set (fd_versions db). \<forall>w \<in> set (fd_versions db).
        fv_workspace v = fv_workspace w \<and> fv_flow v = fv_flow w \<and> fv_status v = FlowPublished \<and>
        fv_status w = FlowPublished \<longrightarrow> v = w)"

lemma CreateFlow_D:
  "CreateFlow now f db = Inr db' \<Longrightarrow>
     \<exists>t. db' = db\<lparr>fd_flows := fd_flows db @ [f\<lparr>fl_status := or_default (fl_status f) (\<lambda>s. s = []) FlowDraft, fl_updated := t\<rparr>]\<rparr> \<and>
       fl_id f \<notin> fl_id ` set (fd_flows db)"
  by (auto simp: CreateFlow_def Let_def err_simps flow_clash_def split: if_splits option.splits)

lemma SaveFlowDraft_D:
  "SaveFlowDraft now ws i g db = Inr db' \<Longrightarrow> \<exists>ds. db' = db\<lparr>fd_drafts := ds\<rparr>"
  by (auto simp: SaveFlowDraft_def Let_def err_simps split: if_splits option.splits)

lemma UpdateFlowStatus_D:
  "UpdateFlowStatus now ws i s db = Inr db' \<Longrightarrow>
     db' = db\<lparr>fd_flows := update_rows (\<lambda>f. fl_workspace f = ws \<and> fl_id f = i)
       (\<lambda>f. f\<lparr>fl_status := s, fl_updated := now\<rparr>) (fd_flows db)\<rparr> \<and>
     (\<exists>f \<in> set (fd_flows db). fl_workspace f = ws \<and> fl_id f = i) \<and> ws \<noteq> []"
  by (auto simp: UpdateFlowStatus_def Let_def err_simps list_ex_iff split: if_splits)

lemma CreateFlowTemplate_D: "CreateFlowTemplate i t db = Inr db' \<Longrightarrow> \<exists>ts. db' = db\<lparr>fd_templates := ts\<rparr>"
  by (auto simp: CreateFlowTemplate_def Let_def err_simps split: if_splits option.splits)

lemma insert_version_D:
  assumes "insert_version now v db = Inr db'" "fv_status v = FlowPublished"
  shows "let live = (\<lambda>r. fv_workspace r = fv_workspace v \<and> fv_flow r = fv_flow v \<and> fv_status r = FlowPublished);
             earlier = update_rows live (\<lambda>r. r\<lparr>fv_status := FlowArchived\<rparr>) (fd_versions db)
         in db' = db\<lparr>fd_versions := earlier @ [v],
              fd_flows := update_rows (\<lambda>f. fl_workspace f = fv_workspace v \<and> fl_id f = fv_flow v)
                (\<lambda>f. f\<lparr>fl_status := FlowPublished, fl_active := fv_version v, fl_updated := now\<rparr>) (fd_flows db)\<rparr> \<and>
            (\<forall>r \<in> set earlier. \<not> version_clash v r)"
  using assms by (auto simp: insert_version_def Let_def err_simps)

text \<open>Storing a version either finds it already there or adds it.\<close>

lemma SaveFlowVersion_D:
  assumes "SaveFlowVersion now v0 db = Inr db'" "fv_status v0 = FlowPublished"
  obtains (same) "db' = db" "\<exists>r \<in> set (fd_versions db). version_key r = version_key v0"
  | (new) v doc plan where "v = v0\<lparr>fv_graph := doc, fv_plan := plan\<rparr>" "graph_to_document (fv_graph v0) = Some doc"
      "marshalJSON (fv_plan v0) = Inr plan" "insert_version now v db = Inr db'" "0 < fv_version v0"
      "List.find (\<lambda>r. version_key r = version_key v0) (fd_versions db) = None"
      "\<exists>f \<in> set (fd_flows db). fl_id f = fv_flow v0 \<and> fl_workspace f = fv_workspace v0"
proof -
  let ?v = "\<lambda>doc plan. v0\<lparr>fv_graph := doc, fv_plan := plan\<rparr>"
  have s: "v0\<lparr>fv_status := or_default (fv_status v0) (\<lambda>s. s = []) FlowDraft\<rparr> = v0"
    using assms(2) by (simp add: or_default_def)
  obtain doc where doc: "graph_to_document (fv_graph v0) = Some doc"
    using assms(1) unfolding SaveFlowVersion_def Let_def s
    by (cases "graph_to_document (fv_graph v0)") (auto simp: err_simps split: if_splits)
  obtain f where f: "List.find (\<lambda>f. fl_id f = fv_flow v0) (fd_flows db) = Some f"
    using assms(1) unfolding SaveFlowVersion_def Let_def s
    by (cases "List.find (\<lambda>f. fl_id f = fv_flow v0) (fd_flows db)") (auto simp: err_simps doc split: if_splits)
  obtain plan where plan: "marshalJSON (fv_plan v0) = Inr plan" and fw: "fl_workspace f = fv_workspace v0"
    and n: "0 < fv_version v0"
    and r: "(case List.find (\<lambda>r. version_key r = version_key (?v doc plan)) (fd_versions db) of
         Some existing \<Rightarrow> if same_content existing (?v doc plan) then Inr db
           else fail ErrImmutable (''flow '' @ fv_flow (?v doc plan) @ '' version '' @ dec_int (fv_version (?v doc plan)))
       | None \<Rightarrow> insert_version now (?v doc plan) db) = Inr db'"
    using assms(1) unfolding SaveFlowVersion_def Let_def s
    by (auto simp: bind_result_Inr doc f split: if_splits)
  have k: "version_key (?v doc plan) = version_key v0" by (simp add: version_key_def)
  show ?thesis
  proof (cases "List.find (\<lambda>r. version_key r = version_key v0) (fd_versions db)")
    case None
    then show ?thesis using r n find_SomeD [OF f] fw by (intro new [OF refl doc plan _ n None]) (auto simp: k)
  next
    case (Some e)
    then show ?thesis using r find_SomeD [OF Some] by (intro same) (auto simp: k split: if_splits)
  qed
qed

lemma in_snoc: "x \<in> set (xs @ [y]) \<longleftrightarrow> x = y \<or> x \<in> set xs"
  by auto

lemma insert_version_ok:
  assumes ok: "flows_ok db" and i: "insert_version now v db = Inr db'" and p: "fv_status v = FlowPublished"
    and n: "0 < fv_version v"
  shows "flows_ok db'"
proof -
  let ?live = "\<lambda>r. fv_workspace r = fv_workspace v \<and> fv_flow r = fv_flow v \<and> fv_status r = FlowPublished"
  let ?arch = "\<lambda>r. r\<lparr>fv_status := FlowArchived\<rparr>"
  let ?earlier = "update_rows ?live ?arch (fd_versions db)"
  let ?mine = "\<lambda>f. fl_workspace f = fv_workspace v \<and> fl_id f = fv_flow v"
  have db': "db' = db\<lparr>fd_versions := ?earlier @ [v], fd_flows := update_rows ?mine
      (\<lambda>f. f\<lparr>fl_status := FlowPublished, fl_active := fv_version v, fl_updated := now\<rparr>) (fd_flows db)\<rparr>"
    and free: "\<forall>r \<in> set ?earlier. \<not> version_clash v r"
    using insert_version_D [OF i p] by (simp_all add: Let_def)
  have E: "r \<in> set ?earlier \<longleftrightarrow> (\<exists>s \<in> set (fd_versions db). r = (if ?live s then ?arch s else s))" for r
    by (auto simp: update_rows_def)
  have keys: "map fv_id ?earlier = map fv_id (fd_versions db)" "map version_key ?earlier = map version_key (fd_versions db)"
    by (rule map_update_same, simp add: version_key_def)+
  have "map fl_id (fd_flows db') = map fl_id (fd_flows db)" unfolding db' by (simp add: map_update_same)
  then have 1: "distinct (map fl_id (fd_flows db'))" using ok by (simp add: flows_ok_def)
  have "fv_id v \<notin> set (map fv_id ?earlier)" "version_key v \<notin> set (map version_key ?earlier)"
    using free by (auto simp: version_clash_def)
  then have 2: "distinct (map fv_id (fd_versions db'))" "distinct (map version_key (fd_versions db'))"
    using ok keys by (simp_all add: db' flows_ok_def)
  have 3: "\<exists>w \<in> set (fd_versions db'). version_key w = (fl_workspace f, fl_id f, fl_active f) \<and> fv_status w = FlowPublished"
    if f: "f \<in> set (fd_flows db')" "fl_status f = FlowPublished" for f
  proof -
    obtain f0 where f0: "f0 \<in> set (fd_flows db)"
      "f = (if ?mine f0 then f0\<lparr>fl_status := FlowPublished, fl_active := fv_version v, fl_updated := now\<rparr> else f0)"
      using f(1) by (auto simp: db' update_rows_def)
    show ?thesis
    proof (cases "?mine f0")
      case True
      then show ?thesis using f0(2) p by (intro bexI [of _ v]) (auto simp: db' version_key_def)
    next
      case False
      then have "f = f0" using f0(2) by (simp only: if_False)
      then have "f \<in> set (fd_flows db)" using f0(1) by simp
      then obtain w where w: "w \<in> set (fd_versions db)" "version_key w = (fl_workspace f, fl_id f, fl_active f)"
          "fv_status w = FlowPublished"
        using ok f(2) unfolding flows_ok_def by blast
      moreover have "fv_workspace w = fl_workspace f" "fv_flow w = fl_id f" using w(2) by (simp_all add: version_key_def)
      ultimately have "\<not> ?live w" using False \<open>f = f0\<close> by simp
      then have "w = (if ?live w then ?arch w else w)" by (simp only: if_False)
      then have "w \<in> set ?earlier" by (rule iffD2 [OF E, OF bexI]) (rule w(1))
      then show ?thesis using w(2,3) by (intro bexI [of _ w]) (simp_all add: db')
    qed
  qed
  have 4: "0 < fv_version w" if "w \<in> set (fd_versions db')" for w
    using that ok n E [of w] by (auto simp: db' flows_ok_def)
  have 5: "a = b" if "a \<in> set (fd_versions db')" "b \<in> set (fd_versions db')" "fv_workspace a = fv_workspace b"
    "fv_flow a = fv_flow b" "fv_status a = FlowPublished" "fv_status b = FlowPublished" for a b
  proof -
    have q: "c \<in> set (fd_versions db) \<and> \<not> ?live c" if "c \<in> set ?earlier" "fv_status c = FlowPublished" for c
    proof -
      obtain s where s: "s \<in> set (fd_versions db)" "c = (if ?live s then ?arch s else s)" using \<open>c \<in> set ?earlier\<close> E by blast
      have "\<not> ?live s"
      proof
        assume "?live s"
        then have "c = ?arch s" using s(2) by simp
        then show False using \<open>fv_status c = FlowPublished\<close> by simp
      qed
      then have "c = s" using s(2) by (simp only: if_False)
      then show ?thesis using s(1) \<open>\<not> ?live s\<close> by simp
    qed
    have vs: "fd_versions db' = ?earlier @ [v]" by (simp add: db')
    have "c = v \<or> c \<in> set ?earlier" if "c \<in> set (fd_versions db')" for c
      using that unfolding vs in_snoc .
    from this [OF that(1)] this [OF that(2)] consider "a \<in> set ?earlier" "b \<in> set ?earlier" | "a = v" "b \<in> set ?earlier" | "a \<in> set ?earlier" "b = v" | "a = v" "b = v"
      by blast
    then show ?thesis
    proof cases
      case 1
      then show ?thesis using q that(3-6) ok unfolding flows_ok_def by blast
    next
      case 2
      then show ?thesis using q [of b] that(3-6) by simp
    next
      case 3
      then show ?thesis using q [of a] that(3-6) by simp
    qed simp
  qed
  show ?thesis unfolding flows_ok_def using 1 2 3 4 5 by blast
qed

lemma UpdateFlowStatus_ok:
  assumes ok: "flows_ok db" and u: "UpdateFlowStatus now ws i s db = Inr db'" and s: "s \<noteq> FlowPublished"
  shows "flows_ok db'"
proof -
  have db': "db' = db\<lparr>fd_flows := update_rows (\<lambda>f. fl_workspace f = ws \<and> fl_id f = i)
       (\<lambda>f. f\<lparr>fl_status := s, fl_updated := now\<rparr>) (fd_flows db)\<rparr>" using UpdateFlowStatus_D [OF u] by blast
  have "map fl_id (fd_flows db') = map fl_id (fd_flows db)" unfolding db' by (simp add: map_update_same)
  moreover have "f \<in> set (fd_flows db)" if "f \<in> set (fd_flows db')" "fl_status f = FlowPublished" for f
    using that s by (auto simp: db' set_update_rows)
  moreover have "fd_versions db' = fd_versions db" by (simp add: db')
  ultimately show ?thesis using ok unfolding flows_ok_def by (elim conjE, intro conjI) simp_all
qed

lemma CreateFlow_ok:
  assumes ok: "flows_ok db" and c: "CreateFlow now f db = Inr db'" and s: "fl_status f = FlowDraft"
  shows "flows_ok db'"
proof -
  obtain t where db': "db' = db\<lparr>fd_flows := fd_flows db @ [f\<lparr>fl_status := FlowDraft, fl_updated := t\<rparr>]\<rparr>"
    and i: "fl_id f \<notin> fl_id ` set (fd_flows db)"
    using CreateFlow_D [OF c] s by (auto simp: or_default_def)
  show ?thesis using ok i unfolding flows_ok_def db' by auto
qed

lemma flow_step_ok: "flow_step db db' \<Longrightarrow> flows_ok db \<Longrightarrow> flows_ok db'"
proof (induction rule: flow_step.induct)
  case (create now f db db')
  then show ?case by (blast intro: CreateFlow_ok)
next
  case (draft now ws i g db db')
  then obtain ds where "db' = db\<lparr>fd_drafts := ds\<rparr>" using SaveFlowDraft_D by blast
  then show ?case using draft by (simp add: flows_ok_def)
next
  case (publish now v db db')
  from publish(1,2) show ?case
  proof (cases rule: SaveFlowVersion_D)
    case same
    then show ?thesis using publish by simp
  next
    case (new v' doc plan)
    then show ?thesis using publish by (intro insert_version_ok [OF publish(4) new(4)]) auto
  qed
next
  case (pause now ws i db db')
  then show ?case by (intro UpdateFlowStatus_ok [OF pause(3,1)]) auto
next
  case (archive now ws i db db')
  then show ?case by (intro UpdateFlowStatus_ok [OF archive(2,1)]) auto
next
  case (template i t db db')
  then obtain ts where "db' = db\<lparr>fd_templates := ts\<rparr>" using CreateFlowTemplate_D by blast
  then show ?case using template by (simp add: flows_ok_def)
qed

lemma flow_steps_ok: "flow_step\<^sup>*\<^sup>* db db' \<Longrightarrow> flows_ok db \<Longrightarrow> flows_ok db'"
  by (induction rule: rtranclp_induct) (auto intro: flow_step_ok)

text \<open>Versions last: only their status may change, from published to archived.\<close>

definition later_version :: "flow_version \<Rightarrow> flow_version \<Rightarrow> bool" where
  "later_version v' v \<longleftrightarrow> v' = v \<or> fv_status v = FlowPublished \<and> v' = v\<lparr>fv_status := FlowArchived\<rparr>"

lemma later_version_trans: "later_version c b \<Longrightarrow> later_version b a \<Longrightarrow> later_version c a"
  by (auto simp: later_version_def)

lemma later_version_refl [simp]: "later_version v v"
  by (simp add: later_version_def)

lemma later_self [intro]: "v \<in> set vs \<Longrightarrow> \<exists>v' \<in> set vs. later_version v' v"
  by (rule bexI [of _ v]) simp_all

lemma flow_step_version:
  "flow_step db db' \<Longrightarrow> v \<in> set (fd_versions db) \<Longrightarrow> \<exists>v' \<in> set (fd_versions db'). later_version v' v"
proof (induction rule: flow_step.induct)
  case (create now f db db')
  then show ?case using CreateFlow_D [OF create(1)] by auto
next
  case (draft now ws i g db db')
  then show ?case using SaveFlowDraft_D [OF draft(1)] by auto
next
  case (publish now w db db')
  from publish(1,2) show ?case
  proof (cases rule: SaveFlowVersion_D)
    case same
    then show ?thesis using publish(4) by auto
  next
    case (new w' doc plan)
    have "fv_status w' = FlowPublished" using new(1) publish(2) by simp
    from insert_version_D [OF new(4) this] obtain P where
      db': "fd_versions db' = update_rows P (\<lambda>r. r\<lparr>fv_status := FlowArchived\<rparr>) (fd_versions db) @ [w']"
      and P: "\<And>r. P r \<Longrightarrow> fv_status r = FlowPublished" by (fastforce simp: Let_def)
    have "(if P v then v\<lparr>fv_status := FlowArchived\<rparr> else v) \<in> set (fd_versions db')"
      using publish(4) by (auto simp: db' update_rows_def)
    then show ?thesis using P [of v] by (auto simp: later_version_def split: if_splits)
  qed
next
  case (pause now ws i db db')
  then show ?case using UpdateFlowStatus_D [OF pause(1)] by auto
next
  case (archive now ws i db db')
  then show ?case using UpdateFlowStatus_D [OF archive(1)] by auto
next
  case (template i t db db')
  then show ?case using CreateFlowTemplate_D [OF template(1)] by auto
qed

lemma flow_steps_version:
  "flow_step\<^sup>*\<^sup>* db db' \<Longrightarrow> v \<in> set (fd_versions db) \<Longrightarrow> \<exists>v' \<in> set (fd_versions db'). later_version v' v"
proof (induction rule: rtranclp_induct)
  case (step y z)
  then obtain v' where v': "v' \<in> set (fd_versions y)" "later_version v' v" by blast
  then show ?case using flow_step_version [OF step(2) v'(1)] later_version_trans by blast
qed auto

lemma flow_step_archived:
  "flow_step db db' \<Longrightarrow> f \<in> set (fd_flows db) \<Longrightarrow> fl_status f = FlowArchived \<Longrightarrow>
     \<exists>f' \<in> set (fd_flows db'). fl_id f' = fl_id f \<and> fl_workspace f' = fl_workspace f \<and> fl_status f' = FlowArchived"
proof (induction rule: flow_step.induct)
  case (create now g db db')
  then show ?case using CreateFlow_D [OF create(1)] by auto
next
  case (draft now ws i g db db')
  then show ?case using SaveFlowDraft_D [OF draft(1)] by auto
next
  case (publish now w db db')
  from publish(1,2) show ?case
  proof (cases rule: SaveFlowVersion_D)
    case same
    then show ?thesis using publish(4,5) by auto
  next
    case (new w' doc plan)
    have w': "fv_status w' = FlowPublished" "fv_workspace w' = fv_workspace w" "fv_flow w' = fv_flow w"
      using new(1) publish(2) by simp_all
    have "fd_flows db' = update_rows (\<lambda>f. fl_workspace f = fv_workspace w \<and> fl_id f = fv_flow w)
         (\<lambda>f. f\<lparr>fl_status := FlowPublished, fl_active := fv_version w', fl_updated := now\<rparr>) (fd_flows db)"
      using insert_version_D [OF new(4) w'(1)] w' by (simp add: Let_def)
    moreover have "\<not> (fl_workspace f = fv_workspace w \<and> fl_id f = fv_flow w)"
      using publish(3,4,5) by (auto simp: not_archived_def)
    ultimately have "f \<in> set (fd_flows db')" using publish(4) by (auto simp: set_update_rows)
    then show ?thesis using publish(5) by auto
  qed
next
  case (pause now ws i db db')
  then have "f \<in> set (fd_flows db')"
    using UpdateFlowStatus_D [OF pause(1)] by (auto simp: not_archived_def set_update_rows)
  then show ?case using pause by auto
next
  case (archive now ws i db db')
  have db': "fd_flows db' = update_rows (\<lambda>f. fl_workspace f = ws \<and> fl_id f = i)
       (\<lambda>f. f\<lparr>fl_status := FlowArchived, fl_updated := now\<rparr>) (fd_flows db)"
    using UpdateFlowStatus_D [OF archive(1)] by simp
  show ?case unfolding db' using archive(2,3)
    by (intro bexI [of _ "if fl_workspace f = ws \<and> fl_id f = i then f\<lparr>fl_status := FlowArchived, fl_updated := now\<rparr> else f"])
      (auto simp: update_rows_def)
next
  case (template i t db db')
  then show ?case using CreateFlowTemplate_D [OF template(1)] by auto
qed

lemma flow_steps_archived:
  "flow_step\<^sup>*\<^sup>* db db' \<Longrightarrow> f \<in> set (fd_flows db) \<Longrightarrow> fl_status f = FlowArchived \<Longrightarrow>
     \<exists>f' \<in> set (fd_flows db'). fl_id f' = fl_id f \<and> fl_workspace f' = fl_workspace f \<and> fl_status f' = FlowArchived"
proof (induction rule: rtranclp_induct)
  case (step y z)
  then obtain f' where f': "f' \<in> set (fd_flows y)" "fl_id f' = fl_id f" "fl_workspace f' = fl_workspace f"
    "fl_status f' = FlowArchived" by blast
  then show ?case using flow_step_archived [OF step(2) f'(1,4)] by simp
qed auto

section \<open>Every operation is a sequence of such steps\<close>

abbreviation flow_steps :: "flow_db \<Rightarrow> flow_db \<Rightarrow> bool" where
  "flow_steps \<equiv> flow_step\<^sup>*\<^sup>*"

lemma mutate_steps: "(\<And>s'. r = Inr s' \<Longrightarrow> flow_step s s') \<Longrightarrow> flow_steps s (snd (mutate r s))"
  by (cases r) (auto simp: mutate_def)

lemma query_state [simp]: "snd (query r s) = s"
  by (simp add: query_def)

lemma and_then_steps:
  "flow_steps s (snd p) \<Longrightarrow> (\<And>a. p = (Inr a, snd p) \<Longrightarrow> flow_steps (snd p) (snd (f a (snd p)))) \<Longrightarrow>
     flow_steps s (snd (and_then p f))"
  by (cases "(p, f)" rule: and_then.cases) (auto intro: rtranclp_trans)

lemma create_with_draft_steps:
  "fl_status f = FlowDraft \<Longrightarrow> flow_steps db (snd (create_with_draft now f g db))"
  unfolding create_with_draft_def
  by (intro and_then_steps mutate_steps) (auto intro: flow_step.intros)

lemma CreateBlank_steps: "flow_steps db (snd (CreateBlank now i ws c a n db))"
  unfolding CreateBlank_def by (rule create_with_draft_steps) (simp add: new_flow_def)

lemma CreateFromTemplate_steps: "flow_steps db (snd (CreateFromTemplate now i ws c a k v n db))"
  unfolding CreateFromTemplate_def
  by (intro and_then_steps) (simp_all add: create_with_draft_steps new_flow_def)

lemma SaveDraft_steps: "flow_steps db (snd (SaveDraft resolve now ws i g db))"
  unfolding SaveDraft_def by (intro and_then_steps mutate_steps) (auto intro: flow_step.intros)

lemma SeedFlowTemplates_steps: "flow_steps db (snd (SeedFlowTemplates ws ts db))"
proof (induction ws ts db rule: SeedFlowTemplates.induct)
  case (2 ws i t rest db)
  then show ?case
    by (auto split: sum.split intro: converse_rtranclp_into_rtranclp flow_step.template)
qed simp

lemma GetFlow_D: "GetFlow ws i db = Inr f \<Longrightarrow> f \<in> set (fd_flows db) \<and> fl_workspace f = ws \<and> fl_id f = i"
  by (auto simp: GetFlow_def split: option.splits dest!: find_SomeD)

lemma not_archived_I:
  assumes "flows_ok db" "GetFlow ws i db = Inr f" "fl_status f \<noteq> FlowArchived"
  shows "not_archived ws i db"
proof -
  have "g = f" if "g \<in> set (fd_flows db)" "fl_id g = i" for g
    using assms(1) GetFlow_D [OF assms(2)] that by (auto simp: flows_ok_def distinct_map inj_on_def)
  then show ?thesis using assms(3) by (auto simp: not_archived_def)
qed

lemma store_publication_steps:
  assumes "fv_status v = FlowPublished" "not_archived (fv_workspace v) (fv_flow v) db" "flows_ok db"
  shows "flow_steps db (snd (snd (store_publication routes now v validation db)))"
proof (cases "SaveFlowVersion now v db")
  case (Inr db1)
  then have s: "flow_step db db1" using assms by (blast intro: flow_step.publish)
  have na: "not_archived (fv_workspace v) (fv_flow v) db1"
    using Inr assms(1)
  proof (cases rule: SaveFlowVersion_D)
    case (new w doc plan)
    have w: "fv_status w = FlowPublished" "fv_workspace w = fv_workspace v" "fv_flow w = fv_flow v"
      using new(1) assms(1) by simp_all
    have "fd_flows db1 = update_rows (\<lambda>f. fl_workspace f = fv_workspace v \<and> fl_id f = fv_flow v)
         (\<lambda>f. f\<lparr>fl_status := FlowPublished, fl_active := fv_version w, fl_updated := now\<rparr>) (fd_flows db)"
      using insert_version_D [OF new(4) w(1)] w by (simp add: Let_def)
    then show ?thesis by (auto simp: not_archived_def set_update_rows)
  qed (simp add: assms(2))
  show ?thesis
  proof (cases "\<exists>r e. routes = Some r \<and> ActivateInputFlow r v = Inl e")
    case True
    then show ?thesis using Inr s na
      by (auto simp: store_publication_def split: option.splits sum.splits
          intro: converse_rtranclp_into_rtranclp mutate_steps flow_step.pause)
  next
    case False
    then have "snd (snd (store_publication routes now v validation db)) = db1"
      by (auto simp: store_publication_def Inr split: option.splits sum.splits)
    then show ?thesis using s by simp
  qed
qed (simp add: store_publication_def)

lemma Publish_steps:
  assumes "flows_ok db"
  shows "flow_steps db (snd (snd (Publish resolve routes now newID walk ws i a db)))"
proof (cases "GetFlow ws i db")
  case (Inr f)
  show ?thesis
  proof (cases "fl_status f = FlowArchived")
    case False
    then have na: "not_archived ws i db" using not_archived_I [OF assms Inr] by blast
    show ?thesis
      by (auto simp: Publish_def Inr False Let_def assms na split: sum.split intro!: store_publication_steps)
  qed (simp add: Publish_def Inr)
qed (simp add: Publish_def)

lemma Pause_steps: "flows_ok db \<Longrightarrow> flow_steps db (snd (Pause routes now ws i n db))"
  unfolding Pause_def
proof (rule and_then_steps, goal_cases)
  case (2 f)
  then have g: "GetFlow ws i db = Inr f" by (simp add: query_def)
  show ?case
  proof (cases "fl_status f = FlowPublished \<and> 0 < (if n \<le> 0 then fl_active f else n)")
    case True
    then have na: "not_archived ws i db" using not_archived_I [OF 2(1) g] by auto
    show ?thesis using True na
      by (auto simp: Let_def split: option.split
        intro!: and_then_steps mutate_steps intro: flow_step.pause r_into_rtranclp) 
        (auto simp: query_def and_then.simps elim!: and_then.elims intro: flow_step.pause)
  qed (auto simp: Let_def)
qed simp

lemma Archive_steps: "flow_steps db (snd (Archive routes now ws i db))"
proof -
  have m: "flow_steps db (snd (mutate (UpdateFlowStatus now ws i FlowArchived db) db))" for db
    by (rule mutate_steps) (rule flow_step.archive)
  show ?thesis unfolding Archive_def
    by (rule and_then_steps, simp)
      (auto simp: m query_def split: option.split sum.split intro!: and_then_steps)
qed

lemma publish_reserved_steps:
  "flows_ok db \<Longrightarrow> flow_steps db (snd (publish_reserved resolve routes now vi walk ws i a db))"
  using Publish_steps [of db resolve routes now vi walk ws i a]
  by (cases "Publish resolve routes now vi walk ws i a db")
    (auto simp: publish_reserved_def Let_def intro: and_then_steps)

lemma EnsureAbandonFlow_steps:
  assumes "flows_ok db"
  shows "flow_steps db (snd (EnsureAbandonFlow resolve routes now i vi walk ws c a db))"
  unfolding EnsureAbandonFlow_def
proof (rule and_then_steps, simp, goal_cases)
  case (1 items)
  show ?case
  proof (cases "List.find (\<lambda>f. fl_name f = ''Abandon Change'') items")
    case None
    let ?p = "CreateFromTemplate now i ws c a TemplateAbandonChange ''1.0.0'' ''Abandon Change'' db"
    have s: "flow_steps db (snd ?p)" by (rule CreateFromTemplate_steps)
    then have "flows_ok (snd ?p)" using flow_steps_ok assms by blast
    then show ?thesis using s None by (auto intro!: and_then_steps publish_reserved_steps)
  next
    case (Some f)
    then show ?thesis using publish_reserved_steps [OF assms] by auto
  qed
qed

text \<open>The service at work: whatever its clients ask for, in any order.\<close>

inductive service_step :: "flow_db \<Rightarrow> flow_db \<Rightarrow> bool" where
  seed: "SeedBuiltins ids ws db = (r, db') \<Longrightarrow> service_step db db'"
| blank: "CreateBlank now i ws c a n db = (rf, db') \<Longrightarrow> service_step db db'"
| from_template: "CreateFromTemplate now i ws c a k v n db = (rf, db') \<Longrightarrow> service_step db db'"
| save: "SaveDraft resolve now ws i g db = (rv, db') \<Longrightarrow> service_step db db'"
| publish: "Publish resolve routes now vi walk ws i a db = (rp, val, db') \<Longrightarrow> service_step db db'"
| pause: "Pause routes now ws i n db = (r, db') \<Longrightarrow> service_step db db'"
| archive: "Archive routes now ws i db = (r, db') \<Longrightarrow> service_step db db'"
| ensure: "EnsureAbandonFlow resolve routes now i vi walk ws c a db = (rf, db') \<Longrightarrow> service_step db db'"

abbreviation service_history :: "flow_db \<Rightarrow> flow_db \<Rightarrow> bool" where
  "service_history \<equiv> service_step\<^sup>*\<^sup>*"

lemma service_step_steps: "service_step db db' \<Longrightarrow> flows_ok db \<Longrightarrow> flow_steps db db'"
proof (induction rule: service_step.induct)
  case (seed ids ws db r db')
  then show ?case using SeedFlowTemplates_steps by (metis SeedBuiltins_def snd_conv)
next
  case (blank now i ws c a n db rf db')
  then show ?case using CreateBlank_steps by (metis snd_conv)
next
  case (from_template now i ws c a k v n db rf db')
  then show ?case using CreateFromTemplate_steps by (metis snd_conv)
next
  case (save resolve now ws i g db rv db')
  then show ?case using SaveDraft_steps by (metis snd_conv)
next
  case (publish resolve routes now vi walk ws i a db rp val db')
  then show ?case using Publish_steps by (metis snd_conv)
next
  case (pause routes now ws i n db r db')
  then show ?case using Pause_steps by (metis snd_conv)
next
  case (archive routes now ws i db r db')
  then show ?case using Archive_steps by (metis snd_conv)
next
  case (ensure resolve routes now i vi walk ws c a db rf db')
  then show ?case using EnsureAbandonFlow_steps by (metis snd_conv)
qed

lemma service_history_steps: "service_history db db' \<Longrightarrow> flows_ok db \<Longrightarrow> flow_steps db db' \<and> flows_ok db'"
proof (induction rule: rtranclp_induct)
  case (step y z)
  then have "flow_steps y z" using service_step_steps by blast
  then show ?case using step flow_steps_ok by (meson rtranclp_trans)
qed simp

section \<open>Publication\<close>

lemma fold_max_ge: "x \<le> fold max ns (n :: int) \<longleftrightarrow> x \<le> n \<or> (\<exists>m \<in> set ns. x \<le> m)"
  by (induction ns arbitrary: n) auto

lemma NextFlowVersion_fresh: "v \<in> set (flow_versions ws i db) \<Longrightarrow> fv_version v < NextFlowVersion ws i db"
proof -
  assume v: "v \<in> set (flow_versions ws i db)"
  obtain n ns where ns: "map fv_version (flow_versions ws i db) = n # ns"
    using v by (cases "map fv_version (flow_versions ws i db)") auto
  then have "fv_version v \<in> set (n # ns)" using v by (metis image_eqI set_map)
  then have "fv_version v \<le> fold max ns n" by (auto simp: fold_max_ge)
  then show ?thesis by (simp add: NextFlowVersion_def ns)
qed

lemma Publish_D:
  assumes "Publish resolve routes now newID walk ws i a db = (Inr v, val, db')"
  obtains f g c plan where "GetFlow ws i db = Inr f" "fl_status f \<noteq> FlowArchived" "GetFlowDraft ws i db = Inr g"
    "resolve ws = Inr c" "val = Validate c g True" "vr_valid val" "Compile g c walk = Inr plan"
    "v = \<lparr>fv_id = newID, fv_workspace = ws, fv_flow = i, fv_version = NextFlowVersion ws i db,
          fv_status = FlowPublished, fv_graph = cloneGraph g, fv_plan = plan, fv_behaviors = behaviorRefs g,
          fv_models = modelRefs g, fv_published = Some now, fv_published_by = a\<rparr>"
    "SaveFlowVersion now v db = Inr db'" "routes = None \<or> (\<exists>r. routes = Some r \<and> ActivateInputFlow r v = Inr ())"
  using assms unfolding Publish_def store_publication_def Let_def
  by (auto split: sum.splits if_splits option.splits)

lemma find_update_same:
  "(\<And>r. Q r \<Longrightarrow> Q (f r)) \<Longrightarrow> List.find Q (update_rows Q f rows) = map_option f (List.find Q rows)"
  by (induction rows) (auto simp: update_rows_def)

text \<open>A value without a \<open>json.Number\<close> reads back as what was written.\<close>

fun number_free :: "gval \<Rightarrow> bool" where
  "number_free (VNumber s) = False"
| "number_free (VArr vs) = list_all number_free vs"
| "number_free (VObj m) = list_all (\<lambda>kv. number_free (snd kv)) m"
| "number_free v = True"

lemma those_SomeD: "those xs = Some ys \<Longrightarrow> length ys = length xs \<and> (\<forall>i < length xs. xs ! i = Some (ys ! i))"
  by (induction xs arbitrary: ys) (auto simp: nth_Cons split: option.splits nat.splits)

lemma number_free_unmarshal: "number_free v \<Longrightarrow> json_marshal v = Some d \<Longrightarrow> json_unmarshal d = Some d"
proof (induction v arbitrary: d rule: gval_induct)
  case (atom v)
  have strs: "those (map (json_unmarshal \<circ> VStr) ss) = Some (map VStr ss)" for ss by (induction ss) auto
  show ?case using atom by (cases v) (auto split: if_splits simp: strs)
next
  case (arr vs)
  then obtain ds where ds: "those (map json_marshal vs) = Some ds" "d = VArr ds" by auto
  have "json_unmarshal x = Some x" if "x \<in> set ds" for x
  proof -
    obtain k where "k < length ds" "x = ds ! k" using \<open>x \<in> set ds\<close> by (auto simp: in_set_conv_nth)
    then show ?thesis using arr.IH [of "vs ! k" x] arr.prems(1) those_SomeD [OF ds(1)] by (auto simp: list_all_iff)
  qed
  then have "those (map json_unmarshal ds) = Some (map (\<lambda>x. x) ds)" by (intro those_map_Some)
  then show ?case by (simp add: ds(2))
next
  case (obj m)
  then obtain ds where ds: "those (map (\<lambda>kv. json_marshal (snd kv)) m) = Some ds"
    "d = VObj (sort_key fst (zip (map fst m) ds))" by auto
  let ?e = "sort_key fst (zip (map fst m) ds)"
  have "json_unmarshal (snd kv) = Some (snd kv)" if "kv \<in> set ?e" for kv
  proof -
    obtain k where k: "k < length m" "snd kv = ds ! k" using \<open>kv \<in> set ?e\<close> by (auto simp: set_zip)
    then have "m ! k \<in> set m" "json_marshal (snd (m ! k)) = Some (ds ! k)" using those_SomeD [OF ds(1)] by auto
    then show ?thesis using obj.IH [of "fst (m ! k)" "snd (m ! k)" "ds ! k"] obj.prems(1) k(2)
      by (auto simp: list_all_iff)
  qed
  then have "those (map (\<lambda>kv. json_unmarshal (snd kv)) ?e) = Some (map snd ?e)" by (intro those_map_Some)
  then show ?case by (simp add: ds(2) zip_fst_snd)
qed

lemma Compile_number_free: "Compile g c walk = Inr plan \<Longrightarrow> number_free (VObj plan)"
  by (auto simp: Compile_def Let_def compiled_node_def list_all_iff split: if_splits option.splits)

lemma Compile_reads_back:
  assumes "Compile g c walk = Inr plan" "marshalJSON plan = Inr doc"
  shows "unmarshalJSON operation doc = Inr doc"
proof -
  obtain d where d: "json_marshal (VObj plan) = Some d" "doc = (case as_obj d of None \<Rightarrow> [] | Some m \<Rightarrow> m)"
    using assms(2) by (auto simp: marshalJSON_def split: option.splits)
  then obtain m where "d = VObj m" by auto
  have "json_unmarshal (VObj m) = Some (VObj m)"
    using d number_free_unmarshal [OF Compile_number_free [OF assms(1)]] \<open>d = VObj m\<close> by blast
  moreover have "doc = m" using d \<open>d = VObj m\<close> by simp
  ultimately show ?thesis by (simp only: unmarshalJSON_def option.case as_obj.simps)
qed

text \<open>
  C15: what is published is what was validated: a publication succeeds only on a draft that validates
  for publication in the catalog of its workspace; afterwards the flow is published with the new
  version active, that version reads back with exactly the graph of the draft, its number exceeds
  every earlier one, and it is the only published version of the flow.
\<close>

theorem Publish_stores_validated_graph:
  assumes "flows_ok db" "Publish resolve routes now newID walk ws i a db = (Inr v, val, db')"
    "GetFlowDraft ws i db = Inr g" "document_graph g"
  shows "(\<exists>c. resolve ws = Inr c \<and> vr_valid (Validate c g True)) \<and>
    (\<exists>f. GetFlow ws i db' = Inr f \<and> fl_status f = FlowPublished \<and> fl_active f = fv_version v) \<and>
    (\<exists>w. GetFlowVersion ws i (fv_version v) db' = Inr w \<and> fv_graph w = g \<and> fv_status w = FlowPublished \<and>
         fv_behaviors w = behaviorRefs g \<and> fv_models w = modelRefs g) \<and>
    (\<forall>u \<in> set (flow_versions ws i db). fv_version u < fv_version v) \<and>
    (\<forall>u \<in> set (flow_versions ws i db'). fv_status u = FlowPublished \<longrightarrow> fv_version u = fv_version v)"
  using assms(2)
proof (cases rule: Publish_D)
  case (1 f g' c plan)
  have g: "g' = g" using 1(3) assms(3) by simp
  have p: "fv_status v = FlowPublished" "fv_workspace v = ws" "fv_flow v = i" "fv_graph v = g" "fv_plan v = plan"
    "fv_behaviors v = behaviorRefs g" "fv_models v = modelRefs g"
    using 1(8) g cloneGraph_id [OF assms(4)] by simp_all
  have fresh: "\<forall>u \<in> set (flow_versions ws i db). fv_version u < fv_version v"
    using NextFlowVersion_fresh 1(8) by auto
  from 1(9) p(1) show ?thesis
  proof (cases rule: SaveFlowVersion_D)
    case same
    then show ?thesis using fresh by (auto simp: flow_versions_def version_key_def p)
  next
    case (new w doc docplan)
    have w: "fv_status w = FlowPublished" "fv_workspace w = ws" "fv_flow w = i" "fv_version w = fv_version v"
      "fv_graph w = g" "fv_plan w = docplan" "fv_behaviors w = behaviorRefs g" "fv_models w = modelRefs g"
      using new(1,2) p canonical_documents(1) [OF assms(4)] by simp_all
    let ?live = "\<lambda>r. fv_workspace r = ws \<and> fv_flow r = i \<and> fv_status r = FlowPublished"
    let ?mine = "\<lambda>f. fl_workspace f = ws \<and> fl_id f = i"
    have vs: "fd_versions db' = update_rows ?live (\<lambda>r. r\<lparr>fv_status := FlowArchived\<rparr>) (fd_versions db) @ [w]"
      and fs: "fd_flows db' = update_rows ?mine
         (\<lambda>f. f\<lparr>fl_status := FlowPublished, fl_active := fv_version v, fl_updated := now\<rparr>) (fd_flows db)"
      using insert_version_D [OF new(4) w(1)] w by (simp_all add: Let_def)
    have "List.find ?mine (fd_flows db) = Some f" using 1(1) by (auto simp: GetFlow_def split: option.splits)
    then have flow: "GetFlow ws i db' = Inr (f\<lparr>fl_status := FlowPublished, fl_active := fv_version v, fl_updated := now\<rparr>)"
      unfolding GetFlow_def fs by (subst find_update_same) auto
    have key: "version_key w = (ws, i, fv_version v)" by (simp add: version_key_def w)
    have "flow_steps db db'"
      using Publish_steps [OF assms(1), of resolve routes now newID walk ws i a] assms(2) by simp
    then have ok': "flows_ok db'" using flow_steps_ok assms(1) by blast
    have "List.find (\<lambda>r. version_key r = version_key w) (fd_versions db') = Some w"
      using ok' by (intro version_by_number.find_unique) (auto simp: flows_ok_def vs)
    then have "GetFlowVersion ws i (fv_version v) db' = Inr w"
      using canonical_documents(2) [OF assms(4)] Compile_reads_back [OF 1(7), of docplan] new(3) p
      by (simp add: GetFlowVersion_def key read_version_def w)
    moreover have "u = w" if "u \<in> set (flow_versions ws i db')" "fv_status u = FlowPublished" for u
      using that ok' w unfolding flow_versions_def flows_ok_def vs by auto
    ultimately show ?thesis using flow w fresh 1(4,5,6) g by (intro conjI) (auto simp: 1(8))
  qed
qed

text \<open>Values without floats and \<open>json.Number\<close>s always marshal; a compiled plan is one.\<close>

fun plain_value :: "gval \<Rightarrow> bool" where
  "plain_value (VNumber s) = False"
| "plain_value (VFloat f) = False"
| "plain_value (VFloat32 f) = False"
| "plain_value (VArr vs) = list_all plain_value vs"
| "plain_value (VObj m) = list_all (\<lambda>kv. plain_value (snd kv)) m"
| "plain_value v = True"

lemma those_total: "(\<And>x. x \<in> set xs \<Longrightarrow> \<exists>y. f x = Some y) \<Longrightarrow> \<exists>ys. those (map f xs) = Some ys"
proof (induction xs)
  case (Cons x xs)
  then obtain y ys where "f x = Some y" "those (map f xs) = Some ys" by (metis list.set_intros)
  then show ?case by simp
qed simp

lemma plain_marshals: "plain_value v \<Longrightarrow> \<exists>d. json_marshal v = Some d"
proof (induction v rule: gval_induct)
  case (atom v)
  then show ?case by (cases v) auto
next
  case (arr vs)
  then have "\<exists>ds. those (map json_marshal vs) = Some ds" by (intro those_total) (auto simp: list_all_iff)
  then show ?case by auto
next
  case (obj m)
  then have "\<exists>ds. those (map (\<lambda>kv. json_marshal (snd kv)) m) = Some ds"
    by (intro those_total) (auto simp: list_all_iff)
  then show ?case by auto
qed

lemma Compile_marshals: "Compile g c walk = Inr plan \<Longrightarrow> \<exists>doc. marshalJSON plan = Inr doc"
proof -
  assume "Compile g c walk = Inr plan"
  then have "plain_value (VObj plan)"
    by (auto simp: Compile_def Let_def compiled_node_def list_all_iff split: if_splits option.splits)
  then obtain d where "json_marshal (VObj plan) = Some d" using plain_marshals by blast
  then show ?thesis by (simp only: marshalJSON_def option.case) blast
qed

lemma insert_version_free:
  assumes "flows_ok db" "fv_id v \<notin> fv_id ` set (fd_versions db)" "version_key v \<notin> version_key ` set (fd_versions db)"
    "fv_status v = FlowPublished" "fv_workspace v \<in> set (fd_workspaces db)" "account_ref (fv_published_by v) db"
  shows "\<exists>db'. insert_version now v db = Inr db'"
proof -
  let ?live = "\<lambda>r. fv_workspace r = fv_workspace v \<and> fv_flow r = fv_flow v \<and> fv_status r = FlowPublished"
  let ?earlier = "update_rows ?live (\<lambda>r. r\<lparr>fv_status := FlowArchived\<rparr>) (fd_versions db)"
  have "\<not> version_clash v r" if "r \<in> set ?earlier" for r
  proof -
    obtain s where s: "s \<in> set (fd_versions db)" "r = (if ?live s then s\<lparr>fv_status := FlowArchived\<rparr> else s)"
      using \<open>r \<in> set ?earlier\<close> by (auto simp: update_rows_def)
    have "fv_id r = fv_id s" "version_key r = version_key s" using s(2) by (simp_all add: version_key_def)
    moreover have "\<not> ?live r" using s(2) by (cases "?live s") simp_all
    ultimately show ?thesis using assms(2-4) s(1) by (auto simp: version_clash_def)
  qed
  then have "\<not> list_ex (version_clash v) ?earlier" by (auto simp: list_ex_iff)
  then show ?thesis using assms(4-6) by (simp add: insert_version_def require_row_def insert_row_def)
qed

lemma GetFlow_by_id:
  assumes "flows_ok db" "GetFlow ws i db = Inr f"
  shows "List.find (\<lambda>f. fl_id f = i) (fd_flows db) = Some f"
  using flow_by_id.find_unique [of "fd_flows db" f] assms GetFlow_D [OF assms(2)] by (auto simp: flows_ok_def)

lemma Publish_total:
  assumes "flows_ok db" "GetFlow ws i db = Inr f" "fl_status f \<noteq> FlowArchived" "ws \<noteq> []" "i \<noteq> []"
    "GetFlowDraft ws i db = Inr g" "document_graph g" "resolve ws = Inr c" "vr_valid (Validate c g True)"
    "newID \<noteq> []" "newID \<notin> fv_id ` set (fd_versions db)" "ws \<in> set (fd_workspaces db)" "account_ref a db"
    "routes = None \<or> (\<exists>r. routes = Some r \<and> (\<forall>v. ActivateInputFlow r v = Inr ()))"
  shows "\<exists>v val db'. Publish resolve routes now newID walk ws i a db = (Inr v, val, db')"
proof -
  obtain plan where plan: "Compile g c walk = Inr plan" using assms(9) by (simp add: Compile_def Let_def)
  obtain doc where doc: "marshalJSON plan = Inr doc" using Compile_marshals [OF plan] by blast
  let ?v = "\<lparr>fv_id = newID, fv_workspace = ws, fv_flow = i, fv_version = NextFlowVersion ws i db,
          fv_status = FlowPublished, fv_graph = g, fv_plan = plan, fv_behaviors = behaviorRefs g,
          fv_models = modelRefs g, fv_published = Some now, fv_published_by = a\<rparr>"
  let ?w = "?v\<lparr>fv_plan := doc\<rparr>"
  have fresh: "version_key ?w \<notin> version_key ` set (fd_versions db)"
  proof
    assume "version_key ?w \<in> version_key ` set (fd_versions db)"
    then obtain u where u: "u \<in> set (fd_versions db)" "version_key u = version_key ?w" by auto
    then have "u \<in> set (flow_versions ws i db)" by (simp add: flow_versions_def version_key_def)
    then show False using NextFlowVersion_fresh u(2) by (fastforce simp: version_key_def)
  qed
  have pos: "0 < NextFlowVersion ws i db"
  proof (cases "flow_versions ws i db")
    case (Cons u us)
    then have "u \<in> set (flow_versions ws i db)" by simp
    moreover from this have "u \<in> set (fd_versions db)" by (simp add: flow_versions_def)
    then have "0 < fv_version u" using assms(1) unfolding flows_ok_def by blast
    ultimately show ?thesis using NextFlowVersion_fresh by fastforce
  qed (simp add: NextFlowVersion_def)
  obtain db' where db': "insert_version now ?w db = Inr db'"
    using insert_version_free [of db ?w now] assms fresh by auto
  have shape: "ValidateShape g = Inr ()" using assms(9) valid_iff shape_accepted by blast
  have "List.find (\<lambda>r. version_key r = version_key ?w) (fd_versions db) = None"
    using fresh by (auto simp: find_None_iff image_iff)
  then have "SaveFlowVersion now ?v db = Inr db'"
    using db' assms(2,4,5,10) pos shape doc canonical_documents(1) [OF assms(7)]
      GetFlow_by_id [OF assms(1,2)] GetFlow_D [OF assms(2)]
    by (simp add: SaveFlowVersion_def Let_def or_default_def requireWorkspaceID_def requireID_def)
  then have "store_publication routes now ?v (Validate c g True) db = (Inr ?v, Validate c g True, db')"
    using assms(14) by (auto simp: store_publication_def)
  then show ?thesis
    using assms(2,3,6,8,9) plan cloneGraph_id [OF assms(7)] by (simp add: Publish_def Let_def)
qed

text \<open>
  C35: a draft that validates can be published: for a flow that is not archived, with an identifier
  that is not taken and routes that activate, publication does succeed.
\<close>

theorem Publish_succeeds:
  assumes "flows_ok db" "GetFlow ws i db = Inr f" "fl_status f \<noteq> FlowArchived" "ws \<noteq> []" "i \<noteq> []"
    "GetFlowDraft ws i db = Inr g" "document_graph g" "resolve ws = Inr c" "vr_valid (Validate c g True)"
    "newID \<noteq> []" "newID \<notin> fv_id ` set (fd_versions db)" "ws \<in> set (fd_workspaces db)" "account_ref a db"
    "routes = None \<or> (\<exists>r. routes = Some r \<and> (\<forall>v. ActivateInputFlow r v = Inr ()))"
  shows "\<exists>v val db'. Publish resolve routes now newID walk ws i a db = (Inr v, val, db')"
  using assms by (rule Publish_total)

definition draft_graph :: flow_graph where
  "draft_graph = sample_graph\<lparr>graph_nodes := [sample_connector ''i'' ''hook'',
     sample_filter_node\<lparr>node_config := Some [(''filter'', VObj [(''field'', VStr ''id''), (''op'', VStr ''exists'')])]\<rparr>,
     sample_connector ''o'' ''sink'']\<rparr>"

definition sample_flows :: flow_db where
  "sample_flows = \<lparr>fd_workspaces = [''w''], fd_accounts = [], fd_connections = [(''c'', ''w'')],
     fd_flows = [new_flow 1 ''f1'' ''w'' ''c'' [] ''Publish''],
     fd_drafts = [\<lparr>dr_flow = ''f1'', dr_workspace = ''w'', dr_graph = draft_graph, dr_updated = 1\<rparr>],
     fd_versions = [], fd_templates = []\<rparr>"

definition sample_publish :: "(gerr + flow_version) \<times> validation_result \<times> flow_db" where
  "sample_publish = Publish (\<lambda>_. Inr sample_catalog) None 7000000000 ''v1'' [''o'', ''i'', ''f''] ''w'' ''f1'' [] sample_flows"

lemma sample_document: "document_graph draft_graph"
  by code_simp

lemma sample_flows_ok: "flows_ok sample_flows"
  by (simp add: flows_ok_def sample_flows_def new_flow_def)

lemma draft_valid: "vr_valid (Validate sample_catalog draft_graph True)"
  by code_simp

lemma sample_draft: "GetFlowDraft ''w'' ''f1'' sample_flows = Inr draft_graph"
  by (simp add: GetFlowDraft_def sample_flows_def canonical_documents sample_document)

lemma sample_flow: "GetFlow ''w'' ''f1'' sample_flows = Inr (new_flow 1 ''f1'' ''w'' ''c'' [] ''Publish'')"
  "fl_status (new_flow 1 ''f1'' ''w'' ''c'' [] ''Publish'') \<noteq> FlowArchived"
  by (simp_all add: GetFlow_def sample_flows_def new_flow_def)

theorem Publish_succeeds_witness: "\<exists>v val db'. sample_publish = (Inr v, val, db')"
  unfolding sample_publish_def
  by (rule Publish_succeeds [OF sample_flows_ok sample_flow _ _ sample_draft sample_document _ draft_valid])
    (simp_all add: sample_flows_def account_ref_def)

lemma sample_publish_ok: "\<exists>v val db'. sample_publish = (Inr v, val, db')"
  unfolding sample_publish_def
  by (rule Publish_total [OF sample_flows_ok sample_flow _ _ sample_draft sample_document _ draft_valid])
    (simp_all add: sample_flows_def account_ref_def)

theorem Publish_stores_validated_graph_witness:
  "\<exists>v val db'. sample_publish = (Inr v, val, db') \<and>
     (\<exists>w. GetFlowVersion ''w'' ''f1'' (fv_version v) db' = Inr w \<and> fv_graph w = draft_graph)"
proof -
  obtain v val db' where p: "sample_publish = (Inr v, val, db')" using sample_publish_ok by blast
  show ?thesis
    using p Publish_stores_validated_graph [OF sample_flows_ok p [unfolded sample_publish_def] sample_draft sample_document] by blast
qed

text \<open>
  C29: versions are immutable: whatever the service is asked to do afterwards, a version that can be
  read today can be read later with the same identifier, graph, plan and references; only its status
  may go from published to archived.
\<close>

theorem version_immutable:
  assumes "flows_ok db" "service_history db db'" "GetFlowVersion ws i n db = Inr v"
  shows "\<exists>v'. GetFlowVersion ws i n db' = Inr v' \<and> later_version v' v"
proof -
  note h = service_history_steps [OF assms(2,1)]
  obtain r where r: "List.find (\<lambda>r. version_key r = (ws, i, n)) (fd_versions db) = Some r" "read_version r = Inr v"
    using assms(3) by (auto simp: GetFlowVersion_def split: option.splits)
  then have "r \<in> set (fd_versions db)" "version_key r = (ws, i, n)" using find_SomeD [OF r(1)] by blast+
  then obtain r' where r': "r' \<in> set (fd_versions db')" "later_version r' r" using flow_steps_version h by blast
  have k: "version_key r' = (ws, i, n)" using r'(2) \<open>version_key r = (ws, i, n)\<close>
    by (auto simp: later_version_def version_key_def)
  have "List.find (\<lambda>x. version_key x = version_key r') (fd_versions db') = Some r'"
    using h r'(1) by (intro version_by_number.find_unique) (auto simp: flows_ok_def)
  then have "GetFlowVersion ws i n db' = read_version r'" by (simp add: GetFlowVersion_def k)
  moreover obtain g plan where v: "v = r\<lparr>fv_graph := g, fv_plan := plan\<rparr>" "graph_of_document (fv_graph r) = Some g"
      "unmarshalJSON ''decode compiled plan'' (fv_plan r) = Inr plan"
    using r(2) by (auto simp: read_version_def bind_result_Inr split: option.splits)
  moreover have "fv_graph r' = fv_graph r" "fv_plan r' = fv_plan r" using r'(2) by (auto simp: later_version_def)
  ultimately have "GetFlowVersion ws i n db' = Inr (r'\<lparr>fv_graph := g, fv_plan := plan\<rparr>)"
    by (simp add: read_version_def)
  moreover have "later_version (r'\<lparr>fv_graph := g, fv_plan := plan\<rparr>) v" using r'(2) v(1) by (auto simp: later_version_def)
  ultimately show ?thesis by blast
qed

text \<open>
  C30: an archived flow stays archived: no operation of the service brings it back, and every attempt
  to publish, pause or archive it again is refused as a conflict and changes nothing.
\<close>

theorem archived_is_final:
  assumes "flows_ok db" "GetFlow ws i db = Inr f" "fl_status f = FlowArchived" "service_history db db'"
  shows "(\<exists>f'. GetFlow ws i db' = Inr f' \<and> fl_status f' = FlowArchived) \<and>
    Publish resolve routes now newID walk ws i a db' =
      (fail ErrConflict ''archived Flow cannot be published'', no_validation, db') \<and>
    Pause routes now ws i n db' = (fail ErrConflict ''only a published Flow can be paused'', db') \<and>
    Archive routes now ws i db' = (fail ErrConflict ''only a published or paused Flow can be archived'', db')"
proof -
  note h = service_history_steps [OF assms(4,1)]
  have "f \<in> set (fd_flows db)" "fl_workspace f = ws" "fl_id f = i" using GetFlow_D [OF assms(2)] by blast+
  then obtain f' where f': "f' \<in> set (fd_flows db')" "fl_id f' = i" "fl_workspace f' = ws" "fl_status f' = FlowArchived"
    using flow_steps_archived [of db db' f] h assms(3) by blast
  have only: "x = f'" if "x \<in> set (fd_flows db')" "fl_workspace x = ws \<and> fl_id x = i" for x
    using that f' h by (auto simp: flows_ok_def distinct_map inj_on_def)
  have "List.find (\<lambda>f. fl_workspace f = ws \<and> fl_id f = i) (fd_flows db') = Some f'"
  proof (cases "List.find (\<lambda>f. fl_workspace f = ws \<and> fl_id f = i) (fd_flows db')")
    case None
    then show ?thesis using f' by (auto dest: find_NoneD)
  next
    case (Some x)
    then show ?thesis using find_SomeD [OF Some] only by blast
  qed
  then have g: "GetFlow ws i db' = Inr f'" by (simp add: GetFlow_def)
  show ?thesis using g f'(4) by (simp add: Publish_def Pause_def Archive_def query_def)
qed

definition archived_flows :: flow_db where
  "archived_flows = sample_flows\<lparr>fd_flows := [(new_flow 1 ''f1'' ''w'' ''c'' [] ''Publish'')\<lparr>fl_status := FlowArchived\<rparr>]\<rparr>"

theorem archived_is_final_witness:
  "\<exists>f. GetFlow ''w'' ''f1'' archived_flows = Inr f \<and>
     Archive None 9 ''w'' ''f1'' archived_flows =
       (fail ErrConflict ''only a published or paused Flow can be archived'', archived_flows)"
proof -
  have ok: "flows_ok archived_flows" by (simp add: flows_ok_def archived_flows_def sample_flows_def new_flow_def)
  obtain f where f: "GetFlow ''w'' ''f1'' archived_flows = Inr f" "fl_status f = FlowArchived"
    by (simp add: GetFlow_def archived_flows_def sample_flows_def new_flow_def)
  show ?thesis using f archived_is_final [OF ok f rtranclp.rtrancl_refl, of _ None 9] by blast
qed

definition published_flows :: flow_db where
  "published_flows = sample_flows\<lparr>fd_versions := [\<lparr>fv_id = ''v1'', fv_workspace = ''w'', fv_flow = ''f1'',
     fv_version = 1, fv_status = FlowPublished, fv_graph = draft_graph, fv_plan = [], fv_behaviors = [],
     fv_models = [], fv_published = None, fv_published_by = []\<rparr>]\<rparr>"

theorem version_immutable_witness:
  "\<exists>v v'. GetFlowVersion ''w'' ''f1'' 1 published_flows = Inr v \<and>
     GetFlowVersion ''w'' ''f1'' 1 (snd (Archive None 9 ''w'' ''f1'' published_flows)) = Inr v' \<and> later_version v' v"
proof -
  have ok: "flows_ok published_flows"
    by (simp add: flows_ok_def published_flows_def sample_flows_def new_flow_def)
  obtain v where v: "GetFlowVersion ''w'' ''f1'' 1 published_flows = Inr v"
    by (simp add: GetFlowVersion_def published_flows_def version_key_def read_version_def canonical_documents
        sample_document unmarshalJSON_def)
  have h: "service_history published_flows (snd (Archive None 9 ''w'' ''f1'' published_flows))"
    by (rule r_into_rtranclp, rule service_step.archive) (rule surjective_pairing)
  show ?thesis using v version_immutable [OF ok h v] by blast
qed

end
