(* ===== verification/ControlSteps.thy ===== *)
theory ControlSteps
  imports Connections FlowService
begin

text \<open>
  The control plane at work: connections, hooks and routes under every sequence of the operations
  that the program calls. The invariant keeps the keys of the tables, the exclusive use of a project
  by one active connection, and one active version per flow.
\<close>

section \<open>Tables without clashes\<close>

definition no_clash :: "('r \<Rightarrow> 'r \<Rightarrow> bool) \<Rightarrow> 'r list \<Rightarrow> bool" where
  "no_clash clash rows \<longleftrightarrow> sorted_wrt (\<lambda>a b. \<not> clash a b) rows"

lemma sorted_wrt_mapI:
  "sorted_wrt R rows \<Longrightarrow> (\<And>a b. a \<in> set rows \<Longrightarrow> b \<in> set rows \<Longrightarrow> R a b \<Longrightarrow> S (u a) (u b)) \<Longrightarrow>
     sorted_wrt S (map u rows)"
  by (induction rows) auto

locale keyed_table =
  fixes row_key :: "'r \<Rightarrow> 'k" and clash :: "'r \<Rightarrow> 'r \<Rightarrow> bool"
  assumes clash_sym: "clash a b \<Longrightarrow> clash b a"
    and key_clashes: "row_key a = row_key b \<Longrightarrow> clash a b"
begin

lemma clash_only: "no_clash clash rows \<Longrightarrow> r \<in> set rows \<Longrightarrow> s \<in> set rows \<Longrightarrow> clash r s \<Longrightarrow> r = s"
  using clash_sym by (induction rows) (auto simp: no_clash_def)

lemma insert_no_clash: "insert_row operation clash new rows = Inr rows' \<Longrightarrow> no_clash clash rows \<Longrightarrow> no_clash clash rows'"
  using clash_sym by (auto simp: err_simps no_clash_def sorted_wrt_append)

lemma update_no_clash:
  assumes "update_unique operation clash P f rows = Inr rows'" "no_clash clash rows"
    and one: "\<And>r s. P r \<Longrightarrow> P s \<Longrightarrow> row_key r = row_key s"
  shows "no_clash clash rows'"
proof -
  let ?u = "\<lambda>r. if P r then f r else r"
  from assms(1) have rows': "rows' = map ?u rows"
    and free: "\<And>r s. r \<in> set rows \<Longrightarrow> s \<in> set rows \<Longrightarrow> P r \<Longrightarrow> \<not> P s \<Longrightarrow> \<not> clash (f r) s"
    by (auto simp: update_unique_def update_rows_def list_ex_iff split: if_splits)
  have "\<not> clash (?u a) (?u b)" if "a \<in> set rows" "b \<in> set rows" "\<not> clash a b" for a b
    using that free [of a b] free [of b a] one [of a b] key_clashes [of a b] clash_sym [of a "f b"]
    by (simp split: if_splits) blast+
  then show ?thesis using sorted_wrt_mapI [of "\<lambda>a b. \<not> clash a b" rows "\<lambda>a b. \<not> clash a b" ?u] assms(2)
    unfolding no_clash_def rows' by blast
qed

lemma update_clear:
  assumes "no_clash clash rows"
    and "\<And>r s. clash (if P r then f r else r) (if P s then f s else s) \<Longrightarrow> clash r s"
  shows "no_clash clash (update_rows P f rows)"
  using assms(1) sorted_wrt_mapI [of "\<lambda>a b. \<not> clash a b" rows "\<lambda>a b. \<not> clash a b" "\<lambda>r. if P r then f r else r"]
    assms(2) unfolding no_clash_def update_rows_def by blast

end

interpretation connections: keyed_table cn_id connection_clash
  by unfold_locales (auto simp: connection_clash_def)

interpretation hooks: keyed_table hk_id hook_clash
  by unfold_locales (auto simp: hook_clash_def hook_key_def)

interpretation routes: keyed_table hr_id route_clash
  by unfold_locales (auto simp: route_clash_def)

lemma find_only:
  assumes "x \<in> set xs" "P x" "\<And>y. y \<in> set xs \<Longrightarrow> P y \<Longrightarrow> y = x"
  shows "List.find P xs = Some x"
proof (cases "List.find P xs")
  case None
  then show ?thesis using assms(1,2) by (simp add: find_None_iff)
next
  case (Some y)
  then have "y \<in> set xs \<and> P y" by (auto simp: find_Some_iff)
  then show ?thesis using Some assms(3) by blast
qed

section \<open>Histories\<close>

inductive control_step :: "control_db \<Rightarrow> control_db \<Rightarrow> bool" where
  connect: "CreateConnection now c db = Inr db' \<Longrightarrow> control_step db db'"
| status: "UpdateConnectionStatus ws i s readyAt db = Inr db' \<Longrightarrow> control_step db db'"
| disconnect: "DisableConnection now ws i db = Inr db' \<Longrightarrow> control_step db db'"
| hook: "UpsertHook i h db = Inr (stored, db') \<Longrightarrow> control_step db db'"
| activate: "ActivateHookRoute i r db = Inr (route, db') \<Longrightarrow> control_step db db'"
| retire: "DisableHookRoutesForFlow ws i v db = Inr db' \<Longrightarrow> control_step db db'"
| silence: "control_step db (DisableHookRoutesForConnection ws i db)"
| flows: "flow_step (cb_flows db) f \<Longrightarrow> control_step db (db\<lparr>cb_flows := f\<rparr>)"
| endpoints: "control_step db (db\<lparr>cb_endpoints := e\<rparr>)"

abbreviation control_history :: "control_db \<Rightarrow> control_db \<Rightarrow> bool" where
  "control_history \<equiv> control_step\<^sup>*\<^sup>*"

definition same_flow :: "hook_route \<Rightarrow> hook_route \<Rightarrow> bool" where
  "same_flow r s \<longleftrightarrow> hr_workspace r = hr_workspace s \<and> hr_flow r = hr_flow s"

definition enabled :: "hook_route \<Rightarrow> bool" where
  "enabled r \<longleftrightarrow> hr_status r \<noteq> HookDisabled"

definition one_version :: "hook_route list \<Rightarrow> bool" where
  "one_version rows \<longleftrightarrow>
     (\<forall>r \<in> set rows. \<forall>s \<in> set rows. enabled r \<and> enabled s \<and> same_flow r s \<longrightarrow> hr_version r = hr_version s)"

definition routes_ok :: "control_db \<Rightarrow> bool" where
  "routes_ok db \<longleftrightarrow>
     no_clash route_clash (cb_routes db) \<and> one_version (cb_routes db) \<and>
     hr_hook ` set (cb_routes db) \<subseteq> hk_id ` set (cb_hooks db)"

definition connections_ok :: "control_db \<Rightarrow> bool" where
  "connections_ok db \<longleftrightarrow>
     no_clash connection_clash (cb_connections db) \<and>
     fd_connections (cb_flows db) = map (\<lambda>c. (cn_id c, cn_workspace c)) (cb_connections db)"

definition control_ok :: "control_db \<Rightarrow> bool" where
  "control_ok db \<longleftrightarrow> connections_ok db \<and> no_clash hook_clash (cb_hooks db) \<and> routes_ok db"

lemmas control_parts = control_ok_def connections_ok_def routes_ok_def

lemma insert_version_connections: "insert_version now v db = Inr db' \<Longrightarrow> fd_connections db' = fd_connections db"
  by (auto simp: insert_version_def Let_def err_simps)

lemma flow_step_connections: "flow_step db db' \<Longrightarrow> fd_connections db' = fd_connections db"
proof (induction rule: flow_step.induct)
  case (create now f db db')
  then show ?case using CreateFlow_D by fastforce
next
  case (draft now ws i g db db')
  then show ?case using SaveFlowDraft_D by fastforce
next
  case (publish now v db db')
  then show ?case by (auto elim!: SaveFlowVersion_D dest: insert_version_connections)
next
  case (pause now ws i db db')
  then show ?case using UpdateFlowStatus_D by fastforce
next
  case (archive now ws i db db')
  then show ?case using UpdateFlowStatus_D by fastforce
next
  case (template i t db db')
  then show ?case using CreateFlowTemplate_D by fastforce
qed

section \<open>The operations\<close>

lemma store_connections_simps [simp]:
  "cb_connections (store_connections rows db) = rows" "cb_hooks (store_connections rows db) = cb_hooks db"
  "cb_routes (store_connections rows db) = cb_routes db" "cb_endpoints (store_connections rows db) = cb_endpoints db"
  "fd_connections (cb_flows (store_connections rows db)) = map (\<lambda>c. (cn_id c, cn_workspace c)) rows"
  by (simp_all add: store_connections_def)

lemma disable_routes_simps [simp]:
  "cb_connections (disable_routes P db) = cb_connections db" "cb_hooks (disable_routes P db) = cb_hooks db"
  "cb_flows (disable_routes P db) = cb_flows db" "cb_endpoints (disable_routes P db) = cb_endpoints db"
  "cb_routes (disable_routes P db) = update_rows P (\<lambda>r. r\<lparr>hr_status := HookDisabled\<rparr>) (cb_routes db)"
  by (simp_all add: disable_routes_def)

lemma store_connections_ok:
  "control_ok db \<Longrightarrow> no_clash connection_clash rows \<Longrightarrow> control_ok (store_connections rows db)"
  by (simp add: control_parts)

lemma CreateConnection_ok: "CreateConnection now c db = Inr db' \<Longrightarrow> control_ok db \<Longrightarrow> control_ok db'"
proof -
  assume "CreateConnection now c db = Inr db'" and ok: "control_ok db"
  then obtain row rows where rows: "insert_row ''create connection'' connection_clash row (cb_connections db) = Inr rows"
    "db' = store_connections rows db"
    unfolding CreateConnection_def Let_def bind_result_Inr by blast
  moreover have "no_clash connection_clash rows"
    using connections.insert_no_clash [OF rows(1)] ok by (simp add: control_parts)
  ultimately show ?thesis using store_connections_ok ok by simp
qed

lemma UpdateConnectionStatus_ok: "UpdateConnectionStatus ws i s t db = Inr db' \<Longrightarrow> control_ok db \<Longrightarrow> control_ok db'"
proof -
  let ?P = "\<lambda>c. cn_workspace c = ws \<and> cn_id c = i"
  assume u: "UpdateConnectionStatus ws i s t db = Inr db'" and ok: "control_ok db"
  then obtain rows where rows: "update_unique ''update connection status'' connection_clash ?P
      (\<lambda>c. c\<lparr>cn_status := s, cn_ready := t\<rparr>) (cb_connections db) = Inr rows" "db' = store_connections rows db"
    by (auto simp: UpdateConnectionStatus_def Let_def err_simps split: sum.splits if_splits)
  moreover have "no_clash connection_clash rows"
    using connections.update_no_clash [OF rows(1)] ok by (simp add: control_parts)
  ultimately show ?thesis using store_connections_ok ok by simp
qed

text \<open>Whether two routes clash depends on none of the columns that an update writes.\<close>

lemma route_columns_clash:
  "route_clash (if P r then r\<lparr>hr_status := x\<rparr> else r) (if P s then s\<lparr>hr_status := x\<rparr> else s) = route_clash r s"
  "route_clash (if P r then r\<lparr>hr_source := a, hr_filter := b, hr_hook := c, hr_status := x\<rparr> else r)
     (if P s then s\<lparr>hr_source := a, hr_filter := b, hr_hook := c, hr_status := x\<rparr> else s) = route_clash r s"
  by (cases "P r"; cases "P s"; simp add: route_clash_def route_key_def)+

lemma disable_clear: "no_clash route_clash rows \<Longrightarrow> no_clash route_clash (update_rows P (\<lambda>r. r\<lparr>hr_status := HookDisabled\<rparr>) rows)"
  by (rule routes.update_clear) (simp_all add: route_columns_clash(1) split del: if_split)

lemma one_version_enabled:
  "(\<And>r. r \<in> set rows' \<Longrightarrow> enabled r \<Longrightarrow> r \<in> set rows) \<Longrightarrow> one_version rows \<Longrightarrow> one_version rows'"
  unfolding one_version_def by blast

lemma in_disabled: "r \<in> set (update_rows P (\<lambda>r. r\<lparr>hr_status := HookDisabled\<rparr>) rows) \<Longrightarrow> enabled r \<Longrightarrow> r \<in> set rows \<and> \<not> P r"
  by (auto simp: set_update_rows enabled_def)

lemma disable_one_version: "one_version rows \<Longrightarrow> one_version (update_rows P (\<lambda>r. r\<lparr>hr_status := HookDisabled\<rparr>) rows)"
  using one_version_enabled [of "update_rows P (\<lambda>r. r\<lparr>hr_status := HookDisabled\<rparr>) rows" rows] in_disabled by blast

lemma disable_hooks: "hr_hook ` set (update_rows P (\<lambda>r. r\<lparr>hr_status := HookDisabled\<rparr>) rows) = hr_hook ` set rows"
  by (metis (no_types, lifting) list.set_map map_update_same [where g = hr_hook] hook_route.ext_inject
      hook_route.surjective hook_route.update_convs(11))

lemma disable_routes_ok: "routes_ok db \<Longrightarrow> routes_ok (disable_routes P db)"
  by (simp add: routes_ok_def disable_clear disable_one_version disable_hooks)

lemma DisableConnection_ok:
  assumes "DisableConnection now ws i db = Inr db'" "control_ok db"
  shows "control_ok db'"
proof -
  let ?rows = "update_rows (\<lambda>c. cn_workspace c = ws \<and> cn_id c = i)
    (\<lambda>c. c\<lparr>cn_status := ConnectionDisabled, cn_disabled := Some now\<rparr>) (cb_connections db)"
  have "no_clash connection_clash ?rows" using assms(2)
    by (intro connections.update_clear)
       (auto simp: control_parts connection_clash_def source_key_def target_key_def split: if_splits)
  moreover have "db' = disable_routes (\<lambda>r. hr_workspace r = ws \<and> hr_connection r = i) (store_connections ?rows db)"
    using assms(1) by (auto simp: DisableConnection_def Let_def err_simps split: if_splits)
  moreover have "routes_ok (store_connections ?rows db)" using assms(2) by (simp add: control_parts)
  ultimately show ?thesis using assms(2) disable_routes_ok
    by (simp add: control_ok_def connections_ok_def)
qed

lemma write_hook_ok: "write_hook h db = Inr (stored, db') \<Longrightarrow> control_ok db \<Longrightarrow> control_ok db'"
proof -
  assume w: "write_hook h db = Inr (stored, db')" and ok: "control_ok db"
  obtain rows where db': "db' = db\<lparr>cb_hooks := rows\<rparr>" and "no_clash hook_clash rows"
    and "hk_id ` set (cb_hooks db) \<subseteq> hk_id ` set rows"
  proof (cases "List.find (\<lambda>r. hook_key r = hook_key h) (cb_hooks db)")
    case None
    then obtain rows where rows: "insert_row ''create Hook'' hook_clash (h\<lparr>hk_signing := secretRefID (hk_signing h)\<rparr>) (cb_hooks db) = Inr rows"
      "db' = db\<lparr>cb_hooks := rows\<rparr>" using w by (auto simp: write_hook_def err_simps)
    then show thesis using hooks.insert_no_clash [OF rows(1)] ok rows(2)
      by (intro that [of rows]) (auto simp: control_parts err_simps)
  next
    case (Some e)
    let ?P = "\<lambda>r. hk_id r = hk_id e \<and> hk_workspace r = hk_workspace h"
    let ?f = "\<lambda>r. r\<lparr>hk_connection := hk_connection h, hk_provider := hk_provider h, hk_external := hk_external h,
                   hk_signing := secretRefID (hk_signing h), hk_status := hk_status h\<rparr>"
    obtain rows where rows: "update_unique ''update Hook'' hook_clash ?P ?f (cb_hooks db) = Inr rows"
      "db' = db\<lparr>cb_hooks := rows\<rparr>" using w Some by (auto simp: write_hook_def err_simps)
    have "rows = update_rows ?P ?f (cb_hooks db)" using rows(1) by (auto simp: update_unique_def split: if_splits)
    then have "map hk_id rows = map hk_id (cb_hooks db)" by (simp add: map_update_same)
    then have "hk_id ` set rows = hk_id ` set (cb_hooks db)" by (metis set_map)
    moreover have "no_clash hook_clash rows"
      using hooks.update_no_clash [OF rows(1)] ok by (simp add: control_parts)
    ultimately show thesis using rows(2) by (intro that [of rows]) simp_all
  qed
  moreover from this have "hr_hook ` set (cb_routes db) \<subseteq> hk_id ` set rows"
    using ok by (meson control_ok_def routes_ok_def order_trans)
  ultimately show ?thesis using ok by (simp add: control_parts)
qed

lemma UpsertHook_ok: "UpsertHook i h db = Inr (stored, db') \<Longrightarrow> control_ok db \<Longrightarrow> control_ok db'"
  by (auto simp: UpsertHook_def Let_def err_simps split: if_splits elim: write_hook_ok)

text \<open>What a route is written to: one row, of its flow and version; the other rows stay.\<close>

lemma write_route_D:
  assumes "write_route route db = Inr (stored, db')" "routes_ok db"
  obtains rows where "db' = db\<lparr>cb_routes := rows\<rparr>" "no_clash route_clash rows"
    "hr_hook ` set rows \<subseteq> hk_id ` set (cb_hooks db)" "route_key stored = route_key route"
    "\<exists>r \<in> set rows. route_key r = route_key route \<and> hr_id r = hr_id stored \<and> hr_status r = hr_status route \<and> hr_hook r = hr_hook route"
    "\<And>r. route_key r \<noteq> route_key route \<Longrightarrow> r \<in> set rows \<longleftrightarrow> r \<in> set (cb_routes db)"
proof (cases "List.find (\<lambda>r. route_key r = route_key route) (cb_routes db)")
  case None
  then obtain filter rows where rows: "insert_row ''create Hook route'' route_clash
      (route\<lparr>hr_source := source_columns (hr_source route), hr_filter := filter\<rparr>) (cb_routes db) = Inr rows"
    "db' = db\<lparr>cb_routes := rows\<rparr>" "stored = route" "hr_hook route \<in> hk_id ` set (cb_hooks db)"
    using assms(1) by (auto simp: write_route_def err_simps)
  show thesis using rows assms(2) routes.insert_no_clash [OF rows(1)]
    by (intro that [of rows]) (auto simp: routes_ok_def err_simps route_key_def)
next
  case (Some e)
  then have e: "e \<in> set (cb_routes db)" "route_key e = route_key route"
    by (auto simp: find_Some_iff)
  let ?P = "\<lambda>r. hr_id r = hr_id e \<and> hr_workspace r = hr_workspace route"
  from Some obtain filter where db': "db' = db\<lparr>cb_routes := update_rows ?P
        (\<lambda>r. r\<lparr>hr_source := source_columns (hr_source route), hr_filter := filter,
               hr_hook := hr_hook route, hr_status := hr_status route\<rparr>) (cb_routes db)\<rparr>"
    and stored: "stored = route\<lparr>hr_id := hr_id e\<rparr>" and hook: "hr_hook route \<in> hk_id ` set (cb_hooks db)"
    using assms(1) by (auto simp: write_route_def err_simps)
  let ?f = "\<lambda>r. r\<lparr>hr_source := source_columns (hr_source route), hr_filter := filter,
               hr_hook := hr_hook route, hr_status := hr_status route\<rparr>"
  have only: "?P r \<longleftrightarrow> r = e" if "r \<in> set (cb_routes db)" for r
    using that e assms(2) routes.clash_only [of "cb_routes db" r e]
    by (auto simp: routes_ok_def route_clash_def route_key_def)
  have rows: "set (update_rows ?P ?f (cb_routes db)) = (set (cb_routes db) - {e}) \<union> {?f e}"
  proof -
    have "{r \<in> set (cb_routes db). ?P r} = {e}" "{r \<in> set (cb_routes db). \<not> ?P r} = set (cb_routes db) - {e}"
      using only e(1) by blast+
    then show ?thesis unfolding set_update_rows by simp
  qed
  have clear: "no_clash route_clash (update_rows ?P ?f (cb_routes db))"
    using assms(2) by (intro routes.update_clear) (simp add: routes_ok_def, simp only: route_columns_clash(2) [where P = ?P])
  have key: "route_key (?f e) = route_key route" using e(2) by (simp add: route_key_def)
  show thesis
  proof (rule that [OF db' clear])
    show "hr_hook ` set (update_rows ?P ?f (cb_routes db)) \<subseteq> hk_id ` set (cb_hooks db)"
      using assms(2) hook by (auto simp: rows routes_ok_def)
    show "route_key stored = route_key route" by (simp add: stored route_key_def)
    show "\<exists>r \<in> set (update_rows ?P ?f (cb_routes db)). route_key r = route_key route \<and> hr_id r = hr_id stored \<and>
        hr_status r = hr_status route \<and> hr_hook r = hr_hook route"
      using key by (intro bexI [of _ "?f e"]) (auto simp: rows stored)
    show "r \<in> set (update_rows ?P ?f (cb_routes db)) \<longleftrightarrow> r \<in> set (cb_routes db)" if "route_key r \<noteq> route_key route" for r
      using that key e by (auto simp: rows)
  qed
qed

text \<open>After an activation no other version of the flow is enabled, and other flows are as before.\<close>

lemma ActivateHookRoute_D:
  assumes "ActivateHookRoute i route0 db = Inr (stored, db')" "control_ok db"
  shows "control_ok db'"
    and "\<And>r. r \<in> set (cb_routes db') \<Longrightarrow> enabled r \<Longrightarrow> same_flow r stored \<Longrightarrow> hr_version r = hr_version stored"
    and "\<exists>r \<in> set (cb_routes db'). route_key r = route_key route0 \<and> hr_id r = hr_id stored \<and> hr_hook r = hr_hook route0 \<and>
           hr_status r = or_default (hr_status route0) (\<lambda>s. s = []) HookActive"
    and "\<And>r. \<not> same_flow r route0 \<Longrightarrow> r \<in> set (cb_routes db') \<longleftrightarrow> r \<in> set (cb_routes db)"
    and "same_flow stored route0" "hr_version stored = hr_version route0"
    and "cb_connections db' = cb_connections db" "cb_hooks db' = cb_hooks db" "cb_flows db' = cb_flows db"
proof -
  let ?route = "route0\<lparr>hr_id := or_default (hr_id route0) (\<lambda>i. i = []) i,
    hr_status := or_default (hr_status route0) (\<lambda>s. s = []) HookActive\<rparr>"
  let ?old = "\<lambda>r. hr_workspace r = hr_workspace stored \<and> hr_flow r = hr_flow stored \<and>
              hr_version r \<noteq> hr_version stored \<and> hr_status r \<noteq> HookDisabled"
  from assms(1) obtain db1 where w: "write_route ?route db = Inr (stored, db1)" and db': "db' = disable_routes ?old db1"
    by (auto simp: ActivateHookRoute_def upsertHookRouteTx_def Let_def err_simps split: if_splits)
  from assms(2) have ok: "routes_ok db" by (simp add: control_ok_def)
  obtain rows where rows: "db1 = db\<lparr>cb_routes := rows\<rparr>" "no_clash route_clash rows"
    "hr_hook ` set rows \<subseteq> hk_id ` set (cb_hooks db)" "route_key stored = route_key ?route"
    "\<exists>r \<in> set rows. route_key r = route_key ?route \<and> hr_id r = hr_id stored \<and> hr_status r = hr_status ?route \<and> hr_hook r = hr_hook ?route"
    "\<And>r. route_key r \<noteq> route_key ?route \<Longrightarrow> r \<in> set rows \<longleftrightarrow> r \<in> set (cb_routes db)"
    by (rule write_route_D [OF w ok], rule that; assumption)
  have routes': "cb_routes db' = update_rows ?old (\<lambda>r. r\<lparr>hr_status := HookDisabled\<rparr>) rows"
    by (simp add: db' rows(1))
  show stored: "same_flow stored route0" "hr_version stored = hr_version route0"
    using rows(4) by (auto simp: route_key_def same_flow_def)
  show version: "hr_version r = hr_version stored" if "r \<in> set (cb_routes db')" "enabled r" "same_flow r stored" for r
  proof -
    from in_disabled [OF that(1) [unfolded routes'] that(2)] have "\<not> ?old r" by simp
    then show ?thesis using that(2,3) unfolding enabled_def same_flow_def by blast
  qed
  have other: "r \<in> set (cb_routes db') \<longleftrightarrow> r \<in> set (cb_routes db)" if "\<not> same_flow r route0" for r
  proof -
    have "route_key r \<noteq> route_key ?route" using that by (auto simp: route_key_def same_flow_def)
    then have "r \<in> set rows \<longleftrightarrow> r \<in> set (cb_routes db)" by (rule rows(6))
    moreover have "r \<in> set (cb_routes db') \<longleftrightarrow> r \<in> set rows"
      using that stored unfolding routes' set_update_rows by (auto simp: same_flow_def)
    ultimately show ?thesis by simp
  qed
  then show "\<And>r. \<not> same_flow r route0 \<Longrightarrow> r \<in> set (cb_routes db') \<longleftrightarrow> r \<in> set (cb_routes db)" .
  have "one_version (cb_routes db')"
    unfolding one_version_def
  proof (intro ballI impI)
    fix r s assume rs: "r \<in> set (cb_routes db')" "s \<in> set (cb_routes db')" "enabled r \<and> enabled s \<and> same_flow r s"
    show "hr_version r = hr_version s"
    proof (cases "same_flow r route0")
      case True
      then have "same_flow r stored" "same_flow s stored" using rs(3) stored by (auto simp: same_flow_def)
      then show ?thesis using rs version by metis
    next
      case False
      then have "\<not> same_flow s route0" using rs(3) by (auto simp: same_flow_def)
      then show ?thesis using rs other False ok unfolding routes_ok_def one_version_def by blast
    qed
  qed
  then show "control_ok db'" using assms(2) rows disable_clear disable_hooks [of ?old rows]
    by (simp add: control_parts db')
  obtain r where r: "r \<in> set rows" "route_key r = route_key ?route" "hr_id r = hr_id stored"
    "hr_status r = hr_status ?route" "hr_hook r = hr_hook ?route" using rows(5) by blast
  have "\<not> ?old r" using r(2) rows(4) by (auto simp: route_key_def)
  then have "r \<in> set (cb_routes db')" using r(1) unfolding routes' set_update_rows by blast
  moreover have "route_key r = route_key route0" using r(2) by (simp add: route_key_def)
  ultimately show "\<exists>r \<in> set (cb_routes db'). route_key r = route_key route0 \<and> hr_id r = hr_id stored \<and> hr_hook r = hr_hook route0 \<and>
           hr_status r = or_default (hr_status route0) (\<lambda>s. s = []) HookActive"
    using r(3-5) by (intro bexI [of _ r]) simp_all
  show "cb_connections db' = cb_connections db" "cb_hooks db' = cb_hooks db" "cb_flows db' = cb_flows db"
    by (simp_all add: db' rows(1))
qed

lemma DisableHookRoutesForFlow_ok: "DisableHookRoutesForFlow ws i v db = Inr db' \<Longrightarrow> control_ok db \<Longrightarrow> control_ok db'"
  using disable_routes_ok by (auto simp: DisableHookRoutesForFlow_def Let_def control_ok_def connections_ok_def split: if_splits)

lemma control_step_ok: "control_step db db' \<Longrightarrow> control_ok db \<Longrightarrow> control_ok db'"
proof (induction rule: control_step.induct)
  case (silence db ws i)
  then show ?case using disable_routes_ok by (auto simp: DisableHookRoutesForConnection_def control_ok_def connections_ok_def)
next
  case (flows db f)
  then show ?case using flow_step_connections [OF flows(1)] by (simp add: control_parts)
next
  case (activate i r db route db')
  then show ?case using ActivateHookRoute_D(1) by blast
next
  case (endpoints db e)
  then show ?case by (simp add: control_parts)
qed (blast intro: CreateConnection_ok UpdateConnectionStatus_ok DisableConnection_ok UpsertHook_ok
    DisableHookRoutesForFlow_ok)+

lemma control_history_ok: "control_history db db' \<Longrightarrow> control_ok db \<Longrightarrow> control_ok db'"
  by (induction rule: rtranclp_induct) (auto dest: control_step_ok)

section \<open>A control plane\<close>

definition sample_connection :: connection where
  "sample_connection = \<lparr>cn_id = ''c'', cn_workspace = ''w'', cn_name = ''app'', cn_source = source_ref ''g'' ''7'',
     cn_target = source_ref ''m'' ''9'', cn_status = ConnectionConfigured, cn_configured = 1, cn_ready = None,
     cn_disabled = None, cn_created_by = []\<rparr>"

definition sample_hook :: hook where
  "sample_hook = \<lparr>hk_id = ''h'', hk_workspace = ''w'', hk_connection = ''c'', hk_provider = ProviderGitLab,
     hk_instance = ''g'', hk_project = ''7'', hk_external = ''17'', hk_signing = Some (id_ref ''s''), hk_status = HookActive\<rparr>"

definition sample_route :: "ID \<Rightarrow> int \<Rightarrow> hook_route" where
  "sample_route i n = \<lparr>hr_id = i, hr_workspace = ''w'', hr_connection = ''c'', hr_source = source_ref ''g'' ''7'',
     hr_behavior_key = ''gitlab.push-hook'', hr_behavior_version = ''1.0.0'', hr_flow = ''f1'', hr_version = n,
     hr_filter = [], hr_hook = ''h'', hr_status = HookActive\<rparr>"

definition sample_control :: control_db where
  "sample_control =
     \<lparr>cb_endpoints = \<lparr>ed_secrets = \<lparr>st_workspaces = [''w''], st_rows = []\<rparr>, ed_gitlab = [], ed_multica = [],
        ed_groups = [], ed_profiles = []\<rparr>,
      cb_flows = published_flows\<lparr>fd_flows := [(new_flow 1 ''f1'' ''w'' ''c'' [] ''Publish'')\<lparr>fl_status := FlowPublished, fl_active := 1\<rparr>]\<rparr>,
      cb_connections = [sample_connection], cb_hooks = [sample_hook], cb_routes = [sample_route ''r1'' 1]\<rparr>"

lemma sample_control_ok: "control_ok sample_control"
  by (simp add: control_parts no_clash_def one_version_def sample_control_def sample_route_def sample_hook_def
      sample_connection_def published_flows_def sample_flows_def)

lemma sample_routes: "ListHookRoutesForProject ''g'' ''7'' sample_control = Inr [sample_route ''r1'' 1]"
  by (simp add: ListHookRoutesForProject_def sample_control_def sample_route_def live_route_def sample_connection_def
      source_ref_def published_flows_def sample_flows_def new_flow_def read_route_def unmarshalJSON_def)

section \<open>What ingress is given\<close>

lemma read_route_same: "read_route r = Inr r' \<Longrightarrow> r' = r\<lparr>hr_filter := hr_filter r'\<rparr>"
  by (auto simp: read_route_def err_simps)

lemma in_map_result: "map_result f xs = Inr ys \<Longrightarrow> y \<in> set ys \<Longrightarrow> \<exists>x \<in> set xs. f x = Inr y"
  unfolding map_result_Inr by (induction rule: list_all2_induct) auto

lemma listed_route:
  assumes "ListHookRoutesForProject i p db = Inr routes" "r \<in> set routes"
  obtains s where "s \<in> set (cb_routes db)" "live_route db s" "r = s\<lparr>hr_filter := hr_filter r\<rparr>"
    "proj_external (hr_source s) = p" "i = [] \<or> proj_instance (hr_source s) = i"
  using in_map_result [OF assms(1) [unfolded ListHookRoutesForProject_def] assms(2)] read_route_same by auto

lemma live_route_D:
  assumes "live_route db s"
  shows "enabled s"
    and "\<exists>c \<in> set (cb_connections db). cn_id c = hr_connection s \<and> cn_workspace c = hr_workspace s \<and> cn_status c \<noteq> ConnectionDisabled"
    and "\<exists>v \<in> set (fd_versions (cb_flows db)). version_key v = (hr_workspace s, hr_flow s, hr_version s) \<and> fv_status v = FlowPublished"
  using assms by (auto simp: live_route_def enabled_def list_ex_iff version_key_def)

text \<open>
  C32: an event is fed to one version of a flow: in every reachable state of the control plane, all the
  routes that ingress is given for a project and that belong to one flow name the same version, that
  version is the published one, their connection is not disabled, and their hook exists.
\<close>

theorem routes_one_version:
  assumes "control_ok db" "control_history db db'"
    and "ListHookRoutesForProject i p db' = Inr routes" "r \<in> set routes" "s \<in> set routes"
    and "hr_workspace r = hr_workspace s" "hr_flow r = hr_flow s"
  shows "hr_version r = hr_version s \<and> hr_hook r \<in> hk_id ` set (cb_hooks db') \<and>
    (\<exists>c \<in> set (cb_connections db'). cn_id c = hr_connection r \<and> cn_workspace c = hr_workspace r \<and> cn_status c \<noteq> ConnectionDisabled) \<and>
    (\<exists>v \<in> set (fd_versions (cb_flows db')). version_key v = (hr_workspace r, hr_flow r, hr_version r) \<and> fv_status v = FlowPublished)"
proof -
  have ok: "routes_ok db'" using control_history_ok [OF assms(2,1)] by (simp add: control_ok_def)
  obtain r' where r': "r' \<in> set (cb_routes db')" "live_route db' r'" "r = r'\<lparr>hr_filter := hr_filter r\<rparr>"
    using listed_route [OF assms(3,4)] by metis
  obtain s' where s': "s' \<in> set (cb_routes db')" "live_route db' s'" "s = s'\<lparr>hr_filter := hr_filter s\<rparr>"
    using listed_route [OF assms(3,5)] by metis
  have columns: "hr_workspace r = hr_workspace r'" "hr_flow r = hr_flow r'" "hr_version r = hr_version r'"
    "hr_connection r = hr_connection r'" "hr_hook r = hr_hook r'" "hr_workspace s = hr_workspace s'"
    "hr_flow s = hr_flow s'" "hr_version s = hr_version s'"
    by (subst r'(3), simp)+ (subst s'(3), simp)+
  have "hr_version r' = hr_version s'"
    using ok r'(1) s'(1) live_route_D(1) [OF r'(2)] live_route_D(1) [OF s'(2)] assms(6,7) columns
    unfolding routes_ok_def one_version_def same_flow_def by metis
  moreover have "hr_hook r' \<in> hk_id ` set (cb_hooks db')" using ok r'(1) by (auto simp: routes_ok_def)
  ultimately show ?thesis using live_route_D(2,3) [OF r'(2)] columns by metis
qed

theorem routes_one_version_witness:
  "\<exists>v \<in> set (fd_versions (cb_flows sample_control)). version_key v = (''w'', ''f1'', 1) \<and> fv_status v = FlowPublished"
  using routes_one_version [OF sample_control_ok rtranclp.rtrancl_refl sample_routes, of "sample_route ''r1'' 1" "sample_route ''r1'' 1"]
  by (simp add: sample_route_def)

text \<open>
  Activating a route retires the older versions of its flow: the route is stored under the identity
  it is returned with, every other route of the flow that is not disabled names the same version, and
  the routes of other flows are exactly those of before.
\<close>

theorem activation_retires_older:
  assumes "control_ok db" "ActivateHookRoute i route db = Inr (stored, db')"
  shows "(\<exists>r \<in> set (cb_routes db'). route_key r = route_key route \<and> hr_id r = hr_id stored \<and> hr_hook r = hr_hook route \<and>
           hr_status r = or_default (hr_status route) (\<lambda>s. s = []) HookActive) \<and>
    (\<forall>r \<in> set (cb_routes db'). hr_workspace r = hr_workspace route \<and> hr_flow r = hr_flow route \<and> hr_status r \<noteq> HookDisabled \<longrightarrow>
       hr_version r = hr_version route) \<and>
    (\<forall>r. hr_workspace r \<noteq> hr_workspace route \<or> hr_flow r \<noteq> hr_flow route \<longrightarrow>
       (r \<in> set (cb_routes db') \<longleftrightarrow> r \<in> set (cb_routes db)))"
  using ActivateHookRoute_D [OF assms(2,1)] unfolding same_flow_def enabled_def by metis

theorem activation_retires_older_witness:
  "\<exists>stored db'. ActivateHookRoute ''r2'' (sample_route [] 2) sample_control = Inr (stored, db') \<and>
     (\<exists>r \<in> set (cb_routes db'). hr_version r = 2 \<and> hr_status r = HookActive)"
proof -
  have "\<exists>stored db'. ActivateHookRoute ''r2'' (sample_route [] 2) sample_control = Inr (stored, db') \<and> True"
    by (rule returned_pair) code_simp
  then obtain stored db' where a: "ActivateHookRoute ''r2'' (sample_route [] 2) sample_control = Inr (stored, db')" by blast
  then show ?thesis using activation_retires_older [OF sample_control_ok a]
    by (auto simp: sample_route_def route_key_def or_default_def)
qed

text \<open>
  a project is connected once: in every reachable state two connections of a workspace that are not
  disabled share neither their source nor their target, and looking up the active connection of a
  source or of a target finds the one that has it.
\<close>

theorem active_connection_exclusive:
  assumes "control_ok db" "control_history db db'"
    and "c \<in> set (cb_connections db')" "d \<in> set (cb_connections db')"
    and "cn_status c \<noteq> ConnectionDisabled" "cn_status d \<noteq> ConnectionDisabled" "source_key c = source_key d \<or> target_key c = target_key d"
  shows "c = d \<and>
    FindActiveConnectionBySource (cn_workspace c) (proj_instance (cn_source c)) (proj_external (cn_source c)) db' = Inr c \<and>
    FindActiveConnectionByTarget (cn_workspace c) (proj_instance (cn_target c)) (proj_external (cn_target c)) db' = Inr c"
proof -
  have ok: "no_clash connection_clash (cb_connections db')"
    using control_history_ok [OF assms(2,1)] by (simp add: control_parts)
  have only: "e = c" if "e \<in> set (cb_connections db')" "connection_clash e c" for e
    using connections.clash_only [OF ok that(1) assms(3) that(2)] .
  have get: "GetConnection (cn_workspace c) (cn_id c) db' = Inr c"
    using find_only [of c "cb_connections db'" "\<lambda>e. cn_workspace e = cn_workspace c \<and> cn_id e = cn_id c"] assms(3) only
    by (auto simp: GetConnection_def connection_clash_def)
  have find: "List.find (\<lambda>e. source_key e = source_key c \<and> cn_status e \<noteq> ConnectionDisabled) (cb_connections db') = Some c"
    "List.find (\<lambda>e. target_key e = target_key c \<and> cn_status e \<noteq> ConnectionDisabled) (cb_connections db') = Some c"
    using assms(3,5) only by (auto intro!: find_only simp: connection_clash_def)
  have "c = d" using only [OF assms(4)] assms(5-7) by (auto simp: connection_clash_def)
  then show ?thesis using find get
    by (simp add: FindActiveConnectionBySource_def FindActiveConnectionByTarget_def findConnection_def
        source_key_def target_key_def)
qed

theorem active_connection_exclusive_witness:
  "FindActiveConnectionByTarget ''w'' ''m'' ''9'' sample_control = Inr sample_connection"
  using active_connection_exclusive [OF sample_control_ok rtranclp.rtrancl_refl, of sample_connection sample_connection]
  by (simp add: sample_control_def sample_connection_def source_ref_def)

end
