(* ===== verification/JobQueue.thy ===== *)
theory JobQueue
  imports RuntimeStore
begin

text \<open>
  The job queue of \<open>store/runtime.go\<close>: a worker claims the next runnable job under a lease, and
  completes or fails the job it holds. SQL compares the stored texts of the instants, so the model
  compares \<open>stored_time\<close>. The lemmas say which job a claim hands out and what a lease protects.
\<close>

definition claimable :: "gtime \<Rightarrow> job \<Rightarrow> bool" where
  "claimable now j \<longleftrightarrow>
     job_status j = ''queued'' \<and> stored_time (job_available j) \<le> stored_time now \<or>
     job_status j = ''running'' \<and>
       (case job_lease j of None \<Rightarrow> False | Some t \<Rightarrow> stored_time t \<le> stored_time now)"

definition claim_order :: "job \<Rightarrow> (int \<times> string) \<times> (int \<times> string) \<times> string" where
  "claim_order j = (stored_time (job_available j), stored_time (job_created j), job_id j)"

definition claimed :: "string \<Rightarrow> gtime \<Rightarrow> gtime \<Rightarrow> job \<Rightarrow> job" where
  "claimed workerID lease now j =
     j\<lparr>job_status := ''running'', job_leased_by := workerID, job_lease := Some (now + lease),
       job_attempts := job_attempts j + 1, job_updated := now\<rparr>"

definition scanJob :: "job \<Rightarrow> gerr + job" where
  "scanJob r = bind_result (unmarshalJSON ''json'' (job_payload r)) (\<lambda>p. Inr (r\<lparr>job_payload := p\<rparr>))"

definition ClaimNextJob :: "string \<Rightarrow> gtime \<Rightarrow> gtime \<Rightarrow> runtime_db \<Rightarrow> gerr + job \<times> runtime_db" where
  "ClaimNextJob workerID lease now db =
     (if blank workerID \<or> lease \<le> 0 then fail ErrInvalid ''worker ID and lease are required''
      else case sort_key claim_order (filter (claimable now) (rd_jobs db)) of
             [] \<Rightarrow> fail ErrNotFound ''no runnable job''
           | next # _ \<Rightarrow>
               let target = (\<lambda>j. job_id j = job_id next \<and> claimable now j)
               in if length (filter target (rd_jobs db)) \<noteq> 1
                  then fail ErrConflict ''job was claimed by another worker''
                  else bind_result (scanJob (claimed workerID lease now next)) (\<lambda>j.
                    Inr (j, db\<lparr>rd_jobs := update_rows target (claimed workerID lease now) (rd_jobs db)\<rparr>)))"

definition held :: "ID \<Rightarrow> ID \<Rightarrow> string \<Rightarrow> job \<Rightarrow> bool" where
  "held workspaceID jobID workerID j \<longleftrightarrow>
     job_workspace j = workspaceID \<and> job_id j = jobID \<and> job_leased_by j = workerID"

definition CompleteJob :: "gtime \<Rightarrow> ID \<Rightarrow> ID \<Rightarrow> string \<Rightarrow> runtime_db \<Rightarrow> gerr + runtime_db" where
  "CompleteJob now workspaceID jobID workerID db =
     (if \<not> list_ex (held workspaceID jobID workerID) (rd_jobs db) then fail ErrNotFound (''job '' @ jobID)
      else Inr (db\<lparr>rd_jobs := update_rows (held workspaceID jobID workerID)
             (\<lambda>j. j\<lparr>job_status := ''succeeded'', job_lease := None, job_leased_by := [], job_updated := now\<rparr>)
             (rd_jobs db)\<rparr>))"

definition FailJob ::
  "gtime \<Rightarrow> ID \<Rightarrow> ID \<Rightarrow> string \<Rightarrow> gtime option \<Rightarrow> runtime_db \<Rightarrow> gerr + runtime_db" where
  "FailJob now workspaceID jobID workerID retryAt db =
     (let (status, available) = (case retryAt of None \<Rightarrow> (''failed'', now) | Some t \<Rightarrow> (''queued'', t))
      in if \<not> list_ex (held workspaceID jobID workerID) (rd_jobs db) then fail ErrNotFound (''job '' @ jobID)
         else Inr (db\<lparr>rd_jobs := update_rows (held workspaceID jobID workerID)
                (\<lambda>j. j\<lparr>job_status := status, job_available := available, job_lease := None,
                       job_leased_by := [], job_updated := now\<rparr>) (rd_jobs db)\<rparr>))"

section \<open>Claims\<close>

lemma claimed_simps [simp]:
  "job_id (claimed w l now j) = job_id j" "job_status (claimed w l now j) = ''running''"
  "job_leased_by (claimed w l now j) = w" "job_lease (claimed w l now j) = Some (now + l)"
  "job_attempts (claimed w l now j) = job_attempts j + 1" "job_workspace (claimed w l now j) = job_workspace j"
  by (simp_all add: claimed_def)

lemma scanJob_D: "scanJob r = Inr j \<Longrightarrow> \<exists>p. j = r\<lparr>job_payload := p\<rparr>"
  by (auto simp: scanJob_def err_simps)

lemma sort_key_hd_least: "sort_key f xs = y # ys \<Longrightarrow> y \<in> set xs \<and> (\<forall>x \<in> set xs. f y \<le> f x)"
proof -
  assume eq: "sort_key f xs = y # ys"
  then have "set (y # ys) = set xs" by (metis set_sort)
  moreover have "sorted (map f (y # ys))" using sorted_sort_key [of f xs] eq by simp
  ultimately show ?thesis by auto
qed

lemma singleton_list: "length xs = 1 \<Longrightarrow> x \<in> set xs \<Longrightarrow> xs = [x]"
  by (cases xs) auto

lemma ClaimNextJob_D:
  assumes "ClaimNextJob w l now db = Inr (j, db')"
  shows "\<not> blank w \<and> 0 < l \<and>
    (\<exists>r \<in> set (rd_jobs db). claimable now r \<and>
       (\<forall>other \<in> set (rd_jobs db). claimable now other \<longrightarrow> claim_order r \<le> claim_order other) \<and>
       filter (\<lambda>x. job_id x = job_id r \<and> claimable now x) (rd_jobs db) = [r] \<and>
       (\<exists>p. j = (claimed w l now r)\<lparr>job_payload := p\<rparr>) \<and>
       db' = db\<lparr>rd_jobs := update_rows (\<lambda>x. job_id x = job_id r \<and> claimable now x) (claimed w l now) (rd_jobs db)\<rparr>)"
proof -
  obtain r rest where s: "sort_key claim_order (filter (claimable now) (rd_jobs db)) = r # rest"
    using assms by (auto simp: ClaimNextJob_def Let_def split: if_splits list.splits)
  note least = sort_key_hd_least [OF s]
  have len: "length (filter (\<lambda>x. job_id x = job_id r \<and> claimable now x) (rd_jobs db)) = 1"
    and p: "\<not> blank w \<and> 0 < l" "scanJob (claimed w l now r) = Inr j"
      "db' = db\<lparr>rd_jobs := update_rows (\<lambda>x. job_id x = job_id r \<and> claimable now x) (claimed w l now) (rd_jobs db)\<rparr>"
    using assms s by (auto simp: ClaimNextJob_def Let_def err_simps split: if_splits)
  have "r \<in> set (filter (\<lambda>x. job_id x = job_id r \<and> claimable now x) (rd_jobs db))" using least by simp
  with len have "filter (\<lambda>x. job_id x = job_id r \<and> claimable now x) (rd_jobs db) = [r]"
    by (rule singleton_list)
  moreover obtain q where "j = (claimed w l now r)\<lparr>job_payload := q\<rparr>" using scanJob_D [OF p(2)] by blast
  ultimately show ?thesis using least p(1,3) by (intro conjI bexI [of _ r]) auto
qed

lemma claimable_lease:
  "claimable now j \<Longrightarrow> job_status j = ''running'' \<Longrightarrow> \<exists>t. job_lease j = Some t \<and> t < now + nanoseconds"
proof -
  assume "claimable now j" "job_status j = ''running''"
  then obtain t where t: "job_lease j = Some t" "stored_time t \<le> stored_time now"
    by (auto simp: claimable_def split: option.splits)
  have "t < now + nanoseconds"
  proof (cases "stored_time t = stored_time now")
    case True
    then have "t div nanoseconds = now div nanoseconds" by (simp add: stored_time_def)
    then have "nanoseconds * (t div nanoseconds) = nanoseconds * (now div nanoseconds)" by simp
    moreover have "t = nanoseconds * (t div nanoseconds) + t mod nanoseconds"
      "now = nanoseconds * (now div nanoseconds) + now mod nanoseconds" by simp_all
    moreover have "t mod nanoseconds < nanoseconds" "0 \<le> now mod nanoseconds"
      by (simp_all add: nanoseconds_def)
    ultimately show ?thesis by linarith
  next
    case False
    with t(2) have "stored_time t < stored_time now" by simp
    then show ?thesis by (rule stored_time_less_seconds)
  qed
  with t(1) show ?thesis by blast
qed

text \<open>
  A claim hands out the first runnable job in the order of availability, creation and identifier,
  marked running for that worker under a lease of the given length and counted as one more attempt;
  every other job is untouched.
\<close>

theorem ClaimNextJob_first:
  assumes "ClaimNextJob w l now db = Inr (j, db')" "distinct (map job_id (rd_jobs db))"
  shows "\<exists>r \<in> set (rd_jobs db). claimable now r \<and> job_id j = job_id r \<and>
           (\<forall>other \<in> set (rd_jobs db). claimable now other \<longrightarrow> claim_order r \<le> claim_order other) \<and>
           job_status j = ''running'' \<and> job_leased_by j = w \<and> job_lease j = Some (now + l) \<and>
           job_attempts j = job_attempts r + 1 \<and>
           rd_jobs db' = map (\<lambda>x. if job_id x = job_id r then claimed w l now x else x) (rd_jobs db)"
proof -
  obtain r p where r: "r \<in> set (rd_jobs db)" "claimable now r"
      "\<forall>other \<in> set (rd_jobs db). claimable now other \<longrightarrow> claim_order r \<le> claim_order other"
      "j = (claimed w l now r)\<lparr>job_payload := p\<rparr>"
      "db' = db\<lparr>rd_jobs := update_rows (\<lambda>x. job_id x = job_id r \<and> claimable now x) (claimed w l now) (rd_jobs db)\<rparr>"
    using ClaimNextJob_D [OF assms(1)] by blast
  have "x = r" if "x \<in> set (rd_jobs db)" "job_id x = job_id r" for x
    using assms(2) that r(1) by (auto simp: distinct_map inj_on_def)
  then have "rd_jobs db' = map (\<lambda>x. if job_id x = job_id r then claimed w l now x else x) (rd_jobs db)"
    using r(2,5) by (auto simp: update_rows_def)
  then show ?thesis using r by (intro bexI [of _ r]) simp_all
qed

text \<open>
  C28: what a lease protects. A running job is handed out again only when its lease is over, or has
  less than one second left (the instants are compared as text); and nobody but the worker that
  holds a job can complete it or fail it.
\<close>

theorem lease_protects:
  assumes "distinct (map job_id (rd_jobs db))" "r \<in> set (rd_jobs db)" "job_status r = ''running''"
  shows "(\<forall>w l now j db'. ClaimNextJob w l now db = Inr (j, db') \<and> job_id j = job_id r \<longrightarrow>
            (\<exists>t. job_lease r = Some t \<and> t < now + nanoseconds)) \<and>
         (\<forall>now ws w. w \<noteq> job_leased_by r \<longrightarrow>
            CompleteJob now ws (job_id r) w db = fail ErrNotFound (''job '' @ job_id r) \<and>
            (\<forall>retryAt. FailJob now ws (job_id r) w retryAt db = fail ErrNotFound (''job '' @ job_id r)))"
proof (intro conjI allI impI)
  have u: "x = r" if "x \<in> set (rd_jobs db)" "job_id x = job_id r" for x
    using assms(1,2) that by (auto simp: distinct_map inj_on_def)
  show "\<exists>t. job_lease r = Some t \<and> t < now + nanoseconds"
    if "ClaimNextJob w l now db = Inr (j, db') \<and> job_id j = job_id r" for w l now j db'
  proof -
    have c: "ClaimNextJob w l now db = Inr (j, db')" using that ..
    obtain r' where "r' \<in> set (rd_jobs db)" "claimable now r'" "job_id j = job_id r'"
      using ClaimNextJob_D [OF c] by auto
    then show ?thesis using u that claimable_lease assms(3) by metis
  qed
  have n: "\<not> list_ex (held ws (job_id r) w) (rd_jobs db)" if "w \<noteq> job_leased_by r" for ws w
    using u that by (auto simp: list_ex_iff held_def)
  show "CompleteJob now ws (job_id r) w db = fail ErrNotFound (''job '' @ job_id r)"
    if "w \<noteq> job_leased_by r" for now ws w
    using n [OF that] by (simp add: CompleteJob_def)
  show "FailJob now ws (job_id r) w retryAt db = fail ErrNotFound (''job '' @ job_id r)"
    if "w \<noteq> job_leased_by r" for now ws w retryAt
    using n [OF that] by (simp add: FailJob_def split: option.split)
qed

definition sample_job :: "ID \<Rightarrow> gtime \<Rightarrow> job" where
  "sample_job i available =
     \<lparr>job_id = i, job_workspace = ''w1'', job_kind = ''flow.execute'', job_payload = [],
      job_available = available, job_lease = None, job_leased_by = [], job_attempts = 0,
      job_status = ''queued'', job_created = available, job_updated = available\<rparr>"

definition sample_jobs :: runtime_db where
  "sample_jobs =
     \<lparr>rd_workspaces = [''w1''], rd_connections = [''c1''], rd_flows = [(''f1'', ''w1'')],
      rd_versions = [((''v1'', ''f1''), ''w1'')], rd_events = [], rd_executions = [], rd_nodes = [],
      rd_jobs = [sample_job ''j1'' 5000000000, sample_job ''j2'' 3000000000]\<rparr>"

definition sample_claim :: "gerr + job \<times> runtime_db" where
  "sample_claim = ClaimNextJob ''w'' 60000000000 9000000000 sample_jobs"

lemma sample_claim_ok: "\<exists>j db'. ClaimNextJob ''w'' 60000000000 9000000000 sample_jobs = Inr (j, db') \<and> job_id j = ''j2''"
proof -
  have "case sample_claim of Inl e \<Rightarrow> False | Inr (j, db') \<Rightarrow> job_id j = ''j2''" by code_simp
  from returned_pair [OF this] show ?thesis unfolding sample_claim_def by blast
qed

theorem ClaimNextJob_first_witness:
  "\<exists>j db'. ClaimNextJob ''w'' 60000000000 9000000000 sample_jobs = Inr (j, db') \<and>
     job_leased_by j = ''w'' \<and> length (rd_jobs db') = 2"
proof -
  obtain j db' where c: "ClaimNextJob ''w'' 60000000000 9000000000 sample_jobs = Inr (j, db')"
    using sample_claim_ok by blast
  have "distinct (map job_id (rd_jobs sample_jobs))" by code_simp
  from ClaimNextJob_first [OF c this] c show ?thesis by (auto simp: sample_jobs_def)
qed

theorem lease_protects_witness:
  "CompleteJob 9000000000 ''w1'' ''j1'' ''thief''
     (sample_jobs\<lparr>rd_jobs := [claimed ''w'' 60000000000 5000000000 (sample_job ''j1'' 0)]\<rparr>) =
   fail ErrNotFound ''job j1''"
proof -
  let ?r = "claimed ''w'' 60000000000 5000000000 (sample_job ''j1'' 0)"
  let ?db = "sample_jobs\<lparr>rd_jobs := [?r]\<rparr>"
  have i: "job_id ?r = ''j1''" by (simp add: sample_job_def)
  have "CompleteJob 9000000000 ''w1'' (job_id ?r) ''thief'' ?db = fail ErrNotFound (''job '' @ job_id ?r)"
    using lease_protects [of ?db ?r] by simp
  then show ?thesis unfolding i by simp
qed

lemma sample_digits: "char_of (48 :: nat) = CHR ''0''" "char_of (53 :: nat) = CHR ''5''"
  by code_simp+

lemma stored_samples:
  "stored_time 5500000000 = (5, ''.5Z'')" "stored_time 5550000000 = (5, ''.55Z'')"
  by (simp_all add: stored_time_def fraction_text_def nanoseconds_def dec_nat.simps digit_char_def
      strip_zeros_def sample_digits)

text \<open>
  C40: the comparison of instants as text is not the order of time: the text of an instant half a
  second into a second compares above the text of one with more digits that lies after it. So a
  lease can be taken for expired, and its job be handed to another worker, although it has time left.
\<close>

theorem lease_expires_early:
  "\<exists>db j db'. ClaimNextJob ''thief'' 60000000000 5500000000 db = Inr (j, db') \<and>
     (\<exists>r \<in> set (rd_jobs db). job_id r = job_id j \<and> job_status r = ''running'' \<and> job_leased_by r = ''w'' \<and>
        job_lease r = Some 5550000000)"
proof -
  let ?r = "claimed ''w'' 1000000000 4550000000 (sample_job ''j1'' 0)"
  let ?db = "sample_jobs\<lparr>rd_jobs := [?r]\<rparr>"
  have r: "?r \<in> set (rd_jobs ?db)" "job_status ?r = ''running''" "job_leased_by ?r = ''w''"
    "job_lease ?r = Some 5550000000" by simp_all
  have "(5::int, ''.55Z'') \<le> (5, ''.5Z'')" by code_simp
  then have claim: "claimable 5500000000 ?r" by (simp add: claimable_def stored_samples)
  have p: "job_payload (claimed ''thief'' 60000000000 5500000000 ?r) = []" by (simp add: claimed_def sample_job_def)
  have scan: "\<exists>j. scanJob (claimed ''thief'' 60000000000 5500000000 ?r) = Inr j \<and> job_id j = job_id ?r"
    by (simp add: scanJob_def p unmarshalJSON_def)
  have "\<not> blank ''thief''" by code_simp
  with claim scan have "\<exists>j db'. ClaimNextJob ''thief'' 60000000000 5500000000 ?db = Inr (j, db') \<and> job_id j = job_id ?r"
    by (auto simp: ClaimNextJob_def Let_def)
  then obtain j db' where c: "ClaimNextJob ''thief'' 60000000000 5500000000 ?db = Inr (j, db')"
    and "job_id j = job_id ?r" by blast
  then have "\<exists>r \<in> set (rd_jobs ?db). job_id r = job_id j \<and> job_status r = ''running'' \<and> job_leased_by r = ''w'' \<and>
        job_lease r = Some 5550000000" using r by (intro bexI [of _ ?r]) simp_all
  with c show ?thesis by blast
qed

end
