(* ===== verification/RuntimeSteps.thy ===== *)
theory RuntimeSteps
  imports JobQueue
begin

text \<open>
  Histories of the run-time tables. \<open>runtime_step\<close> relates two states when one operation of
  \<open>store/runtime.go\<close> leads from the first to the second, whatever its arguments and whoever calls
  it; concurrent requests and workers are interleavings of such steps, as every operation is one
  transaction. The invariant says what every reachable state satisfies; the theorems below follow a
  webhook delivery, an execution and a job through such histories. A job enters the queue unleased,
  and only a worker with a name completes or fails one, as the callers do.
\<close>

definition fresh_job :: "job \<Rightarrow> bool" where
  "fresh_job j \<longleftrightarrow> job_leased_by j = [] \<and> job_lease j = None \<and> job_status j \<in> {[], ''queued''}"

inductive runtime_step :: "runtime_db \<Rightarrow> runtime_db \<Rightarrow> bool" where
  accept: "AcceptInboundEvent h now i1 i2 i3 e x j db = Inr (found, created, db') \<Longrightarrow> fresh_job j \<Longrightarrow>
    runtime_step db db'"
| save: "SaveInboundEvent h now i e db = Inr (stored, db') \<Longrightarrow> runtime_step db db'"
| create: "CreateFlowExecution now x db = Inr db' \<Longrightarrow> runtime_step db db'"
| create_job: "CreateFlowExecutionAndEnqueue now i x j db = Inr db' \<Longrightarrow> fresh_job j \<Longrightarrow> runtime_step db db'"
| requeue: "RequeueFlowExecution now i x j db = Inr db' \<Longrightarrow> fresh_job j \<Longrightarrow> runtime_step db db'"
| update: "UpdateFlowExecution now x db = Inr db' \<Longrightarrow> runtime_step db db'"
| create_node: "CreateNodeExecution n db = Inr db' \<Longrightarrow> runtime_step db db'"
| update_node: "UpdateNodeExecution n db = Inr db' \<Longrightarrow> runtime_step db db'"
| enqueue: "EnqueueJob now i j db = Inr db' \<Longrightarrow> fresh_job j \<Longrightarrow> runtime_step db db'"
| claim: "ClaimNextJob w l now db = Inr (claimed_job, db') \<Longrightarrow> runtime_step db db'"
| complete: "CompleteJob now ws i w db = Inr db' \<Longrightarrow> w \<noteq> [] \<Longrightarrow> runtime_step db db'"
| fails: "FailJob now ws i w retryAt db = Inr db' \<Longrightarrow> w \<noteq> [] \<Longrightarrow> runtime_step db db'"
| purge: "PurgeExpiredRuntimePayloads clock now db = (cleared, db') \<Longrightarrow> runtime_step db db'"

abbreviation runtime_history :: "runtime_db \<Rightarrow> runtime_db \<Rightarrow> bool" where
  "runtime_history \<equiv> runtime_step\<^sup>*\<^sup>*"

section \<open>What one operation does to each table\<close>

text \<open>How the executions may change: rows are added with a new key and identifier, or updated in
  place without touching what identifies them.\<close>

definition same_execution :: "flow_execution \<Rightarrow> flow_execution \<Rightarrow> bool" where
  "same_execution a b \<longleftrightarrow>
     fx_id a = fx_id b \<and> execution_key a = execution_key b \<and> fx_connection a = fx_connection b \<and>
     fx_flow a = fx_flow b \<and> fx_version_id a = fx_version_id b \<and> fx_version a = fx_version b \<and>
     fx_event a = fx_event b \<and> fx_delivery a = fx_delivery b \<and> fx_correlation a = fx_correlation b \<and>
     fx_created a = fx_created b"

definition attention_ok :: "flow_execution \<Rightarrow> bool" where
  "attention_ok x \<longleftrightarrow> normalizeExecutionAttention x = x"

definition executions_change :: "flow_execution list \<Rightarrow> flow_execution list \<Rightarrow> bool" where
  "executions_change xs ys \<longleftrightarrow>
     (\<exists>x. ys = xs @ [x] \<and> attention_ok x \<and> (\<forall>r \<in> set xs. \<not> execution_clash x r)) \<or>
     (\<exists>P f. ys = update_rows P f xs \<and> (\<forall>r. same_execution (f r) r \<and> attention_ok (f r)))"

definition leased_ok :: "job \<Rightarrow> bool" where
  "leased_ok j \<longleftrightarrow> (job_status j = ''running'') = (job_leased_by j \<noteq> []) \<and>
     (job_status j = ''running'') = (job_lease j \<noteq> None)"

definition jobs_change :: "job list \<Rightarrow> job list \<Rightarrow> bool" where
  "jobs_change js ks \<longleftrightarrow>
     (\<exists>j. ks = js @ [j] \<and> leased_ok j \<and> (\<forall>r \<in> set js. job_id r \<noteq> job_id j)) \<or>
     (\<exists>P f. ks = update_rows P f js \<and>
        (\<forall>r. P r \<longrightarrow> job_id (f r) = job_id r \<and> job_workspace (f r) = job_workspace r \<and> leased_ok (f r) \<and>
           (job_leased_by r \<noteq> [] \<or> job_status r = ''queued'' \<or> job_status r = ''running'')))"

definition events_change :: "inbound_event list \<Rightarrow> inbound_event list \<Rightarrow> bool" where
  "events_change es fs \<longleftrightarrow>
     fs = es \<or>
     (\<exists>e. fs = es @ [e] \<and> (\<forall>r \<in> set es. delivery_identity r \<noteq> delivery_identity e)) \<or>
     (\<exists>P f. fs = update_rows P f es \<and>
        (\<forall>r. delivery_identity (f r) = delivery_identity r \<and> ie_id (f r) = ie_id r))"

definition node_identity :: "node_execution \<Rightarrow> ID \<times> ID \<times> ID \<times> int" where
  "node_identity n = (nx_workspace n, nx_execution n, nx_node n, nx_attempt n)"

definition nodes_change :: "node_execution list \<Rightarrow> node_execution list \<Rightarrow> bool" where
  "nodes_change ns ms \<longleftrightarrow>
     ms = ns \<or>
     (\<exists>n. ms = ns @ [n] \<and> (\<forall>r \<in> set ns. \<not> node_clash n r)) \<or>
     (\<exists>P f. ms = update_rows P f ns \<and> (\<forall>r. node_identity (f r) = node_identity r \<and> nx_id (f r) = nx_id r))"

text \<open>The tables change together: what one step may do to a state.\<close>

definition runtime_change :: "runtime_db \<Rightarrow> runtime_db \<Rightarrow> bool" where
  "runtime_change db db' \<longleftrightarrow>
     events_change (rd_events db) (rd_events db') \<and> executions_change (rd_executions db) (rd_executions db') \<and>
     nodes_change (rd_nodes db) (rd_nodes db') \<and> jobs_change (rd_jobs db) (rd_jobs db')"

lemma events_same [intro]: "events_change es es" "nodes_change ns ns"
  by (simp_all add: events_change_def nodes_change_def)

lemma executions_same [intro]: "executions_change xs xs"
  unfolding executions_change_def
  by (intro disjI2 exI [of _ "\<lambda>_. False"] exI [of _ "\<lambda>r. normalizeExecutionAttention r"])
    (auto simp: update_rows_def same_execution_def execution_key_def attention_ok_def
      normalizeExecutionAttention_def)

lemma jobs_same [intro]: "jobs_change js js"
  unfolding jobs_change_def
  by (intro disjI2 exI [of _ "\<lambda>_. False"] exI [of _ "\<lambda>r. r"]) (auto simp: update_rows_def)

lemma normalize_idem [simp]: "attention_ok (normalizeExecutionAttention x)"
  by (auto simp: attention_ok_def normalizeExecutionAttention_def IsActionableExecutionStatus_def)

lemma normalize_fields [simp]:
  "fx_id (normalizeExecutionAttention x) = fx_id x" "fx_workspace (normalizeExecutionAttention x) = fx_workspace x"
  "fx_key (normalizeExecutionAttention x) = fx_key x" "fx_status (normalizeExecutionAttention x) = fx_status x"
  "fx_connection (normalizeExecutionAttention x) = fx_connection x"
  "fx_event (normalizeExecutionAttention x) = fx_event x"
  by (simp_all add: normalizeExecutionAttention_def)

lemma attention_ok_iff:
  "attention_ok x \<longleftrightarrow>
     (if IsActionableExecutionStatus (fx_status x)
      then fx_attention x \<in> {ExecutionAttentionOpen, ExecutionAttentionAcknowledged}
      else fx_attention x = ExecutionAttentionNone \<and> fx_attention_actor x = [] \<and> fx_attention_updated x = None)"
  by (cases x) (auto simp: attention_ok_def normalizeExecutionAttention_def)

lemma attention_ok_times [simp]: "attention_ok (execution_times now x) = attention_ok x"
  by (simp add: attention_ok_iff execution_times_def Let_def)

lemma attention_ok_update [simp]:
  "attention_ok (x\<lparr>fx_error_message := m\<rparr>) = attention_ok x" "attention_ok (x\<lparr>fx_event := i\<rparr>) = attention_ok x"
  by (simp_all add: attention_ok_iff)

lemma execution_times_fields [simp]:
  "fx_id (execution_times now x) = fx_id x" "execution_key (execution_times now x) = execution_key x"
  "fx_workspace (execution_times now x) = fx_workspace x" "fx_key (execution_times now x) = fx_key x"
  "fx_status (execution_times now x) = fx_status x" "fx_flow (execution_times now x) = fx_flow x"
  "fx_connection (execution_times now x) = fx_connection x"
  by (simp_all add: execution_times_def Let_def execution_key_def)

lemma insert_event_D:
  "insert_event operation e db = Inr db' \<Longrightarrow>
     \<exists>rows. db' = db\<lparr>rd_events := rows\<rparr> \<and> (rows = rd_events db \<or> rows = rd_events db @ [e] \<and>
       (\<forall>r \<in> set (rd_events db). delivery_identity r \<noteq> delivery_identity e \<and> ie_id r \<noteq> ie_id e))"
  by (force simp: insert_event_def err_simps list_ex_iff same_event_id_def split: if_splits
      intro: exI [of _ "rd_events db"])

lemma job_defaults_fields [simp]:
  "job_id (job_defaults now j) = job_id j" "job_leased_by (job_defaults now j) = job_leased_by j"
  "job_lease (job_defaults now j) = job_lease j" "job_status (job_defaults now j) = job_status j"
  "job_workspace (job_defaults now j) = job_workspace j"
  by (simp_all add: job_defaults_def Let_def)

lemma insert_job_row_D:
  "insert_job_row operation j db = Inr db' \<Longrightarrow>
     db' = db\<lparr>rd_jobs := rd_jobs db @ [j]\<rparr> \<and> (\<forall>r \<in> set (rd_jobs db). job_id r \<noteq> job_id j)"
  by (auto simp: insert_job_row_def err_simps job_clash_def)

lemma fresh_leased_ok:
  "fresh_job j \<Longrightarrow> job_leased_by k = job_leased_by j \<Longrightarrow> job_lease k = job_lease j \<Longrightarrow>
     job_status k \<in> {job_status j, ''queued''} \<Longrightarrow> leased_ok k"
  by (auto simp: fresh_job_def leased_ok_def)

lemma insertJobTx_D:
  assumes "insertJobTx now i j db = Inr db'"
  shows "\<exists>k. db' = db\<lparr>rd_jobs := rd_jobs db @ [k]\<rparr> \<and> (\<forall>r \<in> set (rd_jobs db). job_id r \<noteq> job_id k) \<and>
           (fresh_job j \<longrightarrow> leased_ok k) \<and> job_workspace k = job_workspace j"
proof -
  obtain payload k where k: "k = (job_defaults now (j\<lparr>job_id := or_default (job_id j) (\<lambda>i. i = []) i,
          job_status := or_default (job_status j) (\<lambda>s. s = []) ''queued''\<rparr>))\<lparr>job_payload := payload\<rparr>"
    and r: "insert_job_row ''enqueue job'' k db = Inr db'"
    using assms by (auto simp: insertJobTx_def Let_def err_simps split: if_splits)
  have "leased_ok k" if "fresh_job j"
    by (rule fresh_leased_ok [OF that]) (auto simp: k or_default_def)
  then show ?thesis using insert_job_row_D [OF r] by (intro exI [of _ k]) (auto simp: k)
qed

lemma insertFlowExecutionTx_D:
  assumes "insertFlowExecutionTx now x db = Inr db'"
  shows "\<exists>r. db' = db\<lparr>rd_executions := rd_executions db @ [r]\<rparr> \<and> attention_ok r \<and>
           (\<forall>s \<in> set (rd_executions db). \<not> execution_clash r s) \<and> fx_id r = fx_id x \<and>
           execution_key r = execution_key x"
proof -
  let ?r = "execution_times now (normalizeExecutionAttention
              (x\<lparr>fx_status := or_default (fx_status x) (\<lambda>s. s = []) ExecutionQueued\<rparr>))"
  obtain rows where "insert_row ''create FlowExecution'' execution_clash ?r (rd_executions db) = Inr rows"
    "db' = db\<lparr>rd_executions := rows\<rparr>"
    using assms by (auto simp: insertFlowExecutionTx_def Let_def err_simps split: if_splits option.splits)
  then show ?thesis by (intro exI [of _ ?r]) (auto simp: err_simps execution_key_def)
qed

lemma RequeueFlowExecution_D:
  assumes "RequeueFlowExecution now i x j db = Inr db'"
  shows "fx_status x = ExecutionQueued \<and>
    (\<exists>r \<in> set (rd_executions db). fx_workspace r = fx_workspace x \<and> fx_id r = fx_id x \<and>
       IsActionableExecutionStatus (fx_status r)) \<and>
    (\<exists>k. db' = db\<lparr>rd_executions := update_rows (\<lambda>r. (fx_workspace r = fx_workspace x \<and> fx_id r = fx_id x) \<and>
            IsActionableExecutionStatus (fx_status r))
          (\<lambda>r. r\<lparr>fx_status := ExecutionQueued, fx_attention := ExecutionAttentionNone,
                 fx_attention_actor := [], fx_attention_updated := None,
                 fx_current_node := fx_current_node x, fx_requests := fx_requests x,
                 fx_error_category := fx_error_category x,
                 fx_error_message := truncateMessage (fx_error_message x), fx_updated := now\<rparr>)
          (rd_executions db), rd_jobs := rd_jobs db @ [k]\<rparr> \<and>
       (\<forall>r \<in> set (rd_jobs db). job_id r \<noteq> job_id k) \<and> (fresh_job j \<longrightarrow> leased_ok k) \<and>
       job_workspace k = fx_workspace x)"
proof -
  have r: "insertJobTx now i (j\<lparr>job_workspace := or_default (job_workspace j) (\<lambda>w. w = []) (fx_workspace x)\<rparr>)
     (db\<lparr>rd_executions := update_rows (\<lambda>r. (fx_workspace r = fx_workspace x \<and> fx_id r = fx_id x) \<and>
            IsActionableExecutionStatus (fx_status r))
          (\<lambda>r. r\<lparr>fx_status := ExecutionQueued, fx_attention := ExecutionAttentionNone,
                 fx_attention_actor := [], fx_attention_updated := None,
                 fx_current_node := fx_current_node x, fx_requests := fx_requests x,
                 fx_error_category := fx_error_category x,
                 fx_error_message := truncateMessage (fx_error_message x), fx_updated := now\<rparr>)
          (rd_executions db)\<rparr>) = Inr db'"
    and s: "fx_status x = ExecutionQueued" "list_ex (\<lambda>r. (fx_workspace r = fx_workspace x \<and> fx_id r = fx_id x) \<and>
       IsActionableExecutionStatus (fx_status r)) (rd_executions db)"
    and w: "or_default (job_workspace j) (\<lambda>w. w = []) (fx_workspace x) = fx_workspace x"
    using assms by (auto simp: RequeueFlowExecution_def Let_def err_simps split: if_splits option.splits)
  have f: "fresh_job (j\<lparr>job_workspace := w\<rparr>) = fresh_job j" for w by (simp add: fresh_job_def)
  show ?thesis using insertJobTx_D [OF r] s w by (auto simp: list_ex_iff f)
qed

lemma UpdateFlowExecution_D:
  assumes "UpdateFlowExecution now x db = Inr db'"
  shows "\<exists>y. y = normalizeExecutionAttention x \<and>
    db' = db\<lparr>rd_executions := update_rows (\<lambda>r. fx_workspace r = fx_workspace y \<and> fx_id r = fx_id y)
       (\<lambda>r. r\<lparr>fx_status := fx_status y, fx_attention := fx_attention y, fx_attention_actor := fx_attention_actor y,
              fx_attention_updated := fx_attention_updated y, fx_current_node := fx_current_node y,
              fx_requests := fx_requests y, fx_error_category := fx_error_category y,
              fx_error_message := truncateMessage (fx_error_message y), fx_updated := now\<rparr>)
       (rd_executions db)\<rparr>"
  using assms by (auto simp: UpdateFlowExecution_def Let_def err_simps split: if_splits)

text \<open>The two outcomes of accepting a delivery.\<close>

definition accepted_new :: "flow_execution \<Rightarrow> flow_execution \<Rightarrow> job \<Rightarrow> runtime_db \<Rightarrow> runtime_db \<Rightarrow> bool" where
  "accepted_new x found j db db' \<longleftrightarrow>
     attention_ok found \<and> (\<forall>r \<in> set (rd_executions db). \<not> execution_clash found r) \<and>
     execution_key found = execution_key x \<and> rd_executions db' = rd_executions db @ [found] \<and>
     (\<exists>k. rd_jobs db' = rd_jobs db @ [k] \<and> (\<forall>r \<in> set (rd_jobs db). job_id r \<noteq> job_id k) \<and>
        (fresh_job j \<longrightarrow> leased_ok k) \<and> job_workspace k = fx_workspace x)"

definition accepted_again :: "flow_execution \<Rightarrow> flow_execution \<Rightarrow> runtime_db \<Rightarrow> runtime_db \<Rightarrow> bool" where
  "accepted_again x found db db' \<longleftrightarrow>
     rd_executions db' = rd_executions db \<and> rd_jobs db' = rd_jobs db \<and>
     (\<exists>r \<in> set (rd_executions db). execution_key r = execution_key x \<and> fx_id found = fx_id r \<and>
        GetFlowExecution (fx_workspace x) (fx_id r) db = Inr found)"

lemma GetFlowExecution_cong:
  "rd_executions db = rd_executions db2 \<Longrightarrow> GetFlowExecution w i db = GetFlowExecution w i db2"
  by (simp add: GetFlowExecution_def)

lemma GetFlowExecution_D:
  "GetFlowExecution w i db = Inr x \<Longrightarrow>
     \<exists>r \<in> set (rd_executions db). fx_workspace r = w \<and> fx_id r = i \<and> x = normalizeExecutionAttention r"
  by (auto simp: GetFlowExecution_def split: option.splits dest!: find_SomeD)

lemma accept_prepared_D:
  assumes "accept_prepared h now i1 i2 i3 e0 x0 j0 = Inr (e, x, j)"
  shows "fx_workspace x0 \<noteq> []" "delivery_identity e = delivery_identity e0" "execution_key x = execution_key x0"
    "fx_workspace x = fx_workspace x0" "fx_key x = fx_key x0" "attention_ok x" "job_workspace j = fx_workspace x0"
    "fresh_job j0 \<Longrightarrow> leased_ok j" "fx_connection x = fx_connection x0" "ie_connection e = ie_connection e0"
    "ie_workspace e = ie_workspace e0" "ie_workspace e0 = fx_workspace x0"
    "fx_id x = or_default (fx_id x0) (\<lambda>i. i = []) i2" "job_kind j = or_default (job_kind j0) blank ''flow.execute''"
    "job_status j = or_default (job_status j0) blank ''queued''" "marshalJSON (job_payload j0) = Inr (job_payload j)"
proof -
  let ?x = "normalizeExecutionAttention (x0\<lparr>fx_id := or_default (fx_id x0) (\<lambda>i. i = []) i2,
     fx_event := or_default (fx_event x0) (\<lambda>i. i = []) (or_default (ie_id e0) (\<lambda>i. i = []) i1),
     fx_status := or_default (fx_status x0) (\<lambda>s. s = []) ExecutionQueued\<rparr>)"
  let ?j = "job_defaults now (j0\<lparr>job_id := or_default (job_id j0) (\<lambda>i. i = []) i3,
     job_workspace := or_default (job_workspace j0) (\<lambda>w. w = []) (ie_workspace e0),
     job_kind := or_default (job_kind j0) blank ''flow.execute'',
     job_status := or_default (job_status j0) blank ''queued''\<rparr>)"
  have *: "requireWorkspaceID (ie_workspace e0) = Inr () \<and> ie_workspace e0 = fx_workspace x0 \<and>
     job_workspace ?j = ie_workspace e0 \<and>
     (\<exists>p h. e = e0\<lparr>ie_id := or_default (ie_id e0) (\<lambda>i. i = []) i1,
        ie_received := or_default (ie_received e0) IsZero now, ie_payload := p, ie_payload_hash := h\<rparr>) \<and>
     x = (execution_times now ?x)\<lparr>fx_error_message := truncateMessage (fx_error_message ?x)\<rparr> \<and>
     (\<exists>p. j = ?j\<lparr>job_payload := p\<rparr> \<and> marshalJSON (job_payload ?j) = Inr p)"
    using assms unfolding accept_prepared_def Let_def
    by (simp split: if_splits) (auto simp: bind_result_Inr requireWorkspaceID_Inr split: if_splits)
  then show "fx_workspace x0 \<noteq> []" "ie_workspace e0 = fx_workspace x0" by (auto simp: requireWorkspaceID_Inr)
  obtain p h q where e: "e = e0\<lparr>ie_id := or_default (ie_id e0) (\<lambda>i. i = []) i1,
        ie_received := or_default (ie_received e0) IsZero now, ie_payload := p, ie_payload_hash := h\<rparr>"
    and x: "x = (execution_times now ?x)\<lparr>fx_error_message := truncateMessage (fx_error_message ?x)\<rparr>"
    and j: "j = ?j\<lparr>job_payload := q\<rparr>" and q: "marshalJSON (job_payload ?j) = Inr q" using * by blast
  show "fx_id x = or_default (fx_id x0) (\<lambda>i. i = []) i2" by (simp add: x)
  show "job_kind j = or_default (job_kind j0) blank ''flow.execute''" "job_status j = or_default (job_status j0) blank ''queued''"
    "marshalJSON (job_payload j0) = Inr (job_payload j)"
    using q by (simp_all add: j job_defaults_def Let_def)
  show "delivery_identity e = delivery_identity e0" "ie_connection e = ie_connection e0" "ie_workspace e = ie_workspace e0"
    by (simp_all add: e delivery_identity_def)
  show "execution_key x = execution_key x0" "fx_workspace x = fx_workspace x0" "fx_key x = fx_key x0"
    "fx_connection x = fx_connection x0"
    by (simp_all add: x execution_key_def)
  show "attention_ok x" unfolding x attention_ok_update attention_ok_times by (rule normalize_idem)
  have "job_workspace ?j = fx_workspace x0" using * by (elim conjE) simp
  then show "job_workspace j = fx_workspace x0" by (simp add: j)
  show "leased_ok j" if "fresh_job j0" by (rule fresh_leased_ok [OF that]) (auto simp: j or_default_def)
qed

lemma accept_execution_D:
  assumes "accept_execution x j db = Inr (found, created, db')" "attention_ok x"
  shows "if created
    then found = x \<and> (\<forall>r \<in> set (rd_executions db). \<not> execution_clash x r) \<and>
         db' = db\<lparr>rd_executions := rd_executions db @ [x], rd_jobs := rd_jobs db @ [j]\<rparr> \<and>
         (\<forall>r \<in> set (rd_jobs db). job_id r \<noteq> job_id j)
    else db' = db \<and> (\<exists>r \<in> set (rd_executions db). execution_key r = execution_key x \<and>
         GetFlowExecution (fx_workspace x) (fx_id r) db = Inr found)"
proof (cases "List.find (\<lambda>r. execution_key r = execution_key x) (rd_executions db)")
  case (Some r)
  then show ?thesis using assms(1) by (auto simp: accept_execution_def bind_result_Inr dest!: find_SomeD)
next
  case None
  then obtain rows where new: "insert_row ''accept FlowExecution'' execution_clash x (rd_executions db) = Inr rows"
    and job: "insert_job_row ''enqueue accepted FlowExecution'' j (db\<lparr>rd_executions := rows\<rparr>) = Inr db'"
    and get: "GetFlowExecution (fx_workspace x) (fx_id x) db' = Inr found" and c: created
    using assms(1) by (auto simp: accept_execution_def bind_result_Inr)
  have free: "\<forall>r \<in> set (rd_executions db). \<not> execution_clash x r" and rows: "rows = rd_executions db @ [x]"
    using new by (simp_all add: insert_row_Inr)
  have db': "db' = db\<lparr>rd_executions := rows, rd_jobs := rd_jobs db @ [j]\<rparr>"
    "\<forall>r \<in> set (rd_jobs db). job_id r \<noteq> job_id j"
    using insert_job_row_D [OF job] by simp_all
  have "List.find (\<lambda>r. fx_workspace r = fx_workspace x \<and> fx_id r = fx_id x) (rd_executions db) = None"
    using free by (simp add: find_None_iff execution_clash_def) metis
  then have "List.find (\<lambda>r. fx_workspace r = fx_workspace x \<and> fx_id r = fx_id x) (rd_executions db') = Some x"
    unfolding db' rows by (simp add: find_append)
  then have "Inr (normalizeExecutionAttention x) = (Inr found :: gerr + _)" using get
    unfolding GetFlowExecution_def by simp
  then have "found = x" using assms(2) unfolding attention_ok_def by (metis sum.inject(2))
  then show ?thesis using c free db' rows by simp
qed

lemma insert_event_change: "insert_event operation e db = Inr db' \<Longrightarrow> events_change (rd_events db) (rd_events db')"
  by (drule insert_event_D) (force simp: events_change_def)

lemma insert_event_tables:
  "insert_event operation e db = Inr db' \<Longrightarrow>
     rd_executions db' = rd_executions db \<and> rd_nodes db' = rd_nodes db \<and> rd_jobs db' = rd_jobs db"
  by (drule insert_event_D) force

lemma executions_add:
  "attention_ok x \<Longrightarrow> \<forall>r \<in> set xs. \<not> execution_clash x r \<Longrightarrow> executions_change xs (xs @ [x])"
  unfolding executions_change_def by blast

lemma jobs_add: "leased_ok j \<Longrightarrow> \<forall>r \<in> set js. job_id r \<noteq> job_id j \<Longrightarrow> jobs_change js (js @ [j])"
  unfolding jobs_change_def by blast

lemma AcceptInboundEvent_change:
  assumes "AcceptInboundEvent h now i1 i2 i3 e x j db = Inr (found, created, db')" "fresh_job j"
  shows "runtime_change db db'"
proof -
  obtain e1 x1 j1 db1 i where p: "accept_prepared h now i1 i2 i3 e x j = Inr (e1, x1, j1)"
    and ev: "insert_event ''accept inbound event'' e1 db = Inr db1"
    and ex: "accept_execution (x1\<lparr>fx_event := i\<rparr>) j1 db1 = Inr (found, created, db')"
    using assms(1) by (auto simp: AcceptInboundEvent_def bind_result_Inr split: option.splits)
  note prep = accept_prepared_D [OF p]
  have "attention_ok (x1\<lparr>fx_event := i\<rparr>)" using prep(6) by simp
  note D = accept_execution_D [OF ex this] and t = insert_event_tables [OF ev]
  show ?thesis
  proof (cases created)
    case True
    then show ?thesis using D t insert_event_change [OF ev] prep(6,8) assms(2)
      by (auto simp: runtime_change_def intro!: executions_add jobs_add)
  next
    case False
    then show ?thesis using D t insert_event_change [OF ev] by (auto simp: runtime_change_def)
  qed
qed

lemma SaveInboundEvent_change:
  assumes "SaveInboundEvent h now i e db = Inr (stored, db')"
  shows "runtime_change db db'"
proof -
  obtain e1 where ev: "insert_event ''save inbound event'' e1 db = Inr db'"
    using assms by (auto simp: SaveInboundEvent_def Let_def bind_result_Inr split: if_splits)
  then show ?thesis using insert_event_change [OF ev] insert_event_tables [OF ev]
    by (auto simp: runtime_change_def)
qed

lemma insertJobTx_change:
  assumes "insertJobTx now i j db = Inr db'" "fresh_job j"
  shows "jobs_change (rd_jobs db) (rd_jobs db') \<and> rd_events db' = rd_events db \<and>
    rd_executions db' = rd_executions db \<and> rd_nodes db' = rd_nodes db"
proof -
  obtain k where "db' = db\<lparr>rd_jobs := rd_jobs db @ [k]\<rparr>" "\<forall>r \<in> set (rd_jobs db). job_id r \<noteq> job_id k"
    "leased_ok k" using insertJobTx_D [OF assms(1)] assms(2) by blast
  then show ?thesis by (simp add: jobs_add)
qed

lemma insertFlowExecutionTx_change:
  assumes "insertFlowExecutionTx now x db = Inr db'"
  shows "executions_change (rd_executions db) (rd_executions db') \<and> rd_events db' = rd_events db \<and>
    rd_jobs db' = rd_jobs db \<and> rd_nodes db' = rd_nodes db"
proof -
  obtain r where "db' = db\<lparr>rd_executions := rd_executions db @ [r]\<rparr>" "attention_ok r"
    "\<forall>s \<in> set (rd_executions db). \<not> execution_clash r s"
    using insertFlowExecutionTx_D [OF assms] by blast
  then show ?thesis by (simp add: executions_add)
qed

lemma CreateFlowExecutionAndEnqueue_change:
  assumes "CreateFlowExecutionAndEnqueue now i x j db = Inr db'" "fresh_job j"
  shows "runtime_change db db'"
proof -
  obtain db1 where c: "insertFlowExecutionTx now x db = Inr db1" and e: "insertJobTx now i j db1 = Inr db'"
    using assms(1) by (auto simp: CreateFlowExecutionAndEnqueue_def bind_result_Inr)
  show ?thesis using insertFlowExecutionTx_change [OF c] insertJobTx_change [OF e assms(2)]
    by (auto simp: runtime_change_def)
qed

lemma executions_update:
  "(\<And>r. same_execution (f r) r) \<Longrightarrow> (\<And>r. attention_ok (f r)) \<Longrightarrow> executions_change xs (update_rows P f xs)"
  unfolding executions_change_def by blast

lemma RequeueFlowExecution_change:
  assumes "RequeueFlowExecution now i x j db = Inr db'" "fresh_job j"
  shows "runtime_change db db'"
proof -
  obtain k P f where db': "db' = db\<lparr>rd_executions := update_rows P f (rd_executions db), rd_jobs := rd_jobs db @ [k]\<rparr>"
    and f: "f = (\<lambda>r. r\<lparr>fx_status := ExecutionQueued, fx_attention := ExecutionAttentionNone,
                 fx_attention_actor := [], fx_attention_updated := None,
                 fx_current_node := fx_current_node x, fx_requests := fx_requests x,
                 fx_error_category := fx_error_category x,
                 fx_error_message := truncateMessage (fx_error_message x), fx_updated := now\<rparr>)"
    and k: "\<forall>r \<in> set (rd_jobs db). job_id r \<noteq> job_id k" "leased_ok k"
    using RequeueFlowExecution_D [OF assms(1)] assms(2) by blast
  have "executions_change (rd_executions db) (update_rows P f (rd_executions db))"
    by (rule executions_update)
      (simp_all add: f same_execution_def execution_key_def attention_ok_iff IsActionableExecutionStatus_def)
  then show ?thesis using k by (auto simp: runtime_change_def db' intro: jobs_add)
qed

lemma UpdateFlowExecution_change:
  assumes "UpdateFlowExecution now x db = Inr db'"
  shows "runtime_change db db'"
proof -
  obtain y P f where y: "attention_ok y"
    and db': "db' = db\<lparr>rd_executions := update_rows P f (rd_executions db)\<rparr>"
    and f: "f = (\<lambda>r. r\<lparr>fx_status := fx_status y, fx_attention := fx_attention y,
              fx_attention_actor := fx_attention_actor y,
              fx_attention_updated := fx_attention_updated y, fx_current_node := fx_current_node y,
              fx_requests := fx_requests y, fx_error_category := fx_error_category y,
              fx_error_message := truncateMessage (fx_error_message y), fx_updated := now\<rparr>)"
    using UpdateFlowExecution_D [OF assms] normalize_idem by blast
  have "attention_ok (f r)" for r using y by (auto simp: f attention_ok_iff split: if_splits)
  then have "executions_change (rd_executions db) (update_rows P f (rd_executions db))"
    by (intro executions_update) (simp_all add: f same_execution_def execution_key_def)
  then show ?thesis by (auto simp: runtime_change_def db')
qed

lemma CreateNodeExecution_change:
  assumes "CreateNodeExecution n db = Inr db'"
  shows "runtime_change db db'"
proof -
  obtain m rows where "insert_row ''create NodeExecution'' node_clash m (rd_nodes db) = Inr rows"
    "db' = db\<lparr>rd_nodes := rows\<rparr>"
    using assms by (auto simp: CreateNodeExecution_def bind_result_Inr split: if_splits)
  then show ?thesis by (auto simp: runtime_change_def nodes_change_def insert_row_Inr)
qed

lemma UpdateNodeExecution_change:
  assumes "UpdateNodeExecution n db = Inr db'"
  shows "runtime_change db db'"
proof -
  obtain inp outp where db': "db' = db\<lparr>rd_nodes := update_rows (\<lambda>r. nx_workspace r = nx_workspace n \<and> nx_id r = nx_id n)
                 (\<lambda>r. r\<lparr>nx_status := nx_status n, nx_input := inp, nx_output := outp,
                        nx_error_category := nx_error_category n,
                        nx_error_message := truncateMessage (nx_error_message n),
                        nx_request := nx_request n, nx_retention := nx_retention n\<rparr>) (rd_nodes db)\<rparr>"
    using assms by (auto simp: UpdateNodeExecution_def Let_def bind_result_Inr split: if_splits)
  have "nodes_change (rd_nodes db) (rd_nodes db')" unfolding nodes_change_def db'
    by (intro disjI2 exI conjI allI) (rule runtime_db.select_convs | simp add: node_identity_def)+
  then show ?thesis by (auto simp: runtime_change_def db')
qed

lemma jobs_update:
  "(\<And>r. P r \<Longrightarrow> job_id (f r) = job_id r \<and> job_workspace (f r) = job_workspace r \<and> leased_ok (f r) \<and>
      (job_leased_by r \<noteq> [] \<or> job_status r = ''queued'' \<or> job_status r = ''running'')) \<Longrightarrow>
     jobs_change js (update_rows P f js)"
  unfolding jobs_change_def by blast

lemma ClaimNextJob_change:
  assumes "ClaimNextJob w l now db = Inr (j, db')"
  shows "runtime_change db db'"
proof -
  obtain i where w: "\<not> blank w"
    and db': "db' = db\<lparr>rd_jobs := update_rows (\<lambda>x. job_id x = i \<and> claimable now x) (claimed w l now) (rd_jobs db)\<rparr>"
    using ClaimNextJob_D [OF assms] by blast
  have "w \<noteq> []" using w by auto
  then have "jobs_change (rd_jobs db) (rd_jobs db')" unfolding db'
    by (auto intro!: jobs_update simp: leased_ok_def claimable_def)
  then show ?thesis by (auto simp: runtime_change_def db')
qed

lemma CompleteJob_change:
  assumes "CompleteJob now ws i w db = Inr db'" "w \<noteq> []"
  shows "runtime_change db db'"
proof -
  have db': "db' = db\<lparr>rd_jobs := update_rows (held ws i w)
             (\<lambda>j. j\<lparr>job_status := ''succeeded'', job_lease := None, job_leased_by := [], job_updated := now\<rparr>)
             (rd_jobs db)\<rparr>"
    using assms(1) by (auto simp: CompleteJob_def split: if_splits)
  have "jobs_change (rd_jobs db) (rd_jobs db')" unfolding db'
    using assms(2) by (auto intro!: jobs_update simp: leased_ok_def held_def)
  then show ?thesis by (auto simp: runtime_change_def db')
qed

lemma FailJob_change:
  assumes "FailJob now ws i w retryAt db = Inr db'" "w \<noteq> []"
  shows "runtime_change db db'"
proof -
  obtain st av where st: "st \<in> {''failed'', ''queued''}"
    and db': "db' = db\<lparr>rd_jobs := update_rows (held ws i w)
             (\<lambda>j. j\<lparr>job_status := st, job_available := av, job_lease := None, job_leased_by := [],
                    job_updated := now\<rparr>) (rd_jobs db)\<rparr>"
    using assms(1) by (cases retryAt) (auto simp: FailJob_def split: if_splits)
  have "jobs_change (rd_jobs db) (rd_jobs db')" unfolding db'
    using assms(2) st by (auto intro!: jobs_update simp: leased_ok_def held_def)
  then show ?thesis by (auto simp: runtime_change_def db')
qed

lemma Purge_change:
  assumes "PurgeExpiredRuntimePayloads clock now db = (cleared, db')"
  shows "runtime_change db db'"
proof -
  obtain P Q where db': "db' = db\<lparr>rd_events := update_rows P (\<lambda>e. e\<lparr>ie_payload := []\<rparr>) (rd_events db),
      rd_nodes := update_rows Q (\<lambda>n. n\<lparr>nx_input := [], nx_output := []\<rparr>) (rd_nodes db)\<rparr>"
    using assms by (auto simp: PurgeExpiredRuntimePayloads_def Let_def)
  have "events_change (rd_events db) (update_rows P (\<lambda>e. e\<lparr>ie_payload := []\<rparr>) (rd_events db))"
    unfolding events_change_def by (intro disjI2 exI conjI allI) (rule refl | simp add: delivery_identity_def)+
  moreover have "nodes_change (rd_nodes db) (update_rows Q (\<lambda>n. n\<lparr>nx_input := [], nx_output := []\<rparr>) (rd_nodes db))"
    unfolding nodes_change_def by (intro disjI2 exI conjI allI) (rule refl | simp add: node_identity_def)+
  ultimately show ?thesis by (auto simp: runtime_change_def db')
qed

lemmas operation_changes =
  AcceptInboundEvent_change SaveInboundEvent_change CreateFlowExecutionAndEnqueue_change
  RequeueFlowExecution_change UpdateFlowExecution_change CreateNodeExecution_change
  UpdateNodeExecution_change ClaimNextJob_change CompleteJob_change FailJob_change Purge_change

lemma runtime_step_change: "runtime_step db db' \<Longrightarrow> runtime_change db db'"
proof (induction rule: runtime_step.induct)
  case (create now x db db')
  then show ?case using insertFlowExecutionTx_change [of now x db db']
    by (auto simp: runtime_change_def CreateFlowExecution_def)
next
  case (enqueue now i j db db')
  then show ?case using insertJobTx_change [of now i j db db'] by (auto simp: runtime_change_def EnqueueJob_def)
qed (blast intro: operation_changes)+

section \<open>The invariant\<close>

definition runtime_ok :: "runtime_db \<Rightarrow> bool" where
  "runtime_ok db \<longleftrightarrow>
     distinct (map delivery_identity (rd_events db)) \<and>
     distinct (map fx_id (rd_executions db)) \<and> distinct (map execution_key (rd_executions db)) \<and>
     list_all attention_ok (rd_executions db) \<and>
     distinct (map nx_id (rd_nodes db)) \<and> distinct (map node_identity (rd_nodes db)) \<and>
     distinct (map job_id (rd_jobs db)) \<and> list_all leased_ok (rd_jobs db)"

lemma runtime_change_ok:
  assumes "runtime_change db db'" "runtime_ok db"
  shows "runtime_ok db'"
proof -
  have "distinct (map delivery_identity (rd_events db'))"
    using assms by (force simp: runtime_change_def events_change_def runtime_ok_def map_update_same)
  moreover have "distinct (map fx_id (rd_executions db')) \<and> distinct (map execution_key (rd_executions db')) \<and>
      list_all attention_ok (rd_executions db')"
    using assms by (force simp: runtime_change_def executions_change_def runtime_ok_def map_update_same
      execution_clash_def same_execution_def list_all_iff set_update_rows)
  moreover have "distinct (map nx_id (rd_nodes db')) \<and> distinct (map node_identity (rd_nodes db'))"
    using assms by (force simp: runtime_change_def nodes_change_def runtime_ok_def map_update_same
      node_clash_def node_identity_def)
  moreover have "distinct (map job_id (rd_jobs db')) \<and> list_all leased_ok (rd_jobs db')"
    using assms by (force simp: runtime_change_def jobs_change_def runtime_ok_def map_update_same
      list_all_iff set_update_rows)
  ultimately show ?thesis by (simp add: runtime_ok_def)
qed

lemma history_ok: "runtime_history db db' \<Longrightarrow> runtime_ok db \<Longrightarrow> runtime_ok db'"
  by (induction rule: rtranclp_induct) (blast intro: runtime_change_ok runtime_step_change)+

section \<open>What lasts along a history\<close>

lemma same_execution_trans: "same_execution a b \<Longrightarrow> same_execution b c \<Longrightarrow> same_execution a c"
  by (simp add: same_execution_def)

lemma same_execution_refl [simp]: "same_execution a a"
  by (simp add: same_execution_def)

lemma update_keeps:
  assumes "r \<in> set rows" "\<And>r. Q (f r) r" "\<And>r. Q r r"
  shows "\<exists>r' \<in> set (update_rows P f rows). Q r' r"
  using assms by (intro bexI [of _ "if P r then f r else r"]) (auto simp: update_rows_def)

lemma change_execution:
  assumes "runtime_change db db'" "r \<in> set (rd_executions db)"
  shows "\<exists>r' \<in> set (rd_executions db'). same_execution r' r"
proof -
  have "executions_change (rd_executions db) (rd_executions db')" using assms(1) by (simp add: runtime_change_def)
  then consider x where "rd_executions db' = rd_executions db @ [x]"
    | P f where "rd_executions db' = update_rows P f (rd_executions db)" "\<And>r. same_execution (f r) r"
    unfolding executions_change_def by blast
  then show ?thesis
  proof cases
    case 1
    then show ?thesis using assms(2) by (intro bexI [of _ r]) auto
  next
    case 2
    show ?thesis unfolding 2(1) by (rule update_keeps [OF assms(2)]) (auto intro: 2(2))
  qed
qed

lemma history_execution:
  "runtime_history db db' \<Longrightarrow> r \<in> set (rd_executions db) \<Longrightarrow> \<exists>r' \<in> set (rd_executions db'). same_execution r' r"
proof (induction rule: rtranclp_induct)
  case (step y z)
  then obtain r' where "r' \<in> set (rd_executions y)" "same_execution r' r" by blast
  moreover obtain r'' where "r'' \<in> set (rd_executions z)" "same_execution r'' r'"
    using change_execution [OF runtime_step_change [OF step(2)] calculation(1)] by blast
  ultimately show ?case using same_execution_trans by blast
qed (blast intro: same_execution_refl)

lemma change_event:
  assumes "runtime_change db db'" "r \<in> set (rd_events db)"
  shows "\<exists>r' \<in> set (rd_events db'). delivery_identity r' = delivery_identity r \<and> ie_id r' = ie_id r"
proof -
  have "events_change (rd_events db) (rd_events db')" using assms(1) by (simp add: runtime_change_def)
  then consider "r \<in> set (rd_events db')"
    | P f where "rd_events db' = update_rows P f (rd_events db)"
      "\<And>r. delivery_identity (f r) = delivery_identity r \<and> ie_id (f r) = ie_id r"
    unfolding events_change_def using assms(2) by fastforce
  then show ?thesis
  proof cases
    case 1
    then show ?thesis by blast
  next
    case 2
    show ?thesis unfolding 2(1)
      by (rule update_keeps [OF assms(2), where Q = "\<lambda>a b. delivery_identity a = delivery_identity b \<and> ie_id a = ie_id b"])
        (auto simp: 2(2))
  qed
qed

lemma history_event:
  "runtime_history db db' \<Longrightarrow> r \<in> set (rd_events db) \<Longrightarrow>
     \<exists>r' \<in> set (rd_events db'). delivery_identity r' = delivery_identity r \<and> ie_id r' = ie_id r"
proof (induction rule: rtranclp_induct)
  case (step y z)
  then obtain r' where "r' \<in> set (rd_events y)" "delivery_identity r' = delivery_identity r \<and> ie_id r' = ie_id r"
    by blast
  then show ?case using change_event [OF runtime_step_change [OF step(2)], of r'] by auto
qed auto

lemma change_succeeded:
  assumes "runtime_change db db'" "runtime_ok db" "r \<in> set (rd_jobs db)" "job_status r = ''succeeded''"
  shows "r \<in> set (rd_jobs db')"
proof -
  have "job_leased_by r = []" using assms(2-4) by (auto simp: runtime_ok_def list_all_iff leased_ok_def)
  then show ?thesis using assms(1,3,4) by (fastforce simp: runtime_change_def jobs_change_def set_update_rows)
qed

lemma history_succeeded:
  "runtime_history db db' \<Longrightarrow> runtime_ok db \<Longrightarrow> r \<in> set (rd_jobs db) \<Longrightarrow> job_status r = ''succeeded'' \<Longrightarrow>
     r \<in> set (rd_jobs db')"
proof (induction rule: rtranclp_induct)
  case (step y z)
  then have "r \<in> set (rd_jobs y)" by blast
  then show ?case
    using change_succeeded [OF runtime_step_change [OF step(2)] history_ok [OF step(1,4)]] step.prems(3) by blast
qed auto

lemma accepted_present:
  assumes "AcceptInboundEvent h now i1 i2 i3 e x j db = Inr (found, created, db')" "runtime_ok db'"
  shows "\<exists>r \<in> set (rd_executions db'). execution_key r = execution_key x \<and> same_execution found r"
    "\<exists>r \<in> set (rd_events db'). delivery_identity r = delivery_identity e"
proof -
  obtain e1 x1 j1 db1 stored where p: "accept_prepared h now i1 i2 i3 e x j = Inr (e1, x1, j1)"
    and ev: "event_of_delivery e1 db1 = Some stored"
    and ex: "accept_execution (x1\<lparr>fx_event := ie_id stored\<rparr>) j1 db1 = Inr (found, created, db')"
    using assms(1) by (auto simp: AcceptInboundEvent_def bind_result_Inr split: option.splits)
  note prep = accept_prepared_D [OF p]
  have "attention_ok (x1\<lparr>fx_event := ie_id stored\<rparr>)" using prep(6) by simp
  note D = accept_execution_D [OF ex this]
  have n: "same_execution (normalizeExecutionAttention r) r" for r
    by (simp add: same_execution_def execution_key_def normalizeExecutionAttention_def)
  show "\<exists>r \<in> set (rd_executions db'). execution_key r = execution_key x \<and> same_execution found r"
  proof (cases created)
    case True
    then show ?thesis using D prep(3) by (auto simp: execution_key_def)
  next
    case False
    then obtain r where r: "r \<in> set (rd_executions db1)" "db' = db1" "execution_key r = execution_key x"
      "GetFlowExecution (fx_workspace x1) (fx_id r) db1 = Inr found"
      using D prep(3) by (auto simp: execution_key_def)
    obtain s where s: "s \<in> set (rd_executions db1)" "fx_id s = fx_id r" "found = normalizeExecutionAttention s"
      using GetFlowExecution_D [OF r(4)] by blast
    have "s = r" using assms(2) r(1,2) s(1,2) by (auto simp: runtime_ok_def distinct_map inj_on_def)
    then show ?thesis using r(1,2,3) s(3) n by blast
  qed
  have "rd_events db' = rd_events db1" using D by (cases created) auto
  then show "\<exists>r \<in> set (rd_events db'). delivery_identity r = delivery_identity e"
    using find_SomeD [OF ev [unfolded event_of_delivery_def]] prep(2) by auto
qed

lemma GetFlowExecution_row:
  assumes "runtime_ok db" "r \<in> set (rd_executions db)"
  shows "GetFlowExecution (fx_workspace r) (fx_id r) db = Inr r"
proof -
  have "List.find (\<lambda>x. fx_id x = fx_id r) (rd_executions db) = Some r"
    using assms by (intro execution_by_id.find_unique) (auto simp: runtime_ok_def)
  then obtain s where s: "List.find (\<lambda>x. fx_workspace x = fx_workspace r \<and> fx_id x = fx_id r) (rd_executions db) = Some s"
    using assms(2) by (metis (mono_tags, lifting) find_None_iff not_Some_eq)
  have "s = r" using find_SomeD [OF s] assms by (auto simp: runtime_ok_def distinct_map inj_on_def)
  moreover have "normalizeExecutionAttention r = r"
    using assms by (auto simp: runtime_ok_def list_all_iff attention_ok_def)
  ultimately show ?thesis by (simp add: GetFlowExecution_def s)
qed

lemma accept_known:
  assumes "runtime_ok db" "accept_prepared h now i1 i2 i3 e x j = Inr p"
    "r \<in> set (rd_executions db)" "execution_key r = execution_key x"
    "ev \<in> set (rd_events db)" "delivery_identity ev = delivery_identity e"
  shows "AcceptInboundEvent h now i1 i2 i3 e x j db = Inr (r, False, db)"
proof -
  obtain e1 x1 j1 where p: "p = (e1, x1, j1)" by (cases p)
  note prep = accept_prepared_D [OF assms(2) [unfolded p]]
  have ev: "insert_event ''accept inbound event'' e1 db = Inr db"
    using assms(5,6) prep(2) by (auto simp: insert_event_def list_ex_iff)
  obtain stored where st: "event_of_delivery e1 db = Some stored"
    using assms(5,6) prep(2) by (cases "event_of_delivery e1 db") (auto simp: event_of_delivery_def dest!: find_NoneD)
  have "List.find (\<lambda>a. execution_key a = execution_key r) (rd_executions db) = Some r"
    using assms(1,3) by (intro execution_by_key.find_unique) (auto simp: runtime_ok_def)
  then have "accept_execution (x1\<lparr>fx_event := ie_id stored\<rparr>) j1 db = Inr (r, False, db)"
    using assms(4) prep(3) GetFlowExecution_row [OF assms(1,3)]
    by (simp add: accept_execution_def execution_key_def)
  then show ?thesis by (simp add: AcceptInboundEvent_def assms(2) p ev st)
qed

definition sample_runtime :: runtime_db where
  "sample_runtime = \<lparr>rd_workspaces = [''w''], rd_connections = [''c''], rd_flows = [(''f'', ''w'')],
     rd_versions = [((''v'', ''f''), ''w'')], rd_events = [], rd_executions = [], rd_nodes = [], rd_jobs = []\<rparr>"

definition sample_event :: inbound_event where
  "sample_event = \<lparr>ie_id = [], ie_workspace = ''w'', ie_connection = ''c'', ie_provider = ''gitlab'',
     ie_source_instance = ''s'', ie_source_project = ''7'', ie_behavior_key = ''b'', ie_behavior_version = ''1'',
     ie_delivery = ''d1'', ie_payload = [], ie_payload_hash = ''h'', ie_received = 5, ie_retention = None\<rparr>"

definition sample_execution :: flow_execution where
  "sample_execution = \<lparr>fx_id = [], fx_workspace = ''w'', fx_connection = ''c'', fx_flow = ''f'',
     fx_version_id = ''v'', fx_version = 1, fx_event = [], fx_delivery = ''d1'', fx_key = ''k1'',
     fx_correlation = ''r'', fx_status = [], fx_attention = [], fx_attention_actor = [],
     fx_attention_updated = None, fx_current_node = [], fx_requests = [], fx_error_category = [],
     fx_error_message = [], fx_created = 0, fx_updated = 0\<rparr>"

definition flow_job :: job where
  "flow_job = \<lparr>job_id = [], job_workspace = [], job_kind = [], job_payload = [], job_available = 0,
     job_lease = None, job_leased_by = [], job_attempts = 0, job_status = [], job_created = 0, job_updated = 0\<rparr>"

definition after_accept :: runtime_db where
  "after_accept = (case AcceptInboundEvent (\<lambda>_. []) 1000000000 ''e1'' ''x1'' ''j1'' sample_event sample_execution flow_job
     sample_runtime of Inr (_, _, db) \<Rightarrow> db | Inl _ \<Rightarrow> sample_runtime)"

text \<open>
  C7: deduplication of webhook deliveries: once a delivery has been accepted, then whatever the
  runtime does in between - retries, workers, other deliveries, purges - presenting the delivery
  again with the same idempotency key succeeds, returns the execution created for it, with its
  identity and event, and leaves the state as it is: no second execution, no second job.
\<close>

theorem redelivery_converges:
  assumes "runtime_ok db" "fresh_job j"
    "AcceptInboundEvent h now i1 i2 i3 e x j db = Inr (found, created, db1)" "runtime_history db1 db2"
    "accept_prepared h' now' i1' i2' i3' e' x' j' = Inr p"
    "delivery_identity e' = delivery_identity e" "execution_key x' = execution_key x"
  shows "\<exists>again. AcceptInboundEvent h' now' i1' i2' i3' e' x' j' db2 = Inr (again, False, db2) \<and>
           same_execution again found"
proof -
  have ok1: "runtime_ok db1" using runtime_change_ok [OF AcceptInboundEvent_change [OF assms(3,2)] assms(1)] .
  have ok2: "runtime_ok db2" using history_ok [OF assms(4) ok1] .
  obtain r where r: "r \<in> set (rd_executions db1)" "execution_key r = execution_key x" "same_execution found r"
    using accepted_present(1) [OF assms(3) ok1] by blast
  obtain r' where r': "r' \<in> set (rd_executions db2)" "same_execution r' r"
    using history_execution [OF assms(4) r(1)] by blast
  obtain v where v: "v \<in> set (rd_events db1)" "delivery_identity v = delivery_identity e"
    using accepted_present(2) [OF assms(3) ok1] by blast
  obtain v' where v': "v' \<in> set (rd_events db2)" "delivery_identity v' = delivery_identity v"
    using history_event [OF assms(4) v(1)] by blast
  have "same_execution r' found" using r'(2) r(3) by (simp add: same_execution_def)
  moreover have "execution_key r' = execution_key x'" using r'(2) r(2) assms(7) by (simp add: same_execution_def)
  ultimately show ?thesis using accept_known [OF ok2 assms(5) r'(1) _ v'(1)] v'(2) v(2) assms(6) by auto
qed

lemma sample_runtime_ok: "runtime_ok sample_runtime"
  by (simp add: runtime_ok_def sample_runtime_def)

lemma sample_accept:
  "\<exists>found. AcceptInboundEvent (\<lambda>_. []) 1000000000 ''e1'' ''x1'' ''j1'' sample_event sample_execution flow_job
     sample_runtime = Inr (found, True, after_accept)"
proof -
  have "case AcceptInboundEvent (\<lambda>_. []) 1000000000 ''e1'' ''x1'' ''j1'' sample_event sample_execution flow_job
     sample_runtime of Inr (_, c, _) \<Rightarrow> c | Inl _ \<Rightarrow> False" by code_simp
  then show ?thesis by (auto simp: after_accept_def split: sum.splits)
qed

theorem redelivery_converges_witness:
  "\<exists>found. AcceptInboundEvent (\<lambda>_. []) 9000000000 ''e2'' ''x2'' ''j2'' sample_event sample_execution flow_job
     after_accept = Inr (found, False, after_accept)"
proof -
  obtain found where a: "AcceptInboundEvent (\<lambda>_. []) 1000000000 ''e1'' ''x1'' ''j1'' sample_event sample_execution flow_job
     sample_runtime = Inr (found, True, after_accept)" using sample_accept by blast
  have f: "fresh_job flow_job" by (simp add: fresh_job_def flow_job_def)
  have "case accept_prepared (\<lambda>_. []) 9000000000 ''e2'' ''x2'' ''j2'' sample_event sample_execution flow_job of
     Inr _ \<Rightarrow> True | Inl _ \<Rightarrow> False" by code_simp
  then obtain p where p: "accept_prepared (\<lambda>_. []) 9000000000 ''e2'' ''x2'' ''j2'' sample_event sample_execution flow_job = Inr p"
    by (auto split: sum.splits)
  show ?thesis using redelivery_converges [OF sample_runtime_ok f a rtranclp.rtrancl_refl p refl refl] by blast
qed

text \<open>
  C26: every reachable state of the runtime tables keeps its invariant, whatever operations are
  interleaved: deliveries, execution identifiers and idempotency keys, node attempts and job
  identifiers stay distinct; an execution has an open or acknowledged attention exactly when its
  status is actionable; a job has a lease and a holder exactly when it is running.
\<close>

theorem runtime_history_ok:
  assumes "runtime_ok db" "runtime_history db db'"
  shows "runtime_ok db'"
  by (rule history_ok [OF assms(2,1)])

theorem runtime_history_ok_witness: "runtime_ok after_accept"
proof -
  obtain found where a: "AcceptInboundEvent (\<lambda>_. []) 1000000000 ''e1'' ''x1'' ''j1'' sample_event sample_execution flow_job
     sample_runtime = Inr (found, True, after_accept)" using sample_accept by blast
  have "fresh_job flow_job" by (simp add: fresh_job_def flow_job_def)
  then have "runtime_history sample_runtime after_accept" by (intro r_into_rtranclp runtime_step.accept [OF a])
  then show ?thesis by (rule runtime_history_ok [OF sample_runtime_ok])
qed






text \<open>
  Work is not done twice once it is reported done: a job that its worker completes stays
  succeeded and unleased in every later state, and no worker can claim it again.
\<close>

theorem completed_job_final:
  assumes "runtime_ok db" "w \<noteq> []" "CompleteJob now ws i w db = Inr db1" "runtime_history db1 db2"
  shows "(\<exists>k \<in> set (rd_jobs db2). job_id k = i \<and> job_status k = ''succeeded'' \<and> job_lease k = None) \<and>
    (ClaimNextJob w' l now' db2 = Inr (c, db3) \<longrightarrow> job_id c \<noteq> i)"
proof -
  have ok1: "runtime_ok db1" using runtime_change_ok [OF CompleteJob_change [OF assms(3,2)] assms(1)] .
  have db1: "db1 = db\<lparr>rd_jobs := update_rows (held ws i w)
             (\<lambda>j. j\<lparr>job_status := ''succeeded'', job_lease := None, job_leased_by := [], job_updated := now\<rparr>)
             (rd_jobs db)\<rparr>"
    and h: "list_ex (held ws i w) (rd_jobs db)"
    using assms(3) by (simp_all add: CompleteJob_def split: if_splits)
  obtain r where r: "r \<in> set (rd_jobs db)" "held ws i w r" using h by (auto simp: list_ex_iff)
  let ?k = "r\<lparr>job_status := ''succeeded'', job_lease := None, job_leased_by := [], job_updated := now\<rparr>"
  have i: "job_id ?k = i" using r(2) by (simp add: held_def)
  have "?k \<in> set (rd_jobs db1)" using r by (auto simp: db1 set_update_rows)
  then have k2: "?k \<in> set (rd_jobs db2)" using history_succeeded [OF assms(4) ok1] by simp
  have ok2: "runtime_ok db2" using history_ok [OF assms(4) ok1] .
  have "job_id c \<noteq> i" if claim: "ClaimNextJob w' l now' db2 = Inr (c, db3)"
  proof
    assume "job_id c = i"
    obtain s p where s: "s \<in> set (rd_jobs db2)" "claimable now' s" "c = (claimed w' l now' s)\<lparr>job_payload := p\<rparr>"
      using ClaimNextJob_D [OF claim] by blast
    then have "job_id s = job_id ?k" using \<open>job_id c = i\<close> i by simp
    then have "s = ?k" using ok2 s(1) k2 unfolding runtime_ok_def distinct_map inj_on_def by blast
    then show False using s(2) by (simp add: claimable_def)
  qed
  then show ?thesis using i k2 by (intro conjI bexI [of _ ?k]) auto
qed

definition running_runtime :: runtime_db where
  "running_runtime = sample_runtime\<lparr>rd_jobs := [flow_job\<lparr>job_id := ''j1'', job_workspace := ''w'', job_status := ''running'',
     job_lease := Some 9, job_leased_by := ''a''\<rparr>]\<rparr>"

theorem completed_job_final_witness:
  "\<exists>db1. CompleteJob 8 ''w'' ''j1'' ''a'' running_runtime = Inr db1 \<and>
     (\<exists>k. k \<in> set (rd_jobs db1) \<and> job_id k = ''j1'' \<and> job_status k = ''succeeded'')"
proof -
  have ok: "runtime_ok running_runtime"
    by (simp add: runtime_ok_def running_runtime_def sample_runtime_def flow_job_def leased_ok_def)
  have c: "\<exists>db1. CompleteJob 8 ''w'' ''j1'' ''a'' running_runtime = Inr db1"
    by (simp add: CompleteJob_def running_runtime_def flow_job_def held_def)
  then obtain db1 where c: "CompleteJob 8 ''w'' ''j1'' ''a'' running_runtime = Inr db1" by blast
  show ?thesis using completed_job_final [OF ok _ c rtranclp.rtrancl_refl, of "[]" 0 0] c by auto
qed

end
