(* ===== verification/Correlations.thy ===== *)
theory Correlations
  imports RuntimeSteps
begin

text \<open>
  Correlations of \<open>store/runtime.go\<close>: which target issue a source change was published to, and how
  its life ended. A projection is active until it is marked done or cancelled, once; the lemmas say
  that nothing the store does afterwards, a repeated publication included, changes that.
\<close>

record correlation =
  co_id :: ID
  co_workspace :: ID
  co_connection :: ID
  co_flow :: ID
  co_source :: string
  co_issue :: int
  co_issues :: "int list"
  co_publication :: string
  co_target :: string
  co_execution :: ID
  co_request :: string
  co_lifecycle :: string
  co_created :: gtime

record correlation_db =
  cd_runtime :: runtime_db
  cd_rows :: "correlation list"

fun unique_positive :: "int list \<Rightarrow> int list \<Rightarrow> int list" where
  "unique_positive seen [] = []"
| "unique_positive seen (v # vs) =
     (if v \<le> 0 then unique_positive seen vs
      else if v \<in> set seen then unique_positive seen vs
      else v # unique_positive (v # seen) vs)"

definition normalizeIssueIIDs :: "int list \<Rightarrow> int list" where
  "normalizeIssueIIDs values = unique_positive [] values"

definition correlation_key :: "correlation \<Rightarrow> ID \<times> ID \<times> ID \<times> string \<times> string" where
  "correlation_key c = (co_workspace c, co_connection c, co_flow c, co_source c, co_publication c)"

definition same_correlation_id :: "correlation \<Rightarrow> correlation \<Rightarrow> bool" where
  "same_correlation_id a b \<longleftrightarrow> co_id a = co_id b"

text \<open>The issue numbers agree: a list without one takes the single number, and the other way round.\<close>

definition complete_issues :: "correlation \<Rightarrow> correlation" where
  "complete_issues c =
     (let ids0 = normalizeIssueIIDs (co_issues c);
          ids = (if ids0 = [] \<and> co_issue c > 0 then [co_issue c] else ids0)
      in c\<lparr>co_issues := ids, co_issue := if ids \<noteq> [] \<and> co_issue c = 0 then hd ids else co_issue c\<rparr>)"

definition read_correlation :: "correlation \<Rightarrow> correlation" where
  "read_correlation r =
     (complete_issues r)\<lparr>co_lifecycle := or_default (co_lifecycle r) (\<lambda>s. s = []) ProjectionActive\<rparr>"

definition GetCorrelation ::
  "ID \<times> ID \<times> ID \<times> string \<times> string \<Rightarrow> correlation_db \<Rightarrow> gerr + correlation" where
  "GetCorrelation k db =
     (case List.find (\<lambda>r. correlation_key r = k) (cd_rows db) of
        None \<Rightarrow> fail ErrNotFound (''correlation '' @ snd (snd (snd (snd k))))
      | Some r \<Rightarrow> Inr (read_correlation r))"

definition valid_lifecycle :: "string \<Rightarrow> bool" where
  "valid_lifecycle s \<longleftrightarrow> s = ProjectionActive \<or> s = ProjectionDone \<or> s = ProjectionCancelled"

definition correlation_references :: "correlation \<Rightarrow> correlation_db \<Rightarrow> bool" where
  "correlation_references c db \<longleftrightarrow>
     co_workspace c \<in> set (rd_workspaces (cd_runtime db)) \<and> co_connection c \<in> set (rd_connections (cd_runtime db)) \<and>
     co_flow c \<in> fst ` set (rd_flows (cd_runtime db)) \<and>
     (co_execution c = [] \<or> co_execution c \<in> fx_id ` set (rd_executions (cd_runtime db)))"

definition upsert_correlation :: "correlation \<Rightarrow> correlation_db \<Rightarrow> gerr + correlation_db" where
  "upsert_correlation c db =
     bind_result (require_row ''upsert correlation'' (correlation_references c db)) (\<lambda>_.
       if list_ex (\<lambda>r. correlation_key r = correlation_key c) (cd_rows db)
       then Inr (db\<lparr>cd_rows := update_rows (\<lambda>r. correlation_key r = correlation_key c)
              (\<lambda>r. r\<lparr>co_issue := co_issue c, co_issues := co_issues c, co_target := co_target c,
                     co_execution := co_execution c, co_request := co_request c\<rparr>) (cd_rows db)\<rparr>)
       else bind_result (insert_row ''upsert correlation'' same_correlation_id c (cd_rows db)) (\<lambda>rows.
              Inr (db\<lparr>cd_rows := rows\<rparr>)))"

definition UpsertCorrelation ::
  "gtime \<Rightarrow> ID \<Rightarrow> correlation \<Rightarrow> correlation_db \<Rightarrow> gerr + correlation \<times> correlation_db" where
  "UpsertCorrelation now newID c0 db =
     (let c1 = c0\<lparr>co_id := or_default (co_id c0) (\<lambda>i. i = []) newID\<rparr>
      in if co_workspace c1 = [] \<or> co_connection c1 = [] \<or> co_flow c1 = [] \<or> blank (co_source c1) \<or>
            blank (co_publication c1)
         then fail ErrInvalid ''incomplete correlation''
         else let c2 = c1\<lparr>co_created := or_default (co_created c1) IsZero now,
                         co_lifecycle := or_default (co_lifecycle c1) (\<lambda>s. s = []) ProjectionActive\<rparr>
         in if \<not> valid_lifecycle (co_lifecycle c2)
            then fail ErrInvalid (''invalid correlation lifecycle status '' @ go_quote (co_lifecycle c2))
            else let c = complete_issues c2
            in bind_result (upsert_correlation c db) (\<lambda>db'.
               bind_result (GetCorrelation (correlation_key c) db') (\<lambda>stored. Inr (stored, db'))))"

definition ListCorrelations ::
  "ID \<Rightarrow> ID \<Rightarrow> string \<Rightarrow> string \<Rightarrow> correlation_db \<Rightarrow> correlation list" where
  "ListCorrelations workspaceID connectionID sourceIdentity publicationIdentity db =
     map read_correlation
       (sort_key co_flow
         (filter (\<lambda>r. co_workspace r = workspaceID \<and> co_connection r = connectionID \<and> co_flow r \<noteq> [] \<and>
                      co_source r = sourceIdentity \<and> co_publication r = publicationIdentity) (cd_rows db)))"

definition MarkCorrelationLifecycle ::
  "ID \<Rightarrow> ID \<Rightarrow> string \<Rightarrow> correlation_db \<Rightarrow> gerr + correlation_db" where
  "MarkCorrelationLifecycle workspaceID correlationID status db =
     (if workspaceID = [] \<or> correlationID = [] then fail ErrInvalid ''correlation workspace and id are required''
      else if status \<noteq> ProjectionDone \<and> status \<noteq> ProjectionCancelled
      then fail ErrInvalid (''terminal correlation lifecycle status '' @ status @ '' is not supported'')
      else let target = (\<lambda>r. co_workspace r = workspaceID \<and> co_id r = correlationID);
               live = (\<lambda>r. target r \<and> (co_lifecycle r = [] \<or> co_lifecycle r = ProjectionActive))
      in if list_ex live (cd_rows db)
         then Inr (db\<lparr>cd_rows := update_rows live (\<lambda>r. r\<lparr>co_lifecycle := status\<rparr>) (cd_rows db)\<rparr>)
         else case List.find target (cd_rows db) of
                None \<Rightarrow> fail ErrNotFound (''correlation '' @ correlationID)
              | Some r \<Rightarrow>
                  if co_lifecycle r = status then Inr db
                  else fail ErrConflict (''correlation '' @ correlationID @ '' is already '' @ co_lifecycle r))"

section \<open>Issue numbers\<close>

lemma in_unique_positive: "x \<in> set (unique_positive seen vs) \<longleftrightarrow> x \<in> set vs \<and> 0 < x \<and> x \<notin> set seen"
proof (induction seen vs rule: unique_positive.induct)
  case (2 seen v vs)
  then show ?case by (cases "v \<le> 0"; cases "v \<in> set seen"; cases "x = v") simp_all
qed simp

lemma distinct_unique_positive: "distinct (unique_positive seen vs)"
  by (induction seen vs rule: unique_positive.induct) (auto simp: in_unique_positive)

lemma unique_positive_idem:
  "distinct vs \<Longrightarrow> \<forall>v \<in> set vs. 0 < v \<and> v \<notin> set seen \<Longrightarrow> unique_positive seen vs = vs"
  by (induction seen vs rule: unique_positive.induct) auto

lemma normalizeIssueIIDs_idem: "normalizeIssueIIDs (normalizeIssueIIDs vs) = normalizeIssueIIDs vs"
  unfolding normalizeIssueIIDs_def
  by (rule unique_positive_idem) (simp_all add: distinct_unique_positive in_unique_positive)

section \<open>Histories\<close>

inductive correlation_step :: "correlation_db \<Rightarrow> correlation_db \<Rightarrow> bool" where
  upsert: "UpsertCorrelation now i c db = Inr (stored, db') \<Longrightarrow> correlation_step db db'"
| mark: "MarkCorrelationLifecycle ws i s db = Inr db' \<Longrightarrow> correlation_step db db'"
| runtime: "runtime_step (cd_runtime db) rt \<Longrightarrow> correlation_step db (db\<lparr>cd_runtime := rt\<rparr>)"

abbreviation correlation_history :: "correlation_db \<Rightarrow> correlation_db \<Rightarrow> bool" where
  "correlation_history \<equiv> correlation_step\<^sup>*\<^sup>*"

definition correlations_ok :: "correlation_db \<Rightarrow> bool" where
  "correlations_ok db \<longleftrightarrow>
     distinct (map co_id (cd_rows db)) \<and> distinct (map correlation_key (cd_rows db)) \<and>
     list_all (\<lambda>r. valid_lifecycle (co_lifecycle r) \<and> distinct (co_issues r) \<and> (\<forall>n \<in> set (co_issues r). 0 < n)) (cd_rows db)"

lemma complete_issues_fields [simp]:
  "co_id (complete_issues c) = co_id c" "correlation_key (complete_issues c) = correlation_key c"
  "co_lifecycle (complete_issues c) = co_lifecycle c" "co_target (complete_issues c) = co_target c"
  by (simp_all add: complete_issues_def Let_def correlation_key_def)

lemma complete_issues_ok: "distinct (co_issues (complete_issues c)) \<and> (\<forall>n \<in> set (co_issues (complete_issues c)). 0 < n)"
  by (auto simp: complete_issues_def Let_def normalizeIssueIIDs_def distinct_unique_positive in_unique_positive)

lemma UpsertCorrelation_D:
  assumes "UpsertCorrelation now i c db = Inr (stored, db')"
  shows "\<exists>d. correlation_key d = correlation_key c \<and> valid_lifecycle (co_lifecycle d) \<and> distinct (co_issues d) \<and>
    (\<forall>n \<in> set (co_issues d). 0 < n) \<and> upsert_correlation d db = Inr db' \<and> co_target d = co_target c"
proof -
  let ?d = "complete_issues (c\<lparr>co_id := or_default (co_id c) (\<lambda>i. i = []) i, co_created := or_default (co_created c) IsZero now,
                         co_lifecycle := or_default (co_lifecycle c) (\<lambda>s. s = []) ProjectionActive\<rparr>)"
  have "upsert_correlation ?d db = Inr db' \<and> valid_lifecycle (co_lifecycle ?d)"
    using assms by (auto simp: UpsertCorrelation_def Let_def bind_result_Inr split: if_splits)
  moreover have "correlation_key ?d = correlation_key c"
    unfolding complete_issues_fields by (simp add: correlation_key_def)
  ultimately show ?thesis using complete_issues_ok by (intro exI [of _ ?d]) auto
qed

text \<open>What a step does to the rows, whichever operation takes it.\<close>

definition rows_change :: "correlation list \<Rightarrow> correlation list \<Rightarrow> bool" where
  "rows_change xs ys \<longleftrightarrow>
     ys = xs \<or>
     (\<exists>c. ys = xs @ [c] \<and> valid_lifecycle (co_lifecycle c) \<and> distinct (co_issues c) \<and> (\<forall>n \<in> set (co_issues c). 0 < n) \<and>
        (\<forall>r \<in> set xs. co_id r \<noteq> co_id c \<and> correlation_key r \<noteq> correlation_key c)) \<or>
     (\<exists>P f. ys = update_rows P f xs \<and>
        (\<forall>r. P r \<longrightarrow> co_id (f r) = co_id r \<and> correlation_key (f r) = correlation_key r \<and>
           (valid_lifecycle (co_lifecycle r) \<longrightarrow> valid_lifecycle (co_lifecycle (f r))) \<and>
           (distinct (co_issues r) \<and> (\<forall>n \<in> set (co_issues r). 0 < n) \<longrightarrow>
              distinct (co_issues (f r)) \<and> (\<forall>n \<in> set (co_issues (f r)). 0 < n)) \<and>
           (co_lifecycle r \<in> {ProjectionDone, ProjectionCancelled} \<longrightarrow> co_lifecycle (f r) = co_lifecycle r)))"

lemma UpsertCorrelation_change:
  assumes "UpsertCorrelation now i c db = Inr (stored, db')"
  shows "rows_change (cd_rows db) (cd_rows db')"
proof -
  obtain d where d: "valid_lifecycle (co_lifecycle d)" "distinct (co_issues d)" "\<forall>n \<in> set (co_issues d). 0 < n"
    and u: "upsert_correlation d db = Inr db'" using UpsertCorrelation_D [OF assms] by blast
  show ?thesis
  proof (cases "list_ex (\<lambda>r. correlation_key r = correlation_key d) (cd_rows db)")
    case True
    then have "cd_rows db' = update_rows (\<lambda>r. correlation_key r = correlation_key d)
              (\<lambda>r. r\<lparr>co_issue := co_issue d, co_issues := co_issues d, co_target := co_target d,
                     co_execution := co_execution d, co_request := co_request d\<rparr>) (cd_rows db)"
      using u by (auto simp: upsert_correlation_def bind_result_Inr)
    then show ?thesis unfolding rows_change_def using d(2,3)
      by (intro disjI2 exI conjI) (assumption | simp add: correlation_key_def)+
  next
    case False
    then have "cd_rows db' = cd_rows db @ [d]" "\<forall>r \<in> set (cd_rows db). co_id r \<noteq> co_id d"
      using u by (auto simp: upsert_correlation_def bind_result_Inr insert_row_Inr same_correlation_id_def)
    then show ?thesis using d False by (auto simp: rows_change_def list_ex_iff)
  qed
qed

lemma MarkCorrelationLifecycle_change:
  assumes "MarkCorrelationLifecycle ws i s db = Inr db'"
  shows "rows_change (cd_rows db) (cd_rows db')"
proof -
  have s: "s = ProjectionDone \<or> s = ProjectionCancelled"
    using assms by (auto simp: MarkCorrelationLifecycle_def split: if_splits)
  let ?P = "\<lambda>r. (co_workspace r = ws \<and> co_id r = i) \<and> (co_lifecycle r = [] \<or> co_lifecycle r = ProjectionActive)"
  have "db' = db \<or> db' = db\<lparr>cd_rows := update_rows ?P (\<lambda>r. r\<lparr>co_lifecycle := s\<rparr>) (cd_rows db)\<rparr>"
    using assms unfolding MarkCorrelationLifecycle_def Let_def by (simp split: if_splits option.splits)
  then consider "db' = db" | P where "P = ?P"
      "cd_rows db' = update_rows P (\<lambda>r. r\<lparr>co_lifecycle := s\<rparr>) (cd_rows db)" by auto
  then show ?thesis
  proof cases
    case 1
    then show ?thesis by (simp add: rows_change_def)
  next
    case 2
    then have "cd_rows db' = update_rows P (\<lambda>r. r\<lparr>co_lifecycle := s\<rparr>) (cd_rows db) \<and>
        (\<forall>r. P r \<longrightarrow> co_lifecycle r \<notin> {ProjectionDone, ProjectionCancelled})" by fastforce
    then show ?thesis unfolding rows_change_def using s
      by (intro disjI2 exI [of _ P] exI [of _ "\<lambda>r. r\<lparr>co_lifecycle := s\<rparr>"]) (auto simp: correlation_key_def valid_lifecycle_def)
  qed
qed

lemma correlation_step_change: "correlation_step db db' \<Longrightarrow> rows_change (cd_rows db) (cd_rows db')"
proof (induction rule: correlation_step.induct)
  case (upsert now i c db stored db')
  then show ?case by (rule UpsertCorrelation_change)
next
  case (mark ws i s db db')
  then show ?case by (rule MarkCorrelationLifecycle_change)
qed (simp add: rows_change_def)

lemma rows_change_ok:
  assumes "rows_change (cd_rows db) (cd_rows db')" "correlations_ok db"
  shows "correlations_ok db'"
proof -
  consider "cd_rows db' = cd_rows db"
    | c where "cd_rows db' = cd_rows db @ [c]" "valid_lifecycle (co_lifecycle c)" "distinct (co_issues c)"
      "\<forall>n \<in> set (co_issues c). 0 < n"
      "\<forall>r \<in> set (cd_rows db). co_id r \<noteq> co_id c \<and> correlation_key r \<noteq> correlation_key c"
    | P f where "cd_rows db' = update_rows P f (cd_rows db)"
      "\<forall>r. P r \<longrightarrow> co_id (f r) = co_id r \<and> correlation_key (f r) = correlation_key r \<and>
           (valid_lifecycle (co_lifecycle r) \<longrightarrow> valid_lifecycle (co_lifecycle (f r))) \<and>
           (distinct (co_issues r) \<and> (\<forall>n \<in> set (co_issues r). 0 < n) \<longrightarrow>
              distinct (co_issues (f r)) \<and> (\<forall>n \<in> set (co_issues (f r)). 0 < n)) \<and>
           (co_lifecycle r \<in> {ProjectionDone, ProjectionCancelled} \<longrightarrow> co_lifecycle (f r) = co_lifecycle r)"
    using assms(1) unfolding rows_change_def by (elim disjE exE conjE) blast+
  then show ?thesis
  proof cases
    case 1
    then show ?thesis using assms(2) by (simp add: correlations_ok_def)
  next
    case 2
    then show ?thesis using assms(2) by (fastforce simp: correlations_ok_def)
  next
    case 3
    then show ?thesis using assms(2)
      by (auto simp: correlations_ok_def map_update_same list_all_iff set_update_rows)
  qed
qed

lemma correlation_history_ok: "correlation_history db db' \<Longrightarrow> correlations_ok db \<Longrightarrow> correlations_ok db'"
  by (induction rule: rtranclp_induct) (blast intro: rows_change_ok correlation_step_change)+

lemma terminal_kept:
  assumes "rows_change xs ys" "r \<in> set xs" "co_lifecycle r \<in> {ProjectionDone, ProjectionCancelled}"
  shows "\<exists>r' \<in> set ys. co_id r' = co_id r \<and> correlation_key r' = correlation_key r \<and> co_lifecycle r' = co_lifecycle r"
proof -
  consider "r \<in> set ys"
    | P f where "ys = update_rows P f xs"
      "\<And>r. P r \<Longrightarrow> co_id (f r) = co_id r \<and> correlation_key (f r) = correlation_key r \<and>
        (co_lifecycle r \<in> {ProjectionDone, ProjectionCancelled} \<longrightarrow> co_lifecycle (f r) = co_lifecycle r)"
    using assms(1,2) unfolding rows_change_def by fastforce
  then show ?thesis
  proof cases
    case 2
    have "(if P r then f r else r) \<in> set ys" using assms(2) by (simp add: 2(1) update_rows_def)
    then show ?thesis using 2(2) [of r] assms(3) by (auto split: if_splits)
  qed blast
qed

lemma terminal_history:
  "correlation_history db db' \<Longrightarrow> r \<in> set (cd_rows db) \<Longrightarrow> co_lifecycle r \<in> {ProjectionDone, ProjectionCancelled} \<Longrightarrow>
     \<exists>r' \<in> set (cd_rows db'). co_id r' = co_id r \<and> correlation_key r' = correlation_key r \<and> co_lifecycle r' = co_lifecycle r"
proof (induction rule: rtranclp_induct)
  case (step y z)
  then obtain r' where "r' \<in> set (cd_rows y)" "co_id r' = co_id r" "correlation_key r' = correlation_key r"
    "co_lifecycle r' = co_lifecycle r" by blast
  then show ?case using terminal_kept [OF correlation_step_change [OF step(2)], of r'] step.prems(2) by auto
qed blast

lemma MarkCorrelationLifecycle_marked:
  assumes "correlations_ok db" "MarkCorrelationLifecycle ws i s db = Inr db'"
  shows "ws \<noteq> [] \<and> i \<noteq> [] \<and> s \<in> {ProjectionDone, ProjectionCancelled} \<and>
    (\<exists>r \<in> set (cd_rows db'). co_workspace r = ws \<and> co_id r = i \<and> co_lifecycle r = s)"
proof -
  let ?t = "\<lambda>r. co_workspace r = ws \<and> co_id r = i"
  let ?P = "\<lambda>r. ?t r \<and> (co_lifecycle r = [] \<or> co_lifecycle r = ProjectionActive)"
  have args: "ws \<noteq> []" "i \<noteq> []" "s \<in> {ProjectionDone, ProjectionCancelled}"
    using assms(2) by (auto simp: MarkCorrelationLifecycle_def split: if_splits)
  have "\<exists>r \<in> set (cd_rows db'). ?t r \<and> co_lifecycle r = s"
  proof (cases "list_ex ?P (cd_rows db)")
    case True
    then obtain r where "r \<in> set (cd_rows db)" "?P r" by (auto simp: list_ex_iff)
    moreover have "cd_rows db' = update_rows ?P (\<lambda>r. r\<lparr>co_lifecycle := s\<rparr>) (cd_rows db)"
      using assms(2) True args by (auto simp: MarkCorrelationLifecycle_def)
    ultimately show ?thesis by (intro bexI [of _ "r\<lparr>co_lifecycle := s\<rparr>"]) (auto simp: set_update_rows)
  next
    case False
    then obtain r where "List.find ?t (cd_rows db) = Some r" "co_lifecycle r = s" "db' = db"
      using assms(2) args by (auto simp: MarkCorrelationLifecycle_def split: option.splits if_splits)
    then show ?thesis using find_SomeD [of ?t "cd_rows db" r] by blast
  qed
  with args show ?thesis by blast
qed

definition sample_correlations :: correlation_db where
  "sample_correlations = \<lparr>cd_runtime = sample_runtime, cd_rows =
     [\<lparr>co_id = ''m1'', co_workspace = ''w'', co_connection = ''c'', co_flow = ''f'', co_source = ''7!1'', co_issue = 4,
       co_issues = [4], co_publication = ''p'', co_target = ''T-1'', co_execution = [], co_request = [],
       co_lifecycle = ProjectionActive, co_created = 5\<rparr>]\<rparr>"

text \<open>
  C31: the life of a projection ends once: after a correlation has been marked done or cancelled, then
  whatever publications, marks and runtime operations follow, the same mark succeeds and changes
  nothing, and the other terminal mark is refused as a conflict.
\<close>

theorem lifecycle_ends_once:
  assumes "correlations_ok db" "MarkCorrelationLifecycle ws i s db = Inr db1" "correlation_history db1 db2"
    "s' = ProjectionDone \<or> s' = ProjectionCancelled"
  shows "MarkCorrelationLifecycle ws i s' db2 =
    (if s' = s then Inr db2 else fail ErrConflict (''correlation '' @ i @ '' is already '' @ s))"
proof -
  note args = MarkCorrelationLifecycle_marked [OF assms(1,2)]
  have ok1: "correlations_ok db1" using rows_change_ok [OF MarkCorrelationLifecycle_change [OF assms(2)] assms(1)] .
  have ok2: "correlations_ok db2" using correlation_history_ok [OF assms(3) ok1] .
  obtain r where "r \<in> set (cd_rows db1)" "co_workspace r = ws" "co_id r = i" "co_lifecycle r = s" using args by blast
  then obtain r' where r': "r' \<in> set (cd_rows db2)" "co_workspace r' = ws" "co_id r' = i" "co_lifecycle r' = s"
    using terminal_history [OF assms(3), of r] args by (auto simp: correlation_key_def)
  let ?t = "\<lambda>r. co_workspace r = ws \<and> co_id r = i"
  have only: "x = r'" if "x \<in> set (cd_rows db2)" "?t x" for x
    using ok2 that r' by (auto simp: correlations_ok_def distinct_map inj_on_def)
  have found: "List.find ?t (cd_rows db2) = Some r'"
  proof (cases "List.find ?t (cd_rows db2)")
    case None
    then show ?thesis using r' by (auto dest: find_NoneD)
  next
    case (Some x)
    then show ?thesis using find_SomeD [OF Some] only by blast
  qed
  have "\<not> list_ex (\<lambda>r. ?t r \<and> (co_lifecycle r = [] \<or> co_lifecycle r = ProjectionActive)) (cd_rows db2)"
    using only r'(4) args by (auto simp: list_ex_iff)
  then show ?thesis using assms(4) args found r'(4) by (auto simp: MarkCorrelationLifecycle_def)
qed

theorem lifecycle_ends_once_witness:
  "\<exists>db1. MarkCorrelationLifecycle ''w'' ''m1'' ProjectionDone sample_correlations = Inr db1 \<and>
     MarkCorrelationLifecycle ''w'' ''m1'' ProjectionCancelled db1 = fail ErrConflict ''correlation m1 is already done''"
proof -
  have ok: "correlations_ok sample_correlations"
    by (simp add: correlations_ok_def sample_correlations_def valid_lifecycle_def)
  have "\<exists>db1. MarkCorrelationLifecycle ''w'' ''m1'' ProjectionDone sample_correlations = Inr db1"
    by (simp add: MarkCorrelationLifecycle_def sample_correlations_def)
  then obtain db1 where m: "MarkCorrelationLifecycle ''w'' ''m1'' ProjectionDone sample_correlations = Inr db1" by blast
  have c: "ProjectionCancelled = ProjectionDone \<or> ProjectionCancelled = ProjectionCancelled" by simp
  show ?thesis using m lifecycle_ends_once [OF ok m rtranclp.rtrancl_refl c] by auto
qed

end
