(* ===== verification/Lifecycle.thy ===== *)
theory Lifecycle
  imports NodeConfig Tables
begin

text \<open>
  What a GitLab webhook says, \<open>runtime/ingress.go\<close>: lifecycle trailers of commit messages, labels of
  issues, which events a behavior takes, the payloads an envelope stands for, and the identities that
  make deliveries, executions and actions the same. \<open>sha\<close> is the hexadecimal SHA-256 of a text. The
  helpers of the package that differ from those of \<open>flow/nodes.go\<close> carry the prefix \<open>rt\<close>.
\<close>

section \<open>Helpers of the package\<close>

definition rt_stringValue :: "gval \<Rightarrow> string" where
  "rt_stringValue v = trim_space (stringValue v)"

fun rt_intValue :: "gval \<Rightarrow> int" where
  "rt_intValue (VInt k i) = (if k = KInt \<or> k = KInt64 then i else 0)"
| "rt_intValue (VFloat f) = float_to_int f"
| "rt_intValue (VNumber s) = fst (parse_int s)"
| "rt_intValue (VStr s) = atoi s"
| "rt_intValue _ = 0"

fun firstString :: "gval list \<Rightarrow> string" where
  "firstString [] = []"
| "firstString (v # vs) = (if rt_stringValue v \<noteq> [] then rt_stringValue v else firstString vs)"

fun firstNonEmpty :: "string list \<Rightarrow> string" where
  "firstNonEmpty [] = []"
| "firstNonEmpty (s # ss) = (if \<not> blank s then trim_space s else firstNonEmpty ss)"

definition objectValue :: "gval \<Rightarrow> gobj" where
  "objectValue v = (case as_obj v of None \<Rightarrow> [] | Some m \<Rightarrow> m)"

definition arrayValues :: "gval \<Rightarrow> gval list" where
  "arrayValues v = (case as_arr v of None \<Rightarrow> [] | Some vs \<Rightarrow> vs)"

definition attributes_of :: "gobj \<Rightarrow> gobj" where
  "attributes_of payload = objectValue (obj_get payload ''object_attributes'')"

definition isZeroSHA :: "string \<Rightarrow> bool" where
  "isZeroSHA s \<longleftrightarrow> list_all (\<lambda>c. c = CHR ''0'') (trim_space s)"

text \<open>\<open>utf8.RuneCountInString\<close> of valid text: the bytes that are no continuation bytes.\<close>

definition rune_count :: "string \<Rightarrow> nat" where
  "rune_count s = length (filter (\<lambda>c. let n = (of_char c :: nat) in \<not> (128 \<le> n \<and> n < 192)) s)"

definition line_breaks :: string where
  "line_breaks = [CHR 0x0D, CHR 0x0A]"

text \<open>\<open>json.Unmarshal\<close> with its error dropped: a number out of range is left nil.\<close>

fun lenient_unmarshal :: "gval \<Rightarrow> gval" where
  "lenient_unmarshal (VNumber s) = (let (f, ok) = parse_float s in if ok then VFloat f else VNil)"
| "lenient_unmarshal (VArr vs) = VArr (map lenient_unmarshal vs)"
| "lenient_unmarshal (VObj m) = VObj (map (\<lambda>kv. (fst kv, lenient_unmarshal (snd kv))) m)"
| "lenient_unmarshal v = v"

definition cloneMap :: "gobj \<Rightarrow> gobj" where
  "cloneMap m = (case json_marshal (VObj m) of None \<Rightarrow> [] | Some d \<Rightarrow> objectValue (lenient_unmarshal d))"

definition rt_description_line :: "(string, string) gomap \<Rightarrow> string \<Rightarrow> (string, string) gomap" where
  "rt_description_line result line =
     (let (key, val, ok) = str_cut (CHR '':'') (trim_space line)
      in if ok then AList.update (to_lower (trim_space key)) (trim_space val) result else result)"

definition rt_parseDescriptionFields :: "string \<Rightarrow> (string, string) gomap" where
  "rt_parseDescriptionFields description = foldl rt_description_line [] (split_on (CHR 0x0A) description)"

definition field_of :: "(string, string) gomap \<Rightarrow> string \<Rightarrow> string" where
  "field_of flds k = (case map_of flds k of None \<Rightarrow> [] | Some s \<Rightarrow> s)"

section \<open>Trailers of commit messages\<close>

record lifecycle_trailer =
  tr_event :: string
  tr_status :: string
  tr_change :: string
  tr_reason :: string

definition no_trailer :: lifecycle_trailer where
  "no_trailer = \<lparr>tr_event = [], tr_status = [], tr_change = [], tr_reason = []\<rparr>"

definition maxLifecycleReasonRunes :: nat where "maxLifecycleReasonRunes = 1000"

definition trailer_line :: "lifecycle_trailer \<Rightarrow> string \<Rightarrow> lifecycle_trailer" where
  "trailer_line t0 raw =
     (let line = trim_space raw;
          t1 = (case cut_prefix line ''SpecWire-Event:'' of None \<Rightarrow> t0 | Some v \<Rightarrow> t0\<lparr>tr_event := trim_space v\<rparr>);
          t2 = (case cut_prefix line ''SpecWire-Status:'' of None \<Rightarrow> t1 | Some v \<Rightarrow> t1\<lparr>tr_status := trim_space v\<rparr>);
          t3 = (case cut_prefix line ''SpecWire-Change:'' of None \<Rightarrow> t2 | Some v \<Rightarrow> t2\<lparr>tr_change := trim_space v\<rparr>)
      in case cut_prefix line ''SpecWire-Reason:'' of None \<Rightarrow> t3 | Some v \<Rightarrow> t3\<lparr>tr_reason := trim_space v\<rparr>)"

definition bad_reason :: "string \<Rightarrow> bool" where
  "bad_reason reason \<longleftrightarrow> contains_any reason line_breaks \<or> rune_count reason > maxLifecycleReasonRunes"

definition parseLifecycleTrailer :: "string \<Rightarrow> lifecycle_trailer option" where
  "parseLifecycleTrailer message =
     (let t = foldl trailer_line no_trailer (split_on (CHR 0x0A) message)
      in if tr_event t \<noteq> ''archived'' \<and> tr_event t \<noteq> ''abandoned'' \<or> tr_change t = [] then None
         else if tr_status t \<noteq> [] \<and> tr_status t \<noteq> tr_event t then None
         else if tr_event t = ''abandoned'' \<and>
                 (tr_status t \<noteq> ''abandoned'' \<or> tr_reason t = [] \<or> bad_reason (tr_reason t)) then None
         else Some t)"

definition commitMessages :: "gobj \<Rightarrow> string list" where
  "commitMessages payload =
     rt_stringValue (obj_get (objectValue (obj_get payload ''head_commit'')) ''message'') #
     map (\<lambda>c. rt_stringValue (obj_get (objectValue c) ''message'')) (arrayValues (obj_get payload ''commits''))"

definition trailer_key :: "lifecycle_trailer \<Rightarrow> string" where
  "trailer_key t = tr_event t @ '':'' @ tr_change t"

text \<open>The messages from the last to the first; of trailers with one key the first seen counts.\<close>

fun collect_trailers :: "string list \<Rightarrow> string list \<Rightarrow> lifecycle_trailer list" where
  "collect_trailers seen [] = []"
| "collect_trailers seen (m # ms) =
     (case parseLifecycleTrailer m of
        None \<Rightarrow> collect_trailers seen ms
      | Some t \<Rightarrow>
          if trailer_key t \<in> set seen then collect_trailers seen ms
          else t # collect_trailers (trailer_key t # seen) ms)"

definition lifecycleTrailers :: "gobj \<Rightarrow> lifecycle_trailer list" where
  "lifecycleTrailers payload = collect_trailers [] (rev (commitMessages payload))"

definition main_push :: "gobj \<Rightarrow> bool" where
  "main_push payload \<longleftrightarrow>
     rt_stringValue (obj_get payload ''ref'') = main_ref \<and> \<not> isZeroSHA (rt_stringValue (obj_get payload ''after''))"

definition archivedLifecycleTrailers :: "gobj \<Rightarrow> lifecycle_trailer list" where
  "archivedLifecycleTrailers payload =
     (if \<not> main_push payload then []
      else filter (\<lambda>t. tr_event t = ''archived'') (lifecycleTrailers payload))"

definition lifecycleTrailerForPayload :: "gobj \<Rightarrow> lifecycle_trailer option" where
  "lifecycleTrailerForPayload payload =
     (case archivedLifecycleTrailers payload of [] \<Rightarrow> None | t # _ \<Rightarrow> Some t)"

definition hasArchivedLifecycleTrailer :: "gobj \<Rightarrow> bool" where
  "hasArchivedLifecycleTrailer payload \<longleftrightarrow> list_ex (\<lambda>t. tr_event t = ''archived'') (lifecycleTrailers payload)"

section \<open>Events\<close>

record gitlab_envelope =
  en_event :: string
  en_delivery :: string
  en_timestamp :: string
  en_signature :: string
  en_instance :: ID
  en_project :: string
  en_path :: string
  en_payload :: gobj
  en_body :: string

abbreviation issue_event :: string where "issue_event \<equiv> ''Issue Hook''"
abbreviation push_event :: string where "push_event \<equiv> ''Push Hook''"
abbreviation abandonLabel :: string where "abandonLabel \<equiv> ''specwire::abandoned''"

definition hasIssueLabel :: "gval \<Rightarrow> string \<Rightarrow> bool" where
  "hasIssueLabel v wanted \<longleftrightarrow>
     list_ex (\<lambda>item. rt_stringValue (obj_get (objectValue item) ''title'') = wanted \<or>
                     rt_stringValue (obj_get (objectValue item) ''name'') = wanted) (arrayValues v)"

definition issueChangeID :: "gobj \<Rightarrow> string" where
  "issueChangeID payload =
     firstNonEmpty [field_of (rt_parseDescriptionFields (rt_stringValue (obj_get (attributes_of payload) ''description'')))
                      ''change_id'',
                    rt_stringValue (obj_get payload ''change_id'')]"

definition issueAbandonReason :: "gobj \<Rightarrow> string" where
  "issueAbandonReason payload =
     (let flds = rt_parseDescriptionFields (rt_stringValue (obj_get (attributes_of payload) ''description''));
          reason = trim_space (firstNonEmpty
            [rt_stringValue (obj_get payload ''lifecycle_reason''), field_of flds ''specwire_reason'',
             field_of flds ''specwire-reason'', field_of flds ''abandon_reason'', field_of flds ''abandon-reason'',
             field_of flds ''reason'', abandoned_reason])
      in if bad_reason reason then abandoned_reason else reason)"

definition matchesPublicationIssue :: "gitlab_envelope \<Rightarrow> bool" where
  "matchesPublicationIssue env \<longleftrightarrow>
     en_event env = issue_event \<and> rt_stringValue (obj_get (en_payload env) ''object_kind'') = ''issue'' \<and>
     rt_stringValue (obj_get (attributes_of (en_payload env)) ''action'') = ''open'' \<and>
     hasIssueLabel (obj_get (attributes_of (en_payload env)) ''labels'') ''change''"

definition matchesArchivePush :: "gitlab_envelope \<Rightarrow> bool" where
  "matchesArchivePush env \<longleftrightarrow>
     en_event env = push_event \<and> main_push (en_payload env) \<and> hasArchivedLifecycleTrailer (en_payload env)"

text \<open>An abandonment is the moment the label is added, not its presence.\<close>

definition matchesAbandonIssue :: "gitlab_envelope \<Rightarrow> bool" where
  "matchesAbandonIssue env \<longleftrightarrow>
     en_event env = issue_event \<and> rt_stringValue (obj_get (en_payload env) ''object_kind'') = ''issue'' \<and>
     rt_stringValue (obj_get (attributes_of (en_payload env)) ''action'') = ''update'' \<and>
     issueChangeID (en_payload env) \<noteq> [] \<and>
     hasIssueLabel (obj_get (attributes_of (en_payload env)) ''labels'') abandonLabel \<and>
     (case as_obj (obj_get (en_payload env) ''changes'') of
        None \<Rightarrow> False
      | Some changes \<Rightarrow>
          (case as_obj (obj_get changes ''labels'') of
             None \<Rightarrow> False
           | Some labels \<Rightarrow> hasIssueLabel (obj_get labels ''current'') abandonLabel \<and>
               \<not> hasIssueLabel (obj_get labels ''previous'') abandonLabel))"

definition matchesBehavior :: "gitlab_envelope \<Rightarrow> string \<Rightarrow> bool" where
  "matchesBehavior env behaviorKey \<longleftrightarrow>
     (let key = to_lower (trim_space behaviorKey) in
      if key = ''gitlab.issue-abandon-hook'' then matchesAbandonIssue env
      else if key = ''gitlab.issue-hook'' then matchesPublicationIssue env
      else if key = ''gitlab.push-hook'' then matchesArchivePush env
      else if str_contains key ''issue'' then matchesPublicationIssue env
      else if str_contains key ''push'' \<or> str_contains key ''archive'' then matchesArchivePush env
      else False)"

definition matchesEventFilter :: "gobj \<Rightarrow> gobj \<Rightarrow> bool" where
  "matchesEventFilter payload raw \<longleftrightarrow>
     (if raw = [] then True
      else case decode_filter_value (VObj raw) of
             Inl _ \<Rightarrow> False
           | Inr f \<Rightarrow> (case EvaluateFilter payload f of Inl _ \<Rightarrow> False | Inr matched \<Rightarrow> matched))"

section \<open>Payloads of an envelope\<close>

definition abandon_payload :: "gitlab_envelope \<Rightarrow> gobj" where
  "abandon_payload env =
     (let payload = en_payload env; attributes = attributes_of payload;
          p1 = obj_set (cloneMap payload) ''change_id'' (VStr (issueChangeID payload));
          p2 = obj_set p1 ''source_project'' (VStr (en_path env));
          p3 = obj_set p2 ''target_ref'' (VStr main_ref);
          p4 = obj_set p3 ''provider_delivery_id'' (VStr (en_delivery env));
          p5 = obj_set p4 ''lifecycle_event'' (VStr ''abandoned'');
          p6 = obj_set p5 ''lifecycle_reason'' (VStr (issueAbandonReason payload));
          iid = rt_intValue (obj_get attributes ''iid'');
          p7 = (if iid \<noteq> 0 then obj_set p6 ''issue_iid'' (VInt KInt iid) else p6);
          url = firstNonEmpty [rt_stringValue (obj_get attributes ''url''), rt_stringValue (obj_get attributes ''web_url'')]
      in if url \<noteq> [] then obj_set p7 ''issue_url'' (VStr url) else p7)"

definition archive_payload :: "gitlab_envelope \<Rightarrow> lifecycle_trailer \<Rightarrow> gobj" where
  "archive_payload env t =
     (let p1 = obj_set (cloneMap (en_payload env)) ''change_id'' (VStr (tr_change t));
          p2 = obj_set p1 ''provider_delivery_id'' (VStr (en_delivery env));
          p3 = obj_set p2 ''lifecycle_event'' (VStr (tr_event t))
      in if tr_reason t \<noteq> [] then obj_set p3 ''lifecycle_reason'' (VStr (tr_reason t)) else p3)"

definition eventPayloads :: "gitlab_envelope \<Rightarrow> gobj list" where
  "eventPayloads env =
     (if en_event env = issue_event \<and> matchesAbandonIssue env then [abandon_payload env]
      else if en_event env \<noteq> push_event then [cloneMap (en_payload env)]
      else map (archive_payload env) (archivedLifecycleTrailers (en_payload env)))"

section \<open>Identities\<close>

definition publicationField :: "gobj \<Rightarrow> string \<Rightarrow> string" where
  "publicationField payload k =
     trim_space (field_of (rt_parseDescriptionFields
       (rt_stringValue (obj_get (attributes_of payload) ''description''))) k)"

definition payload_lifecycle :: "gobj \<Rightarrow> string" where
  "payload_lifecycle payload =
     (let e = rt_stringValue (obj_get payload ''lifecycle_event'')
      in firstNonEmpty [if e \<noteq> [] then e
           else (case lifecycleTrailerForPayload payload of None \<Rightarrow> [] | Some t \<Rightarrow> tr_event t), ''archived''])"

definition actionIdentity :: "string \<Rightarrow> string \<Rightarrow> gobj \<Rightarrow> string" where
  "actionIdentity eventName delivery payload =
     (let change = firstString [obj_get payload ''change_id'', VStr (publicationField payload ''change_id'')]
      in if change \<noteq> [] then
           (if rt_stringValue (obj_get payload ''lifecycle_event'') = ''abandoned''
            then ''lifecycle:abandoned:'' @ change
            else if eventName = push_event then ''lifecycle:'' @ payload_lifecycle payload @ '':'' @ change
            else ''publication:'' @ change @ '':'' @
              firstString [obj_get payload ''branch_head_sha'', VStr (publicationField payload ''branch_head_sha'')])
         else ''delivery:'' @ delivery)"

definition actionDeliveryID :: "gitlab_envelope \<Rightarrow> gobj \<Rightarrow> string" where
  "actionDeliveryID env payload =
     (let change = rt_stringValue (obj_get payload ''change_id'')
      in if en_event env = issue_event \<and> rt_stringValue (obj_get payload ''lifecycle_event'') = ''abandoned'' \<and>
            change \<noteq> []
         then en_delivery env @ '':abandoned:'' @ change
         else if en_event env = push_event \<and> change \<noteq> []
         then en_delivery env @ '':'' @ payload_lifecycle payload @ '':'' @ change
         else en_delivery env)"

text \<open>Every part is written with its length, so that no two lists of parts give one text.\<close>

definition digest_part :: "string \<Rightarrow> string" where
  "digest_part s = dec_nat (length s) @ '':'' @ s"

definition digest :: "(string \<Rightarrow> string) \<Rightarrow> string list \<Rightarrow> string" where
  "digest sha parts = sha (concat (map digest_part parts))"

section \<open>Trailers are well formed and counted once\<close>

definition trimmed :: "string \<Rightarrow> bool" where
  "trimmed s \<longleftrightarrow> trim_space s = s"

definition trimmed_trailer :: "lifecycle_trailer \<Rightarrow> bool" where
  "trimmed_trailer t \<longleftrightarrow>
     trimmed (tr_event t) \<and> trimmed (tr_status t) \<and> trimmed (tr_change t) \<and> trimmed (tr_reason t)"

lemma trimmed_trim [simp]: "trimmed (trim_space s)"
  by (simp add: trimmed_def)

lemma trimmed_trailer_line: "trimmed_trailer t \<Longrightarrow> trimmed_trailer (trailer_line t raw)"
  by (simp add: trimmed_trailer_def trailer_line_def Let_def split: option.split)

lemma trimmed_trailers: "trimmed_trailer t \<Longrightarrow> trimmed_trailer (foldl trailer_line t ls)"
  by (induction ls arbitrary: t) (auto simp: trimmed_trailer_line)

lemma parseLifecycleTrailer_D:
  assumes "parseLifecycleTrailer message = Some t"
  shows "trimmed_trailer t" "tr_change t \<noteq> []" "tr_event t \<in> {''archived'', ''abandoned''}"
    "tr_status t \<in> {[], tr_event t}" "tr_event t = ''abandoned'' \<Longrightarrow> tr_reason t \<noteq> [] \<and> \<not> bad_reason (tr_reason t)"
proof -
  have t: "t = foldl trailer_line no_trailer (split_on (CHR 0x0A) message)"
    using assms by (auto simp: parseLifecycleTrailer_def Let_def split: if_splits)
  have "trimmed_trailer no_trailer" by (simp add: trimmed_trailer_def no_trailer_def trimmed_def)
  then show "trimmed_trailer t" unfolding t by (rule trimmed_trailers)
  show "tr_change t \<noteq> []" "tr_event t \<in> {''archived'', ''abandoned''}" "tr_status t \<in> {[], tr_event t}"
    "tr_event t = ''abandoned'' \<Longrightarrow> tr_reason t \<noteq> [] \<and> \<not> bad_reason (tr_reason t)"
    using assms unfolding parseLifecycleTrailer_def Let_def t [symmetric] by (auto split: if_splits)
qed

lemma collect_trailers_D:
  "t \<in> set (collect_trailers seen ms) \<Longrightarrow> (\<exists>m \<in> set ms. parseLifecycleTrailer m = Some t) \<and> trailer_key t \<notin> set seen"
  by (induction seen ms rule: collect_trailers.induct) (auto split: option.splits if_splits)

lemma collect_trailers_distinct: "distinct (map trailer_key (collect_trailers seen ms))"
proof (induction seen ms rule: collect_trailers.induct)
  case (2 seen m ms)
  show ?case
  proof (cases "parseLifecycleTrailer m")
    case (Some t)
    then show ?thesis using 2 collect_trailers_D [of _ "trailer_key t # seen" ms] by fastforce
  qed (simp add: 2)
qed simp

lemma archived_trailer_D:
  "t \<in> set (archivedLifecycleTrailers payload) \<Longrightarrow>
     tr_event t = ''archived'' \<and> tr_change t \<noteq> [] \<and> trimmed_trailer t"
proof -
  assume "t \<in> set (archivedLifecycleTrailers payload)"
  then have "t \<in> set (lifecycleTrailers payload)" "tr_event t = ''archived''"
    by (auto simp: archivedLifecycleTrailers_def split: if_splits)
  then obtain m where "parseLifecycleTrailer m = Some t"
    using collect_trailers_D by (fastforce simp: lifecycleTrailers_def)
  then show ?thesis using parseLifecycleTrailer_D \<open>tr_event t = ''archived''\<close> by blast
qed

lemma archived_changes_distinct: "distinct (map tr_change (archivedLifecycleTrailers payload))"
proof -
  have d: "distinct (map trailer_key (archivedLifecycleTrailers payload))"
    using collect_trailers_distinct [of "[]" "rev (commitMessages payload)"]
    by (auto simp: archivedLifecycleTrailers_def lifecycleTrailers_def distinct_map_filter)
  have "map trailer_key (archivedLifecycleTrailers payload) =
      map (\<lambda>c. ''archived:'' @ c) (map tr_change (archivedLifecycleTrailers payload))"
    using archived_trailer_D by (simp add: trailer_key_def)
  then show ?thesis using d by (metis distinct_map)
qed

section \<open>Archived changes\<close>

lemma rt_stringValue_trimmed [simp]: "trimmed s \<Longrightarrow> rt_stringValue (VStr s) = s"
  by (simp add: rt_stringValue_def trimmed_def)

lemma trimmed_Nil_iff: "trimmed s \<Longrightarrow> blank s \<longleftrightarrow> s = []"
  by (auto simp: trimmed_def)

lemma archive_payload_fields:
  assumes "t \<in> set (archivedLifecycleTrailers (en_payload env))"
  shows "rt_stringValue (obj_get (archive_payload env t) ''change_id'') = tr_change t"
    "rt_stringValue (obj_get (archive_payload env t) ''lifecycle_event'') = ''archived''"
proof -
  have "trimmed ''archived''" unfolding trimmed_def by code_simp
  then show "rt_stringValue (obj_get (archive_payload env t) ''lifecycle_event'') = ''archived''"
    using archived_trailer_D [OF assms] by (simp add: archive_payload_def Let_def)
  show "rt_stringValue (obj_get (archive_payload env t) ''change_id'') = tr_change t"
    using archived_trailer_D [OF assms] by (simp add: archive_payload_def Let_def trimmed_trailer_def)
qed

lemma archived_text: "firstNonEmpty [''archived'', ''archived''] = ''archived''"
  by code_simp

lemma archive_identities:
  assumes "t \<in> set (archivedLifecycleTrailers (en_payload env))" "en_event env = push_event"
  shows "actionIdentity push_event delivery (archive_payload env t) = ''lifecycle:archived:'' @ tr_change t"
    "actionDeliveryID env (archive_payload env t) = en_delivery env @ '':archived:'' @ tr_change t"
proof -
  note f = archive_payload_fields [OF assms(1)]
  have c: "tr_change t \<noteq> []" using archived_trailer_D [OF assms(1)] by blast
  have l: "payload_lifecycle (archive_payload env t) = ''archived''"
    unfolding payload_lifecycle_def Let_def f(2) using archived_text by (simp del: firstNonEmpty.simps)
  show "actionIdentity push_event delivery (archive_payload env t) = ''lifecycle:archived:'' @ tr_change t"
    using c f l by (simp add: actionIdentity_def Let_def)
  show "actionDeliveryID env (archive_payload env t) = en_delivery env @ '':archived:'' @ tr_change t"
    using c f l assms(2) by (simp add: actionDeliveryID_def Let_def)
qed

text \<open>What the commits of a payload say, read off the payload itself.\<close>

definition says_archived :: "gval \<Rightarrow> string \<Rightarrow> bool" where
  "says_archived commit change \<longleftrightarrow>
     (\<exists>t. parseLifecycleTrailer (rt_stringValue (obj_get (objectValue commit) ''message'')) = Some t \<and>
          tr_event t = ''archived'' \<and> tr_change t = change)"

lemma collect_trailers_complete:
  assumes "m \<in> set ms" "parseLifecycleTrailer m = Some t"
  shows "trailer_key t \<in> set seen \<or> (\<exists>t' \<in> set (collect_trailers seen ms). trailer_key t' = trailer_key t)"
  using assms(1)
proof (induction seen ms rule: collect_trailers.induct)
  case (2 seen m' ms)
  then show ?case using assms(2) by (auto split: option.splits)
qed simp

lemma archived_trailers_of:
  assumes "main_push payload"
  shows "tr_change ` set (archivedLifecycleTrailers payload) =
    {c. \<exists>m \<in> set (commitMessages payload). \<exists>t. parseLifecycleTrailer m = Some t \<and> tr_event t = ''archived'' \<and> tr_change t = c}"
    (is "?l = ?r")
proof (intro set_eqI iffI)
  fix c assume "c \<in> ?l"
  then obtain t where t: "t \<in> set (collect_trailers [] (rev (commitMessages payload)))" "tr_event t = ''archived''" "tr_change t = c"
    using assms by (auto simp: archivedLifecycleTrailers_def lifecycleTrailers_def)
  then show "c \<in> ?r" using collect_trailers_D [OF t(1)] by auto
next
  fix c assume "c \<in> ?r"
  then obtain m t where m: "m \<in> set (rev (commitMessages payload))" "parseLifecycleTrailer m = Some t"
      and t: "tr_event t = ''archived''" "tr_change t = c" by auto
  then obtain t' where t': "t' \<in> set (lifecycleTrailers payload)" "trailer_key t' = trailer_key t"
    using collect_trailers_complete [OF m, of "[]"] by (auto simp: lifecycleTrailers_def)
  then obtain m' where "parseLifecycleTrailer m' = Some t'"
    using collect_trailers_D by (fastforce simp: lifecycleTrailers_def)
  then have "tr_event t' \<in> {''archived'', ''abandoned''}" by (rule parseLifecycleTrailer_D)
  then have "tr_event t' = ''archived'' \<and> tr_change t' = c" using t'(2) t by (auto simp: trailer_key_def)
  then show "c \<in> ?l" using t'(1) assms by (force simp: archivedLifecycleTrailers_def)
qed

lemma commitMessages_say:
  "(\<exists>m \<in> set (commitMessages payload). \<exists>t. parseLifecycleTrailer m = Some t \<and> tr_event t = ''archived'' \<and> tr_change t = c) \<longleftrightarrow>
   (\<exists>commit \<in> insert (obj_get payload ''head_commit'') (set (arrayValues (obj_get payload ''commits''))). says_archived commit c)"
  by (simp add: commitMessages_def says_archived_def)

text \<open>
  C34: a push to the main branch is split into one delivery per archived change: a change has a payload
  of its own exactly if the message of the head commit or of some commit of the push, wherever it stands
  among them, carries the trailer that archives it; a push elsewhere yields none. The payloads name the
  change, no change has two, their delivery identifiers differ, and the identity of each action names
  the change and not the push, so that a later push archiving the same change is the same action.
\<close>

theorem archive_push_splits:
  assumes "en_event env = push_event"
  shows "let payloads = eventPayloads env; changes = map (\<lambda>p. rt_stringValue (obj_get p ''change_id'')) payloads
    in set changes = {c. main_push (en_payload env) \<and>
         (\<exists>commit \<in> insert (obj_get (en_payload env) ''head_commit'') (set (arrayValues (obj_get (en_payload env) ''commits''))).
            says_archived commit c)} \<and>
       distinct changes \<and> distinct (map (actionDeliveryID env) payloads) \<and>
       map (actionIdentity (en_event env) (en_delivery env)) payloads = map (\<lambda>c. ''lifecycle:archived:'' @ c) changes"
proof -
  let ?ts = "archivedLifecycleTrailers (en_payload env)"
  have p: "eventPayloads env = map (archive_payload env) ?ts" using assms by (simp add: eventPayloads_def)
  have c: "map (\<lambda>p. rt_stringValue (obj_get p ''change_id'')) (eventPayloads env) = map tr_change ?ts"
    unfolding p using archive_payload_fields(1) by simp
  have "set (map tr_change ?ts) = {c. main_push (en_payload env) \<and>
      (\<exists>m \<in> set (commitMessages (en_payload env)). \<exists>t. parseLifecycleTrailer m = Some t \<and> tr_event t = ''archived'' \<and> tr_change t = c)}"
    using archived_trailers_of [of "en_payload env"]
    by (cases "main_push (en_payload env)") (simp_all add: archivedLifecycleTrailers_def)
  moreover have "map (actionDeliveryID env) (eventPayloads env) = map (\<lambda>t. en_delivery env @ '':archived:'' @ tr_change t) ?ts"
    unfolding p using archive_identities(2) [OF _ assms] by simp
  moreover have "distinct (map (\<lambda>t. en_delivery env @ '':archived:'' @ tr_change t) ?ts)"
    using archived_changes_distinct [of "en_payload env"] by (auto simp: distinct_map inj_on_def)
  moreover have "map (actionIdentity (en_event env) (en_delivery env)) (eventPayloads env) =
      map (\<lambda>t. ''lifecycle:archived:'' @ tr_change t) ?ts"
    unfolding p using archive_identities(1) [OF _ assms] assms by simp
  ultimately show ?thesis unfolding Let_def c commitMessages_say [symmetric]
    using archived_changes_distinct by (simp add: comp_def)
qed

definition sample_commit :: "string \<Rightarrow> gval" where
  "sample_commit change = VObj [(''message'', VStr (''archive'' @ [CHR 0x0A] @ ''SpecWire-Event: archived'' @ [CHR 0x0A] @
     ''SpecWire-Change: '' @ change))]"

definition sample_push :: gitlab_envelope where
  "sample_push = \<lparr>en_event = push_event, en_delivery = ''d1'', en_timestamp = ''1700000000'', en_signature = [],
     en_instance = ''g'', en_project = ''7'', en_path = ''a/b'',
     en_payload = [(''ref'', VStr main_ref), (''after'', VStr ''ab''),
       (''commits'', VArr [sample_commit ''c1'', sample_commit ''c2'', sample_commit ''c1''])], en_body = []\<rparr>"

lemma sample_push_changes: "map tr_change (archivedLifecycleTrailers (en_payload sample_push)) = [''c1'', ''c2'']"
  by code_simp

lemma sample_push_ids: "map (\<lambda>p. rt_stringValue (obj_get p ''change_id'')) (eventPayloads sample_push) = [''c1'', ''c2'']"
proof -
  have "eventPayloads sample_push = map (archive_payload sample_push) (archivedLifecycleTrailers (en_payload sample_push))"
    by (simp add: eventPayloads_def sample_push_def)
  then have "map (\<lambda>p. rt_stringValue (obj_get p ''change_id'')) (eventPayloads sample_push) =
      map tr_change (archivedLifecycleTrailers (en_payload sample_push))"
    using archive_payload_fields(1) by simp
  then show ?thesis using sample_push_changes by simp
qed

theorem archive_push_splits_witness:
  "map (actionIdentity (en_event sample_push) (en_delivery sample_push)) (eventPayloads sample_push) =
     [''lifecycle:archived:c1'', ''lifecycle:archived:c2'']"
proof -
  have "en_event sample_push = push_event" by (simp add: sample_push_def)
  from archive_push_splits [OF this]
  show ?thesis unfolding Let_def sample_push_ids by simp
qed

section \<open>Digests\<close>

lemma digit_no_colon: "CHR '':'' \<notin> set (dec_nat n)"
  using dec_nat_digits [of "CHR '':''" n] by (auto simp: is_digit_def)

lemma digest_parts_inject:
  "concat (map digest_part xs) = concat (map digest_part ys) \<Longrightarrow> xs = ys"
proof (induction xs arbitrary: ys)
  case Nil
  then show ?case by (cases ys) (auto simp: digest_part_def)
next
  case (Cons x xs)
  then obtain y ys' where ys: "ys = y # ys'" by (cases ys) (auto simp: digest_part_def)
  then have "dec_nat (length x) @ CHR '':'' # (x @ concat (map digest_part xs)) =
      dec_nat (length y) @ CHR '':'' # (y @ concat (map digest_part ys'))"
    using Cons.prems by (simp add: digest_part_def [of x] digest_part_def [of y])
  from append_sep_inject [OF digit_no_colon digit_no_colon this]
  have "length x = length y" "x @ concat (map digest_part xs) = y @ concat (map digest_part ys')" by auto
  then show ?case using Cons.IH ys by auto
qed

lemma digest_inject: "inj sha \<Longrightarrow> digest sha xs = digest sha ys \<longleftrightarrow> xs = ys"
  unfolding digest_def by (auto dest: digest_parts_inject injD)

end
