(* ===== verification/Signature.thy ===== *)
theory Signature
  imports GoStrings "HOL-Library.Word"
begin

text \<open>
  The signature of a webhook delivery, \<open>verifySignature\<close> of \<open>runtime/ingress.go\<close>, with what it
  uses of \<open>strings.Fields\<close>, \<open>encoding/base64\<close>, \<open>encoding/hex\<close> and \<open>crypto/hmac\<close>. SHA-256 is the
  parameter \<open>sha256\<close>, from bytes to bytes. Instants are nanoseconds since the zero time of Go.
\<close>

section \<open>Fields\<close>

fun word_of :: "string \<Rightarrow> string" where
  "word_of [] = []"
| "word_of (c # cs) = (if strip_one space_seqs (c # cs) \<noteq> None then [] else c # word_of cs)"

lemma word_of_length: "length (word_of s) \<le> length s"
  by (induction s) auto

lemma trim_left_length: "length (trim_left s) \<le> length s"
  by (metis strip_all_suffix trim_left_def length_append le_add2)

function str_fields :: "string \<Rightarrow> string list" where
  "str_fields s =
     (let t = trim_left s; w = word_of t
      in if w = [] then [] else w # str_fields (drop (length w) t))"
  by pat_completeness auto
termination str_fields
proof (relation "measure length")
  fix s :: string and t w
  assume t: "t = trim_left s" and "w = word_of t" "w \<noteq> []"
  then have "0 < length w" "length w \<le> length t" using word_of_length by auto
  then have "length (drop (length w) t) < length s"
    using trim_left_length [of s] t by (simp only: length_drop)
  then show "(drop (length w) t, s) \<in> measure length" by simp
qed simp

declare str_fields.simps [simp del]

section \<open>Base64 and hexadecimal\<close>

definition b64_alphabet :: string where
  "b64_alphabet = ''ABCDEFGHIJKLMNOPQRSTUVWXYZabcdefghijklmnopqrstuvwxyz0123456789+/''"

definition b64_char :: "nat \<Rightarrow> char" where
  "b64_char n = b64_alphabet ! n"

definition b64_value :: "char \<Rightarrow> nat option" where
  "b64_value c = List.find (\<lambda>n. b64_char n = c) [0..<64]"

abbreviation byte_value :: "char \<Rightarrow> nat" where "byte_value \<equiv> of_char"

fun b64_encode :: "string \<Rightarrow> string" where
  "b64_encode [] = []"
| "b64_encode [a] =
     [b64_char (byte_value a div 4), b64_char (byte_value a mod 4 * 16), CHR ''='', CHR ''='']"
| "b64_encode [a, b] =
     [b64_char (byte_value a div 4), b64_char (byte_value a mod 4 * 16 + byte_value b div 16),
      b64_char (byte_value b mod 16 * 4), CHR ''='']"
| "b64_encode (a # b # c # rest) =
     b64_char (byte_value a div 4) # b64_char (byte_value a mod 4 * 16 + byte_value b div 16) #
     b64_char (byte_value b mod 16 * 4 + byte_value c div 64) # b64_char (byte_value c mod 64) # b64_encode rest"

text \<open>Decoding skips line breaks and ignores the unused bits of a padded quantum.\<close>

fun b64_quanta :: "string \<Rightarrow> string option" where
  "b64_quanta [] = Some []"
| "b64_quanta (c1 # c2 # c3 # c4 # rest) =
     (case (b64_value c1, b64_value c2) of
        (Some a, Some b) \<Rightarrow>
          (if c3 = CHR ''='' then
             (if c4 = CHR ''='' \<and> rest = [] then Some [char_of (a * 4 + b div 16)] else None)
           else case b64_value c3 of
             None \<Rightarrow> None
           | Some c \<Rightarrow>
               if c4 = CHR ''='' then
                 (if rest = [] then Some [char_of (a * 4 + b div 16), char_of (b mod 16 * 16 + c div 4)] else None)
               else (case b64_value c4 of
                 None \<Rightarrow> None
               | Some d \<Rightarrow> map_option
                   (\<lambda>bytes. char_of (a * 4 + b div 16) # char_of (b mod 16 * 16 + c div 4) # char_of (c mod 4 * 64 + d) # bytes)
                   (b64_quanta rest)))
      | _ \<Rightarrow> None)"
| "b64_quanta _ = None"

definition b64_decode :: "string \<Rightarrow> string option" where
  "b64_decode s = b64_quanta (filter (\<lambda>c. c \<noteq> CHR 0x0A \<and> c \<noteq> CHR 0x0D) s)"

definition hex_encode :: "string \<Rightarrow> string" where
  "hex_encode s = concat (map (\<lambda>c. [hex_char (byte_value c div 16), hex_char (byte_value c mod 16)]) s)"

section \<open>HMAC\<close>

definition xor_byte :: "nat \<Rightarrow> char \<Rightarrow> char" where
  "xor_byte n c = char_of (semiring_bit_operations_class.xor n (byte_value c))"

definition hmac :: "(string \<Rightarrow> string) \<Rightarrow> string \<Rightarrow> string \<Rightarrow> string" where
  "hmac sha256 key message =
     (let k = (if length key > 64 then sha256 key else key);
          block = k @ replicate (64 - length k) (CHR 0x00)
      in sha256 (map (xor_byte 0x5C) block @ sha256 (map (xor_byte 0x36) block @ message)))"

section \<open>The check\<close>

text \<open>\<open>time.Unix\<close> counts in 64 bits; \<open>time.Sub\<close> stops at the bounds of a duration.\<close>

definition unix_time :: "int \<Rightarrow> int" where
  "unix_time seconds = sint (word_of_int (seconds + 62135596800) :: 64 word) * 1000000000"

definition duration_between :: "int \<Rightarrow> int \<Rightarrow> int" where
  "duration_between t u = max (- (2 ^ 63)) (min (2 ^ 63 - 1) (t - u))"

definition in_window :: "int \<Rightarrow> int \<Rightarrow> string \<Rightarrow> bool" where
  "in_window now maxAge timestamp \<longleftrightarrow>
     (let (seconds, ok) = parse_int timestamp; age = duration_between now (unix_time seconds)
      in ok \<and> 0 < maxAge \<and> age \<le> maxAge \<and> - maxAge \<le> age)"

definition signing_key :: "string \<Rightarrow> string option" where
  "signing_key secret =
     (if has_prefix secret ''whsec_'' then b64_decode (trim_prefix secret ''whsec_'') else Some secret)"

definition want_signature :: "(string \<Rightarrow> string) \<Rightarrow> string \<Rightarrow> string \<Rightarrow> string \<Rightarrow> string \<Rightarrow> string" where
  "want_signature sha256 key i timestamp body =
     ''v1,'' @ b64_encode (hmac sha256 key (i @ ''.'' @ timestamp @ ''.'' @ body))"

definition verifySignature ::
  "(string \<Rightarrow> string) \<Rightarrow> string \<Rightarrow> string \<Rightarrow> string \<Rightarrow> string \<Rightarrow> string \<Rightarrow> int \<Rightarrow> int \<Rightarrow> bool" where
  "verifySignature sha256 secret i timestamp signature body now maxAge =
     (if \<not> in_window now maxAge timestamp then False
      else case signing_key secret of
             None \<Rightarrow> False
           | Some key \<Rightarrow> list_ex (\<lambda>candidate. candidate = want_signature sha256 key i timestamp body) (str_fields signature))"

section \<open>Round trips\<close>

lemma b64_alphabet_all: "list_all (\<lambda>n. b64_value (b64_char n) = Some n \<and> b64_char n \<notin> {CHR ''='', CHR 0x0A, CHR 0x0D} \<and>
   strip_one space_seqs [b64_char n] = None) [0..<64]"
  by code_simp

lemma b64_char_value [simp]: "n < 64 \<Longrightarrow> b64_value (b64_char n) = Some n"
  using b64_alphabet_all by (auto simp: list_all_iff)

lemma b64_char_plain [simp]: "n < 64 \<Longrightarrow> b64_char n \<noteq> CHR ''=''" "n < 64 \<Longrightarrow> b64_char n \<noteq> CHR 0x0A"
  "n < 64 \<Longrightarrow> b64_char n \<noteq> CHR 0x0D"
  using b64_alphabet_all by (auto simp: list_all_iff)

lemma byte_bound: "(of_char c :: nat) < 256"
  by (metis mod_less_divisor of_char_mod_256 zero_less_numeral)

lemma byte_parts [simp]:
  "(of_char c :: nat) div 4 < 64" "(of_char c :: nat) mod 64 < 64" "(of_char c :: nat) mod 4 * 16 < 64"
  "(of_char c :: nat) mod 4 * 16 + (of_char d :: nat) div 16 < 64" "(of_char c :: nat) mod 16 * 4 < 64"
  "(of_char c :: nat) mod 16 * 4 + (of_char d :: nat) div 64 < 64"
  using byte_bound [of c] byte_bound [of d] by linarith+

lemma byte_divs [simp]: "(of_char c :: nat) div 16 < 16" "(of_char c :: nat) div 64 < 4" "(of_char c :: nat) div 4 < 64"
  using byte_bound [of c] by linarith+

lemma char_again: "n = (of_char c :: nat) \<Longrightarrow> char_of n = c"
  by simp

lemma quanta_encode: "b64_quanta (b64_encode s) = Some s"
proof (induction s rule: b64_encode.induct)
  case (2 a)
  show ?case using byte_bound [of a] by (simp add: char_again)
next
  case (3 a b)
  show ?case using byte_bound [of a] byte_bound [of b] by (simp add: char_again)
next
  case (4 a b c rest)
  then show ?case using byte_bound [of a] byte_bound [of b] byte_bound [of c] by (simp add: char_again)
qed simp

lemma b64_encode_plain: "c \<in> set (b64_encode s) \<Longrightarrow> c = CHR ''='' \<or> (\<exists>n < 64. c = b64_char n)"
proof (induction s rule: b64_encode.induct)
  case (4 a b d rest)
  then show ?case by (auto intro: byte_parts)
qed (auto intro: byte_parts)

lemma b64_roundtrip: "b64_decode (b64_encode s) = Some s"
proof -
  have "filter (\<lambda>c. c \<noteq> CHR 0x0A \<and> c \<noteq> CHR 0x0D) (b64_encode s) = b64_encode s"
    using b64_encode_plain [of "CHR 0x0A" s] b64_encode_plain [of "CHR 0x0D" s] b64_char_plain(2,3)
    by (fastforce simp: filter_id_conv)
  then show ?thesis by (simp add: b64_decode_def quanta_encode)
qed

text \<open>A text without a byte that starts white space is one field.\<close>

definition spaceless :: "string \<Rightarrow> bool" where
  "spaceless s \<longleftrightarrow> (\<forall>c \<in> set s. c \<notin> set (map hd space_seqs))"

lemma strip_one_other: "c \<notin> hd ` set ps \<Longrightarrow> [] \<notin> set ps \<Longrightarrow> strip_one ps (c # cs) = None"
  by (induction ps) (auto simp: prefix_Cons split: list.splits)

lemma strip_one_spaceless: "spaceless s \<Longrightarrow> strip_one space_seqs s = None"
proof (cases s)
  case Nil
  then show ?thesis by (simp add: space_seqs_def)
next
  case (Cons c cs)
  moreover assume "spaceless s"
  ultimately show ?thesis using space_seqs_nonempty by (auto simp: spaceless_def intro!: strip_one_other)
qed

lemma word_of_spaceless: "spaceless s \<Longrightarrow> word_of s = s"
proof (induction s)
  case (Cons c cs)
  have "strip_one space_seqs (c # cs) = None" using Cons.prems by (rule strip_one_spaceless)
  then show ?case using Cons by (simp add: spaceless_def)
qed simp

lemma str_fields_one:
  assumes "spaceless s" "s \<noteq> []"
  shows "str_fields s = [s]"
proof -
  have "trim_left s = s" using strip_one_spaceless [OF assms(1)] by (simp add: trim_left_def strip_all_None)
  moreover have "str_fields [] = []" by (subst str_fields.simps) (simp add: trim_left_def strip_all_None space_seqs_def)
  ultimately show ?thesis using assms word_of_spaceless by (subst str_fields.simps) simp
qed

lemma signature_bytes: "list_all (\<lambda>n. b64_char n \<notin> set (map hd space_seqs)) [0..<64]"
  "list_all (\<lambda>c. c \<notin> set (map hd space_seqs)) ''v1,=''"
  by code_simp+

lemma want_signature_spaceless: "spaceless (want_signature sha256 key i timestamp body)"
proof -
  have "\<And>n. n < 64 \<Longrightarrow> b64_char n \<notin> set (map hd space_seqs)" "CHR ''='' \<notin> set (map hd space_seqs)"
    using signature_bytes unfolding list_all_iff by simp_all
  then have "c \<notin> set (map hd space_seqs)" if "c \<in> set (b64_encode s)" for c s
    using b64_encode_plain [OF that] by blast
  moreover have "\<forall>c \<in> set ''v1,''. c \<notin> set (map hd space_seqs)" using signature_bytes(2) by simp
  ultimately show ?thesis unfolding spaceless_def want_signature_def set_append by blast
qed

text \<open>
  C33: a delivery is genuine exactly when it is fresh and signed: the check accepts it if and only if
  its timestamp is a number within the window around the clock, the secret yields a key, and one of the
  fields of the signature header is the signature of identifier, timestamp and body under that key;
  in particular the header that a sender with the same secret computes, in text or in base64, is
  accepted within the window.
\<close>

theorem verifySignature_exact:
  "(verifySignature sha256 secret i timestamp signature body now maxAge \<longleftrightarrow>
      in_window now maxAge timestamp \<and>
      (\<exists>key. signing_key secret = Some key \<and> want_signature sha256 key i timestamp body \<in> set (str_fields signature))) \<and>
   verifySignature sha256 (''whsec_'' @ b64_encode key) i timestamp (want_signature sha256 key i timestamp body) body now maxAge =
     in_window now maxAge timestamp"
proof -
  have iff: "verifySignature sha256 secret i timestamp signature body now maxAge \<longleftrightarrow>
     in_window now maxAge timestamp \<and>
     (\<exists>key. signing_key secret = Some key \<and> want_signature sha256 key i timestamp body \<in> set (str_fields signature))"
    for secret signature
    by (auto simp: verifySignature_def list_ex_iff split: option.splits)
  have "signing_key (''whsec_'' @ b64_encode key) = Some key"
    by (simp add: signing_key_def has_prefix_def b64_roundtrip trim_prefix_def)
  moreover have "str_fields (want_signature sha256 key i timestamp body) = [want_signature sha256 key i timestamp body]"
    by (rule str_fields_one [OF want_signature_spaceless]) (simp add: want_signature_def)
  ultimately show ?thesis unfolding iff by simp
qed

end
