(* ===== verification/Ingress.thy ===== *)
theory Ingress
  imports ControlSteps Correlations Lifecycle Redaction Signature
begin

text \<open>
  The webhook ingress, \<open>accept\<close> of \<open>runtime/ingress.go\<close>: the routes of a project, the hooks whose
  secret verifies the delivery, the published flow behind each route, and one execution per payload.
  \<open>resolve\<close> is the catalog of a workspace, \<open>secrets\<close> the secret resolver, \<open>sha256\<close> the digest,
  \<open>fresh\<close> the stream of new identifiers; an accept sees one instant \<open>now\<close>. The control tables are
  read, the run-time tables written: they refer to the control tables through \<open>runtime_view\<close>. What an
  error leaves of the counters is not reported, as \<open>ServeHTTP\<close> drops it.
\<close>

record ingress_result =
  ir_accepted :: int
  ir_duplicates :: int
  ir_ignored :: int

definition no_result :: ingress_result where
  "no_result = \<lparr>ir_accepted = 0, ir_duplicates = 0, ir_ignored = 0\<rparr>"

text \<open>What the run-time tables refer to is what the control tables hold.\<close>

definition runtime_view :: "control_db \<Rightarrow> runtime_db \<Rightarrow> runtime_db" where
  "runtime_view control db =
     db\<lparr>rd_workspaces := cb_workspaces control, rd_connections := map cn_id (cb_connections control),
        rd_flows := map (\<lambda>f. (fl_id f, fl_workspace f)) (fd_flows (cb_flows control)),
        rd_versions := map (\<lambda>v. ((fv_id v, fv_flow v), fv_workspace v)) (fd_versions (cb_flows control))\<rparr>"

section \<open>The envelope\<close>

text \<open>The request as the handler sees it: headers and query are functions, absent ones empty.\<close>

definition firstHeader :: "(string \<Rightarrow> string) \<Rightarrow> string list \<Rightarrow> string" where
  "firstHeader header names = (case List.find (\<lambda>n. header n \<noteq> []) names of None \<Rightarrow> [] | Some n \<Rightarrow> header n)"

definition externalID :: "gval \<Rightarrow> string" where
  "externalID v = rt_stringValue v"

definition parseGitLabEnvelope ::
  "(string \<Rightarrow> string) \<Rightarrow> (string \<Rightarrow> string) \<Rightarrow> (string \<Rightarrow> gerr + gobj) \<Rightarrow> string \<Rightarrow> gerr + gitlab_envelope" where
  "parseGitLabEnvelope header url_query decode_object body =
     bind_result (decode_object body) (\<lambda>payload.
       let delivery = trim_space (firstHeader header [''webhook-id'', ''X-Gitlab-Delivery'']);
           timestamp = trim_space (header ''webhook-timestamp'');
           signature = trim_space (header ''webhook-signature'')
       in if delivery = [] \<or> timestamp = [] \<or> signature = []
          then fail ErrForbidden ''webhook signature headers are required''
          else let project = objectValue (obj_get payload ''project'');
                   projectID0 = externalID (obj_get project ''id'');
                   projectID = (if projectID0 = [] then externalID (obj_get payload ''project_id'') else projectID0)
          in if projectID = [] then fail ErrInvalid ''GitLab project external ID is required''
             else let hint0 = trim_space (url_query ''instance_id'');
                      hint = (if hint0 = [] then trim_space (header ''X-SpecWire-Instance-ID'') else hint0)
             in Inr \<lparr>en_event = trim_space (header ''X-Gitlab-Event''), en_delivery = delivery,
                     en_timestamp = timestamp, en_signature = signature, en_instance = hint, en_project = projectID,
                     en_path = firstString [obj_get project ''path_with_namespace'', obj_get project ''web_url''],
                     en_payload = payload, en_body = body\<rparr>)"

section \<open>Verification\<close>

definition hook_valid ::
  "(secret_ref \<Rightarrow> gerr + string) \<Rightarrow> (string \<Rightarrow> string) \<Rightarrow> gtime \<Rightarrow> int \<Rightarrow> gitlab_envelope \<Rightarrow> hook \<Rightarrow> bool" where
  "hook_valid secrets sha256 now maxAge env h =
     (case hk_signing h of
        None \<Rightarrow> False
      | Some ref \<Rightarrow>
          (case secrets ref of
             Inl _ \<Rightarrow> False
           | Inr secret \<Rightarrow> verifySignature sha256 secret (en_delivery env) (en_timestamp env) (en_signature env)
                             (en_body env) now maxAge))"

definition hook_text :: "hook_route \<Rightarrow> string" where
  "hook_text r = hr_workspace r @ '':'' @ hr_hook r"

text \<open>One check per hook: \<open>checked\<close> is the map of the hooks seen, keyed by the text of their identity.\<close>

fun verify_loop ::
  "(ID \<Rightarrow> ID \<Rightarrow> gerr + hook) \<Rightarrow> (hook \<Rightarrow> bool) \<Rightarrow> (string \<times> hook \<times> bool) list \<Rightarrow> hook_route list \<Rightarrow>
   gerr + (hook_route \<times> hook) list" where
  "verify_loop get valid checked [] = Inr []"
| "verify_loop get valid checked (r # rs) =
     (case map_of checked (hook_text r) of
        Some (h, ok) \<Rightarrow>
          bind_result (verify_loop get valid checked rs) (\<lambda>vs. Inr (if ok then (r, h) # vs else vs))
      | None \<Rightarrow>
          bind_result (get (hr_workspace r) (hr_hook r)) (\<lambda>h.
          bind_result (verify_loop get valid ((hook_text r, h, valid h) # checked) rs) (\<lambda>vs.
            Inr (if valid h then (r, h) # vs else vs))))"

definition verifyRoutes ::
  "(secret_ref \<Rightarrow> gerr + string) \<Rightarrow> (string \<Rightarrow> string) \<Rightarrow> gtime \<Rightarrow> int \<Rightarrow> gitlab_envelope \<Rightarrow> control_db \<Rightarrow> hook_route list \<Rightarrow>
   gerr + (hook_route \<times> hook) list" where
  "verifyRoutes secrets sha256 now maxAge env control routes =
     verify_loop (\<lambda>w i. GetHook w i control) (hook_valid secrets sha256 now maxAge env) [] routes"

section \<open>Rows of a delivery\<close>

definition rawHash :: "(string \<Rightarrow> string) \<Rightarrow> string \<Rightarrow> string" where
  "rawHash sha256 body = hex_encode (sha256 body)"

definition idempotencyKey :: "(string \<Rightarrow> string) \<Rightarrow> hook_route \<Rightarrow> connection \<Rightarrow> string \<Rightarrow> string" where
  "idempotencyKey sha256 route c action =
     digest (rawHash sha256) [''idempotency'', hr_workspace route, cn_id c, hr_flow route, dec_int (hr_version route),
       proj_instance (cn_source c), proj_external (cn_source c), hr_behavior_key route, hr_behavior_version route,
       action, proj_instance (cn_target c), proj_external (cn_target c)]"

definition correlationID :: "(string \<Rightarrow> string) \<Rightarrow> hook_route \<Rightarrow> string \<Rightarrow> string" where
  "correlationID sha256 route action =
     ''corr_'' @ digest (rawHash sha256) [''correlation'', hr_workspace route, hr_connection route, hr_flow route, action]"

definition inputNodeID :: "flow_graph \<Rightarrow> catalog \<Rightarrow> ID" where
  "inputNodeID g c =
     (case List.find (\<lambda>n. node_kind n = NodeConnector \<and>
             (case node_connector n of
                None \<Rightarrow> False
              | Some conn \<Rightarrow>
                  (case catalog_behavior c (conn_behavior_key conn) (conn_behavior_version conn) of
                     None \<Rightarrow> False | Some b \<Rightarrow> bh_direction b = DirectionInput))) (graph_nodes g) of
        None \<Rightarrow> [] | Some n \<Rightarrow> node_id n)"

definition ingress_execution ::
  "(string \<Rightarrow> string) \<Rightarrow> ID \<Rightarrow> hook_route \<Rightarrow> flow_version \<Rightarrow> connection \<Rightarrow> catalog \<Rightarrow> gitlab_envelope \<Rightarrow> string \<Rightarrow> flow_execution" where
  "ingress_execution sha256 i route v c cat env action =
     \<lparr>fx_id = i, fx_workspace = hr_workspace route, fx_connection = hr_connection route, fx_flow = hr_flow route,
      fx_version_id = fv_id v, fx_version = fv_version v, fx_event = [], fx_delivery = en_delivery env,
      fx_key = idempotencyKey sha256 route c action, fx_correlation = correlationID sha256 route action,
      fx_status = ExecutionQueued, fx_attention = [], fx_attention_actor = [], fx_attention_updated = None,
      fx_current_node = inputNodeID (fv_graph v) cat, fx_requests = [], fx_error_category = [], fx_error_message = [],
      fx_created = 0, fx_updated = 0\<rparr>"

definition ingress_event ::
  "(string \<Rightarrow> string) \<Rightarrow> gtime \<Rightarrow> int \<Rightarrow> ID \<Rightarrow> hook_route \<Rightarrow> gitlab_envelope \<Rightarrow> gobj \<Rightarrow> inbound_event" where
  "ingress_event sha256 now retention i route env payload =
     \<lparr>ie_id = i, ie_workspace = hr_workspace route, ie_connection = hr_connection route, ie_provider = ProviderGitLab,
      ie_source_instance = proj_instance (hr_source route), ie_source_project = en_project env,
      ie_behavior_key = hr_behavior_key route, ie_behavior_version = hr_behavior_version route,
      ie_delivery = actionDeliveryID env payload, ie_payload = redact_object payload,
      ie_payload_hash = rawHash sha256 (en_body env), ie_received = now, ie_retention = Some (now + retention)\<rparr>"

definition ingress_job :: "ID \<Rightarrow> ID \<Rightarrow> hook_route \<Rightarrow> job" where
  "ingress_job i executionID route =
     \<lparr>job_id = i, job_workspace = hr_workspace route, job_kind = ''flow.execute'',
      job_payload = obj_set (obj_set [] ''connection_id'' (VNamed (hr_connection route))) ''execution_id'' (VNamed executionID),
      job_available = 0, job_lease = None, job_leased_by = [], job_attempts = 0, job_status = [],
      job_created = 0, job_updated = 0\<rparr>"

section \<open>Acceptance\<close>

record ingress =
  in_resolve :: "ID \<Rightarrow> gerr + catalog"
  in_secrets :: "secret_ref \<Rightarrow> gerr + string"
  in_sha256 :: "string \<Rightarrow> string"
  in_hash_payload :: "gobj \<Rightarrow> string"
  in_max_age :: int
  in_retention :: int

text \<open>What stands behind a route, or nothing when the event is not for it.\<close>

definition route_target ::
  "ingress \<Rightarrow> gitlab_envelope \<Rightarrow> control_db \<Rightarrow> hook_route \<Rightarrow> gerr + (catalog \<times> flow_version \<times> connection) option" where
  "route_target ing env control route =
     bind_result (in_resolve ing (hr_workspace route)) (\<lambda>cat.
       case catalog_behavior cat (hr_behavior_key route) (hr_behavior_version route) of
         None \<Rightarrow> Inr None
       | Some b \<Rightarrow>
           if bh_direction b \<noteq> DirectionInput then Inr None
           else if \<not> matchesBehavior env (hr_behavior_key route) \<or> \<not> matchesEventFilter (en_payload env) (hr_filter route)
           then Inr None
           else bind_result (GetFlow (hr_workspace route) (hr_flow route) (cb_flows control)) (\<lambda>f.
             if fl_status f \<noteq> FlowPublished then Inr None
             else bind_result (GetFlowVersion (hr_workspace route) (hr_flow route) (hr_version route) (cb_flows control)) (\<lambda>v.
               if fv_status v \<noteq> FlowPublished then Inr None
               else bind_result (GetConnection (hr_workspace route) (hr_connection route) control) (\<lambda>c.
                 Inr (Some (cat, v, c))))))"

definition accept_payload ::
  "ingress \<Rightarrow> gtime \<Rightarrow> (nat \<Rightarrow> ID) \<Rightarrow> nat \<Rightarrow> gitlab_envelope \<Rightarrow> hook_route \<Rightarrow> catalog \<times> flow_version \<times> connection \<Rightarrow>
   gobj \<Rightarrow> runtime_db \<Rightarrow> gerr + flow_execution \<times> bool \<times> runtime_db" where
  "accept_payload ing now fresh n env route target payload db =
     (let (cat, v, c) = target;
          action = actionIdentity (en_event env) (en_delivery env) payload;
          execution = ingress_execution (in_sha256 ing) (fresh n) route v c cat env action;
          event = ingress_event (in_sha256 ing) now (in_retention ing) (fresh (n + 1)) route env payload;
          job = ingress_job (fresh (n + 2)) (fx_id execution) route
      in AcceptInboundEvent (in_hash_payload ing) now [] [] [] event execution job db)"

fun accept_payloads ::
  "ingress \<Rightarrow> gtime \<Rightarrow> (nat \<Rightarrow> ID) \<Rightarrow> nat \<Rightarrow> gitlab_envelope \<Rightarrow> hook_route \<Rightarrow> catalog \<times> flow_version \<times> connection \<Rightarrow>
   gobj list \<Rightarrow> ingress_result \<Rightarrow> runtime_db \<Rightarrow> (gerr + nat \<times> ingress_result) \<times> runtime_db" where
  "accept_payloads ing now fresh n env route target [] res db = (Inr (n, res), db)"
| "accept_payloads ing now fresh n env route target (p # ps) res db =
     (case accept_payload ing now fresh n env route target p db of
        Inl e \<Rightarrow> (Inl e, db)
      | Inr (x, isNew, db') \<Rightarrow>
          accept_payloads ing now fresh (n + 3) env route target ps
            (if isNew then res\<lparr>ir_accepted := ir_accepted res + 1\<rparr> else res\<lparr>ir_duplicates := ir_duplicates res + 1\<rparr>) db')"

definition ignored :: "ingress_result \<Rightarrow> ingress_result" where
  "ignored res = res\<lparr>ir_ignored := ir_ignored res + 1\<rparr>"

fun accept_routes ::
  "ingress \<Rightarrow> gtime \<Rightarrow> (nat \<Rightarrow> ID) \<Rightarrow> nat \<Rightarrow> gitlab_envelope \<Rightarrow> control_db \<Rightarrow> hook_route list \<Rightarrow> bool \<Rightarrow> ingress_result \<Rightarrow>
   runtime_db \<Rightarrow> (gerr + bool \<times> ingress_result) \<times> runtime_db" where
  "accept_routes ing now fresh n env control [] matched res db = (Inr (matched, res), db)"
| "accept_routes ing now fresh n env control (r # rs) matched res db =
     (case route_target ing env control r of
        Inl e \<Rightarrow> (Inl e, db)
      | Inr None \<Rightarrow> accept_routes ing now fresh n env control rs matched (ignored res) db
      | Inr (Some target) \<Rightarrow>
          (if eventPayloads env = [] then accept_routes ing now fresh n env control rs matched (ignored res) db
           else case accept_payloads ing now fresh n env r target (eventPayloads env) res db of
                  (Inl e, db') \<Rightarrow> (Inl e, db')
                | (Inr (m, res'), db') \<Rightarrow> accept_routes ing now fresh m env control rs True res' db'))"

definition accept ::
  "ingress \<Rightarrow> gtime \<Rightarrow> (nat \<Rightarrow> ID) \<Rightarrow> gitlab_envelope \<Rightarrow> control_db \<Rightarrow> runtime_db \<Rightarrow> (gerr + ingress_result) \<times> runtime_db" where
  "accept ing now fresh env control db =
     (case ListHookRoutesForProject (en_instance env) (en_project env) control of
        Inl e \<Rightarrow> (Inl e, db)
      | Inr routes \<Rightarrow>
          if routes = [] then (Inr (no_result\<lparr>ir_ignored := 1\<rparr>), db)
          else case verifyRoutes (in_secrets ing) (in_sha256 ing) now (in_max_age ing) env control routes of
                 Inl e \<Rightarrow> (Inl e, db)
               | Inr verified \<Rightarrow>
                   if verified = [] then (fail ErrForbidden ''no Hook secret matched'', db)
                   else case accept_routes ing now fresh 0 env control (map fst verified) False no_result
                               (runtime_view control db) of
                          (Inl e, db') \<Rightarrow> (Inl e, db')
                        | (Inr (matched, res), db') \<Rightarrow>
                            (Inr (if \<not> matched \<and> ir_ignored res = 0 then res\<lparr>ir_ignored := 1\<rparr> else res), db'))"

text \<open>The handler: what is refused before the event is looked at, and the status it answers with.\<close>

definition ServeHTTP ::
  "ingress \<Rightarrow> gtime \<Rightarrow> (nat \<Rightarrow> ID) \<Rightarrow> nat \<Rightarrow> string \<Rightarrow> (gerr + gitlab_envelope) \<Rightarrow> string option \<Rightarrow> control_db \<Rightarrow> runtime_db \<Rightarrow>
   int \<times> runtime_db" where
  "ServeHTTP ing now fresh maxBody http_method envelope body control db =
     (if http_method \<noteq> ''POST'' then (405, db)
      else case body of
             None \<Rightarrow> (400, db)
           | Some text \<Rightarrow>
               if length text > maxBody then (413, db)
               else case envelope of
                      Inl _ \<Rightarrow> (401, db)
                    | Inr env \<Rightarrow>
                        (case accept ing now fresh env control db of
                           (Inl e, db') \<Rightarrow> (if err_is e ErrForbidden then 401 else 503, db')
                         | (Inr res, db') \<Rightarrow> (202, db')))"

section \<open>One check per hook\<close>

lemma hook_text_inject:
  assumes "CHR '':'' \<notin> set (hr_workspace r)" "CHR '':'' \<notin> set (hr_workspace s)" "hook_text r = hook_text s"
  shows "hr_workspace r = hr_workspace s \<and> hr_hook r = hr_hook s"
proof -
  have "str_cut (CHR '':'') (hook_text r) = (hr_workspace r, hr_hook r, True)"
    "str_cut (CHR '':'') (hook_text s) = (hr_workspace s, hr_hook s, True)"
    using assms(1,2) by (simp_all add: hook_text_def str_cut_append)
  then show ?thesis using assms(3) by (metis prod.inject)
qed

definition checks_ok ::
  "(ID \<Rightarrow> ID \<Rightarrow> gerr + hook) \<Rightarrow> (hook \<Rightarrow> bool) \<Rightarrow> (string \<times> hook \<times> bool) list \<Rightarrow> hook_route list \<Rightarrow> bool" where
  "checks_ok get valid checked rs \<longleftrightarrow>
     (\<forall>r \<in> set rs. \<forall>h ok. map_of checked (hook_text r) = Some (h, ok) \<longrightarrow>
        get (hr_workspace r) (hr_hook r) = Inr h \<and> ok = valid h)"

definition with_hook :: "(ID \<Rightarrow> ID \<Rightarrow> gerr + hook) \<Rightarrow> hook_route \<Rightarrow> gerr + hook_route \<times> hook" where
  "with_hook get r = bind_result (get (hr_workspace r) (hr_hook r)) (\<lambda>h. Inr (r, h))"

lemma verify_loop_reference:
  assumes "\<And>r. r \<in> set rs \<Longrightarrow> CHR '':'' \<notin> set (hr_workspace r)" "checks_ok get valid checked rs"
  shows "verify_loop get valid checked rs =
    bind_result (map_result (with_hook get) rs) (\<lambda>vs. Inr (filter (\<lambda>(r, h). valid h) vs))"
  using assms
proof (induction get valid checked rs rule: verify_loop.induct)
  case (2 get valid checked r rs)
  have colon: "\<And>s. s \<in> set rs \<Longrightarrow> CHR '':'' \<notin> set (hr_workspace s)" using 2(3) by simp
  show ?case
  proof (cases "map_of checked (hook_text r)")
    case (Some ho)
    obtain h ok where ho: "ho = (h, ok)" by (cases ho)
    have h: "get (hr_workspace r) (hr_hook r) = Inr h" "ok = valid h"
      using 2(4) Some ho by (auto simp: checks_ok_def)
    have "checks_ok get valid checked rs" using 2(4) by (simp add: checks_ok_def)
    then have "verify_loop get valid checked rs =
        bind_result (map_result (with_hook get) rs) (\<lambda>vs. Inr (filter (\<lambda>(r, h). valid h) vs))"
      using 2(2) [OF Some ho [symmetric]] colon ho by simp
    moreover have "with_hook get r = Inr (r, h)" using h(1) by (simp add: with_hook_def)
    ultimately show ?thesis using Some ho h(2) by (cases "map_result (with_hook get) rs") simp_all
  next
    case None
    show ?thesis
    proof (cases "get (hr_workspace r) (hr_hook r)")
      case (Inl e)
      moreover from this have "with_hook get r = Inl e" by (simp add: with_hook_def)
      ultimately show ?thesis using None by simp
    next
      case (Inr h)
      have "checks_ok get valid ((hook_text r, h, valid h) # checked) rs"
        unfolding checks_ok_def
      proof (intro ballI allI impI)
        fix s g ok assume s: "s \<in> set rs" and m: "map_of ((hook_text r, h, valid h) # checked) (hook_text s) = Some (g, ok)"
        show "get (hr_workspace s) (hr_hook s) = Inr g \<and> ok = valid g"
        proof (cases "hook_text r = hook_text s")
          case True
          then have "hr_workspace s = hr_workspace r" "hr_hook s = hr_hook r"
            using hook_text_inject [of r s] 2(3) s by simp_all
          moreover have "g = h" "ok = valid h" using True m by auto
          ultimately show ?thesis using Inr by simp
        next
          case False
          then have "map_of checked (hook_text s) = Some (g, ok)" using m by simp
          then show ?thesis using 2(4) s by (auto simp: checks_ok_def)
        qed
      qed
      then have "verify_loop get valid ((hook_text r, h, valid h) # checked) rs =
          bind_result (map_result (with_hook get) rs) (\<lambda>vs. Inr (filter (\<lambda>(r, h). valid h) vs))"
        using 2(1) [OF None Inr] colon by simp
      moreover have "with_hook get r = Inr (r, h)" using Inr by (simp add: with_hook_def)
      ultimately show ?thesis using None Inr by (cases "map_result (with_hook get) rs") simp_all
    qed
  qed
qed simp

text \<open>
  Checking every hook once is checking every route: for workspaces without a colon in their
  identifier the loop with its map of hooks already checked finds exactly the routes whose own hook
  verifies the delivery, and fails exactly when a hook cannot be read.
\<close>

lemma verifyRoutes_exact:
  assumes "\<forall>r \<in> set routes. CHR '':'' \<notin> set (hr_workspace r)"
  shows "verifyRoutes secrets sha256 now maxAge env control routes =
    bind_result (map_result (with_hook (\<lambda>w i. GetHook w i control)) routes)
      (\<lambda>vs. Inr (filter (\<lambda>(r, h). hook_valid secrets sha256 now maxAge env h) vs))"
  unfolding verifyRoutes_def
  using assms by (intro verify_loop_reference) (simp_all add: checks_ok_def)

lemma map_result_with_hook:
  "map_result (with_hook get) rs = Inr vs \<Longrightarrow> (r, h) \<in> set vs \<Longrightarrow> r \<in> set rs \<and> get (hr_workspace r) (hr_hook r) = Inr h"
proof (induction rs arbitrary: vs)
  case (Cons a rs)
  then show ?case by (auto simp: with_hook_def bind_result_Inr)
qed simp

lemma verifyRoutes_D:
  assumes "\<forall>r \<in> set routes. CHR '':'' \<notin> set (hr_workspace r)"
    "verifyRoutes secrets sha256 now maxAge env control routes = Inr vs" "(r, h) \<in> set vs"
  shows "r \<in> set routes \<and> GetHook (hr_workspace r) (hr_hook r) control = Inr h \<and>
    hook_valid secrets sha256 now maxAge env h"
proof -
  obtain us where us: "map_result (with_hook (\<lambda>w i. GetHook w i control)) routes = Inr us"
    and vs: "vs = filter (\<lambda>(r, h). hook_valid secrets sha256 now maxAge env h) us"
    using assms(2) unfolding verifyRoutes_exact [OF assms(1)] by (auto simp: bind_result_Inr)
  then show ?thesis using assms(3) map_result_with_hook [OF us, of r h] by auto
qed

section \<open>What an accepted delivery adds\<close>

definition rows_added ::
  "(inbound_event \<Rightarrow> bool) \<Rightarrow> (flow_execution \<Rightarrow> bool) \<Rightarrow> (flow_execution \<Rightarrow> job \<Rightarrow> bool) \<Rightarrow>
   runtime_db \<Rightarrow> runtime_db \<Rightarrow> bool" where
  "rows_added P Q J db db' \<longleftrightarrow>
     (\<exists>es xs js. rd_events db' = rd_events db @ es \<and> rd_executions db' = rd_executions db @ xs \<and>
        rd_jobs db' = rd_jobs db @ js \<and> rd_nodes db' = rd_nodes db \<and> list_all2 J xs js \<and>
        (\<forall>e \<in> set es. P e) \<and> (\<forall>x \<in> set xs. Q x))"

lemma rows_added_refl [simp]: "rows_added P Q J db db"
  by (simp add: rows_added_def)

lemma rows_added_view [simp]: "rows_added P Q J db (runtime_view control db)"
  "rows_added P Q J (runtime_view control db) db' = rows_added P Q J db db'"
  by (simp_all add: rows_added_def runtime_view_def)

lemma rows_added_trans:
  assumes "rows_added P Q J a b" "rows_added P Q J b c"
  shows "rows_added P Q J a c"
proof -
  obtain es xs js where 1: "rd_events b = rd_events a @ es" "rd_executions b = rd_executions a @ xs"
    "rd_jobs b = rd_jobs a @ js" "rd_nodes b = rd_nodes a" "list_all2 J xs js" "\<forall>e \<in> set es. P e" "\<forall>x \<in> set xs. Q x"
    using assms(1) unfolding rows_added_def by blast
  obtain fs ys ks where 2: "rd_events c = rd_events b @ fs" "rd_executions c = rd_executions b @ ys"
    "rd_jobs c = rd_jobs b @ ks" "rd_nodes c = rd_nodes b" "list_all2 J ys ks" "\<forall>e \<in> set fs. P e" "\<forall>x \<in> set ys. Q x"
    using assms(2) unfolding rows_added_def by blast
  show ?thesis unfolding rows_added_def using 1 2
    by (intro exI [of _ "es @ fs"] exI [of _ "xs @ ys"] exI [of _ "js @ ks"]) (auto intro: list_all2_appendI)
qed

lemma rows_added_mono:
  assumes "rows_added P Q J a b" "\<And>e. P e \<Longrightarrow> P' e" "\<And>x. Q x \<Longrightarrow> Q' x" "\<And>x k. J x k \<Longrightarrow> J' x k"
  shows "rows_added P' Q' J' a b"
proof -
  obtain es xs js where "rd_events b = rd_events a @ es" "rd_executions b = rd_executions a @ xs"
    "rd_jobs b = rd_jobs a @ js" "rd_nodes b = rd_nodes a" "list_all2 J xs js" "\<forall>e \<in> set es. P e" "\<forall>x \<in> set xs. Q x"
    using assms(1) unfolding rows_added_def by blast
  moreover from this(5) have "list_all2 J' xs js" using assms(4) by (rule list_all2_mono)
  ultimately show ?thesis unfolding rows_added_def using assms(2,3) by blast
qed

text \<open>The job of an execution, as the worker reads it.\<close>

definition queued_for :: "flow_execution \<Rightarrow> job \<Rightarrow> bool" where
  "queued_for x k \<longleftrightarrow>
     job_workspace k = fx_workspace x \<and> job_kind k = ''flow.execute'' \<and> job_status k = ''queued'' \<and>
     obj_get (job_payload k) ''execution_id'' = VStr (fx_id x) \<and>
     obj_get (job_payload k) ''connection_id'' = VStr (fx_connection x)"

lemma accept_prepared_flow:
  assumes "accept_prepared h now i1 i2 i3 e0 x0 j0 = Inr (e, x, j)"
  shows "fx_flow x = fx_flow x0 \<and> fx_version_id x = fx_version_id x0"
  using assms unfolding accept_prepared_def Let_def
  by (simp split: if_splits)
    (auto simp: bind_result_Inr normalizeExecutionAttention_def execution_times_def Let_def split: if_splits)

lemma AcceptInboundEvent_rows:
  assumes "AcceptInboundEvent h now i1 i2 i3 e x j db = Inr (found, created, db')"
  shows "rows_added (\<lambda>r. delivery_identity r = delivery_identity e \<and> ie_connection r = ie_connection e)
     (\<lambda>r. execution_key r = execution_key x \<and> fx_connection r = fx_connection x \<and> fx_flow r = fx_flow x \<and>
        fx_version_id r = fx_version_id x)
     (\<lambda>r k. job_workspace k = fx_workspace r \<and> fx_connection r = fx_connection x \<and>
        fx_id r = or_default (fx_id x) (\<lambda>i. i = []) i2 \<and> job_kind k = or_default (job_kind j) blank ''flow.execute'' \<and>
        job_status k = or_default (job_status j) blank ''queued'' \<and> marshalJSON (job_payload j) = Inr (job_payload k)) db db'"
proof -
  obtain e1 x1 j1 db1 i where p: "accept_prepared h now i1 i2 i3 e x j = Inr (e1, x1, j1)"
    and ev: "insert_event ''accept inbound event'' e1 db = Inr db1"
    and ex: "accept_execution (x1\<lparr>fx_event := i\<rparr>) j1 db1 = Inr (found, created, db')"
    using assms(1) by (auto simp: AcceptInboundEvent_def bind_result_Inr split: option.splits)
  note prep = accept_prepared_D [OF p]
  have "attention_ok (x1\<lparr>fx_event := i\<rparr>)" using prep(6) by simp
  note D = accept_execution_D [OF ex this]
  obtain es where es: "db1 = db\<lparr>rd_events := rd_events db @ es\<rparr>" "es = [] \<or> es = [e1]"
    using insert_event_D [OF ev] by (metis append_Nil2)
  show ?thesis
  proof (cases created)
    case True
    then have "db' = db\<lparr>rd_events := rd_events db @ es, rd_executions := rd_executions db @ [x1\<lparr>fx_event := i\<rparr>],
        rd_jobs := rd_jobs db @ [j1]\<rparr>" using D es(1) by simp
    then show ?thesis using es(2) prep(2,3,4,7,9,10,13-16) accept_prepared_flow [OF p]
      unfolding rows_added_def
      by (intro exI [of _ es] exI [of _ "[x1\<lparr>fx_event := i\<rparr>]"] exI [of _ "[j1]"]) (auto simp: execution_key_def)
  next
    case False
    then have "db' = db1" using D by simp
    then show ?thesis using es prep(2,10) unfolding rows_added_def
      by (intro exI [of _ es] exI [of _ "[]"]) auto
  qed
qed

section \<open>Isolation\<close>

text \<open>A route that a delivery may use: it is listed for the project and its own hook verifies the delivery.\<close>

definition admitted :: "ingress \<Rightarrow> gtime \<Rightarrow> gitlab_envelope \<Rightarrow> control_db \<Rightarrow> hook_route \<Rightarrow> bool" where
  "admitted ing now env control r \<longleftrightarrow>
     (case ListHookRoutesForProject (en_instance env) (en_project env) control of
        Inl _ \<Rightarrow> False
      | Inr routes \<Rightarrow>
          r \<in> set routes \<and>
          (case GetHook (hr_workspace r) (hr_hook r) control of
             Inl _ \<Rightarrow> False
           | Inr h \<Rightarrow> hook_valid (in_secrets ing) (in_sha256 ing) now (in_max_age ing) env h))"

definition event_of :: "hook_route \<Rightarrow> inbound_event \<Rightarrow> bool" where
  "event_of r e \<longleftrightarrow> ie_workspace e = hr_workspace r \<and> ie_connection e = hr_connection r"

definition execution_of :: "control_db \<Rightarrow> hook_route \<Rightarrow> flow_execution \<Rightarrow> bool" where
  "execution_of control r x \<longleftrightarrow>
     fx_workspace x = hr_workspace r \<and> fx_connection x = hr_connection r \<and> fx_flow x = hr_flow r \<and>
     (case GetFlow (hr_workspace r) (hr_flow r) (cb_flows control) of
        Inl _ \<Rightarrow> False | Inr f \<Rightarrow> fl_status f = FlowPublished) \<and>
     (case GetFlowVersion (hr_workspace r) (hr_flow r) (hr_version r) (cb_flows control) of
        Inl _ \<Rightarrow> False | Inr v \<Rightarrow> fv_status v = FlowPublished \<and> fx_version_id x = fv_id v)"

lemma route_target_D:
  assumes "route_target ing env control r = Inr (Some (cat, v, c))"
  shows "execution_of control r x \<longleftrightarrow> fx_workspace x = hr_workspace r \<and> fx_connection x = hr_connection r \<and>
      fx_flow x = hr_flow r \<and> fx_version_id x = fv_id v"
proof -
  obtain f where "GetFlow (hr_workspace r) (hr_flow r) (cb_flows control) = Inr f" "fl_status f = FlowPublished"
    "GetFlowVersion (hr_workspace r) (hr_flow r) (hr_version r) (cb_flows control) = Inr v" "fv_status v = FlowPublished"
    using assms by (auto simp: route_target_def bind_result_Inr split: option.splits if_splits)
  then show ?thesis by (simp add: execution_of_def)
qed

lemma ingress_job_payload:
  "marshalJSON (job_payload (ingress_job i x r)) = Inr d \<Longrightarrow>
     obj_get d ''execution_id'' = VStr x \<and> obj_get d ''connection_id'' = VStr (hr_connection r)"
  by (auto simp: ingress_job_def marshalJSON_def)

lemma ingress_job_kind: "job_kind (ingress_job i x r) = ''flow.execute''" "job_status (ingress_job i x r) = []"
  by (simp_all add: ingress_job_def)

lemma accept_payload_rows:
  assumes "accept_payload ing now fresh n env r target p db = Inr (x, c, db')"
    "route_target ing env control r = Inr (Some target)"
  shows "rows_added (event_of r) (execution_of control r) queued_for db db'"
proof -
  obtain cat v cn where t: "target = (cat, v, cn)" by (cases target)
  note D = route_target_D [OF assms(2) [unfolded t]]
  show ?thesis
    using assms(1) unfolding accept_payload_def t prod.case Let_def
    by (rule AcceptInboundEvent_rows [THEN rows_added_mono])
      (auto simp: event_of_def D ingress_event_def ingress_execution_def delivery_identity_def execution_key_def
        ingress_job_payload queued_for_def or_default_def ingress_job_kind)
qed

lemma accept_payloads_rows:
  "accept_payloads ing now fresh n env r target ps res db = (result, db') \<Longrightarrow>
   route_target ing env control r = Inr (Some target) \<Longrightarrow> rows_added (event_of r) (execution_of control r) queued_for db db'"
proof (induction ps arbitrary: n res db)
  case (Cons p ps)
  show ?case
  proof (cases "accept_payload ing now fresh n env r target p db")
    case (Inl e)
    then show ?thesis using Cons.prems(1) by simp
  next
    case (Inr y)
    then obtain x c db1 where y: "accept_payload ing now fresh n env r target p db = Inr (x, c, db1)" by (cases y) auto
    show ?thesis
      using Cons.prems(1) y accept_payload_rows [OF y Cons.prems(2)] Cons.IH [OF _ Cons.prems(2)]
      by (auto intro: rows_added_trans)
  qed
qed simp

definition added_for :: "(hook_route \<Rightarrow> bool) \<Rightarrow> control_db \<Rightarrow> runtime_db \<Rightarrow> runtime_db \<Rightarrow> bool" where
  "added_for R control = rows_added (\<lambda>e. \<exists>r. R r \<and> event_of r e) (\<lambda>x. \<exists>r. R r \<and> execution_of control r x) queued_for"

lemma accept_routes_rows:
  "accept_routes ing now fresh n env control rs matched res db = (result, db') \<Longrightarrow> (\<And>r. r \<in> set rs \<Longrightarrow> R r) \<Longrightarrow>
   added_for R control db db'"
proof (induction rs arbitrary: n matched res db)
  case (Cons r rs)
  have IH: "accept_routes ing now fresh n env control rs matched res db = (result, db') \<Longrightarrow> added_for R control db db'"
    for n matched res db using Cons.IH Cons.prems(2) by simp
  have one: "added_for R control db db1"
    if "accept_payloads ing now fresh n env r target ps res db = (y, db1)"
      "route_target ing env control r = Inr (Some target)" for target ps y db1
    using accept_payloads_rows [OF that] Cons.prems(2) [of r] unfolding added_for_def
    by (auto intro: rows_added_mono)
  have trans: "added_for R control a b \<Longrightarrow> added_for R control b c \<Longrightarrow> added_for R control a c" for a b c
    unfolding added_for_def by (rule rows_added_trans)
  have same: "added_for R control a a" for a by (simp add: added_for_def)
  show ?case
    using Cons.prems(1) IH
    by (auto split: sum.splits option.splits if_splits prod.splits dest!: one intro: trans same)
qed (simp add: added_for_def)

lemma accept_rows:
  assumes "accept ing now fresh env control db = (result, db')"
    "\<forall>r \<in> set (cb_routes control). CHR '':'' \<notin> set (hr_workspace r)"
  shows "added_for (admitted ing now env control) control db db'"
proof (cases "ListHookRoutesForProject (en_instance env) (en_project env) control")
  case (Inl e)
  then show ?thesis using assms(1) by (simp add: accept_def added_for_def)
next
  case (Inr routes)
  have colon: "\<forall>r \<in> set routes. CHR '':'' \<notin> set (hr_workspace r)"
  proof
    fix r assume "r \<in> set routes"
    then obtain r' where "r' \<in> set (cb_routes control)" and r: "r = r'\<lparr>hr_filter := hr_filter r\<rparr>"
      using listed_route [OF Inr] by metis
    moreover have "hr_workspace r = hr_workspace r'" by (subst r) simp
    ultimately show "CHR '':'' \<notin> set (hr_workspace r)" using assms(2) by simp
  qed
  show ?thesis
  proof (cases "routes = [] \<or> verifyRoutes (in_secrets ing) (in_sha256 ing) now (in_max_age ing) env control routes \<in> range Inl \<union> {Inr []}")
    case True
    then show ?thesis using assms(1) Inr by (auto simp: accept_def added_for_def split: if_splits)
  next
    case False
    then obtain vs where v: "verifyRoutes (in_secrets ing) (in_sha256 ing) now (in_max_age ing) env control routes = Inr vs"
      "vs \<noteq> []" "routes \<noteq> []" by (cases "verifyRoutes (in_secrets ing) (in_sha256 ing) now (in_max_age ing) env control routes") auto
    have "admitted ing now env control r" if "r \<in> fst ` set vs" for r
      using that verifyRoutes_D [OF colon v(1)] Inr by (auto simp: admitted_def)
    moreover obtain y where "accept_routes ing now fresh 0 env control (map fst vs) False no_result (runtime_view control db) = (y, db')"
      using assms(1) Inr v by (auto simp: accept_def split: prod.splits sum.splits)
    ultimately have "added_for (admitted ing now env control) control (runtime_view control db) db'"
      by (auto intro: accept_routes_rows)
    then show ?thesis by (simp add: added_for_def)
  qed
qed

section \<open>Replay\<close>

text \<open>The tables already hold the event and the execution of a payload.\<close>

definition settled ::
  "ingress \<Rightarrow> gitlab_envelope \<Rightarrow> hook_route \<Rightarrow> catalog \<times> flow_version \<times> connection \<Rightarrow> gobj \<Rightarrow> runtime_db \<Rightarrow> bool" where
  "settled ing env r target p db \<longleftrightarrow>
     (\<exists>x \<in> set (rd_executions db). execution_key x =
        (hr_workspace r, idempotencyKey (in_sha256 ing) r (snd (snd target)) (actionIdentity (en_event env) (en_delivery env) p))) \<and>
     (\<exists>e \<in> set (rd_events db). delivery_identity e = delivery_identity (ingress_event (in_sha256 ing) 0 0 [] r env p)) \<and>
     (\<exists>d. marshalJSON (redact_object p) = Inr d) \<and> hr_workspace r \<noteq> []"

lemma ingress_event_identity:
  "delivery_identity (ingress_event sha256 now retention i r env p) = delivery_identity (ingress_event sha256 0 0 [] r env p)"
  by (simp add: ingress_event_def delivery_identity_def)

lemma settled_change:
  assumes "runtime_change db db'" "settled ing env r target p db"
  shows "settled ing env r target p db'"
  using assms(2) change_execution [OF assms(1)] change_event [OF assms(1)]
  unfolding settled_def same_execution_def by metis

lemma settled_history:
  "runtime_history db db' \<Longrightarrow> settled ing env r target p db \<Longrightarrow> settled ing env r target p db'"
  by (induction rule: rtranclp_induct) (blast intro: settled_change runtime_step_change)+

lemma ingress_job_fresh: "fresh_job (ingress_job i x r)"
  by (simp add: fresh_job_def ingress_job_def)

lemma ingress_job_marshals: "\<exists>d. marshalJSON (job_payload (ingress_job i x r)) = Inr d"
  by (simp add: ingress_job_def marshalJSON_def)

lemma accept_prepared_Inr:
  assumes "ie_workspace e = fx_workspace x" "ie_connection e = fx_connection x" "fx_workspace x \<noteq> []" "fx_event x = []"
    "or_default (job_workspace j) (\<lambda>w. w = []) (fx_workspace x) = fx_workspace x"
    "marshalJSON (ie_payload e) = Inr d1" "marshalJSON (job_payload j) = Inr d2"
  shows "\<exists>q. accept_prepared h now i1 i2 i3 e x j = Inr q"
proof -
  have w: "requireWorkspaceID (fx_workspace x) = Inr ()" using assms(3) by (simp add: requireWorkspaceID_Inr)
  have j: "job_payload (job_defaults now k) = job_payload k" for k by (simp add: job_defaults_def Let_def)
  have u: "or_default [] (\<lambda>i. i = []) y = y" for y :: string by (simp add: or_default_def)
  show ?thesis
    unfolding accept_prepared_def Let_def
    by (simp add: assms w j u del: normalize_fields execution_times_fields)
qed

lemma accept_payload_settles:
  assumes "accept_payload ing now fresh n env r target p db = Inr (x, c, db')" "runtime_ok db"
  shows "runtime_step db db' \<and> runtime_ok db' \<and> settled ing env r target p db'"
proof -
  obtain cat v cn where t: "target = (cat, v, cn)" by (cases target)
  let ?x = "ingress_execution (in_sha256 ing) (fresh n) r v cn cat env (actionIdentity (en_event env) (en_delivery env) p)"
  let ?e = "ingress_event (in_sha256 ing) now (in_retention ing) (fresh (n + 1)) r env p"
  let ?j = "ingress_job (fresh (n + 2)) (fx_id ?x) r"
  have a: "AcceptInboundEvent (in_hash_payload ing) now [] [] [] ?e ?x ?j db = Inr (x, c, db')"
    using assms(1) by (simp add: accept_payload_def t Let_def)
  have step: "runtime_step db db'" by (rule runtime_step.accept [OF a ingress_job_fresh])
  have ok: "runtime_ok db'" by (rule runtime_change_ok [OF runtime_step_change [OF step] assms(2)])
  obtain q where q: "accept_prepared (in_hash_payload ing) now [] [] [] ?e ?x ?j = Inr q"
    using a by (auto simp: AcceptInboundEvent_def bind_result_Inr)
  have "fx_workspace ?x \<noteq> []" using accept_prepared_D(1) [of "in_hash_payload ing" now "[]" "[]" "[]" ?e ?x ?j] q by (cases q) auto
  moreover have "\<exists>d. marshalJSON (redact_object p) = Inr d"
    using q unfolding accept_prepared_def Let_def
    by (simp split: if_splits) (auto simp: bind_result_Inr ingress_event_def split: if_splits)
  ultimately have "settled ing env r target p db'"
    using accepted_present [OF a ok] ingress_event_identity [of "in_sha256 ing" now "in_retention ing" "fresh (n + 1)" r env p]
    by (auto simp: settled_def t ingress_execution_def execution_key_def)
  then show ?thesis using step ok by simp
qed

lemma accept_payload_again:
  assumes "settled ing env r target p db" "runtime_ok db"
  shows "\<exists>x. accept_payload ing now fresh n env r target p db = Inr (x, False, db)"
proof -
  obtain cat v cn where t: "target = (cat, v, cn)" by (cases target)
  let ?x = "ingress_execution (in_sha256 ing) (fresh n) r v cn cat env (actionIdentity (en_event env) (en_delivery env) p)"
  let ?e = "ingress_event (in_sha256 ing) now (in_retention ing) (fresh (n + 1)) r env p"
  let ?j = "ingress_job (fresh (n + 2)) (fx_id ?x) r"
  obtain d1 d2 where d: "marshalJSON (redact_object p) = Inr d1" "marshalJSON (job_payload ?j) = Inr d2"
    using assms(1) ingress_job_marshals unfolding settled_def by blast
  have "\<exists>q. accept_prepared (in_hash_payload ing) now [] [] [] ?e ?x ?j = Inr q"
    by (rule accept_prepared_Inr [of _ _ _ d1 d2])
      (use d assms(1) in \<open>simp_all add: ingress_event_def ingress_execution_def settled_def\<close>, simp add: ingress_job_def or_default_def)
  then obtain q where q: "accept_prepared (in_hash_payload ing) now [] [] [] ?e ?x ?j = Inr q" ..
  obtain x where x: "x \<in> set (rd_executions db)" "execution_key x = execution_key ?x"
    using assms(1) by (auto simp: settled_def t execution_key_def ingress_execution_def)
  obtain e where e: "e \<in> set (rd_events db)" "delivery_identity e = delivery_identity ?e"
    using assms(1) unfolding settled_def ingress_event_identity [of _ now] by blast
  have "AcceptInboundEvent (in_hash_payload ing) now [] [] [] ?e ?x ?j db = Inr (x, False, db)"
    by (rule accept_known [OF assms(2) q x e])
  then show ?thesis by (simp add: accept_payload_def t Let_def)
qed

text \<open>The counters of an answer, with every accepted payload counted as a duplicate.\<close>

definition as_duplicates :: "ingress_result \<Rightarrow> ingress_result" where
  "as_duplicates res = res\<lparr>ir_accepted := 0, ir_duplicates := ir_accepted res + ir_duplicates res\<rparr>"

lemma as_duplicates_simps:
  "as_duplicates (ignored res) = ignored (as_duplicates res)" "as_duplicates no_result = no_result"
  "as_duplicates (res\<lparr>ir_accepted := ir_accepted res + 1\<rparr>) = (as_duplicates res)\<lparr>ir_duplicates := ir_duplicates (as_duplicates res) + 1\<rparr>"
  "as_duplicates (res\<lparr>ir_duplicates := ir_duplicates res + 1\<rparr>) = (as_duplicates res)\<lparr>ir_duplicates := ir_duplicates (as_duplicates res) + 1\<rparr>"
  "as_duplicates (res\<lparr>ir_ignored := i\<rparr>) = (as_duplicates res)\<lparr>ir_ignored := i\<rparr>"
  "ir_ignored (as_duplicates res) = ir_ignored res"
  by (simp_all add: as_duplicates_def ignored_def no_result_def)

lemma accept_payloads_settle:
  "accept_payloads ing now fresh n env r target ps res db = (Inr y, db') \<Longrightarrow> runtime_ok db \<Longrightarrow>
   runtime_history db db' \<and> runtime_ok db' \<and> (\<forall>p \<in> set ps. settled ing env r target p db')"
proof (induction ps arbitrary: n res db)
  case (Cons p ps)
  then obtain x c db1 where a: "accept_payload ing now fresh n env r target p db = Inr (x, c, db1)"
    by (auto split: sum.splits)
  have s: "runtime_step db db1" "runtime_ok db1" "settled ing env r target p db1"
    using accept_payload_settles [OF a Cons.prems(2)] by simp_all
  then have IH: "runtime_history db1 db' \<and> runtime_ok db' \<and> (\<forall>p \<in> set ps. settled ing env r target p db')"
    using Cons.prems(1) a by (intro Cons.IH) (auto split: if_splits)
  then show ?case using s settled_history [of db1 db'] by (auto intro: converse_rtranclp_into_rtranclp)
qed simp

lemma accept_payloads_again:
  "accept_payloads ing now fresh n env r target ps res db = (Inr (m, res'), db') \<Longrightarrow>
   (\<forall>p \<in> set ps. settled ing env r target p db2) \<Longrightarrow> runtime_ok db2 \<Longrightarrow>
   \<exists>m2. accept_payloads ing now2 fresh2 n2 env r target ps (as_duplicates res) db2 = (Inr (m2, as_duplicates res'), db2)"
proof (induction ps arbitrary: n n2 res db)
  case (Cons p ps)
  obtain x c db1 where a: "accept_payload ing now fresh n env r target p db = Inr (x, c, db1)"
    using Cons.prems(1) by (auto split: sum.splits)
  obtain x2 where a2: "accept_payload ing now2 fresh2 n2 env r target p db2 = Inr (x2, False, db2)"
    using accept_payload_again [of ing env r target p db2] Cons.prems(2,3) by (meson list.set_intros(1))
  let ?res = "if c then res\<lparr>ir_accepted := ir_accepted res + 1\<rparr> else res\<lparr>ir_duplicates := ir_duplicates res + 1\<rparr>"
  have "accept_payloads ing now fresh (n + 3) env r target ps ?res db1 = (Inr (m, res'), db')"
    using Cons.prems(1) a by simp
  then have "\<exists>m2. accept_payloads ing now2 fresh2 (n2 + 3) env r target ps (as_duplicates ?res) db2 = (Inr (m2, as_duplicates res'), db2)"
    using Cons.prems(2,3) by (intro Cons.IH) auto
  then show ?case using a2 by (cases c) (simp_all add: as_duplicates_simps)
qed simp

text \<open>Every payload of every route that is for the event is settled.\<close>

definition all_settled :: "ingress \<Rightarrow> gitlab_envelope \<Rightarrow> control_db \<Rightarrow> hook_route list \<Rightarrow> runtime_db \<Rightarrow> bool" where
  "all_settled ing env control rs db \<longleftrightarrow>
     (\<forall>r \<in> set rs. \<forall>target. route_target ing env control r = Inr (Some target) \<longrightarrow>
        (\<forall>p \<in> set (eventPayloads env). settled ing env r target p db))"

lemma accept_routes_settle:
  "accept_routes ing now fresh n env control rs matched res db = (Inr y, db') \<Longrightarrow> runtime_ok db \<Longrightarrow>
   runtime_history db db' \<and> runtime_ok db' \<and> all_settled ing env control rs db'"
proof (induction rs arbitrary: n matched res db)
  case Nil
  then show ?case by (simp add: all_settled_def)
next
  case (Cons r rs)
  show ?case
  proof (cases "route_target ing env control r")
    case (Inl e)
    then show ?thesis using Cons.prems(1) by simp
  next
    case (Inr t)
    show ?thesis
    proof (cases "t = None \<or> eventPayloads env = []")
      case True
      then have "accept_routes ing now fresh n env control rs matched (ignored res) db = (Inr y, db')"
        using Cons.prems(1) Inr by (auto split: option.splits)
      from Cons.IH [OF this Cons.prems(2)] show ?thesis using True Inr by (auto simp: all_settled_def)
    next
      case False
      then obtain target where t: "t = Some target" by auto
      then obtain m res1 db1 where p: "accept_payloads ing now fresh n env r target (eventPayloads env) res db = (Inr (m, res1), db1)"
        and rest: "accept_routes ing now fresh m env control rs True res1 db1 = (Inr y, db')"
        using Cons.prems(1) Inr False by (auto split: prod.splits sum.splits)
      have s: "runtime_history db db1" "runtime_ok db1" "\<forall>p \<in> set (eventPayloads env). settled ing env r target p db1"
        using accept_payloads_settle [OF p Cons.prems(2)] by simp_all
      have h: "runtime_history db1 db'" "runtime_ok db'" "all_settled ing env control rs db'"
        using Cons.IH [OF rest s(2)] by simp_all
      have "\<forall>p \<in> set (eventPayloads env). settled ing env r target p db'"
        using s(3) settled_history [OF h(1)] by blast
      then show ?thesis using h s(1) Inr t by (auto simp: all_settled_def)
    qed
  qed
qed

lemma accept_routes_again:
  "accept_routes ing now fresh n env control rs matched res db = (Inr (b, res'), db') \<Longrightarrow>
   all_settled ing env control rs db2 \<Longrightarrow> runtime_ok db2 \<Longrightarrow>
   accept_routes ing now2 fresh2 n2 env control rs matched (as_duplicates res) db2 = (Inr (b, as_duplicates res'), db2)"
proof (induction rs arbitrary: n n2 matched res db)
  case (Cons r rs)
  have rs: "all_settled ing env control rs db2" using Cons.prems(2) by (simp add: all_settled_def)
  show ?case
  proof (cases "route_target ing env control r")
    case (Inl e)
    then show ?thesis using Cons.prems(1) by simp
  next
    case (Inr t)
    show ?thesis
    proof (cases "t = None \<or> eventPayloads env = []")
      case True
      then have "accept_routes ing now fresh n env control rs matched (ignored res) db = (Inr (b, res'), db')"
        using Cons.prems(1) Inr by (auto split: option.splits)
      from Cons.IH [OF this rs Cons.prems(3), of n2] show ?thesis
        using True Inr by (auto simp: as_duplicates_simps split: option.splits)
    next
      case False
      then obtain target where t: "t = Some target" by auto
      then obtain m res1 db1 where p: "accept_payloads ing now fresh n env r target (eventPayloads env) res db = (Inr (m, res1), db1)"
        and rest: "accept_routes ing now fresh m env control rs True res1 db1 = (Inr (b, res'), db')"
        using Cons.prems(1) Inr False by (auto split: prod.splits sum.splits)
      have "\<forall>p \<in> set (eventPayloads env). settled ing env r target p db2"
        using Cons.prems(2) Inr [unfolded t] list.set_intros(1) [of r rs] unfolding all_settled_def by blast
      from accept_payloads_again [OF p this Cons.prems(3), of now2 fresh2 n2]
      obtain m2 where "accept_payloads ing now2 fresh2 n2 env r target (eventPayloads env) (as_duplicates res) db2 =
          (Inr (m2, as_duplicates res1), db2)" ..
      then show ?thesis using Inr t False Cons.IH [OF rest rs Cons.prems(3), of m2] by simp
    qed
  qed
qed simp

lemma verify_loop_none:
  "verify_loop get valid checked rs = Inr vs \<Longrightarrow>
   verify_loop get (\<lambda>_. False) (map (\<lambda>(k, h, _). (k, h, False)) checked) rs = Inr []"
proof (induction get valid checked rs arbitrary: vs rule: verify_loop.induct)
  case (2 get valid checked r rs)
  have m: "map_of (map (\<lambda>(k, h, _). (k, h, False)) checked) x = map_option (\<lambda>(h, _). (h, False)) (map_of checked x)" for x
    by (induction checked) auto
  show ?case
  proof (cases "map_of checked (hook_text r)")
    case None
    then obtain h us where "get (hr_workspace r) (hr_hook r) = Inr h"
      "verify_loop get valid ((hook_text r, h, valid h) # checked) rs = Inr us"
      using 2(3) by (auto simp: bind_result_Inr)
    then show ?thesis using 2(1) [OF None] None m by simp
  next
    case (Some ho)
    obtain h ok where ho: "ho = (h, ok)" by (cases ho)
    then obtain us where "verify_loop get valid checked rs = Inr us"
      using 2(3) Some by (auto simp: bind_result_Inr)
    then show ?thesis using 2(2) [OF Some ho [symmetric]] Some ho m by simp
  qed
qed simp

lemma hook_valid_window:
  "hook_valid secrets sha256 now maxAge env h \<longleftrightarrow>
     in_window now maxAge (en_timestamp env) \<and>
     (\<exists>ref secret key. hk_signing h = Some ref \<and> secrets ref = Inr secret \<and> signing_key secret = Some key \<and>
        want_signature sha256 key (en_delivery env) (en_timestamp env) (en_body env) \<in> set (str_fields (en_signature env)))"
  by (auto simp: hook_valid_def verifySignature_def list_ex_iff split: option.splits sum.splits)

text \<open>Later the same signature is valid for the same hooks, or for none.\<close>

lemma verifyRoutes_later:
  assumes "verifyRoutes secrets sha256 now maxAge env control routes = Inr vs" "vs \<noteq> []"
  shows "verifyRoutes secrets sha256 now2 maxAge env control routes \<in> {Inr vs, Inr []}"
proof (cases "in_window now2 maxAge (en_timestamp env)")
  case False
  then have "hook_valid secrets sha256 now2 maxAge env = (\<lambda>_. False)" by (auto simp: hook_valid_window)
  then show ?thesis using verify_loop_none [OF assms(1) [unfolded verifyRoutes_def]] by (simp add: verifyRoutes_def)
next
  case True
  have "in_window now maxAge (en_timestamp env)"
  proof (rule ccontr)
    assume "\<not> in_window now maxAge (en_timestamp env)"
    then have v: "hook_valid secrets sha256 now maxAge env = (\<lambda>_. False)" by (auto simp: hook_valid_window)
    have "verify_loop (\<lambda>w i. GetHook w i control) (\<lambda>_. False) [] routes = Inr vs"
      using assms(1) by (simp add: verifyRoutes_def v)
    then show False using verify_loop_none [of "\<lambda>w i. GetHook w i control" "\<lambda>_. False" "[]" routes vs] assms(2) by simp
  qed
  then have "hook_valid secrets sha256 now2 maxAge env = hook_valid secrets sha256 now maxAge env"
    using True by (auto simp: hook_valid_window)
  then show ?thesis using assms(1) by (simp add: verifyRoutes_def)
qed

lemma runtime_ok_view [simp]: "runtime_ok (runtime_view control db) = runtime_ok db"
  by (simp add: runtime_ok_def runtime_view_def)

lemma all_settled_view [simp]: "all_settled ing env control rs (runtime_view control db) = all_settled ing env control rs db"
  by (simp add: all_settled_def settled_def runtime_view_def)

lemma all_settled_history:
  "runtime_history db db' \<Longrightarrow> all_settled ing env control rs db \<Longrightarrow> all_settled ing env control rs db'"
  unfolding all_settled_def by (blast intro: settled_history)

text \<open>The rows of a state, without the keys of the control tables it refers to.\<close>

definition rows_of :: "runtime_db \<Rightarrow> inbound_event list \<times> flow_execution list \<times> node_execution list \<times> job list" where
  "rows_of db = (rd_events db, rd_executions db, rd_nodes db, rd_jobs db)"

lemma rows_of_view [simp]: "rows_of (runtime_view control db) = rows_of db"
  by (simp add: rows_of_def runtime_view_def)

section \<open>A delivery\<close>

definition sample_ingress :: ingress where
  "sample_ingress = \<lparr>in_resolve = \<lambda>_. Inr (NewCatalog [bh_def_gitlab_issue_hook] [] []),
     in_secrets = \<lambda>_. Inr ''t'', in_sha256 = take 2, in_hash_payload = \<lambda>_. ''h'', in_max_age = 300, in_retention = 100\<rparr>"

definition sample_delivery :: gitlab_envelope where
  "sample_delivery = \<lparr>en_event = issue_event, en_delivery = ''d1'', en_timestamp = ''9'',
     en_signature = want_signature (take 2) ''t'' ''d1'' ''9'' [], en_instance = ''g'', en_project = ''7'', en_path = [],
     en_payload = [(''object_kind'', VStr ''issue''), (''object_attributes'', VObj [(''action'', VStr ''open''),
       (''labels'', VArr [VObj [(''title'', VStr ''change'')]])])], en_body = []\<rparr>"

definition issue_route :: hook_route where
  "issue_route = (sample_route ''r1'' 1)\<lparr>hr_behavior_key := ''gitlab.issue-hook''\<rparr>"

definition issue_control :: control_db where
  "issue_control = sample_control\<lparr>cb_routes := [issue_route]\<rparr>"

definition sample_accepted :: "(gerr + bool \<times> ingress_result) \<times> runtime_db" where
  "sample_accepted = accept_routes sample_ingress (unix_time 9) dec_nat 0 sample_delivery issue_control [issue_route] False
     no_result (runtime_view issue_control sample_runtime)"

lemma sample_accepted_result: "fst sample_accepted = Inr (True, no_result\<lparr>ir_accepted := 1\<rparr>)"
  by code_simp

lemma sample_listed: "ListHookRoutesForProject ''g'' ''7'' issue_control = Inr [issue_route]"
  by (simp add: ListHookRoutesForProject_def issue_control_def issue_route_def sample_control_def sample_route_def live_route_def
      sample_connection_def source_ref_def published_flows_def sample_flows_def new_flow_def read_route_def unmarshalJSON_def)

lemma sample_window: "in_window (unix_time 9) 300 ''9'' \<and> signing_key ''t'' = Some ''t''"
  by code_simp

definition signed_hook :: hook where
  "signed_hook = sample_hook\<lparr>hk_signing := Some \<lparr>secret_id = ''s'', secret_workspace = ''w'', secret_alias = [], secret_kind = []\<rparr>\<rparr>"

lemma sample_verified:
  "verifyRoutes (in_secrets sample_ingress) (in_sha256 sample_ingress) (unix_time 9) (in_max_age sample_ingress) sample_delivery
     issue_control [issue_route] = Inr [(issue_route, signed_hook)]"
proof -
  have "hook_valid (in_secrets sample_ingress) (in_sha256 sample_ingress) (unix_time 9) 300 sample_delivery signed_hook"
    using sample_window str_fields_one [OF want_signature_spaceless, of "take 2" "''t''" "''d1''" "''9''" "[]"]
    by (simp add: hook_valid_window sample_ingress_def sample_delivery_def signed_hook_def want_signature_def)
  moreover have "GetHook (hr_workspace issue_route) (hr_hook issue_route) issue_control = Inr signed_hook"
    by (simp add: GetHook_def issue_route_def sample_route_def issue_control_def sample_control_def sample_hook_def signed_hook_def joined_ref_def id_ref_def)
  ultimately show ?thesis by (simp add: verifyRoutes_def) (simp add: sample_ingress_def)
qed

lemma sample_ingress_accept:
  "accept sample_ingress (unix_time 9) dec_nat sample_delivery issue_control sample_runtime =
     (Inr (no_result\<lparr>ir_accepted := 1\<rparr>), snd sample_accepted)"
proof -
  have "en_instance sample_delivery = ''g''" "en_project sample_delivery = ''7''" by (simp_all add: sample_delivery_def)
  moreover have "accept_routes sample_ingress (unix_time 9) dec_nat 0 sample_delivery issue_control [issue_route] False
     no_result (runtime_view issue_control sample_runtime) = (Inr (True, no_result\<lparr>ir_accepted := 1\<rparr>), snd sample_accepted)"
    using sample_accepted_result by (metis prod.collapse sample_accepted_def)
  ultimately show ?thesis by (simp add: accept_def sample_listed sample_verified)
qed

text \<open>
  C8: tenants stay apart: whatever a delivery says, every event it adds names the workspace and the
  connection of a route that is listed for its project and whose own hook verifies its signature, every
  execution it adds also names the flow of that route and its published version, and each new execution
  has one new job, a queued \<open>flow.execute\<close> of its workspace whose payload names that execution and its
  connection; a delivery that no listed hook verifies adds nothing, and node executions are
  never touched. (Workspace identifiers contain no colon, as the generated ones.)
\<close>

theorem accept_isolated:
  assumes "accept ing now fresh env control db = (result, db')"
    "\<forall>r \<in> set (cb_routes control). CHR '':'' \<notin> set (hr_workspace r)"
  shows "\<exists>es xs js. rd_events db' = rd_events db @ es \<and> rd_executions db' = rd_executions db @ xs \<and>
    rd_jobs db' = rd_jobs db @ js \<and> rd_nodes db' = rd_nodes db \<and> list_all2 queued_for xs js \<and>
    (\<forall>e \<in> set es. \<exists>r. admitted ing now env control r \<and> event_of r e) \<and>
    (\<forall>x \<in> set xs. \<exists>r. admitted ing now env control r \<and> execution_of control r x)"
  using accept_rows [OF assms] unfolding added_for_def rows_added_def .

theorem accept_isolated_witness:
  "\<exists>es xs. rd_events (snd sample_accepted) = es \<and> rd_executions (snd sample_accepted) = xs \<and>
     \<not> (\<exists>e. e \<in> set es \<and> \<not> (\<exists>r. admitted sample_ingress (unix_time 9) sample_delivery issue_control r \<and> event_of r e))"
proof -
  have "\<forall>r \<in> set (cb_routes issue_control). CHR '':'' \<notin> set (hr_workspace r)"
    by (simp add: issue_control_def issue_route_def sample_route_def)
  moreover have "rd_events sample_runtime = []" by (simp add: sample_runtime_def)
  ultimately show ?thesis using accept_isolated [OF sample_ingress_accept] by auto
qed

text \<open>
  C9: a webhook delivered again does nothing, as long as routes, hooks, flows, versions, secrets and
  catalogs are those of the first time: after a delivery was answered, whatever the runtime does in
  between - workers, retries, other deliveries, purges - and whenever it arrives, the same request is
  either refused, its signature being too old by then, or answered with every payload it had then
  accepted now counted as a duplicate and the same number ignored; in both cases no event, execution,
  node or job is added or changed. (After a new version was published the key of the action is
  another one, and the delivery can be accepted once more; that is outside this statement.)
\<close>

theorem accept_replay:
  assumes "runtime_ok db" "accept ing now fresh env control db = (Inr res, db1)" "runtime_history db1 db2"
    "accept ing now2 fresh2 env control db2 = (result, db3)"
  shows "rows_of db3 = rows_of db2 \<and>
    (case result of
       Inl e \<Rightarrow> err_is e ErrForbidden
     | Inr res2 \<Rightarrow> ir_accepted res2 = 0 \<and> ir_duplicates res2 = ir_accepted res + ir_duplicates res \<and>
         ir_ignored res2 = ir_ignored res)"
proof -
  obtain routes where routes: "ListHookRoutesForProject (en_instance env) (en_project env) control = Inr routes"
    using assms(2) by (auto simp: accept_def split: sum.splits)
  show ?thesis
  proof (cases "routes = []")
    case True
    then show ?thesis using assms(2,4) routes by (auto simp: accept_def no_result_def)
  next
    case False
    then obtain vs where vs: "verifyRoutes (in_secrets ing) (in_sha256 ing) now (in_max_age ing) env control routes = Inr vs" "vs \<noteq> []"
      using assms(2) routes by (auto simp: accept_def split: sum.splits if_splits)
    obtain m res0 where a: "accept_routes ing now fresh 0 env control (map fst vs) False no_result (runtime_view control db) =
        (Inr (m, res0), db1)" and res: "res = (if \<not> m \<and> ir_ignored res0 = 0 then res0\<lparr>ir_ignored := 1\<rparr> else res0)"
      using assms(2) routes False vs by (auto simp: accept_def split: prod.splits sum.splits)
    have s: "runtime_ok db1" "all_settled ing env control (map fst vs) db1"
      using accept_routes_settle [OF a] assms(1) by simp_all
    have s2: "runtime_ok db2" "all_settled ing env control (map fst vs) db2"
      using history_ok [OF assms(3) s(1)] all_settled_history [OF assms(3) s(2)] by simp_all
    have again: "accept_routes ing now2 fresh2 0 env control (map fst vs) False no_result (runtime_view control db2) =
        (Inr (m, as_duplicates res0), runtime_view control db2)"
      using accept_routes_again [OF a, of "runtime_view control db2" now2 fresh2 0] s2 by (simp add: as_duplicates_simps)
    consider "verifyRoutes (in_secrets ing) (in_sha256 ing) now2 (in_max_age ing) env control routes = Inr vs"
      | "verifyRoutes (in_secrets ing) (in_sha256 ing) now2 (in_max_age ing) env control routes = Inr []"
      using verifyRoutes_later [OF vs] by blast
    then show ?thesis
    proof cases
      case 1
      then show ?thesis using assms(4) routes False vs(2) again res
        by (auto simp: accept_def as_duplicates_def)
    next
      case 2
      then show ?thesis using assms(4) routes False by (auto simp: accept_def)
    qed
  qed
qed

theorem accept_replay_witness:
  "\<exists>result. accept sample_ingress (unix_time 9) dec_nat sample_delivery issue_control (snd sample_accepted) = result \<and>
     rows_of (snd result) = rows_of (snd sample_accepted)"
  using accept_replay [OF sample_runtime_ok sample_ingress_accept rtranclp.rtrancl_refl surjective_pairing] by blast

end
