(* ===== verification/Executor.thy ===== *)
theory Executor
  imports AuditTrail Effects Ingress Simulation
begin

text \<open>
  The flow executor and its worker, \<open>runtime/executor.go\<close>: one run of a stored version over the tables.
  The providers are parameters that answer a call from the calls made before it, so a call may succeed
  once and fail the next time. A run sees one state of the control tables and one instant \<open>ex_now\<close>, and
  is taken as one step; what it does to the tables and the calls it makes are in the state \<open>world\<close>.
\<close>

section \<open>Errors of a node\<close>

definition classifyNodeError :: "exec_err \<Rightarrow> string \<times> string" where
  "classifyNodeError e =
     (if is_skip e then (''skipped'', NodeSkipped)
      else if is_reconcile e then (''reconciliation-required'', NodeIndeterminate)
      else case provider_category e of
             Some category \<Rightarrow>
               (category, if category = ErrorIndeterminate \<or> category = ErrorTimeout then NodeIndeterminate else NodeFailed)
           | None \<Rightarrow>
               if exec_is e ErrInvalid then (''validation'', NodeFailed)
               else if exec_is e ErrNotFound then (''not-found'', NodeFailed)
               else (''internal'', NodeFailed))"

definition safeError :: "exec_err \<Rightarrow> string" where
  "safeError e = (let message = exec_text e in if length message > 1000 then take 1000 message else message)"

definition isRetryableExecutionError :: "exec_err \<Rightarrow> bool" where
  "isRetryableExecutionError e =
     (case provider_category e of Some category \<Rightarrow> Retryable category | None \<Rightarrow> is_reconcile e)"

section \<open>The world of a run\<close>

record issue_input =
  ii_project :: string
  ii_title :: string
  ii_description :: string
  ii_status :: string
  ii_assignee :: string
  ii_key :: string

record issue_result =
  is_issue :: string
  is_project :: string
  is_request :: string

datatype provider_call =
    CallCreateIssue endpoint issue_input
  | CallSetIssueStatus endpoint string string
  | CallNoteIssue endpoint project_ref int string
  | CallCloseIssue endpoint project_ref int

record world =
  w_store :: correlation_db
  w_audit :: audit_db
  w_calls :: "provider_call list"
  w_next :: nat

record executor =
  ex_control :: control_db
  ex_resolve :: "ID \<Rightarrow> gerr + catalog"
  ex_now :: gtime
  ex_fresh :: "nat \<Rightarrow> ID"
  ex_retention :: int
  ex_credentials :: "(secret_ref \<Rightarrow> gerr + string) option"
  ex_create :: "provider_call list \<Rightarrow> exec_err + issue_result"
  ex_status :: "provider_call list \<Rightarrow> exec_err + string"
  ex_note :: "provider_call list \<Rightarrow> (secret_ref \<times> string) option \<Rightarrow> exec_err + unit"
  ex_close :: "provider_call list \<Rightarrow> (secret_ref \<times> string) option \<Rightarrow> exec_err + unit"

text \<open>A part of a run of the executor. A call is appended, then answered.\<close>

type_synonym 'a run = "(world, 'a) proc"

definition peek :: "(correlation_db \<Rightarrow> gerr + 'a) \<Rightarrow> 'a run" where
  "peek f w = look (f (w_store w)) w"

definition change :: "(correlation_db \<Rightarrow> gerr + correlation_db) \<Rightarrow> unit run" where
  "change f w = (case f (w_store w) of Inl e \<Rightarrow> (Inl (EErr e), w) | Inr db \<Rightarrow> (Inr (), w\<lparr>w_store := db\<rparr>))"

definition on_runtime :: "(runtime_db \<Rightarrow> gerr + runtime_db) \<Rightarrow> correlation_db \<Rightarrow> gerr + correlation_db" where
  "on_runtime f db = bind_result (f (cd_runtime db)) (\<lambda>r. Inr (db\<lparr>cd_runtime := r\<rparr>))"

definition invoke :: "(provider_call list \<Rightarrow> exec_err + 'a) \<Rightarrow> provider_call \<Rightarrow> 'a run" where
  "invoke answer call w = (let calls = w_calls w @ [call] in (answer calls, w\<lparr>w_calls := calls\<rparr>))"

definition new_id :: "executor \<Rightarrow> ID run" where
  "new_id env w = (Inr (ex_fresh env (w_next w)), w\<lparr>w_next := w_next w + 1\<rparr>)"

definition store_execution :: "executor \<Rightarrow> flow_execution \<Rightarrow> unit run" where
  "store_execution env x = change (on_runtime (UpdateFlowExecution (ex_now env) x))"

text \<open>\<open>_ = e.store.UpdateFlowExecution(...)\<close>: the error is dropped.\<close>

definition try_store :: "executor \<Rightarrow> flow_execution \<Rightarrow> world \<Rightarrow> world" where
  "try_store env x w = snd (store_execution env x w)"

definition failExecution :: "executor \<Rightarrow> flow_execution \<Rightarrow> string \<Rightarrow> exec_err \<Rightarrow> 'a run" where
  "failExecution env x category e w =
     (Inl e, try_store env (x\<lparr>fx_status := ExecutionFailed, fx_error_category := category, fx_error_message := safeError e\<rparr>) w)"

definition recordProviderEffect ::
  "executor \<Rightarrow> flow_execution \<Rightarrow> string \<Rightarrow> string \<Rightarrow> string \<Rightarrow> string \<Rightarrow> exec_err option \<Rightarrow> world \<Rightarrow> world" where
  "recordProviderEffect env x action outcome requestID external effectErr w =
     (let payload = [(''workspace_id'', VNamed (fx_workspace x)), (''flow_id'', VNamed (fx_flow x)),
            (''flow_version'', VInt KInt (fx_version x)), (''provider_request_id'', VStr requestID),
            (''external_id'', VStr external), (''outcome'', VStr outcome)] @
            (case effectErr of None \<Rightarrow> [] | Some e \<Rightarrow> [(''error'', VStr (safeError e))]);
          event = \<lparr>au_id = ex_fresh env (w_next w), au_workspace = fx_workspace x, au_actor = [], au_action = action,
            au_entity_type = ''flow_execution'', au_entity = fx_id x, au_payload = payload, au_created = 0\<rparr>;
          w1 = w\<lparr>w_next := w_next w + 1\<rparr>
      in case CreateAuditEvent (ex_now env) [] event (w_audit w1) of Inl e \<Rightarrow> w1 | Inr db \<Rightarrow> w1\<lparr>w_audit := db\<rparr>)"

text \<open>A call with its entry in the audit trail, whatever comes of it: what the entry names is \<open>external\<close>.\<close>

definition audited ::
  "executor \<Rightarrow> flow_execution \<Rightarrow> string \<Rightarrow> string \<Rightarrow> ('a \<Rightarrow> string) \<Rightarrow> 'a run \<Rightarrow> 'a run" where
  "audited env x action external requestID call =
     branch call
       (\<lambda>e w. (Inl e, recordProviderEffect env x action ''failed'' [] external (Some e) w))
       (\<lambda>r w. (Inr r, recordProviderEffect env x action ''succeeded'' (requestID r) external None w))"

section \<open>Connector outputs\<close>

definition ResolveForConnection ::
  "(secret_ref \<Rightarrow> gerr + string) \<Rightarrow> control_db \<Rightarrow> connection \<Rightarrow> gerr + (secret_ref \<times> string) option" where
  "ResolveForConnection vault control c =
     (let group = proj_group (cn_source c); i = proj_instance (cn_source c);
          of_group = (if group = [] then Inr None
                      else case GetGitLabGroupBindingByGroup (cn_workspace c) i group (cb_endpoints control) of
                             Inr b \<Rightarrow> Inr (gb_credential b)
                           | Inl e \<Rightarrow> if err_is e ErrNotFound then Inr None else Inl e)
      in bind_result of_group (\<lambda>ref0.
         bind_result (case ref0 of
             Some r \<Rightarrow> Inr (Some r)
           | None \<Rightarrow> bind_result (GetGitLabInstance (cn_workspace c) i (cb_endpoints control)) (\<lambda>g. Inr (ep_credential g)))
           (\<lambda>ref. case ref of
                None \<Rightarrow> Inr None
              | Some r \<Rightarrow> bind_result (vault r) (\<lambda>material. Inr (Some (r, material))))))"

definition resolveConnectorBinding :: "binding \<Rightarrow> connection \<Rightarrow> runtime_context \<Rightarrow> gerr + gval" where
  "resolveConnectorBinding b c rc =
     (if bind_kind b = BindingConnectionRef then
        (if bind_ref b = ''$connection.target_project'' then Inr (VStr (proj_external (cn_target c)))
         else if bind_ref b = ''$connection.source_project'' then Inr (VStr (proj_external (cn_source c)))
         else fail ErrInvalid (''unsupported Connection reference '' @ bind_ref b))
      else if bind_kind b = BindingFixed then Inr (bind_value b)
      else if bind_kind b = BindingRuntimeRef then
        (if bind_ref b = ''$runtime.flow_execution_id'' then Inr (VNamed (rc_execution rc))
         else fail ErrInvalid (''unsupported runtime reference '' @ bind_ref b))
      else fail ErrInvalid ''connector project binding must be a safe reference'')"



text \<open>The default description, in UTF-8: created automatically from a GitLab change issue.\<close>

definition buildIssueDescription :: "connection \<Rightarrow> gobj \<Rightarrow> string" where
  "buildIssueDescription c input =
     ''[SpecWire Backlog] '' @ [CHR 0xE7, CHR 0x94, CHR 0xB1] @ '' GitLab change Issue '' @
     [CHR 0xE8, CHR 0x87, CHR 0xAA, CHR 0xE5, CHR 0x8A, CHR 0xA8, CHR 0xE5, CHR 0x88, CHR 0x9B, CHR 0xE5, CHR 0xBB, CHR 0xBA,
      CHR 0xE3, CHR 0x80, CHR 0x82, CHR 0x0A, CHR 0x0A] @
     ''repository: '' @ proj_full_path (cn_source c) @ [CHR 0x0A] @
     ''change_id: '' @ rt_stringValue (obj_get input ''change_id'') @ [CHR 0x0A] @
     ''branch: '' @ rt_stringValue (obj_get input ''branch'') @ [CHR 0x0A] @
     ''branch_head_sha: '' @ rt_stringValue (obj_get input ''branch_head_sha'') @ [CHR 0x0A] @
     ''target_branch: '' @ trim_prefix (firstNonEmpty [rt_stringValue (obj_get input ''target_ref''), main_ref]) ''refs/heads/'' @
     [CHR 0x0A]"

text \<open>\<open>createIssue\<close>: the identity of a change is looked up first; a new issue is correlated with it.\<close>

definition change_key :: "connection \<Rightarrow> flow_execution \<Rightarrow> string \<Rightarrow> ID \<times> ID \<times> ID \<times> string \<times> string" where
  "change_key c x changeID = (cn_workspace c, cn_id c, fx_flow x, proj_external (cn_source c), changeID)"

definition new_correlation :: "ID \<Rightarrow> connection \<Rightarrow> flow_execution \<Rightarrow> string \<Rightarrow> gobj \<Rightarrow> issue_result \<Rightarrow> correlation" where
  "new_correlation i c x changeID input r =
     (let issueIID = rt_intValue (obj_get input ''issue_iid'')
      in \<lparr>co_id = i, co_workspace = cn_workspace c, co_connection = cn_id c, co_flow = fx_flow x,
          co_source = proj_external (cn_source c), co_issue = issueIID, co_issues = [issueIID], co_publication = changeID,
          co_target = is_issue r, co_execution = fx_id x, co_request = is_request r, co_lifecycle = [], co_created = 0\<rparr>)"

definition create_new_issue ::
  "executor \<Rightarrow> endpoint \<Rightarrow> string \<Rightarrow> gobj \<Rightarrow> flow_execution \<Rightarrow> connection \<Rightarrow> string \<Rightarrow> gobj run" where
  "create_new_issue env i projectID input x c changeID =
     (let title = firstNonEmpty [rt_stringValue (obj_get input ''title''), ''[SpecWire] '' @ changeID];
          status = firstNonEmpty [rt_stringValue (obj_get input ''status''), ''backlog''];
          description = firstNonEmpty [rt_stringValue (obj_get input ''description''), buildIssueDescription c input];
          issue = \<lparr>ii_project = projectID, ii_title = title, ii_description = description, ii_status = status,
                   ii_assignee = rt_stringValue (obj_get input ''assignee''), ii_key = fx_key x\<rparr>
      in if status \<noteq> ''backlog'' \<and> status \<noteq> ''todo''
         then stop (EErr (GErr ErrInvalid (''unsupported Multica status '' @ go_quote status)))
         else seq (audited env x ''provider.multica.issue.create'' projectID is_request
                     (invoke (ex_create env) (CallCreateIssue i issue))) (\<lambda>r.
              if is_issue r = [] then stop (EErr (GErr ErrInvalid ''Multica adapter returned no issue ID''))
              else seq (new_id env) (\<lambda>newID.
                   seq (change (\<lambda>db. bind_result (UpsertCorrelation (ex_now env) [] (new_correlation newID c x changeID input r) db)
                                       (\<lambda>(stored, db'). Inr db'))) (\<lambda>_.
                   pass [(''issue_id'', VStr (is_issue r)), (''project_id'', VStr (firstNonEmpty [is_project r, projectID])),
                         (''provider_request_id'', VStr (is_request r)), (''correlation_id'', VStr (fx_correlation x))]))))"

definition createIssue ::
  "executor \<Rightarrow> endpoint \<Rightarrow> string \<Rightarrow> gobj \<Rightarrow> flow_execution \<Rightarrow> connection \<Rightarrow> gobj run" where
  "createIssue env i projectID input x c =
     (let changeID = rt_stringValue (obj_get input ''change_id'')
      in if changeID = [] then stop (EErr (GErr ErrInvalid ''Multica Create Issue requires change_id''))
         else branch (peek (GetCorrelation (change_key c x changeID)))
                (\<lambda>e. if exec_is e ErrNotFound then create_new_issue env i projectID input x c changeID else stop e)
                (\<lambda>existing. pass
                  [(''issue_id'', VStr (co_target existing)), (''project_id'', VStr projectID),
                   (''provider_request_id'', VStr (co_request existing)), (''correlation_id'', VStr (fx_correlation x)),
                   (''deduplicated'', VBool True)]))"

text \<open>\<open>completeIssue\<close>: what the event says of the change's life, and the status it asks for.\<close>

definition completion_lifecycle :: "gobj \<Rightarrow> gobj \<Rightarrow> string \<times> string" where
  "completion_lifecycle input payload =
     (let get = (\<lambda>k. firstNonEmpty [rt_stringValue (obj_get input k), rt_stringValue (obj_get payload k)]);
          event = get ''lifecycle_event''; reason = get ''lifecycle_reason''
      in if event \<noteq> [] then (event, reason)
         else case lifecycleTrailerForPayload payload of
                None \<Rightarrow> (event, reason)
              | Some t \<Rightarrow> (tr_event t, firstNonEmpty [reason, tr_reason t]))"

definition completion_status :: "gobj \<Rightarrow> string \<times> string \<Rightarrow> gerr + string" where
  "completion_status input life =
     (if fst life = ''abandoned'' \<and> blank (snd life) then fail ErrInvalid ''abandoned lifecycle reason is required''
      else let status = (if fst life = ''abandoned'' then ProjectionCancelled
                         else firstNonEmpty [rt_stringValue (obj_get input ''desired_status''), ''done''])
      in if status \<noteq> ProjectionDone \<and> status \<noteq> ProjectionCancelled
         then fail ErrInvalid (''unsupported projection lifecycle status '' @ go_quote status) else Inr status)"

definition projection_status :: "correlation \<Rightarrow> string" where
  "projection_status c = (if co_lifecycle c = [] then ProjectionActive else co_lifecycle c)"

text \<open>The correlations still active; one with a status that is none is an error.\<close>

definition active_correlations :: "correlation list \<Rightarrow> gerr + correlation list" where
  "active_correlations cs =
     (case List.find (\<lambda>c. \<not> valid_lifecycle (projection_status c)) cs of
        Some c \<Rightarrow> fail ErrInvalid (''correlation '' @ co_id c @ '' has invalid lifecycle status '' @ go_quote (projection_status c))
      | None \<Rightarrow> Inr (filter (\<lambda>c. projection_status c = ProjectionActive) cs))"

definition issue_numbers :: "correlation list \<Rightarrow> int list" where
  "issue_numbers cs = sort (remdups (filter (\<lambda>i. i > 0) (concat (map (\<lambda>c. co_issues c @ [co_issue c]) cs))))"

text \<open>\<open>requests\<close> is nil when no call was made.\<close>

definition completeIssueOutput :: "correlation list \<Rightarrow> string \<Rightarrow> string \<Rightarrow> string \<Rightarrow> string list option \<Rightarrow> gobj" where
  "completeIssueOutput cs key changeID status requests =
     [(''correlation_id'', VStr key), (''change_id'', VStr changeID), (''status'', VStr status),
      (''projection_count'', VInt KInt (int (length cs))), (''projection_ids'', VStrs (map co_target cs)),
      (''provider_request_ids'', case requests of None \<Rightarrow> VNil | Some ids \<Rightarrow> VStrs ids),
      (''issue_id'', VStr (co_target (hd cs)))] @
     (case requests of Some (i # ids) \<Rightarrow> [(''provider_request_id'', VStr i)] | _ \<Rightarrow> [])"

definition put_event :: "string \<Rightarrow> gobj \<Rightarrow> gobj" where
  "put_event event out = (if event \<noteq> [] then obj_set out ''lifecycle_event'' (VStr event) else out)"

definition terminal_output :: "correlation list \<Rightarrow> string \<Rightarrow> string \<Rightarrow> string \<Rightarrow> string \<Rightarrow> gobj" where
  "terminal_output cs key changeID status event =
     (let out1 = obj_set (obj_set (completeIssueOutput cs key changeID status None) ''terminal_guard'' (VBool True))
                   ''requested_status'' (VStr status);
          out2 = put_event event out1;
          statuses = remdups (map projection_status cs);
          out3 = (if length statuses = 1 then obj_set out2 ''status'' (VStr (hd statuses))
                  else if length statuses > 1 then obj_set out2 ''status'' (VStr ''mixed'') else out2)
      in obj_set (obj_set out3 ''gitlab_issue_note'' (VStr ''skipped_terminal'')) ''gitlab_issue_close'' (VStr ''skipped_terminal''))"

fun set_statuses ::
  "executor \<Rightarrow> endpoint \<Rightarrow> flow_execution \<Rightarrow> connection \<Rightarrow> string \<Rightarrow> correlation list \<Rightarrow> string list \<Rightarrow> string list run" where
  "set_statuses env i x c status [] ids = pass ids"
| "set_statuses env i x c status (co # cos) ids =
     seq (audited env x ''provider.multica.issue.status'' (co_target co) (\<lambda>r. r)
            (invoke (ex_status env) (CallSetIssueStatus i (co_target co) status))) (\<lambda>requestID.
     branch (change (MarkCorrelationLifecycle (cn_workspace c) (co_id co) status))
       (\<lambda>e. stop (EWrap (''mark correlation '' @ co_id co @ '' as '' @ status) e))
       (\<lambda>_. set_statuses env i x c status cos (if requestID \<noteq> [] then ids @ [requestID] else ids)))"

fun note_issues ::
  "executor \<Rightarrow> endpoint \<Rightarrow> flow_execution \<Rightarrow> project_ref \<Rightarrow> string \<Rightarrow> (secret_ref \<times> string) option \<Rightarrow> int list \<Rightarrow> bool \<Rightarrow> bool run" where
  "note_issues env i x p note credential [] failed = pass failed"
| "note_issues env i x p note credential (n # ns) failed =
     branch (audited env x ''provider.gitlab.issue.note'' (dec_int n) (\<lambda>_. [])
             (invoke (\<lambda>calls. ex_note env calls credential) (CallNoteIssue i p n note)))
       (\<lambda>_. note_issues env i x p note credential ns True)
       (\<lambda>_. note_issues env i x p note credential ns failed)"

fun close_issues ::
  "executor \<Rightarrow> endpoint \<Rightarrow> flow_execution \<Rightarrow> project_ref \<Rightarrow> (secret_ref \<times> string) option \<Rightarrow> int list \<Rightarrow> int \<Rightarrow> int run" where
  "close_issues env i x p credential [] closed = pass closed"
| "close_issues env i x p credential (n # ns) closed =
     branch (audited env x ''provider.gitlab.issue.close'' (dec_int n) (\<lambda>_. [])
             (invoke (\<lambda>calls. ex_close env calls credential) (CallCloseIssue i p n)))
       (\<lambda>e. stop (EReconcile (EWrap (''close GitLab publication Issue '' @ dec_int n) e)))
       (\<lambda>_. close_issues env i x p credential ns (closed + 1))"

text \<open>The note of an abandonment, in UTF-8: the change is abandoned, and the reason.\<close>

definition abandon_note :: "string \<Rightarrow> string \<Rightarrow> string" where
  "abandon_note changeID reason =
     ''SpecWire change '' @ changeID @ '' '' @ [CHR 0xE5, CHR 0xB7, CHR 0xB2, CHR 0xE5, CHR 0xBA, CHR 0x9F, CHR 0xE5, CHR 0xBC,
       CHR 0x83, CHR 0xE3, CHR 0x80, CHR 0x82, CHR 0xE5, CHR 0x8E, CHR 0x9F, CHR 0xE5, CHR 0x9B, CHR 0xA0, CHR 0xEF, CHR 0xBC,
       CHR 0x9A] @ reason"

text \<open>The GitLab side of a completion: notes for an abandonment, whose failures are tolerated, then the issues are closed.\<close>

definition skip_gitlab :: "string \<Rightarrow> gobj \<Rightarrow> gobj" where
  "skip_gitlab event out =
     (let out1 = obj_set out ''gitlab_issue_close'' (VStr ''skipped'')
      in if event = ''abandoned'' then obj_set out1 ''gitlab_issue_note'' (VStr ''skipped'') else out1)"

definition close_output :: "string \<Rightarrow> bool \<Rightarrow> int \<Rightarrow> gobj \<Rightarrow> gobj" where
  "close_output event failed closed out =
     (let out1 = (if event = ''abandoned''
                  then obj_set out ''gitlab_issue_note'' (VStr (if failed then ''failed'' else ''recorded'')) else out)
      in obj_set (obj_set out1 ''gitlab_issue_close'' (VStr ''closed'')) ''gitlab_issues_closed'' (VInt KInt closed))"

definition finish_gitlab ::
  "executor \<Rightarrow> flow_execution \<Rightarrow> connection \<Rightarrow> string \<Rightarrow> string \<times> string \<Rightarrow> int list \<Rightarrow> gobj \<Rightarrow> gobj run" where
  "finish_gitlab env x c changeID life ids out =
     (case ex_credentials env of
        None \<Rightarrow> pass (skip_gitlab (fst life) out)
      | Some vault \<Rightarrow>
          if ids = [] then pass (skip_gitlab (fst life) out)
          else let p = (cn_source c)\<lparr>proj_group := []\<rparr>
          in seq (look (GetGitLabInstance (cn_workspace c) (proj_instance (cn_source c)) (cb_endpoints (ex_control env)))) (\<lambda>i.
             seq (look (ResolveForConnection vault (ex_control env) c)) (\<lambda>credential.
             seq (if fst life = ''abandoned''
                  then note_issues env i x p (abandon_note changeID (snd life)) credential ids False else pass False) (\<lambda>failed.
             seq (close_issues env i x p credential ids 0) (\<lambda>closed.
               pass (close_output (fst life) failed closed out))))))"

definition complete_projections ::
  "executor \<Rightarrow> endpoint \<Rightarrow> flow_execution \<Rightarrow> connection \<Rightarrow> string \<Rightarrow> string \<Rightarrow> string \<times> string \<Rightarrow> string \<Rightarrow> correlation list \<Rightarrow>
   correlation list \<Rightarrow> gobj run" where
  "complete_projections env i x c key changeID life status cs active =
     (if active = [] then pass (terminal_output cs key changeID status (fst life))
      else seq (set_statuses env i x c status active []) (\<lambda>requests.
           finish_gitlab env x c changeID life (issue_numbers cs)
             (put_event (fst life) (obj_set (completeIssueOutput cs key changeID status (Some requests))
                ''processed_projection_count'' (VInt KInt (int (length active)))))))"

definition completeIssue ::
  "executor \<Rightarrow> endpoint \<Rightarrow> gobj \<Rightarrow> inbound_event \<Rightarrow> flow_execution \<Rightarrow> connection \<Rightarrow> gobj run" where
  "completeIssue env i input event x c =
     (let changeID = rt_stringValue (obj_get input ''change_id'');
          key = firstNonEmpty [rt_stringValue (obj_get input ''correlation_id''), changeID];
          life = completion_lifecycle input (ie_payload event)
      in if changeID = [] then stop (EErr (GErr ErrInvalid ''Multica Complete Issue requires change_id''))
         else seq (peek (\<lambda>db. Inr (ListCorrelations (cn_workspace c) (cn_id c) (proj_external (cn_source c)) key db))) (\<lambda>cs.
              if cs = [] then
                stop (EReconcile (EErr (GErr ErrNotFound (''correlated projection for '' @ key @ '' is unavailable: '' @
                  sentinel_text ErrNotFound))))
              else seq (look (completion_status input life)) (\<lambda>status.
                   seq (look (active_correlations cs)) (\<lambda>active.
                     complete_projections env i x c key changeID life status cs active))))"

definition executeOutput ::
  "executor \<Rightarrow> behavior \<Rightarrow> connector_node \<Rightarrow> gobj \<Rightarrow> inbound_event \<Rightarrow> flow_execution \<Rightarrow> connection \<Rightarrow> runtime_context \<Rightarrow> gobj run" where
  "executeOutput env b cn input event x c rc =
     seq (look (GetMulticaInstance (cn_workspace c) (proj_instance (cn_target c)) (cb_endpoints (ex_control env)))) (\<lambda>i.
     seq (case map_of (conn_bindings cn) ''project'' of
            None \<Rightarrow> pass (proj_external (cn_target c))
          | Some bd \<Rightarrow> seq (look (resolveConnectorBinding bd c rc)) (\<lambda>v.
              pass (if rt_stringValue v \<noteq> [] then rt_stringValue v else proj_external (cn_target c)))) (\<lambda>projectID.
       if bh_key b = ''multica.create-issue'' then createIssue env i projectID input x c
       else if bh_key b = ''multica.complete-issue'' \<or> bh_key b = ''multica.cancel-issue'' then completeIssue env i input event x c
       else stop (EErr (GErr ErrInvalid (''output behavior '' @ bh_key b @ '' is not implemented'')))))"

section \<open>One node\<close>

text \<open>
  The copies in this package of \<open>simulationNodeInput\<close>, \<open>fixedModel\<close> and \<open>simulationMapping\<close>. As there, a node
  whose inputs come under none of its ports is given the first object of the list where the code takes one
  in the order of a Go map; the order can only be seen there, by a node with two such inputs.
\<close>

definition firstNodeInput :: "flow_node \<Rightarrow> gobj option \<Rightarrow> gobj" where
  "firstNodeInput n inputs = simulationNodeInput n inputs"

definition fixedString :: "bindings \<Rightarrow> string \<Rightarrow> string" where
  "fixedString bs name =
     (case map_of bs name of None \<Rightarrow> [] | Some b \<Rightarrow> if bind_kind b \<noteq> BindingFixed then [] else rt_stringValue (bind_value b))"

definition mappingForNode :: "gobj option \<Rightarrow> generic_node \<Rightarrow> string \<Rightarrow> gerr + mapping_spec" where
  "mappingForNode config generic model = simulationMapping config generic model"

definition redactedMap :: "gobj \<Rightarrow> gobj" where
  "redactedMap m = redact_object m"

definition isBlank :: "gval \<Rightarrow> bool" where
  "isBlank v \<longleftrightarrow> v = VNil \<or> rt_stringValue v = []"

definition fill_description :: "string \<Rightarrow> connection \<Rightarrow> gobj \<Rightarrow> gobj \<Rightarrow> gobj" where
  "fill_description model c input out =
     (if (model = ''MulticaCreateIssueInput.v1'' \<or> model = ''MulticaCreateIssueInput@v1'') \<and> isBlank (obj_get out ''description'')
      then obj_set out ''description'' (VStr (buildIssueDescription c input)) else out)"

definition execute_generic ::
  "flow_node \<Rightarrow> generic_node \<Rightarrow> gobj \<Rightarrow> connection \<Rightarrow> catalog \<Rightarrow> runtime_context \<Rightarrow> exec_err + gval" where
  "execute_generic n gen input c cat rc =
     (let model = fixedString (gen_bindings gen) ''model'';
          lift = (\<lambda>r. case r of Inl e \<Rightarrow> Inl (EErr e) | Inr v \<Rightarrow> Inr (VObj v))
      in if gen_type gen = GenericParseNormalize then
           (if model = [] then bad ErrInvalid ''Parse/Normalize model is required''
            else lift (ParseNormalizeWithCatalog (Some input) model rc cat))
         else if gen_type gen = GenericMappingTemplate then
           (if model = [] then bad ErrInvalid ''Mapping/Template target model is required''
            else lift (bind_result (mappingForNode (node_config n) gen model) (\<lambda>spec.
                       bind_result (ApplyMapping input spec rc) (\<lambda>out0.
                       let out = fill_description model c input out0
                       in bind_result (ValidateModelValue cat model out) (\<lambda>_. Inr out)))))
         else if gen_type gen = GenericConditionFilter then
           (case bind_result (filterForNode (node_config n)) (EvaluateFilter input) of
              Inl e \<Rightarrow> Inl (EErr e)
            | Inr matched \<Rightarrow> if matched then Inr (VObj input) else Inl ESkip)
         else bad ErrInvalid (''unsupported generic node '' @ gen_type gen))"

definition executeNode ::
  "executor \<Rightarrow> flow_node \<Rightarrow> gobj \<Rightarrow> inbound_event \<Rightarrow> flow_execution \<Rightarrow> connection \<Rightarrow> runtime_context \<Rightarrow> catalog \<Rightarrow> gval run" where
  "executeNode env n input event x c rc cat =
     (if node_kind n = NodeConnector then
        (case node_connector n of
           None \<Rightarrow> stop (EErr (GErr ErrInvalid ''connector node configuration is missing''))
         | Some cn \<Rightarrow>
             (case catalog_behavior cat (conn_behavior_key cn) (conn_behavior_version cn) of
                None \<Rightarrow> stop (EErr (GErr ErrInvalid (''connector behavior '' @ conn_behavior_key cn @ ''@'' @
                          conn_behavior_version cn @ '' is not registered'')))
              | Some b \<Rightarrow>
                  if bh_direction b = DirectionInput then pass (obj_get input ''event'')
                  else seq (executeOutput env b cn input event x c rc) (\<lambda>m. pass (VObj m))))
      else if node_kind n = NodeGeneric then
        (case node_generic n of
           None \<Rightarrow> stop (EErr (GErr ErrInvalid ''generic node configuration is missing''))
         | Some gen \<Rightarrow> (\<lambda>w. (execute_generic n gen input c cat rc, w)))
      else if node_kind n = NodeTerminal then stop ESkip
      else stop (EErr (GErr ErrInvalid (''unsupported node kind '' @ node_kind n))))"

section \<open>The run\<close>

definition appendUnique :: "string list \<Rightarrow> string \<Rightarrow> string list" where
  "appendUnique values v = (if v = [] \<or> v \<in> set values then values else values @ [v])"

text \<open>The last attempt of each node, from the list in the order of attempts.\<close>

definition latest_of :: "node_execution list \<Rightarrow> (ID, node_execution) gomap" where
  "latest_of items =
     fold (\<lambda>item m. case map_of m (nx_node item) of
             Some current \<Rightarrow> if nx_attempt item > nx_attempt current then AList.update (nx_node item) item m else m
           | None \<Rightarrow> AList.update (nx_node item) item m) items []"

definition latestNodeExecutions :: "ID \<Rightarrow> ID \<Rightarrow> runtime_db \<Rightarrow> gerr + (ID, node_execution) gomap" where
  "latestNodeExecutions workspaceID executionID db =
     bind_result (ListNodeExecutions workspaceID executionID db) (\<lambda>items. Inr (latest_of items))"

record run_context =
  rn_event :: inbound_event
  rn_graph :: flow_graph
  rn_connection :: connection
  rn_catalog :: catalog
  rn_latest :: "(ID, node_execution) gomap"
  rn_context :: runtime_context

record run_state =
  rs_execution :: flow_execution
  rs_flow :: "port_inputs \<times> ID list"
  rs_outputs :: nat

text \<open>A connector that an earlier attempt finished is not executed again.\<close>

definition checkpoint :: "run_context \<Rightarrow> flow_node \<Rightarrow> ID \<Rightarrow> node_execution option" where
  "checkpoint rn n k =
     (case map_of (rn_latest rn) k of
        None \<Rightarrow> None
      | Some existing \<Rightarrow>
          if (nx_status existing = NodeSucceeded \<or> nx_status existing = NodeSkipped) \<and>
             node_kind n = NodeConnector \<and> node_connector n \<noteq> None
          then Some existing else None)"

definition resume :: "run_context \<Rightarrow> ID \<Rightarrow> node_execution \<Rightarrow> run_state \<Rightarrow> run_state" where
  "resume rn k existing st =
     (if nx_status existing = NodeSkipped then st
      else st\<lparr>rs_flow := (case map_of (nx_output existing) ''value'' of
                            None \<Rightarrow> rs_flow st | Some v \<Rightarrow> propagate (rn_graph rn) k v (rs_flow st)),
              rs_outputs := rs_outputs st + 1\<rparr>)"

definition new_node_execution :: "executor \<Rightarrow> run_context \<Rightarrow> flow_execution \<Rightarrow> ID \<Rightarrow> ID \<Rightarrow> gobj \<Rightarrow> node_execution" where
  "new_node_execution env rn x i k input =
     \<lparr>nx_id = i, nx_workspace = fx_workspace x, nx_execution = fx_id x, nx_node = k, nx_status = NodeRunning,
      nx_attempt = (case map_of (rn_latest rn) k of None \<Rightarrow> 1 | Some existing \<Rightarrow> nx_attempt existing + 1),
      nx_input = redactedMap input, nx_output = [], nx_error_category = [], nx_error_message = [], nx_request = [],
      nx_retention = Some (ex_now env + ex_retention env)\<rparr>"

text \<open>A node that failed: \<open>Inr None\<close> is the end of a run that skipped, which is no error.\<close>

definition node_failed ::
  "executor \<Rightarrow> flow_execution \<Rightarrow> node_execution \<Rightarrow> exec_err \<Rightarrow> run_state option run" where
  "node_failed env x ne e =
     (let (category, status) = classifyNodeError e;
          x1 = x\<lparr>fx_error_category := category, fx_error_message := safeError e\<rparr>
      in seq (change (on_runtime (UpdateNodeExecution
                (ne\<lparr>nx_status := status, nx_error_category := category, nx_error_message := safeError e\<rparr>)))) (\<lambda>_ w.
         if status = NodeSkipped then (Inr None, try_store env (x1\<lparr>fx_status := ExecutionSkipped\<rparr>) w)
         else (Inl e, try_store env
                (x1\<lparr>fx_status := if status = NodeIndeterminate then ExecutionReconciliationNeeded else ExecutionFailed\<rparr>) w)))"

definition is_output_node :: "catalog \<Rightarrow> flow_node \<Rightarrow> bool" where
  "is_output_node cat n \<longleftrightarrow>
     node_kind n = NodeConnector \<and>
     (case node_connector n of
        None \<Rightarrow> False
      | Some cn \<Rightarrow> (case catalog_behavior cat (conn_behavior_key cn) (conn_behavior_version cn) of
                      None \<Rightarrow> False | Some b \<Rightarrow> bh_direction b = DirectionOutput))"

definition node_succeeded ::
  "run_context \<Rightarrow> flow_node \<Rightarrow> ID \<Rightarrow> node_execution \<Rightarrow> gval \<Rightarrow> run_state \<Rightarrow> run_state option run" where
  "node_succeeded rn n k ne v st =
     (let request = (case as_obj v of None \<Rightarrow> [] | Some m \<Rightarrow> rt_stringValue (obj_get m ''provider_request_id''));
          x = rs_execution st
      in seq (change (on_runtime (UpdateNodeExecution
                (ne\<lparr>nx_status := NodeSucceeded, nx_output := redactedMap [(''value'', v)],
                    nx_request := if request \<noteq> [] then request else nx_request ne\<rparr>)))) (\<lambda>_.
         pass (Some (st\<lparr>rs_execution := (if request \<noteq> [] then x\<lparr>fx_requests := appendUnique (fx_requests x) request\<rparr> else x),
                        rs_flow := propagate (rn_graph rn) k v (rs_flow st),
                        rs_outputs := rs_outputs st + (if is_output_node (rn_catalog rn) n then 1 else 0)\<rparr>))))"

definition run_node ::
  "executor \<Rightarrow> run_context \<Rightarrow> flow_node \<Rightarrow> ID \<Rightarrow> gobj \<Rightarrow> run_state \<Rightarrow> run_state option run" where
  "run_node env rn n k input st =
     (let x = rs_execution st
      in seq (new_id env) (\<lambda>i.
         let ne = new_node_execution env rn x i k input
         in branch (change (on_runtime (CreateNodeExecution ne)))
              (\<lambda>e. failExecution env x ''storage'' e)
              (\<lambda>_. branch (executeNode env n input (rn_event rn) x (rn_connection rn) (rn_context rn) (rn_catalog rn))
                     (\<lambda>e. node_failed env x ne e)
                     (\<lambda>v. node_succeeded rn n k ne v st))))"

definition exec_step :: "executor \<Rightarrow> run_context \<Rightarrow> ID \<Rightarrow> run_state \<Rightarrow> run_state option run" where
  "exec_step env rn k st0 =
     (let st = st0\<lparr>rs_execution := (rs_execution st0)\<lparr>fx_current_node := k\<rparr>\<rparr>;
          n = node_at (rn_graph rn) k
      in seq (store_execution env (rs_execution st)) (\<lambda>_.
         case checkpoint rn n k of
           Some existing \<Rightarrow> pass (Some (resume rn k existing st))
         | None \<Rightarrow> run_node env rn n k (firstNodeInput n (map_of (fst (rs_flow st)) k)) st))"

fun exec_loop :: "executor \<Rightarrow> run_context \<Rightarrow> ID list \<Rightarrow> run_state \<Rightarrow> run_state option run" where
  "exec_loop env rn [] st = pass (Some st)"
| "exec_loop env rn (k # ks) st =
     (if k \<notin> set (snd (rs_flow st)) then exec_loop env rn ks st
      else seq (exec_step env rn k st) (\<lambda>r. case r of None \<Rightarrow> pass None | Some st1 \<Rightarrow> exec_loop env rn ks st1))"

definition finish_run :: "executor \<Rightarrow> run_state option \<Rightarrow> unit run" where
  "finish_run env r =
     (case r of
        None \<Rightarrow> pass ()
      | Some st \<Rightarrow>
          if rs_outputs st = 0
          then failExecution env (rs_execution st) ''validation''
                 (EErr (GErr ErrInvalid ''Flow did not reach an output ConnectorNode''))
          else store_execution env
                 ((rs_execution st)\<lparr>fx_status := ExecutionSucceeded, fx_error_category := [], fx_error_message := []\<rparr>))"

definition run_graph ::
  "executor \<Rightarrow> flow_execution \<Rightarrow> inbound_event \<Rightarrow> flow_graph \<Rightarrow> connection \<Rightarrow> catalog \<Rightarrow> ID list \<Rightarrow> ID \<Rightarrow>
   (ID, node_execution) gomap \<Rightarrow> unit run" where
  "run_graph env x event g c cat order inputID latest =
     (let x1 = x\<lparr>fx_status := ExecutionRunning, fx_error_category := [], fx_error_message := []\<rparr>;
          x2 = (if fx_status x \<noteq> ExecutionRunning then x1 else x);
          rc = \<lparr>rc_workspace = fx_workspace x, rc_connection = cn_id c, rc_execution = fx_id x, rc_event = ie_id event,
                rc_source_project = proj_full_path (cn_source c), rc_target_project = proj_external (cn_target c),
                rc_target_ref = main_ref\<rparr>;
          rn = \<lparr>rn_event = event, rn_graph = g, rn_connection = c, rn_catalog = cat, rn_latest = latest, rn_context = rc\<rparr>;
          st = \<lparr>rs_execution = x2, rs_flow = ([(inputID, [(''event'', VObj (ie_payload event))])], [inputID]), rs_outputs = 0\<rparr>
      in seq (if fx_status x \<noteq> ExecutionRunning then store_execution env x1 else pass ()) (\<lambda>_.
         seq (exec_loop env rn order st) (finish_run env)))"

text \<open>A read that fails ends the execution as failed, under the name of what was read.\<close>

definition need :: "executor \<Rightarrow> flow_execution \<Rightarrow> string \<Rightarrow> 'a run \<Rightarrow> ('a \<Rightarrow> unit run) \<Rightarrow> unit run" where
  "need env x category m f = branch m (failExecution env x category) f"

definition execute_pending :: "executor \<Rightarrow> ID \<Rightarrow> flow_execution \<Rightarrow> unit run" where
  "execute_pending env workspaceID x =
     (let control = ex_control env
      in need env x ''storage'' (peek (\<lambda>db. GetInboundEvent workspaceID (fx_event x) (cd_runtime db))) (\<lambda>event.
         need env x ''storage'' (look (GetFlowVersion workspaceID (fx_flow x) (fx_version x) (cb_flows control))) (\<lambda>v.
         need env x ''storage'' (look (GetConnection workspaceID (fx_connection x) control)) (\<lambda>c.
         need env x ''registry'' (look (ex_resolve env workspaceID)) (\<lambda>cat.
         need env x ''validation'' (look (executionOrder (fv_graph v))) (\<lambda>order.
         let inputID = inputNodeID (fv_graph v) cat
         in if inputID = [] then failExecution env x ''validation'' (EErr (GErr ErrInvalid ''input ConnectorNode is missing''))
            else need env x ''storage'' (peek (\<lambda>db. latestNodeExecutions workspaceID (fx_id x) (cd_runtime db))) (\<lambda>latest.
                 run_graph env x event (fv_graph v) c cat order inputID latest)))))))"

definition ExecuteInWorkspace :: "executor \<Rightarrow> ID \<Rightarrow> ID \<Rightarrow> unit run" where
  "ExecuteInWorkspace env workspaceID executionID =
     seq (peek (\<lambda>db. GetFlowExecution workspaceID executionID (cd_runtime db))) (\<lambda>x.
       if fx_status x = ExecutionSucceeded \<or> fx_status x = ExecutionSkipped then pass ()
       else execute_pending env workspaceID x)"

section \<open>The worker\<close>

definition maxAutomaticAttempts :: int where "maxAutomaticAttempts = 5"
definition defaultWorkerBackoff :: int where "defaultWorkerBackoff = 5 * 1000000000"

text \<open>The worker's report goes to the queue; an error of the report itself is dropped.\<close>

definition report :: "(runtime_db \<Rightarrow> gerr + runtime_db) \<Rightarrow> world \<Rightarrow> world" where
  "report f w = snd (change (on_runtime f) w)"

definition runJob :: "executor \<Rightarrow> string \<Rightarrow> job \<Rightarrow> world \<Rightarrow> world" where
  "runJob env workerID j w =
     (let executionID = rt_stringValue (obj_get (job_payload j) ''execution_id'')
      in if executionID = []
         then report (FailJob (ex_now env) (job_workspace j) (job_id j) workerID None) w
         else case ExecuteInWorkspace env (job_workspace j) executionID w of
                (Inr _, w1) \<Rightarrow> report (CompleteJob (ex_now env) (job_workspace j) (job_id j) workerID) w1
              | (Inl e, w1) \<Rightarrow>
                  report (FailJob (ex_now env) (job_workspace j) (job_id j) workerID
                    (if isRetryableExecutionError e \<and> job_attempts j < maxAutomaticAttempts
                     then Some (ex_now env + job_attempts j * defaultWorkerBackoff) else None)) w1)"

end
