(* ===== verification/ExecutorRuns.thy ===== *)
theory ExecutorRuns
  imports Authorization Executor
begin

text \<open>
  What a run of the executor can do: which steps of the tables it consists of, which calls it makes,
  and what a second run does. \<open>run_relation\<close> is the interface between the executor and the properties:
  a relation on the states that holds of every elementary effect holds of every run.
\<close>

section \<open>Effects\<close>

lemma peek_Inr [simp]: "peek f w = (Inr x, w') \<longleftrightarrow> f (w_store w) = Inr x \<and> w' = w"
  by (simp add: peek_def)

lemma peek_world [simp]: "snd (peek f w) = w"
  by (simp add: peek_def)

lemma change_Inr: "change f w = (Inr u, w') \<longleftrightarrow> (\<exists>db. f (w_store w) = Inr db \<and> w' = w\<lparr>w_store := db\<rparr>)"
  by (auto simp: change_def split: sum.splits)

lemma on_runtime_Inr: "on_runtime f db = Inr db' \<longleftrightarrow> (\<exists>r. f (cd_runtime db) = Inr r \<and> db' = db\<lparr>cd_runtime := r\<rparr>)"
  by (auto simp: on_runtime_def bind_result_Inr)

text \<open>The operations of the store that a run performs: what it records of itself, and its correlations.\<close>

inductive record_step :: "runtime_db \<Rightarrow> runtime_db \<Rightarrow> bool" where
  update: "UpdateFlowExecution now x db = Inr db' \<Longrightarrow> record_step db db'"
| create_node: "CreateNodeExecution n db = Inr db' \<Longrightarrow> record_step db db'"
| update_node: "UpdateNodeExecution n db = Inr db' \<Longrightarrow> record_step db db'"

inductive run_op :: "correlation_db \<Rightarrow> correlation_db \<Rightarrow> bool" where
  runtime: "record_step (cd_runtime db) rt \<Longrightarrow> run_op db (db\<lparr>cd_runtime := rt\<rparr>)"
| upsert: "UpsertCorrelation now i c db = Inr (stored, db') \<Longrightarrow> run_op db db'"
| mark: "MarkCorrelationLifecycle ws i s db = Inr db' \<Longrightarrow> run_op db db'"

lemma record_step_runtime: "record_step db db' \<Longrightarrow> runtime_step db db'"
  by (induction rule: record_step.induct) (auto intro: runtime_step.intros)

lemma run_op_step: "run_op db db' \<Longrightarrow> correlation_step db db'"
  by (induction rule: run_op.induct) (auto intro: correlation_step.intros record_step_runtime)

lemma runtime_op_step:
  assumes "\<And>rt rt'. f rt = Inr rt' \<Longrightarrow> record_step rt rt'"
  shows "on_runtime f db = Inr db' \<Longrightarrow> run_op db db'"
  using assms by (auto simp: on_runtime_Inr intro: run_op.runtime)

section \<open>The interface\<close>

text \<open>Everything a run does but the calls it makes, and then the calls as well.\<close>

locale quiet_relation = effect_relation R for R :: "world \<Rightarrow> world \<Rightarrow> bool" +
  assumes R_store: "run_op (w_store w) db \<Longrightarrow> R w (w\<lparr>w_store := db\<rparr>)"
    and R_audit: "R w (w\<lparr>w_audit := trail\<rparr>)"
    and R_next: "R w (w\<lparr>w_next := n\<rparr>)"
begin

lemma peek_R: "keeps R (peek h)"
  by (simp add: keeps_def R_refl)

lemma change_R:
  assumes "\<And>db db'. f db = Inr db' \<Longrightarrow> run_op db db'"
  shows "keeps R (change f)"
  using assms by (auto simp: keeps_def change_def R_refl split: sum.splits intro: R_store)

lemma runtime_R:
  assumes "\<And>rt rt'. f rt = Inr rt' \<Longrightarrow> record_step rt rt'"
  shows "keeps R (change (on_runtime f))"
  by (rule change_R) (rule runtime_op_step [OF assms])

lemma new_id_R: "keeps R (new_id env)"
  by (simp add: keeps_def new_id_def R_next)

lemma store_execution_R: "keeps R (store_execution env x)"
  unfolding store_execution_def by (rule runtime_R) (rule record_step.update)

lemma try_store_R: "R w (try_store env x w)"
  using store_execution_R unfolding keeps_def try_store_def by blast

lemma failExecution_R: "keeps R (failExecution env x category e)"
  by (simp add: keeps_def failExecution_def try_store_R)

lemma effect_R: "R w (recordProviderEffect env x action outcome request external err w)"
  unfolding recordProviderEffect_def Let_def
  using R_trans [OF R_next R_audit] R_next by (auto split: sum.splits)

lemmas effect_rules = flow_rules peek_R new_id_R store_execution_R failExecution_R

lemma node_failed_R: "keeps R (node_failed env x ne e)"
proof (cases "classifyNodeError e")
  case (Pair category status)
  show ?thesis unfolding node_failed_def Pair prod.case Let_def
    by (intro seq_R runtime_R) (erule record_step.update_node, simp add: keeps_def try_store_R)
qed

lemma node_succeeded_R: "keeps R (node_succeeded rn n k ne v st)"
  unfolding node_succeeded_def Let_def by (intro seq_R runtime_R pass_R) (rule record_step.update_node)

text \<open>A node keeps the relation when what it executes does, and the loop when its nodes do.\<close>

lemma run_node_R:
  assumes "keeps R (executeNode env n input (rn_event rn) (rs_execution st) (rn_connection rn) (rn_context rn) (rn_catalog rn))"
  shows "keeps R (run_node env rn n k input st)"
  unfolding run_node_def Let_def
  using assms by (intro seq_R branch_R new_id_R runtime_R failExecution_R node_failed_R node_succeeded_R)
    (rule record_step.create_node)

lemma exec_step_R:
  assumes "checkpoint rn (node_at (rn_graph rn) k) k = None \<Longrightarrow>
     (\<And>input x. keeps R (executeNode env (node_at (rn_graph rn) k) input (rn_event rn) x (rn_connection rn) (rn_context rn) (rn_catalog rn)))"
  shows "keeps R (exec_step env rn k st)"
proof (cases "checkpoint rn (node_at (rn_graph rn) k) k")
  case None
  then show ?thesis unfolding exec_step_def Let_def None option.case
    by (intro seq_R store_execution_R run_node_R assms [OF None])
next
  case (Some existing)
  then show ?thesis unfolding exec_step_def Let_def Some option.case by (intro effect_rules)
qed

lemma exec_loop_R: "(\<And>k st. k \<in> set ks \<Longrightarrow> keeps R (exec_step env rn k st)) \<Longrightarrow> keeps R (exec_loop env rn ks st)"
proof (induction ks arbitrary: st)
  case (Cons k ks)
  have "keeps R (exec_step env rn k st)" "keeps R (exec_loop env rn ks st)" for st
    using Cons.prems by (auto intro: Cons.IH)
  then show ?case unfolding exec_loop.simps by (intro effect_rules)
qed (simp add: pass_R)

lemma finish_run_R: "keeps R (finish_run env r)"
  unfolding finish_run_def by (intro effect_rules)

lemma run_graph_R:
  assumes "\<And>rn st. rn_event rn = event \<Longrightarrow> rn_graph rn = g \<Longrightarrow> rn_connection rn = c \<Longrightarrow> rn_catalog rn = cat \<Longrightarrow>
     rn_latest rn = latest \<Longrightarrow> keeps R (exec_loop env rn order st)"
  shows "keeps R (run_graph env x event g c cat order inputID latest)"
  unfolding run_graph_def Let_def by (intro effect_rules finish_run_R assms run_context.simps)

lemma need_R: "keeps R m \<Longrightarrow> (\<And>v. keeps R (f v)) \<Longrightarrow> keeps R (need env x category m f)"
  unfolding need_def by (intro branch_R failExecution_R)

end

locale run_relation = quiet_relation +
  assumes R_call: "R w (w\<lparr>w_calls := w_calls w @ [call]\<rparr>)"
begin

lemma invoke_R: "keeps R (invoke answer call)"
  by (simp add: keeps_def invoke_def Let_def R_call)

lemma audited_R: "keeps R call \<Longrightarrow> keeps R (audited env x action external request call)"
  unfolding audited_def by (intro branch_R) (simp_all add: keeps_def effect_R)

lemmas call_rules = effect_rules audited_R invoke_R

lemma create_new_issue_R: "keeps R (create_new_issue env i projectID input x c changeID)"
proof -
  have "keeps R (change (\<lambda>db. bind_result (UpsertCorrelation now j d db) (\<lambda>(stored, db'). Inr db')))" for now j d
    by (rule change_R) (auto simp: bind_result_Inr intro: run_op.upsert)
  then show ?thesis unfolding create_new_issue_def Let_def by (intro call_rules)
qed

lemma createIssue_R: "keeps R (createIssue env i projectID input x c)"
  unfolding createIssue_def Let_def by (intro call_rules create_new_issue_R)

lemma set_statuses_R: "keeps R (set_statuses env i x c status cos ids)"
proof (induction cos arbitrary: ids)
  case (Cons co cos)
  have "keeps R (change (MarkCorrelationLifecycle ws j s))" for ws j s
    by (rule change_R) (rule run_op.mark)
  then show ?case using Cons unfolding set_statuses.simps by (intro call_rules)
qed (simp add: pass_R)

lemma note_issues_R: "keeps R (note_issues env i x p note credential ns failed)"
proof (induction ns arbitrary: failed)
  case (Cons n ns)
  then show ?case unfolding note_issues.simps by (intro call_rules)
qed (simp add: pass_R)

lemma close_issues_R: "keeps R (close_issues env i x p credential ns closed)"
proof (induction ns arbitrary: closed)
  case (Cons n ns)
  then show ?case unfolding close_issues.simps by (intro call_rules)
qed (simp add: pass_R)

lemma finish_gitlab_R: "keeps R (finish_gitlab env x c changeID life ids out)"
  unfolding finish_gitlab_def Let_def
  by (intro call_rules note_issues_R close_issues_R)

lemma completeIssue_R: "keeps R (completeIssue env i input event x c)"
  unfolding completeIssue_def complete_projections_def Let_def
  by (intro call_rules set_statuses_R finish_gitlab_R)

lemma executeOutput_R: "keeps R (executeOutput env b cn input event x c rc)"
  unfolding executeOutput_def
  by (intro call_rules createIssue_R completeIssue_R)

lemma executeNode_R: "keeps R (executeNode env n input event x c rc cat)"
proof -
  have "keeps R (\<lambda>w. (r, w))" for r :: "exec_err + 'a" by (simp add: keeps_def R_refl)
  then show ?thesis
    unfolding executeNode_def by (intro call_rules executeOutput_R)
qed

lemma execute_pending_R: "keeps R (execute_pending env ws x)"
  unfolding execute_pending_def Let_def
  by (intro effect_rules need_R run_graph_R exec_loop_R exec_step_R executeNode_R)

lemma ExecuteInWorkspace_R: "keeps R (ExecuteInWorkspace env ws i)"
  unfolding ExecuteInWorkspace_def by (intro effect_rules execute_pending_R)

end

section \<open>Runs refine the store\<close>

interpretation run_steps: run_relation "\<lambda>w w'. correlation_history (w_store w) (w_store w')"
  by unfold_locales (auto intro: run_op_step)

interpretation run_calls: run_relation "\<lambda>w w'. prefix (w_calls w) (w_calls w')"
  by unfold_locales (auto intro: prefix_order.trans)

lemma update_correlation_runtime: "upsert_correlation d db = Inr db' \<Longrightarrow> cd_runtime db' = cd_runtime db"
  by (auto simp: upsert_correlation_def bind_result_Inr split: if_splits)

lemma run_op_jobs: "run_op db db' \<Longrightarrow> rd_jobs (cd_runtime db') = rd_jobs (cd_runtime db)"
proof (induction rule: run_op.induct)
  case (runtime db rt)
  from runtime have "rd_jobs rt = rd_jobs (cd_runtime db)"
    by (cases rule: record_step.cases)
      (auto simp: UpdateFlowExecution_def CreateNodeExecution_def UpdateNodeExecution_def Let_def bind_result_Inr split: if_splits option.splits)
  then show ?case by simp
next
  case (upsert now i c db stored db')
  then obtain d where "upsert_correlation d db = Inr db'" using UpsertCorrelation_D by blast
  then show ?case by (simp add: update_correlation_runtime)
next
  case (mark ws i s db db')
  then show ?case by (auto simp: MarkCorrelationLifecycle_def Let_def split: if_splits option.splits)
qed

interpretation run_jobs: run_relation "\<lambda>w w'. rd_jobs (cd_runtime (w_store w')) = rd_jobs (cd_runtime (w_store w))"
  by unfold_locales (simp_all add: run_op_jobs)

interpretation run_silent: quiet_relation "\<lambda>w w'. w_calls w' = w_calls w"
  by unfold_locales simp_all

section \<open>A run on concrete tables\<close>

text \<open>An execution of the published flow, whose filter asks for an event with an id, against answering providers.\<close>

definition sample_executor :: executor where
  "sample_executor = \<lparr>ex_control = sample_control, ex_resolve = (\<lambda>_. Inr sample_catalog), ex_now = 9,
     ex_fresh = (\<lambda>n. replicate (n + 1) (CHR ''n'')), ex_retention = 100, ex_credentials = None,
     ex_create = (\<lambda>_. Inr \<lparr>is_issue = ''T-9'', is_project = ''9'', is_request = ''r-9''\<rparr>), ex_status = (\<lambda>_. Inr ''r-9''),
     ex_note = (\<lambda>_ _. Inr ()), ex_close = (\<lambda>_ _. Inr ())\<rparr>"

definition pending_execution :: flow_execution where
  "pending_execution = sample_execution\<lparr>fx_id := ''x1'', fx_flow := ''f1'', fx_version_id := ''v1'', fx_event := ''e1'',
     fx_status := ExecutionQueued\<rparr>"

definition recorded_output :: node_execution where
  "recorded_output = \<lparr>nx_id = ''n0'', nx_workspace = ''w'', nx_execution = ''x1'', nx_node = ''o'', nx_status = NodeSucceeded,
     nx_attempt = 1, nx_input = [], nx_output = [(''value'', VObj [])], nx_error_category = [], nx_error_message = [],
     nx_request = [], nx_retention = None\<rparr>"

definition sample_world :: world where
  "sample_world = \<lparr>w_store = \<lparr>cd_runtime = sample_runtime\<lparr>rd_flows := [(''f1'', ''w'')], rd_versions := [((''v1'', ''f1''), ''w'')],
       rd_events := [sample_event\<lparr>ie_id := ''e1''\<rparr>], rd_executions := [pending_execution]\<rparr>, cd_rows = []\<rparr>,
     w_audit = \<lparr>ab_auth = sample_auth, ab_rows = []\<rparr>, w_calls = [], w_next = 0\<rparr>"

definition sample_endpoint :: endpoint where
  "sample_endpoint = \<lparr>ep_id = ''m'', ep_workspace = ''w'', ep_name = ''M'', ep_base_url = ''https://m'', ep_external = ''m'',
     ep_credential = None, ep_status = ''healthy'', ep_capabilities = []\<rparr>"

lemma sample_skip: "fst (ExecuteInWorkspace sample_executor ''w'' ''x1'' sample_world) = Inr ()"
  by code_simp

text \<open>What the worker says of its job to the queue: the row becomes one that nobody holds.\<close>

lemma held_one:
  assumes "distinct (map job_id rows)" "row \<in> set rows" "held ws i worker row"
  shows "list_ex (held ws i worker) rows \<and> update_rows (held ws i worker) f rows = map (\<lambda>x. if job_id x = i then f row else x) rows"
proof -
  have "x = row" if "x \<in> set rows" "job_id x = i" for x
    using assms that by (auto simp: distinct_map inj_on_def held_def)
  then show ?thesis using assms by (auto simp: list_ex_iff update_rows_def held_def)
qed

lemma report_complete:
  assumes "distinct (map job_id (rd_jobs (cd_runtime (w_store w))))" "row \<in> set (rd_jobs (cd_runtime (w_store w)))" "held ws i worker row"
  shows "rd_jobs (cd_runtime (w_store (report (CompleteJob now ws i worker) w))) =
    map (\<lambda>x. if job_id x = i then row\<lparr>job_status := ''succeeded'', job_lease := None, job_leased_by := [], job_updated := now\<rparr> else x)
      (rd_jobs (cd_runtime (w_store w)))"
  using held_one [OF assms] by (simp add: report_def change_def on_runtime_def CompleteJob_def)

lemma report_fail:
  assumes "distinct (map job_id (rd_jobs (cd_runtime (w_store w))))" "row \<in> set (rd_jobs (cd_runtime (w_store w)))" "held ws i worker row"
  shows "rd_jobs (cd_runtime (w_store (report (FailJob now ws i worker retryAt) w))) =
    map (\<lambda>x. if job_id x = i then row\<lparr>job_status := if retryAt = None then ''failed'' else ''queued'',
        job_available := (case retryAt of None \<Rightarrow> now | Some t \<Rightarrow> t), job_lease := None, job_leased_by := [], job_updated := now\<rparr> else x)
      (rd_jobs (cd_runtime (w_store w)))"
  using held_one [OF assms] by (simp add: report_def change_def on_runtime_def FailJob_def split: option.split)

lemma ExecuteInWorkspace_jobs:
  "ExecuteInWorkspace env ws i w = (r, w1) \<Longrightarrow> rd_jobs (cd_runtime (w_store w1)) = rd_jobs (cd_runtime (w_store w))"
  using run_jobs.ExecuteInWorkspace_R [of env ws i] by (auto dest: keepsD)

text \<open>
  C14: the worker settles the job it holds by what became of its execution: the job is done exactly when
  the execution returns; it is queued again, to be run five seconds per attempt later, when the execution
  fails in a way that may be retried and fewer than five attempts were made; and it is failed for good
  otherwise, and when it names no execution. Either way nobody holds it any more, and whatever the
  execution did on the way, no other job is touched.
\<close>

theorem runJob_settles:
  assumes "distinct (map job_id (rd_jobs (cd_runtime (w_store w))))" "row \<in> set (rd_jobs (cd_runtime (w_store w)))"
    and "held (job_workspace j) (job_id j) workerID row"
  shows "let i = rt_stringValue (obj_get (job_payload j) ''execution_id'');
      outcome = fst (ExecuteInWorkspace env (job_workspace j) i w);
      again = (\<exists>e. outcome = Inl e \<and> isRetryableExecutionError e \<and> job_attempts j < 5)
    in \<exists>k. rd_jobs (cd_runtime (w_store (runJob env workerID j w))) =
         map (\<lambda>x. if job_id x = job_id j then k else x) (rd_jobs (cd_runtime (w_store w))) \<and>
       job_id k = job_id j \<and> job_workspace k = job_workspace j \<and> job_payload k = job_payload row \<and>
       job_lease k = None \<and> job_leased_by k = [] \<and>
       job_status k = (if i = [] then ''failed'' else if outcome = Inr () then ''succeeded'' else if again then ''queued'' else ''failed'') \<and>
       (i \<noteq> [] \<and> again \<longrightarrow> job_available k = ex_now env + job_attempts j * 5000000000)"
proof -
  let ?i = "rt_stringValue (obj_get (job_payload j) ''execution_id'')"
  have k: "job_id row = job_id j" "job_workspace row = job_workspace j" using assms(3) by (simp_all add: held_def)
  obtain r w1 where x: "ExecuteInWorkspace env (job_workspace j) ?i w = (r, w1)" by fastforce
  note jobs = ExecuteInWorkspace_jobs [OF x]
  note rows1 = assms(1,2) [folded jobs] and held = assms(3)
  note limits = maxAutomaticAttempts_def defaultWorkerBackoff_def
  define settled where "settled = row\<lparr>job_status := ''succeeded'', job_lease := None, job_leased_by := [], job_updated := ex_now env\<rparr>"
  define failed where "failed t = row\<lparr>job_status := if t = None then ''failed'' else ''queued'',
      job_available := (case t of None \<Rightarrow> ex_now env | Some t \<Rightarrow> t), job_lease := None, job_leased_by := [], job_updated := ex_now env\<rparr>" for t
  note completes = report_complete [OF rows1 held, folded settled_def]
    and fails = report_fail [OF rows1 held, folded failed_def] report_fail [OF assms, folded failed_def]
  show ?thesis
  proof (cases "?i = []")
    case True
    then show ?thesis using k unfolding Let_def
      by (intro exI [of _ "failed None"]) (simp add: runJob_def fails failed_def [of None])
  next
    case False
    show ?thesis
    proof (cases r)
      case (Inl e)
      then show ?thesis using False k x unfolding Let_def
        by (intro exI [of _ "failed (if isRetryableExecutionError e \<and> job_attempts j < 5
              then Some (ex_now env + job_attempts j * 5000000000) else None)"])
          (auto simp: runJob_def fails jobs limits failed_def)
    next
      case (Inr u)
      then show ?thesis using False k x unfolding Let_def
        by (intro exI [of _ settled]) (simp add: runJob_def completes jobs, simp add: settled_def)
    qed
  qed
qed

definition leased_job :: job where
  "leased_job = flow_job\<lparr>job_id := ''j1'', job_workspace := ''w'', job_payload := [(''execution_id'', VStr ''x1'')],
     job_status := ''running'', job_leased_by := ''w1'', job_attempts := 1\<rparr>"

definition leased_world :: world where
  "leased_world = sample_world\<lparr>w_store := (w_store sample_world)\<lparr>cd_runtime := (cd_runtime (w_store sample_world))\<lparr>rd_jobs := [leased_job]\<rparr>\<rparr>\<rparr>"

lemma leased_run: "fst (ExecuteInWorkspace sample_executor ''w'' ''x1'' leased_world) = Inr ()"
  by code_simp

theorem runJob_settles_witness:
  "map (\<lambda>k. (job_id k, job_status k)) (rd_jobs (cd_runtime (w_store (runJob sample_executor ''w1'' leased_job leased_world)))) =
     [(''j1'', ''succeeded'')]"
proof -
  have rows: "rd_jobs (cd_runtime (w_store leased_world)) = [leased_job]" by (simp add: leased_world_def)
  have j: "job_id leased_job = ''j1''" "job_workspace leased_job = ''w''" "job_leased_by leased_job = ''w1''"
    by (simp_all add: leased_job_def)
  have i: "rt_stringValue (obj_get (job_payload leased_job) ''execution_id'') = ''x1''" by code_simp
  show ?thesis
    using runJob_settles [of leased_world leased_job leased_job "''w1''" sample_executor] rows
    by (auto simp: Let_def held_def j i leased_run)
qed

section \<open>A finished execution\<close>

lemma correlation_step_runtime: "correlation_step db db' \<Longrightarrow> runtime_history (cd_runtime db) (cd_runtime db')"
proof (induction rule: correlation_step.induct)
  case (upsert now i c db stored db')
  then obtain d where "upsert_correlation d db = Inr db'" using UpsertCorrelation_D by blast
  then have "cd_runtime db' = cd_runtime db" by (rule update_correlation_runtime)
  then show ?case by simp
next
  case (mark ws i s db db')
  then have "cd_runtime db' = cd_runtime db"
    by (auto simp: MarkCorrelationLifecycle_def Let_def split: if_splits option.splits)
  then show ?case by simp
qed simp

lemma correlation_history_runtime: "correlation_history db db' \<Longrightarrow> runtime_history (cd_runtime db) (cd_runtime db')"
  by (induction rule: rtranclp_induct) (auto dest: correlation_step_runtime)

text \<open>The execution with these identifiers is stored, and this is its status.\<close>

definition execution_stored :: "flow_execution \<Rightarrow> world \<Rightarrow> bool" where
  "execution_stored x w \<longleftrightarrow> fx_workspace x \<noteq> [] \<and>
     (\<exists>r \<in> set (rd_executions (cd_runtime (w_store w))). fx_workspace r = fx_workspace x \<and> fx_id r = fx_id x)"

definition status_stored :: "flow_execution \<Rightarrow> string \<Rightarrow> world \<Rightarrow> bool" where
  "status_stored x s w \<longleftrightarrow>
     (\<exists>z. GetFlowExecution (fx_workspace x) (fx_id x) (cd_runtime (w_store w)) = Inr z \<and> fx_status z = s)"

lemma execution_stored_cong:
  "fx_workspace x = fx_workspace y \<Longrightarrow> fx_id x = fx_id y \<Longrightarrow> execution_stored x w = execution_stored y w"
  by (simp add: execution_stored_def)

lemma execution_stored_history:
  assumes "correlation_history (w_store w) (w_store w')" "execution_stored x w"
  shows "execution_stored x w'"
proof -
  obtain r where "r \<in> set (rd_executions (cd_runtime (w_store w)))" "fx_workspace r = fx_workspace x" "fx_id r = fx_id x"
    "fx_workspace x \<noteq> []" using assms(2) by (auto simp: execution_stored_def)
  then show ?thesis
    using history_execution [OF correlation_history_runtime [OF assms(1)], of r]
    by (fastforce simp: execution_stored_def same_execution_def execution_key_def)
qed

lemma store_execution_D:
  assumes "store_execution env x w = (Inr u, w')"
  shows "execution_stored x w \<and> status_stored x (fx_status x) w' \<and> execution_stored x w'"
proof -
  obtain rt where u: "UpdateFlowExecution (ex_now env) x (cd_runtime (w_store w)) = Inr rt"
    and w': "cd_runtime (w_store w') = rt" "w_store w' = (w_store w)\<lparr>cd_runtime := rt\<rparr>"
    using assms by (auto simp: store_execution_def change_Inr on_runtime_Inr)
  let ?t = "\<lambda>r. fx_workspace r = fx_workspace x \<and> fx_id r = fx_id x"
  have e: "fx_workspace x \<noteq> []" "list_ex ?t (rd_executions (cd_runtime (w_store w)))"
    using u by (auto simp: UpdateFlowExecution_def Let_def bind_result_Inr requireWorkspaceID_Inr split: if_splits)
  then have s: "execution_stored x w" by (auto simp: execution_stored_def list_ex_iff)
  have h: "correlation_history (w_store w) (w_store w')"
    using run_steps.store_execution_R [of env x] assms by (auto simp: keeps_def dest!: spec [of _ w])
  obtain f where f: "rd_executions rt = update_rows ?t f (rd_executions (cd_runtime (w_store w)))"
    "\<And>r. fx_status (f r) = fx_status x \<and> fx_workspace (f r) = fx_workspace r \<and> fx_id (f r) = fx_id r"
    using UpdateFlowExecution_D [OF u] by auto
  obtain z where z: "List.find ?t (rd_executions rt) = Some z"
    using execution_stored_history [OF h s] w'(1)
    by (cases "List.find ?t (rd_executions rt)") (auto simp: execution_stored_def dest!: find_NoneD)
  then have "fx_status z = fx_status x" using find_SomeD [OF z] f(2) by (auto simp: f(1) set_update_rows)
  then have "status_stored x (fx_status x) w'" using z w'(1) by (simp add: status_stored_def GetFlowExecution_def)
  then show ?thesis using s execution_stored_history [OF h s] by simp
qed

lemma store_execution_total:
  assumes "execution_stored x w"
  shows "\<exists>w'. store_execution env x w = (Inr (), w')"
proof -
  have "list_ex (\<lambda>r. fx_workspace r = fx_workspace x \<and> fx_id r = fx_id x) (rd_executions (cd_runtime (w_store w)))"
    "requireWorkspaceID (fx_workspace x) = Inr ()"
    using assms by (auto simp: execution_stored_def list_ex_iff requireWorkspaceID_Inr)
  then have "\<exists>rt. UpdateFlowExecution (ex_now env) x (cd_runtime (w_store w)) = Inr rt"
    by (simp add: UpdateFlowExecution_def Let_def)
  then show ?thesis by (auto simp: store_execution_def change_def on_runtime_def)
qed

lemma try_store_status: "execution_stored x w \<Longrightarrow> status_stored x (fx_status x) (try_store env x w)"
  using store_execution_total [of x w env] store_execution_D [of env x w] by (auto simp: try_store_def)

lemma failExecution_Inl [simp]: "fst (failExecution env x category e w) = Inl e" "failExecution env x category e w = (Inr y, w') \<longleftrightarrow> False"
  by (simp_all add: failExecution_def)

lemma need_Inr: "need env x category m f w = (Inr y, w') \<longleftrightarrow> (\<exists>v w1. m w = (Inr v, w1) \<and> f v w1 = (Inr y, w'))"
  by (simp add: need_def branch_Inr)

text \<open>The identifiers of the execution are carried through a run.\<close>

definition carries :: "flow_execution \<Rightarrow> run_state \<Rightarrow> bool" where
  "carries x st \<longleftrightarrow> fx_workspace (rs_execution st) = fx_workspace x \<and> fx_id (rs_execution st) = fx_id x"

lemma status_stored_cong:
  "fx_workspace x = fx_workspace y \<Longrightarrow> fx_id x = fx_id y \<Longrightarrow> status_stored x s w = status_stored y s w"
  by (simp add: status_stored_def)

lemma node_failed_skips:
  assumes "node_failed env y ne e w = (Inr r, w')" "execution_stored x w" "fx_workspace y = fx_workspace x" "fx_id y = fx_id x"
  shows "r = None \<and> status_stored x ExecutionSkipped w'"
proof -
  obtain category status where c: "classifyNodeError e = (category, status)" by (cases "classifyNodeError e")
  let ?n = "ne\<lparr>nx_status := status, nx_error_category := category, nx_error_message := safeError e\<rparr>"
  let ?x = "y\<lparr>fx_error_category := category, fx_error_message := safeError e, fx_status := ExecutionSkipped\<rparr>"
  obtain u w1 where u: "change (on_runtime (UpdateNodeExecution ?n)) w = (Inr u, w1)"
    and r: "r = None" "w' = try_store env ?x w1"
    using assms(1) unfolding node_failed_def c prod.case Let_def by (auto simp: seq_Inr split: if_splits)
  have "keeps (\<lambda>w w'. correlation_history (w_store w) (w_store w')) (change (on_runtime (UpdateNodeExecution ?n)))"
    by (rule run_steps.runtime_R) (rule record_step.update_node)
  then have "correlation_history (w_store w) (w_store w1)" using u by (auto simp: keeps_def dest!: spec [of _ w])
  then have "execution_stored x w1" using execution_stored_history assms(2) by blast
  then have "execution_stored ?x w1" using assms(3,4) by (simp add: execution_stored_def)
  then have "status_stored ?x (fx_status ?x) w'" unfolding r(2) by (rule try_store_status)
  then show ?thesis using r(1) assms(3,4) by (simp add: status_stored_def)
qed

lemma run_node_ends:
  assumes "run_node env rn n k input st w = (Inr r, w')" "execution_stored x w" "carries x st"
  shows "(case r of None \<Rightarrow> status_stored x ExecutionSkipped w' | Some st' \<Rightarrow> carries x st')"
proof -
  let ?R = "\<lambda>w w'. correlation_history (w_store w) (w_store w')"
  obtain i ne w1 where i: "new_id env w = (Inr i, w1)"
    and rest: "branch (change (on_runtime (CreateNodeExecution ne))) (failExecution env (rs_execution st) ''storage'')
       (\<lambda>_. branch (executeNode env n input (rn_event rn) (rs_execution st) (rn_connection rn) (rn_context rn) (rn_catalog rn))
               (node_failed env (rs_execution st) ne) (\<lambda>v. node_succeeded rn n k ne v st)) w1 = (Inr r, w')"
    using assms(1) unfolding run_node_def Let_def by (auto simp: seq_Inr)
  obtain u w2 where u: "change (on_runtime (CreateNodeExecution ne)) w1 = (Inr u, w2)"
    and rest2: "branch (executeNode env n input (rn_event rn) (rs_execution st) (rn_connection rn) (rn_context rn) (rn_catalog rn))
               (node_failed env (rs_execution st) ne) (\<lambda>v. node_succeeded rn n k ne v st) w2 = (Inr r, w')"
    using rest by (auto simp: branch_Inr)
  have "keeps ?R (change (on_runtime (CreateNodeExecution ne)))"
    by (rule run_steps.runtime_R) (rule record_step.create_node)
  then have "?R w1 w2" using u by (auto simp: keeps_def dest!: spec [of _ w1])
  moreover have "w_store w1 = w_store w" using i by (auto simp: new_id_def)
  ultimately have s2: "execution_stored x w2" using execution_stored_history [of w w2 x] assms(2) by simp
  consider e w3 where "executeNode env n input (rn_event rn) (rs_execution st) (rn_connection rn) (rn_context rn) (rn_catalog rn) w2 = (Inl e, w3)"
      "node_failed env (rs_execution st) ne e w3 = (Inr r, w')"
    | v w3 where "node_succeeded rn n k ne v st w3 = (Inr r, w')"
    using rest2 by (auto simp: branch_Inr)
  then show ?thesis
  proof cases
    case 1
    have "?R w2 w3"
      using run_steps.executeNode_R [of env n input "rn_event rn" "rs_execution st" "rn_connection rn" "rn_context rn" "rn_catalog rn"]
        1(1) by (auto simp: keeps_def dest!: spec [of _ w2])
    then have "execution_stored x w3" using execution_stored_history s2 by blast
    then show ?thesis using node_failed_skips [OF 1(2)] assms(3) by (simp add: carries_def)
  next
    case 2
    then show ?thesis using assms(3) by (auto simp: node_succeeded_def Let_def seq_Inr carries_def split: if_splits)
  qed
qed

lemma exec_step_ends:
  assumes "exec_step env rn k st w = (Inr r, w')" "carries x st"
  shows "(case r of None \<Rightarrow> status_stored x ExecutionSkipped w' | Some st' \<Rightarrow> carries x st')"
proof -
  let ?st = "st\<lparr>rs_execution := (rs_execution st)\<lparr>fx_current_node := k\<rparr>\<rparr>"
  have c: "carries x ?st" using assms(2) by (simp add: carries_def)
  obtain u w1 where u: "store_execution env (rs_execution ?st) w = (Inr u, w1)"
    and rest: "(case checkpoint rn (node_at (rn_graph rn) k) k of
         Some existing \<Rightarrow> pass (Some (resume rn k existing ?st))
       | None \<Rightarrow> run_node env rn (node_at (rn_graph rn) k) k
           (firstNodeInput (node_at (rn_graph rn) k) (map_of (fst (rs_flow ?st)) k)) ?st) w1 = (Inr r, w')"
    using assms(1) unfolding exec_step_def Let_def by (auto simp: seq_Inr)
  have s: "execution_stored x w1" using store_execution_D [OF u] c by (simp add: execution_stored_def carries_def)
  show ?thesis
  proof (cases "checkpoint rn (node_at (rn_graph rn) k) k")
    case None
    then show ?thesis using run_node_ends [OF _ s c] rest by simp
  next
    case (Some existing)
    then have "r = Some (resume rn k existing ?st)" using rest by simp
    then show ?thesis using c by (simp add: resume_def carries_def split: option.split)
  qed
qed

lemma exec_loop_ends:
  "exec_loop env rn ks st w = (Inr r, w') \<Longrightarrow> carries x st \<Longrightarrow>
   (case r of None \<Rightarrow> status_stored x ExecutionSkipped w' | Some st' \<Rightarrow> carries x st')"
proof (induction ks arbitrary: st w)
  case (Cons k ks)
  show ?case
  proof (cases "k \<in> set (snd (rs_flow st))")
    case False
    then show ?thesis using Cons by simp
  next
    case True
    then obtain r1 w1 where s: "exec_step env rn k st w = (Inr r1, w1)"
      and rest: "(case r1 of None \<Rightarrow> pass None | Some st1 \<Rightarrow> exec_loop env rn ks st1) w1 = (Inr r, w')"
      using Cons.prems(1) by (auto simp: seq_Inr)
    show ?thesis using exec_step_ends [OF s Cons.prems(2)] rest Cons.IH by (cases r1) auto
  qed
qed auto

lemma run_graph_ends:
  assumes "run_graph env x event g c cat order inputID latest w = (Inr u, w')"
  shows "\<exists>s \<in> {ExecutionSucceeded, ExecutionSkipped}. status_stored x s w'"
proof -
  obtain rn st w1 r w2 where l: "exec_loop env rn order st w1 = (Inr r, w2)" and f: "finish_run env r w2 = (Inr u, w')"
    and c: "carries x st"
    using assms unfolding run_graph_def Let_def by (auto simp: seq_Inr carries_def)
  show ?thesis
  proof (cases r)
    case None
    then show ?thesis using exec_loop_ends [OF l c] f by (auto simp: finish_run_def)
  next
    case (Some st')
    let ?x = "(rs_execution st')\<lparr>fx_status := ExecutionSucceeded, fx_error_category := [], fx_error_message := []\<rparr>"
    have "store_execution env ?x w2 = (Inr u, w')" using f Some by (auto simp: finish_run_def split: if_splits)
    from store_execution_D [OF this] have "status_stored ?x ExecutionSucceeded w'" by simp
    then show ?thesis using exec_loop_ends [OF l c] Some by (simp add: carries_def status_stored_def)
  qed
qed

lemma ExecuteInWorkspace_ends:
  assumes "ExecuteInWorkspace env ws i w = (Inr u, w')"
  shows "\<exists>z. GetFlowExecution ws i (cd_runtime (w_store w')) = Inr z \<and> fx_status z \<in> {ExecutionSucceeded, ExecutionSkipped}"
proof -
  obtain x where x: "GetFlowExecution ws i (cd_runtime (w_store w)) = Inr x"
    and rest: "(if fx_status x = ExecutionSucceeded \<or> fx_status x = ExecutionSkipped then pass () else execute_pending env ws x) w = (Inr u, w')"
    using assms by (auto simp: ExecuteInWorkspace_def seq_Inr)
  show ?thesis
  proof (cases "fx_status x = ExecutionSucceeded \<or> fx_status x = ExecutionSkipped")
    case True
    then show ?thesis using rest x by auto
  next
    case False
    then have e: "execute_pending env ws x w = (Inr u, w')" using rest by simp
    have ids: "fx_workspace x = ws" "fx_id x = i"
      using GetFlowExecution_D [OF x] by auto
    obtain event g c cat order inputID latest w1 where "run_graph env x event g c cat order inputID latest w1 = (Inr u, w')"
      using e unfolding execute_pending_def Let_def by (auto simp: need_Inr split: if_splits)
    from run_graph_ends [OF this] show ?thesis using ids by (auto simp: status_stored_def)
  qed
qed

text \<open>
  C12: a run that returns without an error is over: the execution is then stored as succeeded or skipped,
  and any later attempt to execute it, by whatever worker and against whatever providers and control
  tables, returns at once, makes no call and changes nothing.
\<close>

theorem finished_run_idle:
  assumes "ExecuteInWorkspace env ws i w = (Inr u, w1)"
  shows "(\<exists>x. GetFlowExecution ws i (cd_runtime (w_store w1)) = Inr x \<and>
           fx_status x \<in> {ExecutionSucceeded, ExecutionSkipped}) \<and>
    ExecuteInWorkspace env2 ws i w1 = (Inr (), w1)"
proof -
  obtain x where "GetFlowExecution ws i (cd_runtime (w_store w1)) = Inr x" "fx_status x \<in> {ExecutionSucceeded, ExecutionSkipped}"
    using ExecuteInWorkspace_ends [OF assms] by blast
  then show ?thesis by (auto simp: ExecuteInWorkspace_def seq_def branch_def peek_def look_def)
qed

theorem finished_run_idle_witness:
  "\<exists>w1. ExecuteInWorkspace sample_executor ''w'' ''x1'' sample_world = (Inr (), w1) \<and>
     ExecuteInWorkspace sample_executor ''w'' ''x1'' w1 = (Inr (), w1)"
proof -
  obtain w1 where "ExecuteInWorkspace sample_executor ''w'' ''x1'' sample_world = (Inr (), w1)"
    using sample_skip by (cases "ExecuteInWorkspace sample_executor ''w'' ''x1'' sample_world") simp
  then show ?thesis using finished_run_idle by blast
qed

section \<open>An issue is created once\<close>

lemma correlation_kept:
  assumes "rows_change xs ys" "r \<in> set xs"
  shows "\<exists>r' \<in> set ys. correlation_key r' = correlation_key r"
proof -
  consider "r \<in> set ys"
    | P f where "ys = update_rows P f xs" "\<And>r. P r \<Longrightarrow> correlation_key (f r) = correlation_key r"
    using assms unfolding rows_change_def by fastforce
  then show ?thesis
  proof cases
    case 2
    have "(if P r then f r else r) \<in> set ys" using assms(2) by (simp add: 2(1) update_rows_def)
    then show ?thesis using 2(2) [of r] by (auto split: if_splits)
  qed blast
qed

lemma correlation_key_history:
  "correlation_history db db' \<Longrightarrow> r \<in> set (cd_rows db) \<Longrightarrow> \<exists>r' \<in> set (cd_rows db'). correlation_key r' = correlation_key r"
proof (induction rule: rtranclp_induct)
  case (step y z)
  then obtain r' where "r' \<in> set (cd_rows y)" "correlation_key r' = correlation_key r" by blast
  then show ?case using correlation_kept [OF correlation_step_change [OF step(2)], of r'] by auto
qed blast

lemma GetCorrelation_iff: "(\<exists>c. GetCorrelation k db = Inr c) \<longleftrightarrow> (\<exists>r \<in> set (cd_rows db). correlation_key r = k)"
proof (cases "List.find (\<lambda>r. correlation_key r = k) (cd_rows db)")
  case None
  then show ?thesis using find_NoneD [OF None] by (auto simp: GetCorrelation_def)
next
  case (Some r)
  then show ?thesis using find_SomeD [OF Some] by (auto simp: GetCorrelation_def)
qed

lemma audited_calls [simp]: "w_calls (snd (audited env x action external request m w)) = w_calls (snd (m w))"
  unfolding audited_def branch_def
  by (auto simp: recordProviderEffect_def Let_def split: prod.split sum.split)

lemma invoke_calls [simp]: "w_calls (snd (invoke answer call w)) = w_calls w @ [call]"
  by (simp add: invoke_def Let_def)

lemma invoke_store [simp]: "w_store (snd (invoke answer call w)) = w_store w"
  by (simp add: invoke_def Let_def)

lemma audited_store [simp]: "w_store (snd (audited env x action external request m w)) = w_store (snd (m w))"
  unfolding audited_def branch_def
  by (auto simp: recordProviderEffect_def Let_def split: prod.split sum.split)

lemma upsert_correlation_present:
  assumes "upsert_correlation d db = Inr db'"
  shows "\<exists>r \<in> set (cd_rows db'). correlation_key r = correlation_key d"
proof (cases "list_ex (\<lambda>r. correlation_key r = correlation_key d) (cd_rows db)")
  case True
  then obtain r where r: "r \<in> set (cd_rows db)" "correlation_key r = correlation_key d" by (auto simp: list_ex_iff)
  let ?f = "\<lambda>r. r\<lparr>co_issue := co_issue d, co_issues := co_issues d, co_target := co_target d,
     co_execution := co_execution d, co_request := co_request d\<rparr>"
  have "cd_rows db' = update_rows (\<lambda>r. correlation_key r = correlation_key d) ?f (cd_rows db)"
    using assms True by (auto simp: upsert_correlation_def bind_result_Inr)
  then have "?f r \<in> set (cd_rows db')" using r by (auto simp: set_update_rows)
  moreover have "correlation_key (?f r) = correlation_key d" using r(2) by (simp add: correlation_key_def)
  ultimately show ?thesis by blast
next
  case False
  then have "cd_rows db' = cd_rows db @ [d]"
    using assms by (auto simp: upsert_correlation_def bind_result_Inr insert_row_Inr)
  then show ?thesis by simp
qed

lemma create_new_issue_D:
  assumes "create_new_issue env i projectID input x c changeID w = (Inr out, w1)"
  shows "(\<exists>issue. w_calls w1 = w_calls w @ [CallCreateIssue i issue]) \<and>
    (\<exists>r \<in> set (cd_rows (w_store w1)). correlation_key r = change_key c x changeID)"
proof -
  obtain issue r w2 newID w3 u where a: "audited env x ''provider.multica.issue.create'' projectID is_request
       (invoke (ex_create env) (CallCreateIssue i issue)) w = (Inr r, w2)"
    and n: "new_id env w2 = (Inr newID, w3)"
    and ch: "change (\<lambda>db. bind_result (UpsertCorrelation (ex_now env) [] (new_correlation newID c x changeID input r) db)
               (\<lambda>(stored, db'). Inr db')) w3 = (Inr u, w1)"
    using assms unfolding create_new_issue_def Let_def by (auto simp: seq_Inr split: if_splits)
  have calls: "w_calls w2 = w_calls w @ [CallCreateIssue i issue]"
    using a audited_calls [of env x "''provider.multica.issue.create''" projectID is_request "invoke (ex_create env) (CallCreateIssue i issue)" w]
    by simp
  have w3: "w_calls w3 = w_calls w2" using n by (auto simp: new_id_def)
  obtain stored db where up: "UpsertCorrelation (ex_now env) [] (new_correlation newID c x changeID input r) (w_store w3) = Inr (stored, db)"
    and w1: "w1 = w3\<lparr>w_store := db\<rparr>" using ch by (auto simp: change_Inr bind_result_Inr)
  obtain d where "upsert_correlation d (w_store w3) = Inr db" "correlation_key d = correlation_key (new_correlation newID c x changeID input r)"
    using UpsertCorrelation_D [OF up] by blast
  moreover have "correlation_key (new_correlation newID c x changeID input r) = change_key c x changeID"
    by (simp add: new_correlation_def Let_def correlation_key_def change_key_def)
  ultimately have "\<exists>r \<in> set (cd_rows db). correlation_key r = change_key c x changeID"
    using upsert_correlation_present by metis
  then show ?thesis using calls w3 w1 by auto
qed

text \<open>
  C10: a change is published once: a creation makes at most one call, and once it has succeeded, then
  whatever the store does in between, another one for the same change in the same flow of the connection -
  a retry, a redelivery, another execution - makes no call, changes nothing and answers with the issue
  that is correlated with the change.
\<close>

theorem createIssue_once:
  assumes "createIssue env i projectID input x c w = (Inr out, w1)" "correlation_history (w_store w1) (w_store w2)"
    "rt_stringValue (obj_get input2 ''change_id'') = rt_stringValue (obj_get input ''change_id'')"
    "change_key c2 x2 = change_key c x"
  shows "(w_calls w1 = w_calls w \<or> (\<exists>issue. w_calls w1 = w_calls w @ [CallCreateIssue i issue])) \<and>
    (\<exists>existing. GetCorrelation (change_key c x (rt_stringValue (obj_get input ''change_id''))) (w_store w2) = Inr existing \<and>
       createIssue env2 i2 projectID2 input2 x2 c2 w2 =
         (Inr [(''issue_id'', VStr (co_target existing)), (''project_id'', VStr projectID2),
               (''provider_request_id'', VStr (co_request existing)), (''correlation_id'', VStr (fx_correlation x2)),
               (''deduplicated'', VBool True)], w2))"
proof -
  let ?id = "rt_stringValue (obj_get input ''change_id'')"
  have id: "?id \<noteq> []" using assms(1) by (auto simp: createIssue_def Let_def)
  have "(w_calls w1 = w_calls w \<or> (\<exists>issue. w_calls w1 = w_calls w @ [CallCreateIssue i issue])) \<and>
     (\<exists>r \<in> set (cd_rows (w_store w1)). correlation_key r = change_key c x ?id)"
  proof (cases "GetCorrelation (change_key c x ?id) (w_store w)")
    case (Inl e)
    then have "create_new_issue env i projectID input x c ?id w = (Inr out, w1)"
      using assms(1) id by (auto simp: createIssue_def Let_def branch_def peek_def look_def split: if_splits)
    from create_new_issue_D [OF this] show ?thesis by blast
  next
    case (Inr existing)
    then have "w1 = w" using assms(1) id by (auto simp: createIssue_def Let_def branch_def peek_def look_def)
    then show ?thesis using Inr GetCorrelation_iff by blast
  qed
  moreover from this obtain existing where "GetCorrelation (change_key c x ?id) (w_store w2) = Inr existing"
    using correlation_key_history [OF assms(2)] GetCorrelation_iff by metis
  ultimately show ?thesis using id assms(3,4) by (auto simp: createIssue_def Let_def branch_def peek_def look_def)
qed

lemma audited_answers:
  "answer (w_calls w @ [call]) = Inr r \<Longrightarrow> \<exists>trail n. audited env x action external request (invoke answer call) w =
     (Inr r, w\<lparr>w_calls := w_calls w @ [call], w_audit := trail, w_next := n\<rparr>)"
  by (cases w) (auto simp: audited_def branch_def invoke_def recordProviderEffect_def Let_def split: sum.split)

lemma sample_value: "rt_stringValue (VStr ''p2'') = ''p2''" "rt_stringValue (VStr ''p'') = ''p''"
  by code_simp+

lemma sample_names: "trim_space ''7'' \<noteq> []" "trim_space ''p2'' \<noteq> []"
  by code_simp+

lemma sample_correlated:
  "\<exists>stored db. UpsertCorrelation 9 [] (new_correlation (replicate (n + 1) (CHR ''n'')) sample_connection pending_execution ''p2''
     [(''change_id'', VStr ''p2'')] \<lparr>is_issue = ''T-9'', is_project = ''9'', is_request = ''r-9''\<rparr>) (w_store sample_world) = Inr (stored, db)"
  by (simp add: UpsertCorrelation_def new_correlation_def Let_def or_default_def sample_connection_def source_ref_def
      pending_execution_def sample_execution_def sample_world_def sample_runtime_def valid_lifecycle_def upsert_correlation_def
      correlation_references_def require_row_def complete_issues_def insert_row_def correlation_key_def GetCorrelation_def sample_names)

lemma create_new_issue_answers:
  assumes "\<And>calls. ex_create env calls = Inr r" "is_issue r \<noteq> []"
    "firstNonEmpty [rt_stringValue (obj_get input ''status''), ''backlog''] \<in> {''backlog'', ''todo''}"
    "\<And>n. \<exists>stored db. UpsertCorrelation (ex_now env) [] (new_correlation (ex_fresh env n) c x changeID input r) (w_store w) = Inr (stored, db)"
  shows "\<exists>out w1. create_new_issue env i projectID input x c changeID w = (Inr out, w1) \<and> w_calls w1 \<noteq> []"
proof -
  define issue where "issue = \<lparr>ii_project = projectID, ii_title = firstNonEmpty [rt_stringValue (obj_get input ''title''), ''[SpecWire] '' @ changeID],
    ii_description = firstNonEmpty [rt_stringValue (obj_get input ''description''), buildIssueDescription c input],
    ii_status = firstNonEmpty [rt_stringValue (obj_get input ''status''), ''backlog''],
    ii_assignee = rt_stringValue (obj_get input ''assignee''), ii_key = fx_key x\<rparr>"
  obtain trail n where a: "audited env x ''provider.multica.issue.create'' projectID is_request
       (invoke (ex_create env) (CallCreateIssue i issue)) w =
     (Inr r, w\<lparr>w_calls := w_calls w @ [CallCreateIssue i issue], w_audit := trail, w_next := n\<rparr>)"
    using audited_answers [of "ex_create env" w "CallCreateIssue i issue" r] assms(1) by blast
  obtain stored db where "UpsertCorrelation (ex_now env) [] (new_correlation (ex_fresh env n) c x changeID input r) (w_store w) = Inr (stored, db)"
    using assms(4) by blast
  then show ?thesis using assms(2,3) a unfolding create_new_issue_def Let_def issue_def [symmetric]
    by (auto simp: seq_def branch_def new_id_def change_def)
qed

lemma sample_create:
  "\<exists>out w1. createIssue sample_executor sample_endpoint ''9'' [(''change_id'', VStr ''p2'')] pending_execution sample_connection
     sample_world = (Inr out, w1) \<and> w_calls w1 \<noteq> []"
proof -
  let ?r = "\<lparr>is_issue = ''T-9'', is_project = ''9'', is_request = ''r-9''\<rparr>"
  have "GetCorrelation k (w_store sample_world) = fail ErrNotFound (''correlation '' @ snd (snd (snd (snd k))))" for k
    by (simp add: GetCorrelation_def sample_world_def)
  moreover have "\<exists>out w1. create_new_issue sample_executor sample_endpoint ''9'' [(''change_id'', VStr ''p2'')] pending_execution
      sample_connection ''p2'' sample_world = (Inr out, w1) \<and> w_calls w1 \<noteq> []"
  proof (rule create_new_issue_answers [where r = ?r])
    show "ex_create sample_executor calls = Inr ?r" for calls by (simp add: sample_executor_def)
    show "\<exists>stored db. UpsertCorrelation (ex_now sample_executor) [] (new_correlation (ex_fresh sample_executor n) sample_connection
        pending_execution ''p2'' [(''change_id'', VStr ''p2'')] ?r) (w_store sample_world) = Inr (stored, db)" for n
      using sample_correlated [of n] by (simp only: sample_executor_def executor.simps)
    show "firstNonEmpty [rt_stringValue (obj_get [(''change_id'', VStr ''p2'')] ''status''), ''backlog''] \<in> {''backlog'', ''todo''}"
      by code_simp
  qed simp_all
  ultimately show ?thesis
    using sample_value by (simp add: createIssue_def branch_def peek_def look_def Let_def)
qed

theorem createIssue_once_witness:
  "\<exists>out w1 (existing :: correlation). createIssue sample_executor sample_endpoint ''9'' [(''change_id'', VStr ''p2'')] pending_execution
       sample_connection sample_world = (Inr out, w1) \<and>
     (\<exists>issue. w_calls w1 = [CallCreateIssue sample_endpoint issue]) \<and>
     createIssue sample_executor sample_endpoint ''9'' [(''change_id'', VStr ''p2'')] pending_execution sample_connection w1 =
       (Inr [(''issue_id'', VStr (co_target existing)), (''project_id'', VStr ''9''),
             (''provider_request_id'', VStr (co_request existing)), (''correlation_id'', VStr (fx_correlation pending_execution)),
             (''deduplicated'', VBool True)], w1)"
proof -
  obtain out w1 where c: "createIssue sample_executor sample_endpoint ''9'' [(''change_id'', VStr ''p2'')] pending_execution
      sample_connection sample_world = (Inr out, w1)" "w_calls w1 \<noteq> []" using sample_create by auto
  have n: "w_calls sample_world = []" by (simp add: sample_world_def)
  note once = createIssue_once [OF c(1) rtranclp.rtrancl_refl refl refl, of sample_executor sample_endpoint "''9''"]
  have called: "\<exists>issue. w_calls w1 = [CallCreateIssue sample_endpoint issue]" using once c(2) n by simp
  obtain existing :: correlation where "createIssue sample_executor sample_endpoint ''9'' [(''change_id'', VStr ''p2'')] pending_execution
       sample_connection w1 =
       (Inr [(''issue_id'', VStr (co_target existing)), (''project_id'', VStr ''9''),
             (''provider_request_id'', VStr (co_request existing)), (''correlation_id'', VStr (fx_correlation pending_execution)),
             (''deduplicated'', VBool True)], w1)" using once by blast
  with c(1) called show ?thesis by blast
qed

section \<open>A completion is carried out once\<close>

definition is_projection_call :: "provider_call \<Rightarrow> bool" where
  "is_projection_call call = (case call of CallSetIssueStatus i t s \<Rightarrow> True | CallCreateIssue i r \<Rightarrow> True | _ \<Rightarrow> False)"

definition identities :: "world \<Rightarrow> (ID \<times> ID \<times> ID \<times> ID \<times> string \<times> string) list" where
  "identities w = map (\<lambda>r. (co_id r, correlation_key r)) (cd_rows (w_store w))"

definition ended :: "ID \<Rightarrow> world \<Rightarrow> bool" where
  "ended i w \<longleftrightarrow> (\<exists>r \<in> set (cd_rows (w_store w)). co_id r = i \<and> co_lifecycle r \<in> {ProjectionDone, ProjectionCancelled})"

lemma MarkCorrelationLifecycle_identities:
  "MarkCorrelationLifecycle ws i s db = Inr db' \<Longrightarrow>
     map (\<lambda>r. (co_id r, correlation_key r)) (cd_rows db') = map (\<lambda>r. (co_id r, correlation_key r)) (cd_rows db)"
  by (auto simp: MarkCorrelationLifecycle_def Let_def update_rows_def correlation_key_def split: if_splits option.splits)

lemma set_statuses_D:
  "set_statuses env i x c status cos ids w = (Inr out, w1) \<Longrightarrow> correlations_ok (w_store w) \<Longrightarrow>
   w_calls w1 = w_calls w @ map (\<lambda>co. CallSetIssueStatus i (co_target co) status) cos \<and>
   identities w1 = identities w \<and> list_all (\<lambda>co. ended (co_id co) w1) cos \<and>
   correlation_history (w_store w) (w_store w1)"
proof (induction cos arbitrary: ids w)
  case (Cons co cos)
  obtain requestID w2 u w3 where
      a: "audited env x ''provider.multica.issue.status'' (co_target co) (\<lambda>r. r)
            (invoke (ex_status env) (CallSetIssueStatus i (co_target co) status)) w = (Inr requestID, w2)"
    and m: "change (MarkCorrelationLifecycle (cn_workspace c) (co_id co) status) w2 = (Inr u, w3)"
    and rest: "set_statuses env i x c status cos (if requestID \<noteq> [] then ids @ [requestID] else ids) w3 = (Inr out, w1)"
    using Cons.prems(1) by (auto simp: seq_Inr branch_Inr)
  have w2: "w_calls w2 = w_calls w @ [CallSetIssueStatus i (co_target co) status]" "w_store w2 = w_store w"
    using a audited_calls [of env x "''provider.multica.issue.status''" "co_target co" "\<lambda>r. r"
        "invoke (ex_status env) (CallSetIssueStatus i (co_target co) status)" w]
      audited_store [of env x "''provider.multica.issue.status''" "co_target co" "\<lambda>r. r"
        "invoke (ex_status env) (CallSetIssueStatus i (co_target co) status)" w] by simp_all
  obtain db where db: "MarkCorrelationLifecycle (cn_workspace c) (co_id co) status (w_store w) = Inr db"
    and w3: "w3 = w2\<lparr>w_store := db\<rparr>" using m w2(2) by (auto simp: change_Inr)
  have ok: "correlations_ok (w_store w3)"
    using rows_change_ok [OF MarkCorrelationLifecycle_change [OF db] Cons.prems(2)] w3 by simp
  note IH = Cons.IH [OF rest ok]
  have h: "correlation_history (w_store w) (w_store w1)"
    using IH db w3 by (auto intro: converse_rtranclp_into_rtranclp correlation_step.mark)
  have "ended (co_id co) w3"
    using MarkCorrelationLifecycle_marked [OF Cons.prems(2) db] w3 by (auto simp: ended_def)
  then have "ended (co_id co) w1" using IH terminal_history [of "w_store w3" "w_store w1"] by (fastforce simp: ended_def)
  then show ?case using IH h w2(1) w3 MarkCorrelationLifecycle_identities [OF db] w2(2) by (simp add: identities_def)
qed simp

text \<open>The calls to GitLab leave the tables as they are and are no calls to the projections.\<close>

definition gitlab_only :: "world \<Rightarrow> world \<Rightarrow> bool" where
  "gitlab_only w w' \<longleftrightarrow> w_store w' = w_store w \<and>
     (\<exists>calls. w_calls w' = w_calls w @ calls \<and> list_all (\<lambda>call. \<not> is_projection_call call) calls)"

lemma gitlab_only_refl [simp]: "gitlab_only w w"
  by (simp add: gitlab_only_def)

lemma gitlab_only_trans: "gitlab_only a b \<Longrightarrow> gitlab_only b c \<Longrightarrow> gitlab_only a c"
  unfolding gitlab_only_def by auto

lemma gitlab_audited:
  "\<not> is_projection_call call \<Longrightarrow> keeps gitlab_only (audited env x action external request (invoke answer call))"
  by (simp add: keeps_def gitlab_only_def)

lemma gitlab_branch:
  "keeps gitlab_only m \<Longrightarrow> (\<And>e. keeps gitlab_only (f e)) \<Longrightarrow> (\<And>v. keeps gitlab_only (g v)) \<Longrightarrow> keeps gitlab_only (branch m f g)"
  unfolding keeps_def branch_def by (auto split: prod.splits sum.splits) (metis gitlab_only_trans snd_conv)+

lemma gitlab_look: "keeps gitlab_only (look r)" and gitlab_pass: "keeps gitlab_only (pass v)" and gitlab_stop: "keeps gitlab_only (stop e)"
  by (simp_all add: keeps_def)

lemma gitlab_if: "keeps gitlab_only m \<Longrightarrow> keeps gitlab_only m' \<Longrightarrow> keeps gitlab_only (if b then m else m')"
  by simp

lemmas gitlab_rules = gitlab_if gitlab_audited gitlab_branch gitlab_look gitlab_pass gitlab_stop

lemma note_issues_gitlab: "keeps gitlab_only (note_issues env i x p note credential ns failed)"
proof (induction ns arbitrary: failed)
  case (Cons n ns)
  then show ?case unfolding note_issues.simps by (intro gitlab_rules) (simp_all add: is_projection_call_def)
qed (simp add: gitlab_pass)

lemma close_issues_gitlab: "keeps gitlab_only (close_issues env i x p credential ns closed)"
proof (induction ns arbitrary: closed)
  case (Cons n ns)
  then show ?case unfolding close_issues.simps by (intro gitlab_rules) (simp_all add: is_projection_call_def)
qed (simp add: gitlab_pass)

lemma finish_gitlab_only: "keeps gitlab_only (finish_gitlab env x c changeID life ids out)"
proof (cases "ex_credentials env")
  case None
  then show ?thesis by (simp add: finish_gitlab_def gitlab_pass)
next
  case (Some vault)
  show ?thesis unfolding finish_gitlab_def Some option.case Let_def seq_def
    by (intro gitlab_rules note_issues_gitlab close_issues_gitlab)
qed

lemma active_correlations_Inr:
  "active_correlations cs = Inr active \<longleftrightarrow>
     (\<forall>co \<in> set cs. valid_lifecycle (projection_status co)) \<and> active = filter (\<lambda>co. projection_status co = ProjectionActive) cs"
proof (cases "List.find (\<lambda>co. \<not> valid_lifecycle (projection_status co)) cs")
  case None
  then show ?thesis using find_NoneD [OF None] by (auto simp: active_correlations_def)
next
  case (Some co)
  then show ?thesis using find_SomeD [OF Some] by (auto simp: active_correlations_def)
qed

lemma projection_status_read [simp]: "projection_status (read_correlation r) = or_default (co_lifecycle r) (\<lambda>s. s = []) ProjectionActive"
  by (simp add: projection_status_def read_correlation_def or_default_def)

lemma read_correlation_id [simp]: "co_id (read_correlation r) = co_id r"
  by (simp add: read_correlation_def)

lemma ListCorrelations_D:
  "co \<in> set (ListCorrelations ws c s k db) \<Longrightarrow>
     \<exists>r \<in> set (cd_rows db). co = read_correlation r \<and> co_workspace r = ws \<and> co_connection r = c \<and> co_flow r \<noteq> [] \<and>
       co_source r = s \<and> co_publication r = k"
  by (auto simp: ListCorrelations_def)

lemma ListCorrelations_empty:
  "ListCorrelations ws c s k db = [] \<longleftrightarrow>
     (\<forall>(i, w, cn, f, sr, p) \<in> set (map (\<lambda>r. (co_id r, correlation_key r)) (cd_rows db)).
        \<not> (w = ws \<and> cn = c \<and> f \<noteq> [] \<and> sr = s \<and> p = k))"
  by (auto simp: ListCorrelations_def filter_empty_conv correlation_key_def)

lemma completeIssue_enters:
  assumes "rt_stringValue (obj_get input ''change_id'') = changeID" "changeID \<noteq> []"
    "firstNonEmpty [rt_stringValue (obj_get input ''correlation_id''), changeID] = key"
    "ListCorrelations (cn_workspace c) (cn_id c) (proj_external (cn_source c)) key (w_store w) = cs" "cs \<noteq> []"
    "completion_status input (completion_lifecycle input (ie_payload event)) = Inr status" "active_correlations cs = Inr active"
  shows "completeIssue env i input event x c w =
    complete_projections env i x c key changeID (completion_lifecycle input (ie_payload event)) status cs active w"
proof -
  have "completeIssue env i input event x c =
     seq (peek (\<lambda>db. Inr (ListCorrelations (cn_workspace c) (cn_id c) (proj_external (cn_source c)) key db))) (\<lambda>cs.
              if cs = [] then
                stop (EReconcile (EErr (GErr ErrNotFound (''correlated projection for '' @ key @ '' is unavailable: '' @
                  sentinel_text ErrNotFound))))
              else seq (look (completion_status input (completion_lifecycle input (ie_payload event)))) (\<lambda>status.
                   seq (look (active_correlations cs)) (\<lambda>active.
                     complete_projections env i x c key changeID (completion_lifecycle input (ie_payload event)) status cs active)))"
    unfolding completeIssue_def Let_def assms(1,3) using assms(2) by simp
  then show ?thesis using assms(4-7) by (simp add: seq_def branch_def peek_def look_def)
qed

text \<open>What a completion that returned without an error has done.\<close>

lemma completeIssue_D:
  assumes "completeIssue env i input event x c w = (Inr out, w1)" "correlations_ok (w_store w)"
  shows "\<exists>cs status active rest.
    cs = ListCorrelations (cn_workspace c) (cn_id c) (proj_external (cn_source c))
      (firstNonEmpty [rt_stringValue (obj_get input ''correlation_id''), rt_stringValue (obj_get input ''change_id'')]) (w_store w) \<and>
    rt_stringValue (obj_get input ''change_id'') \<noteq> [] \<and> cs \<noteq> [] \<and>
    completion_status input (completion_lifecycle input (ie_payload event)) = Inr status \<and> active_correlations cs = Inr active \<and>
    w_calls w1 = w_calls w @ map (\<lambda>co. CallSetIssueStatus i (co_target co) status) active @ rest \<and>
    list_all (\<lambda>call. \<not> is_projection_call call) rest \<and>
    identities w1 = identities w \<and> list_all (\<lambda>co. ended (co_id co) w1) active \<and> correlation_history (w_store w) (w_store w1)"
proof -
  obtain cs status active where
      cs: "cs = ListCorrelations (cn_workspace c) (cn_id c) (proj_external (cn_source c))
        (firstNonEmpty [rt_stringValue (obj_get input ''correlation_id''), rt_stringValue (obj_get input ''change_id'')]) (w_store w)"
      "rt_stringValue (obj_get input ''change_id'') \<noteq> []" "cs \<noteq> []"
    and st: "completion_status input (completion_lifecycle input (ie_payload event)) = Inr status"
    and ac: "active_correlations cs = Inr active"
    and run: "complete_projections env i x c
        (firstNonEmpty [rt_stringValue (obj_get input ''correlation_id''), rt_stringValue (obj_get input ''change_id'')])
        (rt_stringValue (obj_get input ''change_id'')) (completion_lifecycle input (ie_payload event)) status cs active w = (Inr out, w1)"
    using assms(1) unfolding completeIssue_def Let_def by (auto simp: seq_Inr split: if_splits)
  have "\<exists>rest. w_calls w1 = w_calls w @ map (\<lambda>co. CallSetIssueStatus i (co_target co) status) active @ rest \<and>
      list_all (\<lambda>call. \<not> is_projection_call call) rest \<and> identities w1 = identities w \<and>
      list_all (\<lambda>co. ended (co_id co) w1) active \<and> correlation_history (w_store w) (w_store w1)"
  proof (cases "active = []")
    case True
    then show ?thesis using run by (simp add: complete_projections_def)
  next
    case False
    then obtain requests w2 where s: "set_statuses env i x c status active [] w = (Inr requests, w2)"
      and g: "\<exists>t. finish_gitlab env x c (rt_stringValue (obj_get input ''change_id''))
         (completion_lifecycle input (ie_payload event)) (issue_numbers cs) t w2 = (Inr out, w1)"
      using run by (auto simp: complete_projections_def seq_Inr)
    have "gitlab_only w2 w1" using g finish_gitlab_only unfolding keeps_def by (metis snd_conv)
    then show ?thesis using set_statuses_D [OF s assms(2)]
      by (auto simp: gitlab_only_def identities_def ended_def)
  qed
  then show ?thesis using cs st ac by blast
qed

text \<open>Afterwards no correlation of the change is active.\<close>

lemma completed_none_active:
  assumes "correlations_ok (w_store w)" "correlation_history (w_store w) (w_store w1)" "identities w1 = identities w"
    "active_correlations (ListCorrelations ws c s k (w_store w)) = Inr active" "list_all (\<lambda>co. ended (co_id co) w1) active"
  shows "active_correlations (ListCorrelations ws c s k (w_store w1)) = Inr []"
proof -
  have ok1: "correlations_ok (w_store w1)" using correlation_history_ok [OF assms(2,1)] .
  have "projection_status co \<in> {ProjectionDone, ProjectionCancelled}" if co: "co \<in> set (ListCorrelations ws c s k (w_store w1))" for co
  proof -
    obtain r1 where r1: "r1 \<in> set (cd_rows (w_store w1))" "co = read_correlation r1" "correlation_key r1 = (ws, c, co_flow r1, s, k)"
      "co_flow r1 \<noteq> []" using ListCorrelations_D [OF co] by (auto simp: correlation_key_def)
    have "(co_id r1, correlation_key r1) \<in> set (identities w)" using r1(1) assms(3) [symmetric] by (auto simp: identities_def)
    then obtain r where r: "r \<in> set (cd_rows (w_store w))" "co_id r = co_id r1" "correlation_key r = correlation_key r1"
      by (auto simp: identities_def)
    have listed: "read_correlation r \<in> set (ListCorrelations ws c s k (w_store w))"
      using r r1(3,4) by (auto simp: ListCorrelations_def correlation_key_def)
    then have valid: "valid_lifecycle (projection_status (read_correlation r))" using assms(4) unfolding active_correlations_Inr by blast
    have same: "r' = r1" if "r' \<in> set (cd_rows (w_store w1))" "co_id r' = co_id r1" for r'
      using ok1 that r1(1) by (auto simp: correlations_ok_def distinct_map inj_on_def)
    have "co_lifecycle r1 \<in> {ProjectionDone, ProjectionCancelled}"
    proof (cases "projection_status (read_correlation r) = ProjectionActive")
      case True
      then have "ended (co_id r) w1" using listed assms(4,5) unfolding active_correlations_Inr by (fastforce simp: list_all_iff)
      then show ?thesis using same r(2) by (auto simp: ended_def)
    next
      case False
      then have "co_lifecycle r \<in> {ProjectionDone, ProjectionCancelled}"
        using valid by (auto simp: valid_lifecycle_def or_default_def split: if_splits)
      then show ?thesis using terminal_history [OF assms(2) r(1)] same r(2) by metis
    qed
    then show ?thesis using r1(2) by (auto simp: or_default_def)
  qed
  then have "\<forall>co \<in> set (ListCorrelations ws c s k (w_store w1)). valid_lifecycle (projection_status co) \<and>
      projection_status co \<noteq> ProjectionActive" by (fastforce simp: valid_lifecycle_def)
  then show ?thesis unfolding active_correlations_Inr by (simp add: filter_empty_conv [THEN iffD2])
qed

text \<open>
  C11: a completion is carried out once: the calls it makes to the projections set the status of exactly the
  correlations of the change that were active, in the order of their flows, and when it has returned
  without an error none of them is active any more, so that completing the change again is answered by the
  terminal guard without a call to any provider and without a change of the tables.
\<close>

theorem completeIssue_once:
  assumes "correlations_ok (w_store w)" "completeIssue env i input event x c w = (Inr out, w1)"
  shows "\<exists>status rest. w_calls w1 = w_calls w @
      map (\<lambda>co. CallSetIssueStatus i (co_target co) status)
        (filter (\<lambda>co. projection_status co = ProjectionActive)
          (ListCorrelations (cn_workspace c) (cn_id c) (proj_external (cn_source c))
             (firstNonEmpty [rt_stringValue (obj_get input ''correlation_id''), rt_stringValue (obj_get input ''change_id'')])
             (w_store w))) @ rest \<and>
    list_all (\<lambda>call. \<not> is_projection_call call) rest \<and>
    (\<exists>again. completeIssue env2 i2 input event x2 c w1 = (Inr again, w1) \<and> map_of again ''terminal_guard'' = Some (VBool True))"
proof -
  let ?key = "firstNonEmpty [rt_stringValue (obj_get input ''correlation_id''), rt_stringValue (obj_get input ''change_id'')]"
  let ?list = "\<lambda>w. ListCorrelations (cn_workspace c) (cn_id c) (proj_external (cn_source c)) ?key (w_store w)"
  obtain status active rest where d: "rt_stringValue (obj_get input ''change_id'') \<noteq> []" "?list w \<noteq> []"
      "completion_status input (completion_lifecycle input (ie_payload event)) = Inr status" "active_correlations (?list w) = Inr active"
      "w_calls w1 = w_calls w @ map (\<lambda>co. CallSetIssueStatus i (co_target co) status) active @ rest"
      "list_all (\<lambda>call. \<not> is_projection_call call) rest" "identities w1 = identities w"
      "list_all (\<lambda>co. ended (co_id co) w1) active" "correlation_history (w_store w) (w_store w1)"
    using completeIssue_D [OF assms(2,1)] by blast
  have none: "active_correlations (?list w1) = Inr []"
    by (rule completed_none_active [OF assms(1) d(9,7,4,8)])
  have ne: "?list w1 \<noteq> []" using d(2,7) unfolding ListCorrelations_empty identities_def by simp
  let ?again = "terminal_output (?list w1) ?key (rt_stringValue (obj_get input ''change_id'')) status
     (fst (completion_lifecycle input (ie_payload event)))"
  have "completeIssue env2 i2 input event x2 c w1 = (Inr ?again, w1)"
    using completeIssue_enters [OF refl d(1) refl refl ne d(3) none] by (simp add: complete_projections_def)
  moreover have "map_of ?again ''terminal_guard'' = Some (VBool True)"
    by (simp add: terminal_output_def put_event_def map_of_update completeIssueOutput_def Let_def)
  ultimately show ?thesis using d(4,5,6) by (auto simp: active_correlations_Inr)
qed

definition active_world :: world where
  "active_world = sample_world\<lparr>w_store := sample_correlations\<rparr>"

definition issue_connection :: connection where
  "issue_connection = sample_connection\<lparr>cn_source := source_ref ''7'' ''7!1''\<rparr>"

lemma sample_complete:
  "\<exists>out w1. completeIssue sample_executor sample_endpoint [(''change_id'', VStr ''p'')] sample_event pending_execution
     issue_connection active_world = (Inr out, w1)"
proof -
  let ?w = active_world and ?x = pending_execution and ?c = issue_connection
  let ?co = "read_correlation (hd (cd_rows sample_correlations))"
  have status: "ex_status sample_executor calls = Inr ''r-9''" for calls by (simp add: sample_executor_def)
  obtain trail n where a: "audited sample_executor ?x ''provider.multica.issue.status'' (co_target ?co) (\<lambda>r. r)
      (invoke (ex_status sample_executor) (CallSetIssueStatus sample_endpoint (co_target ?co) ProjectionDone)) ?w =
      (Inr ''r-9'', ?w\<lparr>w_calls := w_calls ?w @ [CallSetIssueStatus sample_endpoint (co_target ?co) ProjectionDone],
         w_audit := trail, w_next := n\<rparr>)"
    using audited_answers [of "ex_status sample_executor" ?w "CallSetIssueStatus sample_endpoint (co_target ?co) ProjectionDone" "''r-9''"]
      status by blast
  obtain db where "MarkCorrelationLifecycle (cn_workspace ?c) (co_id ?co) ProjectionDone sample_correlations = Inr db"
    by (simp add: MarkCorrelationLifecycle_def sample_correlations_def issue_connection_def sample_connection_def)
  then have s: "\<exists>w2. set_statuses sample_executor sample_endpoint ?x ?c ProjectionDone [?co] [] ?w = (Inr [''r-9''], w2)"
    using a by (simp add: seq_def branch_def change_def active_world_def)
  have l: "ListCorrelations (cn_workspace ?c) (cn_id ?c) (proj_external (cn_source ?c)) ''p'' (w_store ?w) = [?co]"
    by code_simp
  have k: "firstNonEmpty [rt_stringValue (obj_get [(''change_id'', VStr ''p'')] ''correlation_id''), ''p''] = ''p''" by code_simp
  have sample_id: "rt_stringValue (obj_get [(''change_id'', VStr ''p'')] ''change_id'') = ''p''" by code_simp
  have st: "completion_status [(''change_id'', VStr ''p'')]
      (completion_lifecycle [(''change_id'', VStr ''p'')] (ie_payload sample_event)) = Inr ProjectionDone" by code_simp
  have ac: "active_correlations [?co] = Inr [?co]" by code_simp
  have none: "ex_credentials sample_executor = None" by (simp add: sample_executor_def)
  show ?thesis using s completeIssue_enters [OF sample_id _ k l _ st ac]
    by (auto simp: complete_projections_def finish_gitlab_def none seq_def branch_def)
qed

theorem completeIssue_once_witness:
  "\<exists>out w1 again. completeIssue sample_executor sample_endpoint [(''change_id'', VStr ''p'')] sample_event pending_execution
       issue_connection active_world = (Inr out, w1) \<and>
     completeIssue sample_executor sample_endpoint [(''change_id'', VStr ''p'')] sample_event pending_execution
       issue_connection w1 = (Inr again, w1) \<and> map_of again ''terminal_guard'' = Some (VBool True)"
proof -
  have ok: "correlations_ok (w_store active_world)"
    by (simp add: correlations_ok_def active_world_def sample_correlations_def valid_lifecycle_def)
  obtain out w1 where c: "completeIssue sample_executor sample_endpoint [(''change_id'', VStr ''p'')] sample_event pending_execution
      issue_connection active_world = (Inr out, w1)" using sample_complete by blast
  from completeIssue_once [OF ok c, of sample_executor sample_endpoint pending_execution] c show ?thesis by blast
qed

section \<open>A retry\<close>

text \<open>A connector that is no input of the catalog: the only nodes that can call a provider.\<close>

definition may_call :: "catalog \<Rightarrow> flow_node \<Rightarrow> bool" where
  "may_call cat n \<longleftrightarrow>
     node_kind n = NodeConnector \<and>
     (case node_connector n of
        None \<Rightarrow> False
      | Some cn \<Rightarrow> (case catalog_behavior cat (conn_behavior_key cn) (conn_behavior_version cn) of
                      None \<Rightarrow> False | Some b \<Rightarrow> bh_direction b \<noteq> DirectionInput))"

definition outputs_recorded :: "catalog \<Rightarrow> flow_graph \<Rightarrow> (ID, node_execution) gomap \<Rightarrow> bool" where
  "outputs_recorded cat g latest \<longleftrightarrow>
     list_all (\<lambda>n. may_call cat n \<longrightarrow>
       (case map_of latest (node_id n) of None \<Rightarrow> False
        | Some existing \<Rightarrow> nx_status existing = NodeSucceeded \<or> nx_status existing = NodeSkipped)) (graph_nodes g)"

lemma outputs_recorded_checkpoint:
  assumes "outputs_recorded (rn_catalog rn) (rn_graph rn) (rn_latest rn)" "may_call (rn_catalog rn) (node_at (rn_graph rn) k)"
  shows "checkpoint rn (node_at (rn_graph rn) k) k \<noteq> None"
proof -
  obtain n where n: "find_node (rn_graph rn) k = Some n" "node_at (rn_graph rn) k = n"
    using assms(2) by (auto simp: node_at_def may_call_def bare_node_def split: option.splits)
  then have "n \<in> set (graph_nodes (rn_graph rn))" "node_id n = k" by (auto simp: find_node_def dest!: find_SomeD)
  then show ?thesis using assms n by (auto simp: outputs_recorded_def list_all_iff checkpoint_def may_call_def split: option.splits)
qed

lemma executeNode_silent:
  assumes "\<not> may_call cat n"
  shows "keeps (\<lambda>w w'. w_calls w' = w_calls w) (executeNode env n input event x c rc cat)"
  using assms by (auto simp: keeps_def executeNode_def may_call_def split: option.splits)

lemma failExecution_calls [simp]: "w_calls (snd (failExecution env x category e w)) = w_calls w"
  by (rule run_silent.failExecution_R [unfolded keeps_def, THEN spec])

lemma need_peek_calls:
  "(\<And>v. h (w_store w) = Inr v \<Longrightarrow> w_calls (snd (f v w)) = w_calls w) \<Longrightarrow> w_calls (snd (need env x category (peek h) f w)) = w_calls w"
  by (cases "h (w_store w)") (simp_all add: need_def branch_def peek_def look_def)

lemma need_look_calls:
  "(\<And>v. r = Inr v \<Longrightarrow> w_calls (snd (f v w)) = w_calls w) \<Longrightarrow> w_calls (snd (need env x category (look r) f w)) = w_calls w"
  by (cases r) (simp_all add: need_def branch_def look_def)

text \<open>
  C13: a retry does not repeat what was done: when the last attempt of every node that can call a provider
  is recorded as succeeded or skipped, executing the execution again, whatever it does and however it
  ends, makes no call to a provider.
\<close>

theorem retry_makes_no_call:
  assumes "GetFlowExecution ws i (cd_runtime (w_store w)) = Inr x"
    "GetFlowVersion ws (fx_flow x) (fx_version x) (cb_flows (ex_control env)) = Inr v"
    "ex_resolve env ws = Inr cat" "latestNodeExecutions ws i (cd_runtime (w_store w)) = Inr latest"
    "outputs_recorded cat (fv_graph v) latest"
  shows "w_calls (snd (ExecuteInWorkspace env ws i w)) = w_calls w"
proof -
  have i: "fx_id x = i" using GetFlowExecution_D [OF assms(1)] by auto
  have "keeps (\<lambda>w w'. w_calls w' = w_calls w) (run_graph env x event (fv_graph v) c cat order inputID latest)" for event c order inputID
  proof (intro run_silent.run_graph_R run_silent.exec_loop_R run_silent.exec_step_R executeNode_silent)
    fix rn k assume "rn_graph rn = fv_graph v" "rn_catalog rn = cat" "rn_latest rn = latest"
      "checkpoint rn (node_at (rn_graph rn) k) k = None"
    then show "\<not> may_call (rn_catalog rn) (node_at (rn_graph rn) k)"
      using outputs_recorded_checkpoint [of rn k] assms(5) by auto
  qed
  then have "w_calls (snd (execute_pending env ws x w)) = w_calls w"
    unfolding execute_pending_def Let_def
    by (intro need_peek_calls need_look_calls) (use assms i in \<open>auto simp: keeps_def intro: need_peek_calls\<close>)
  then show ?thesis using assms(1)
    by (simp add: ExecuteInWorkspace_def seq_def branch_def peek_def look_def pass_def)
qed

definition retried_world :: world where
  "retried_world = sample_world\<lparr>w_store := (w_store sample_world)\<lparr>cd_runtime :=
     (cd_runtime (w_store sample_world))\<lparr>rd_nodes := [recorded_output]\<rparr>\<rparr>\<rparr>"

theorem retry_makes_no_call_witness:
  "w_calls (snd (ExecuteInWorkspace sample_executor ''w'' ''x1'' retried_world)) = []"
proof -
  obtain x where x: "GetFlowExecution ''w'' ''x1'' (cd_runtime (w_store retried_world)) = Inr x" "fx_flow x = ''f1''" "fx_version x = 1"
    by (simp add: GetFlowExecution_def retried_world_def sample_world_def pending_execution_def sample_execution_def normalizeExecutionAttention_def)
  have v: "GetFlowVersion ''w'' ''f1'' 1 (cb_flows (ex_control sample_executor)) =
      Inr ((hd (fd_versions published_flows))\<lparr>fv_graph := draft_graph\<rparr>)"
    by code_simp
  have n: "latestNodeExecutions ''w'' ''x1'' (cd_runtime (w_store retried_world)) = Inr [(''o'', recorded_output)]"
    by code_simp
  have o: "outputs_recorded sample_catalog draft_graph [(''o'', recorded_output)]"
    by code_simp
  show ?thesis
    using retry_makes_no_call [OF x(1), of sample_executor, unfolded x(2,3), OF v _ n] o
    by (simp add: sample_executor_def retried_world_def sample_world_def)
qed

end
