(* ===== verification/RegistryStore.thy ===== *)
theory RegistryStore
  imports Builtins FlowStore
begin

text \<open>
  The stored registry, \<open>store/registry.go\<close> and \<open>store/registry_admin.go\<close>, and its service
  \<open>controlplane/registry.go\<close>. A definition is stored as the JSON text it was registered with, and the
  text is what a later registration is compared with: a \<open>document\<close> is the list of its members in the order
  of the text, which is the order of the fields for a struct and the order of the names for a map.
\<close>

section \<open>Texts\<close>

type_synonym document = gobj

definition marshal_members :: "string \<Rightarrow> gobj \<Rightarrow> gerr + document" where
  "marshal_members operation ms =
     (case those (map (\<lambda>kv. json_marshal (snd kv)) ms) of
        None \<Rightarrow> Inl (Plain operation) | Some vs \<Rightarrow> Inr (zip (map fst ms) vs))"

text \<open>\<open>omitempty\<close> leaves out empty strings, maps and slices.\<close>

definition omit_text :: "string \<Rightarrow> string \<Rightarrow> gobj" where
  "omit_text k s = (if s = [] then [] else [(k, VStr s)])"

definition omit_object :: "string \<Rightarrow> gobj option \<Rightarrow> gobj" where
  "omit_object k m = (case m of None \<Rightarrow> [] | Some kvs \<Rightarrow> if kvs = [] then [] else [(k, VObj kvs)])"

definition omit_texts :: "string \<Rightarrow> string list \<Rightarrow> gobj" where
  "omit_texts k ss = (if ss = [] then [] else [(k, VStrs ss)])"

definition type_members :: "connector_type \<Rightarrow> gobj" where
  "type_members t =
     [(''id'', VNamed (ct_id t)), (''workspace_id'', VNamed (ct_workspace t)), (''key'', VStr (ct_key t)),
      (''version'', VStr (ct_version t)), (''display_name'', VStr (ct_display_name t)),
      (''provider'', VNamed (ct_provider t)), (''status'', VNamed (ct_status t))] @ omit_object ''metadata'' (ct_metadata t)"

definition behavior_members :: "behavior \<Rightarrow> gobj" where
  "behavior_members b =
     [(''id'', VNamed (bh_id b)), (''workspace_id'', VNamed (bh_workspace b)), (''connector_type_key'', VStr (bh_type_key b)),
      (''connector_type_version'', VStr (bh_type_version b)), (''key'', VStr (bh_key b)), (''version'', VStr (bh_version b)),
      (''display_name'', VStr (bh_display_name b)), (''direction'', VNamed (bh_direction b))] @
     omit_object ''parameter_schema'' (bh_parameter_schema b) @ omit_text ''input_model_ref'' (bh_input_model b) @
     omit_text ''output_model_ref'' (bh_output_model b) @ omit_object ''provider_event_schema'' (bh_event_schema b) @
     omit_texts ''required_capabilities'' (bh_capabilities b) @
     [(''adapter_operation'', VStr (bh_operation b)), (''idempotency_strategy'', VStr (bh_idempotency b))] @
     omit_text ''reconciliation'' (bh_reconciliation b) @ [(''status'', VNamed (bh_status b))]"

definition model_members :: "data_model \<Rightarrow> gobj" where
  "model_members d =
     [(''id'', VNamed (dm_id d)), (''workspace_id'', VNamed (dm_workspace d)), (''key'', VStr (dm_key d)),
      (''version'', VStr (dm_version d)), (''display_name'', VStr (dm_display_name d))] @
     omit_text ''description'' (dm_description d) @
     [(''schema'', case dm_schema d of None \<Rightarrow> VNil | Some m \<Rightarrow> VObj m)] @ omit_texts ''required_fields'' (dm_required d) @
     omit_object ''semantic_roles'' (Some (map (\<lambda>(k, r). (k, VStr r)) (dm_roles d))) @
     [(''allow_extensions'', VBool (dm_extensions d)), (''status'', VNamed (dm_status d))]"

text \<open>Decoding a text that was written by the two functions above or by a change of the status.\<close>

definition doc_text :: "document \<Rightarrow> string \<Rightarrow> string" where
  "doc_text doc k = (case as_str (obj_get doc k) of None \<Rightarrow> [] | Some s \<Rightarrow> s)"

definition doc_object :: "string \<Rightarrow> document \<Rightarrow> string \<Rightarrow> gerr + gobj option" where
  "doc_object operation doc k =
     (case json_unmarshal (obj_get doc k) of None \<Rightarrow> Inl (Plain operation) | Some v \<Rightarrow> Inr (as_obj v))"

definition doc_texts :: "document \<Rightarrow> string \<Rightarrow> string list" where
  "doc_texts doc k =
     (case as_arr (obj_get doc k) of None \<Rightarrow> [] | Some vs \<Rightarrow> map (\<lambda>v. case as_str v of None \<Rightarrow> [] | Some s \<Rightarrow> s) vs)"

definition doc_roles :: "document \<Rightarrow> string \<Rightarrow> (string, string) gomap" where
  "doc_roles doc k =
     (case as_obj (obj_get doc k) of
        None \<Rightarrow> [] | Some m \<Rightarrow> map (\<lambda>(k, v). (k, case as_str v of None \<Rightarrow> [] | Some s \<Rightarrow> s)) m)"

section \<open>Tables\<close>

text \<open>The columns the three tables share, and those of their own. The reads take what they return from the text.\<close>

record 'c registry_row =
  rr_id :: ID
  rr_workspace :: ID
  rr_key :: string
  rr_version :: string
  rr_status :: string
  rr_definition :: document
  rr_columns :: 'c

record type_columns =
  tc_display :: string
  tc_provider :: string

record behavior_columns =
  bc_type :: ID
  bc_type_key :: string
  bc_type_version :: string
  bc_display :: string
  bc_direction :: string
  bc_operation :: string

record registry_db =
  gd_workspaces :: "ID list"
  gd_types :: "type_columns registry_row list"
  gd_behaviors :: "behavior_columns registry_row list"
  gd_models :: "string registry_row list"

abbreviation row_named :: "ID \<Rightarrow> string \<Rightarrow> string \<Rightarrow> 'c registry_row \<Rightarrow> bool" where
  "row_named ws key version \<equiv> (\<lambda>r. rr_workspace r = ws \<and> rr_key r = key \<and> rr_version r = version)"

definition registry_clash :: "'c registry_row \<Rightarrow> 'c registry_row \<Rightarrow> bool" where
  "registry_clash a b \<longleftrightarrow> rr_id a = rr_id b \<or> row_named (rr_workspace a) (rr_key a) (rr_version a) b"

section \<open>Registration\<close>

text \<open>What the three \<open>ensure\<close> functions share: a name is bound to one text for good.\<close>

definition ensure_row ::
  "string \<Rightarrow> ID \<Rightarrow> bool \<Rightarrow> 'c registry_row \<Rightarrow> 'c registry_row list \<Rightarrow> gerr + ID \<times> 'c registry_row list" where
  "ensure_row what newID references row rows =
     (case List.find (row_named (rr_workspace row) (rr_key row) (rr_version row)) rows of
        Some r \<Rightarrow>
          if rr_definition r \<noteq> rr_definition row
          then fail ErrImmutable (what @ '' '' @ StableKey (rr_key row) (rr_version row)) else Inr (rr_id r, rows)
      | None \<Rightarrow>
          let i = or_default (rr_id row) (\<lambda>i. i = []) newID
          in bind_result (require_row (''bootstrap '' @ what) references) (\<lambda>_.
             bind_result (insert_row (''bootstrap '' @ what) registry_clash (row\<lparr>rr_id := i\<rparr>) rows) (\<lambda>rows'.
               Inr (i, rows'))))"

definition ensureConnectorType ::
  "ID \<Rightarrow> ID \<Rightarrow> connector_type \<Rightarrow> document \<Rightarrow> registry_db \<Rightarrow> gerr + ID \<times> registry_db" where
  "ensureConnectorType newID ws t definition db =
     bind_result (ensure_row ''connector type'' newID (ws \<in> set (gd_workspaces db))
         \<lparr>rr_id = ct_id t, rr_workspace = ws, rr_key = ct_key t, rr_version = ct_version t, rr_status = ct_status t,
          rr_definition = definition, rr_columns = \<lparr>tc_display = ct_display_name t, tc_provider = ct_provider t\<rparr>\<rparr> (gd_types db))
       (\<lambda>(i, rows). Inr (i, db\<lparr>gd_types := rows\<rparr>))"

text \<open>The direction is checked by the table; a violation is no conflict.\<close>

definition ensureConnectorBehavior ::
  "ID \<Rightarrow> ID \<Rightarrow> ID \<Rightarrow> behavior \<Rightarrow> document \<Rightarrow> registry_db \<Rightarrow> gerr + registry_db" where
  "ensureConnectorBehavior newID ws typeID b definition db =
     (if List.find (row_named ws (bh_key b) (bh_version b)) (gd_behaviors db) = None \<and>
         bh_direction b \<noteq> DirectionInput \<and> bh_direction b \<noteq> DirectionOutput
      then Inl (Plain ''bootstrap connector behavior'')
      else bind_result (ensure_row ''connector behavior'' newID
         (ws \<in> set (gd_workspaces db) \<and> typeID \<in> rr_id ` set (gd_types db))
         \<lparr>rr_id = bh_id b, rr_workspace = ws, rr_key = bh_key b, rr_version = bh_version b, rr_status = bh_status b,
          rr_definition = definition, rr_columns = \<lparr>bc_type = typeID, bc_type_key = bh_type_key b,
            bc_type_version = bh_type_version b, bc_display = bh_display_name b, bc_direction = bh_direction b,
            bc_operation = bh_operation b\<rparr>\<rparr> (gd_behaviors db))
       (\<lambda>(i, rows). Inr (db\<lparr>gd_behaviors := rows\<rparr>)))"

definition ensureDataModel :: "ID \<Rightarrow> ID \<Rightarrow> data_model \<Rightarrow> document \<Rightarrow> registry_db \<Rightarrow> gerr + registry_db" where
  "ensureDataModel newID ws d definition db =
     bind_result (ensure_row ''data model'' newID (ws \<in> set (gd_workspaces db))
         \<lparr>rr_id = dm_id d, rr_workspace = ws, rr_key = dm_key d, rr_version = dm_version d, rr_status = dm_status d,
          rr_definition = definition, rr_columns = dm_display_name d\<rparr> (gd_models db))
       (\<lambda>(i, rows). Inr (db\<lparr>gd_models := rows\<rparr>))"

text \<open>
  \<open>BootstrapRegistry\<close>: the loops over a bundle, in one transaction. \<open>newID\<close> is the identifier drawn for the
  n-th definition, if one is drawn.
\<close>

fun bootstrap_types ::
  "(nat \<Rightarrow> ID) \<Rightarrow> ID \<Rightarrow> nat \<Rightarrow> connector_type list \<Rightarrow> (string, ID) gomap \<Rightarrow> registry_db \<Rightarrow>
   gerr + (string, ID) gomap \<times> registry_db" where
  "bootstrap_types newID ws n [] ids db = Inr (ids, db)"
| "bootstrap_types newID ws n (t # ts) ids db =
     bind_result (marshal_members (''marshal connector type '' @ ct_key t) (type_members t)) (\<lambda>definition.
     bind_result (ensureConnectorType (newID n) ws t definition db) (\<lambda>(i, db').
       bootstrap_types newID ws (n + 1) ts (AList.update (type_key t) i ids) db'))"

fun bootstrap_behaviors ::
  "(nat \<Rightarrow> ID) \<Rightarrow> ID \<Rightarrow> (string, ID) gomap \<Rightarrow> nat \<Rightarrow> behavior list \<Rightarrow> registry_db \<Rightarrow> gerr + registry_db" where
  "bootstrap_behaviors newID ws ids n [] db = Inr db"
| "bootstrap_behaviors newID ws ids n (b # bs) db =
     (case map_of ids (StableKey (bh_type_key b) (bh_type_version b)) of
        None \<Rightarrow> fail ErrInvalid (''connector type '' @ bh_type_key b @ '' not bootstrapped'')
      | Some typeID \<Rightarrow>
          bind_result (marshal_members (''marshal connector behavior '' @ bh_key b) (behavior_members b)) (\<lambda>definition.
          bind_result (ensureConnectorBehavior (newID n) ws typeID b definition db) (\<lambda>db'.
            bootstrap_behaviors newID ws ids (n + 1) bs db')))"

fun bootstrap_models :: "(nat \<Rightarrow> ID) \<Rightarrow> ID \<Rightarrow> nat \<Rightarrow> data_model list \<Rightarrow> registry_db \<Rightarrow> gerr + registry_db" where
  "bootstrap_models newID ws n [] db = Inr db"
| "bootstrap_models newID ws n (d # ds) db =
     bind_result (marshal_members (''marshal data model '' @ dm_key d) (model_members d)) (\<lambda>definition.
     bind_result (ensureDataModel (newID n) ws d definition db) (\<lambda>db'. bootstrap_models newID ws (n + 1) ds db'))"

definition BootstrapRegistry :: "(nat \<Rightarrow> ID) \<Rightarrow> ID \<Rightarrow> registry_bundle \<Rightarrow> registry_db \<Rightarrow> gerr + registry_db" where
  "BootstrapRegistry newID ws b db =
     bind_result (requireWorkspaceID ws) (\<lambda>_.
     bind_result (Bundle_Validate b) (\<lambda>_.
     bind_result (bootstrap_types newID ws 0 (bd_types b) [] db) (\<lambda>(ids, db1).
     bind_result (bootstrap_behaviors newID ws ids (length (bd_types b)) (bd_behaviors b) db1) (\<lambda>db2.
       bootstrap_models newID ws (length (bd_types b) + length (bd_behaviors b)) (bd_models b) db2))))"

definition store_RegisterConnectorType :: "ID \<Rightarrow> ID \<Rightarrow> connector_type \<Rightarrow> registry_db \<Rightarrow> gerr + registry_db" where
  "store_RegisterConnectorType newID ws t db =
     bind_result (requireWorkspaceID ws) (\<lambda>_.
       if ct_key t = [] \<or> ct_version t = [] \<or> ct_display_name t = [] \<or> ct_provider t = []
       then fail ErrInvalid ''connector type metadata is incomplete''
       else bind_result (marshal_members ''json'' (type_members t)) (\<lambda>definition.
            bind_result (ensureConnectorType newID ws t definition db) (\<lambda>(i, db'). Inr db')))"

definition store_RegisterConnectorBehavior :: "ID \<Rightarrow> ID \<Rightarrow> behavior \<Rightarrow> registry_db \<Rightarrow> gerr + registry_db" where
  "store_RegisterConnectorBehavior newID ws b db =
     bind_result (requireWorkspaceID ws) (\<lambda>_.
       if bh_key b = [] \<or> bh_version b = [] \<or> bh_type_key b = [] \<or> bh_type_version b = []
       then fail ErrInvalid ''connector behavior metadata is incomplete''
       else bind_result (marshal_members ''json'' (behavior_members b)) (\<lambda>definition.
            case List.find (row_named ws (bh_type_key b) (bh_type_version b)) (gd_types db) of
              None \<Rightarrow> fail ErrInvalid ''connector type is not registered''
            | Some t \<Rightarrow> ensureConnectorBehavior newID ws (rr_id t) b definition db))"

definition store_RegisterDataModel :: "ID \<Rightarrow> ID \<Rightarrow> data_model \<Rightarrow> registry_db \<Rightarrow> gerr + registry_db" where
  "store_RegisterDataModel newID ws d db =
     bind_result (requireWorkspaceID ws) (\<lambda>_.
       if dm_key d = [] \<or> dm_version d = [] \<or> dm_schema d = None
       then fail ErrInvalid ''data model definition is incomplete''
       else bind_result (marshal_members ''json'' (model_members d)) (\<lambda>definition. ensureDataModel newID ws d definition db))"

section \<open>Changes of the status\<close>

definition validConnectorStatus :: "string \<Rightarrow> bool" where
  "validConnectorStatus s \<longleftrightarrow>
     s = DefinitionDraft \<or> s = DefinitionPublished \<or> s = DefinitionDeprecated \<or> s = DefinitionDisabled"

text \<open>The text is decoded into a map and written back, in the order of the names.\<close>

definition restate :: "string \<Rightarrow> document \<Rightarrow> gerr + document" where
  "restate status doc =
     bind_result (unmarshalJSON ''decode registry definition'' doc) (\<lambda>decoded.
     case marshalJSON (obj_set decoded ''status'' (VNamed status)) of
       Inl e \<Rightarrow> Inl (Plain ''encode registry definition'') | Inr doc' \<Rightarrow> Inr doc')"

definition set_row_status ::
  "ID \<Rightarrow> ID \<Rightarrow> string \<Rightarrow> 'c registry_row list \<Rightarrow> gerr + 'c registry_row list" where
  "set_row_status ws i status rows =
     (let target = (\<lambda>r. rr_workspace r = ws \<and> rr_id r = i)
      in case List.find target rows of
           None \<Rightarrow> fail ErrNotFound (''registry item '' @ i)
         | Some r \<Rightarrow> bind_result (restate status (rr_definition r)) (\<lambda>doc.
             Inr (update_rows target (\<lambda>r. r\<lparr>rr_status := status, rr_definition := doc\<rparr>) rows)))"

definition setRegistryStatus :: "string \<Rightarrow> ID \<Rightarrow> ID \<Rightarrow> string \<Rightarrow> registry_db \<Rightarrow> gerr + registry_db" where
  "setRegistryStatus table ws i status db =
     (if table \<noteq> ''connector_types'' \<and> table \<noteq> ''connector_behaviors'' \<and> table \<noteq> ''data_models''
      then fail ErrInvalid ''unsupported registry table''
      else bind_result (requireWorkspaceID ws) (\<lambda>_.
        if i = [] then fail ErrInvalid ''registry item id is required''
        else if \<not> validConnectorStatus status
        then fail ErrInvalid (''unsupported registry status '' @ go_quote status)
        else if table = ''connector_types''
        then bind_result (set_row_status ws i status (gd_types db)) (\<lambda>rows. Inr (db\<lparr>gd_types := rows\<rparr>))
        else if table = ''connector_behaviors''
        then bind_result (set_row_status ws i status (gd_behaviors db)) (\<lambda>rows. Inr (db\<lparr>gd_behaviors := rows\<rparr>))
        else bind_result (set_row_status ws i status (gd_models db)) (\<lambda>rows. Inr (db\<lparr>gd_models := rows\<rparr>))))"

definition SetConnectorTypeStatus :: "ID \<Rightarrow> ID \<Rightarrow> string \<Rightarrow> registry_db \<Rightarrow> gerr + registry_db" where
  "SetConnectorTypeStatus = setRegistryStatus ''connector_types''"

definition SetConnectorBehaviorStatus :: "ID \<Rightarrow> ID \<Rightarrow> string \<Rightarrow> registry_db \<Rightarrow> gerr + registry_db" where
  "SetConnectorBehaviorStatus = setRegistryStatus ''connector_behaviors''"

definition SetDataModelStatus :: "ID \<Rightarrow> ID \<Rightarrow> string \<Rightarrow> registry_db \<Rightarrow> gerr + registry_db" where
  "SetDataModelStatus = setRegistryStatus ''data_models''"

section \<open>Reads\<close>

definition RegistryCounts :: "ID \<Rightarrow> registry_db \<Rightarrow> gerr + nat \<times> nat \<times> nat" where
  "RegistryCounts ws db =
     bind_result (requireWorkspaceID ws) (\<lambda>_.
       Inr (length (filter (\<lambda>r. rr_workspace r = ws) (gd_types db)), length (filter (\<lambda>r. rr_workspace r = ws) (gd_behaviors db)),
            length (filter (\<lambda>r. rr_workspace r = ws) (gd_models db))))"

definition registry_rows :: "ID \<Rightarrow> 'c registry_row list \<Rightarrow> 'c registry_row list" where
  "registry_rows ws rows = sort_key (\<lambda>r. (rr_key r, rr_version r)) (filter (\<lambda>r. rr_workspace r = ws) rows)"

definition read_type :: "ID \<Rightarrow> type_columns registry_row \<Rightarrow> gerr + connector_type" where
  "read_type ws r =
     (let doc = rr_definition r
      in bind_result (doc_object ''decode connector type'' doc ''metadata'') (\<lambda>metadata.
         Inr \<lparr>ct_id = rr_id r, ct_workspace = ws, ct_key = doc_text doc ''key'', ct_version = doc_text doc ''version'',
              ct_display_name = doc_text doc ''display_name'', ct_provider = doc_text doc ''provider'',
              ct_status = doc_text doc ''status'', ct_metadata = metadata\<rparr>))"

definition read_behavior :: "ID \<Rightarrow> behavior_columns registry_row \<Rightarrow> gerr + behavior" where
  "read_behavior ws r =
     (let doc = rr_definition r
      in bind_result (doc_object ''decode connector behavior'' doc ''parameter_schema'') (\<lambda>parameters.
         bind_result (doc_object ''decode connector behavior'' doc ''provider_event_schema'') (\<lambda>events.
         Inr \<lparr>bh_id = rr_id r, bh_workspace = ws, bh_type_key = doc_text doc ''connector_type_key'',
              bh_type_version = doc_text doc ''connector_type_version'', bh_key = doc_text doc ''key'',
              bh_version = doc_text doc ''version'', bh_display_name = doc_text doc ''display_name'',
              bh_direction = doc_text doc ''direction'', bh_parameter_schema = parameters,
              bh_input_model = doc_text doc ''input_model_ref'', bh_output_model = doc_text doc ''output_model_ref'',
              bh_event_schema = events, bh_capabilities = doc_texts doc ''required_capabilities'',
              bh_operation = doc_text doc ''adapter_operation'', bh_idempotency = doc_text doc ''idempotency_strategy'',
              bh_reconciliation = doc_text doc ''reconciliation'', bh_status = doc_text doc ''status''\<rparr>)))"

definition read_model :: "ID \<Rightarrow> string registry_row \<Rightarrow> gerr + data_model" where
  "read_model ws r =
     (let doc = rr_definition r
      in bind_result (doc_object ''decode data model'' doc ''schema'') (\<lambda>schema.
         Inr \<lparr>dm_id = rr_id r, dm_workspace = ws, dm_key = doc_text doc ''key'', dm_version = doc_text doc ''version'',
              dm_display_name = doc_text doc ''display_name'', dm_description = doc_text doc ''description'', dm_schema = schema,
              dm_required = doc_texts doc ''required_fields'', dm_roles = doc_roles doc ''semantic_roles'',
              dm_extensions = (obj_get doc ''allow_extensions'' = VBool True), dm_status = doc_text doc ''status''\<rparr>))"

definition ListConnectorTypes :: "ID \<Rightarrow> registry_db \<Rightarrow> gerr + connector_type list" where
  "ListConnectorTypes ws db =
     bind_result (requireWorkspaceID ws) (\<lambda>_. map_result (read_type ws) (registry_rows ws (gd_types db)))"

definition ListConnectorBehaviors :: "ID \<Rightarrow> registry_db \<Rightarrow> gerr + behavior list" where
  "ListConnectorBehaviors ws db =
     bind_result (requireWorkspaceID ws) (\<lambda>_. map_result (read_behavior ws) (registry_rows ws (gd_behaviors db)))"

text \<open>The last sort breaks ties, names that differ in surrounding space, in any order; here it keeps the first one.\<close>

definition ListDataModels :: "ID \<Rightarrow> registry_db \<Rightarrow> gerr + data_model list" where
  "ListDataModels ws db =
     bind_result (requireWorkspaceID ws) (\<lambda>_.
     bind_result (map_result (read_model ws) (registry_rows ws (gd_models db))) (\<lambda>items. Inr (sort_key model_key items)))"

section \<open>The registry service\<close>

definition RegisterConnectorType :: "ID \<Rightarrow> ID \<Rightarrow> connector_type \<Rightarrow> registry_db \<Rightarrow> gerr + registry_db" where
  "RegisterConnectorType newID ws t db = store_RegisterConnectorType newID ws (t\<lparr>ct_workspace := ws\<rparr>) db"

definition RegisterConnectorBehavior ::
  "(string \<Rightarrow> bool) option \<Rightarrow> ID \<Rightarrow> ID \<Rightarrow> behavior \<Rightarrow> registry_db \<Rightarrow> gerr + registry_db" where
  "RegisterConnectorBehavior adapters newID ws b db =
     bind_result (ValidateBehavior b adapters) (\<lambda>_. store_RegisterConnectorBehavior newID ws (b\<lparr>bh_workspace := ws\<rparr>) db)"

definition RegisterDataModel :: "ID \<Rightarrow> ID \<Rightarrow> data_model \<Rightarrow> registry_db \<Rightarrow> gerr + registry_db" where
  "RegisterDataModel newID ws d db =
     bind_result (ValidateDataModel d) (\<lambda>_. store_RegisterDataModel newID ws (d\<lparr>dm_workspace := ws\<rparr>) db)"

definition CatalogForWorkspace :: "string list \<Rightarrow> registry_db \<Rightarrow> ID \<Rightarrow> gerr + catalog" where
  "CatalogForWorkspace allowlist db ws =
     bind_result (ListConnectorBehaviors ws db) (\<lambda>behaviors.
     bind_result (ListDataModels ws db) (\<lambda>models. Inr (NewCatalog behaviors models allowlist)))"

definition BehaviorForWorkspace ::
  "string list \<Rightarrow> registry_db \<Rightarrow> ID \<Rightarrow> string \<Rightarrow> string \<Rightarrow> gerr + behavior option" where
  "BehaviorForWorkspace allowlist db ws key version =
     bind_result (CatalogForWorkspace allowlist db ws) (\<lambda>c. Inr (catalog_behavior c key version))"

section \<open>Names are bound for good\<close>

text \<open>
  The contract the three tables of definitions share: an item is bound when its name is stored with its
  text. Registering it binds it, no registration unbinds one, and registering a bound item changes nothing.
\<close>

locale definition_table =
  fixes ensure :: "ID \<Rightarrow> 'item \<Rightarrow> 'db \<Rightarrow> gerr + 'db"
    and bound :: "'item \<Rightarrow> 'db \<Rightarrow> bool"
  assumes ensure_binds: "ensure n x db = Inr db' \<Longrightarrow> bound x db'"
    and ensure_keeps: "ensure n x db = Inr db' \<Longrightarrow> bound y db \<Longrightarrow> bound y db'"
    and ensure_bound: "bound x db \<Longrightarrow> ensure n x db = Inr db"
begin

fun ensure_all :: "(nat \<Rightarrow> ID) \<Rightarrow> nat \<Rightarrow> 'item list \<Rightarrow> 'db \<Rightarrow> gerr + 'db" where
  "ensure_all newID n [] db = Inr db"
| "ensure_all newID n (x # xs) db = bind_result (ensure (newID n) x db) (ensure_all newID (n + 1) xs)"

lemma all_keep: "ensure_all newID n xs db = Inr db' \<Longrightarrow> bound y db \<Longrightarrow> bound y db'"
  by (induction newID n xs db rule: ensure_all.induct) (auto simp: bind_result_Inr dest: ensure_keeps)

lemma all_bind: "ensure_all newID n xs db = Inr db' \<Longrightarrow> x \<in> set xs \<Longrightarrow> bound x db'"
  by (induction newID n xs db rule: ensure_all.induct) (auto simp: bind_result_Inr dest: ensure_binds all_keep)

lemma all_again: "list_all (\<lambda>x. bound x db) xs \<Longrightarrow> ensure_all newID n xs db = Inr db"
  by (induction xs arbitrary: n) (simp_all add: ensure_bound)

end

definition row_bound :: "ID \<Rightarrow> string \<Rightarrow> string \<Rightarrow> document \<Rightarrow> 'c registry_row list \<Rightarrow> bool" where
  "row_bound ws key version definition rows \<longleftrightarrow>
     (\<exists>r. List.find (row_named ws key version) rows = Some r \<and> rr_definition r = definition)"

lemma ensure_row_D:
  assumes "ensure_row what newID references row rows = Inr (i, rows')"
  shows "row_bound (rr_workspace row) (rr_key row) (rr_version row) (rr_definition row) rows' \<and>
    (rows' = rows \<or> (\<exists>j. rows' = rows @ [row\<lparr>rr_id := j\<rparr>] \<and>
       List.find (row_named (rr_workspace row) (rr_key row) (rr_version row)) rows = None))"
proof (cases "List.find (row_named (rr_workspace row) (rr_key row) (rr_version row)) rows")
  case None
  then obtain j where "rows' = rows @ [row\<lparr>rr_id := j\<rparr>]"
    using assms by (auto simp: ensure_row_def Let_def err_simps)
  then show ?thesis using None by (auto simp: row_bound_def find_append)
next
  case (Some r)
  then show ?thesis using assms by (auto simp: ensure_row_def row_bound_def split: if_splits)
qed

lemma row_bound_snoc: "row_bound ws key version d rows \<Longrightarrow> row_bound ws key version d (rows @ [row])"
  by (auto simp: row_bound_def find_append)

lemma ensure_row_keeps:
  "ensure_row what newID references row rows = Inr (i, rows') \<Longrightarrow> row_bound ws key version d rows \<Longrightarrow> row_bound ws key version d rows'"
  using ensure_row_D row_bound_snoc by metis

lemma ensure_row_bound:
  "row_bound (rr_workspace row) (rr_key row) (rr_version row) (rr_definition row) rows \<Longrightarrow>
     \<exists>i. ensure_row what newID references row rows = Inr (i, rows)"
  by (auto simp: ensure_row_def row_bound_def)

text \<open>The items of the three tables: what is registered, with the workspace.\<close>

definition ensure_type :: "ID \<Rightarrow> ID \<times> connector_type \<Rightarrow> registry_db \<Rightarrow> gerr + registry_db" where
  "ensure_type newID x db =
     bind_result (marshal_members (''marshal connector type '' @ ct_key (snd x)) (type_members (snd x))) (\<lambda>definition.
     bind_result (ensureConnectorType newID (fst x) (snd x) definition db) (\<lambda>(i, db'). Inr db'))"

definition type_bound :: "ID \<times> connector_type \<Rightarrow> registry_db \<Rightarrow> bool" where
  "type_bound x db \<longleftrightarrow> (\<exists>doc. (\<forall>operation. marshal_members operation (type_members (snd x)) = Inr doc) \<and>
     row_bound (fst x) (ct_key (snd x)) (ct_version (snd x)) doc (gd_types db))"

definition model_bound :: "ID \<times> data_model \<Rightarrow> registry_db \<Rightarrow> bool" where
  "model_bound x db \<longleftrightarrow> (\<exists>doc. (\<forall>operation. marshal_members operation (model_members (snd x)) = Inr doc) \<and>
     row_bound (fst x) (dm_key (snd x)) (dm_version (snd x)) doc (gd_models db))"

definition behavior_bound :: "ID \<times> behavior \<Rightarrow> registry_db \<Rightarrow> bool" where
  "behavior_bound x db \<longleftrightarrow> (\<exists>doc. (\<forall>operation. marshal_members operation (behavior_members (snd x)) = Inr doc) \<and>
     row_bound (fst x) (bh_key (snd x)) (bh_version (snd x)) doc (gd_behaviors db))"

definition ensure_model :: "ID \<Rightarrow> ID \<times> data_model \<Rightarrow> registry_db \<Rightarrow> gerr + registry_db" where
  "ensure_model newID x db =
     bind_result (marshal_members (''marshal data model '' @ dm_key (snd x)) (model_members (snd x))) (\<lambda>definition.
       ensureDataModel newID (fst x) (snd x) definition db)"

definition ensure_behavior :: "ID \<Rightarrow> (ID \<times> ID) \<times> behavior \<Rightarrow> registry_db \<Rightarrow> gerr + registry_db" where
  "ensure_behavior newID x db =
     bind_result (marshal_members (''marshal connector behavior '' @ bh_key (snd x)) (behavior_members (snd x))) (\<lambda>definition.
       ensureConnectorBehavior newID (fst (fst x)) (snd (fst x)) (snd x) definition db)"

lemma marshal_members_any: "marshal_members operation ms = Inr doc \<Longrightarrow> marshal_members operation' ms = Inr doc"
  by (auto simp: marshal_members_def split: option.splits)

lemma ensureConnectorType_D:
  assumes "ensureConnectorType newID ws t doc db = Inr (i, db')"
  shows "row_bound ws (ct_key t) (ct_version t) doc (gd_types db') \<and>
    (\<forall>ws' key version d. row_bound ws' key version d (gd_types db) \<longrightarrow> row_bound ws' key version d (gd_types db')) \<and>
    gd_behaviors db' = gd_behaviors db \<and> gd_models db' = gd_models db"
  using assms by (auto simp: ensureConnectorType_def err_simps dest: ensure_row_D ensure_row_keeps)

lemma ensureConnectorBehavior_D:
  assumes "ensureConnectorBehavior newID ws j b doc db = Inr db'"
  shows "row_bound ws (bh_key b) (bh_version b) doc (gd_behaviors db') \<and>
    (\<forall>ws' key version d. row_bound ws' key version d (gd_behaviors db) \<longrightarrow> row_bound ws' key version d (gd_behaviors db')) \<and>
    gd_types db' = gd_types db \<and> gd_models db' = gd_models db"
  using assms by (auto simp: ensureConnectorBehavior_def err_simps dest: ensure_row_D ensure_row_keeps split: if_splits)

lemma ensureDataModel_D:
  assumes "ensureDataModel newID ws d doc db = Inr db'"
  shows "row_bound ws (dm_key d) (dm_version d) doc (gd_models db') \<and>
    (\<forall>ws' key version d. row_bound ws' key version d (gd_models db) \<longrightarrow> row_bound ws' key version d (gd_models db')) \<and>
    gd_types db' = gd_types db \<and> gd_behaviors db' = gd_behaviors db"
  using assms by (auto simp: ensureDataModel_def err_simps dest: ensure_row_D ensure_row_keeps)

lemma ensure_type_D:
  "ensure_type n x db = Inr db' \<Longrightarrow> \<exists>doc i. (\<forall>operation. marshal_members operation (type_members (snd x)) = Inr doc) \<and>
     ensureConnectorType n (fst x) (snd x) doc db = Inr (i, db')"
proof -
  assume "ensure_type n x db = Inr db'"
  then obtain doc where "marshal_members (''marshal connector type '' @ ct_key (snd x)) (type_members (snd x)) = Inr doc" and
    rest: "bind_result (ensureConnectorType n (fst x) (snd x) doc db) (\<lambda>(i, db'). Inr db') = Inr db'" unfolding ensure_type_def bind_result_Inr by blast
  then have "\<forall>operation. marshal_members operation (type_members (snd x)) = Inr doc" using marshal_members_any by blast
  then show ?thesis using rest by (auto simp: bind_result_Inr)
qed

lemma ensure_model_D:
  "ensure_model n x db = Inr db' \<Longrightarrow> \<exists>doc. (\<forall>operation. marshal_members operation (model_members (snd x)) = Inr doc) \<and>
     ensureDataModel n (fst x) (snd x) doc db = Inr db'"
proof -
  assume "ensure_model n x db = Inr db'"
  then obtain doc where "marshal_members (''marshal data model '' @ dm_key (snd x)) (model_members (snd x)) = Inr doc" and
    rest: "ensureDataModel n (fst x) (snd x) doc db = Inr db'" unfolding ensure_model_def bind_result_Inr by blast
  then have "\<forall>operation. marshal_members operation (model_members (snd x)) = Inr doc" using marshal_members_any by blast
  then show ?thesis using rest by blast
qed

lemma ensure_behavior_D:
  "ensure_behavior n x db = Inr db' \<Longrightarrow> \<exists>doc. (\<forall>operation. marshal_members operation (behavior_members (snd x)) = Inr doc) \<and>
     ensureConnectorBehavior n (fst (fst x)) (snd (fst x)) (snd x) doc db = Inr db'"
proof -
  assume "ensure_behavior n x db = Inr db'"
  then obtain doc where "marshal_members (''marshal connector behavior '' @ bh_key (snd x)) (behavior_members (snd x)) = Inr doc" and
    rest: "ensureConnectorBehavior n (fst (fst x)) (snd (fst x)) (snd x) doc db = Inr db'" unfolding ensure_behavior_def bind_result_Inr by blast
  then have "\<forall>operation. marshal_members operation (behavior_members (snd x)) = Inr doc" using marshal_members_any by blast
  then show ?thesis using rest by blast
qed

interpretation types: definition_table ensure_type type_bound
proof
  show "type_bound x db'" if "ensure_type n x db = Inr db'" for n x db db'
    using ensure_type_D [OF that] ensureConnectorType_D unfolding type_bound_def by metis
  show "type_bound y db'" if "ensure_type n x db = Inr db'" "type_bound y db" for n x y db db'
    using ensure_type_D [OF that(1)] ensureConnectorType_D that(2) unfolding type_bound_def by metis
  show "ensure_type n x db = Inr db" if bound: "type_bound x db" for n x db
  proof -
    obtain doc where doc: "\<And>operation. marshal_members operation (type_members (snd x)) = Inr doc"
      "row_bound (fst x) (ct_key (snd x)) (ct_version (snd x)) doc (gd_types db)" using bound by (auto simp: type_bound_def)
    obtain i where "ensure_row ''connector type'' n (fst x \<in> set (gd_workspaces db))
      \<lparr>rr_id = ct_id (snd x), rr_workspace = fst x, rr_key = ct_key (snd x), rr_version = ct_version (snd x),
        rr_status = ct_status (snd x), rr_definition = doc, rr_columns = \<lparr>tc_display = ct_display_name (snd x),
        tc_provider = ct_provider (snd x)\<rparr>\<rparr> (gd_types db) = Inr (i, gd_types db)"
      using ensure_row_bound [of "\<lparr>rr_id = ct_id (snd x), rr_workspace = fst x, rr_key = ct_key (snd x), rr_version = ct_version (snd x),
        rr_status = ct_status (snd x), rr_definition = doc, rr_columns = \<lparr>tc_display = ct_display_name (snd x),
        tc_provider = ct_provider (snd x)\<rparr>\<rparr>"
        "gd_types db" "''connector type''" n "fst x \<in> set (gd_workspaces db)"] doc(2) by auto
    then show ?thesis unfolding ensure_type_def doc(1) ensureConnectorType_def using doc by simp
  qed
qed

interpretation models: definition_table ensure_model model_bound
proof
  show "model_bound x db'" if "ensure_model n x db = Inr db'" for n x db db'
    using ensure_model_D [OF that] ensureDataModel_D unfolding model_bound_def by metis
  show "model_bound y db'" if "ensure_model n x db = Inr db'" "model_bound y db" for n x y db db'
    using ensure_model_D [OF that(1)] ensureDataModel_D that(2) unfolding model_bound_def by metis
  show "ensure_model n x db = Inr db" if bound: "model_bound x db" for n x db
  proof -
    obtain doc where doc: "\<And>operation. marshal_members operation (model_members (snd x)) = Inr doc"
      "row_bound (fst x) (dm_key (snd x)) (dm_version (snd x)) doc (gd_models db)" using bound by (auto simp: model_bound_def)
    obtain i where "ensure_row ''data model'' n (fst x \<in> set (gd_workspaces db))
      \<lparr>rr_id = dm_id (snd x), rr_workspace = fst x, rr_key = dm_key (snd x), rr_version = dm_version (snd x),
        rr_status = dm_status (snd x), rr_definition = doc, rr_columns = dm_display_name (snd x)\<rparr> (gd_models db) = Inr (i, gd_models db)"
      using ensure_row_bound [of "\<lparr>rr_id = dm_id (snd x), rr_workspace = fst x, rr_key = dm_key (snd x), rr_version = dm_version (snd x),
        rr_status = dm_status (snd x), rr_definition = doc, rr_columns = dm_display_name (snd x)\<rparr>"
        "gd_models db" "''data model''" n "fst x \<in> set (gd_workspaces db)"] doc(2) by auto
    then show ?thesis unfolding ensure_model_def doc(1) ensureDataModel_def using doc by simp
  qed
qed

interpretation behaviors: definition_table ensure_behavior "\<lambda>x. behavior_bound (fst (fst x), snd x)"
proof
  show "behavior_bound (fst (fst x), snd x) db'" if "ensure_behavior n x db = Inr db'" for n x db db'
    using ensure_behavior_D [OF that] ensureConnectorBehavior_D unfolding behavior_bound_def fst_conv snd_conv by metis
  show "behavior_bound (fst (fst y), snd y) db'" if "ensure_behavior n x db = Inr db'" "behavior_bound (fst (fst y), snd y) db" for n x y db db'
    using ensure_behavior_D [OF that(1)] ensureConnectorBehavior_D that(2) unfolding behavior_bound_def fst_conv snd_conv by metis
  show "ensure_behavior n x db = Inr db" if bound: "behavior_bound (fst (fst x), snd x) db" for n x db
  proof -
    obtain doc where doc: "\<And>operation. marshal_members operation (behavior_members (snd x)) = Inr doc"
      "row_bound (fst (fst x)) (bh_key (snd x)) (bh_version (snd x)) doc (gd_behaviors db)" using bound by (auto simp: behavior_bound_def)
    then have found: "List.find (row_named (fst (fst x)) (bh_key (snd x)) (bh_version (snd x))) (gd_behaviors db) \<noteq> None"
      by (auto simp: row_bound_def)
    obtain i where "ensure_row ''connector behavior'' n (fst (fst x) \<in> set (gd_workspaces db) \<and> snd (fst x) \<in> rr_id ` set (gd_types db))
      \<lparr>rr_id = bh_id (snd x), rr_workspace = fst (fst x), rr_key = bh_key (snd x),
        rr_version = bh_version (snd x), rr_status = bh_status (snd x), rr_definition = doc,
        rr_columns = \<lparr>bc_type = snd (fst x), bc_type_key = bh_type_key (snd x), bc_type_version = bh_type_version (snd x),
          bc_display = bh_display_name (snd x), bc_direction = bh_direction (snd x), bc_operation = bh_operation (snd x)\<rparr>\<rparr> (gd_behaviors db) = Inr (i, gd_behaviors db)"
      using ensure_row_bound [of "\<lparr>rr_id = bh_id (snd x), rr_workspace = fst (fst x), rr_key = bh_key (snd x),
        rr_version = bh_version (snd x), rr_status = bh_status (snd x), rr_definition = doc,
        rr_columns = \<lparr>bc_type = snd (fst x), bc_type_key = bh_type_key (snd x), bc_type_version = bh_type_version (snd x),
          bc_display = bh_display_name (snd x), bc_direction = bh_direction (snd x), bc_operation = bh_operation (snd x)\<rparr>\<rparr>"
        "gd_behaviors db" "''connector behavior''" n "fst (fst x) \<in> set (gd_workspaces db) \<and> snd (fst x) \<in> rr_id ` set (gd_types db)"] doc(2) by auto
    then show ?thesis unfolding ensure_behavior_def doc(1) ensureConnectorBehavior_def using found by simp
  qed
qed

section \<open>Bootstrapping\<close>

text \<open>The loops of \<open>BootstrapRegistry\<close> are registrations of all items.\<close>

lemma bootstrap_types_all:
  "bind_result (bootstrap_types newID ws n ts ids db) (\<lambda>(ids', db'). Inr db') = types.ensure_all newID n (map (Pair ws) ts) db"
proof (induction newID ws n ts ids db rule: bootstrap_types.induct)
  case (2 newID ws n t ts ids db)
  show ?case
  proof (cases "marshal_members (''marshal connector type '' @ ct_key t) (type_members t)")
    case (Inr doc)
    then show ?thesis using 2 by (cases "ensureConnectorType (newID n) ws t doc db") (auto simp: ensure_type_def [of "newID n" "(ws, t)" db])
  qed (simp add: ensure_type_def [of "newID n" "(ws, t)" db])
qed simp

lemma bootstrap_types_dom:
  "bootstrap_types newID ws n ts ids db = Inr (ids', db') \<Longrightarrow> dom (map_of ids') = dom (map_of ids) \<union> set (map type_key ts)"
proof (induction ts arbitrary: n ids db)
  case (Cons t ts)
  then obtain i db1 where "bootstrap_types newID ws (n + 1) ts (AList.update (type_key t) i ids) db1 = Inr (ids', db')"
    by (auto simp: bind_result_Inr)
  from Cons.IH [OF this] show ?case by (auto simp: map_of_update split: if_splits)
qed simp

abbreviation typed_items :: "ID \<Rightarrow> (string, ID) gomap \<Rightarrow> behavior list \<Rightarrow> ((ID \<times> ID) \<times> behavior) list" where
  "typed_items ws ids bs \<equiv> map (\<lambda>b. ((ws, the (map_of ids (StableKey (bh_type_key b) (bh_type_version b)))), b)) bs"

lemma bootstrap_behaviors_all:
  "\<forall>b \<in> set bs. StableKey (bh_type_key b) (bh_type_version b) \<in> dom (map_of ids) \<Longrightarrow>
   bootstrap_behaviors newID ws ids n bs db = behaviors.ensure_all newID n (typed_items ws ids bs) db"
proof (induction newID ws ids n bs db rule: bootstrap_behaviors.induct)
  case (2 newID ws ids n b bs db)
  obtain j where j: "map_of ids (StableKey (bh_type_key b) (bh_type_version b)) = Some j" using 2(2) by auto
  show ?case
  proof (cases "marshal_members (''marshal connector behavior '' @ bh_key b) (behavior_members b)")
    case (Inr doc)
    then show ?thesis using 2 Inr j by (cases "ensureConnectorBehavior (newID n) ws j b doc db") (auto simp: ensure_behavior_def [of "newID n" "((ws, j), b)" db])
  qed (use 2 j in \<open>auto simp: ensure_behavior_def [of "newID n" "((ws, j), b)" db]\<close>)
qed simp

lemma bootstrap_models_all:
  "bootstrap_models newID ws n ds db = models.ensure_all newID n (map (Pair ws) ds) db"
proof (induction newID ws n ds db rule: bootstrap_models.induct)
  case (2 newID ws n d ds db)
  show ?case
  proof (cases "marshal_members (''marshal data model '' @ dm_key d) (model_members d)")
    case (Inr doc)
    then show ?thesis using 2 by (cases "ensureDataModel (newID n) ws d doc db") (auto simp: ensure_model_def [of "newID n" "(ws, d)" db])
  qed (simp add: ensure_model_def [of "newID n" "(ws, d)" db])
qed simp

text \<open>What every registration does to the tables: rows are added, none is changed, and no identifier is given twice.\<close>

definition grows :: "'c registry_row list \<Rightarrow> 'c registry_row list \<Rightarrow> bool" where
  "grows rows rows' \<longleftrightarrow>
     (\<forall>ws key version d. row_bound ws key version d rows \<longrightarrow> row_bound ws key version d rows') \<and>
     (distinct (map rr_id rows) \<longrightarrow> distinct (map rr_id rows'))"

definition extends :: "registry_db \<Rightarrow> registry_db \<Rightarrow> bool" where
  "extends db db' \<longleftrightarrow> grows (gd_types db) (gd_types db') \<and> grows (gd_behaviors db) (gd_behaviors db') \<and>
     grows (gd_models db) (gd_models db')"

lemma grows_refl [simp]: "grows rows rows"
  by (simp add: grows_def)

lemma extends_refl [simp]: "extends db db"
  by (simp add: extends_def)

lemma extends_trans: "extends a b \<Longrightarrow> extends b c \<Longrightarrow> extends a c"
  by (auto simp: extends_def grows_def)

lemma ensure_row_grows:
  assumes "ensure_row what newID references row rows = Inr (i, rows')"
  shows "grows rows rows'"
proof -
  have "distinct (map rr_id rows')" if "distinct (map rr_id rows)"
  proof (cases "List.find (row_named (rr_workspace row) (rr_key row) (rr_version row)) rows")
    case None
    then show ?thesis using assms that by (auto simp: ensure_row_def Let_def err_simps registry_clash_def)
  next
    case (Some r)
    then show ?thesis using assms that by (auto simp: ensure_row_def split: if_splits)
  qed
  then show ?thesis using ensure_row_keeps [OF assms] by (simp add: grows_def)
qed

lemma ensureConnectorType_extends: "ensureConnectorType n ws t doc db = Inr (i, db') \<Longrightarrow> extends db db'"
  by (auto simp: ensureConnectorType_def err_simps extends_def dest: ensure_row_grows)

lemma ensureConnectorBehavior_extends: "ensureConnectorBehavior n ws j b doc db = Inr db' \<Longrightarrow> extends db db'"
  by (auto simp: ensureConnectorBehavior_def err_simps extends_def dest: ensure_row_grows split: if_splits)

lemma ensureDataModel_extends: "ensureDataModel n ws d doc db = Inr db' \<Longrightarrow> extends db db'"
  by (auto simp: ensureDataModel_def err_simps extends_def dest: ensure_row_grows)

lemma bootstrap_types_extends: "bootstrap_types newID ws n ts ids db = Inr (ids', db') \<Longrightarrow> extends db db'"
  by (induction ts arbitrary: n ids db)
    (auto simp: bind_result_Inr dest: ensureConnectorType_extends intro: extends_trans)

lemma bootstrap_behaviors_extends: "bootstrap_behaviors newID ws ids n bs db = Inr db' \<Longrightarrow> extends db db'"
  by (induction bs arbitrary: n db)
    (auto simp: bind_result_Inr dest: ensureConnectorBehavior_extends intro: extends_trans split: option.splits)

lemma bootstrap_models_extends: "bootstrap_models newID ws n ds db = Inr db' \<Longrightarrow> extends db db'"
  by (induction ds arbitrary: n db)
    (auto simp: bind_result_Inr dest: ensureDataModel_extends intro: extends_trans)

text \<open>The operations that register definitions, for any workspace.\<close>

inductive registration :: "registry_db \<Rightarrow> registry_db \<Rightarrow> bool" where
  bootstrap: "BootstrapRegistry newID ws b db = Inr db' \<Longrightarrow> registration db db'"
| connector_type: "store_RegisterConnectorType i ws t db = Inr db' \<Longrightarrow> registration db db'"
| behavior: "store_RegisterConnectorBehavior i ws b db = Inr db' \<Longrightarrow> registration db db'"
| model: "store_RegisterDataModel i ws d db = Inr db' \<Longrightarrow> registration db db'"

lemma BootstrapRegistry_D:
  assumes "BootstrapRegistry newID ws b db = Inr db'"
  shows "\<exists>ids db1 db2. requireWorkspaceID ws = Inr () \<and> Bundle_Validate b = Inr () \<and>
    bootstrap_types newID ws 0 (bd_types b) [] db = Inr (ids, db1) \<and>
    bootstrap_behaviors newID ws ids (length (bd_types b)) (bd_behaviors b) db1 = Inr db2 \<and>
    bootstrap_models newID ws (length (bd_types b) + length (bd_behaviors b)) (bd_models b) db2 = Inr db'"
  using assms by (auto simp: BootstrapRegistry_def bind_result_Inr)

lemma BootstrapRegistry_extends: "BootstrapRegistry newID ws b db = Inr db' \<Longrightarrow> extends db db'"
  using BootstrapRegistry_D [of newID ws b db db'] bootstrap_types_extends bootstrap_behaviors_extends bootstrap_models_extends
    extends_trans by metis

lemma registration_extends: "registration db db' \<Longrightarrow> extends db db'"
proof (induction rule: registration.induct)
  case (bootstrap newID ws b db db')
  then show ?case by (rule BootstrapRegistry_extends)
next
  case (connector_type i ws t db db')
  then show ?case by (auto simp: store_RegisterConnectorType_def bind_result_Inr dest: ensureConnectorType_extends split: if_splits)
next
  case (behavior i ws b db db')
  then show ?case
    by (auto simp: store_RegisterConnectorBehavior_def bind_result_Inr dest: ensureConnectorBehavior_extends split: if_splits option.splits)
next
  case (model i ws d db db')
  then show ?case by (auto simp: store_RegisterDataModel_def bind_result_Inr dest: ensureDataModel_extends split: if_splits)
qed

lemma registrations_extend: "registration\<^sup>*\<^sup>* db db' \<Longrightarrow> extends db db'"
  by (induction rule: rtranclp_induct) (auto intro: extends_trans registration_extends)

lemma extends_bound:
  "extends db db' \<Longrightarrow> type_bound x db \<Longrightarrow> type_bound x db'"
  "extends db db' \<Longrightarrow> behavior_bound y db \<Longrightarrow> behavior_bound y db'"
  "extends db db' \<Longrightarrow> model_bound z db \<Longrightarrow> model_bound z db'"
  by (auto simp: extends_def grows_def type_bound_def behavior_bound_def model_bound_def)

text \<open>After a bootstrap every definition of the bundle is bound, and it is enough that they are.\<close>

lemma bootstrap_types_run:
  "bootstrap_types newID ws n ts ids db = Inr (ids', db') \<Longrightarrow> types.ensure_all newID n (map (Pair ws) ts) db = Inr db'"
  using bootstrap_types_all [of newID ws n ts ids db] by simp

lemma bundle_types_known:
  assumes "Bundle_Validate b = Inr ()" "bootstrap_types newID ws n (bd_types b) [] db = Inr (ids, db')"
  shows "\<forall>h \<in> set (bd_behaviors b). StableKey (bh_type_key h) (bh_type_version h) \<in> dom (map_of ids)"
proof -
  have "\<forall>h \<in> set (bd_behaviors b). \<exists>t \<in> set (bd_types b). StableKey (bh_type_key h) (bh_type_version h) = type_key t"
    using assms(1) unfolding Bundle_Validate_iff by blast
  then show ?thesis unfolding bootstrap_types_dom [OF assms(2)] by auto
qed

definition bundle_bound :: "ID \<Rightarrow> registry_bundle \<Rightarrow> registry_db \<Rightarrow> bool" where
  "bundle_bound ws b db \<longleftrightarrow> (\<forall>t \<in> set (bd_types b). type_bound (ws, t) db) \<and>
     (\<forall>h \<in> set (bd_behaviors b). behavior_bound (ws, h) db) \<and> (\<forall>d \<in> set (bd_models b). model_bound (ws, d) db)"

lemma bundle_bound_extends: "extends db db' \<Longrightarrow> bundle_bound ws b db \<Longrightarrow> bundle_bound ws b db'"
  using extends_bound unfolding bundle_bound_def by blast

lemma BootstrapRegistry_binds:
  assumes "BootstrapRegistry newID ws b db = Inr db'"
  shows "bundle_bound ws b db'"
proof -
  obtain ids db1 db2 where v: "Bundle_Validate b = Inr ()"
    and t: "bootstrap_types newID ws 0 (bd_types b) [] db = Inr (ids, db1)"
    and h: "bootstrap_behaviors newID ws ids (length (bd_types b)) (bd_behaviors b) db1 = Inr db2"
    and d: "bootstrap_models newID ws (length (bd_types b) + length (bd_behaviors b)) (bd_models b) db2 = Inr db'"
    using BootstrapRegistry_D [OF assms] by blast
  note known = bundle_types_known [OF v t]
  have "type_bound (ws, x) db1" if "x \<in> set (bd_types b)" for x
    using types.all_bind [OF bootstrap_types_run [OF t], of "(ws, x)"] that by simp
  moreover have "behavior_bound (ws, x) db2" if "x \<in> set (bd_behaviors b)" for x
    using behaviors.all_bind [OF h [unfolded bootstrap_behaviors_all [OF known]]] that by fastforce
  moreover have "model_bound (ws, x) db'" if "x \<in> set (bd_models b)" for x
    using models.all_bind [OF d [unfolded bootstrap_models_all], of "(ws, x)"] that by simp
  ultimately show ?thesis
    using extends_bound [OF bootstrap_behaviors_extends [OF h]] extends_bound [OF bootstrap_models_extends [OF d]]
    unfolding bundle_bound_def by blast
qed

lemma bound_bundle_again:
  assumes "bundle_bound ws b db" "requireWorkspaceID ws = Inr ()" "Bundle_Validate b = Inr ()"
  shows "BootstrapRegistry newID ws b db = Inr db"
proof -
  have "types.ensure_all newID 0 (map (Pair ws) (bd_types b)) db = Inr db"
    using assms(1) by (intro types.all_again) (simp add: bundle_bound_def list_all_iff)
  then obtain ids where t: "bootstrap_types newID ws 0 (bd_types b) [] db = Inr (ids, db)"
    using bootstrap_types_all [of newID ws 0 "bd_types b" "[]" db]
    by (cases "bootstrap_types newID ws 0 (bd_types b) [] db") auto
  have h: "bootstrap_behaviors newID ws ids n (bd_behaviors b) db = Inr db" for n
    unfolding bootstrap_behaviors_all [OF bundle_types_known [OF assms(3) t]]
    using assms(1) by (intro behaviors.all_again) (simp add: bundle_bound_def list_all_iff)
  have d: "bootstrap_models newID ws n (bd_models b) db = Inr db" for n
    unfolding bootstrap_models_all using assms(1) by (intro models.all_again) (simp add: bundle_bound_def list_all_iff)
  show ?thesis by (simp add: BootstrapRegistry_def assms(2,3) t h d)
qed

text \<open>
  C16: seeding a workspace is idempotent: once a bundle of definitions has been bootstrapped, then whatever
  is registered in between, in whatever workspace, bootstrapping it again succeeds and changes nothing.
\<close>

theorem bootstrap_idempotent:
  assumes "BootstrapRegistry newID ws b db = Inr db1" "registration\<^sup>*\<^sup>* db1 db2"
  shows "BootstrapRegistry newID2 ws b db2 = Inr db2"
proof -
  have "bundle_bound ws b db2"
    using bundle_bound_extends [OF registrations_extend [OF assms(2)] BootstrapRegistry_binds [OF assms(1)]] .
  then show ?thesis using bound_bundle_again BootstrapRegistry_D [OF assms(1)] by blast
qed

section \<open>What a change of the status does to a text\<close>

lemma find_map_same:
  "(\<And>q. P (f q) = P q) \<Longrightarrow> List.find P (map f xs) = map_option f (List.find P xs)"
  by (induction xs) auto

lemma those_length: "those xs = Some ys \<Longrightarrow> length ys = length xs"
  by (induction xs arbitrary: ys) (auto split: option.splits)

lemma marshal_members_keys: "marshal_members operation ms = Inr doc \<Longrightarrow> map fst doc = map fst ms"
  by (auto simp: marshal_members_def dest!: those_length split: option.splits)

lemma restate_sorted:
  assumes "restate status doc = Inr doc'"
  shows "sorted (map fst doc') \<and> set (map fst doc) \<subseteq> set (map fst doc')"
proof -
  obtain decoded where u: "unmarshalJSON ''decode registry definition'' doc = Inr decoded"
    and rest: "(case marshalJSON (obj_set decoded ''status'' (VNamed status)) of
       Inl e \<Rightarrow> Inl (Plain ''encode registry definition'') | Inr doc' \<Rightarrow> Inr doc') = Inr doc'"
    using assms unfolding restate_def bind_result_Inr by blast
  then have m: "marshalJSON (obj_set decoded ''status'' (VNamed status)) = Inr doc'" by (simp split: sum.splits)
  have keys: "map fst decoded = map fst doc"
    using u by (auto simp: unmarshalJSON_def dest!: those_length split: option.splits)
  obtain vs where vs: "those (map (\<lambda>kv. json_marshal (snd kv)) (obj_set decoded ''status'' (VNamed status))) = Some vs"
    "doc' = sort_key fst (zip (map fst (obj_set decoded ''status'' (VNamed status))) vs)"
    using m by (auto simp: marshalJSON_def split: option.splits)
  have "set (map fst doc') = set (map fst (obj_set decoded ''status'' (VNamed status)))"
  proof -
    have "set (map fst (sort_key fst zs)) = set (map fst zs)" for zs :: "(string \<times> gval) list" by simp
    moreover have "map fst (zip (map fst (obj_set decoded ''status'' (VNamed status))) vs) = map fst (obj_set decoded ''status'' (VNamed status))"
      using those_length [OF vs(1)] by (intro map_fst_zip) simp
    ultimately show ?thesis unfolding vs(2) by (simp only:)
  qed
  then show ?thesis using vs(2) arg_cong [OF keys, of set] by (auto simp: dom_update [symmetric] update_keys)
qed

lemma type_doc_unsorted:
  assumes "marshal_members operation (type_members t) = Inr doc"
  shows "\<not> sorted (map fst doc)" "''display_name'' \<in> set (map fst doc)"
proof -
  have "\<not> (''id'' :: string) \<le> ''display_name''" by code_simp
  then show "\<not> sorted (map fst doc)" unfolding marshal_members_keys [OF assms] type_members_def by simp
  show "''display_name'' \<in> set (map fst doc)" unfolding marshal_members_keys [OF assms] type_members_def by simp
qed

text \<open>Registering a bound type, or one whose row has another text.\<close>

lemma ensure_type_immutable:
  assumes "marshal_members (''marshal connector type '' @ ct_key t) (type_members t) = Inr doc"
    "List.find (row_named ws (ct_key t) (ct_version t)) (gd_types db) = Some r" "rr_definition r \<noteq> doc"
  shows "ensure_type n (ws, t) db = fail ErrImmutable (''connector type '' @ type_key t)"
  using assms by (simp add: ensure_type_def ensureConnectorType_def ensure_row_def)

lemma ensure_all_immutable:
  assumes "x \<in> set xs" "\<And>n. \<exists>text. ensure_type n x db = fail ErrImmutable text"
    "\<And>y n. y \<in> set xs \<Longrightarrow> ensure_type n y db = Inr db \<or> (\<exists>text. ensure_type n y db = fail ErrImmutable text)"
  shows "\<exists>text. types.ensure_all newID n xs db = fail ErrImmutable text"
  using assms(1,3)
proof (induction xs arbitrary: n)
  case (Cons y ys)
  show ?case
  proof (cases "ensure_type (newID n) y db = Inr db")
    case True
    then have "x \<in> set ys" using Cons.prems(1) assms(2) [of "newID n"] by auto
    then show ?thesis using Cons True by auto
  next
    case False
    then show ?thesis using Cons.prems(2) [of y "newID n"] by auto
  qed
qed simp

text \<open>
  C17: seeding does not survive an administrator: once the status of a connector type of the bundle has been
  set, to whatever status, bootstrapping the same bundle again, which the program does for every workspace
  when it starts, is refused: the text is written back with its members in the order of their names, which
  is never the text that is bootstrapped.
\<close>

theorem status_breaks_bootstrap:
  assumes "BootstrapRegistry newID ws b db = Inr db1" "distinct (map rr_id (gd_types db))" "t \<in> set (bd_types b)"
    "List.find (row_named ws (ct_key t) (ct_version t)) (gd_types db1) = Some r"
    "SetConnectorTypeStatus ws (rr_id r) status db1 = Inr db2"
  shows "\<exists>text. BootstrapRegistry newID2 ws b db2 = fail ErrImmutable text"
proof -
  have bound: "bundle_bound ws b db1" by (rule BootstrapRegistry_binds [OF assms(1)])
  have ids: "distinct (map rr_id (gd_types db1))"
    using BootstrapRegistry_extends [OF assms(1)] assms(2) by (simp add: extends_def grows_def)
  have r: "r \<in> set (gd_types db1)" "rr_workspace r = ws" using find_SomeD [OF assms(4)] by auto
  let ?target = "\<lambda>q. rr_workspace q = ws \<and> rr_id q = rr_id r"
  obtain q doc where q: "List.find ?target (gd_types db1) = Some q" "restate status (rr_definition q) = Inr doc"
    and db2: "db2 = db1\<lparr>gd_types := update_rows ?target (\<lambda>q. q\<lparr>rr_status := status, rr_definition := doc\<rparr>) (gd_types db1)\<rparr>"
    using assms(5) by (auto simp: SetConnectorTypeStatus_def setRegistryStatus_def set_row_status_def bind_result_Inr Let_def
        split: if_splits option.splits)
  have "q = r" using find_SomeD [OF q(1)] r ids by (auto simp: distinct_map inj_on_def)
  obtain own where own: "\<And>operation. marshal_members operation (type_members t) = Inr own" "rr_definition r = own"
    using bound assms(3,4) by (auto simp: bundle_bound_def type_bound_def row_bound_def)
  have other: "marshal_members operation (type_members t') \<noteq> Inr doc" for operation t'
    using restate_sorted [OF q(2)] type_doc_unsorted(1) [of operation t' doc] by auto
  have named: "List.find (row_named ws k v) (gd_types db2) =
      map_option (\<lambda>q. if ?target q then q\<lparr>rr_status := status, rr_definition := doc\<rparr> else q)
        (List.find (row_named ws k v) (gd_types db1))" for k v
    unfolding db2 by (simp add: update_rows_def find_map_same)
  have "\<exists>text. ensure_type n (ws, t) db2 = fail ErrImmutable text" for n
  proof -
    have "List.find (row_named ws (ct_key t) (ct_version t)) (gd_types db2) = Some (r\<lparr>rr_status := status, rr_definition := doc\<rparr>)"
      unfolding named assms(4) using r by simp
    moreover have "doc \<noteq> own" using other own(1) by metis
    ultimately show ?thesis using ensure_type_immutable [OF own(1)] by fastforce
  qed
  moreover have "ensure_type n (ws, t') db2 = Inr db2 \<or> (\<exists>text. ensure_type n (ws, t') db2 = fail ErrImmutable text)"
    if t': "t' \<in> set (bd_types b)" for n t'
  proof -
    obtain own' r' where own': "\<And>operation. marshal_members operation (type_members t') = Inr own'"
      "List.find (row_named ws (ct_key t') (ct_version t')) (gd_types db1) = Some r'" "rr_definition r' = own'"
      using bound t' by (auto simp: bundle_bound_def type_bound_def row_bound_def)
    show ?thesis
    proof (cases "?target r'")
      case True
      then have "List.find (row_named ws (ct_key t') (ct_version t')) (gd_types db2) = Some (r'\<lparr>rr_status := status, rr_definition := doc\<rparr>)"
        unfolding named own'(2) by simp
      moreover have "doc \<noteq> own'" using other own'(1) by metis
      ultimately show ?thesis using ensure_type_immutable [OF own'(1)] by fastforce
    next
      case False
      then have "type_bound (ws, t') db2" using named own' by (auto simp: type_bound_def row_bound_def)
      then show ?thesis using types.ensure_bound by blast
    qed
  qed
  ultimately have "\<exists>text. types.ensure_all newID2 0 (map (Pair ws) (bd_types b)) db2 = fail ErrImmutable text"
    using assms(3) by (intro ensure_all_immutable [of "(ws, t)"]) auto
  then obtain text2 where "bootstrap_types newID2 ws 0 (bd_types b) [] db2 = fail ErrImmutable text2"
    using bootstrap_types_all [of newID2 ws 0 "bd_types b" "[]" db2]
    by (cases "bootstrap_types newID2 ws 0 (bd_types b) [] db2") auto
  then show ?thesis using BootstrapRegistry_D [OF assms(1)] by (auto simp: BootstrapRegistry_def)
qed

section \<open>What is registered is what is read\<close>

lemma marshal_members_get: "marshal_members operation ms = Inr doc \<Longrightarrow> json_marshal (obj_get ms k) = Some (obj_get doc k)"
proof (induction ms arbitrary: doc)
  case (Cons kv ms)
  obtain k' v where kv: "kv = (k', v)" by (cases kv)
  obtain v' doc' where "json_marshal v = Some v'" "marshal_members operation ms = Inr doc'" "doc = (k', v') # doc'"
    using Cons.prems by (auto simp: marshal_members_def kv split: option.splits)
  then show ?case using Cons.IH kv by auto
qed (auto simp: marshal_members_def)

lemma obj_get_omit [simp]:
  "obj_get (omit_text k s @ ms) k' = (if k' = k \<and> s \<noteq> [] then VStr s else obj_get ms k')"
  "obj_get (omit_texts k ss @ ms) k' = (if k' = k \<and> ss \<noteq> [] then VStrs ss else obj_get ms k')"
  "obj_get (omit_object k m @ ms) k' = (if k' = k \<and> m \<noteq> None \<and> m \<noteq> Some [] then VObj (the m) else obj_get ms k')"
  by (auto simp: omit_text_def omit_texts_def omit_object_def split: option.split)

lemma doc_text_read:
  assumes "marshal_members operation ms = Inr doc"
  shows "obj_get ms k = VStr s \<Longrightarrow> doc_text doc k = s" "obj_get ms k = VNamed s \<Longrightarrow> doc_text doc k = s"
    "obj_get ms k = (if s \<noteq> [] then VStr s else VNil) \<Longrightarrow> doc_text doc k = s"
  using marshal_members_get [OF assms, of k] by (cases "obj_get doc k"; auto simp: doc_text_def split: if_splits)+

lemma doc_texts_read:
  assumes "marshal_members operation ms = Inr doc" "obj_get ms k = (if ss \<noteq> [] then VStrs ss else VNil)"
  shows "doc_texts doc k = ss"
  using marshal_members_get [OF assms(1), of k] assms(2)
  by (cases "obj_get doc k") (auto simp: doc_texts_def o_def split: if_splits)

definition canonical_schema :: "gobj option \<Rightarrow> bool" where
  "canonical_schema m \<longleftrightarrow> (case m of None \<Rightarrow> True | Some kvs \<Rightarrow> kvs \<noteq> [] \<and> canonical (VObj kvs))"

lemma doc_object_read:
  assumes "marshal_members operation ms = Inr doc" "canonical_schema m"
    "obj_get ms k = (case m of None \<Rightarrow> VNil | Some kvs \<Rightarrow> VObj kvs)"
  shows "doc_object operation' doc k = Inr m"
proof (cases m)
  case None
  then show ?thesis using marshal_members_get [OF assms(1), of k] assms(3) by (simp add: doc_object_def)
next
  case (Some kvs)
  then have "canonical (VObj kvs)" using assms(2) by (simp add: canonical_schema_def)
  then show ?thesis using marshal_members_get [OF assms(1), of k] assms(3) Some canonical_marshal canonical_unmarshal
    by (simp add: doc_object_def del: canonical.simps json_marshal.simps json_unmarshal.simps)
qed

lemma read_behavior_written:
  assumes "marshal_members operation (behavior_members b) = Inr (rr_definition r)"
    "canonical_schema (bh_parameter_schema b)" "canonical_schema (bh_event_schema b)"
  shows "read_behavior ws r = Inr (b\<lparr>bh_id := rr_id r, bh_workspace := ws\<rparr>)"
proof -
  let ?d = "rr_definition r"
  note str = doc_text_read(1) [OF assms(1)] and named = doc_text_read(2) [OF assms(1)] and omitted = doc_text_read(3) [OF assms(1)]
  have strings: "doc_text ?d ''connector_type_key'' = bh_type_key b" "doc_text ?d ''connector_type_version'' = bh_type_version b"
    "doc_text ?d ''key'' = bh_key b" "doc_text ?d ''version'' = bh_version b" "doc_text ?d ''display_name'' = bh_display_name b"
    "doc_text ?d ''adapter_operation'' = bh_operation b" "doc_text ?d ''idempotency_strategy'' = bh_idempotency b"
    by (rule str, simp add: behavior_members_def)+
  have names: "doc_text ?d ''direction'' = bh_direction b" "doc_text ?d ''status'' = bh_status b"
    by (rule named, simp add: behavior_members_def)+
  have omits: "doc_text ?d ''input_model_ref'' = bh_input_model b" "doc_text ?d ''output_model_ref'' = bh_output_model b"
    "doc_text ?d ''reconciliation'' = bh_reconciliation b"
    by (rule omitted, simp add: behavior_members_def)+
  have lists: "doc_texts ?d ''required_capabilities'' = bh_capabilities b"
    by (rule doc_texts_read [OF assms(1)]) (simp add: behavior_members_def)
  have schema: "(if m \<noteq> None \<and> m \<noteq> Some [] then VObj (the m) else VNil) = (case m of None \<Rightarrow> VNil | Some kvs \<Rightarrow> VObj kvs)"
    if "canonical_schema m" for m using that by (auto simp: canonical_schema_def split: option.splits)
  have parameters: "doc_object o' ?d ''parameter_schema'' = Inr (bh_parameter_schema b)" for o'
    by (rule doc_object_read [OF assms(1,2)]) (simp add: behavior_members_def schema [OF assms(2), symmetric])
  have events: "doc_object o' ?d ''provider_event_schema'' = Inr (bh_event_schema b)" for o'
    by (rule doc_object_read [OF assms(1,3)]) (simp add: behavior_members_def schema [OF assms(3), symmetric])
  show ?thesis by (simp add: read_behavior_def parameters events strings names omits lists)
qed

lemma map_result_in: "map_result f xs = Inr ys \<Longrightarrow> x \<in> set xs \<Longrightarrow> f x = Inr y \<Longrightarrow> y \<in> set ys"
  unfolding map_result_Inr by (induction rule: list_all2_induct) auto

text \<open>
  C18: a registered behavior is read back as it was registered: after an accepted registration whose schemas
  are JSON documents, the listing of the workspace contains the behavior, every field of it, under the
  identifier of its row, whether the registration added it or found it there; its adapter operation is one
  that is deployed.
\<close>

theorem registered_behavior_listed:
  assumes "RegisterConnectorBehavior adapters newID ws b db = Inr db'" "ListConnectorBehaviors ws db' = Inr bs"
    "canonical_schema (bh_parameter_schema b)" "canonical_schema (bh_event_schema b)"
  shows "(\<exists>i. b\<lparr>bh_id := i, bh_workspace := ws\<rparr> \<in> set bs) \<and> (\<exists>deployed. adapters = Some deployed \<and> deployed (bh_operation b))"
proof -
  obtain doc typeID where m: "marshal_members ''json'' (behavior_members (b\<lparr>bh_workspace := ws\<rparr>)) = Inr doc"
    and e: "ensureConnectorBehavior newID ws typeID (b\<lparr>bh_workspace := ws\<rparr>) doc db = Inr db'"
    and v: "ValidateBehavior b adapters = Inr ()"
    using assms(1) by (auto simp: RegisterConnectorBehavior_def store_RegisterConnectorBehavior_def bind_result_Inr
        split: if_splits option.splits)
  obtain r where r: "r \<in> set (gd_behaviors db')" "rr_workspace r = ws" "rr_definition r = doc"
    using ensureConnectorBehavior_D [OF e] by (auto simp: row_bound_def dest!: find_SomeD)
  have "read_behavior ws r = Inr (b\<lparr>bh_id := rr_id r, bh_workspace := ws\<rparr>)"
    using read_behavior_written [of "''json''" "b\<lparr>bh_workspace := ws\<rparr>" r ws] m r(3) assms(3,4) by simp
  moreover have "r \<in> set (registry_rows ws (gd_behaviors db'))" using r by (simp add: registry_rows_def)
  moreover have "map_result (read_behavior ws) (registry_rows ws (gd_behaviors db')) = Inr bs"
    using assms(2) by (auto simp: ListConnectorBehaviors_def bind_result_Inr)
  ultimately have "b\<lparr>bh_id := rr_id r, bh_workspace := ws\<rparr> \<in> set bs" using map_result_in by fastforce
  moreover have "\<exists>deployed. adapters = Some deployed \<and> deployed (bh_operation b)"
    using v by (cases adapters) (auto simp: ValidateBehavior_def split: if_splits)
  ultimately show ?thesis by blast
qed

section \<open>A concrete registry\<close>

definition empty_registry :: registry_db where
  "empty_registry = \<lparr>gd_workspaces = [''w''], gd_types = [], gd_behaviors = [], gd_models = []\<rparr>"

definition number_id :: "nat \<Rightarrow> ID" where
  "number_id n = replicate (n + 1) (CHR ''n'')"

definition seeded_registry :: registry_db where
  "seeded_registry = (case BootstrapRegistry number_id ''w'' sample_bundle empty_registry of Inr db \<Rightarrow> db | Inl e \<Rightarrow> empty_registry)"

lemma sample_seeded: "BootstrapRegistry number_id ''w'' sample_bundle empty_registry = Inr seeded_registry"
proof -
  have "case BootstrapRegistry number_id ''w'' sample_bundle empty_registry of Inl e \<Rightarrow> False | Inr db \<Rightarrow> True" by code_simp
  then show ?thesis by (auto simp: seeded_registry_def split: sum.splits)
qed

theorem bootstrap_idempotent_witness:
  "BootstrapRegistry number_id ''w'' sample_bundle seeded_registry = Inr seeded_registry"
  by (rule bootstrap_idempotent [OF sample_seeded rtranclp.rtrancl_refl])

theorem status_breaks_bootstrap_witness:
  "\<exists>db2 text. SetConnectorTypeStatus ''w'' ''n'' DefinitionPublished seeded_registry = Inr db2 \<and>
     BootstrapRegistry number_id ''w'' sample_bundle db2 = fail ErrImmutable text"
proof -
  let ?t = "hd (bd_types sample_bundle)"
  have t: "?t \<in> set (bd_types sample_bundle)" by (simp add: sample_bundle_def)
  have ids: "distinct (map rr_id (gd_types empty_registry))" by (simp add: empty_registry_def)
  have "case List.find (row_named ''w'' (ct_key ?t) (ct_version ?t)) (gd_types seeded_registry) of None \<Rightarrow> False | Some r \<Rightarrow> rr_id r = ''n''"
    by code_simp
  then obtain r where r: "List.find (row_named ''w'' (ct_key ?t) (ct_version ?t)) (gd_types seeded_registry) = Some r" "rr_id r = ''n''"
    by (auto split: option.splits)
  have "case SetConnectorTypeStatus ''w'' ''n'' DefinitionPublished seeded_registry of Inl e \<Rightarrow> False | Inr db2 \<Rightarrow> True" by code_simp
  then obtain db2 where s: "SetConnectorTypeStatus ''w'' ''n'' DefinitionPublished seeded_registry = Inr db2" by (auto split: sum.splits)
  show ?thesis using status_breaks_bootstrap [OF sample_seeded ids t r(1)] s r(2) by auto
qed

definition registered_hook :: behavior where
  "registered_hook = (sample_behavior ''hook'' DirectionInput)\<lparr>bh_type_key := ''gitlab'', bh_type_version := ''1.0.0'', bh_output_model := ''m''\<rparr>"

theorem registered_behavior_listed_witness:
  "\<exists>db' bs i. RegisterConnectorBehavior (Some (\<lambda>p. p = ''op'')) ''b1'' ''w'' registered_hook seeded_registry = Inr db' \<and>
     ListConnectorBehaviors ''w'' db' = Inr bs \<and> registered_hook\<lparr>bh_id := i, bh_workspace := ''w''\<rparr> \<in> set bs"
proof -
  have "case RegisterConnectorBehavior (Some (\<lambda>p. p = ''op'')) ''b1'' ''w'' registered_hook seeded_registry of Inl e \<Rightarrow> False
     | Inr db' \<Rightarrow> (case ListConnectorBehaviors ''w'' db' of Inl e \<Rightarrow> False | Inr bs \<Rightarrow> True)" by code_simp
  then obtain db' bs where r: "RegisterConnectorBehavior (Some (\<lambda>p. p = ''op'')) ''b1'' ''w'' registered_hook seeded_registry = Inr db'"
    and l: "ListConnectorBehaviors ''w'' db' = Inr bs" by (auto split: sum.splits)
  have "canonical_schema (bh_parameter_schema registered_hook)" "canonical_schema (bh_event_schema registered_hook)"
    by (simp_all add: registered_hook_def sample_behavior_def canonical_schema_def)
  from registered_behavior_listed [OF r l this] r l show ?thesis by blast
qed

end
