(* ===== verification/OnboardingStore.thy ===== *)
theory OnboardingStore
  imports ControlSteps
begin

text \<open>
  The tables of onboarding, \<open>store/onboarding.go\<close>: the provider resources a connection manages, the
  onboarding operations and their checkpoints; and the summary of a connection,
  \<open>store/connection_summary.go\<close>. The tables they refer to are those of \<open>control_db\<close>.
\<close>

section \<open>Rows\<close>

record managed_resource =
  mr_id :: ID
  mr_workspace :: ID
  mr_connection :: ID
  mr_kind :: string
  mr_provider :: string
  mr_instance :: ID
  mr_external :: string
  mr_ownership :: string
  mr_mark :: string
  mr_status :: string
  mr_snapshot :: gobj

record onboarding_operation =
  op_id :: ID
  op_workspace :: ID
  op_connection :: ID
  op_status :: string
  op_request :: gobj
  op_error_category :: string
  op_error_message :: string
  op_created :: gtime
  op_updated :: gtime

record onboarding_checkpoint =
  ck_id :: ID
  ck_workspace :: ID
  ck_operation :: ID
  ck_step :: string
  ck_status :: string
  ck_provider :: string
  ck_result :: gobj
  ck_updated :: gtime

record onboarding_db =
  ob_control :: control_db
  ob_resources :: "managed_resource list"
  ob_operations :: "onboarding_operation list"
  ob_checkpoints :: "onboarding_checkpoint list"

abbreviation OwnershipManaged :: string where "OwnershipManaged \<equiv> ''managed''"
abbreviation OwnershipAdopted :: string where "OwnershipAdopted \<equiv> ''adopted''"
abbreviation OwnershipExternal :: string where "OwnershipExternal \<equiv> ''external''"
abbreviation ResourceLabel :: string where "ResourceLabel \<equiv> ''label''"
abbreviation ResourceHook :: string where "ResourceHook \<equiv> ''hook''"
abbreviation ResourceWorkspaceRepository :: string where "ResourceWorkspaceRepository \<equiv> ''workspace_repository''"
abbreviation ResourceProject :: string where "ResourceProject \<equiv> ''project''"
abbreviation OnboardingPending :: string where "OnboardingPending \<equiv> ''pending''"
abbreviation OnboardingRunning :: string where "OnboardingRunning \<equiv> ''running''"
abbreviation OnboardingConfigured :: string where "OnboardingConfigured \<equiv> ''configured''"
abbreviation OnboardingReady :: string where "OnboardingReady \<equiv> ''ready''"
abbreviation OnboardingBlocked :: string where "OnboardingBlocked \<equiv> ''blocked''"
abbreviation OnboardingFailed :: string where "OnboardingFailed \<equiv> ''failed''"
abbreviation ConnectionReady :: string where "ConnectionReady \<equiv> ''ready''"
abbreviation ConnectionReadyFailed :: string where "ConnectionReadyFailed \<equiv> ''ready_failed''"

abbreviation ob_workspaces :: "onboarding_db \<Rightarrow> ID list" where
  "ob_workspaces db \<equiv> cb_workspaces (ob_control db)"

text \<open>The keys of the three tables.\<close>

definition resource_key :: "managed_resource \<Rightarrow> ID \<times> ID \<times> string \<times> ID \<times> string" where
  "resource_key r = (mr_workspace r, mr_connection r, mr_kind r, mr_instance r, mr_external r)"

definition resource_clash :: "managed_resource \<Rightarrow> managed_resource \<Rightarrow> bool" where
  "resource_clash a b \<longleftrightarrow> mr_id a = mr_id b \<or> resource_key a = resource_key b"

definition operation_clash :: "onboarding_operation \<Rightarrow> onboarding_operation \<Rightarrow> bool" where
  "operation_clash a b \<longleftrightarrow> op_id a = op_id b"

definition checkpoint_key :: "onboarding_checkpoint \<Rightarrow> ID \<times> ID \<times> string" where
  "checkpoint_key c = (ck_workspace c, ck_operation c, ck_step c)"

definition checkpoint_clash :: "onboarding_checkpoint \<Rightarrow> onboarding_checkpoint \<Rightarrow> bool" where
  "checkpoint_clash a b \<longleftrightarrow> ck_id a = ck_id b \<or> checkpoint_key a = checkpoint_key b"

interpretation resource_by_key: unique_key resource_key resource_clash
  by unfold_locales (simp add: resource_clash_def)

interpretation operation_by_id: unique_key op_id operation_clash
  by unfold_locales (simp add: operation_clash_def)

interpretation checkpoint_by_key: unique_key checkpoint_key checkpoint_clash
  by unfold_locales (simp add: checkpoint_clash_def)

section \<open>Managed resources\<close>

text \<open>A resource that is in the table is read back as it is; only a new one is written.\<close>

definition resource_connection :: "ID \<Rightarrow> ID \<Rightarrow> control_db \<Rightarrow> gerr + unit" where
  "resource_connection workspaceID connectionID db =
     (case List.find (\<lambda>c. cn_id c = connectionID) (cb_connections db) of
        None \<Rightarrow> fail ErrNotFound (''connection '' @ connectionID)
      | Some c \<Rightarrow>
          if cn_workspace c \<noteq> workspaceID then fail ErrForbidden ''resource connection belongs to another workspace''
          else Inr ())"

definition EnsureManagedResource ::
  "ID \<Rightarrow> managed_resource \<Rightarrow> onboarding_db \<Rightarrow> gerr + managed_resource \<times> onboarding_db" where
  "EnsureManagedResource newID r0 db =
     (let r1 = r0\<lparr>mr_id := or_default (mr_id r0) (\<lambda>i. i = []) newID\<rparr>
      in bind_result (requireWorkspaceID (mr_workspace r1)) (\<lambda>_.
         if mr_connection r1 = [] \<or> mr_instance r1 = [] \<or> blank (mr_external r1) \<or> mr_kind r1 = [] \<or> mr_provider r1 = []
         then fail ErrInvalid ''incomplete managed resource''
         else bind_result (resource_connection (mr_workspace r1) (mr_connection r1) (ob_control db)) (\<lambda>_.
           let r = r1\<lparr>mr_ownership := or_default (mr_ownership r1) (\<lambda>s. s = []) OwnershipManaged,
                     mr_status := or_default (mr_status r1) (\<lambda>s. s = []) ''ready''\<rparr>
           in bind_result (marshalJSON (mr_snapshot r)) (\<lambda>snapshot.
              case List.find (\<lambda>x. resource_key x = resource_key r) (ob_resources db) of
                Some existing \<Rightarrow>
                  bind_result (unmarshalJSON ''decode managed resource snapshot'' (mr_snapshot existing)) (\<lambda>s.
                    Inr (existing\<lparr>mr_snapshot := s\<rparr>, db))
              | None \<Rightarrow>
                  if mr_ownership r \<notin> {OwnershipManaged, OwnershipAdopted, OwnershipExternal}
                  then Inl (Plain ''ensure managed resource'')
                  else bind_result (require_row ''ensure managed resource'' (mr_workspace r \<in> set (ob_workspaces db))) (\<lambda>_.
                       bind_result (insert_row ''ensure managed resource'' resource_clash (r\<lparr>mr_snapshot := snapshot\<rparr>)
                         (ob_resources db)) (\<lambda>rows.
                         Inr (r, db\<lparr>ob_resources := rows\<rparr>)))))))"

definition ListManagedResources :: "ID \<Rightarrow> ID \<Rightarrow> onboarding_db \<Rightarrow> gerr + managed_resource list" where
  "ListManagedResources workspaceID connectionID db =
     bind_result (requireWorkspaceID workspaceID) (\<lambda>_.
       map_result (\<lambda>r. bind_result (unmarshalJSON ''json'' (mr_snapshot r)) (\<lambda>s. Inr (r\<lparr>mr_snapshot := s\<rparr>)))
         (sort_key (\<lambda>r. (mr_kind r, mr_external r))
           (filter (\<lambda>r. mr_workspace r = workspaceID \<and> mr_connection r = connectionID) (ob_resources db))))"

section \<open>Operations\<close>

definition known_connection :: "ID \<Rightarrow> onboarding_db \<Rightarrow> bool" where
  "known_connection i db \<longleftrightarrow> i = [] \<or> i \<in> cn_id ` set (cb_connections (ob_control db))"

definition CreateOnboardingOperation :: "gtime \<Rightarrow> onboarding_operation \<Rightarrow> onboarding_db \<Rightarrow> gerr + onboarding_db" where
  "CreateOnboardingOperation now o0 db =
     (if op_id o0 = [] then fail ErrInvalid ''onboarding operation id is required''
      else bind_result (requireWorkspaceID (op_workspace o0)) (\<lambda>_.
        let created = or_default (op_created o0) IsZero now;
            x = o0\<lparr>op_status := or_default (op_status o0) (\<lambda>s. s = []) OnboardingPending, op_created := created,
                  op_updated := or_default (op_updated o0) IsZero created\<rparr>
        in bind_result (marshalJSON (op_request x)) (\<lambda>request.
           bind_result (require_row ''create onboarding operation''
             (op_workspace x \<in> set (ob_workspaces db) \<and> known_connection (op_connection x) db)) (\<lambda>_.
           bind_result (insert_row ''create onboarding operation'' operation_clash (x\<lparr>op_request := request\<rparr>)
             (ob_operations db)) (\<lambda>rows.
             Inr (db\<lparr>ob_operations := rows\<rparr>))))))"

definition GetOnboardingOperation :: "ID \<Rightarrow> ID \<Rightarrow> onboarding_db \<Rightarrow> gerr + onboarding_operation" where
  "GetOnboardingOperation workspaceID operationID db =
     (case List.find (\<lambda>r. op_workspace r = workspaceID \<and> op_id r = operationID) (ob_operations db) of
        None \<Rightarrow> fail ErrNotFound (''onboarding operation '' @ operationID)
      | Some r \<Rightarrow> bind_result (unmarshalJSON ''json'' (op_request r)) (\<lambda>request. Inr (r\<lparr>op_request := request\<rparr>)))"

text \<open>The error of a connection that is not in the table is not mapped to a conflict here.\<close>

definition UpdateOnboardingOperation ::
  "gtime \<Rightarrow> ID \<Rightarrow> ID \<Rightarrow> ID \<Rightarrow> string \<Rightarrow> string \<Rightarrow> string \<Rightarrow> onboarding_db \<Rightarrow> gerr + onboarding_db" where
  "UpdateOnboardingOperation now workspaceID operationID connectionID status category message db =
     bind_result (requireWorkspaceID workspaceID) (\<lambda>_.
       let target = (\<lambda>r. op_workspace r = workspaceID \<and> op_id r = operationID)
       in if \<not> list_ex target (ob_operations db) then fail ErrNotFound (''onboarding operation '' @ operationID)
          else if \<not> known_connection connectionID db then Inl (Plain ''update onboarding operation'')
          else Inr (db\<lparr>ob_operations := update_rows target
                 (\<lambda>r. r\<lparr>op_connection := connectionID, op_status := status, op_error_category := category,
                        op_error_message := take 500 message, op_updated := now\<rparr>) (ob_operations db)\<rparr>))"

section \<open>Checkpoints\<close>

text \<open>\<open>ON CONFLICT\<close> of workspace, operation and step: the row keeps its identifier.\<close>

definition UpsertOnboardingCheckpoint ::
  "gtime \<Rightarrow> ID \<Rightarrow> onboarding_checkpoint \<Rightarrow> onboarding_db \<Rightarrow> gerr + onboarding_db" where
  "UpsertOnboardingCheckpoint now newID c0 db =
     (let c1 = c0\<lparr>ck_id := or_default (ck_id c0) (\<lambda>i. i = []) newID\<rparr>
      in bind_result (requireWorkspaceID (ck_workspace c1)) (\<lambda>_.
         if ck_operation c1 = [] \<or> blank (ck_step c1) \<or> blank (ck_status c1)
         then fail ErrInvalid ''incomplete onboarding checkpoint''
         else let c = c1\<lparr>ck_updated := or_default (ck_updated c1) IsZero now\<rparr>
         in bind_result (marshalJSON (ck_result c)) (\<lambda>result.
            bind_result (require_row ''upsert onboarding checkpoint''
              (ck_workspace c \<in> set (ob_workspaces db) \<and> ck_operation c \<in> op_id ` set (ob_operations db))) (\<lambda>_.
            if list_ex (\<lambda>r. checkpoint_key r = checkpoint_key c) (ob_checkpoints db)
            then Inr (db\<lparr>ob_checkpoints := update_rows (\<lambda>r. checkpoint_key r = checkpoint_key c)
                   (\<lambda>r. r\<lparr>ck_status := ck_status c, ck_provider := ck_provider c, ck_result := result,
                          ck_updated := ck_updated c\<rparr>) (ob_checkpoints db)\<rparr>)
            else bind_result (insert_row ''upsert onboarding checkpoint'' checkpoint_clash (c\<lparr>ck_result := result\<rparr>)
                   (ob_checkpoints db)) (\<lambda>rows. Inr (db\<lparr>ob_checkpoints := rows\<rparr>))))))"

definition GetOnboardingCheckpoint :: "ID \<Rightarrow> ID \<Rightarrow> string \<Rightarrow> onboarding_db \<Rightarrow> gerr + onboarding_checkpoint" where
  "GetOnboardingCheckpoint workspaceID operationID step db =
     (case List.find (\<lambda>r. checkpoint_key r = (workspaceID, operationID, step)) (ob_checkpoints db) of
        None \<Rightarrow> fail ErrNotFound (''onboarding checkpoint '' @ step)
      | Some r \<Rightarrow> bind_result (unmarshalJSON ''json'' (ck_result r)) (\<lambda>result. Inr (r\<lparr>ck_result := result\<rparr>)))"

section \<open>The summary of a connection\<close>

record connection_stats =
  sx_flows :: nat
  sx_resources :: nat
  sx_executions :: nat
  sx_succeeded :: nat
  sx_unacknowledged :: nat
  sx_execution_status :: string
  sx_execution_attention :: string
  sx_execution_at :: "gtime option"
  sx_onboarding_status :: string
  sx_onboarding_at :: "gtime option"

text \<open>\<open>ORDER BY updated_at DESC, id DESC LIMIT 1\<close>: an instant is compared as the text it is stored as.\<close>

definition latest :: "('r \<Rightarrow> gtime) \<Rightarrow> ('r \<Rightarrow> ID) \<Rightarrow> 'r list \<Rightarrow> 'r option" where
  "latest updated i rows =
     (case rev (sort_key (\<lambda>r. (stored_time (updated r), i r)) rows) of [] \<Rightarrow> None | r # _ \<Rightarrow> Some r)"

definition unacknowledged :: "flow_execution \<Rightarrow> bool" where
  "unacknowledged x \<longleftrightarrow>
     fx_status x \<in> {ExecutionFailed, ExecutionIndeterminate, ExecutionReconciliationNeeded} \<and>
     fx_attention x = ExecutionAttentionOpen"

definition GetConnectionStats :: "ID \<Rightarrow> ID \<Rightarrow> runtime_db \<Rightarrow> onboarding_db \<Rightarrow> gerr + connection_stats" where
  "GetConnectionStats workspaceID connectionID rt db =
     bind_result (requireWorkspaceID workspaceID) (\<lambda>_.
       if connectionID = [] then fail ErrInvalid ''connection_id is required''
       else if \<not> list_ex (\<lambda>c. cn_workspace c = workspaceID \<and> cn_id c = connectionID) (cb_connections (ob_control db))
       then fail ErrNotFound (''connection '' @ connectionID)
       else let flows = filter (\<lambda>f. fl_workspace f = workspaceID \<and> fl_connection f = connectionID)
                          (fd_flows (cb_flows (ob_control db)));
                resources = filter (\<lambda>r. mr_workspace r = workspaceID \<and> mr_connection r = connectionID) (ob_resources db);
                executions = filter (\<lambda>x. fx_workspace x = workspaceID \<and> fx_connection x = connectionID) (rd_executions rt);
                operations = filter (\<lambda>r. op_workspace r = workspaceID \<and> op_connection r = connectionID) (ob_operations db);
                execution = latest fx_updated fx_id executions;
                operation = latest op_updated op_id operations
       in Inr \<lparr>sx_flows = length flows, sx_resources = length resources, sx_executions = length executions,
               sx_succeeded = length (filter (\<lambda>x. fx_status x = ExecutionSucceeded) executions),
               sx_unacknowledged = length (filter unacknowledged executions),
               sx_execution_status = (case execution of None \<Rightarrow> [] | Some x \<Rightarrow> fx_status x),
               sx_execution_attention = (case execution of None \<Rightarrow> [] | Some x \<Rightarrow> fx_attention x),
               sx_execution_at = map_option fx_updated execution,
               sx_onboarding_status = (case operation of None \<Rightarrow> [] | Some r \<Rightarrow> op_status r),
               sx_onboarding_at = map_option op_updated operation\<rparr>)"

section \<open>Histories\<close>

inductive onboarding_step :: "onboarding_db \<Rightarrow> onboarding_db \<Rightarrow> bool" where
  control: "control_history (ob_control db) c \<Longrightarrow> onboarding_step db (db\<lparr>ob_control := c\<rparr>)"
| resource: "EnsureManagedResource i r db = Inr (stored, db') \<Longrightarrow> onboarding_step db db'"
| create: "CreateOnboardingOperation now x db = Inr db' \<Longrightarrow> onboarding_step db db'"
| update: "UpdateOnboardingOperation now ws i conn status category message db = Inr db' \<Longrightarrow> onboarding_step db db'"
| checkpoint: "UpsertOnboardingCheckpoint now i c db = Inr db' \<Longrightarrow> onboarding_step db db'"

abbreviation onboarding_history :: "onboarding_db \<Rightarrow> onboarding_db \<Rightarrow> bool" where
  "onboarding_history \<equiv> onboarding_step\<^sup>*\<^sup>*"

text \<open>The keys of the tables, and what refers from one to the other.\<close>

definition onboarding_ok :: "onboarding_db \<Rightarrow> bool" where
  "onboarding_ok db \<longleftrightarrow>
     control_ok (ob_control db) \<and> no_clash resource_clash (ob_resources db) \<and>
     (\<forall>r \<in> set (ob_resources db). mr_ownership r \<in> {OwnershipManaged, OwnershipAdopted, OwnershipExternal}) \<and>
     no_clash operation_clash (ob_operations db) \<and> no_clash checkpoint_clash (ob_checkpoints db) \<and>
     ck_operation ` set (ob_checkpoints db) \<subseteq> op_id ` set (ob_operations db)"

interpretation resources: keyed_table mr_id resource_clash
  by unfold_locales (auto simp: resource_clash_def)

interpretation operations: keyed_table op_id operation_clash
  by unfold_locales (auto simp: operation_clash_def)

interpretation checkpoints: keyed_table ck_id checkpoint_clash
  by unfold_locales (auto simp: checkpoint_clash_def)

lemma EnsureManagedResource_D:
  assumes "EnsureManagedResource i r0 db = Inr (stored, db')"
  obtains (known) x where "List.find (\<lambda>x. resource_key x = resource_key r0) (ob_resources db) = Some x" "db' = db"
      "stored = x\<lparr>mr_snapshot := mr_snapshot stored\<rparr>"
  | (new) x where "List.find (\<lambda>x. resource_key x = resource_key r0) (ob_resources db) = None"
      "insert_row ''ensure managed resource'' resource_clash x (ob_resources db) = Inr (ob_resources db @ [x])"
      "db' = db\<lparr>ob_resources := ob_resources db @ [x]\<rparr>" "stored = x\<lparr>mr_snapshot := mr_snapshot r0\<rparr>"
      "mr_ownership x = or_default (mr_ownership r0) (\<lambda>s. s = []) OwnershipManaged" "mr_mark x = mr_mark r0"
      "resource_key x = resource_key r0" "mr_ownership x \<in> {OwnershipManaged, OwnershipAdopted, OwnershipExternal}"
proof -
  let ?r1 = "r0\<lparr>mr_id := or_default (mr_id r0) (\<lambda>i. i = []) i\<rparr>"
  let ?r = "?r1\<lparr>mr_ownership := or_default (mr_ownership r0) (\<lambda>s. s = []) OwnershipManaged,
                mr_status := or_default (mr_status r0) (\<lambda>s. s = []) ''ready''\<rparr>"
  have key: "resource_key ?r = resource_key r0" "resource_key (?r\<lparr>mr_snapshot := s\<rparr>) = resource_key r0" for s
    by (simp_all add: resource_key_def)
  show thesis
  proof (cases "List.find (\<lambda>x. resource_key x = resource_key r0) (ob_resources db)")
    case (Some x)
    then show thesis using assms key(1)
      by (intro known [of x]) (auto simp: EnsureManagedResource_def Let_def err_simps split: if_splits)
  next
    case None
    then obtain s rows where "insert_row ''ensure managed resource'' resource_clash (?r\<lparr>mr_snapshot := s\<rparr>) (ob_resources db) = Inr rows"
      "db' = db\<lparr>ob_resources := rows\<rparr>" "stored = ?r" "mr_ownership ?r \<in> {OwnershipManaged, OwnershipAdopted, OwnershipExternal}"
      using assms key(1) by (auto simp: EnsureManagedResource_def Let_def err_simps split: if_splits)
    moreover from this(1) have "rows = ob_resources db @ [?r\<lparr>mr_snapshot := s\<rparr>]" by (auto simp: err_simps)
    ultimately show thesis using None key by (intro new [of "?r\<lparr>mr_snapshot := s\<rparr>"]) auto
  qed
qed

lemma CreateOnboardingOperation_D:
  assumes "CreateOnboardingOperation now x0 db = Inr db'"
  obtains x where "insert_row ''create onboarding operation'' operation_clash x (ob_operations db) = Inr (ob_operations db @ [x])"
    "db' = db\<lparr>ob_operations := ob_operations db @ [x]\<rparr>" "op_id x = op_id x0" "op_workspace x = op_workspace x0"
    "op_connection x = op_connection x0"
proof -
  let ?x = "\<lambda>s. x0\<lparr>op_status := or_default (op_status x0) (\<lambda>s. s = []) OnboardingPending, op_created := or_default (op_created x0) IsZero now,
         op_updated := or_default (op_updated x0) IsZero (or_default (op_created x0) IsZero now), op_request := s\<rparr>"
  from assms obtain s rows where "insert_row ''create onboarding operation'' operation_clash (?x s) (ob_operations db) = Inr rows"
    "db' = db\<lparr>ob_operations := rows\<rparr>"
    by (auto simp: CreateOnboardingOperation_def Let_def err_simps split: if_splits)
  moreover from this(1) have "rows = ob_operations db @ [?x s]" by (auto simp: err_simps)
  ultimately show thesis by (intro that [of "?x s"]) simp_all
qed

lemma UpdateOnboardingOperation_D:
  assumes "UpdateOnboardingOperation now ws i conn status category message db = Inr db'"
  obtains f where "db' = db\<lparr>ob_operations := update_rows (\<lambda>r. op_workspace r = ws \<and> op_id r = i) f (ob_operations db)\<rparr>"
    "\<And>r. op_id (f r) = op_id r \<and> op_workspace (f r) = op_workspace r \<and> op_connection (f r) = conn \<and> op_request (f r) = op_request r"
  using assms by (auto simp: UpdateOnboardingOperation_def Let_def err_simps split: if_splits)

lemma UpsertOnboardingCheckpoint_D:
  assumes "UpsertOnboardingCheckpoint now i c0 db = Inr db'"
  obtains (new) c where "insert_row ''upsert onboarding checkpoint'' checkpoint_clash c (ob_checkpoints db) = Inr (ob_checkpoints db @ [c])"
      "db' = db\<lparr>ob_checkpoints := ob_checkpoints db @ [c]\<rparr>" "checkpoint_key c = checkpoint_key c0" "ck_status c = ck_status c0"
      "ck_provider c = ck_provider c0" "marshalJSON (ck_result c0) = Inr (ck_result c)" "ck_operation c \<in> op_id ` set (ob_operations db)"
  | (known) f where "db' = db\<lparr>ob_checkpoints := update_rows (\<lambda>r. checkpoint_key r = checkpoint_key c0) f (ob_checkpoints db)\<rparr>"
      "\<And>r. ck_id (f r) = ck_id r \<and> checkpoint_key (f r) = checkpoint_key r \<and> ck_status (f r) = ck_status c0 \<and>
           ck_provider (f r) = ck_provider c0" "\<And>r. marshalJSON (ck_result c0) = Inr (ck_result (f r))"
      "list_ex (\<lambda>r. checkpoint_key r = checkpoint_key c0) (ob_checkpoints db)"
proof -
  let ?c = "c0\<lparr>ck_id := or_default (ck_id c0) (\<lambda>i. i = []) i, ck_updated := or_default (ck_updated c0) IsZero now\<rparr>"
  have key: "checkpoint_key (c0\<lparr>ck_id := a, ck_updated := t, ck_result := s\<rparr>) = checkpoint_key c0"
    "checkpoint_key (c0\<lparr>ck_id := a, ck_updated := t\<rparr>) = checkpoint_key c0" for a t s
    by (simp_all add: checkpoint_key_def)
  from assms obtain s where s: "marshalJSON (ck_result c0) = Inr s" "ck_operation c0 \<in> op_id ` set (ob_operations db)"
    "(if list_ex (\<lambda>r. checkpoint_key r = checkpoint_key c0) (ob_checkpoints db)
      then Inr (db\<lparr>ob_checkpoints := update_rows (\<lambda>r. checkpoint_key r = checkpoint_key c0)
             (\<lambda>r. r\<lparr>ck_status := ck_status c0, ck_provider := ck_provider c0, ck_result := s, ck_updated := ck_updated ?c\<rparr>)
             (ob_checkpoints db)\<rparr>)
      else bind_result (insert_row ''upsert onboarding checkpoint'' checkpoint_clash (?c\<lparr>ck_result := s\<rparr>)
             (ob_checkpoints db)) (\<lambda>rows. Inr (db\<lparr>ob_checkpoints := rows\<rparr>))) = Inr db'"
    by (auto simp: UpsertOnboardingCheckpoint_def Let_def err_simps key split: if_splits)
  show thesis
  proof (cases "list_ex (\<lambda>r. checkpoint_key r = checkpoint_key c0) (ob_checkpoints db)")
    case True
    show thesis
      by (rule known [of "\<lambda>r. r\<lparr>ck_status := ck_status c0, ck_provider := ck_provider c0, ck_result := s, ck_updated := ck_updated ?c\<rparr>"])
        (use True s in \<open>auto simp: checkpoint_key_def\<close>)
  next
    case False
    then show thesis using s key by (intro new [of "?c\<lparr>ck_result := s\<rparr>"]) (auto simp: err_simps)
  qed
qed

lemma onboarding_step_ok: "onboarding_step db db' \<Longrightarrow> onboarding_ok db \<Longrightarrow> onboarding_ok db'"
proof (induction rule: onboarding_step.induct)
  case (control db c)
  then show ?case by (auto simp: onboarding_ok_def dest: control_history_ok)
next
  case (resource i r db stored db')
  from resource(1) show ?case
  proof (cases rule: EnsureManagedResource_D)
    case (new x)
    then show ?thesis using resource(2) resources.insert_no_clash [OF new(2)] by (auto simp: onboarding_ok_def)
  qed (use resource(2) in simp)
next
  case (create now x db db')
  from create(1) obtain y where y: "insert_row ''create onboarding operation'' operation_clash y (ob_operations db) = Inr (ob_operations db @ [y])"
    "db' = db\<lparr>ob_operations := ob_operations db @ [y]\<rparr>" by (rule CreateOnboardingOperation_D)
  then show ?case using create(2) operations.insert_no_clash [OF y(1)] by (auto simp: onboarding_ok_def)
next
  case (update now ws i conn status category message db db')
  from update(1) obtain f where f: "db' = db\<lparr>ob_operations := update_rows (\<lambda>r. op_workspace r = ws \<and> op_id r = i) f (ob_operations db)\<rparr>"
    "\<And>r. op_id (f r) = op_id r" by (rule UpdateOnboardingOperation_D) blast
  have "map op_id (ob_operations db') = map op_id (ob_operations db)" using f by (simp add: map_update_same)
  then have "op_id ` set (ob_operations db') = op_id ` set (ob_operations db)" by (metis set_map)
  moreover have "no_clash operation_clash (ob_operations db')"
    using update(2) f by (auto simp: onboarding_ok_def operation_clash_def intro!: operations.update_clear split: if_splits)
  ultimately show ?case using update(2) f(1) by (simp add: onboarding_ok_def)
next
  case (checkpoint now i c db db')
  from checkpoint(1) show ?case
  proof (cases rule: UpsertOnboardingCheckpoint_D)
    case (new x)
    then show ?thesis using checkpoint(2) checkpoints.insert_no_clash [OF new(1)] by (auto simp: onboarding_ok_def)
  next
    case (known f)
    have op: "ck_operation (f r) = ck_operation r" for r using known(2) [of r] by (simp add: checkpoint_key_def)
    have "map ck_operation (ob_checkpoints db') = map ck_operation (ob_checkpoints db)"
      using known(1) op by (simp add: map_update_same)
    then have "ck_operation ` set (ob_checkpoints db') = ck_operation ` set (ob_checkpoints db)" by (metis set_map)
    moreover have "no_clash checkpoint_clash (ob_checkpoints db')"
      using checkpoint(2) known(1,2)
      by (auto simp: onboarding_ok_def checkpoint_clash_def intro!: checkpoints.update_clear split: if_splits)
    ultimately show ?thesis using checkpoint(2) known(1) by (simp add: onboarding_ok_def)
  qed
qed

lemma onboarding_history_ok: "onboarding_history db db' \<Longrightarrow> onboarding_ok db \<Longrightarrow> onboarding_ok db'"
  by (induction rule: rtranclp_induct) (auto dest: onboarding_step_ok)

text \<open>A row of a managed resource is never changed: what was recorded first stays.\<close>

lemma onboarding_step_resources: "onboarding_step db db' \<Longrightarrow> prefix (ob_resources db) (ob_resources db')"
proof (induction rule: onboarding_step.induct)
  case (resource i r db stored db')
  from resource show ?case by (rule EnsureManagedResource_D) simp_all
next
  case (create now x db db')
  from create show ?case by (rule CreateOnboardingOperation_D) simp
next
  case (update now ws i conn status category message db db')
  from update show ?case by (rule UpdateOnboardingOperation_D) simp
next
  case (checkpoint now i c db db')
  from checkpoint show ?case by (rule UpsertOnboardingCheckpoint_D) simp_all
qed simp

lemma onboarding_history_resources: "onboarding_history db db' \<Longrightarrow> prefix (ob_resources db) (ob_resources db')"
  by (induction rule: rtranclp_induct) (auto intro: prefix_order.trans dest: onboarding_step_resources)

end
