(* ===== verification/ControlWorld.thy ===== *)
theory ControlWorld
  imports OnboardingStore AuditTrail Effects
begin

text \<open>
  What the services of the control plane work on, \<open>internal/controlplane\<close>: the tables, the audit trail, the
  calls they make of the two providers (\<open>provider/contracts.go\<close>), and the identifiers they draw. The
  providers are parameters that answer a call from the calls made before it; so are the source of
  randomness and the cipher of the vault. A service is taken at one instant.
\<close>

section \<open>What is said to the providers\<close>

text \<open>\<open>provider.GitLabProject\<close> has the columns of a project reference.\<close>

type_synonym credential = "(secret_ref \<times> bytes) option"

record multica_workspace =
  mw_instance :: ID
  mw_external :: string
  mw_name :: string

record multica_project =
  mp_instance :: ID
  mp_workspace :: string
  mp_external :: string
  mp_title :: string
  mp_web_url :: string

record label_result =
  lb_external :: string
  lb_title :: string
  lb_created :: bool
  lb_adopted :: bool
  lb_request :: string

record hook_spec =
  hs_url :: string
  hs_events :: "string list"
  hs_ref :: secret_ref
  hs_token :: bytes
  hs_mark :: string

record hook_result =
  hx_external :: string
  hx_created :: bool
  hx_adopted :: bool
  hx_request :: string

record resource_result =
  rr_kind :: string
  rr_external :: string
  rr_created :: bool
  rr_adopted :: bool
  rr_ownership :: string
  rr_request :: string
  rr_snapshot :: gobj

record create_project =
  pi_instance :: ID
  pi_workspace :: string
  pi_title :: string
  pi_description :: string
  pi_key :: string

datatype control_call =
    CallGetProject endpoint string credential
  | CallEnsureLabel endpoint project_ref string credential
  | CallEnsureHook endpoint project_ref hook_spec credential
  | CallListProjects endpoint multica_workspace string credential
  | CallCreateProject endpoint create_project credential
  | CallEnsureRepository endpoint multica_workspace project_ref string credential
  | CallEnsureResource endpoint multica_project project_ref string credential
  | CallProbe endpoint

section \<open>The world\<close>

record control_world =
  cw_store :: onboarding_db
  cw_audit :: audit_db
  cw_calls :: "control_call list"
  cw_next :: nat

type_synonym 'a control = "(control_world, 'a) proc"

record cipher =
  ci_seal :: "bytes \<Rightarrow> bytes \<Rightarrow> bytes \<Rightarrow> bytes"
  ci_unseal :: "bytes \<Rightarrow> bytes \<Rightarrow> bytes \<Rightarrow> bytes option"

record control_env =
  ce_now :: gtime
  ce_fresh :: "nat \<Rightarrow> ID"
  ce_nonce :: "nat \<Rightarrow> bytes"
  ce_random :: "nat \<Rightarrow> gerr + bytes"
  ce_vault :: "cipher option"
  ce_get_project :: "control_call list \<Rightarrow> exec_err + project_ref"
  ce_ensure_label :: "control_call list \<Rightarrow> exec_err + label_result"
  ce_ensure_hook :: "control_call list \<Rightarrow> exec_err + hook_result"
  ce_list_projects :: "control_call list \<Rightarrow> exec_err + multica_project list"
  ce_create_project :: "control_call list \<Rightarrow> exec_err + multica_project"
  ce_ensure_repository :: "control_call list \<Rightarrow> exec_err + resource_result"
  ce_ensure_resource :: "control_call list \<Rightarrow> exec_err + resource_result"
  ce_probe :: "control_call list \<Rightarrow> exec_err + bool"

definition call :: "(control_call list \<Rightarrow> exec_err + 'a) \<Rightarrow> control_call \<Rightarrow> 'a control" where
  "call answer c w = (let calls = cw_calls w @ [c] in (answer calls, w\<lparr>cw_calls := calls\<rparr>))"

text \<open>Operations of the two groups of tables as parts of a run; a draw of an identifier.\<close>

definition on_store :: "(onboarding_db \<Rightarrow> gerr + 'a \<times> onboarding_db) \<Rightarrow> 'a control" where
  "on_store f = act (\<lambda>w. bind_result (f (cw_store w)) (\<lambda>(x, db). Inr (x, w\<lparr>cw_store := db\<rparr>)))"

definition run_store :: "(onboarding_db \<Rightarrow> gerr + onboarding_db) \<Rightarrow> unit control" where
  "run_store f = on_store (\<lambda>db. bind_result (f db) (\<lambda>db'. Inr ((), db')))"

definition on_control :: "(control_db \<Rightarrow> gerr + 'a \<times> control_db) \<Rightarrow> 'a control" where
  "on_control f = on_store (\<lambda>db. bind_result (f (ob_control db)) (\<lambda>(x, c). Inr (x, db\<lparr>ob_control := c\<rparr>)))"

definition run_control :: "(control_db \<Rightarrow> gerr + control_db) \<Rightarrow> unit control" where
  "run_control f = on_control (\<lambda>c. bind_result (f c) (\<lambda>c'. Inr ((), c')))"

definition ask_store :: "(onboarding_db \<Rightarrow> gerr + 'a) \<Rightarrow> 'a control" where
  "ask_store f = ask (\<lambda>w. f (cw_store w))"

definition ask_control :: "(control_db \<Rightarrow> gerr + 'a) \<Rightarrow> 'a control" where
  "ask_control f = ask_store (\<lambda>db. f (ob_control db))"

definition draw :: "(nat \<Rightarrow> 'a) \<Rightarrow> 'a control" where
  "draw f w = (Inr (f (cw_next w)), w\<lparr>cw_next := cw_next w + 1\<rparr>)"

section \<open>Secrets\<close>

abbreviation secrets_of :: "control_db \<Rightarrow> secret_table" where
  "secrets_of db \<equiv> ed_secrets (cb_endpoints db)"

definition put_secret :: "control_env \<Rightarrow> cipher \<Rightarrow> secret_ref \<Rightarrow> bytes \<Rightarrow> unit control" where
  "put_secret env c ref material =
     seq (draw (ce_nonce env)) (\<lambda>nonce.
     run_control (\<lambda>db.
       bind_result (Vault_Put (PutSecretRecord (ce_now env)) (ci_seal c) nonce ref material (secrets_of db)) (\<lambda>t.
         Inr (db\<lparr>cb_endpoints := (cb_endpoints db)\<lparr>ed_secrets := t\<rparr>\<rparr>))))"

definition get_secret :: "cipher \<Rightarrow> secret_ref \<Rightarrow> bytes control" where
  "get_secret c ref = ask_control (\<lambda>db. Vault_Resolve GetSecretRecord (ci_unseal c) ref (secrets_of db))"

text \<open>\<open>resolveCredential\<close>: nothing without a reference; a reference needs a vault.\<close>

definition resolve_credential :: "control_env \<Rightarrow> string \<Rightarrow> secret_ref option \<Rightarrow> credential control" where
  "resolve_credential env what ref =
     (case ref of
        None \<Rightarrow> pass None
      | Some r \<Rightarrow>
          (case ce_vault env of
             None \<Rightarrow> stop (EErr (GErr ErrInvalid (what @ '' resolver is not configured'')))
           | Some c \<Rightarrow> seq (get_secret c r) (\<lambda>material. pass (Some (r, material)))))"

section \<open>The audit trail\<close>

definition safeMessage :: "exec_err \<Rightarrow> string" where
  "safeMessage e = (let message = exec_text e in if length message > 500 then take 500 message else message)"

definition audit_of :: "ID \<Rightarrow> ID \<Rightarrow> ID \<Rightarrow> string \<Rightarrow> string \<Rightarrow> ID \<Rightarrow> gobj \<Rightarrow> audit_event" where
  "audit_of i workspaceID actor action entityType entity payload =
     \<lparr>au_id = i, au_workspace = workspaceID, au_actor = actor, au_action = action, au_entity_type = entityType,
      au_entity = entity, au_payload = payload, au_created = 0\<rparr>"

text \<open>The error of the trail is dropped.\<close>

definition recordAudit :: "control_env \<Rightarrow> (ID \<Rightarrow> audit_event) \<Rightarrow> unit control" where
  "recordAudit env event =
     ignoring (seq (draw (ce_fresh env)) (\<lambda>i.
       act (\<lambda>w. bind_result (CreateAuditEvent (ce_now env) [] (event i) (cw_audit w)) (\<lambda>db.
         Inr ((), w\<lparr>cw_audit := db\<rparr>)))))"

section \<open>What a part of a run does\<close>

lemma call_simps [simp]: "call answer c w = (answer (cw_calls w @ [c]), w\<lparr>cw_calls := cw_calls w @ [c]\<rparr>)"
  by (simp add: call_def Let_def)

lemma draw_simps [simp]: "draw f w = (Inr (f (cw_next w)), w\<lparr>cw_next := cw_next w + 1\<rparr>)"
  by (simp add: draw_def)

lemma on_store_Inr: "on_store f w = (Inr x, w') \<longleftrightarrow> (\<exists>db. f (cw_store w) = Inr (x, db) \<and> w' = w\<lparr>cw_store := db\<rparr>)"
  by (auto simp: on_store_def act_Inr bind_result_Inr)

lemma on_store_Inl: "on_store f w = (Inl e, w') \<longleftrightarrow> (\<exists>g. e = EErr g \<and> f (cw_store w) = Inl g \<and> w' = w)"
  by (auto simp: on_store_def act_Inl bind_result_Inl)

lemma run_store_Inr: "run_store f w = (Inr u, w') \<longleftrightarrow> (\<exists>db. f (cw_store w) = Inr db \<and> w' = w\<lparr>cw_store := db\<rparr>)"
  by (auto simp: run_store_def on_store_Inr bind_result_Inr)

lemma run_store_Inl: "run_store f w = (Inl e, w') \<longleftrightarrow> (\<exists>g. e = EErr g \<and> f (cw_store w) = Inl g \<and> w' = w)"
  by (auto simp: run_store_def on_store_Inl bind_result_Inl)

abbreviation cw_control :: "control_world \<Rightarrow> control_db" where
  "cw_control w \<equiv> ob_control (cw_store w)"

abbreviation set_control :: "control_db \<Rightarrow> control_world \<Rightarrow> control_world" where
  "set_control c w \<equiv> w\<lparr>cw_store := (cw_store w)\<lparr>ob_control := c\<rparr>\<rparr>"

lemma on_control_Inr: "on_control f w = (Inr x, w') \<longleftrightarrow> (\<exists>c. f (cw_control w) = Inr (x, c) \<and> w' = set_control c w)"
  by (auto simp: on_control_def on_store_Inr bind_result_Inr)

lemma on_control_Inl: "on_control f w = (Inl e, w') \<longleftrightarrow> (\<exists>g. e = EErr g \<and> f (cw_control w) = Inl g \<and> w' = w)"
  by (auto simp: on_control_def on_store_Inl bind_result_Inl)

lemma run_control_Inr: "run_control f w = (Inr u, w') \<longleftrightarrow> (\<exists>c. f (cw_control w) = Inr c \<and> w' = set_control c w)"
  by (auto simp: run_control_def on_control_Inr bind_result_Inr)

lemma run_control_Inl: "run_control f w = (Inl e, w') \<longleftrightarrow> (\<exists>g. e = EErr g \<and> f (cw_control w) = Inl g \<and> w' = w)"
  by (auto simp: run_control_def on_control_Inl bind_result_Inl)

lemma ask_store_Inr [simp]: "ask_store f w = (Inr x, w') \<longleftrightarrow> f (cw_store w) = Inr x \<and> w' = w"
  by (simp add: ask_store_def)

lemma ask_control_Inr [simp]: "ask_control f w = (Inr x, w') \<longleftrightarrow> f (cw_control w) = Inr x \<and> w' = w"
  by (simp add: ask_control_def)

lemma ask_store_world [simp]: "snd (ask_store f w) = w" "snd (ask_control g w) = w"
  by (simp_all add: ask_store_def ask_control_def)

lemma ask_control_Inl: "ask_control f w = (Inl e, w') \<longleftrightarrow> (\<exists>g. e = EErr g \<and> f (cw_control w) = Inl g \<and> w' = w)"
  by (auto simp: ask_control_def ask_store_def ask_def look_def split: sum.splits)

lemma ask_store_Inl: "ask_store f w = (Inl e, w') \<longleftrightarrow> (\<exists>g. e = EErr g \<and> f (cw_store w) = Inl g \<and> w' = w)"
  by (auto simp: ask_store_def ask_def look_def split: sum.splits)

lemma get_secret_world [simp]: "snd (get_secret c ref w) = w"
  by (simp add: get_secret_def)

lemma resolve_credential_world [simp]: "snd (resolve_credential env what ref w) = w"
  by (auto simp: resolve_credential_def seq_def branch_def get_secret_def split: option.splits prod.splits sum.splits
      dest: arg_cong [of _ _ snd])

text \<open>An entry of the trail returns, and leaves the tables and the calls as they are.\<close>

definition trail_after :: "control_env \<Rightarrow> (ID \<Rightarrow> audit_event) \<Rightarrow> nat \<Rightarrow> audit_db \<Rightarrow> audit_db" where
  "trail_after env event n db =
     (case CreateAuditEvent (ce_now env) [] (event (ce_fresh env n)) db of Inl e \<Rightarrow> db | Inr db' \<Rightarrow> db')"

lemma recordAudit_run:
  "recordAudit env event w =
     (Inr (), w\<lparr>cw_audit := trail_after env event (cw_next w) (cw_audit w), cw_next := Suc (cw_next w)\<rparr>)"
  by (cases "CreateAuditEvent (ce_now env) [] (event (ce_fresh env (cw_next w))) (cw_audit w)")
    (simp_all add: recordAudit_def ignoring_def seq_def branch_def act_def trail_after_def)

lemma recordAudit_simps: "\<exists>trail n. recordAudit env event w = (Inr (), w\<lparr>cw_audit := trail, cw_next := n\<rparr>)"
  by (auto simp: recordAudit_run)

lemma recordAudit_D: "recordAudit env event w = (res, w') \<Longrightarrow> cw_store w' = cw_store w \<and> cw_calls w' = cw_calls w"
  by (auto simp: recordAudit_run)

section \<open>The interface\<close>

text \<open>Everything a service does but the calls it makes, and then the calls as well.\<close>

locale quiet_control = effect_relation R for R :: "control_world \<Rightarrow> control_world \<Rightarrow> bool" +
  assumes R_store: "onboarding_step (cw_store w) db \<Longrightarrow> R w (w\<lparr>cw_store := db\<rparr>)"
    and R_audit: "R w (w\<lparr>cw_audit := trail\<rparr>)"
    and R_next: "R w (w\<lparr>cw_next := n\<rparr>)"
begin

lemma draw_R: "keeps R (draw f)"
  by (simp add: keeps_def R_next)

lemma ask_store_R: "keeps R (ask_store f)" and ask_control_R: "keeps R (ask_control g)"
  by (simp_all add: keeps_def R_refl)

lemma on_store_R: "(\<And>db x db'. f db = Inr (x, db') \<Longrightarrow> onboarding_step db db') \<Longrightarrow> keeps R (on_store f)"
  unfolding on_store_def by (rule act_R) (auto simp: bind_result_Inr intro: R_store)

lemma run_store_R: "(\<And>db db'. f db = Inr db' \<Longrightarrow> onboarding_step db db') \<Longrightarrow> keeps R (run_store f)"
  unfolding run_store_def by (rule on_store_R) (auto simp: bind_result_Inr)

lemma on_control_R: "(\<And>c x c'. f c = Inr (x, c') \<Longrightarrow> control_step c c') \<Longrightarrow> keeps R (on_control f)"
  unfolding on_control_def by (rule on_store_R) (auto simp: bind_result_Inr intro!: onboarding_step.control r_into_rtranclp)

lemma run_control_R: "(\<And>c c'. f c = Inr c' \<Longrightarrow> control_step c c') \<Longrightarrow> keeps R (run_control f)"
  unfolding run_control_def by (rule on_control_R) (auto simp: bind_result_Inr)

lemma put_secret_R: "keeps R (put_secret env c ref material)"
  unfolding put_secret_def by (intro seq_R draw_R run_control_R) (auto simp: bind_result_Inr intro: control_step.endpoints)

lemma get_secret_R: "keeps R (get_secret c ref)" and resolve_credential_R: "keeps R (resolve_credential env what r)"
  by (simp_all add: keeps_def R_refl)

lemma recordAudit_R: "keeps R (recordAudit env event)"
  unfolding recordAudit_def
  by (intro ignoring_R seq_R draw_R act_R) (auto simp: bind_result_Inr intro: R_audit)

lemmas quiet_rules = flow_rules draw_R ask_store_R ask_control_R put_secret_R get_secret_R resolve_credential_R recordAudit_R

end

locale control_relation = quiet_control +
  assumes R_call: "R w (w\<lparr>cw_calls := cw_calls w @ [c]\<rparr>)"
begin

lemma call_R: "keeps R (call answer c)"
  by (simp add: keeps_def R_call)

lemmas control_rules = quiet_rules call_R

end

interpretation control_runs: control_relation "\<lambda>w w'. onboarding_history (cw_store w) (cw_store w')"
  by unfold_locales auto

interpretation control_calls: control_relation "\<lambda>w w'. prefix (cw_calls w) (cw_calls w')"
  by unfold_locales (auto intro: prefix_order.trans)

interpretation control_silent: quiet_control "\<lambda>w w'. cw_calls w' = cw_calls w"
  by unfold_locales auto

end
