(* ===== verification/Onboarding.thy ===== *)
theory Onboarding
  imports ControlWorld
begin

text \<open>
  Onboarding of a connection, \<open>controlplane/connection.go\<close>: the source project is bound to a target project,
  and the labels, the repository and the project resource they need are made at the providers, each step
  under a checkpoint, so that a run that was cut off is taken up where it stopped. \<open>strings.EqualFold\<close> and
  the order of Go maps are not fixed here: the first is the parameter \<open>os_equal_fold\<close>. An operation that
  is returned beside an error is dropped, as both callers do; its row in the table is modelled.
\<close>

section \<open>Requests and results\<close>

record connection_service =
  os_env :: control_env
  os_hook_url :: string
  os_equal_fold :: "string \<Rightarrow> string \<Rightarrow> bool"

record onboarding_request =
  oq_operation :: ID
  oq_actor :: ID
  oq_workspace :: ID
  oq_source :: endpoint
  oq_project :: string
  oq_group :: group_binding
  oq_gitlab_credential :: "secret_ref option"
  oq_target :: endpoint
  oq_target_workspace :: multica_workspace
  oq_target_project :: "multica_project option"
  oq_create :: bool
  oq_title :: string
  oq_multica_credential :: "secret_ref option"
  oq_prefer_ssh :: bool
  oq_prefer_https :: bool
  oq_hook_url :: string

record onboarding_result =
  ox_operation :: onboarding_operation
  ox_connection :: connection
  ox_resources :: "managed_resource list"
  ox_hook_plan :: gobj
  ox_ready :: bool

abbreviation managedAbandonLabel :: string where "managedAbandonLabel \<equiv> ''specwire::abandoned''"

definition OnboardingRequest_validate :: "onboarding_request \<Rightarrow> gerr + unit" where
  "OnboardingRequest_validate q =
     (if oq_workspace q = [] \<or> ep_id (oq_source q) = [] \<or> ep_id (oq_target q) = [] \<or> blank (oq_project q) \<or>
         blank (mw_external (oq_target_workspace q))
      then fail ErrInvalid ''onboarding workspace, endpoint, project and target workspace are required''
      else if ep_workspace (oq_source q) \<noteq> oq_workspace q \<or> ep_workspace (oq_target q) \<noteq> oq_workspace q
      then fail ErrForbidden ''onboarding endpoint belongs to another workspace''
      else if oq_target_project q = None \<and> \<not> oq_create q
      then fail ErrInvalid ''select an existing target project or confirm project creation''
      else if (case oq_target_project q of None \<Rightarrow> False | Some p \<Rightarrow> mp_instance p \<noteq> ep_id (oq_target q))
      then fail ErrForbidden ''target project belongs to another Multica instance''
      else Inr ())"

definition requestGitLabCredentialRef :: "onboarding_request \<Rightarrow> secret_ref option" where
  "requestGitLabCredentialRef q =
     (if oq_gitlab_credential q \<noteq> None then oq_gitlab_credential q
      else if gb_credential (oq_group q) \<noteq> None then gb_credential (oq_group q)
      else ep_credential (oq_source q))"

definition requestMulticaCredentialRef :: "onboarding_request \<Rightarrow> secret_ref option" where
  "requestMulticaCredentialRef q =
     (if oq_multica_credential q \<noteq> None then oq_multica_credential q else ep_credential (oq_target q))"

definition prefers_ssh :: "onboarding_request \<Rightarrow> bool" where
  "prefers_ssh q \<longleftrightarrow> oq_prefer_ssh q \<or> \<not> oq_prefer_https q"

definition requestSummary :: "onboarding_request \<Rightarrow> gobj" where
  "requestSummary q =
     [(''source_instance_id'', VNamed (ep_id (oq_source q))), (''source_project_external_id'', VStr (oq_project q)),
      (''target_instance_id'', VNamed (ep_id (oq_target q))),
      (''target_workspace_external_id'', VStr (mw_external (oq_target_workspace q))),
      (''target_project_external_id'', VStr (case oq_target_project q of None \<Rightarrow> [] | Some p \<Rightarrow> mp_external p)),
      (''create_target_project'', VBool (oq_create q)), (''prefer_ssh'', VBool (prefers_ssh q)),
      (''public_hook_url'', VStr (oq_hook_url q))]"

definition CanonicalCloneURL :: "project_ref \<Rightarrow> bool \<Rightarrow> gerr + string" where
  "CanonicalCloneURL p preferSSH =
     (if preferSSH \<and> \<not> blank (proj_ssh_url p) then Inr (proj_ssh_url p)
      else if \<not> blank (proj_https_url p) then Inr (proj_https_url p)
      else if \<not> blank (proj_ssh_url p) then Inr (proj_ssh_url p)
      else fail ErrInvalid ''GitLab project has no clone URL'')"

section \<open>What a checkpoint holds\<close>

fun firstMapString :: "gobj \<Rightarrow> string list \<Rightarrow> string" where
  "firstMapString m [] = []"
| "firstMapString m (k # ks) =
     (case map_of m k of
        None \<Rightarrow> firstMapString m ks
      | Some v \<Rightarrow> (let t = trim_space (sprint v) in if t \<noteq> [] \<and> t \<noteq> ''<nil>'' then t else firstMapString m ks))"

definition boolValue :: "gval \<Rightarrow> bool" where
  "boolValue v = (case as_bool v of None \<Rightarrow> False | Some b \<Rightarrow> b)"

definition mapValue :: "gval \<Rightarrow> gobj" where
  "mapValue v = (case as_obj v of None \<Rightarrow> [] | Some m \<Rightarrow> m)"

definition ownershipFrom :: "bool \<Rightarrow> bool \<Rightarrow> string" where
  "ownershipFrom created adopted =
     (if adopted then OwnershipAdopted else if created then OwnershipManaged else OwnershipExternal)"

definition labelFromCheckpoint :: "onboarding_checkpoint \<Rightarrow> label_result" where
  "labelFromCheckpoint k =
     \<lparr>lb_external = firstMapString (ck_result k) [ck_provider k, ''external_id''],
      lb_title = firstMapString (ck_result k) [''title''],
      lb_created = boolValue (obj_get (ck_result k) ''created''), lb_adopted = boolValue (obj_get (ck_result k) ''adopted''),
      lb_request = firstMapString (ck_result k) [''request_id'']\<rparr>"

definition resourceResultFromCheckpoint :: "onboarding_checkpoint \<Rightarrow> string \<Rightarrow> resource_result" where
  "resourceResultFromCheckpoint k kind =
     \<lparr>rr_kind = kind, rr_external = firstMapString (ck_result k) [ck_provider k, ''external_id''],
      rr_created = boolValue (obj_get (ck_result k) ''created''), rr_adopted = boolValue (obj_get (ck_result k) ''adopted''),
      rr_ownership = firstMapString (ck_result k) [''ownership''], rr_request = firstMapString (ck_result k) [''request_id''],
      rr_snapshot = mapValue (obj_get (ck_result k) ''snapshot'')\<rparr>"

definition projectFromCheckpoint :: "onboarding_request \<Rightarrow> onboarding_checkpoint \<Rightarrow> multica_project" where
  "projectFromCheckpoint q k =
     \<lparr>mp_instance = ep_id (oq_target q), mp_workspace = firstMapString (ck_result k) [''workspace_id''],
      mp_external = firstMapString (ck_result k) [ck_provider k, ''external_id''],
      mp_title = firstMapString (ck_result k) [''title''], mp_web_url = firstMapString (ck_result k) [''web_url'']\<rparr>"

definition resourceFromResult :: "ID \<Rightarrow> ID \<Rightarrow> ID \<Rightarrow> ID \<Rightarrow> resource_result \<Rightarrow> managed_resource" where
  "resourceFromResult i workspaceID connectionID instanceID res =
     \<lparr>mr_id = i, mr_workspace = workspaceID, mr_connection = connectionID, mr_kind = rr_kind res,
      mr_provider = ProviderMultica, mr_instance = instanceID, mr_external = rr_external res,
      mr_ownership = rr_ownership res, mr_mark = (if rr_created res then ''specwire-managed'' else []),
      mr_status = ''ready'', mr_snapshot = rr_snapshot res\<rparr>"

section \<open>Parts of a run\<close>

text \<open>\<open>fail\<close>: the operation is marked, its connection is the one it has so far, and the error is returned.\<close>

definition error_category :: "exec_err \<Rightarrow> string" where
  "error_category e = (case provider_category e of None \<Rightarrow> ''internal'' | Some c \<Rightarrow> c)"

definition mark_operation ::
  "connection_service \<Rightarrow> onboarding_request \<Rightarrow> ID \<Rightarrow> ID \<Rightarrow> string \<Rightarrow> string \<Rightarrow> string \<Rightarrow> unit control" where
  "mark_operation svc q op conn status category message =
     run_store (UpdateOnboardingOperation (ce_now (os_env svc)) (oq_workspace q) op conn status category message)"

definition abort :: "connection_service \<Rightarrow> onboarding_request \<Rightarrow> ID \<Rightarrow> ID \<Rightarrow> string \<Rightarrow> exec_err \<Rightarrow> 'a control" where
  "abort svc q op conn status e =
     seq (ignoring (mark_operation svc q op conn status (error_category e) (safeMessage e))) (\<lambda>_. stop e)"

definition checked ::
  "connection_service \<Rightarrow> onboarding_request \<Rightarrow> ID \<Rightarrow> ID \<Rightarrow> string \<Rightarrow> 'a control \<Rightarrow> ('a \<Rightarrow> 'b control) \<Rightarrow> 'b control" where
  "checked svc q op conn status m f = branch m (abort svc q op conn status) f"

definition checkpoint_of_step ::
  "connection_service \<Rightarrow> onboarding_request \<Rightarrow> ID \<Rightarrow> string \<Rightarrow> string \<Rightarrow> string \<Rightarrow> gobj \<Rightarrow> unit control" where
  "checkpoint_of_step svc q op step status provider result =
     seq (draw (ce_fresh (os_env svc))) (\<lambda>i.
     run_store (UpsertOnboardingCheckpoint (ce_now (os_env svc)) []
       \<lparr>ck_id = i, ck_workspace = oq_workspace q, ck_operation = op, ck_step = step, ck_status = status,
        ck_provider = provider, ck_result = result, ck_updated = ce_now (os_env svc)\<rparr>))"

definition completedCheckpoint :: "onboarding_request \<Rightarrow> ID \<Rightarrow> string \<Rightarrow> onboarding_checkpoint option control" where
  "completedCheckpoint q op step =
     branch (ask_store (GetOnboardingCheckpoint (oq_workspace q) op step))
       (\<lambda>e. if exec_is e ErrNotFound then pass None else stop e)
       (\<lambda>k. pass (if ck_status k = ''succeeded'' then Some k else None))"

definition control_recordProviderEffect ::
  "connection_service \<Rightarrow> onboarding_request \<Rightarrow> string \<Rightarrow> string \<Rightarrow> ID \<Rightarrow> gobj \<Rightarrow> unit control" where
  "control_recordProviderEffect svc q action entityType entity payload =
     (if entity = [] then pass ()
      else recordAudit (os_env svc) (\<lambda>i. audit_of i (oq_workspace q) (oq_actor q) action entityType entity
             (obj_set payload ''workspace_id'' (VNamed (oq_workspace q)))))"

definition credential_of :: "connection_service \<Rightarrow> secret_ref option \<Rightarrow> credential control" where
  "credential_of svc ref = resolve_credential (os_env svc) ''credential'' ref"

definition loadSourceProject :: "connection_service \<Rightarrow> onboarding_request \<Rightarrow> project_ref control" where
  "loadSourceProject svc q =
     seq (credential_of svc (requestGitLabCredentialRef q)) (\<lambda>cred.
       call (ce_get_project (os_env svc)) (CallGetProject (oq_source q) (oq_project q) cred))"

section \<open>The target project\<close>

definition create_input :: "onboarding_request \<Rightarrow> ID \<Rightarrow> string \<Rightarrow> create_project" where
  "create_input q op title =
     \<lparr>pi_instance = ep_id (oq_target q), pi_workspace = mw_external (oq_target_workspace q), pi_title = title,
      pi_description = [], pi_key = op @ '':project''\<rparr>"

definition create_target_project ::
  "connection_service \<Rightarrow> onboarding_request \<Rightarrow> ID \<Rightarrow> string \<Rightarrow> credential \<Rightarrow> multica_project control" where
  "create_target_project svc q op title cred =
     branch (call (ce_create_project (os_env svc)) (CallCreateProject (oq_target q) (create_input q op title) cred))
       (\<lambda>e. seq (control_recordProviderEffect svc q ''provider.multica.project.create'' ''multica_project'' op
              [(''provider'', VStr ''multica''), (''operation'', VStr ''create_project''), (''outcome'', VStr ''failed''),
               (''idempotency_key'', VStr (op @ '':project'')), (''error'', VStr (safeMessage e))]) (\<lambda>_. stop e))
       (\<lambda>p. seq (control_recordProviderEffect svc q ''provider.multica.project.create'' ''multica_project'' (mp_external p)
              [(''provider'', VStr ''multica''), (''operation'', VStr ''create_project''), (''external_id'', VStr (mp_external p)),
               (''workspace_id'', VStr (mp_workspace p)), (''title'', VStr (mp_title p)),
               (''idempotency_key'', VStr (op @ '':project''))]) (\<lambda>_. pass p))"

definition new_target_project ::
  "connection_service \<Rightarrow> onboarding_request \<Rightarrow> project_ref \<Rightarrow> ID \<Rightarrow> multica_project control" where
  "new_target_project svc q source op =
     (let trimmed = trim_space (oq_title q); title = (if trimmed = [] then proj_full_path source else trimmed)
      in seq (credential_of svc (requestMulticaCredentialRef q)) (\<lambda>cred.
         seq (call (ce_list_projects (os_env svc)) (CallListProjects (oq_target q) (oq_target_workspace q) title cred)) (\<lambda>projects.
           if list_ex (\<lambda>p. os_equal_fold svc (mp_title p) title) projects
           then stop (EErr (GErr ErrConflict (''Multica project title '' @ go_quote title @ '' already exists; choose it explicitly'')))
           else create_target_project svc q op title cred)))"

definition ensureTargetProject ::
  "connection_service \<Rightarrow> onboarding_request \<Rightarrow> project_ref \<Rightarrow> ID \<Rightarrow> multica_project control" where
  "ensureTargetProject svc q source op =
     (case oq_target_project q of
        Some p \<Rightarrow> pass p
      | None \<Rightarrow> seq (completedCheckpoint q op ''target_project'') (\<lambda>known.
          case known of Some k \<Rightarrow> pass (projectFromCheckpoint q k) | None \<Rightarrow> new_target_project svc q source op))"

section \<open>The connection\<close>

text \<open>
  A connection that has been bound is taken over when it leads to the target of the request; the code tells
  by its identifier, which \<open>Connection.Validate\<close> keeps from being blank, whether there is one.
\<close>

definition bound_target :: "onboarding_request \<Rightarrow> connection \<Rightarrow> multica_project" where
  "bound_target q c =
     \<lparr>mp_instance = proj_instance (cn_target c), mp_workspace = mw_external (oq_target_workspace q),
      mp_external = proj_external (cn_target c), mp_title = proj_name (cn_target c), mp_web_url = proj_web_url (cn_target c)\<rparr>"

definition start_operation :: "connection_service \<Rightarrow> onboarding_request \<Rightarrow> ID \<Rightarrow> onboarding_operation control" where
  "start_operation svc q op =
     (let now = ce_now (os_env svc);
          x = \<lparr>op_id = op, op_workspace = oq_workspace q, op_connection = [], op_status = OnboardingRunning,
               op_request = requestSummary q, op_error_category = [], op_error_message = [], op_created = now, op_updated = now\<rparr>
      in branch (run_store (CreateOnboardingOperation now x))
           (\<lambda>e. if \<not> exec_is e ErrConflict then stop e else ask_store (GetOnboardingOperation (oq_workspace q) op))
           (\<lambda>_. pass x))"

definition save_source :: "connection_service \<Rightarrow> onboarding_request \<Rightarrow> ID \<Rightarrow> unit control" where
  "save_source svc q op =
     checked svc q op [] OnboardingFailed (completedCheckpoint q op ''source_project'') (\<lambda>known.
       if known \<noteq> None then pass ()
       else checked svc q op [] OnboardingFailed
              (checkpoint_of_step svc q op ''source_project'' ''succeeded'' (oq_project q) [(''external_id'', VStr (oq_project q))]) pass)"

definition expected_target :: "connection_service \<Rightarrow> onboarding_request \<Rightarrow> ID \<Rightarrow> string control" where
  "expected_target svc q op =
     (case oq_target_project q of
        Some p \<Rightarrow> pass (mp_external p)
      | None \<Rightarrow> checked svc q op [] OnboardingFailed (completedCheckpoint q op ''target_project'') (\<lambda>known.
          pass (case known of None \<Rightarrow> [] | Some k \<Rightarrow> firstMapString (ck_result k) [ck_provider k, ''external_id''])))"

definition save_connection ::
  "connection_service \<Rightarrow> onboarding_request \<Rightarrow> ID \<Rightarrow> connection \<Rightarrow> gobj \<Rightarrow> unit control" where
  "save_connection svc q op c extra =
     checked svc q op (cn_id c) OnboardingFailed (mark_operation svc q op (cn_id c) OnboardingRunning [] []) (\<lambda>_.
     checked svc q op (cn_id c) OnboardingFailed
       (checkpoint_of_step svc q op ''connection'' ''succeeded'' (cn_id c) ([(''connection_id'', VNamed (cn_id c))] @ extra)) pass)"

definition adopt_connection :: "connection_service \<Rightarrow> onboarding_request \<Rightarrow> ID \<Rightarrow> connection \<Rightarrow> unit control" where
  "adopt_connection svc q op existing =
     seq (expected_target svc q op) (\<lambda>expected.
       if expected = [] \<or> proj_instance (cn_target existing) \<noteq> ep_id (oq_target q) \<or>
          proj_external (cn_target existing) \<noteq> expected
       then abort svc q op [] OnboardingBlocked (EErr (GErr ErrConflict ''source project is already bound to another target''))
       else save_connection svc q op existing [(''adopted'', VBool True)])"

definition bound_source :: "connection_service \<Rightarrow> onboarding_request \<Rightarrow> ID \<Rightarrow> connection option control" where
  "bound_source svc q op =
     branch (ask_control (FindActiveConnectionBySource (oq_workspace q) (ep_id (oq_source q)) (oq_project q)))
       (\<lambda>e. if exec_is e ErrNotFound then pass None else abort svc q op [] OnboardingFailed e)
       (\<lambda>existing. seq (adopt_connection svc q op existing) (\<lambda>_. pass (Some existing)))"

definition free_target :: "connection_service \<Rightarrow> onboarding_request \<Rightarrow> ID \<Rightarrow> unit control" where
  "free_target svc q op =
     (case oq_target_project q of
        None \<Rightarrow> pass ()
      | Some p \<Rightarrow>
          branch (ask_control (FindActiveConnectionByTarget (oq_workspace q) (ep_id (oq_target q)) (mp_external p)))
            (\<lambda>e. if exec_is e ErrNotFound then pass () else abort svc q op [] OnboardingFailed e)
            (\<lambda>_. abort svc q op [] OnboardingBlocked (EErr (GErr ErrConflict ''target project is already bound''))))"

definition new_connection :: "ID \<Rightarrow> gtime \<Rightarrow> onboarding_request \<Rightarrow> project_ref \<Rightarrow> multica_project \<Rightarrow> connection" where
  "new_connection i now q source target =
     \<lparr>cn_id = i, cn_workspace = oq_workspace q, cn_name = proj_full_path source, cn_source = source,
      cn_target = \<lparr>proj_instance = mp_instance target, proj_external = mp_external target, proj_group = [], proj_full_path = [],
                   proj_name = mp_title target, proj_web_url = mp_web_url target, proj_ssh_url = [], proj_https_url = []\<rparr>,
      cn_status = ConnectionConfigured, cn_configured = now, cn_ready = None, cn_disabled = None, cn_created_by = []\<rparr>"

definition create_connection ::
  "connection_service \<Rightarrow> onboarding_request \<Rightarrow> ID \<Rightarrow> project_ref \<Rightarrow> multica_project \<Rightarrow> connection control" where
  "create_connection svc q op source target =
     seq (draw (ce_fresh (os_env svc))) (\<lambda>i.
       let now = ce_now (os_env svc); c = new_connection i now q source target
       in checked svc q op [] OnboardingBlocked (run_control (CreateConnection now c)) (\<lambda>_.
          seq (save_connection svc q op c []) (\<lambda>_. pass c)))"

definition connect :: "connection_service \<Rightarrow> onboarding_request \<Rightarrow> ID \<Rightarrow> (connection \<times> multica_project) control" where
  "connect svc q op =
     seq (save_source svc q op) (\<lambda>_.
     seq (bound_source svc q op) (\<lambda>known.
     let conn = (case known of None \<Rightarrow> [] | Some c \<Rightarrow> cn_id c) in
     seq (if known = None then free_target svc q op else pass ()) (\<lambda>_.
     checked svc q op conn OnboardingFailed (loadSourceProject svc q) (\<lambda>source.
     checked svc q op conn OnboardingFailed (ensureTargetProject svc q source op) (\<lambda>target.
     checked svc q op conn OnboardingFailed
       (checkpoint_of_step svc q op ''target_project'' ''succeeded'' (mp_external target)
          [(''external_id'', VStr (mp_external target)), (''workspace_id'', VStr (mp_workspace target)),
           (''title'', VStr (mp_title target)), (''web_url'', VStr (mp_web_url target))]) (\<lambda>_.
     seq (case known of None \<Rightarrow> create_connection svc q op source target | Some c \<Rightarrow> pass c) (\<lambda>c.
       pass (c, target))))))))"

definition settle_connection ::
  "connection_service \<Rightarrow> onboarding_request \<Rightarrow> ID \<Rightarrow> onboarding_operation \<Rightarrow> (connection \<times> multica_project) control" where
  "settle_connection svc q op x =
     (if op_connection x \<noteq> []
      then checked svc q op (op_connection x) OnboardingFailed (ask_control (GetConnection (oq_workspace q) (op_connection x)))
             (\<lambda>c. pass (c, bound_target q c))
      else connect svc q op)"

section \<open>Labels and resources\<close>

definition label_specs :: "(string \<times> string) list" where
  "label_specs = [(''change'', ''gitlab_label''), (managedAbandonLabel, ''gitlab_abandoned_label'')]"

definition ask_label ::
  "connection_service \<Rightarrow> onboarding_request \<Rightarrow> ID \<Rightarrow> connection \<Rightarrow> project_ref \<Rightarrow> credential \<Rightarrow> string \<Rightarrow> label_result control" where
  "ask_label svc q op c source cred title =
     branch (call (ce_ensure_label (os_env svc)) (CallEnsureLabel (oq_source q) source title cred))
       (\<lambda>e. seq (control_recordProviderEffect svc q ''provider.gitlab.label.ensure'' ''connection'' (cn_id c)
              [(''provider'', VStr ''gitlab''), (''operation'', VStr ''ensure_label''), (''title'', VStr title),
               (''outcome'', VStr ''failed''), (''error'', VStr (safeMessage e))]) (\<lambda>_.
            abort svc q op (cn_id c) OnboardingFailed e))
       (\<lambda>l. seq (control_recordProviderEffect svc q ''provider.gitlab.label.ensure'' ''connection'' (cn_id c)
              [(''provider'', VStr ''gitlab''), (''operation'', VStr ''ensure_label''), (''title'', VStr title),
               (''external_id'', VStr (lb_external l)), (''request_id'', VStr (lb_request l)),
               (''created'', VBool (lb_created l)), (''adopted'', VBool (lb_adopted l))]) (\<lambda>_. pass l))"

definition label_resource :: "ID \<Rightarrow> onboarding_request \<Rightarrow> connection \<Rightarrow> label_result \<Rightarrow> string \<Rightarrow> managed_resource" where
  "label_resource i q c l step =
     \<lparr>mr_id = i, mr_workspace = oq_workspace q, mr_connection = cn_id c, mr_kind = ResourceLabel, mr_provider = ProviderGitLab,
      mr_instance = ep_id (oq_source q), mr_external = lb_external l, mr_ownership = ownershipFrom (lb_created l) (lb_adopted l),
      mr_mark = ''specwire-managed'', mr_status = ''ready'',
      mr_snapshot = [(''title'', VStr (lb_title l)), (''purpose'', VStr step), (''request_id'', VStr (lb_request l))]\<rparr>"

text \<open>A managed resource is stored, and then the checkpoint of its step.\<close>

definition keep_resource ::
  "connection_service \<Rightarrow> onboarding_request \<Rightarrow> ID \<Rightarrow> connection \<Rightarrow> (ID \<Rightarrow> managed_resource) \<Rightarrow> string \<Rightarrow> string \<Rightarrow> gobj \<Rightarrow>
   managed_resource control" where
  "keep_resource svc q op c resource step external result =
     seq (draw (ce_fresh (os_env svc))) (\<lambda>i.
     checked svc q op (cn_id c) OnboardingFailed (on_store (EnsureManagedResource [] (resource i))) (\<lambda>r.
     checked svc q op (cn_id c) OnboardingFailed (checkpoint_of_step svc q op step ''succeeded'' external result) (\<lambda>_. pass r)))"

text \<open>A step whose checkpoint is complete does not ask the provider again.\<close>

definition known_or ::
  "connection_service \<Rightarrow> onboarding_request \<Rightarrow> ID \<Rightarrow> connection \<Rightarrow> string \<Rightarrow> (onboarding_checkpoint \<Rightarrow> 'a) \<Rightarrow> 'a control \<Rightarrow> 'a control" where
  "known_or svc q op c step read m =
     checked svc q op (cn_id c) OnboardingFailed (completedCheckpoint q op step) (\<lambda>known.
       case known of None \<Rightarrow> m | Some k \<Rightarrow> pass (read k))"

definition ensure_label ::
  "connection_service \<Rightarrow> onboarding_request \<Rightarrow> ID \<Rightarrow> connection \<Rightarrow> project_ref \<Rightarrow> credential \<Rightarrow> string \<times> string \<Rightarrow>
   managed_resource control" where
  "ensure_label svc q op c source cred spec =
     (let (title, step) = spec in
      seq (known_or svc q op c step labelFromCheckpoint (ask_label svc q op c source cred title)) (\<lambda>l.
        keep_resource svc q op c (\<lambda>i. label_resource i q c l step) step (lb_external l)
          [(''external_id'', VStr (lb_external l)), (''title'', VStr (lb_title l)), (''purpose'', VStr step),
           (''created'', VBool (lb_created l)), (''adopted'', VBool (lb_adopted l)), (''request_id'', VStr (lb_request l))]))"

fun ensure_labels ::
  "connection_service \<Rightarrow> onboarding_request \<Rightarrow> ID \<Rightarrow> connection \<Rightarrow> project_ref \<Rightarrow> credential \<Rightarrow> (string \<times> string) list \<Rightarrow>
   managed_resource list control" where
  "ensure_labels svc q op c source cred [] = pass []"
| "ensure_labels svc q op c source cred (spec # specs) =
     seq (ensure_label svc q op c source cred spec) (\<lambda>r.
     seq (ensure_labels svc q op c source cred specs) (\<lambda>rs. pass (r # rs)))"

definition ask_resource ::
  "connection_service \<Rightarrow> onboarding_request \<Rightarrow> ID \<Rightarrow> connection \<Rightarrow> string \<Rightarrow> string \<Rightarrow> resource_result control \<Rightarrow>
   resource_result control" where
  "ask_resource svc q op c action operation m =
     branch m
       (\<lambda>e. seq (control_recordProviderEffect svc q action ''connection'' (cn_id c)
              [(''provider'', VStr ''multica''), (''operation'', VStr operation), (''outcome'', VStr ''failed''),
               (''error'', VStr (safeMessage e))]) (\<lambda>_.
            abort svc q op (cn_id c) OnboardingFailed e))
       (\<lambda>x. seq (control_recordProviderEffect svc q action ''connection'' (cn_id c)
              [(''provider'', VStr ''multica''), (''operation'', VStr operation), (''external_id'', VStr (rr_external x)),
               (''request_id'', VStr (rr_request x)), (''created'', VBool (rr_created x)),
               (''adopted'', VBool (rr_adopted x))]) (\<lambda>_. pass x))"

definition ensure_resource ::
  "connection_service \<Rightarrow> onboarding_request \<Rightarrow> ID \<Rightarrow> connection \<Rightarrow> string \<Rightarrow> string \<Rightarrow> string \<Rightarrow> string \<Rightarrow> string \<Rightarrow>
   resource_result control \<Rightarrow> managed_resource control" where
  "ensure_resource svc q op c step kind action operation cloneURL m =
     seq (known_or svc q op c step (\<lambda>k. resourceResultFromCheckpoint k kind) (ask_resource svc q op c action operation m)) (\<lambda>x.
       keep_resource svc q op c (\<lambda>i. resourceFromResult i (oq_workspace q) (cn_id c) (ep_id (oq_target q)) x) step (rr_external x)
         [(''external_id'', VStr (rr_external x)), (''ownership'', VNamed (rr_ownership x)), (''created'', VBool (rr_created x)),
          (''adopted'', VBool (rr_adopted x)), (''request_id'', VStr (rr_request x)), (''snapshot'', VObj (rr_snapshot x)),
          (''clone_url'', VStr cloneURL)])"

definition ensure_repository ::
  "connection_service \<Rightarrow> onboarding_request \<Rightarrow> ID \<Rightarrow> connection \<Rightarrow> project_ref \<Rightarrow> string \<Rightarrow> credential \<Rightarrow> managed_resource control" where
  "ensure_repository svc q op c source cloneURL cred =
     ensure_resource svc q op c ''multica_workspace_repository'' ResourceWorkspaceRepository
       ''provider.multica.workspace_repository.ensure'' ''ensure_workspace_repository'' cloneURL
       (call (ce_ensure_repository (os_env svc)) (CallEnsureRepository (oq_target q) (oq_target_workspace q) source cloneURL cred))"

definition ensure_project ::
  "connection_service \<Rightarrow> onboarding_request \<Rightarrow> ID \<Rightarrow> connection \<Rightarrow> multica_project \<Rightarrow> project_ref \<Rightarrow> string \<Rightarrow> credential \<Rightarrow>
   managed_resource control" where
  "ensure_project svc q op c target source cloneURL cred =
     ensure_resource svc q op c ''multica_project_resource'' ResourceProject
       ''provider.multica.project_resource.ensure'' ''ensure_project_resource'' cloneURL
       (call (ce_ensure_resource (os_env svc)) (CallEnsureResource (oq_target q) target source cloneURL cred))"

definition ensure_resources ::
  "connection_service \<Rightarrow> onboarding_request \<Rightarrow> ID \<Rightarrow> connection \<Rightarrow> multica_project \<Rightarrow> project_ref \<Rightarrow> managed_resource list control" where
  "ensure_resources svc q op c target source =
     checked svc q op (cn_id c) OnboardingBlocked (credential_of svc (requestGitLabCredentialRef q)) (\<lambda>gitlab.
     seq (ensure_labels svc q op c source gitlab label_specs) (\<lambda>labels.
     checked svc q op (cn_id c) OnboardingBlocked (look (CanonicalCloneURL source (prefers_ssh q))) (\<lambda>cloneURL.
     checked svc q op (cn_id c) OnboardingBlocked (credential_of svc (requestMulticaCredentialRef q)) (\<lambda>multica.
     seq (ensure_repository svc q op c source cloneURL multica) (\<lambda>repository.
     seq (ensure_project svc q op c target source cloneURL multica) (\<lambda>project.
       pass (labels @ [repository, project])))))))"

section \<open>Readiness\<close>

definition hook_plan :: "connection_service \<Rightarrow> onboarding_request \<Rightarrow> gobj" where
  "hook_plan svc q =
     [(''url'', VStr (if blank (oq_hook_url q) then os_hook_url svc else oq_hook_url q)),
      (''events'', VStrs [''Issue Hook'', ''Push Hook'']), (''status'', VStr ''planned''),
      (''management'', VStr ''created-on-first-published-input-flow'')]"

definition save_hook_plan :: "connection_service \<Rightarrow> onboarding_request \<Rightarrow> ID \<Rightarrow> connection \<Rightarrow> unit control" where
  "save_hook_plan svc q op c =
     checked svc q op (cn_id c) OnboardingFailed (completedCheckpoint q op ''hook_plan'') (\<lambda>known.
       if known \<noteq> None then pass ()
       else checked svc q op (cn_id c) OnboardingFailed
              (checkpoint_of_step svc q op ''hook_plan'' ''succeeded'' [] (hook_plan svc q)) pass)"

definition probe :: "connection_service \<Rightarrow> onboarding_request \<Rightarrow> connection \<Rightarrow> (bool \<times> connection) control" where
  "probe svc q c =
     branch (call (ce_probe (os_env svc)) (CallProbe (oq_target q)))
       (\<lambda>_. pass (False, c))
       (\<lambda>ready.
          if ready
          then seq (ignoring (run_control (UpdateConnectionStatus (oq_workspace q) (cn_id c) ConnectionReady
                      (Some (ce_now (os_env svc)))))) (\<lambda>_.
               pass (True, c\<lparr>cn_status := ConnectionReady, cn_ready := Some (ce_now (os_env svc))\<rparr>))
          else seq (ignoring (run_control (UpdateConnectionStatus (oq_workspace q) (cn_id c) ConnectionReadyFailed None))) (\<lambda>_.
               pass (False, c\<lparr>cn_status := ConnectionReadyFailed\<rparr>)))"

definition finish_onboarding ::
  "connection_service \<Rightarrow> onboarding_request \<Rightarrow> ID \<Rightarrow> onboarding_operation \<Rightarrow> connection \<Rightarrow> managed_resource list \<Rightarrow>
   onboarding_result control" where
  "finish_onboarding svc q op x c resources =
     seq (save_hook_plan svc q op c) (\<lambda>_.
     seq (probe svc q c) (\<lambda>(ready, c').
     let status = (if ready then OnboardingReady else OnboardingConfigured) in
     checked svc q op (cn_id c) OnboardingFailed (mark_operation svc q op (cn_id c) status [] []) (\<lambda>_.
       pass \<lparr>ox_operation = x\<lparr>op_status := status, op_connection := cn_id c, op_updated := ce_now (os_env svc)\<rparr>,
             ox_connection = c', ox_resources = resources, ox_hook_plan = hook_plan svc q, ox_ready = ready\<rparr>)))"

definition Onboard :: "connection_service \<Rightarrow> onboarding_request \<Rightarrow> onboarding_result control" where
  "Onboard svc q =
     seq (look (OnboardingRequest_validate q)) (\<lambda>_.
     seq (if oq_operation q = [] then draw (ce_fresh (os_env svc)) else pass (oq_operation q)) (\<lambda>op.
     seq (start_operation svc q op) (\<lambda>x.
     seq (settle_connection svc q op x) (\<lambda>(c, target).
     checked svc q op (cn_id c) OnboardingFailed (loadSourceProject svc q) (\<lambda>source.
     seq (ensure_resources svc q op c target source) (\<lambda>resources.
       finish_onboarding svc q op x c resources))))))"

section \<open>What an unbound connection leaves\<close>

record resource_check =
  dc_resource :: managed_resource
  dc_eligible :: bool
  dc_external_deletion :: bool
  dc_action :: string
  dc_reason :: string

record deprovision_plan =
  dp_workspace :: ID
  dp_id :: ID
  dp_connection :: connection
  dp_requires_confirmation :: bool
  dp_external_deletion :: bool
  dp_history_retained :: bool
  dp_checks :: "resource_check list"

definition deprovision_check :: "managed_resource \<Rightarrow> resource_check" where
  "deprovision_check r =
     (if mr_ownership r = OwnershipManaged \<and> mr_mark r = ''specwire-managed''
      then \<lparr>dc_resource = r, dc_eligible = True, dc_external_deletion = False,
            dc_action = ''manual-provider-deprovision-eligible'',
            dc_reason = ''SpecWire created this resource, but MVP unbind never deletes provider objects''\<rparr>
      else \<lparr>dc_resource = r, dc_eligible = False, dc_external_deletion = False, dc_action = ''retain'',
            dc_reason = (if mr_ownership r = OwnershipAdopted then ''adopted provider resource is retained''
                         else ''external or unmarked provider resource is retained'')\<rparr>)"

definition BuildDeprovisionPlan :: "connection \<Rightarrow> managed_resource list \<Rightarrow> deprovision_plan" where
  "BuildDeprovisionPlan c resources =
     \<lparr>dp_workspace = cn_workspace c, dp_id = cn_id c, dp_connection = c,
      dp_requires_confirmation = (cn_status c \<noteq> ConnectionDisabled), dp_external_deletion = False,
      dp_history_retained = True, dp_checks = map deprovision_check resources\<rparr>"

definition DeprovisionCheck :: "ID \<Rightarrow> ID \<Rightarrow> onboarding_db \<Rightarrow> gerr + deprovision_plan" where
  "DeprovisionCheck workspaceID connectionID db =
     bind_result (GetConnection workspaceID connectionID (ob_control db)) (\<lambda>c.
     bind_result (ListManagedResources workspaceID connectionID db) (\<lambda>resources.
       Inr (BuildDeprovisionPlan c resources)))"

end
