(* ===== verification/OnboardingRuns.thy ===== *)
theory OnboardingRuns
  imports Onboarding
begin

text \<open>
  What a run of onboarding does, and what running an operation again does. The locales \<open>step_relation\<close> and
  \<open>onboarding_relation\<close> are the interface between the steps of onboarding and the relations that every
  step keeps.
\<close>

section \<open>Steps\<close>

fun is_read :: "control_call \<Rightarrow> bool" where
  "is_read (CallGetProject i p cred) = True"
| "is_read (CallListProjects i mw title cred) = True"
| "is_read (CallProbe i) = True"
| "is_read _ = False"

text \<open>
  A relation that the steps of onboarding keep, but for those that change something at a provider;
  \<open>names\<close> are the connections an operation may be marked with.
\<close>

locale step_relation = effect_relation R for R :: "control_world \<Rightarrow> control_world \<Rightarrow> bool" +
  fixes names :: "ID \<Rightarrow> bool"
  assumes R_resource: "EnsureManagedResource i res (cw_store w) = Inr (x, db) \<Longrightarrow> R w (w\<lparr>cw_store := db\<rparr>)"
    and R_control: "control_step (cw_control w) cdb \<Longrightarrow> R w (set_control cdb w)"
    and R_mark: "UpdateOnboardingOperation now ws op conn status category message (cw_store w) = Inr db \<Longrightarrow>
                 names conn \<Longrightarrow> R w (w\<lparr>cw_store := db\<rparr>)"
    and R_checkpoint: "UpsertOnboardingCheckpoint now i k (cw_store w) = Inr db \<Longrightarrow> ck_status k = ''succeeded'' \<Longrightarrow>
                 R w (w\<lparr>cw_store := db\<rparr>)"
    and R_trail: "R w (w\<lparr>cw_audit := trail\<rparr>)"
    and R_drawn: "R w (w\<lparr>cw_next := n\<rparr>)"
    and R_read: "is_read c \<Longrightarrow> R w (w\<lparr>cw_calls := cw_calls w @ [c]\<rparr>)"
begin

lemma draw_steps: "keeps R (draw f)"
  by (simp add: keeps_def R_drawn)

lemma ask_steps: "keeps R (ask_store f)" "keeps R (ask_control g)"
  by (simp_all add: keeps_def R_refl)

lemma read_steps: "is_read c \<Longrightarrow> keeps R (call answer c)"
  by (simp add: keeps_def R_read)

lemma control_steps: "(\<And>c c'. f c = Inr c' \<Longrightarrow> control_step c c') \<Longrightarrow> keeps R (run_control f)"
  unfolding run_control_def on_control_def on_store_def by (rule act_R) (auto simp: bind_result_Inr intro: R_control)

lemma credential_steps: "keeps R (credential_of svc ref)"
  by (simp add: keeps_def credential_of_def R_refl)

lemma record_steps: "keeps R (recordAudit env event)"
  unfolding recordAudit_def by (intro ignoring_R seq_R draw_steps act_R) (auto simp: bind_result_Inr intro: R_trail)

lemma effect_steps: "keeps R (control_recordProviderEffect svc q action kind entity payload)"
  unfolding control_recordProviderEffect_def by (intro if_R pass_R record_steps)

lemma mark_steps: "names conn \<Longrightarrow> keeps R (mark_operation svc q op conn status category message)"
  unfolding mark_operation_def run_store_def on_store_def by (rule act_R) (auto simp: bind_result_Inr intro: R_mark)

lemma checkpoint_steps: "keeps R (checkpoint_of_step svc q op step ''succeeded'' provider result)"
  unfolding checkpoint_of_step_def run_store_def on_store_def
  by (intro seq_R draw_steps act_R) (auto simp: bind_result_Inr intro: R_checkpoint)

lemma completed_steps: "keeps R (completedCheckpoint q op step)"
  unfolding completedCheckpoint_def by (intro branch_R ask_steps if_R pass_R stop_R)

lemma abort_steps: "names conn \<Longrightarrow> keeps R (abort svc q op conn status e)"
  unfolding abort_def by (intro seq_R ignoring_R mark_steps stop_R)

lemma checked_steps:
  "names conn \<Longrightarrow> keeps R m \<Longrightarrow> (\<And>x. keeps R (f x)) \<Longrightarrow> keeps R (checked svc q op conn status m f)"
  unfolding checked_def by (intro branch_R abort_steps)

lemma source_steps: "keeps R (loadSourceProject svc q)"
  unfolding loadSourceProject_def by (intro seq_R credential_steps read_steps) simp

lemmas step_rules = if_R option_R pass_R stop_R look_R draw_steps ask_steps credential_steps record_steps effect_steps mark_steps
  checkpoint_steps completed_steps abort_steps checked_steps source_steps

lemma keep_resource_steps:
  "names (cn_id c) \<Longrightarrow> keeps R (keep_resource svc q op c resource step external result)"
  unfolding keep_resource_def on_store_def
  by (intro seq_R step_rules act_R) (auto simp: bind_result_Inr intro: R_resource)

lemma ensure_label_steps:
  "names (cn_id c) \<Longrightarrow> (\<And>read. keeps R (known_or svc q op c (snd spec) read (ask_label svc q op c source cred (fst spec)))) \<Longrightarrow>
   keeps R (ensure_label svc q op c source cred spec)"
  by (auto simp: ensure_label_def split: prod.split intro!: seq_R keep_resource_steps)

lemma ensure_labels_steps:
  "(\<And>spec. spec \<in> set specs \<Longrightarrow> keeps R (ensure_label svc q op c source cred spec)) \<Longrightarrow>
   keeps R (ensure_labels svc q op c source cred specs)"
  by (induction specs) (simp_all add: seq_R pass_R)

lemma ensure_resource_steps:
  "names (cn_id c) \<Longrightarrow> (\<And>read. keeps R (known_or svc q op c step read (ask_resource svc q op c action operation m))) \<Longrightarrow>
   keeps R (ensure_resource svc q op c step kind action operation cloneURL m)"
  unfolding ensure_resource_def by (intro seq_R keep_resource_steps)

lemma save_hook_plan_steps: "names (cn_id c) \<Longrightarrow> keeps R (save_hook_plan svc q op c)"
  unfolding save_hook_plan_def by (intro step_rules)

lemma status_steps: "keeps R (run_control (UpdateConnectionStatus ws i status readyAt))"
  by (rule control_steps) (rule control_step.status)

lemma probe_steps: "keeps R (probe svc q c)"
  unfolding probe_def by (intro branch_R seq_R ignoring_R if_R pass_R read_steps status_steps) simp

lemma pair_R: "(\<And>a b. keeps R (f a b)) \<Longrightarrow> keeps R (case x of (a, b) \<Rightarrow> f a b)"
  by (cases x) simp

lemma finish_steps: "names (cn_id c) \<Longrightarrow> keeps R (finish_onboarding svc q op x c resources)"
  unfolding finish_onboarding_def Let_def
  by (intro seq_R pair_R checked_steps mark_steps pass_R save_hook_plan_steps probe_steps)

end

text \<open>A relation that every step keeps.\<close>

locale onboarding_relation = step_relation R "\<lambda>_. True" for R :: "control_world \<Rightarrow> control_world \<Rightarrow> bool" +
  assumes R_create: "CreateOnboardingOperation now x (cw_store w) = Inr db \<Longrightarrow> R w (w\<lparr>cw_store := db\<rparr>)"
    and R_change: "R w (w\<lparr>cw_calls := cw_calls w @ [c]\<rparr>)"
begin

lemma call_steps: "keeps R (call answer c)"
  by (simp add: keeps_def R_change)

lemma start_steps: "keeps R (start_operation svc q op)"
  unfolding start_operation_def Let_def run_store_def on_store_def
  by (intro branch_R act_R step_rules) (auto simp: bind_result_Inr intro: R_create)

lemma known_or_steps: "keeps R m \<Longrightarrow> keeps R (known_or svc q op c step read m)"
  unfolding known_or_def by (intro step_rules) simp_all

lemma ask_label_steps: "keeps R (ask_label svc q op c source cred title)"
  unfolding ask_label_def by (intro branch_R seq_R call_steps step_rules) simp

lemma ask_resource_steps: "keeps R m \<Longrightarrow> keeps R (ask_resource svc q op c action operation m)"
  unfolding ask_resource_def by (intro branch_R seq_R step_rules) simp_all

lemma label_steps: "keeps R (ensure_label svc q op c source cred spec)"
  by (intro ensure_label_steps known_or_steps ask_label_steps) simp

lemma repository_steps: "keeps R (ensure_repository svc q op c source cloneURL cred)"
  and project_steps: "keeps R (ensure_project svc q op c target source cloneURL cred)"
  unfolding ensure_repository_def ensure_project_def
  by (intro ensure_resource_steps known_or_steps ask_resource_steps call_steps; simp)+

lemma resources_steps: "keeps R (ensure_resources svc q op c target source)"
  unfolding ensure_resources_def
  by (intro checked_steps seq_R pass_R look_R credential_steps ensure_labels_steps label_steps repository_steps
      project_steps) simp_all

lemma new_target_steps: "keeps R (new_target_project svc q source op)"
  unfolding new_target_project_def create_target_project_def Let_def
  by (intro seq_R branch_R call_steps step_rules)

lemma target_steps: "keeps R (ensureTargetProject svc q source op)"
  unfolding ensureTargetProject_def by (intro seq_R step_rules new_target_steps)

lemma save_connection_steps: "keeps R (save_connection svc q op c extra)"
  unfolding save_connection_def by (intro step_rules) simp_all

lemma create_connection_steps: "keeps R (create_connection svc q op source target)"
  unfolding create_connection_def Let_def
  by (intro seq_R draw_steps checked_steps control_steps save_connection_steps pass_R)
    (auto intro: control_step.connect)

lemma save_source_steps: "keeps R (save_source svc q op)"
  unfolding save_source_def by (intro step_rules) simp_all

lemma bound_source_steps: "keeps R (bound_source svc q op)"
  unfolding bound_source_def adopt_connection_def expected_target_def
  by (intro seq_R branch_R step_rules save_connection_steps) simp_all

lemma free_target_steps: "keeps R (free_target svc q op)"
  unfolding free_target_def by (intro branch_R step_rules) simp_all

lemma connect_steps: "keeps R (connect svc q op)"
  unfolding connect_def Let_def
  by (intro seq_R step_rules save_source_steps bound_source_steps free_target_steps target_steps create_connection_steps) simp_all

lemma settle_steps: "keeps R (settle_connection svc q op x)"
  unfolding settle_connection_def by (intro step_rules connect_steps) simp_all

lemma Onboard_steps: "keeps R (Onboard svc q)"
  unfolding Onboard_def
  by (intro seq_R pair_R step_rules start_steps settle_steps resources_steps finish_steps) simp_all

end

text \<open>What every operation of the tables keeps, and every call, is kept by onboarding.\<close>

sublocale control_relation \<subseteq> onboarding_relation
proof unfold_locales
  show "R w (w\<lparr>cw_store := db\<rparr>)" if "EnsureManagedResource i res (cw_store w) = Inr (x, db)" for i res w x db
    by (rule R_store) (rule onboarding_step.resource [OF that])
  show "R w (set_control cdb w)" if "control_step (cw_control w) cdb" for w cdb
    by (rule R_store) (use that in \<open>auto intro: onboarding_step.control\<close>)
  show "R w (w\<lparr>cw_store := db\<rparr>)" if "UpdateOnboardingOperation now ws op conn status category message (cw_store w) = Inr db"
    for now ws op conn status category message w db
    by (rule R_store) (rule onboarding_step.update [OF that])
  show "R w (w\<lparr>cw_store := db\<rparr>)" if "UpsertOnboardingCheckpoint now i k (cw_store w) = Inr db" for now i k w db
    by (rule R_store) (rule onboarding_step.checkpoint [OF that])
  show "R w (w\<lparr>cw_store := db\<rparr>)" if "CreateOnboardingOperation now x (cw_store w) = Inr db" for now x w db
    by (rule R_store) (rule onboarding_step.create [OF that])
qed (rule R_audit R_next R_call)+

section \<open>What a run that returns has stored\<close>

text \<open>A step is done when its checkpoint says so; a resource is kept when a row has its key, owner and mark.\<close>

abbreviation checkpoint_row :: "ID \<Rightarrow> ID \<Rightarrow> string \<Rightarrow> onboarding_db \<Rightarrow> onboarding_checkpoint option" where
  "checkpoint_row ws op step db \<equiv> List.find (\<lambda>k. checkpoint_key k = (ws, op, step)) (ob_checkpoints db)"

abbreviation operation_row :: "ID \<Rightarrow> ID \<Rightarrow> onboarding_db \<Rightarrow> onboarding_operation option" where
  "operation_row ws op db \<equiv> List.find (\<lambda>r. op_workspace r = ws \<and> op_id r = op) (ob_operations db)"

lemma find_update:
  "(\<And>r. T r \<Longrightarrow> P (f r) = P r) \<Longrightarrow>
   List.find P (update_rows T f rows) = map_option (\<lambda>r. if T r then f r else r) (List.find P rows)"
  by (induction rows) (auto simp: update_rows_def)

definition step_done :: "ID \<Rightarrow> ID \<Rightarrow> string \<Rightarrow> onboarding_db \<Rightarrow> bool" where
  "step_done ws op step db \<longleftrightarrow>
     (case checkpoint_row ws op step db of None \<Rightarrow> False | Some k \<Rightarrow> ck_status k = ''succeeded'')"

definition resource_kept :: "managed_resource \<Rightarrow> onboarding_db \<Rightarrow> bool" where
  "resource_kept r db \<longleftrightarrow>
     (\<exists>x \<in> set (ob_resources db). mr_id x = mr_id r \<and> resource_key x = resource_key r \<and> mr_ownership x = mr_ownership r)"

definition steps_kept :: "onboarding_db \<Rightarrow> onboarding_db \<Rightarrow> bool" where
  "steps_kept db db' \<longleftrightarrow> (\<forall>ws op step. step_done ws op step db \<longrightarrow> step_done ws op step db') \<and>
     (\<forall>r. resource_kept r db \<longrightarrow> resource_kept r db')"

lemma checkpoint_keeps_steps:
  assumes "UpsertOnboardingCheckpoint now i k db = Inr db'" "ck_status k = ''succeeded''"
  shows "steps_kept db db' \<and> step_done (ck_workspace k) (ck_operation k) (ck_step k) db'"
  using assms(1)
proof (cases rule: UpsertOnboardingCheckpoint_D)
  case (new c)
  have "\<not> list_ex (checkpoint_clash c) (ob_checkpoints db)" using new(1) by (auto simp: err_simps list_ex_iff)
  then have "checkpoint_row (ck_workspace k) (ck_operation k) (ck_step k) db = None"
    using new(3) by (auto simp: find_None_iff list_ex_iff checkpoint_clash_def checkpoint_key_def)
  then show ?thesis using new assms(2)
    by (auto simp: steps_kept_def step_done_def resource_kept_def checkpoint_key_def find_append split: option.splits)
next
  case (known f)
  have f: "checkpoint_key (f r) = checkpoint_key r \<and> ck_status (f r) = ''succeeded''" for r
    using known(2) [of r] assms(2) by simp
  have row: "checkpoint_row ws op step db' =
      map_option (\<lambda>r. if checkpoint_key r = checkpoint_key k then f r else r) (checkpoint_row ws op step db)" for ws op step
    using known(1) f by (simp add: find_update)
  obtain r where "checkpoint_row (ck_workspace k) (ck_operation k) (ck_step k) db = Some r"
    using known(4) find_NoneD by (cases "checkpoint_row (ck_workspace k) (ck_operation k) (ck_step k) db")
      (fastforce simp: list_ex_iff checkpoint_key_def)+
  moreover from this have "checkpoint_key r = checkpoint_key k" by (auto simp: checkpoint_key_def dest: find_SomeD)
  moreover have "ob_resources db' = ob_resources db" using known(1) by simp
  ultimately show ?thesis using f
    by (auto simp: steps_kept_def step_done_def resource_kept_def row split: option.splits)
qed

lemma same_but_snapshot:
  "x = y\<lparr>mr_snapshot := s\<rparr> \<Longrightarrow> mr_id x = mr_id y \<and> resource_key x = resource_key y \<and> mr_ownership x = mr_ownership y"
  by (simp add: resource_key_def)

lemma resource_keeps_steps:
  assumes "EnsureManagedResource i r db = Inr (x, db')"
  shows "steps_kept db db' \<and> resource_kept x db' \<and> resource_key x = resource_key r"
  using assms
proof (cases rule: EnsureManagedResource_D)
  case (known y)
  have "y \<in> set (ob_resources db)" "resource_key y = resource_key r" using find_SomeD [OF known(1)] by auto
  then show ?thesis using same_but_snapshot [OF known(3)] known(2) by (auto simp: steps_kept_def resource_kept_def)
next
  case (new y)
  then show ?thesis using same_but_snapshot [OF new(4)]
    by (auto simp: steps_kept_def resource_kept_def step_done_def)
qed

lemma steps_kept_trans: "steps_kept a b \<Longrightarrow> steps_kept b c \<Longrightarrow> steps_kept a c"
  by (auto simp: steps_kept_def)

lemma steps_kept_same:
  "ob_checkpoints db' = ob_checkpoints db \<Longrightarrow> ob_resources db' = ob_resources db \<Longrightarrow> steps_kept db db'"
  by (simp add: steps_kept_def step_done_def resource_kept_def)

interpretation kept: onboarding_relation "\<lambda>w w'. steps_kept (cw_store w) (cw_store w')"
  by (unfold_locales; (erule steps_kept_trans, assumption)?)
    (auto elim!: CreateOnboardingOperation_D UpdateOnboardingOperation_D intro!: steps_kept_same
      dest!: resource_keeps_steps checkpoint_keeps_steps)

section \<open>A run that returns\<close>

lemma pass_Inr: "pass x w = (Inr y, w') \<longleftrightarrow> y = x \<and> w' = w"
  by auto

lemma checked_Inr:
  "checked svc q op conn status m f w = (Inr y, w') \<longleftrightarrow> (\<exists>x w1. m w = (Inr x, w1) \<and> f x w1 = (Inr y, w'))"
proof -
  have [simp]: "abort svc q op conn status e w1 \<noteq> (Inr y, w')" for e w1
    by (simp add: abort_def seq_Inr)
  show ?thesis by (auto simp: checked_def branch_Inr)
qed

lemma keep_resource_D:
  assumes "keep_resource svc q op c resource step external result w = (Inr r, w')"
  shows "\<exists>i. resource_key r = resource_key (resource i)" "resource_kept r (cw_store w')"
    "step_done (oq_workspace q) op step (cw_store w')"
proof -
  obtain i db w1 where r: "EnsureManagedResource [] (resource i) (cw_store w) = Inr (r, db)"
    and k: "checkpoint_of_step svc q op step ''succeeded'' external result w1 = (Inr (), w')" and w1: "cw_store w1 = db"
    using assms by (auto simp: keep_resource_def seq_Inr checked_Inr on_store_Inr)
  have kept: "resource_kept r (cw_store w1)" "resource_key r = resource_key (resource i)"
    using resource_keeps_steps [OF r] w1 by auto
  then show "\<exists>i. resource_key r = resource_key (resource i)" by blast
  obtain now k db' where "UpsertOnboardingCheckpoint now [] k (cw_store w1) = Inr db'" "cw_store w' = db'"
    "ck_workspace k = oq_workspace q" "ck_operation k = op" "ck_step k = step" "ck_status k = ''succeeded''"
    using k by (auto simp: checkpoint_of_step_def seq_Inr run_store_Inr)
  then have "steps_kept (cw_store w1) (cw_store w') \<and> step_done (oq_workspace q) op step (cw_store w')"
    using checkpoint_keeps_steps by metis
  then show "resource_kept r (cw_store w')" "step_done (oq_workspace q) op step (cw_store w')"
    using kept by (auto simp: steps_kept_def)
qed

lemma ensure_label_D:
  assumes "ensure_label svc q op c source cred spec w = (Inr r, w')"
  shows "resource_kept r (cw_store w')" "step_done (oq_workspace q) op (snd spec) (cw_store w')"
    "mr_connection r = cn_id c" "mr_workspace r = oq_workspace q" "mr_kind r = ResourceLabel"
proof -
  obtain l w1 where k: "keep_resource svc q op c (\<lambda>i. label_resource i q c l (snd spec)) (snd spec) (lb_external l)
          [(''external_id'', VStr (lb_external l)), (''title'', VStr (lb_title l)), (''purpose'', VStr (snd spec)),
           (''created'', VBool (lb_created l)), (''adopted'', VBool (lb_adopted l)), (''request_id'', VStr (lb_request l))] w1 =
      (Inr r, w')"
    using assms by (cases spec) (auto simp: ensure_label_def seq_Inr)
  show "resource_kept r (cw_store w')" "step_done (oq_workspace q) op (snd spec) (cw_store w')"
    using keep_resource_D [OF k] by auto
  show "mr_connection r = cn_id c" "mr_workspace r = oq_workspace q" "mr_kind r = ResourceLabel"
    using keep_resource_D(1) [OF k] by (auto simp: resource_key_def label_resource_def)
qed

lemma ensure_resource_D:
  assumes "ensure_resource svc q op c step kind action operation cloneURL m w = (Inr r, w')"
  shows "resource_kept r (cw_store w')" "step_done (oq_workspace q) op step (cw_store w')"
    "mr_connection r = cn_id c" "mr_workspace r = oq_workspace q"
proof -
  obtain x w1 result where k: "keep_resource svc q op c (\<lambda>i. resourceFromResult i (oq_workspace q) (cn_id c) (ep_id (oq_target q)) x) step
      (rr_external x) result w1 = (Inr r, w')"
    using assms by (auto simp: ensure_resource_def seq_Inr)
  show "resource_kept r (cw_store w')" "step_done (oq_workspace q) op step (cw_store w')"
    using keep_resource_D [OF k] by auto
  show "mr_connection r = cn_id c" "mr_workspace r = oq_workspace q"
    using keep_resource_D(1) [OF k] by (auto simp: resource_key_def resourceFromResult_def)
qed

text \<open>The steps that make something at a provider.\<close>

abbreviation provider_steps :: "string list" where
  "provider_steps \<equiv> [''gitlab_label'', ''gitlab_abandoned_label'', ''multica_workspace_repository'', ''multica_project_resource'']"

definition made_for :: "onboarding_request \<Rightarrow> connection \<Rightarrow> onboarding_db \<Rightarrow> managed_resource \<Rightarrow> bool" where
  "made_for q c db r \<longleftrightarrow> resource_kept r db \<and> mr_connection r = cn_id c \<and> mr_workspace r = oq_workspace q"

lemma made_for_kept: "made_for q c db r \<Longrightarrow> steps_kept db db' \<Longrightarrow> made_for q c db' r"
  by (simp add: made_for_def steps_kept_def)

lemma ensure_resources_D:
  assumes "ensure_resources svc q op c target source w = (Inr rs, w')"
  shows "length rs = 4 \<and> (\<forall>r \<in> set rs. made_for q c (cw_store w') r) \<and>
         (\<forall>step \<in> set provider_steps. step_done (oq_workspace q) op step (cw_store w'))"
proof -
  obtain gitlab cloneURL multica ls r1 r2 w1 w3 w4 w5 where
    ls: "ensure_labels svc q op c source gitlab label_specs w1 = (Inr ls, w3)"
    and w4: "credential_of svc (requestMulticaCredentialRef q) w3 = (Inr multica, w4)"
    and r: "ensure_repository svc q op c source cloneURL multica w4 = (Inr r1, w5)"
      "ensure_project svc q op c target source cloneURL multica w5 = (Inr r2, w')"
    and rs: "rs = ls @ [r1, r2]"
    using assms by (auto simp: ensure_resources_def checked_Inr seq_Inr)
  from ls obtain l1 l2 w2 where
    l1: "ensure_label svc q op c source gitlab (''change'', ''gitlab_label'') w1 = (Inr l1, w2)"
    and l2: "ensure_label svc q op c source gitlab (managedAbandonLabel, ''gitlab_abandoned_label'') w2 = (Inr l2, w3)"
    and two: "ls = [l1, l2]"
    by (auto simp: label_specs_def seq_Inr)
  have k2: "steps_kept (cw_store w2) (cw_store w3)" by (rule keepsD [OF kept.label_steps l2])
  have k3: "steps_kept (cw_store w3) (cw_store w4)" by (rule keepsD [OF kept.credential_steps w4])
  have k4: "steps_kept (cw_store w4) (cw_store w5)" by (rule keepsD [OF kept.repository_steps r(1)])
  have k5: "steps_kept (cw_store w5) (cw_store w')" by (rule keepsD [OF kept.project_steps r(2)])
  note k = k5 steps_kept_trans [OF k4 k5] steps_kept_trans [OF steps_kept_trans [OF k3 k4] k5]
  note k3' = steps_kept_trans [OF k2 k(3)]
  have m: "made_for q c (cw_store w2) l1" "made_for q c (cw_store w3) l2" "made_for q c (cw_store w5) r1"
    "made_for q c (cw_store w') r2"
    using ensure_label_D [OF l1] ensure_label_D [OF l2] ensure_resource_D [OF r(1) [unfolded ensure_repository_def]]
      ensure_resource_D [OF r(2) [unfolded ensure_project_def]] by (simp_all add: made_for_def)
  have s: "step_done (oq_workspace q) op ''gitlab_label'' (cw_store w2)"
    "step_done (oq_workspace q) op ''gitlab_abandoned_label'' (cw_store w3)"
    "step_done (oq_workspace q) op ''multica_workspace_repository'' (cw_store w5)"
    "step_done (oq_workspace q) op ''multica_project_resource'' (cw_store w')"
    using ensure_label_D(2) [OF l1] ensure_label_D(2) [OF l2] ensure_resource_D(2) [OF r(1) [unfolded ensure_repository_def]]
      ensure_resource_D(2) [OF r(2) [unfolded ensure_project_def]] by simp_all
  show ?thesis
    using m s made_for_kept [OF m(1) k3'] made_for_kept [OF m(2) k(3)] made_for_kept [OF m(3) k(1)] k3' k(1,3) rs two
    by (simp add: steps_kept_def)
qed

text \<open>The row of the operation.\<close>

lemma mark_operation_D:
  assumes "mark_operation svc q op conn status category message w = (Inr u, w')"
  obtains r where "operation_row (oq_workspace q) op (cw_store w') = Some r" "op_connection r = conn" "op_status r = status"
proof -
  let ?P = "\<lambda>r. op_workspace r = oq_workspace q \<and> op_id r = op"
  let ?f = "\<lambda>r. r\<lparr>op_connection := conn, op_status := status, op_error_category := category,
                   op_error_message := take 500 message, op_updated := ce_now (os_env svc)\<rparr>"
  have u: "list_ex ?P (ob_operations (cw_store w))"
    "ob_operations (cw_store w') = update_rows ?P ?f (ob_operations (cw_store w))"
    using assms by (auto simp: mark_operation_def run_store_Inr UpdateOnboardingOperation_def Let_def err_simps split: if_splits)
  obtain r where "List.find ?P (ob_operations (cw_store w)) = Some r"
    using u(1) find_NoneD by (cases "List.find ?P (ob_operations (cw_store w))") (fastforce simp: list_ex_iff)+
  moreover from find_SomeD [OF this] have "?P r" by simp
  ultimately have "List.find ?P (ob_operations (cw_store w')) = Some (?f r)" unfolding u(2) by (subst find_update) simp_all
  then show thesis by (rule that) simp_all
qed

lemma start_operation_Inr:
  assumes "start_operation svc q op w = (Inr x, w')"
  shows "op_id x = op" "op_workspace x = oq_workspace q"
  using assms
  by (auto simp: start_operation_def Let_def branch_Inr run_store_Inr GetOnboardingOperation_def err_simps
      dest!: find_SomeD split: if_splits option.splits)

lemma finish_onboarding_D:
  assumes "finish_onboarding svc q op x c resources w = (Inr res, w')"
  obtains r where "operation_row (oq_workspace q) op (cw_store w') = Some r" "op_connection r = cn_id c"
    "op_status r = op_status (ox_operation res)" "op_id (ox_operation res) = op_id x"
    "op_status (ox_operation res) = (if ox_ready res then OnboardingReady else OnboardingConfigured)"
    "cn_id (ox_connection res) = cn_id c" "ox_resources res = resources"
proof -
  from assms obtain w1 ready c' w2 where p: "probe svc q c w1 = (Inr (ready, c'), w2)"
    and m: "mark_operation svc q op (cn_id c) (if ready then OnboardingReady else OnboardingConfigured) [] [] w2 = (Inr (), w')"
    and res: "res = \<lparr>ox_operation = x\<lparr>op_status := if ready then OnboardingReady else OnboardingConfigured, op_connection := cn_id c,
                       op_updated := ce_now (os_env svc)\<rparr>,
                     ox_connection = c', ox_resources = resources, ox_hook_plan = hook_plan svc q, ox_ready = ready\<rparr>"
    by (auto simp: finish_onboarding_def seq_Inr checked_Inr Let_def)
  have "cn_id c' = cn_id c" using p by (auto simp: probe_def branch_Inr seq_Inr split: if_splits)
  moreover obtain r where "operation_row (oq_workspace q) op (cw_store w') = Some r" "op_connection r = cn_id c"
    "op_status r = (if ready then OnboardingReady else OnboardingConfigured)" by (rule mark_operation_D [OF m])
  ultimately show thesis using res by (intro that [of r]) simp_all
qed

lemma probe_D:
  assumes "probe svc q c w = (Inr (ready, c'), w')"
  shows "cw_calls w' = cw_calls w @ [CallProbe (oq_target q)] \<and> (ready \<longleftrightarrow> ce_probe (os_env svc) (cw_calls w') = Inr True) \<and>
    (ready \<longrightarrow> cn_status c' = ConnectionReady)"
proof -
  have kept: "cw_calls (snd (run_control f w)) = cw_calls w" for f w
    by (auto simp: run_control_def on_control_def on_store_def act_def bind_result_Inr split: sum.split)
  show ?thesis using assms
    by (auto simp: probe_def branch_Inr seq_Inr call_def kept split: if_splits sum.splits)
qed

lemma onboarding_probed:
  assumes "Onboard svc q w = (Inr res, w')"
  shows "(\<exists>before. cw_calls w' = before @ [CallProbe (oq_target q)]) \<and>
    (ox_ready res \<longleftrightarrow> ce_probe (os_env svc) (cw_calls w') = Inr True) \<and>
    (ox_ready res \<longrightarrow> cn_status (ox_connection res) = ConnectionReady)"
proof -
  from assms obtain op x c rs v where "finish_onboarding svc q op x c rs v = (Inr res, w')"
    by (auto simp: Onboard_def seq_Inr checked_Inr)
  then obtain w1 ready c' w2 s where p: "probe svc q c w1 = (Inr (ready, c'), w2)"
    and m: "mark_operation svc q op (cn_id c) s [] [] w2 = (Inr (), w')"
    and res: "ox_ready res = ready" "ox_connection res = c'"
    by (auto simp: finish_onboarding_def seq_Inr checked_Inr Let_def)
  have "cw_calls w' = cw_calls w2" using m by (auto simp: mark_operation_def run_store_Inr)
  then show ?thesis using probe_D [OF p] res by auto
qed

lemma onboarding_stored:
  assumes run: "Onboard svc q w = (Inr res, w')"
  shows "(\<exists>row. operation_row (oq_workspace q) (op_id (ox_operation res)) (cw_store w') = Some row \<and>
            op_connection row = cn_id (ox_connection res) \<and>
            op_status row = (if ox_ready res then OnboardingReady else OnboardingConfigured)) \<and>
         length (ox_resources res) = 4 \<and> (\<forall>r \<in> set (ox_resources res). made_for q (ox_connection res) (cw_store w') r) \<and>
         (\<forall>step \<in> set provider_steps. step_done (oq_workspace q) (op_id (ox_operation res)) step (cw_store w'))"
proof -
  from run obtain op x c target source rs w1 w2 w3 w4 where
    x: "start_operation svc q op w1 = (Inr x, w2)"
    and rs: "ensure_resources svc q op c target source w3 = (Inr rs, w4)"
    and fin: "finish_onboarding svc q op x c rs w4 = (Inr res, w')"
    by (auto simp: Onboard_def seq_Inr checked_Inr)
  obtain r where f: "operation_row (oq_workspace q) op (cw_store w') = Some r" "op_connection r = cn_id c"
    "op_status r = op_status (ox_operation res)" "op_id (ox_operation res) = op_id x"
    "op_status (ox_operation res) = (if ox_ready res then OnboardingReady else OnboardingConfigured)"
    "cn_id (ox_connection res) = cn_id c" "ox_resources res = rs"
    by (rule finish_onboarding_D [OF fin])
  have op: "op_id x = op" using start_operation_Inr [OF x] by simp
  have k: "steps_kept (cw_store w4) (cw_store w')" by (rule keepsD [OF kept.finish_steps fin]) simp
  have made: "made_for q (ox_connection res) (cw_store w') r" if "r \<in> set rs" for r
    using ensure_resources_D [OF rs] that made_for_kept [OF _ k] f(6) by (auto simp: made_for_def)
  have steps: "step_done (oq_workspace q) op step (cw_store w')" if "step \<in> set provider_steps" for step
    using ensure_resources_D [OF rs] that k by (auto simp: steps_kept_def)
  show ?thesis unfolding f(4,7) op using f(1,2,3,5,6) made steps ensure_resources_D [OF rs] by auto
qed

lemma start_operation_nonempty: "start_operation svc q op w = (Inr x, w') \<Longrightarrow> op \<noteq> []"
  by (auto simp: start_operation_def Let_def branch_Inr run_store_Inr run_store_Inl CreateOnboardingOperation_def)

lemma start_operation_named: "start_operation svc q op w = (Inr x, w') \<Longrightarrow> op_id x \<noteq> []"
  using start_operation_Inr(1) start_operation_nonempty by simp

lemma onboarding_named: "Onboard svc q w = (Inr res, w') \<Longrightarrow> op_id (ox_operation res) \<noteq> []"
  by (auto simp: Onboard_def seq_Inr checked_Inr elim!: finish_onboarding_D dest!: start_operation_named)

text \<open>
  C24: the last thing an onboarding that returns asks of a provider is whether the target is ready. The row of
  its operation names the connection and is ready when the answer was yes, and configured when it was no or
  the question failed; the two labels, the repository and the project resource are rows of that connection,
  and the checkpoint of each of the four steps is complete.
\<close>

theorem onboarding_done:
  assumes run: "Onboard svc q w = (Inr res, w')"
  shows "let ready = (ce_probe (os_env svc) (cw_calls w') = Inr True)
    in (\<exists>before. cw_calls w' = before @ [CallProbe (oq_target q)]) \<and> ox_ready res = ready \<and>
       (ready \<longrightarrow> cn_status (ox_connection res) = ConnectionReady) \<and>
       (\<exists>row. operation_row (oq_workspace q) (op_id (ox_operation res)) (cw_store w') = Some row \<and>
          op_connection row = cn_id (ox_connection res) \<and>
          op_status row = (if ready then OnboardingReady else OnboardingConfigured)) \<and>
       length (ox_resources res) = 4 \<and> (\<forall>r \<in> set (ox_resources res). made_for q (ox_connection res) (cw_store w') r) \<and>
       (\<forall>step \<in> set provider_steps. step_done (oq_workspace q) (op_id (ox_operation res)) step (cw_store w'))"
  using onboarding_stored [OF run] onboarding_probed [OF run] unfolding Let_def by simp

section \<open>Running an operation again\<close>

definition onboarded :: "ID \<Rightarrow> ID \<Rightarrow> onboarding_db \<Rightarrow> bool" where
  "onboarded ws op db \<longleftrightarrow>
     (case operation_row ws op db of None \<Rightarrow> False | Some r \<Rightarrow> op_connection r \<noteq> []) \<and>
     (\<forall>step \<in> set provider_steps. step_done ws op step db)"

definition only_reads :: "control_world \<Rightarrow> control_world \<Rightarrow> bool" where
  "only_reads w w' \<longleftrightarrow> (\<exists>new. cw_calls w' = cw_calls w @ new \<and> list_all is_read new)"

definition again :: "ID \<Rightarrow> ID \<Rightarrow> control_world \<Rightarrow> control_world \<Rightarrow> bool" where
  "again ws op w w' \<longleftrightarrow> (onboarded ws op (cw_store w) \<longrightarrow> onboarded ws op (cw_store w') \<and> only_reads w w')"

lemma only_reads_same: "cw_calls w' = cw_calls w \<Longrightarrow> only_reads w w'"
  by (auto simp: only_reads_def)

lemma only_reads_trans: "only_reads a b \<Longrightarrow> only_reads b c \<Longrightarrow> only_reads a c"
  by (auto simp: only_reads_def)

lemma onboarded_kept:
  "onboarded ws op db \<Longrightarrow> steps_kept db db' \<Longrightarrow> ob_operations db' = ob_operations db \<Longrightarrow> onboarded ws op db'"
  by (simp add: onboarded_def steps_kept_def)

lemma onboarded_marked:
  assumes "onboarded ws op db" "UpdateOnboardingOperation now ws' op' conn status category message db = Inr db'" "conn \<noteq> []"
  shows "onboarded ws op db'"
proof -
  obtain f where f: "db' = db\<lparr>ob_operations := update_rows (\<lambda>r. op_workspace r = ws' \<and> op_id r = op') f (ob_operations db)\<rparr>"
    "\<And>r. op_id (f r) = op_id r \<and> op_workspace (f r) = op_workspace r \<and> op_connection (f r) = conn"
    using assms(2) by (rule UpdateOnboardingOperation_D) blast
  have row: "operation_row ws op db' =
      map_option (\<lambda>r. if op_workspace r = ws' \<and> op_id r = op' then f r else r) (operation_row ws op db)"
    using f by (simp add: find_update)
  have "steps_kept db db'" by (rule steps_kept_same) (simp_all add: f(1))
  then show ?thesis using assms(1,3) f(2) by (auto simp: onboarded_def row steps_kept_def split: option.splits)
qed

lemma checkpoint_operations: "UpsertOnboardingCheckpoint now i k db = Inr db' \<Longrightarrow> ob_operations db' = ob_operations db"
  by (erule UpsertOnboardingCheckpoint_D) simp_all

lemma resource_operations: "EnsureManagedResource i r db = Inr (x, db') \<Longrightarrow> ob_operations db' = ob_operations db"
  by (erule EnsureManagedResource_D) simp_all

interpretation rerun: step_relation "again ws op" "\<lambda>conn. conn \<noteq> []" for ws op
proof unfold_locales
  show "again ws op a c" if "again ws op a b" "again ws op b c" for a b c
    using that only_reads_trans by (auto simp: again_def)
  show "again ws op w (w\<lparr>cw_store := db\<rparr>)" if "EnsureManagedResource i r (cw_store w) = Inr (x, db)" for i r w x db
    using resource_keeps_steps [OF that] resource_operations [OF that] onboarded_kept
    by (auto simp: again_def intro: only_reads_same)
  show "again ws op w (w\<lparr>cw_store := db\<rparr>)"
    if "UpsertOnboardingCheckpoint now i k (cw_store w) = Inr db" "ck_status k = ''succeeded''" for now i k w db
    using checkpoint_keeps_steps [OF that] checkpoint_operations [OF that(1)] onboarded_kept
    by (auto simp: again_def intro: only_reads_same)
  show "again ws op w (w\<lparr>cw_store := db\<rparr>)"
    if "UpdateOnboardingOperation now ws' op' conn status category message (cw_store w) = Inr db" "conn \<noteq> []"
    for now ws' op' conn status category message w db
    using onboarded_marked [OF _ that] by (auto simp: again_def intro: only_reads_same)
  show "again ws op w (set_control cdb w)" for w cdb
    using onboarded_kept [OF _ steps_kept_same] by (auto simp: again_def intro: only_reads_same)
  show "again ws op w (w\<lparr>cw_calls := cw_calls w @ [c]\<rparr>)" if "is_read c" for w c
    using that by (auto simp: again_def only_reads_def)
qed (auto simp: again_def intro: only_reads_same)

lemma completed_again:
  assumes "onboarded (oq_workspace q) op (cw_store w)" "step \<in> set provider_steps"
  shows "(\<exists>k. completedCheckpoint q op step w = (Inr (Some k), w)) \<or> (\<exists>e. completedCheckpoint q op step w = (Inl e, w))"
proof -
  obtain k where k: "checkpoint_row (oq_workspace q) op step (cw_store w) = Some k" "ck_status k = ''succeeded''"
    using assms by (auto simp: onboarded_def step_done_def split: option.splits)
  show ?thesis
  proof (cases "unmarshalJSON ''json'' (ck_result k)")
    case (Inl e)
    then have "e = Plain ''json''" by (auto simp: unmarshalJSON_def split: option.splits)
    then have "completedCheckpoint q op step w = (Inl (EErr (Plain ''json'')), w)"
      using k Inl by (simp add: completedCheckpoint_def ask_store_def ask_def branch_def GetOnboardingCheckpoint_def)
    then show ?thesis by blast
  next
    case (Inr m)
    then show ?thesis
      using k by (simp add: completedCheckpoint_def ask_store_def ask_def branch_def GetOnboardingCheckpoint_def)
  qed
qed

lemma known_or_again:
  assumes "cn_id c \<noteq> []" "step \<in> set provider_steps"
  shows "keeps (again (oq_workspace q) op) (known_or svc q op c step read m)"
  unfolding keeps_def
proof
  fix w
  show "again (oq_workspace q) op w (snd (known_or svc q op c step read m w))"
  proof (cases "onboarded (oq_workspace q) op (cw_store w)")
    case True
    have "known_or svc q op c step read m w = (Inr (read k), w)"
      if "completedCheckpoint q op step w = (Inr (Some k), w)" for k
      using that by (simp add: known_or_def checked_def)
    moreover have "known_or svc q op c step read m w = abort svc q op (cn_id c) OnboardingFailed e w"
      if "completedCheckpoint q op step w = (Inl e, w)" for e
      using that by (simp add: known_or_def checked_def)
    moreover have "again (oq_workspace q) op w (snd (abort svc q op (cn_id c) OnboardingFailed e w))" for e
      by (rule rerun.abort_steps [OF assms(1), unfolded keeps_def, rule_format])
    ultimately show ?thesis using completed_again [OF True assms(2)] by (auto simp: rerun.R_refl)
  qed (simp add: again_def)
qed

lemma resources_again:
  assumes "cn_id c \<noteq> []"
  shows "keeps (again (oq_workspace q) op) (ensure_resources svc q op c target source)"
  unfolding ensure_resources_def ensure_repository_def ensure_project_def
  by (intro rerun.checked_steps rerun.seq_R rerun.pass_R rerun.look_R rerun.credential_steps rerun.ensure_labels_steps
      rerun.ensure_label_steps rerun.ensure_resource_steps known_or_again) (use assms in \<open>auto simp: label_specs_def\<close>)

lemma start_again:
  assumes "onboarded (oq_workspace q) op (cw_store w)"
  obtains (stopped) e where "start_operation svc q op w = (Inl e, w)"
  | (known) x where "start_operation svc q op w = (Inr x, w)" "op_connection x \<noteq> []"
proof -
  obtain r where r: "operation_row (oq_workspace q) op (cw_store w) = Some r" "op_connection r \<noteq> []"
    using assms by (auto simp: onboarded_def split: option.splits)
  let ?x = "\<lparr>op_id = op, op_workspace = oq_workspace q, op_connection = [], op_status = OnboardingRunning,
              op_request = requestSummary q, op_error_category = [], op_error_message = [],
              op_created = ce_now (os_env svc), op_updated = ce_now (os_env svc)\<rparr>"
  have "CreateOnboardingOperation (ce_now (os_env svc)) ?x (cw_store w) \<noteq> Inr db" for db
    using find_SomeD [OF r(1)]
    by (auto simp: err_simps list_ex_iff operation_clash_def elim!: CreateOnboardingOperation_D)
  then obtain e where e: "CreateOnboardingOperation (ce_now (os_env svc)) ?x (cw_store w) = Inl e"
    by (cases "CreateOnboardingOperation (ce_now (os_env svc)) ?x (cw_store w)") auto
  then have start: "start_operation svc q op w =
      (if exec_is (EErr e) ErrConflict then ask_store (GetOnboardingOperation (oq_workspace q) op) w else (Inl (EErr e), w))"
    by (simp add: start_operation_def Let_def branch_def run_store_def on_store_def act_def)
  show thesis
  proof (cases "exec_is (EErr e) ErrConflict")
    case True
    show thesis
    proof (cases "unmarshalJSON ''json'' (op_request r)")
      case (Inl g)
      then show thesis using r True start by (intro stopped) (simp add: ask_store_def ask_def GetOnboardingOperation_def)
    next
      case (Inr m)
      then show thesis using r True start
        by (intro known [of "r\<lparr>op_request := m\<rparr>"]) (simp_all add: ask_store_def ask_def GetOnboardingOperation_def)
    qed
  qed (use start stopped in simp)
qed

lemma settled_again:
  assumes "op_connection x \<noteq> []"
  shows "keeps (again ws op) (settle_connection svc q op x)"
    "settle_connection svc q op x w = (Inr (c, target), w') \<Longrightarrow> cn_id c \<noteq> []"
proof -
  show "keeps (again ws op) (settle_connection svc q op x)"
    unfolding settle_connection_def using assms by (simp add: rerun.checked_steps rerun.ask_steps rerun.pass_R)
  show "cn_id c \<noteq> []" if "settle_connection svc q op x w = (Inr (c, target), w')"
    using that assms by (auto simp: settle_connection_def checked_Inr GetConnection_def dest!: find_SomeD split: option.splits)
qed

lemma Onboard_again:
  assumes before: "onboarded (oq_workspace q) op (cw_store w)" and op: "oq_operation q = op" "op \<noteq> []"
  shows "again (oq_workspace q) op w (snd (Onboard svc q w))"
proof (cases "OnboardingRequest_validate q")
  case (Inr u)
  let ?rest = "\<lambda>x. seq (settle_connection svc q op x) (\<lambda>(c, target).
     checked svc q op (cn_id c) OnboardingFailed (loadSourceProject svc q) (\<lambda>source.
     seq (ensure_resources svc q op c target source) (\<lambda>resources. finish_onboarding svc q op x c resources)))"
  have run: "Onboard svc q w = seq (start_operation svc q op) ?rest w"
    using Inr op by (simp add: Onboard_def seq_def branch_def)
  show ?thesis
  proof (cases rule: start_again [OF before, where svc = svc])
    case (1 e)
    then show ?thesis by (simp add: run rerun.R_refl)
  next
    case (2 x)
    have rest: "keeps (again (oq_workspace q) op) (\<lambda>w. checked svc q op (cn_id c) OnboardingFailed (loadSourceProject svc q) (\<lambda>source.
        seq (ensure_resources svc q op c target source) (\<lambda>resources. finish_onboarding svc q op x c resources)) w)"
      if "cn_id c \<noteq> []" for c target
      using that by (intro rerun.checked_steps rerun.seq_R rerun.source_steps resources_again rerun.finish_steps)
    obtain y w1 where y: "settle_connection svc q op x w = (y, w1)" by fastforce
    have first: "again (oq_workspace q) op w w1" by (rule keepsD [OF settled_again(1) [OF 2(2)] y])
    show ?thesis
    proof (cases y)
      case (Inl e)
      then show ?thesis using y 2(1) first by (simp add: run)
    next
      case (Inr z)
      obtain c target where z: "z = (c, target)" by fastforce
      then have "cn_id c \<noteq> []" using settled_again(2) [OF 2(2)] y Inr by blast
      from rest [OF this] have "again (oq_workspace q) op w1 (snd (?rest x w))"
        using y Inr z by (simp add: keeps_def)
      then show ?thesis using rerun.R_trans [OF first] 2(1) by (simp add: run)
    qed
  qed
qed (simp add: Onboard_def seq_def branch_def look_def rerun.R_refl)

text \<open>
  C23: an onboarding that returned is not repeated at the providers. Whatever became of the connections and
  the resources since, running its operation again, by any request that names it, only reads the source
  project and probes the target: no project, label, repository or resource is made twice, whether or not
  that run succeeds.
\<close>

theorem onboarding_again:
  assumes run: "Onboard svc q w = (Inr res, w1)" and named: "cn_id (ox_connection res) \<noteq> []"
    and tables: "ob_operations (cw_store w2) = ob_operations (cw_store w1)"
      "ob_checkpoints (cw_store w2) = ob_checkpoints (cw_store w1)"
    and request: "oq_operation q' = op_id (ox_operation res)" "oq_workspace q' = oq_workspace q"
  shows "only_reads w2 (snd (Onboard svc' q' w2))"
proof -
  have "onboarded (oq_workspace q) (op_id (ox_operation res)) (cw_store w2)"
    using onboarding_stored [OF run] named tables by (auto simp: onboarded_def step_done_def)
  moreover have "op_id (ox_operation res) \<noteq> []"
    using onboarding_named [OF run] .
  ultimately show ?thesis using Onboard_again [of q' "op_id (ox_operation res)" w2 svc'] request
    by (simp add: again_def)
qed

section \<open>Samples\<close>

definition sample_onboarding_env :: control_env where
  "sample_onboarding_env =
     \<lparr>ce_now = 1000000000, ce_fresh = (\<lambda>n. CHR ''n'' # dec_nat n), ce_nonce = (\<lambda>n. ''n''), ce_random = (\<lambda>n. Inr ''r''),
      ce_vault = None,
      ce_get_project = (\<lambda>_. Inr \<lparr>proj_instance = ''g'', proj_external = ''7'', proj_group = [], proj_full_path = ''team/app'',
                              proj_name = ''app'', proj_web_url = [], proj_ssh_url = ''git@host:app'', proj_https_url = []\<rparr>),
      ce_ensure_label = (\<lambda>_. bad ErrConflict ''label''), ce_ensure_hook = (\<lambda>_. bad ErrConflict ''hook''),
      ce_list_projects = (\<lambda>_. Inr []), ce_create_project = (\<lambda>_. bad ErrConflict ''project''),
      ce_ensure_repository = (\<lambda>_. bad ErrConflict ''repository''), ce_ensure_resource = (\<lambda>_. bad ErrConflict ''resource''),
      ce_probe = (\<lambda>_. Inr True)\<rparr>"

definition sample_connection_service :: connection_service where
  "sample_connection_service = \<lparr>os_env = sample_onboarding_env, os_hook_url = ''http://host/hook'', os_equal_fold = (=)\<rparr>"

definition sample_instance :: "ID \<Rightarrow> endpoint" where
  "sample_instance i =
     \<lparr>ep_id = i, ep_workspace = ''w'', ep_name = i, ep_base_url = ''http://host'', ep_external = [], ep_credential = None,
      ep_status = EndpointActive, ep_capabilities = []\<rparr>"

definition sample_request :: onboarding_request where
  "sample_request =
     \<lparr>oq_operation = ''o'', oq_actor = [], oq_workspace = ''w'', oq_source = sample_instance ''g'', oq_project = ''7'',
      oq_group = \<lparr>gb_id = [], gb_workspace = [], gb_instance = [], gb_group = [], gb_full_path = [], gb_profile = [],
                   gb_credential = None, gb_inherit = False, gb_status = []\<rparr>,
      oq_gitlab_credential = None, oq_target = sample_instance ''m'',
      oq_target_workspace = \<lparr>mw_instance = ''m'', mw_external = ''ext'', mw_name = []\<rparr>,
      oq_target_project = Some \<lparr>mp_instance = ''m'', mp_workspace = ''ext'', mp_external = ''9'', mp_title = [], mp_web_url = []\<rparr>,
      oq_create = False, oq_title = [], oq_multica_credential = None, oq_prefer_ssh = False, oq_prefer_https = False,
      oq_hook_url = []\<rparr>"

definition sample_checkpoint :: "ID \<Rightarrow> string \<Rightarrow> onboarding_checkpoint" where
  "sample_checkpoint i step =
     \<lparr>ck_id = i, ck_workspace = ''w'', ck_operation = ''o'', ck_step = step, ck_status = ''succeeded'', ck_provider = [],
      ck_result = [(''external_id'', VStr i)], ck_updated = 1\<rparr>"

definition sample_onboarding_world :: control_world where
  "sample_onboarding_world =
     \<lparr>cw_store =
        \<lparr>ob_control =
           \<lparr>cb_endpoints = \<lparr>ed_secrets = \<lparr>st_workspaces = [''w''], st_rows = []\<rparr>, ed_gitlab = [], ed_multica = [],
                             ed_groups = [], ed_profiles = []\<rparr>,
            cb_flows = \<lparr>fd_workspaces = [''w''], fd_accounts = [], fd_connections = [(''c'', ''w'')], fd_flows = [],
                         fd_drafts = [], fd_versions = [], fd_templates = []\<rparr>,
            cb_connections = [sample_connection], cb_hooks = [], cb_routes = []\<rparr>,
         ob_resources = [],
         ob_operations = [\<lparr>op_id = ''o'', op_workspace = ''w'', op_connection = ''c'', op_status = OnboardingReady, op_request = [],
                            op_error_category = [], op_error_message = [], op_created = 1, op_updated = 1\<rparr>],
         ob_checkpoints = map2 sample_checkpoint [''1'', ''2'', ''3'', ''4'', ''5''] (provider_steps @ [''hook_plan''])\<rparr>,
      cw_audit = \<lparr>ab_auth = \<lparr>db_workspaces = [], db_accounts = [], db_passwords = [], db_memberships = [], db_bindings = [],
                              db_sessions = [], db_providers = [], db_identities = []\<rparr>, ab_rows = []\<rparr>,
      cw_calls = [], cw_next = 0\<rparr>"

lemma sample_run:
  "case fst (Onboard sample_connection_service sample_request sample_onboarding_world) of
     Inl e \<Rightarrow> False | Inr res \<Rightarrow> cn_id (ox_connection res) \<noteq> []"
  by code_simp

lemma sample_onboarded:
  obtains res w1 where "Onboard sample_connection_service sample_request sample_onboarding_world = (Inr res, w1)"
    "cn_id (ox_connection res) \<noteq> []"
  using sample_run by (cases "Onboard sample_connection_service sample_request sample_onboarding_world") (auto split: sum.splits)

theorem onboarding_done_witness:
  "\<exists>res w1 row. Onboard sample_connection_service sample_request sample_onboarding_world = (Inr res, w1) \<and>
     operation_row (oq_workspace sample_request) (op_id (ox_operation res)) (cw_store w1) = Some row \<and>
     op_connection row = cn_id (ox_connection res) \<and> op_status row = OnboardingReady \<and> length (ox_resources res) = 4"
proof -
  obtain res w1 where r: "Onboard sample_connection_service sample_request sample_onboarding_world = (Inr res, w1)"
    by (rule sample_onboarded)
  have "ce_probe (os_env sample_connection_service) calls = Inr True" for calls
    by (simp add: sample_connection_service_def sample_onboarding_env_def)
  then show ?thesis using onboarding_done [OF r] r unfolding Let_def by auto
qed

theorem onboarding_again_witness:
  "\<exists>res w1. Onboard sample_connection_service sample_request sample_onboarding_world = (Inr res, w1) \<and>
     cn_id (ox_connection res) \<noteq> [] \<and>
     only_reads w1 (snd (Onboard sample_connection_service (sample_request\<lparr>oq_operation := op_id (ox_operation res)\<rparr>) w1))"
proof -
  obtain res w1 where r: "Onboard sample_connection_service sample_request sample_onboarding_world = (Inr res, w1)"
    "cn_id (ox_connection res) \<noteq> []" by (rule sample_onboarded)
  show ?thesis
    using onboarding_again [OF r refl refl, of "sample_request\<lparr>oq_operation := op_id (ox_operation res)\<rparr>"] r by auto
qed

end
