(* ===== verification/HookReconciler.thy ===== *)
theory HookReconciler
  imports ControlWorld ControlSteps Ingress FlowService
begin

text \<open>
  The webhook reconciler, \<open>controlplane/hooks.go\<close>: publishing a flow makes one hook per source project and a
  route per version; the signing token of a hook is kept in the vault and can be rotated. The URL of the
  hook of an instance, which the code builds with \<open>net/url\<close>, is the parameter \<open>hc_url\<close>. Wiping the bytes of
  a token from memory is not modelled.
\<close>

section \<open>Definitions\<close>

record hook_reconciler =
  hc_env :: control_env
  hc_behaviors :: catalog
  hc_catalog :: "(ID \<Rightarrow> gerr + catalog) option"
  hc_credential :: "secret_ref option"
  hc_url :: "ID \<Rightarrow> string"

text \<open>The input node is the first connector whose behavior is an input.\<close>

definition input_behavior :: "catalog \<Rightarrow> flow_node \<Rightarrow> behavior option" where
  "input_behavior c n =
     (if node_kind n \<noteq> NodeConnector then None
      else Option.bind (node_connector n) (\<lambda>conn.
           Option.bind (catalog_behavior c (conn_behavior_key conn) (conn_behavior_version conn)) (\<lambda>b.
             if bh_direction b = DirectionInput then Some b else None)))"

fun first_input :: "catalog \<Rightarrow> flow_node list \<Rightarrow> (flow_node \<times> behavior) option" where
  "first_input c [] = None"
| "first_input c (n # ns) = (case input_behavior c n of None \<Rightarrow> first_input c ns | Some b \<Rightarrow> Some (n, b))"

definition inputNode :: "hook_reconciler \<Rightarrow> ID \<Rightarrow> flow_graph \<Rightarrow> gerr + flow_node \<times> behavior" where
  "inputNode r workspaceID g =
     bind_result (case hc_catalog r of None \<Rightarrow> Inr (hc_behaviors r) | Some resolve \<Rightarrow> resolve workspaceID) (\<lambda>c.
       case first_input c (graph_nodes g) of
         None \<Rightarrow> fail ErrInvalid ''published Flow has no input ConnectorNode''
       | Some x \<Rightarrow> Inr x)"

text \<open>Both branches of the code name the same events.\<close>

definition eventsForBehavior :: "behavior \<Rightarrow> flow_node \<Rightarrow> string list" where
  "eventsForBehavior b n = [''Issue Hook'', ''Push Hook'']"

definition newSigningToken :: "control_env \<Rightarrow> bytes control" where
  "newSigningToken env =
     seq (draw (ce_random env)) (\<lambda>raw.
       case raw of
         Inl e \<Rightarrow> stop (EWrap ''generate Hook signing token'' (EErr e))
       | Inr bytes \<Rightarrow> pass (''whsec_'' @ b64_encode bytes))"

text \<open>The credential is that of the reconciler, or else of the group of the project.\<close>

definition hook_credential_ref :: "hook_reconciler \<Rightarrow> connection \<Rightarrow> control_db \<Rightarrow> gerr + secret_ref option" where
  "hook_credential_ref r c db =
     (case hc_credential r of
        Some ref \<Rightarrow> Inr (Some ref)
      | None \<Rightarrow>
          if proj_group (cn_source c) = [] then Inr None
          else case GetGitLabGroupBindingByGroup (cn_workspace c) (proj_instance (cn_source c)) (proj_group (cn_source c))
                      (cb_endpoints db) of
                 Inr b \<Rightarrow> Inr (gb_credential b)
               | Inl e \<Rightarrow> if err_is e ErrNotFound then Inr None else Inl e)"

definition resolveGitLabCredential :: "hook_reconciler \<Rightarrow> connection \<Rightarrow> credential control" where
  "resolveGitLabCredential r c =
     seq (ask_control (hook_credential_ref r c)) (\<lambda>ref. resolve_credential (hc_env r) ''GitLab credential'' ref)"

definition hook_alias :: "connection \<Rightarrow> string" where
  "hook_alias c = ''hook/'' @ proj_instance (cn_source c) @ ''/'' @ proj_external (cn_source c)"

definition signing_ref :: "ID \<Rightarrow> ID \<Rightarrow> string \<Rightarrow> secret_ref" where
  "signing_ref i workspaceID alias =
     \<lparr>secret_id = i, secret_workspace = workspaceID, secret_alias = alias, secret_kind = ''hook_signing''\<rparr>"

text \<open>A hook with a token keeps it; otherwise a new one is stored before the provider is asked.\<close>

definition fresh_token :: "hook_reconciler \<Rightarrow> connection \<Rightarrow> (secret_ref \<times> bytes) control" where
  "fresh_token r c =
     seq (newSigningToken (hc_env r)) (\<lambda>token.
     seq (draw (ce_fresh (hc_env r))) (\<lambda>i.
       let ref = signing_ref i (cn_workspace c) (hook_alias c)
       in case ce_vault (hc_env r) of
            None \<Rightarrow> stop (EErr (GErr ErrInvalid ''Hook secret store is not configured''))
          | Some v \<Rightarrow> seq (put_secret (hc_env r) v ref token) (\<lambda>_. pass (ref, token))))"

definition hook_token :: "hook_reconciler \<Rightarrow> connection \<Rightarrow> hook option \<Rightarrow> (secret_ref \<times> bytes) control" where
  "hook_token r c known =
     (case Option.bind known hk_signing of
        None \<Rightarrow> fresh_token r c
      | Some ref \<Rightarrow>
          (case ce_vault (hc_env r) of
             None \<Rightarrow> stop (EErr (GErr ErrInvalid ''Hook secret resolver is not configured''))
           | Some v \<Rightarrow> seq (get_secret v ref) (\<lambda>token. pass (ref, token))))"

definition known_hook :: "connection \<Rightarrow> hook option control" where
  "known_hook c =
     branch (ask_control (GetHookByProject (cn_workspace c) (proj_instance (cn_source c)) (proj_external (cn_source c))))
       (\<lambda>e. if exec_is e ErrNotFound then pass None else stop e) (\<lambda>h. pass (Some h))"

definition provider_project :: "connection \<Rightarrow> project_ref" where
  "provider_project c = (cn_source c)\<lparr>proj_group := []\<rparr>"

definition hook_audit :: "connection \<Rightarrow> string \<Rightarrow> string \<Rightarrow> gobj \<Rightarrow> ID \<Rightarrow> audit_event" where
  "hook_audit c action operation extra i =
     audit_of i (cn_workspace c) [] action ''connection'' (cn_id c)
       ([(''workspace_id'', VNamed (cn_workspace c)), (''provider'', VStr ''gitlab''), (''operation'', VStr operation)] @ extra)"

definition hook_failed :: "exec_err \<Rightarrow> gobj" where
  "hook_failed e = [(''outcome'', VStr ''failed''), (''error'', VStr (safeMessage e))]"

definition managed_hook :: "ID \<Rightarrow> connection \<Rightarrow> string \<Rightarrow> secret_ref \<Rightarrow> hook" where
  "managed_hook i c external ref =
     \<lparr>hk_id = i, hk_workspace = cn_workspace c, hk_connection = cn_id c, hk_provider = ProviderGitLab,
      hk_instance = proj_instance (cn_source c), hk_project = proj_external (cn_source c), hk_external = external,
      hk_signing = Some ref, hk_status = HookActive\<rparr>"

definition ensure_provider_hook ::
  "hook_reconciler \<Rightarrow> connection \<Rightarrow> endpoint \<Rightarrow> hook_spec \<Rightarrow> credential \<Rightarrow> hook_result control" where
  "ensure_provider_hook r c i spec cred =
     branch (call (ce_ensure_hook (hc_env r)) (CallEnsureHook i (provider_project c) spec cred))
       (\<lambda>e. seq (recordAudit (hc_env r) (hook_audit c ''provider.gitlab.hook.ensure'' ''ensure_hook'' (hook_failed e))) (\<lambda>_.
             stop e))
       (\<lambda>res. seq (recordAudit (hc_env r) (hook_audit c ''provider.gitlab.hook.ensure'' ''ensure_hook''
               [(''external_id'', VStr (hx_external res)), (''request_id'', VStr (hx_request res)),
                (''created'', VBool (hx_created res)), (''adopted'', VBool (hx_adopted res))])) (\<lambda>_.
             pass res))"

definition ensureHook :: "hook_reconciler \<Rightarrow> connection \<Rightarrow> flow_node \<Rightarrow> behavior \<Rightarrow> hook control" where
  "ensureHook r c n b =
     seq (ask_control (\<lambda>db. GetGitLabInstance (cn_workspace c) (proj_instance (cn_source c)) (cb_endpoints db))) (\<lambda>i.
     seq (known_hook c) (\<lambda>known.
     seq (hook_token r c known) (\<lambda>(ref, token).
     seq (resolveGitLabCredential r c) (\<lambda>cred.
     seq (ensure_provider_hook r c i
            \<lparr>hs_url = hc_url r (proj_instance (cn_source c)), hs_events = eventsForBehavior b n, hs_ref = ref,
             hs_token = token, hs_mark = ''specwire-managed''\<rparr> cred) (\<lambda>res.
       if hx_external res = [] then stop (EErr (GErr ErrInvalid ''GitLab Hook adapter returned no external ID''))
       else seq (draw (ce_fresh (hc_env r))) (\<lambda>newID.
            on_control (UpsertHook newID (managed_hook (case known of None \<Rightarrow> [] | Some h \<Rightarrow> hk_id h) c (hx_external res) ref))))))))"

definition new_route :: "ID \<Rightarrow> flow_version \<Rightarrow> connection \<Rightarrow> behavior \<Rightarrow> hook \<Rightarrow> hook_route" where
  "new_route i v c b h =
     \<lparr>hr_id = i, hr_workspace = fv_workspace v, hr_connection = cn_id c, hr_source = cn_source c,
      hr_behavior_key = bh_key b, hr_behavior_version = bh_version b, hr_flow = fv_flow v, hr_version = fv_version v,
      hr_filter = [], hr_hook = hk_id h, hr_status = HookActive\<rparr>"

definition hook_resource :: "hook_reconciler \<Rightarrow> ID \<Rightarrow> flow_version \<Rightarrow> connection \<Rightarrow> hook \<Rightarrow> hook_route \<Rightarrow> managed_resource" where
  "hook_resource r i v c h route =
     \<lparr>mr_id = i, mr_workspace = fv_workspace v, mr_connection = cn_id c, mr_kind = ResourceHook,
      mr_provider = ProviderGitLab, mr_instance = proj_instance (cn_source c), mr_external = hk_external h,
      mr_ownership = OwnershipManaged, mr_mark = ''specwire-managed'', mr_status = hr_status route,
      mr_snapshot = [(''url'', VStr (hc_url r (proj_instance (cn_source c)))), (''route_id'', VNamed (hr_id route)),
                     (''flow_version'', VInt KInt (fv_version v))]\<rparr>"

definition activate_input_flow :: "hook_reconciler \<Rightarrow> flow_version \<Rightarrow> unit control" where
  "activate_input_flow r v =
     seq (ask_control (\<lambda>db. GetFlow (fv_workspace v) (fv_flow v) (cb_flows db))) (\<lambda>f.
     seq (ask_control (GetConnection (fv_workspace v) (fl_connection f))) (\<lambda>c.
     seq (look (inputNode r (fv_workspace v) (fv_graph v))) (\<lambda>(n, b).
     seq (ensureHook r c n b) (\<lambda>h.
     seq (draw (ce_fresh (hc_env r))) (\<lambda>routeID.
     seq (on_control (ActivateHookRoute [] (new_route routeID v c b h))) (\<lambda>route.
     seq (draw (ce_fresh (hc_env r))) (\<lambda>resourceID.
     seq (on_store (EnsureManagedResource [] (hook_resource r resourceID v c h route))) (\<lambda>_. pass ()))))))))"

text \<open>The error is recognized by its text.\<close>

definition pause_input_flow :: "flow_version \<Rightarrow> unit control" where
  "pause_input_flow v =
     branch (run_control (DisableHookRoutesForFlow (fv_workspace v) (fv_flow v) (fv_version v)))
       (\<lambda>e. if str_contains (exec_text e) (sentinel_text ErrNotFound) then pass () else stop e) pass"

section \<open>Rotation\<close>

definition rotation_spec :: "hook_reconciler \<Rightarrow> connection \<Rightarrow> secret_ref \<Rightarrow> bytes \<Rightarrow> hook_spec" where
  "rotation_spec r c ref token =
     \<lparr>hs_url = hc_url r (proj_instance (cn_source c)), hs_events = [''Issue Hook'', ''Push Hook''], hs_ref = ref,
      hs_token = token, hs_mark = ''specwire-managed''\<rparr>"

definition rollback_rotation ::
  "hook_reconciler \<Rightarrow> connection \<Rightarrow> endpoint \<Rightarrow> secret_ref \<Rightarrow> bytes \<Rightarrow> credential \<Rightarrow> exec_err \<Rightarrow> hook control" where
  "rollback_rotation r c i oldRef oldToken cred e =
     branch (call (ce_ensure_hook (hc_env r)) (CallEnsureHook i (provider_project c) (rotation_spec r c oldRef oldToken) cred))
       (\<lambda>e2. seq (recordAudit (hc_env r) (hook_audit c ''provider.gitlab.hook.rotate.rollback'' ''rollback_hook_rotation''
                (hook_failed e2))) (\<lambda>_.
              stop (EAfter e ('': persist rotated Hook (rollback failed: '' @ exec_text e2 @ '')''))))
       (\<lambda>_. stop (EAfter e '': persist rotated Hook; provider update rolled back''))"

definition rotate_provider_hook ::
  "hook_reconciler \<Rightarrow> connection \<Rightarrow> endpoint \<Rightarrow> hook_spec \<Rightarrow> credential \<Rightarrow> hook_result control" where
  "rotate_provider_hook r c i spec cred =
     branch (call (ce_ensure_hook (hc_env r)) (CallEnsureHook i (provider_project c) spec cred))
       (\<lambda>e. seq (recordAudit (hc_env r) (hook_audit c ''provider.gitlab.hook.rotate'' ''rotate_hook'' (hook_failed e))) (\<lambda>_.
             stop e)) pass"

definition store_rotation ::
  "hook_reconciler \<Rightarrow> connection \<Rightarrow> endpoint \<Rightarrow> hook \<Rightarrow> secret_ref \<Rightarrow> bytes \<Rightarrow> secret_ref \<Rightarrow> credential \<Rightarrow> hook_result \<Rightarrow>
   hook control" where
  "store_rotation r c i h oldRef oldToken newRef cred res =
     (if blank (hx_external res) then stop (EErr (GErr ErrInvalid ''GitLab Hook adapter returned no external ID''))
      else branch (on_control (UpsertHook [] (h\<lparr>hk_external := hx_external res, hk_signing := Some newRef, hk_status := HookActive\<rparr>)))
        (rollback_rotation r c i oldRef oldToken cred)
        (\<lambda>stored. seq (recordAudit (hc_env r) (hook_audit c ''provider.gitlab.hook.rotate'' ''rotate_hook''
            [(''outcome'', VStr ''succeeded''), (''external_id'', VStr (hx_external res)),
             (''request_id'', VStr (hx_request res))])) (\<lambda>_. pass stored)))"

definition rotate_to ::
  "hook_reconciler \<Rightarrow> cipher \<Rightarrow> connection \<Rightarrow> endpoint \<Rightarrow> hook \<Rightarrow> credential \<Rightarrow> secret_ref \<Rightarrow> bytes \<Rightarrow> secret_ref \<Rightarrow> bytes \<Rightarrow>
   hook control" where
  "rotate_to r vault c i h cred oldRef oldToken newRef newToken =
     seq (put_secret (hc_env r) vault newRef newToken) (\<lambda>_.
     seq (rotate_provider_hook r c i (rotation_spec r c newRef newToken) cred) (\<lambda>res.
       store_rotation r c i h oldRef oldToken newRef cred res))"

definition rotate_with ::
  "hook_reconciler \<Rightarrow> cipher \<Rightarrow> ID \<Rightarrow> connection \<Rightarrow> hook \<Rightarrow> secret_ref \<Rightarrow> hook control" where
  "rotate_with r vault workspaceID c h oldRef =
     seq (get_secret vault oldRef) (\<lambda>oldToken.
     seq (ask_control (\<lambda>db. GetGitLabInstance workspaceID (proj_instance (cn_source c)) (cb_endpoints db))) (\<lambda>i.
     seq (resolveGitLabCredential r c) (\<lambda>cred.
     seq (newSigningToken (hc_env r)) (\<lambda>newToken.
     seq (draw (ce_fresh (hc_env r))) (\<lambda>newID.
     seq (draw (ce_fresh (hc_env r))) (\<lambda>suffix.
       rotate_to r vault c i h cred oldRef oldToken
         (signing_ref newID workspaceID (secret_alias oldRef @ ''/rotation-'' @ suffix)) newToken))))))"

definition RotateSigningToken :: "hook_reconciler \<Rightarrow> ID \<Rightarrow> ID \<Rightarrow> hook control" where
  "RotateSigningToken r workspaceID connectionID =
     seq (ask_control (GetConnection workspaceID connectionID)) (\<lambda>c.
     seq (ask_control (GetHookByProject workspaceID (proj_instance (cn_source c)) (proj_external (cn_source c)))) (\<lambda>h.
       case hk_signing h of
         None \<Rightarrow> stop (EErr (GErr ErrInvalid ''Hook has no signing secret to rotate''))
       | Some oldRef \<Rightarrow>
           (case ce_vault (hc_env r) of
              None \<Rightarrow> stop (EErr (GErr ErrInvalid ''Hook secret store is not configured''))
            | Some vault \<Rightarrow> rotate_with r vault workspaceID c h oldRef)))"

section \<open>Writing a hook\<close>

text \<open>The hook that was written is the one that is found for the project.\<close>

lemma GetHookByProject_row:
  assumes "control_ok db" "h \<in> set (cb_hooks db)" "hook_key h = (ws, i, p)" "p \<noteq> []"
  shows "GetHookByProject ws i p db = Inr (h\<lparr>hk_signing := joined_ref ws (secrets_of db) (hk_signing h)\<rparr>)"
proof -
  have only: "g = h" if "g \<in> set (cb_hooks db)" "hook_key g = hook_key h \<or> hk_id g = hk_id h" for g
    using hooks.clash_only [of "cb_hooks db" g h] assms that by (auto simp: control_ok_def hook_clash_def hook_key_def)
  have "List.find (\<lambda>g. hook_key g = (ws, i, p)) (cb_hooks db) = Some h"
    using assms(2,3) only by (intro find_only) auto
  moreover have "List.find (\<lambda>g. hk_workspace g = ws \<and> hk_id g = hk_id h) (cb_hooks db) = Some h"
    using assms(2,3) only by (intro find_only) (auto simp: hook_key_def)
  ultimately show ?thesis by (simp add: GetHookByProject_def GetHook_def)
qed

lemma write_hook_D:
  assumes "write_hook h db = Inr (stored, db')" "control_ok db" "hk_project h \<noteq> []"
  obtains rows where "db' = db\<lparr>cb_hooks := rows\<rparr>" "control_ok db'"
    "GetHookByProject (hk_workspace h) (hk_instance h) (hk_project h) db' = Inr stored"
    "hk_external stored = hk_external h" "hk_status stored = hk_status h" "hk_connection stored = hk_connection h"
    "hk_signing stored = joined_ref (hk_workspace h) (secrets_of db) (secretRefID (hk_signing h))"
proof -
  have ok: "control_ok db'" using assms(1,2) by (rule write_hook_ok)
  obtain rows g where rows: "db' = db\<lparr>cb_hooks := rows\<rparr>" "g \<in> set rows" "hook_key g = hook_key h"
    "hk_external g = hk_external h" "hk_status g = hk_status h" "hk_connection g = hk_connection h"
    "hk_signing g = secretRefID (hk_signing h)" "GetHook (hk_workspace h) (hk_id g) db' = Inr stored"
  proof (cases "List.find (\<lambda>r. hook_key r = hook_key h) (cb_hooks db)")
    case None
    then show thesis using assms(1)
      by (intro that [of "cb_hooks db @ [h\<lparr>hk_signing := secretRefID (hk_signing h)\<rparr>]" "h\<lparr>hk_signing := secretRefID (hk_signing h)\<rparr>"])
        (auto simp: write_hook_def err_simps hook_key_def)
  next
    case (Some e)
    let ?P = "\<lambda>r. hk_id r = hk_id e \<and> hk_workspace r = hk_workspace h"
    let ?f = "\<lambda>r. r\<lparr>hk_connection := hk_connection h, hk_provider := hk_provider h, hk_external := hk_external h,
                   hk_signing := secretRefID (hk_signing h), hk_status := hk_status h\<rparr>"
    have e: "e \<in> set (cb_hooks db)" "hook_key e = hook_key h" using find_SomeD [OF Some] by auto
    have w: "db' = db\<lparr>cb_hooks := update_rows ?P ?f (cb_hooks db)\<rparr>" "GetHook (hk_workspace h) (hk_id e) db' = Inr stored"
      using assms(1) Some by (auto simp: write_hook_def err_simps update_unique_def split: if_splits)
    have "?f e \<in> set (update_rows ?P ?f (cb_hooks db))"
      using e unfolding update_rows_def set_map by (intro image_eqI [of _ _ e]) (auto simp: hook_key_def)
    then show thesis using w e by (intro that [of "update_rows ?P ?f (cb_hooks db)" "?f e"]) (auto simp: hook_key_def)
  qed
  have "GetHookByProject (hk_workspace h) (hk_instance h) (hk_project h) db' =
      Inr (g\<lparr>hk_signing := joined_ref (hk_workspace h) (secrets_of db') (hk_signing g)\<rparr>)"
    using ok rows(1-3) assms(3) by (intro GetHookByProject_row) (auto simp: hook_key_def)
  moreover have "stored = g\<lparr>hk_signing := joined_ref (hk_workspace h) (secrets_of db') (hk_signing g)\<rparr>"
  proof -
    have "List.find (\<lambda>x. hk_workspace x = hk_workspace h \<and> hk_id x = hk_id g) rows = Some g"
      using rows(1-3) hooks.clash_only [of rows _ g] ok
      by (intro find_only) (auto simp: control_ok_def hook_clash_def hook_key_def)
    then show ?thesis using rows(1,8) by (simp add: GetHook_def)
  qed
  ultimately show thesis using rows ok by (intro that [of rows]) simp_all
qed

lemma UpsertHook_D:
  assumes "UpsertHook newID h db = Inr (stored, db')" "control_ok db"
  obtains rows where "db' = db\<lparr>cb_hooks := rows\<rparr>" "control_ok db'" "hk_external h \<noteq> []"
    "GetHookByProject (hk_workspace h) (hk_instance h) (hk_project h) db' = Inr stored"
    "hk_external stored = hk_external h" "hk_connection stored = hk_connection h"
    "hk_status stored = or_default (hk_status h) (\<lambda>s. s = []) HookActive"
    "hk_signing stored = joined_ref (hk_workspace h) (secrets_of db) (secretRefID (hk_signing h))"
proof -
  let ?h = "h\<lparr>hk_id := or_default (hk_id h) (\<lambda>i. i = []) newID, hk_provider := or_default (hk_provider h) (\<lambda>s. s = []) ProviderGitLab,
              hk_status := or_default (hk_status h) (\<lambda>s. s = []) HookActive\<rparr>"
  have w: "write_hook ?h db = Inr (stored, db')" and p: "\<not> blank (hk_project h)" "\<not> blank (hk_external h)"
    using assms(1) by (auto simp: UpsertHook_def Let_def err_simps split: if_splits)
  have "hk_project ?h \<noteq> []" "hk_external h \<noteq> []" using p by auto
  from write_hook_D [OF w assms(2) this(1)] obtain rows where rows: "db' = db\<lparr>cb_hooks := rows\<rparr>" "control_ok db'"
    "GetHookByProject (hk_workspace ?h) (hk_instance ?h) (hk_project ?h) db' = Inr stored"
    "hk_external stored = hk_external ?h" "hk_status stored = hk_status ?h" "hk_connection stored = hk_connection ?h"
    "hk_signing stored = joined_ref (hk_workspace ?h) (secrets_of db) (secretRefID (hk_signing ?h))" .
  show thesis by (rule that [OF rows(1,2)]) (use rows(3-7) p in auto)
qed

text \<open>A reference that the vault resolves is what a join of the table of secrets reads back.\<close>

lemma resolved_joined:
  assumes "Vault_Resolve GetSecretRecord unseal ref t = Inr m"
  shows "joined_ref (secret_workspace ref) t (secretRefID (Some ref)) = Some ref"
proof -
  obtain row where row: "GetSecretRecord (secret_workspace ref) (secret_id ref) t = Inr row" "secret_id ref \<noteq> []"
    "secret_alias (rec_ref row) = secret_alias ref" "secret_kind (rec_ref row) = secret_kind ref"
    using assms by (auto simp: Vault_Resolve_def err_simps SecretRef_Validate_def split: if_splits)
  have "List.find (\<lambda>s. row_id s = secret_id ref \<and> secret_workspace (rec_ref s) = secret_workspace ref) (st_rows t) = Some row"
    using row(1) by (auto simp: GetSecretRecord_def conj_commute split: option.splits)
  then show ?thesis using row(2-4) by (simp add: joined_ref_def secretRefID_def id_ref_def)
qed

section \<open>The token of a hook\<close>

definition opens :: "cipher \<Rightarrow> bool" where
  "opens v \<longleftrightarrow> (\<forall>n m a. ci_unseal v n (ci_seal v n m a) a = Some m)"

abbreviation with_secrets :: "secret_table \<Rightarrow> control_db \<Rightarrow> control_db" where
  "with_secrets t db \<equiv> db\<lparr>cb_endpoints := (cb_endpoints db)\<lparr>ed_secrets := t\<rparr>\<rparr>"

lemma with_secrets_ok [simp]: "control_ok (with_secrets t db) \<longleftrightarrow> control_ok db"
  by (simp add: control_parts)

lemma put_secret_Inr:
  "put_secret env v ref material w = (Inr u, w') \<longleftrightarrow>
     (\<exists>t. Vault_Put (PutSecretRecord (ce_now env)) (ci_seal v) (ce_nonce env (cw_next w)) ref material (secrets_of (cw_control w)) = Inr t \<and>
          w' = set_control (with_secrets t (cw_control w)) (w\<lparr>cw_next := cw_next w + 1\<rparr>))"
  by (auto simp: put_secret_def run_control_Inr bind_result_Inr)

lemma put_secret_Inl:
  "put_secret env v ref material w = (Inl e, w') \<longleftrightarrow>
     (\<exists>g. Vault_Put (PutSecretRecord (ce_now env)) (ci_seal v) (ce_nonce env (cw_next w)) ref material (secrets_of (cw_control w)) = Inl g \<and>
          e = EErr g \<and> w' = w\<lparr>cw_next := cw_next w + 1\<rparr>)"
  by (auto simp: put_secret_def run_control_Inl bind_result_Inl)

lemma newSigningToken_run:
  "newSigningToken env w =
     (case ce_random env (cw_next w) of Inl e \<Rightarrow> Inl (EWrap ''generate Hook signing token'' (EErr e))
      | Inr raw \<Rightarrow> Inr (''whsec_'' @ b64_encode raw), w\<lparr>cw_next := cw_next w + 1\<rparr>)"
  by (simp add: newSigningToken_def split: sum.splits)

lemma get_secret_Inr [simp]:
  "get_secret v ref w = (Inr m, w') \<longleftrightarrow>
     Vault_Resolve GetSecretRecord (ci_unseal v) ref (secrets_of (cw_control w)) = Inr m \<and> w' = w"
  by (auto simp: get_secret_def)

lemma fresh_token_D:
  assumes "fresh_token r c w = (Inr (ref, token), w')"
  obtains v t n nonce where "ce_vault (hc_env r) = Some v" "w' = set_control (with_secrets t (cw_control w)) (w\<lparr>cw_next := n\<rparr>)"
    "secret_workspace ref = cn_workspace c"
    "Vault_Put (PutSecretRecord (ce_now (hc_env r))) (ci_seal v) nonce ref token (secrets_of (cw_control w)) = Inr t"
    "\<exists>row \<in> set (st_rows t). secret_workspace (rec_ref row) = cn_workspace c \<and> secret_alias (rec_ref row) = hook_alias c"
proof -
  obtain i v where v: "ce_vault (hc_env r) = Some v" and ref: "ref = signing_ref i (cn_workspace c) (hook_alias c)"
    and put: "put_secret (hc_env r) v ref token (w\<lparr>cw_next := cw_next w + 2\<rparr>) = (Inr (), w')"
    using assms by (auto simp: fresh_token_def seq_Inr newSigningToken_run Let_def split: sum.splits option.splits)
  from put obtain t where t: "Vault_Put (PutSecretRecord (ce_now (hc_env r))) (ci_seal v) (ce_nonce (hc_env r) (cw_next w + 2)) ref token
      (secrets_of (cw_control w)) = Inr t"
    and w': "w' = set_control (with_secrets t (cw_control w)) (w\<lparr>cw_next := cw_next w + 3\<rparr>)"
    by (auto simp: put_secret_Inr)
  obtain row where "GetSecretRecord (secret_workspace ref) (secret_id ref) t = Inr row" "rec_ref row = ref"
    using t sql.get_put by (fastforce simp: Vault_Put_def err_simps split: if_splits)
  then have "\<exists>row \<in> set (st_rows t). secret_workspace (rec_ref row) = cn_workspace c \<and> secret_alias (rec_ref row) = hook_alias c"
    using ref by (auto simp: GetSecretRecord_def signing_ref_def split: option.splits dest!: find_SomeD)
  then show thesis using that v w' t ref by (simp add: signing_ref_def)
qed

lemma hook_token_D:
  assumes "hook_token r c known w = (Inr (ref, token), w')"
    and known: "\<And>s. Option.bind known hk_signing = Some s \<Longrightarrow> secret_workspace s = cn_workspace c"
    and aead: "\<And>v. ce_vault (hc_env r) = Some v \<Longrightarrow> opens v"
  obtains v t n where "ce_vault (hc_env r) = Some v" "w' = set_control (with_secrets t (cw_control w)) (w\<lparr>cw_next := n\<rparr>)"
    "Vault_Resolve GetSecretRecord (ci_unseal v) ref t = Inr token" "secret_workspace ref = cn_workspace c"
proof (cases "Option.bind known hk_signing")
  case None
  then have "fresh_token r c w = (Inr (ref, token), w')" using assms(1) by (simp add: hook_token_def)
  then obtain v t n nonce where t: "ce_vault (hc_env r) = Some v" "w' = set_control (with_secrets t (cw_control w)) (w\<lparr>cw_next := n\<rparr>)"
    "secret_workspace ref = cn_workspace c"
    "Vault_Put (PutSecretRecord (ce_now (hc_env r))) (ci_seal v) nonce ref token (secrets_of (cw_control w)) = Inr t"
    by (rule fresh_token_D)
  have "Vault_Resolve GetSecretRecord (ci_unseal v) ref t = Inr token"
    using sql.Put_then_Resolve [OF _ t(4)] aead [OF t(1)] by (simp add: opens_def)
  then show thesis using that t by blast
next
  case (Some s)
  then obtain v where "ce_vault (hc_env r) = Some v" "ref = s" "w' = w"
    "Vault_Resolve GetSecretRecord (ci_unseal v) ref (secrets_of (cw_control w)) = Inr token"
    using assms(1) by (auto simp: hook_token_def seq_Inr split: option.splits)
  then show thesis using that [of v "secrets_of (cw_control w)" "cw_next w"] known [OF Some] by simp
qed

text \<open>A signature made with the random bytes of a new token is accepted under the token.\<close>

lemma new_token_verifies:
  assumes "newSigningToken env w = (Inr token, w')" "in_window now age ts"
  shows "\<exists>raw. ce_random env (cw_next w) = Inr raw \<and>
           verifySignature sha256 token i ts (want_signature sha256 raw i ts body) body now age"
proof -
  from assms(1) obtain raw where raw: "ce_random env (cw_next w) = Inr raw" and token: "token = ''whsec_'' @ b64_encode raw"
    by (auto simp: newSigningToken_run split: sum.splits)
  have "signing_key token = Some raw"
    using trim_prefix_append [of "''whsec_''" "b64_encode raw"]
    by (simp add: token signing_key_def has_prefix_def b64_roundtrip)
  then show ?thesis using raw assms(2) str_fields_one [OF want_signature_spaceless, of sha256 raw i ts body]
    by (simp add: verifySignature_def want_signature_def)
qed

section \<open>Publishing\<close>

lemma known_hook_Inr:
  "known_hook c w = (Inr known, w') \<longleftrightarrow> w' = w \<and>
     (case GetHookByProject (cn_workspace c) (proj_instance (cn_source c)) (proj_external (cn_source c)) (cw_control w) of
        Inl e \<Rightarrow> err_is e ErrNotFound \<and> known = None | Inr h \<Rightarrow> known = Some h)"
  by (auto simp: known_hook_def branch_def ask_control_def ask_store_def ask_def split: sum.splits)

lemma GetHookByProject_signing:
  assumes "GetHookByProject ws i p db = Inr h" "hk_signing h = Some s"
  shows "secret_workspace s = ws"
proof -
  obtain g where "h = g\<lparr>hk_signing := joined_ref ws (secrets_of db) (hk_signing g)\<rparr>"
    using assms(1) by (auto simp: GetHookByProject_def GetHook_def split: option.splits)
  then show ?thesis using assms(2) joined_ref_workspace by simp
qed

lemma known_hook_signing:
  assumes "known_hook c w = (Inr known, w')" "Option.bind known hk_signing = Some s"
  shows "secret_workspace s = cn_workspace c"
proof -
  obtain h where "known = Some h" "hk_signing h = Some s" using assms(2) by (cases known) auto
  then show ?thesis using assms(1) GetHookByProject_signing by (auto simp: known_hook_Inr split: sum.splits)
qed

lemma ensure_provider_hook_D:
  assumes "ensure_provider_hook r c i spec cred w = (res, w')"
  shows "res = ce_ensure_hook (hc_env r) (cw_calls w @ [CallEnsureHook i (provider_project c) spec cred]) \<and>
         cw_store w' = cw_store w \<and> cw_calls w' = cw_calls w @ [CallEnsureHook i (provider_project c) spec cred]"
proof -
  let ?w = "w\<lparr>cw_calls := cw_calls w @ [CallEnsureHook i (provider_project c) spec cred]\<rparr>"
  have audit: "\<exists>trail n. seq (recordAudit (hc_env r) e) (\<lambda>_. m) ?w = m (?w\<lparr>cw_audit := trail, cw_next := n\<rparr>)"
    for e and m :: "hook_result control"
    using recordAudit_simps [of "hc_env r" e ?w] by (metis seq_simps(2))
  show ?thesis
  proof (cases "ce_ensure_hook (hc_env r) (cw_calls ?w)")
    case (Inl e)
    then show ?thesis
      using assms audit [of "hook_audit c ''provider.gitlab.hook.ensure'' ''ensure_hook'' (hook_failed e)" "stop e"]
      by (auto simp: ensure_provider_hook_def)
  next
    case (Inr x)
    then show ?thesis
      using assms audit [of "hook_audit c ''provider.gitlab.hook.ensure'' ''ensure_hook''
               [(''external_id'', VStr (hx_external x)), (''request_id'', VStr (hx_request x)),
                (''created'', VBool (hx_created x)), (''adopted'', VBool (hx_adopted x))]" "pass x"]
      by (auto simp: ensure_provider_hook_def)
  qed
qed

lemma resolveGitLabCredential_world: "resolveGitLabCredential r c w = (x, w') \<Longrightarrow> w' = w"
proof -
  assume "resolveGitLabCredential r c w = (x, w')"
  moreover have "snd (resolveGitLabCredential r c w) = w"
    by (cases "hook_credential_ref r c (cw_control w)")
      (simp_all add: resolveGitLabCredential_def seq_def branch_def ask_control_def ask_store_def ask_def)
  ultimately show ?thesis by simp
qed

lemma ensureHook_D:
  assumes "ensureHook r c n b w = (Inr h, w')" "control_ok (cw_control w)"
    and "\<And>v. ce_vault (hc_env r) = Some v \<Longrightarrow> opens v"
  obtains i spec cred res v t rows where
    "cw_calls w' = cw_calls w @ [CallEnsureHook i (provider_project c) spec cred]"
    "ce_ensure_hook (hc_env r) (cw_calls w') = Inr res" "ce_vault (hc_env r) = Some v"
    "cw_store w' = (cw_store w)\<lparr>ob_control := (with_secrets t (cw_control w))\<lparr>cb_hooks := rows\<rparr>\<rparr>" "control_ok (cw_control w')"
    "GetHookByProject (cn_workspace c) (proj_instance (cn_source c)) (proj_external (cn_source c)) (cw_control w') = Inr h"
    "hk_external h = hx_external res" "hk_status h = HookActive" "hk_signing h = Some (hs_ref spec)"
    "Vault_Resolve GetSecretRecord (ci_unseal v) (hs_ref spec) t = Inr (hs_token spec)"
proof -
  obtain i known ref token w1 cred w2 res w3 newID where
    known: "known_hook c w = (Inr known, w)" and tok: "hook_token r c known w = (Inr (ref, token), w1)"
    and cred: "resolveGitLabCredential r c w1 = (Inr cred, w2)"
    and call: "ensure_provider_hook r c i \<lparr>hs_url = hc_url r (proj_instance (cn_source c)), hs_events = eventsForBehavior b n,
        hs_ref = ref, hs_token = token, hs_mark = ''specwire-managed''\<rparr> cred w2 = (Inr res, w3)"
    and up: "on_control (UpsertHook newID (managed_hook (case known of None \<Rightarrow> [] | Some h \<Rightarrow> hk_id h) c (hx_external res) ref))
        (w3\<lparr>cw_next := cw_next w3 + 1\<rparr>) = (Inr h, w')"
    using assms(1) by (auto simp: ensureHook_def seq_Inr known_hook_Inr split: if_splits)
  obtain v t m where v: "ce_vault (hc_env r) = Some v" and w1: "w1 = set_control (with_secrets t (cw_control w)) (w\<lparr>cw_next := m\<rparr>)"
    and res: "Vault_Resolve GetSecretRecord (ci_unseal v) ref t = Inr token" and ws: "secret_workspace ref = cn_workspace c"
    by (rule hook_token_D [OF tok known_hook_signing [OF known] assms(3)]) (assumption | rule that)+
  have w2: "w2 = w1" using cred by (rule resolveGitLabCredential_world)
  note c = ensure_provider_hook_D [OF call]
  obtain db where db: "UpsertHook newID (managed_hook (case known of None \<Rightarrow> [] | Some h \<Rightarrow> hk_id h) c (hx_external res) ref)
      (with_secrets t (cw_control w)) = Inr (h, db)" and w': "w' = set_control db (w3\<lparr>cw_next := cw_next w3 + 1\<rparr>)"
    using up c w2 w1 by (auto simp: on_control_Inr)
  from db obtain rows where rows: "db = (with_secrets t (cw_control w))\<lparr>cb_hooks := rows\<rparr>" "control_ok db"
    "GetHookByProject (cn_workspace c) (proj_instance (cn_source c)) (proj_external (cn_source c)) db = Inr h"
    "hk_external h = hx_external res" "hk_status h = HookActive"
    "hk_signing h = joined_ref (cn_workspace c) t (secretRefID (Some ref))"
    by (rule UpsertHook_D) (simp_all add: assms(2) managed_hook_def or_default_def)
  show thesis
  proof (rule that)
    show "cw_calls w' = cw_calls w @ [CallEnsureHook i (provider_project c)
        \<lparr>hs_url = hc_url r (proj_instance (cn_source c)), hs_events = eventsForBehavior b n,
         hs_ref = ref, hs_token = token, hs_mark = ''specwire-managed''\<rparr> cred]"
      using c w' w2 w1 by simp
    show "ce_ensure_hook (hc_env r) (cw_calls w') = Inr res" using c w' w2 w1 by simp
    show "cw_store w' = (cw_store w)\<lparr>ob_control := (with_secrets t (cw_control w))\<lparr>cb_hooks := rows\<rparr>\<rparr>"
      using c w' w2 w1 rows(1) by simp
    show "hk_signing h = Some (hs_ref \<lparr>hs_url = hc_url r (proj_instance (cn_source c)), hs_events = eventsForBehavior b n,
         hs_ref = ref, hs_token = token, hs_mark = ''specwire-managed''\<rparr>)"
      using rows(6) resolved_joined [OF res] ws by simp
    show "Vault_Resolve GetSecretRecord (ci_unseal v) (hs_ref \<lparr>hs_url = hc_url r (proj_instance (cn_source c)),
         hs_events = eventsForBehavior b n, hs_ref = ref, hs_token = token, hs_mark = ''specwire-managed''\<rparr>) t =
       Inr (hs_token \<lparr>hs_url = hc_url r (proj_instance (cn_source c)), hs_events = eventsForBehavior b n,
         hs_ref = ref, hs_token = token, hs_mark = ''specwire-managed''\<rparr>)"
      using res by simp
  qed (use v rows w' in simp_all)
qed

lemma ActivateHookRoute_endpoints:
  "ActivateHookRoute i route db = Inr (stored, db') \<Longrightarrow> cb_endpoints db' = cb_endpoints db"
  by (auto simp: ActivateHookRoute_def upsertHookRouteTx_def write_route_def Let_def err_simps disable_routes_def
      split: if_splits option.splits)

lemma GetHookByProject_cong:
  "cb_hooks db' = cb_hooks db \<Longrightarrow> secrets_of db' = secrets_of db \<Longrightarrow> GetHookByProject ws i p db' = GetHookByProject ws i p db"
  by (simp add: GetHookByProject_def GetHook_def split: option.split)

lemma EnsureManagedResource_control: "EnsureManagedResource i r db = Inr (stored, db') \<Longrightarrow> ob_control db' = ob_control db"
  by (erule EnsureManagedResource_D) simp_all

lemma EnsureManagedResource_kept:
  "EnsureManagedResource i r db = Inr (stored, db') \<Longrightarrow> \<exists>m \<in> set (ob_resources db'). resource_key m = resource_key r"
  by (erule EnsureManagedResource_D) (auto dest: find_SomeD)

text \<open>
  C20: a publication that returns made one call of the provider, which was accepted, for the connection of the
  flow. The hook stored for the source project is active, is the one the provider named, and its reference
  resolves in the vault to the token the provider was given; the active route of the version leads to it and
  no other version of the flow has one; and the hook is among the resources kept of the connection.
\<close>

theorem activation_installs_hook:
  assumes run: "activate_input_flow r v w = (Inr u, w')" and ok: "control_ok (cw_control w)"
    and cipher: "pred_option opens (ce_vault (hc_env r))"
  shows "\<exists>f c i spec cred res k h route.
     GetFlow (fv_workspace v) (fv_flow v) (cb_flows (cw_control w)) = Inr f \<and>
     GetConnection (fv_workspace v) (fl_connection f) (cw_control w) = Inr c \<and>
     cw_calls w' = cw_calls w @ [CallEnsureHook i (provider_project c) spec cred] \<and>
     ce_ensure_hook (hc_env r) (cw_calls w') = Inr res \<and>
     GetHookByProject (cn_workspace c) (proj_instance (cn_source c)) (proj_external (cn_source c)) (cw_control w') = Inr h \<and>
     hk_external h = hx_external res \<and> hk_status h = HookActive \<and> hk_signing h = Some (hs_ref spec) \<and>
     ce_vault (hc_env r) = Some k \<and>
     Vault_Resolve GetSecretRecord (ci_unseal k) (hs_ref spec) (secrets_of (cw_control w')) = Inr (hs_token spec) \<and>
     route \<in> set (cb_routes (cw_control w')) \<and> hr_hook route = hk_id h \<and> hr_status route = HookActive \<and>
     hr_workspace route = fv_workspace v \<and> hr_flow route = fv_flow v \<and> hr_version route = fv_version v \<and>
     (\<forall>s \<in> set (cb_routes (cw_control w')). enabled s \<and> same_flow s route \<longrightarrow> hr_version s = fv_version v) \<and>
     (\<exists>m \<in> set (ob_resources (cw_store w')). mr_kind m = ResourceHook \<and> mr_workspace m = fv_workspace v \<and> mr_connection m = cn_id c \<and>
        mr_instance m = proj_instance (cn_source c) \<and> mr_external m = hk_external h)"
proof -
  have aead: "\<And>k. ce_vault (hc_env r) = Some k \<Longrightarrow> opens k" using cipher by simp
  obtain f c n b w1 h w2 route db where
    flow: "GetFlow (fv_workspace v) (fv_flow v) (cb_flows (cw_control w)) = Inr f"
      "GetConnection (fv_workspace v) (fl_connection f) (cw_control w) = Inr c" and
    hook: "ensureHook r c n b w = (Inr h, w1)"
    and act: "ActivateHookRoute [] (new_route (ce_fresh (hc_env r) (cw_next w1)) v c b h) (cw_control w1) = Inr (route, db)"
    and w2: "w2 = set_control db (w1\<lparr>cw_next := cw_next w1 + 2\<rparr>)"
    and res: "\<exists>x o'. EnsureManagedResource [] (hook_resource r (ce_fresh (hc_env r) (cw_next w1 + 1)) v c h route) (cw_store w2) = Inr (x, o') \<and>
                    w' = w2\<lparr>cw_store := o'\<rparr>"
    using run by (auto simp: activate_input_flow_def seq_Inr on_control_Inr on_store_Inr)
  obtain i spec cred res k t rows where h:
    "cw_calls w1 = cw_calls w @ [CallEnsureHook i (provider_project c) spec cred]"
    "ce_ensure_hook (hc_env r) (cw_calls w1) = Inr res" "ce_vault (hc_env r) = Some k"
    "cw_store w1 = (cw_store w)\<lparr>ob_control := (with_secrets t (cw_control w))\<lparr>cb_hooks := rows\<rparr>\<rparr>" "control_ok (cw_control w1)"
    "GetHookByProject (cn_workspace c) (proj_instance (cn_source c)) (proj_external (cn_source c)) (cw_control w1) = Inr h"
    "hk_external h = hx_external res" "hk_status h = HookActive" "hk_signing h = Some (hs_ref spec)"
    "Vault_Resolve GetSecretRecord (ci_unseal k) (hs_ref spec) t = Inr (hs_token spec)"
    by (rule ensureHook_D [OF hook ok aead]) (assumption | rule that)+
  have kept: "\<exists>m \<in> set (ob_resources (cw_store w')). mr_kind m = ResourceHook \<and> mr_workspace m = fv_workspace v \<and> mr_connection m = cn_id c \<and>
        mr_instance m = proj_instance (cn_source c) \<and> mr_external m = hk_external h"
    using res by (fastforce dest!: EnsureManagedResource_kept simp: resource_key_def hook_resource_def)
  note a = ActivateHookRoute_D [OF act h(5)]
  have w': "cw_control w' = db" "cw_calls w' = cw_calls w1" using res w2 by (auto dest: EnsureManagedResource_control)
  have ep: "cb_endpoints db = cb_endpoints (cw_control w1)" using act by (rule ActivateHookRoute_endpoints)
  obtain x where x: "x \<in> set (cb_routes db)" "route_key x = route_key (new_route (ce_fresh (hc_env r) (cw_next w1)) v c b h)"
    "hr_hook x = hk_id h" "hr_status x = HookActive" using a(3) by (auto simp: new_route_def or_default_def)
  have x': "hr_workspace x = fv_workspace v" "hr_flow x = fv_flow v" "hr_version x = fv_version v"
    using x(2) by (simp_all add: route_key_def new_route_def)
  have one: "hr_version s = fv_version v" if "s \<in> set (cb_routes db)" "enabled s" "same_flow s x" for s
    using a(2) [OF that(1,2)] that(3) a(5,6) x' by (simp add: same_flow_def new_route_def)
  have found: "GetHookByProject (cn_workspace c) (proj_instance (cn_source c)) (proj_external (cn_source c)) db = Inr h"
    using h(6) by (simp add: GetHookByProject_cong [OF a(8)] ep)
  have t: "secrets_of db = t" unfolding ep using h(4) by simp
  show ?thesis
    unfolding w'
    by (rule exI [of _ f], rule exI [of _ c], rule exI [of _ i], rule exI [of _ spec], rule exI [of _ cred], rule exI [of _ res], rule exI [of _ k],
        rule exI [of _ h], rule exI [of _ x], unfold t, intro conjI ballI impI; (elim conjE)?)
      (rule flow h(1,2,3,7,8,9,10) kept found x(1,3,4) x' one; assumption)+
qed

section \<open>A publication that failed\<close>

text \<open>No hook is stored for the project, and the alias of its token is taken.\<close>

definition hook_stuck :: "connection \<Rightarrow> control_db \<Rightarrow> bool" where
  "hook_stuck c db \<longleftrightarrow>
     (\<exists>e. GetHookByProject (cn_workspace c) (proj_instance (cn_source c)) (proj_external (cn_source c)) db = Inl e \<and>
          err_is e ErrNotFound) \<and>
     (\<exists>row \<in> set (st_rows (secrets_of db)). secret_workspace (rec_ref row) = cn_workspace c \<and> secret_alias (rec_ref row) = hook_alias c)"

lemma GetHookByProject_NotFound:
  "GetHookByProject ws i p db = Inl e \<Longrightarrow> err_is e ErrNotFound"
  by (auto simp: GetHookByProject_def GetHook_def split: option.splits)

lemma alias_taken:
  assumes "row \<in> set (st_rows t)" "secret_workspace (rec_ref row) = secret_workspace ref"
    "secret_alias (rec_ref row) = secret_alias ref" "secret_id ref \<notin> row_id ` set (st_rows t)"
  shows "Vault_Put (PutSecretRecord now) seal nonce ref m t \<noteq> Inr t'"
  using assms by (force simp: Vault_Put_def PutSecretRecord_def err_simps list_ex_iff split: if_splits)

lemma fresh_token_taken:
  assumes stuck: "hook_stuck c (cw_control w)"
    and fresh: "\<And>k. ce_fresh (hc_env r) k \<notin> row_id ` set (st_rows (secrets_of (cw_control w)))"
  obtains e n where "fresh_token r c w = (Inl e, w\<lparr>cw_next := n\<rparr>)"
proof (cases "fresh_token r c w")
  case (Pair x w')
  obtain row where row: "row \<in> set (st_rows (secrets_of (cw_control w)))" "secret_workspace (rec_ref row) = cn_workspace c"
    "secret_alias (rec_ref row) = hook_alias c" using stuck by (auto simp: hook_stuck_def)
  have taken: "Vault_Put (PutSecretRecord now) seal nonce (signing_ref (ce_fresh (hc_env r) k) (cn_workspace c) (hook_alias c)) m
      (secrets_of (cw_control w)) \<noteq> Inr t'" for now seal nonce k m t'
    using row fresh [of k] by (intro alias_taken) (auto simp: signing_ref_def)
  show thesis
  proof (cases x)
    case (Inl e)
    then have "\<exists>n. w' = w\<lparr>cw_next := n\<rparr>" using Pair
      by (auto simp: fresh_token_def seq_Inl newSigningToken_run Let_def put_secret_Inl split: sum.splits option.splits)
    then show thesis using that Pair Inl by blast
  next
    case (Inr y)
    then show thesis using Pair taken
      by (auto simp: fresh_token_def seq_Inr newSigningToken_run Let_def put_secret_Inr split: sum.splits option.splits)
  qed
qed

lemma ensureHook_stuck:
  assumes stuck: "hook_stuck c (cw_control w)"
    and fresh: "\<And>k. ce_fresh (hc_env r) k \<notin> row_id ` set (st_rows (secrets_of (cw_control w)))"
  shows "\<exists>e n'. ensureHook r c n b w = (Inl e, w\<lparr>cw_next := n'\<rparr>)"
proof (cases "GetGitLabInstance (cn_workspace c) (proj_instance (cn_source c)) (cb_endpoints (cw_control w))")
  case (Inl g)
  then have "ensureHook r c n b w = (Inl (EErr g), w\<lparr>cw_next := cw_next w\<rparr>)"
    by (simp add: ensureHook_def seq_def branch_def ask_control_def ask_store_def ask_def)
  then show ?thesis by blast
next
  case (Inr i)
  have "known_hook c w = (Inr None, w)" using stuck by (auto simp: known_hook_Inr hook_stuck_def)
  moreover obtain e m where "fresh_token r c w = (Inl e, w\<lparr>cw_next := m\<rparr>)"
    using fresh_token_taken [OF stuck fresh] by blast
  ultimately have "ensureHook r c n b w = (Inl e, w\<lparr>cw_next := m\<rparr>)"
    using Inr by (simp add: ensureHook_def hook_token_def ask_control_def ask_store_def ask_def seq_def branch_def)
  then show ?thesis by blast
qed

lemma failed_hook_stuck:
  assumes run: "ensureHook r c n b w = (Inl e, w1)" and called: "cw_calls w1 \<noteq> cw_calls w"
    and first: "GetHookByProject (cn_workspace c) (proj_instance (cn_source c)) (proj_external (cn_source c)) (cw_control w) = Inl e0"
  shows "hook_stuck c (cw_control w1)"
proof -
  have known: "known_hook c w = (Inr None, w)" using first GetHookByProject_NotFound by (simp add: known_hook_Inr)
  have "\<exists>ref token w2. fresh_token r c w = (Inr (ref, token), w2) \<and> cw_store w1 = cw_store w2"
  proof (cases "fresh_token r c w")
    case (Pair x w2)
    show ?thesis
    proof (cases x)
      case (Inl g)
      then have "cw_calls w2 = cw_calls w"
        using Pair by (auto simp: fresh_token_def seq_Inl newSigningToken_run Let_def put_secret_Inl split: sum.splits option.splits)
      then show ?thesis using run called known Pair Inl
        by (auto simp: ensureHook_def hook_token_def seq_Inl ask_control_Inl)
    next
      case (Inr y)
      then show ?thesis using run called known Pair
        by (auto simp: ensureHook_def hook_token_def seq_Inl seq_Inr ask_control_Inl on_control_Inl
            dest!: resolveGitLabCredential_world ensure_provider_hook_D split: if_splits)
    qed
  qed
  then obtain ref token w2 where tok: "fresh_token r c w = (Inr (ref, token), w2)" and w1: "cw_store w1 = cw_store w2" by blast
  from tok obtain v t m where w2: "w2 = set_control (with_secrets t (cw_control w)) (w\<lparr>cw_next := m\<rparr>)"
    "\<exists>row \<in> set (st_rows t). secret_workspace (rec_ref row) = cn_workspace c \<and> secret_alias (rec_ref row) = hook_alias c"
    by (rule fresh_token_D) blast
  have "GetHookByProject (cn_workspace c) (proj_instance (cn_source c)) (proj_external (cn_source c)) (cw_control w1) = Inl e0"
    using first w1 w2(1) by (auto simp: GetHookByProject_def GetHook_def split: option.splits)
  then show ?thesis using w1 w2 GetHookByProject_NotFound by (auto simp: hook_stuck_def)
qed

lemma activate_stuck:
  assumes "GetFlow (fv_workspace v) (fv_flow v) (cb_flows (cw_control w)) = Inr f"
    and "GetConnection (fv_workspace v) (fl_connection f) (cw_control w) = Inr c"
    and stuck: "hook_stuck c (cw_control w)"
    and fresh: "\<And>k. ce_fresh (hc_env r) k \<notin> row_id ` set (st_rows (secrets_of (cw_control w)))"
  shows "\<exists>e w'. activate_input_flow r v w = (Inl e, w') \<and> cw_calls w' = cw_calls w \<and> cw_store w' = cw_store w"
proof (cases "inputNode r (fv_workspace v) (fv_graph v)")
  case (Inl g)
  then show ?thesis using assms(1,2)
    by (simp add: activate_input_flow_def ask_control_def ask_store_def ask_def seq_def branch_def)
next
  case (Inr x)
  obtain n b where x: "x = (n, b)" by (cases x)
  obtain e n' where "ensureHook r c n b w = (Inl e, w\<lparr>cw_next := n'\<rparr>)" using ensureHook_stuck [OF stuck fresh] by blast
  then show ?thesis using assms(1,2) Inr x
    by (simp add: activate_input_flow_def ask_control_def ask_store_def ask_def seq_def branch_def)
qed

text \<open>Two connections whose hook is the same: one workspace and one source project.\<close>

definition same_hook :: "connection \<Rightarrow> connection \<Rightarrow> bool" where
  "same_hook c c' \<longleftrightarrow> cn_workspace c' = cn_workspace c \<and> proj_instance (cn_source c') = proj_instance (cn_source c) \<and>
     proj_external (cn_source c') = proj_external (cn_source c)"

text \<open>
  C21: when the provider, or the table, rejects the first hook of a project, no later publication makes one.
  Whatever the program did meanwhile, in every state in which the project still has no hook and the vault
  has kept its references, the publication of a version of any flow whose connection reads this project
  ends in an error before the provider is asked, and changes neither the tables nor what was sent; new
  identifiers do not help, since the alias of the first token is taken. (Only a hook stored under another
  alias, as the legacy bridge stores one, lets publications through again.)
\<close>

theorem failed_hook_not_retried:
  assumes run: "ensureHook r c n b w = (Inl e, w1)" and called: "cw_calls w1 \<noteq> cw_calls w"
    and first: "GetHookByProject (cn_workspace c) (proj_instance (cn_source c)) (proj_external (cn_source c)) (cw_control w) = Inl e0"
    and flow: "GetFlow (fv_workspace v) (fv_flow v) (cb_flows (cw_control w2)) = Inr f"
      "GetConnection (fv_workspace v) (fl_connection f) (cw_control w2) = Inr c'" "same_hook c c'"
    and still: "GetHookByProject (cn_workspace c) (proj_instance (cn_source c)) (proj_external (cn_source c)) (cw_control w2) = Inl e1"
    and kept: "rec_ref ` set (st_rows (secrets_of (cw_control w1))) \<subseteq> rec_ref ` set (st_rows (secrets_of (cw_control w2)))"
    and fresh: "\<forall>k. ce_fresh (hc_env r') k \<notin> row_id ` set (st_rows (secrets_of (cw_control w2)))"
  shows "\<exists>e' w3. activate_input_flow r' v w2 = (Inl e', w3) \<and> cw_calls w3 = cw_calls w2 \<and> cw_store w3 = cw_store w2"
proof -
  have "hook_stuck c (cw_control w1)" using run called first by (rule failed_hook_stuck)
  then obtain ref where "ref \<in> rec_ref ` set (st_rows (secrets_of (cw_control w1)))" "secret_workspace ref = cn_workspace c"
    "secret_alias ref = hook_alias c" by (auto simp: hook_stuck_def)
  then obtain row where "row \<in> set (st_rows (secrets_of (cw_control w2)))" "secret_workspace (rec_ref row) = cn_workspace c"
    "secret_alias (rec_ref row) = hook_alias c" using kept by auto
  then have "hook_stuck c' (cw_control w2)"
    using still flow(3) GetHookByProject_NotFound [OF still] by (auto simp: hook_stuck_def same_hook_def hook_alias_def)
  then show ?thesis using fresh by (intro activate_stuck [OF flow(1,2)]) auto
qed

section \<open>Rotating\<close>

lemma rotate_provider_hook_D:
  assumes "rotate_provider_hook r c i spec cred w = (res, w')"
  shows "res = ce_ensure_hook (hc_env r) (cw_calls w @ [CallEnsureHook i (provider_project c) spec cred]) \<and>
         cw_store w' = cw_store w \<and> cw_calls w' = cw_calls w @ [CallEnsureHook i (provider_project c) spec cred]"
proof -
  let ?w = "w\<lparr>cw_calls := cw_calls w @ [CallEnsureHook i (provider_project c) spec cred]\<rparr>"
  show ?thesis
  proof (cases "ce_ensure_hook (hc_env r) (cw_calls ?w)")
    case (Inl e)
    obtain trail n where "recordAudit (hc_env r) (hook_audit c ''provider.gitlab.hook.rotate'' ''rotate_hook'' (hook_failed e)) ?w =
        (Inr (), ?w\<lparr>cw_audit := trail, cw_next := n\<rparr>)" using recordAudit_simps by blast
    then show ?thesis using assms Inl by (auto simp: rotate_provider_hook_def)
  qed (use assms in \<open>auto simp: rotate_provider_hook_def\<close>)
qed

lemma rollback_rotation_D:
  assumes "rollback_rotation r c i oldRef oldToken cred e w = (res, w')"
  shows "(\<exists>e'. res = Inl e') \<and> cw_store w' = cw_store w \<and>
         cw_calls w' = cw_calls w @ [CallEnsureHook i (provider_project c) (rotation_spec r c oldRef oldToken) cred]"
proof -
  let ?w = "w\<lparr>cw_calls := cw_calls w @ [CallEnsureHook i (provider_project c) (rotation_spec r c oldRef oldToken) cred]\<rparr>"
  show ?thesis
  proof (cases "ce_ensure_hook (hc_env r) (cw_calls ?w)")
    case (Inl e2)
    obtain trail n where "recordAudit (hc_env r) (hook_audit c ''provider.gitlab.hook.rotate.rollback'' ''rollback_hook_rotation''
        (hook_failed e2)) ?w = (Inr (), ?w\<lparr>cw_audit := trail, cw_next := n\<rparr>)" using recordAudit_simps by blast
    then show ?thesis using assms Inl by (auto simp: rollback_rotation_def)
  qed (use assms in \<open>auto simp: rollback_rotation_def\<close>)
qed

lemma newSigningToken_calls: "newSigningToken env w = (res, w') \<Longrightarrow> w' = w\<lparr>cw_next := cw_next w + 1\<rparr>"
  by (simp add: newSigningToken_run)

lemma get_secret_Inl [simp]:
  "get_secret v ref w = (Inl e, w') \<longleftrightarrow>
     (\<exists>g. e = EErr g \<and> Vault_Resolve GetSecretRecord (ci_unseal v) ref (secrets_of (cw_control w)) = Inl g \<and> w' = w)"
  by (auto simp: get_secret_def ask_control_Inl)

text \<open>A rotation that reached the provider stored the new token first, under an identifier it drew.\<close>

lemma rotate_with_D:
  assumes "rotate_with r vault ws c h oldRef w = (res, w')" "cw_calls w' \<noteq> cw_calls w"
  obtains oldToken i cred newRef newToken t n nonce w1 m where
    "Vault_Resolve GetSecretRecord (ci_unseal vault) oldRef (secrets_of (cw_control w)) = Inr oldToken"
    "secret_id newRef = ce_fresh (hc_env r) m" "secret_workspace newRef = ws"
    "Vault_Put (PutSecretRecord (ce_now (hc_env r))) (ci_seal vault) nonce newRef newToken (secrets_of (cw_control w)) = Inr t"
    "cw_store w1 = (cw_store w)\<lparr>ob_control := with_secrets t (cw_control w)\<rparr>" "cw_calls w1 = cw_calls w"
    "seq (rotate_provider_hook r c i (rotation_spec r c newRef newToken) cred)
       (\<lambda>x. store_rotation r c i h oldRef oldToken newRef cred x) w1 = (res, w')"
proof -
  obtain oldToken i cred newToken newRef m n where 1:
    "Vault_Resolve GetSecretRecord (ci_unseal vault) oldRef (secrets_of (cw_control w)) = Inr oldToken"
    "secret_id newRef = ce_fresh (hc_env r) m" "secret_workspace newRef = ws"
    and to: "rotate_to r vault c i h cred oldRef oldToken newRef newToken (w\<lparr>cw_next := n\<rparr>) = (res, w')"
    using assms
    by (auto simp: rotate_with_def ask_control_Inl elim!: seq_cases
        dest!: resolveGitLabCredential_world newSigningToken_calls)
      (rule that; simp add: signing_ref_def)
  from to show thesis unfolding rotate_to_def
  proof (cases rule: seq_cases)
    case (stopped e)
    then show thesis using assms(2) by (auto simp: put_secret_Inl)
  next
    case (continued u w2)
    from continued(1) obtain t where
      "Vault_Put (PutSecretRecord (ce_now (hc_env r))) (ci_seal vault) (ce_nonce (hc_env r) n) newRef newToken
        (secrets_of (cw_control w)) = Inr t"
      "cw_store w2 = (cw_store w)\<lparr>ob_control := with_secrets t (cw_control w)\<rparr>" "cw_calls w2 = cw_calls w"
      by (auto simp: put_secret_Inr)
    with 1 continued(2) show thesis by (intro that)
  qed
qed

lemma GetHookByProject_D:
  assumes "GetHookByProject ws i p db = Inr h" "control_ok db"
  obtains g where "g \<in> set (cb_hooks db)" "hook_key g = (ws, i, p)" "hook_key h = (ws, i, p)"
    "h = g\<lparr>hk_signing := joined_ref ws (secrets_of db) (hk_signing g)\<rparr>"
    "List.find (\<lambda>x. hook_key x = (ws, i, p)) (cb_hooks db) = Some g"
    "List.find (\<lambda>x. hk_workspace x = ws \<and> hk_id x = hk_id g) (cb_hooks db) = Some g"
proof -
  obtain g where g: "List.find (\<lambda>g. hook_key g = (ws, i, p)) (cb_hooks db) = Some g" "GetHook ws (hk_id g) db = Inr h"
    using assms(1) by (auto simp: GetHookByProject_def split: option.splits)
  have in_g: "g \<in> set (cb_hooks db)" "hook_key g = (ws, i, p)" using find_SomeD [OF g(1)] by auto
  have only: "List.find (\<lambda>x. hk_workspace x = ws \<and> hk_id x = hk_id g) (cb_hooks db) = Some g"
    using in_g hooks.clash_only [of "cb_hooks db" _ g] assms(2)
    by (intro find_only) (auto simp: control_ok_def hook_clash_def hook_key_def)
  then have h: "h = g\<lparr>hk_signing := joined_ref ws (secrets_of db) (hk_signing g)\<rparr>" using g(2) by (simp add: GetHook_def)
  then have "hook_key h = (ws, i, p)" using in_g(2) by (simp add: hook_key_def)
  then show thesis using that in_g g(1) only h by blast
qed

lemma joined_ref_SomeD: "joined_ref ws t ref = Some s \<Longrightarrow> joined_ref ws t' ref = joined_ref ws t' (secretRefID (Some s))"
  by (auto simp: joined_ref_def secretRefID_def id_ref_def split: option.splits if_splits)

lemma rotated_kept:
  assumes "GetHookByProject ws i p db = Inr h" "hk_signing h = Some oldRef" "control_ok db"
    and "Vault_Resolve GetSecretRecord unseal oldRef (secrets_of db) = Inr m"
    and put: "Vault_Put (PutSecretRecord now) seal nonce newRef token (secrets_of db) = Inr t"
    and fresh: "secret_id newRef \<notin> row_id ` set (st_rows (secrets_of db))"
  shows "\<exists>h'. GetHookByProject ws i p (with_secrets t db) = Inr h' \<and> hk_signing h' = Some oldRef \<and>
              Vault_Resolve GetSecretRecord unseal oldRef t = Inr m"
proof -
  obtain g where g: "h = g\<lparr>hk_signing := joined_ref ws (secrets_of db) (hk_signing g)\<rparr>"
    "List.find (\<lambda>x. hook_key x = (ws, i, p)) (cb_hooks db) = Some g"
    "List.find (\<lambda>x. hk_workspace x = ws \<and> hk_id x = hk_id g) (cb_hooks db) = Some g"
    using GetHookByProject_D [OF assms(1,3)] by blast
  have ws: "secret_workspace oldRef = ws" using GetHookByProject_signing [OF assms(1,2)] .
  obtain row where "row \<in> set (st_rows (secrets_of db))" "row_id row = secret_id oldRef"
    using assms(4) by (auto simp: Vault_Resolve_def GetSecretRecord_def err_simps split: option.splits dest!: find_SomeD)
  then have "secret_id oldRef \<noteq> secret_id newRef" using fresh by (metis imageI)
  then have m: "Vault_Resolve GetSecretRecord unseal oldRef t = Inr m" using sql.Put_keeps_others [OF put] assms(4) by simp
  have "joined_ref ws t (hk_signing g) = joined_ref ws t (secretRefID (Some oldRef))"
    using g(1) assms(2) joined_ref_SomeD [of ws "secrets_of db" "hk_signing g"] by simp
  also have "\<dots> = Some oldRef" using resolved_joined [OF m] ws by simp
  finally have j: "joined_ref ws t (hk_signing g) = Some oldRef" .
  then show ?thesis using m g(2,3) by (simp add: GetHookByProject_def GetHook_def)
qed

text \<open>
  C22: whenever the last call a rotation made of the provider was accepted, with an identifier for the hook,
  the hook stored for the project refers to the very token of that call, whether the new token was
  installed or the old one restored: provider and vault never part.
\<close>

theorem rotation_agrees:
  assumes run: "RotateSigningToken r ws cn w = (res, w')" and called: "cw_calls w' \<noteq> cw_calls w"
    and accepted: "ce_ensure_hook (hc_env r) (cw_calls w') = Inr x" and named: "\<not> blank (hx_external x)"
    and ok: "control_ok (cw_control w)" and cipher: "pred_option opens (ce_vault (hc_env r))"
    and fresh: "\<forall>k. ce_fresh (hc_env r) k \<notin> row_id ` set (st_rows (secrets_of (cw_control w)))"
  shows "\<exists>c i spec cred k h. GetConnection ws cn (cw_control w) = Inr c \<and>
     last (cw_calls w') = CallEnsureHook i (provider_project c) spec cred \<and>
     GetHookByProject ws (proj_instance (cn_source c)) (proj_external (cn_source c)) (cw_control w') = Inr h \<and>
     hk_signing h = Some (hs_ref spec) \<and> ce_vault (hc_env r) = Some k \<and>
     Vault_Resolve GetSecretRecord (ci_unseal k) (hs_ref spec) (secrets_of (cw_control w')) = Inr (hs_token spec)"
proof -
  have aead: "\<And>k. ce_vault (hc_env r) = Some k \<Longrightarrow> opens k" using cipher by simp
  obtain c h oldRef k where c: "GetConnection ws cn (cw_control w) = Inr c"
    and h: "GetHookByProject ws (proj_instance (cn_source c)) (proj_external (cn_source c)) (cw_control w) = Inr h"
    and s: "hk_signing h = Some oldRef" and k: "ce_vault (hc_env r) = Some k"
    and rot: "rotate_with r k ws c h oldRef w = (res, w')"
  proof -
    from run called obtain c h where ch: "GetConnection ws cn (cw_control w) = Inr c"
      "GetHookByProject ws (proj_instance (cn_source c)) (proj_external (cn_source c)) (cw_control w) = Inr h"
      "(case hk_signing h of None \<Rightarrow> stop (EErr (GErr ErrInvalid ''Hook has no signing secret to rotate''))
       | Some oldRef \<Rightarrow> (case ce_vault (hc_env r) of
              None \<Rightarrow> stop (EErr (GErr ErrInvalid ''Hook secret store is not configured''))
            | Some vault \<Rightarrow> rotate_with r vault ws c h oldRef)) w = (res, w')"
      by (auto simp: RotateSigningToken_def ask_control_Inl elim!: seq_cases)
    then show thesis using called that by (cases "hk_signing h"; cases "ce_vault (hc_env r)") auto
  qed
  obtain oldToken i cred newRef newToken t nonce w1 m where old: "Vault_Resolve GetSecretRecord (ci_unseal k) oldRef (secrets_of (cw_control w)) = Inr oldToken"
    and newID: "secret_id newRef = ce_fresh (hc_env r) m" and nws: "secret_workspace newRef = ws"
    and put: "Vault_Put (PutSecretRecord (ce_now (hc_env r))) (ci_seal k) nonce newRef newToken (secrets_of (cw_control w)) = Inr t"
    and w1: "cw_store w1 = (cw_store w)\<lparr>ob_control := with_secrets t (cw_control w)\<rparr>" "cw_calls w1 = cw_calls w"
    and prov: "seq (rotate_provider_hook r c i (rotation_spec r c newRef newToken) cred)
       (\<lambda>x. store_rotation r c i h oldRef oldToken newRef cred x) w1 = (res, w')"
    by (rule rotate_with_D [OF rot called]) (rule that)
  have new: "Vault_Resolve GetSecretRecord (ci_unseal k) newRef t = Inr newToken"
    using sql.Put_then_Resolve [OF _ put] aead [OF k] by (simp add: opens_def)
  from prov show ?thesis
  proof (cases rule: seq_cases)
    case (stopped e)
    then show ?thesis using rotate_provider_hook_D [OF stopped(1)] accepted by simp
  next
    case (continued y w2)
    note d = rotate_provider_hook_D [OF continued(1)]
    have w2: "cw_control w2 = with_secrets t (cw_control w)" using d w1 by simp
    have y: "\<not> blank (hx_external y)"
    proof
      assume "blank (hx_external y)"
      then show False using continued(2) d accepted named by (auto simp: store_rotation_def)
    qed
    let ?h = "h\<lparr>hk_external := hx_external y, hk_signing := Some newRef, hk_status := HookActive\<rparr>"
    have "hook_key h = (ws, proj_instance (cn_source c), proj_external (cn_source c))"
      using h ok by (rule GetHookByProject_D)
    then have key: "hk_workspace h = ws" "hk_instance h = proj_instance (cn_source c)" "hk_project h = proj_external (cn_source c)"
      by (simp_all add: hook_key_def)
    show ?thesis
    proof (cases "UpsertHook [] ?h (cw_control w2)")
      case (Inl e)
      then have "on_control (UpsertHook [] ?h) w2 = (Inl (EErr e), w2)" by (simp add: on_control_Inl)
      then have "rollback_rotation r c i oldRef oldToken cred (EErr e) w2 = (res, w')"
        using continued(2) y by (simp add: store_rotation_def)
      note b = rollback_rotation_D [OF this]
      obtain h' where "GetHookByProject ws (proj_instance (cn_source c)) (proj_external (cn_source c)) (with_secrets t (cw_control w)) = Inr h'"
        "hk_signing h' = Some oldRef" "Vault_Resolve GetSecretRecord (ci_unseal k) oldRef t = Inr oldToken"
        using rotated_kept [OF h s ok old put] fresh newID by auto
      then show ?thesis using b w2 c k
        by (intro exI [of _ c] exI [of _ i] exI [of _ "rotation_spec r c oldRef oldToken"] exI [of _ cred] exI [of _ k] exI [of _ h'])
          (simp add: rotation_spec_def)
    next
      case (Inr p)
      obtain h' db where up: "UpsertHook [] ?h (cw_control w2) = Inr (h', db)" using Inr by (cases p) simp
      have w': "cw_store w' = (cw_store w2)\<lparr>ob_control := db\<rparr>" "cw_calls w' = cw_calls w2"
      proof -
        have "branch (on_control (UpsertHook [] ?h)) (rollback_rotation r c i oldRef oldToken cred)
           (\<lambda>stored. seq (recordAudit (hc_env r) (hook_audit c ''provider.gitlab.hook.rotate'' ''rotate_hook''
            [(''outcome'', VStr ''succeeded''), (''external_id'', VStr (hx_external y)),
             (''request_id'', VStr (hx_request y))])) (\<lambda>_. pass stored)) w2 = (res, w')"
          using continued(2) y by (simp add: store_rotation_def)
        moreover have "on_control (UpsertHook [] ?h) w2 = (Inr h', set_control db w2)" using up by (simp add: on_control_Inr)
        ultimately have "seq (recordAudit (hc_env r) (hook_audit c ''provider.gitlab.hook.rotate'' ''rotate_hook''
            [(''outcome'', VStr ''succeeded''), (''external_id'', VStr (hx_external y)),
             (''request_id'', VStr (hx_request y))])) (\<lambda>_. pass h') (set_control db w2) = (res, w')" by simp
        then show "cw_store w' = (cw_store w2)\<lparr>ob_control := db\<rparr>" "cw_calls w' = cw_calls w2"
          by (auto elim!: seq_cases dest!: recordAudit_D)
      qed
      obtain rows where u: "db = (cw_control w2)\<lparr>cb_hooks := rows\<rparr>"
        "GetHookByProject ws (proj_instance (cn_source c)) (proj_external (cn_source c)) db = Inr h'"
        "hk_signing h' = joined_ref ws (secrets_of (cw_control w2)) (secretRefID (Some newRef))"
        using UpsertHook_D [OF up] ok w2 key by auto
      then show ?thesis using d w1 w2 w' c k new resolved_joined [OF new] nws
        by (intro exI [of _ c] exI [of _ i] exI [of _ "rotation_spec r c newRef newToken"] exI [of _ cred] exI [of _ k] exI [of _ h'])
          (simp add: rotation_spec_def)
    qed
  qed
qed

section \<open>A publication and a rotation\<close>

text \<open>A control plane with one project, and a provider that accepts every hook.\<close>

definition sample_cipher :: cipher where
  "sample_cipher = \<lparr>ci_seal = \<lambda>n m a. CHR ''t'' # m, ci_unseal = \<lambda>n c a. Some (tl c)\<rparr>"

definition sample_control_env :: control_env where
  "sample_control_env = \<lparr>ce_now = 5, ce_fresh = \<lambda>n. CHR ''n'' # dec_nat n, ce_nonce = \<lambda>_. ''0'', ce_random = \<lambda>_. Inr ''x'',
     ce_vault = Some sample_cipher, ce_get_project = \<lambda>_. Inl ESkip, ce_ensure_label = \<lambda>_. Inl ESkip,
     ce_ensure_hook = \<lambda>calls. Inr \<lparr>hx_external = ''17'', hx_created = True, hx_adopted = False, hx_request = []\<rparr>,
     ce_list_projects = \<lambda>_. Inl ESkip, ce_create_project = \<lambda>_. Inl ESkip, ce_ensure_repository = \<lambda>_. Inl ESkip,
     ce_ensure_resource = \<lambda>_. Inl ESkip, ce_probe = \<lambda>_. Inl ESkip\<rparr>"

definition sample_reconciler :: hook_reconciler where
  "sample_reconciler = \<lparr>hc_env = sample_control_env, hc_behaviors = sample_catalog, hc_catalog = None, hc_credential = None,
     hc_url = \<lambda>i. ''u''\<rparr>"

definition sample_gitlab :: endpoint where
  "sample_gitlab = \<lparr>ep_id = ''g'', ep_workspace = ''w'', ep_name = ''GitLab'', ep_base_url = ''u'', ep_external = [],
     ep_credential = None, ep_status = EndpointActive, ep_capabilities = []\<rparr>"

definition sample_control_world :: control_world where
  "sample_control_world = \<lparr>cw_store = \<lparr>ob_control = sample_control\<lparr>cb_hooks := [], cb_routes := [],
        cb_endpoints := (cb_endpoints sample_control)\<lparr>ed_gitlab := [sample_gitlab]\<rparr>\<rparr>,
      ob_resources = [], ob_operations = [], ob_checkpoints = []\<rparr>,
     cw_audit = \<lparr>ab_auth = \<lparr>db_workspaces = [], db_accounts = [], db_passwords = [], db_memberships = [], db_bindings = [], db_sessions = [], db_providers = [], db_identities = []\<rparr>, ab_rows = []\<rparr>, cw_calls = [], cw_next = 0\<rparr>"

definition sample_version :: flow_version where
  "sample_version = \<lparr>fv_id = ''v1'', fv_workspace = ''w'', fv_flow = ''f1'',
     fv_version = 1, fv_status = FlowPublished, fv_graph = draft_graph, fv_plan = [], fv_behaviors = [],
     fv_models = [], fv_published = None, fv_published_by = []\<rparr>"

text \<open>The steps of a publication, one computation each; the entries of the audit trail stay as they are.\<close>

definition sample_input :: "flow_node \<times> behavior" where
  "sample_input = (case first_input sample_catalog (graph_nodes draft_graph) of Some x \<Rightarrow> x | None \<Rightarrow> (hd (graph_nodes draft_graph), bh_def_gitlab_push_hook))"

lemma sample_input: "inputNode sample_reconciler ''w'' draft_graph = Inr sample_input"
proof -
  have "first_input sample_catalog (graph_nodes draft_graph) \<noteq> None" by code_simp
  then show ?thesis by (auto simp: inputNode_def sample_reconciler_def sample_input_def)
qed

definition after_token :: "control_world" where
  "after_token = snd (hook_token sample_reconciler sample_connection None sample_control_world)"

definition sample_ref :: secret_ref where
  "sample_ref = signing_ref ''n1'' ''w'' ''hook/g/7''"

lemma sample_token: "fst (hook_token sample_reconciler sample_connection None sample_control_world) = Inr (sample_ref, ''whsec_eA=='')"
  "cw_calls after_token = []" "cw_next after_token = 3"
  by code_simp+

lemma sample_reads: "GetGitLabInstance ''w'' ''g'' (cb_endpoints (cw_control sample_control_world)) = Inr sample_gitlab"
  "GetHookByProject ''w'' ''g'' ''7'' (cw_control sample_control_world) = fail ErrNotFound ''Hook for project 7''"
  by code_simp+

lemma sample_no_credential:
  "hc_credential r = None \<Longrightarrow> resolveGitLabCredential r sample_connection w = (Inr None, w)"
  by (simp add: resolveGitLabCredential_def seq_def branch_def hook_credential_ref_def sample_connection_def
    source_ref_def resolve_credential_def ask_control_def ask_store_def ask_def)

lemma sample_after_token:
  "(cw_store after_token)\<lparr>ob_control := db\<rparr> = (cw_store sample_control_world)\<lparr>ob_control := db\<rparr>"
proof -
  have "cw_store after_token = (cw_store sample_control_world)\<lparr>ob_control := cw_control after_token\<rparr>" by code_simp
  then show ?thesis by (metis onboarding_db.update_convs(1) onboarding_db.surjective onboarding_db.simps(1-4))
qed

definition sample_hooked :: "hook \<times> control_db" where
  "sample_hooked = (case UpsertHook ''n4'' (managed_hook [] sample_connection ''17'' sample_ref) (cw_control after_token) of
     Inr x \<Rightarrow> x | Inl e \<Rightarrow> (sample_hook, sample_control))"

lemma sample_upsert:
  "UpsertHook ''n4'' (managed_hook [] sample_connection ''17'' sample_ref) (cw_control after_token) = Inr sample_hooked"
proof -
  have "\<not> isl (UpsertHook ''n4'' (managed_hook [] sample_connection ''17'' sample_ref) (cw_control after_token))" by code_simp
  then show ?thesis by (auto simp: sample_hooked_def isl_def split: sum.splits)
qed

definition sample_routed :: "hook_route \<times> control_db" where
  "sample_routed = (case ActivateHookRoute [] (new_route ''n5'' sample_version sample_connection (snd sample_input) (fst sample_hooked))
     (snd sample_hooked) of Inr x \<Rightarrow> x | Inl e \<Rightarrow> (sample_route [] 1, sample_control))"

lemma sample_activate:
  "ActivateHookRoute [] (new_route ''n5'' sample_version sample_connection (snd sample_input) (fst sample_hooked)) (snd sample_hooked) =
     Inr sample_routed"
proof -
  have "\<not> isl (ActivateHookRoute [] (new_route ''n5'' sample_version sample_connection (snd sample_input) (fst sample_hooked)) (snd sample_hooked))"
    by code_simp
  then show ?thesis by (auto simp: sample_routed_def isl_def split: sum.splits)
qed

lemma sample_hooked_fields: "hk_id (fst sample_hooked) = ''n4''" "hk_external (fst sample_hooked) = ''17''"
  by code_simp+

lemma sample_routed_fields: "hr_id (fst sample_routed) = ''n5''" "hr_status (fst sample_routed) = HookActive"
  by code_simp+

lemma sample_routed_db: "cb_connections (snd sample_routed) = [sample_connection]" "fd_workspaces (cb_flows (snd sample_routed)) = [''w'']"
  by code_simp+

lemma sample_resource:
  "\<exists>x. EnsureManagedResource [] (hook_resource sample_reconciler ''n6'' sample_version sample_connection (fst sample_hooked) (fst sample_routed))
     \<lparr>ob_control = snd sample_routed, ob_resources = [], ob_operations = [], ob_checkpoints = []\<rparr> = Inr x"
proof -
  have "\<not> blank ''17''" by code_simp
  then show ?thesis
  by (simp add: EnsureManagedResource_def hook_resource_def sample_hooked_fields sample_routed_fields sample_routed_db sample_version_def
     sample_connection_def source_ref_def requireWorkspaceID_def or_default_def resource_connection_def sample_reconciler_def Let_def
     marshalJSON_def require_row_def insert_row_def requireID_def)
qed

lemma sample_ensure: "\<exists>w. ensureHook sample_reconciler sample_connection (fst sample_input) (snd sample_input) sample_control_world =
    (Inr (fst sample_hooked), w) \<and> cw_store w = (cw_store sample_control_world)\<lparr>ob_control := snd sample_hooked\<rparr> \<and> cw_next w = 5"
proof -
  let ?c = sample_connection and ?r = sample_reconciler
  have id: "cn_workspace ?c = ''w''" "proj_instance (cn_source ?c) = ''g''" "proj_external (cn_source ?c) = ''7''"
    by (simp_all add: sample_connection_def source_ref_def)
  have known: "known_hook ?c sample_control_world = (Inr None, sample_control_world)"
    using sample_reads(2) by (simp add: known_hook_Inr id)
  have token: "hook_token ?r ?c None sample_control_world = (Inr (sample_ref, ''whsec_eA==''), after_token)"
    using sample_token(1) by (simp add: after_token_def prod_eq_iff)
  define spec where "spec = \<lparr>hs_url = hc_url ?r ''g'', hs_events = eventsForBehavior (snd sample_input) (fst sample_input),
    hs_ref = sample_ref, hs_token = ''whsec_eA=='', hs_mark = ''specwire-managed''\<rparr>"
  define res where "res = \<lparr>hx_external = ''17'', hx_created = True, hx_adopted = False, hx_request = []\<rparr>"
  have answer: "ce_ensure_hook (hc_env ?r) calls = Inr res" for calls
    by (simp add: sample_reconciler_def sample_control_env_def res_def)
  obtain w1 where w1: "ensure_provider_hook ?r ?c sample_gitlab spec None after_token = (Inr res, w1)"
    "cw_store w1 = cw_store after_token" "cw_next w1 = 4"
    using sample_token(3) by (simp add: ensure_provider_hook_def answer recordAudit_run branch_def seq_def)
  have fresh: "ce_fresh (hc_env ?r) 4 = ''n4''" by code_simp
  have up: "on_control (UpsertHook ''n4'' (managed_hook [] ?c ''17'' sample_ref)) (w1\<lparr>cw_next := 5\<rparr>) =
      (Inr (fst sample_hooked), set_control (snd sample_hooked) (w1\<lparr>cw_next := 5\<rparr>))"
    using sample_upsert w1(2) by (auto simp: on_control_Inr intro!: exI [of _ "snd sample_hooked"])
  have none: "hc_credential ?r = None" by (simp add: sample_reconciler_def)
  show ?thesis
    using known token sample_no_credential [OF none, of after_token] w1 up fresh sample_after_token sample_reads(1)
    by (simp add: ensureHook_def ask_control_def ask_store_def ask_def seq_def branch_def id spec_def [symmetric]) (simp add: res_def)
qed

lemma sample_activation:
  "\<exists>w. activate_input_flow sample_reconciler sample_version sample_control_world = (Inr (), w) \<and> cw_control w = snd sample_routed"
proof -
  obtain w1 where w1: "ensureHook sample_reconciler sample_connection (fst sample_input) (snd sample_input) sample_control_world =
    (Inr (fst sample_hooked), w1)" "cw_store w1 = (cw_store sample_control_world)\<lparr>ob_control := snd sample_hooked\<rparr>" "cw_next w1 = 5"
    using sample_ensure by blast
  have fresh: "ce_fresh (hc_env sample_reconciler) 5 = ''n5''" "ce_fresh (hc_env sample_reconciler) 6 = ''n6''" by code_simp+
  have f: "GetFlow ''w'' ''f1'' (cb_flows (cw_control sample_control_world)) = Inr (hd (fd_flows (cb_flows sample_control)))" by code_simp
  have c: "GetConnection ''w'' ''c'' (cw_control sample_control_world) = Inr sample_connection" by code_simp
  have fc: "fl_connection (hd (fd_flows (cb_flows sample_control))) = ''c''" by code_simp
  have v: "fv_workspace sample_version = ''w''" "fv_flow sample_version = ''f1''" "fv_graph sample_version = draft_graph"
    by (simp_all add: sample_version_def)
  obtain x where x: "EnsureManagedResource [] (hook_resource sample_reconciler ''n6'' sample_version sample_connection (fst sample_hooked) (fst sample_routed))
     \<lparr>ob_control = snd sample_routed, ob_resources = [], ob_operations = [], ob_checkpoints = []\<rparr> = Inr x"
    using sample_resource by blast
  have store: "(cw_store sample_control_world)\<lparr>ob_control := db\<rparr> = \<lparr>ob_control = db, ob_resources = [], ob_operations = [], ob_checkpoints = []\<rparr>" for db
    by (simp add: sample_control_world_def)
  have act: "on_control (ActivateHookRoute [] (new_route ''n5'' sample_version sample_connection (snd sample_input) (fst sample_hooked))) (w1\<lparr>cw_next := 6\<rparr>) =
      (Inr (fst sample_routed), set_control (snd sample_routed) (w1\<lparr>cw_next := 6\<rparr>))"
    using sample_activate w1(2) by (auto simp: on_control_Inr intro!: exI [of _ "snd sample_routed"])
  have res: "on_store (EnsureManagedResource [] (hook_resource sample_reconciler ''n6'' sample_version sample_connection (fst sample_hooked) (fst sample_routed)))
     (w1\<lparr>cw_store := (cw_store sample_control_world)\<lparr>ob_control := snd sample_routed\<rparr>, cw_next := 7\<rparr>) =
     (Inr (fst x), w1\<lparr>cw_next := 7, cw_store := snd x\<rparr>)"
    using x by (auto simp: on_store_Inr store intro!: exI [of _ "snd x"])
  have "ob_control (snd x) = snd sample_routed" using x EnsureManagedResource_control [of _ _ _ "fst x" "snd x"] by fastforce
  then show ?thesis
    using f c fc v sample_input w1 fresh act res
    by (simp add: activate_input_flow_def ask_control_def ask_store_def ask_def seq_def branch_def split_beta)
qed

theorem activation_installs_hook_witness:
  "\<exists>w (h :: hook). activate_input_flow sample_reconciler sample_version sample_control_world = (Inr (), w) \<and>
     (\<exists>route :: hook_route. route \<in> set (cb_routes (cw_control w)) \<and> hr_hook route = hk_id h \<and> hr_status route = HookActive \<and>
        hr_flow route = ''f1'') \<and> hk_external h = ''17''"
proof -
  obtain w where w: "activate_input_flow sample_reconciler sample_version sample_control_world = (Inr (), w)"
    using sample_activation by blast
  have ok: "control_ok (cw_control sample_control_world)"
    using sample_control_ok by (simp add: sample_control_world_def control_parts no_clash_def one_version_def)
  have aead: "pred_option opens (ce_vault (hc_env sample_reconciler))"
    by (simp add: sample_reconciler_def sample_control_env_def sample_cipher_def opens_def)
  have ext: "ce_ensure_hook (hc_env sample_reconciler) calls = Inr x \<Longrightarrow> hx_external x = ''17''" for calls x
    by (auto simp: sample_reconciler_def sample_control_env_def)
  have f: "fv_flow sample_version = ''f1''" by (simp add: sample_version_def)
  obtain res and h :: hook and route :: hook_route where "ce_ensure_hook (hc_env sample_reconciler) (cw_calls w) = Inr res" "hk_external h = hx_external res"
    "route \<in> set (cb_routes (cw_control w))" "hr_hook route = hk_id h" "hr_status route = HookActive" "hr_flow route = fv_flow sample_version"
    using activation_installs_hook [OF w ok aead] by (elim exE conjE) (rule that; assumption)
  then show ?thesis using w ext f by (intro exI [of _ w] exI [of _ h]) auto
qed

definition refusing_reconciler :: hook_reconciler where
  "refusing_reconciler = sample_reconciler\<lparr>hc_env := sample_control_env\<lparr>ce_ensure_hook := \<lambda>_. Inl (EProvider ''gitlab'' ''hook'' ErrorTimeout [] None)\<rparr>\<rparr>"

definition renewed_reconciler :: hook_reconciler where
  "renewed_reconciler = sample_reconciler\<lparr>hc_env := sample_control_env\<lparr>ce_fresh := \<lambda>n. CHR ''m'' # dec_nat n\<rparr>\<rparr>"

theorem failed_hook_not_retried_witness:
  "\<exists>e1 w1 e2 w2. ensureHook refusing_reconciler sample_connection (fst sample_input) (snd sample_input) sample_control_world = (Inl e1, w1) \<and>
     length (cw_calls w1) = 1 \<and>
     activate_input_flow renewed_reconciler sample_version w1 = (Inl e2, w2) \<and> cw_calls w2 = cw_calls w1"
proof -
  let ?c = sample_connection and ?r = refusing_reconciler
  have id: "cn_workspace ?c = ''w''" "proj_instance (cn_source ?c) = ''g''" "proj_external (cn_source ?c) = ''7''"
    by (simp_all add: sample_connection_def source_ref_def)
  have token: "hook_token ?r ?c None sample_control_world = (Inr (sample_ref, ''whsec_eA==''), after_token)"
  proof -
    have "hook_token ?r ?c None sample_control_world = hook_token sample_reconciler ?c None sample_control_world"
      by (simp add: hook_token_def fresh_token_def refusing_reconciler_def sample_reconciler_def sample_control_env_def newSigningToken_def
          put_secret_def)
    then show ?thesis using sample_token(1) by (simp add: after_token_def prod_eq_iff)
  qed
  have known: "known_hook ?c sample_control_world = (Inr None, sample_control_world)"
    using sample_reads(2) by (simp add: known_hook_Inr id)
  have none: "resolveGitLabCredential ?r ?c after_token = (Inr None, after_token)"
    by (rule sample_no_credential) (simp add: refusing_reconciler_def sample_reconciler_def)
  have refuse: "ce_ensure_hook (hc_env ?r) calls = Inl (EProvider ''gitlab'' ''hook'' ErrorTimeout [] None)" for calls
    by (simp add: refusing_reconciler_def)
  have "\<exists>w1. ensureHook ?r ?c (fst sample_input) (snd sample_input) sample_control_world =
      (Inl (EProvider ''gitlab'' ''hook'' ErrorTimeout [] None), w1) \<and> length (cw_calls w1) = 1 \<and> cw_store w1 = cw_store after_token"
    using known token none sample_reads(1) sample_token(2)
    by (simp add: ensureHook_def ask_control_def ask_store_def ask_def seq_def branch_def id ensure_provider_hook_def refuse recordAudit_run)
  then obtain e w1 where 1: "ensureHook ?r ?c (fst sample_input) (snd sample_input) sample_control_world = (Inl e, w1)"
    "length (cw_calls w1) = 1" "cw_store w1 = cw_store after_token" by blast
  have fresh: "\<forall>k. ce_fresh (hc_env renewed_reconciler) k \<notin> row_id ` set (st_rows (secrets_of (cw_control w1)))"
  proof -
    have "map row_id (st_rows (secrets_of (cw_control after_token))) = [''n1'']" by code_simp
    then have "row_id ` set (st_rows (secrets_of (cw_control w1))) = {''n1''}" using 1(3) by (metis set_map list.set(1,2))
    then show ?thesis by (simp add: renewed_reconciler_def)
  qed
  have ws: "fv_workspace sample_version = ''w''" "fv_flow sample_version = ''f1''" by (simp_all add: sample_version_def)
  have flow: "GetFlow (fv_workspace sample_version) (fv_flow sample_version) (cb_flows (cw_control w1)) = Inr (hd (fd_flows (cb_flows sample_control)))"
    "GetConnection (fv_workspace sample_version) (fl_connection (hd (fd_flows (cb_flows sample_control)))) (cw_control w1) = Inr ?c"
    unfolding 1(3) ws by code_simp+
  have none_yet: "GetHookByProject (cn_workspace ?c) (proj_instance (cn_source ?c)) (proj_external (cn_source ?c)) (cw_control w1) =
      fail ErrNotFound ''Hook for project 7''" unfolding 1(3) id by code_simp
  have "cw_calls w1 \<noteq> cw_calls sample_control_world" using 1(2) by (auto simp: sample_control_world_def)
  moreover have "GetHookByProject (cn_workspace ?c) (proj_instance (cn_source ?c)) (proj_external (cn_source ?c)) (cw_control sample_control_world) =
      fail ErrNotFound ''Hook for project 7''" using sample_reads(2) id by simp
  ultimately show ?thesis
    using failed_hook_not_retried [OF 1(1) _ _ flow _ none_yet subset_refl fresh] 1(1,2) by (auto simp: same_hook_def)
qed


definition hooked_world :: control_world where
  "hooked_world = sample_control_world\<lparr>cw_store := (cw_store sample_control_world)\<lparr>ob_control := snd sample_hooked\<rparr>\<rparr>"

definition rotated_ref :: secret_ref where
  "rotated_ref = signing_ref ''m1'' ''w'' ''hook/g/7/rotation-m2''"

definition rotated_world :: control_world where
  "rotated_world = snd (put_secret (hc_env renewed_reconciler) sample_cipher rotated_ref ''whsec_eA=='' (hooked_world\<lparr>cw_next := 3\<rparr>))"

lemma rotated_put: "fst (put_secret (hc_env renewed_reconciler) sample_cipher rotated_ref ''whsec_eA=='' (hooked_world\<lparr>cw_next := 3\<rparr>)) = Inr ()"
  by code_simp

definition rotated_hook :: hook where
  "rotated_hook = (fst sample_hooked)\<lparr>hk_external := ''17'', hk_signing := Some rotated_ref, hk_status := HookActive\<rparr>"

lemma rotated_upsert: "\<not> isl (UpsertHook [] rotated_hook (cw_control rotated_world))"
  by code_simp

lemma hooked_reads:
  "GetConnection ''w'' ''c'' (cw_control hooked_world) = Inr sample_connection"
  "GetGitLabInstance ''w'' ''g'' (cb_endpoints (cw_control hooked_world)) = Inr sample_gitlab"
  "hk_signing (fst sample_hooked) = Some sample_ref"
  "Vault_Resolve GetSecretRecord (ci_unseal sample_cipher) sample_ref (secrets_of (cw_control hooked_world)) = Inr ''whsec_eA==''"
  "GetHookByProject ''w'' ''g'' ''7'' (cw_control hooked_world) = Inr (fst sample_hooked)"
  by code_simp+

lemma sample_rotation:
  "\<exists>h w. RotateSigningToken renewed_reconciler ''w'' ''c'' hooked_world = (Inr h, w) \<and> length (cw_calls w) = 1"
proof -
  let ?c = sample_connection and ?r = renewed_reconciler
  have id: "cn_workspace ?c = ''w''" "proj_instance (cn_source ?c) = ''g''" "proj_external (cn_source ?c) = ''7''"
    by (simp_all add: sample_connection_def source_ref_def)
  have env: "ce_vault (hc_env ?r) = Some sample_cipher" "ce_random (hc_env ?r) n = Inr ''x''"
    "ce_ensure_hook (hc_env ?r) calls = Inr \<lparr>hx_external = ''17'', hx_created = True, hx_adopted = False, hx_request = []\<rparr>" for n calls
    by (simp_all add: renewed_reconciler_def sample_control_env_def)
  have drawn: "ce_fresh (hc_env ?r) (Suc 0) = ''m1''" "ce_fresh (hc_env ?r) (Suc (Suc 0)) = ''m2''" by code_simp+
  have b: "b64_encode ''x'' = ''eA==''" "\<not> blank ''17''" "cw_next hooked_world = 0" "secret_alias sample_ref = ''hook/g/7''" "cw_calls rotated_world = []"
    by code_simp+
  have none: "resolveGitLabCredential ?r ?c w = (Inr None, w)" for w
    by (rule sample_no_credential) (simp add: renewed_reconciler_def sample_reconciler_def)
  have put: "put_secret (hc_env ?r) sample_cipher rotated_ref ''whsec_eA=='' (hooked_world\<lparr>cw_next := Suc (Suc (Suc 0))\<rparr>) = (Inr (), rotated_world)"
    using rotated_put by (simp add: rotated_world_def prod_eq_iff numeral_3_eq_3)
  have ref: "signing_ref ''m1'' ''w'' (''hook/g/7'' @ ''/rotation-'' @ ''m2'') = rotated_ref" by (simp add: rotated_ref_def)
  obtain h db where "UpsertHook [] rotated_hook (cw_control rotated_world) = Inr (h, db)"
    using rotated_upsert by (cases "UpsertHook [] rotated_hook (cw_control rotated_world)") auto
  then have up: "on_control (UpsertHook [] rotated_hook) w = (Inr h, set_control db w)" if "cw_store w = cw_store rotated_world" for w
    using that by (simp add: on_control_Inr)
  show ?thesis
    using hooked_reads put ref b drawn
    by (simp add: RotateSigningToken_def rotate_with_def rotate_to_def rotate_provider_hook_def store_rotation_def id env none newSigningToken_run
        ask_control_def ask_store_def ask_def get_secret_def seq_def branch_def rotated_hook_def [symmetric] up recordAudit_run)
qed

theorem rotation_agrees_witness:
  "\<exists>h w (spec :: hook_spec) (k :: cipher). RotateSigningToken renewed_reconciler ''w'' ''c'' hooked_world = (Inr h, w) \<and>
     Vault_Resolve GetSecretRecord (ci_unseal k) (hs_ref spec) (secrets_of (cw_control w)) = Inr (hs_token spec)"
proof -
  obtain h w where w: "RotateSigningToken renewed_reconciler ''w'' ''c'' hooked_world = (Inr h, w)" "length (cw_calls w) = 1"
    using sample_rotation by blast
  have "cw_calls hooked_world = []" by code_simp
  then have called: "cw_calls w \<noteq> cw_calls hooked_world" using w(2) by auto
  have answer: "ce_ensure_hook (hc_env renewed_reconciler) (cw_calls w) = Inr \<lparr>hx_external = ''17'', hx_created = True, hx_adopted = False, hx_request = []\<rparr>"
    by (simp add: renewed_reconciler_def sample_control_env_def)
  have named: "\<not> blank (hx_external \<lparr>hx_external = ''17'', hx_created = True, hx_adopted = False, hx_request = []\<rparr>)" by code_simp
  have ok: "control_ok (cw_control hooked_world)"
  proof -
    have "control_ok (cw_control after_token)" unfolding control_parts no_clash_def one_version_def by code_simp
    then show ?thesis using UpsertHook_ok [of _ _ _ "fst sample_hooked" "snd sample_hooked"] sample_upsert
      by (simp add: hooked_world_def)
  qed
  have cipher: "pred_option opens (ce_vault (hc_env renewed_reconciler))"
    by (simp add: renewed_reconciler_def sample_control_env_def sample_cipher_def opens_def)
  have "map row_id (st_rows (secrets_of (cw_control hooked_world))) = [''n1'']" by code_simp
  then have "row_id ` set (st_rows (secrets_of (cw_control hooked_world))) = {''n1''}" by (metis set_map list.set(1,2))
  then have fresh: "\<forall>k. ce_fresh (hc_env renewed_reconciler) k \<notin> row_id ` set (st_rows (secrets_of (cw_control hooked_world)))"
    by (simp add: renewed_reconciler_def)
  show ?thesis using rotation_agrees [OF w(1) called answer named ok cipher fresh] w(1) by (elim exE conjE) blast
qed

end
