(* ===== verification/ControlServices.thy ===== *)
theory ControlServices
  imports OnboardingRuns HookReconciler
begin

text \<open>
  The services of the control plane together: a run of onboarding, of an activation, a pause or a rotation is,
  on the tables, a history of the operations of the store, wherever it stops.
\<close>

context quiet_control
begin

lemma newSigningToken_R: "keeps R (newSigningToken env)"
  by (simp add: keeps_def newSigningToken_run R_next split: sum.split)

lemma token_R: "keeps R (hook_token r c known)" and credential_R: "keeps R (resolveGitLabCredential r c)"
  unfolding hook_token_def fresh_token_def resolveGitLabCredential_def Let_def
  by (intro quiet_rules newSigningToken_R)+

lemma known_hook_R: "keeps R (known_hook c)"
  unfolding known_hook_def by (intro quiet_rules)

lemma upsert_hook_R: "keeps R (on_control (UpsertHook i h))"
  by (rule on_control_R) (rule control_step.hook)

lemma pause_R: "keeps R (pause_input_flow v)"
  unfolding pause_input_flow_def by (intro quiet_rules run_control_R) (rule control_step.retire)

end

context control_relation
begin

lemma ensureHook_R: "keeps R (ensureHook r c n b)"
  unfolding ensureHook_def ensure_provider_hook_def
  by (intro control_rules known_hook_R pair_R token_R credential_R upsert_hook_R)

lemma activate_R: "keeps R (activate_input_flow r v)"
  unfolding activate_input_flow_def
  by (intro control_rules pair_R ensureHook_R on_control_R on_store_R)
    (auto intro: control_step.activate onboarding_step.resource)

lemma rotate_R: "keeps R (RotateSigningToken r ws i)"
  unfolding RotateSigningToken_def rotate_with_def rotate_to_def store_rotation_def rollback_rotation_def
    rotate_provider_hook_def
  by (intro control_rules credential_R newSigningToken_R upsert_hook_R)

end

text \<open>
  So the invariants of the store hold across the services: wherever a run of one stops, the tables are as
  well-formed as before, the managed resources there were are still there as they were, and no call is
  taken back.
\<close>

lemma control_services_history:
  assumes ok: "onboarding_ok (cw_store w)"
    and run: "w' \<in> {snd (Onboard svc q w), snd (activate_input_flow r v w), snd (pause_input_flow v w),
                    snd (RotateSigningToken r ws i w)}"
  shows "onboarding_history (cw_store w) (cw_store w') \<and> onboarding_ok (cw_store w') \<and>
         prefix (ob_resources (cw_store w)) (ob_resources (cw_store w')) \<and> prefix (cw_calls w) (cw_calls w')"
proof -
  have "onboarding_history (cw_store w) (cw_store w')"
    using run control_runs.Onboard_steps control_runs.activate_R control_runs.pause_R control_runs.rotate_R
    by (auto simp: keeps_def)
  moreover have "prefix (cw_calls w) (cw_calls w')"
    using run control_calls.Onboard_steps control_calls.activate_R control_calls.pause_R control_calls.rotate_R
    by (auto simp: keeps_def)
  ultimately show ?thesis using ok onboarding_history_ok onboarding_history_resources by blast
qed

text \<open>
  What a pause leaves: it never fails, since the only error of the operation, that there is no route, is the
  one it looks for; no route of the version is enabled afterwards, and every other route is as it was.
\<close>

definition route_of :: "flow_version \<Rightarrow> hook_route \<Rightarrow> bool" where
  "route_of v r \<longleftrightarrow> hr_workspace r = fv_workspace v \<and> hr_flow r = fv_flow v \<and> (fv_version v = 0 \<or> hr_version r = fv_version v)"

theorem pause_retires:
  assumes "pause_input_flow v w = (res, w')"
  shows "res = Inr () \<and> cw_calls w' = cw_calls w \<and>
    cb_routes (cw_control w') = map (\<lambda>r. if route_of v r then r\<lparr>hr_status := HookDisabled\<rparr> else r) (cb_routes (cw_control w))"
proof (cases "list_ex (route_of v) (cb_routes (cw_control w))")
  case True
  then have "DisableHookRoutesForFlow (fv_workspace v) (fv_flow v) (fv_version v) (cw_control w) =
      Inr (disable_routes (route_of v) (cw_control w))"
    by (simp add: DisableHookRoutesForFlow_def route_of_def [abs_def] Let_def)
  then have "run_control (DisableHookRoutesForFlow (fv_workspace v) (fv_flow v) (fv_version v)) w =
      (Inr (), set_control (disable_routes (route_of v) (cw_control w)) w)"
    by (simp add: run_control_Inr)
  then show ?thesis using assms by (auto simp: pause_input_flow_def disable_routes_def update_rows_def)
next
  case False
  then have d: "DisableHookRoutesForFlow (fv_workspace v) (fv_flow v) (fv_version v) (cw_control w) =
      fail ErrNotFound (''Hook route for flow '' @ fv_flow v)"
    by (simp add: DisableHookRoutesForFlow_def route_of_def [abs_def] Let_def)
  obtain e w1 where e: "run_control (DisableHookRoutesForFlow (fv_workspace v) (fv_flow v) (fv_version v)) w = (Inl e, w1)"
    using d by (cases "run_control (DisableHookRoutesForFlow (fv_workspace v) (fv_flow v) (fv_version v)) w"; cases "fst (run_control (DisableHookRoutesForFlow (fv_workspace v) (fv_flow v) (fv_version v)) w)")
      (auto simp: run_control_Inr)
  then have e': "e = EErr (GErr ErrNotFound (''Hook route for flow '' @ fv_flow v))" "w1 = w"
    using d by (auto simp: run_control_Inl)
  have "str_contains (exec_text e) (sentinel_text ErrNotFound)"
    unfolding e' exec_text.simps err_text.simps str_contains_def by (rule sublist_append_rightI)
  then have "res = Inr () \<and> w' = w" using assms e e' by (auto simp: pause_input_flow_def)
  moreover have "map (\<lambda>r. if route_of v r then r\<lparr>hr_status := HookDisabled\<rparr> else r) (cb_routes (cw_control w)) = cb_routes (cw_control w)"
    using False by (intro map_idI) (auto simp: list_ex_iff)
  ultimately show ?thesis by simp
qed

end
