(* ===== verification/OIDCLogin.thy ===== *)
theory OIDCLogin
  imports Accounts Vault Signature Effects
begin

text \<open>
  The login through an OpenID Connect provider: the state of an authorization under way
  (\<open>store/oauth.go\<close>), and the start and the callback of a login (\<open>auth/oidc.go\<close>). SHA-256, the AEAD
  that seals the code verifier and the parsing of the authorization URL are functions of
  \<open>oidc_env\<close>; the identity provider answers from the exchanges asked of it so far, and every exchange is
  recorded in the world. Random bytes, identifiers and instants are arguments.
\<close>

section \<open>Encodings\<close>

text \<open>\<open>base64.RawURLEncoding\<close>: the alphabet of URLs, no padding.\<close>

definition b64_url_char :: "char \<Rightarrow> char" where
  "b64_url_char c = (if c = CHR ''+'' then CHR ''-'' else if c = CHR ''/'' then CHR ''_'' else c)"

definition b64_raw_url :: "string \<Rightarrow> string" where
  "b64_raw_url s = map b64_url_char (filter (\<lambda>c. c \<noteq> CHR ''='') (b64_encode s))"

definition randomToken :: "bytes \<Rightarrow> string" where
  "randomToken b = b64_raw_url b"

definition hashToken :: "(bytes \<Rightarrow> bytes) \<Rightarrow> string \<Rightarrow> string" where
  "hashToken sha256 token = b64_raw_url (sha256 token)"

definition hexShort :: "bytes \<Rightarrow> string" where
  "hexShort v = take 16 (b64_raw_url v)"

definition codeChallenge :: "(bytes \<Rightarrow> bytes) \<Rightarrow> string \<Rightarrow> string" where
  "codeChallenge sha256 verifier = b64_raw_url (sha256 verifier)"

definition syntheticEmail :: "(bytes \<Rightarrow> bytes) \<Rightarrow> ID \<Rightarrow> string \<Rightarrow> string" where
  "syntheticEmail sha256 providerID subject =
     ''pending-'' @ hexShort (sha256 (providerID @ '':'' @ subject)) @ ''@accounts.invalid''"

fun oidc_firstNonEmpty :: "string list \<Rightarrow> string" where
  "oidc_firstNonEmpty [] = ''External account''"
| "oidc_firstNonEmpty (v # vs) = (if blank v then oidc_firstNonEmpty vs else trim_space v)"

text \<open>\<open>url.Values.Encode\<close> of values set once each: sorted by key, escaped.\<close>

definition query_plain :: "char \<Rightarrow> bool" where
  "query_plain c \<longleftrightarrow>
     (let n = byte_value c
      in 48 \<le> n \<and> n \<le> 57 \<or> 65 \<le> n \<and> n \<le> 90 \<or> 97 \<le> n \<and> n \<le> 122 \<or>
         c = CHR ''-'' \<or> c = CHR ''_'' \<or> c = CHR ''.'' \<or> c = CHR ''~'')"

definition upper_hex :: "nat \<Rightarrow> char" where
  "upper_hex n = (if n < 10 then char_of (48 + n) else char_of (55 + n))"

definition QueryEscape :: "string \<Rightarrow> string" where
  "QueryEscape s = concat (map (\<lambda>c.
     if query_plain c then [c] else if c = CHR '' '' then ''+''
     else [CHR ''%'', upper_hex (byte_value c div 16), upper_hex (byte_value c mod 16)]) s)"

fun join_with :: "string \<Rightarrow> string list \<Rightarrow> string" where
  "join_with sep [] = []"
| "join_with sep [s] = s"
| "join_with sep (s # t # ss) = s @ sep @ join_with sep (t # ss)"

definition query_encode :: "(string \<times> string) list \<Rightarrow> string" where
  "query_encode values =
     join_with ''&'' (map (\<lambda>(k, v). QueryEscape k @ ''='' @ QueryEscape v) (sort_key fst values))"

section \<open>The state of an authorization\<close>

record oauth_state =
  os_id :: ID
  os_provider :: ID
  os_hash :: string
  os_nonce :: string
  os_verifier_nonce :: bytes
  os_verifier :: bytes
  os_redirect :: string
  os_expires :: gtime

record oauth_row =
  or_state :: oauth_state
  or_consumed :: "gtime option"

definition oauth_clash :: "oauth_row \<Rightarrow> oauth_row \<Rightarrow> bool" where
  "oauth_clash a b \<longleftrightarrow>
     os_id (or_state a) = os_id (or_state b) \<or> os_hash (or_state a) = os_hash (or_state b)"

interpretation oauth_by_id: unique_key "\<lambda>r. os_id (or_state r)" oauth_clash
  by unfold_locales (simp add: oauth_clash_def)

interpretation oauth_by_hash: unique_key "\<lambda>r. os_hash (or_state r)" oauth_clash
  by unfold_locales (simp add: oauth_clash_def)

definition SaveOAuthState :: "ID list \<Rightarrow> oauth_state \<Rightarrow> oauth_row list \<Rightarrow> gerr + oauth_row list" where
  "SaveOAuthState providers s rows =
     (if os_id s = [] \<or> os_provider s = [] \<or> os_hash s = [] \<or> os_nonce s = [] \<or> os_redirect s = [] \<or>
         IsZero (os_expires s)
      then fail ErrInvalid ''incomplete OAuth state''
      else if os_verifier_nonce s = [] \<or> os_verifier s = []
      then fail ErrInvalid ''OAuth code verifier must be encrypted''
      else bind_result (require_row ''save OAuth state'' (os_provider s \<in> set providers)) (\<lambda>_.
        insert_row ''save OAuth state'' oauth_clash \<lparr>or_state = s, or_consumed = None\<rparr> rows))"

definition ConsumeOAuthState ::
  "string \<Rightarrow> gtime \<Rightarrow> oauth_row list \<Rightarrow> gerr + oauth_state \<times> oauth_row list" where
  "ConsumeOAuthState stateHash now rows =
     (if stateHash = [] then fail ErrInvalid ''OAuth state is required''
      else case List.find (\<lambda>r. os_hash (or_state r) = stateHash \<and> or_consumed r = None) rows of
        None \<Rightarrow> fail ErrNotFound ''OAuth state''
      | Some r \<Rightarrow>
          if \<not> now < os_expires (or_state r) then fail ErrNotFound ''OAuth state expired''
          else Inr (or_state r,
                 update_rows (\<lambda>x. os_id (or_state x) = os_id (or_state r) \<and> or_consumed x = None)
                   (\<lambda>x. x\<lparr>or_consumed := Some now\<rparr>) rows))"

section \<open>The provider\<close>

record oidc_config =
  oc_url :: string
  oc_client :: string
  oc_redirect :: string
  oc_scopes :: "string list"

record oidc_provider =
  op_config :: oidc_config
  op_key :: bytes
  op_ttl :: gtime

record oidc_claims =
  cl_subject :: string
  cl_email :: string
  cl_display :: string

record exchange_request =
  er_code :: string
  er_redirect :: string
  er_verifier :: string
  er_nonce :: string

record oidc_env =
  oe_sha256 :: "bytes \<Rightarrow> bytes"
  oe_seal :: "bytes \<Rightarrow> bytes \<Rightarrow> bytes \<Rightarrow> bytes \<Rightarrow> bytes"
  oe_unseal :: "bytes \<Rightarrow> bytes \<Rightarrow> bytes \<Rightarrow> bytes \<Rightarrow> bytes option"
  oe_with_query :: "string \<Rightarrow> string \<Rightarrow> string option"
  oe_exchange :: "exchange_request list \<Rightarrow> exchange_request \<Rightarrow> exec_err + oidc_claims"

text \<open>The tables, and the exchanges the identity provider was asked for.\<close>

record oidc_world =
  ow_auth :: auth_db
  ow_states :: "oauth_row list"
  ow_exchanges :: "exchange_request list"

record authorization_request =
  az_url :: string
  az_state :: string

record external_login =
  el_account :: account
  el_pending :: bool

definition NewOIDCProvider :: "oidc_config \<Rightarrow> bytes \<Rightarrow> gerr + oidc_provider" where
  "NewOIDCProvider c stateKey =
     (if blank (oc_url c) \<or> blank (oc_client c) \<or> blank (oc_redirect c)
      then fail ErrInvalid ''OIDC authorization URL, client ID and redirect URI are required''
      else if length stateKey \<noteq> 32 then fail ErrInvalid ''OIDC state key must be 32 bytes''
      else let c' = (if oc_scopes c = [] then c\<lparr>oc_scopes := [''openid'', ''profile'', ''email'']\<rparr> else c)
        in Inr \<lparr>op_config = c', op_key = stateKey, op_ttl = 600 * nanoseconds\<rparr>)"

section \<open>The start of a login\<close>

text \<open>What \<open>Begin\<close> draws at random, with the identifier of the state.\<close>

record begin_draw =
  bd_state :: bytes
  bd_nonce :: bytes
  bd_verifier :: bytes
  bd_sealing :: bytes
  bd_id :: ID

definition authorization_query :: "oidc_env \<Rightarrow> oidc_provider \<Rightarrow> begin_draw \<Rightarrow> string" where
  "authorization_query env p d =
     query_encode
       [(''response_type'', ''code''), (''client_id'', oc_client (op_config p)),
        (''redirect_uri'', oc_redirect (op_config p)), (''scope'', join_with '' '' (oc_scopes (op_config p))),
        (''state'', randomToken (bd_state d)), (''nonce'', randomToken (bd_nonce d)),
        (''code_challenge'', codeChallenge (oe_sha256 env) (randomToken (bd_verifier d))),
        (''code_challenge_method'', ''S256'')]"

definition begin_state :: "oidc_env \<Rightarrow> oidc_provider \<Rightarrow> begin_draw \<Rightarrow> gtime \<Rightarrow> ID \<Rightarrow> oauth_state" where
  "begin_state env p d now providerID =
     (let hash = hashToken (oe_sha256 env) (randomToken (bd_state d))
      in \<lparr>os_id = bd_id d, os_provider = providerID, os_hash = hash, os_nonce = randomToken (bd_nonce d),
          os_verifier_nonce = bd_sealing d,
          os_verifier = oe_seal env (op_key p) (bd_sealing d) (randomToken (bd_verifier d)) hash,
          os_redirect = oc_redirect (op_config p), os_expires = now + op_ttl p\<rparr>)"

definition OIDC_Begin ::
  "oidc_env \<Rightarrow> oidc_provider \<Rightarrow> begin_draw \<Rightarrow> gtime \<Rightarrow> ID \<Rightarrow> (oidc_world, authorization_request) proc" where
  "OIDC_Begin env p d now providerID =
     (if providerID = [] then stop (EErr (GErr ErrInvalid ''identity provider id is required''))
      else seq (act (\<lambda>w. bind_result (SaveOAuthState (map ip_id (db_providers (ow_auth w)))
                    (begin_state env p d now providerID) (ow_states w)) (\<lambda>rows.
                  Inr ((), w\<lparr>ow_states := rows\<rparr>)))) (\<lambda>_.
        case oe_with_query env (oc_url (op_config p)) (authorization_query env p d) of
          None \<Rightarrow> stop (EErr (Plain ''parse OIDC authorization URL''))
        | Some url \<Rightarrow> pass \<lparr>az_url = url, az_state = randomToken (bd_state d)\<rparr>))"

section \<open>The callback\<close>

definition pendingEmail :: "oidc_env \<Rightarrow> ID \<Rightarrow> oidc_claims \<Rightarrow> auth_db \<Rightarrow> string" where
  "pendingEmail env providerID claims db =
     (let email = NormalizeEmail (cl_email claims)
      in if email = [] then syntheticEmail (oe_sha256 env) providerID (cl_subject claims)
         else case FindAccountByEmail email db of
           Inl e \<Rightarrow> if err_is e ErrNotFound then email
                    else syntheticEmail (oe_sha256 env) providerID (cl_subject claims)
         | Inr a \<Rightarrow> syntheticEmail (oe_sha256 env) providerID (cl_subject claims))"

text \<open>The instants of a callback and the identifiers it draws.\<close>

record complete_draw =
  cd_now :: gtime
  cd_created :: gtime
  cd_updated :: gtime
  cd_account :: ID
  cd_identity :: ID

definition pending_account :: "oidc_env \<Rightarrow> complete_draw \<Rightarrow> ID \<Rightarrow> oidc_claims \<Rightarrow> auth_db \<Rightarrow> account" where
  "pending_account env d providerID claims db =
     \<lparr>acc_id = cd_account d, acc_email = pendingEmail env providerID claims db,
      acc_display = oidc_firstNonEmpty [cl_display claims, cl_subject claims], acc_status = AccountPending,
      acc_created = cd_created d, acc_updated = cd_updated d\<rparr>"

definition claimed_identity :: "complete_draw \<Rightarrow> ID \<Rightarrow> oidc_claims \<Rightarrow> account \<Rightarrow> external_identity" where
  "claimed_identity d providerID claims a =
     \<lparr>ei_id = cd_identity d, ei_account = acc_id a, ei_provider = providerID, ei_subject = cl_subject claims,
      ei_email = NormalizeEmail (cl_email claims), ei_created = acc_created a\<rparr>"

definition Exchange :: "oidc_env \<Rightarrow> exchange_request \<Rightarrow> (oidc_world, oidc_claims) proc" where
  "Exchange env q w = (oe_exchange env (ow_exchanges w) q, w\<lparr>ow_exchanges := ow_exchanges w @ [q]\<rparr>)"

definition first_login :: "oidc_env \<Rightarrow> complete_draw \<Rightarrow> ID \<Rightarrow> oidc_claims \<Rightarrow> (oidc_world, external_login) proc" where
  "first_login env d providerID claims =
     act (\<lambda>w. let a = pending_account env d providerID claims (ow_auth w);
                  i = claimed_identity d providerID claims a
              in bind_result (CreatePendingExternalAccount (cd_now d) a i (ow_auth w)) (\<lambda>db.
                   Inr (\<lparr>el_account = a, el_pending = True\<rparr>, w\<lparr>ow_auth := db\<rparr>)))"

definition claimed_login ::
  "oidc_env \<Rightarrow> complete_draw \<Rightarrow> ID \<Rightarrow> oidc_claims \<Rightarrow> (oidc_world, external_login) proc" where
  "claimed_login env d providerID claims =
     (if blank (cl_subject claims) then stop (EErr (GErr ErrForbidden ''OIDC subject is required''))
      else branch (ask (\<lambda>w. FindAccountByIdentity providerID (cl_subject claims) (ow_auth w)))
        (\<lambda>e. if exec_is e ErrNotFound then first_login env d providerID claims else stop e)
        (\<lambda>a. pass \<lparr>el_account = a, el_pending = (acc_status a \<noteq> AccountActive)\<rparr>))"

definition invalid_callback :: exec_err where
  "invalid_callback = EErr (GErr ErrForbidden ''invalid OIDC callback state'')"

definition consume_state :: "string \<Rightarrow> gtime \<Rightarrow> (oidc_world, oauth_state) proc" where
  "consume_state stateHash now =
     act (\<lambda>w. bind_result (ConsumeOAuthState stateHash now (ow_states w)) (\<lambda>(s, rows).
       Inr (s, w\<lparr>ow_states := rows\<rparr>)))"

definition OIDC_Complete ::
  "oidc_env \<Rightarrow> oidc_provider \<Rightarrow> complete_draw \<Rightarrow> bool \<Rightarrow> string \<Rightarrow> string \<Rightarrow> (oidc_world, external_login) proc" where
  "OIDC_Complete env p d exchanger code state =
     (if \<not> exchanger \<or> blank code \<or> blank state
      then stop (EErr (GErr ErrInvalid ''OIDC callback is incomplete''))
      else branch (consume_state (hashToken (oe_sha256 env) state) (cd_now d)) (\<lambda>_. stop invalid_callback) (\<lambda>s.
        case oe_unseal env (op_key p) (os_verifier_nonce s) (os_verifier s) (os_hash s) of
          None \<Rightarrow> stop invalid_callback
        | Some verifier \<Rightarrow>
            branch (Exchange env \<lparr>er_code = code, er_redirect = os_redirect s, er_verifier = verifier,
                                  er_nonce = os_nonce s\<rparr>)
              (\<lambda>e. stop (EWrap ''OIDC token exchange'' e))
              (claimed_login env d (os_provider s))))"


section \<open>Histories\<close>

text \<open>
  What happens around a login: a start, a callback that presents a state, and any change of the tables
  of accounts. Each call is one step.
\<close>

datatype oidc_event = Began | Called string | Elsewhere

inductive oidc_step :: "oidc_env \<Rightarrow> oidc_event \<Rightarrow> oidc_world \<Rightarrow> oidc_world \<Rightarrow> bool" for env where
  step_begin: "OIDC_Begin env p d now providerID w = (r, w') \<Longrightarrow> oidc_step env Began w w'"
| step_complete: "OIDC_Complete env p d x code state w = (r, w') \<Longrightarrow>
                  oidc_step env (Called (hashToken (oe_sha256 env) state)) w w'"
| step_elsewhere: "oidc_step env Elsewhere w (w\<lparr>ow_auth := db\<rparr>)"

inductive oidc_run :: "oidc_env \<Rightarrow> oidc_event list \<Rightarrow> oidc_world \<Rightarrow> oidc_world \<Rightarrow> bool" for env where
  run_none: "oidc_run env [] w w"
| run_step: "oidc_run env tr w w1 \<Longrightarrow> oidc_step env e w1 w2 \<Longrightarrow> oidc_run env (tr @ [e]) w w2"

text \<open>
  A relation that every step keeps, but for the consumption of a state whose hash is not among \<open>free\<close>.
\<close>

locale oidc_relation = effect_relation R for R :: "oidc_world \<Rightarrow> oidc_world \<Rightarrow> bool" +
  fixes free :: "string \<Rightarrow> bool"
  assumes R_save: "SaveOAuthState ps s (ow_states w) = Inr rows \<Longrightarrow> R w (w\<lparr>ow_states := rows\<rparr>)"
    and R_consume: "ConsumeOAuthState h now (ow_states w) = Inr (s, rows) \<Longrightarrow> free h \<Longrightarrow> R w (w\<lparr>ow_states := rows\<rparr>)"
    and R_auth: "R w (w\<lparr>ow_auth := db\<rparr>)"
    and R_exchange: "R w (w\<lparr>ow_exchanges := qs\<rparr>)"
begin

lemma begin_R: "keeps R (OIDC_Begin env p d now providerID)"
  unfolding OIDC_Begin_def
  by (intro if_R stop_R seq_R act_R option_R pass_R) (auto simp: bind_result_Inr intro: R_save)

lemma claimed_R: "keeps R (claimed_login env d providerID claims)"
  unfolding claimed_login_def first_login_def
  by (intro if_R stop_R branch_R ask_R act_R pass_R) (auto simp: Let_def bind_result_Inr intro: R_auth)

lemma exchange_R: "keeps R (Exchange env q)"
  by (simp add: keeps_def Exchange_def R_exchange)

lemma complete_R:
  assumes "free (hashToken (oe_sha256 env) state)"
  shows "keeps R (OIDC_Complete env p d x code state)"
proof -
  have "keeps R (consume_state (hashToken (oe_sha256 env) state) (cd_now d))"
    unfolding consume_state_def by (rule act_R) (auto simp: bind_result_Inr assms intro: R_consume)
  then show ?thesis unfolding OIDC_Complete_def by (intro if_R stop_R branch_R option_R exchange_R claimed_R)
qed

lemma step_R: "oidc_step env e w w' \<Longrightarrow> (\<And>h. e = Called h \<Longrightarrow> free h) \<Longrightarrow> R w w'"
  by (erule oidc_step.cases) (auto intro: keepsD [OF begin_R] keepsD [OF complete_R] R_auth)

lemma run_R: "oidc_run env tr w w' \<Longrightarrow> (\<And>h. Called h \<in> set tr \<Longrightarrow> free h) \<Longrightarrow> R w w'"
proof (induction rule: oidc_run.induct)
  case (run_step tr w w1 e w2)
  from run_step.IH run_step.prems have "R w w1" by simp
  moreover from run_step.hyps(2) run_step.prems have "R w1 w2" by (rule step_R) simp
  ultimately show ?case by (rule R_trans)
qed (rule R_refl)

end

text \<open>Keys stay distinct, and a state that was consumed stays consumed.\<close>

definition states_ok :: "oauth_row list \<Rightarrow> bool" where
  "states_ok rows \<longleftrightarrow> distinct (map (\<lambda>r. os_id (or_state r)) rows) \<and> distinct (map (\<lambda>r. os_hash (or_state r)) rows)"

definition spent :: "string \<Rightarrow> oauth_row list \<Rightarrow> bool" where
  "spent h rows \<longleftrightarrow> (\<exists>r \<in> set rows. os_hash (or_state r) = h) \<and>
                  (\<forall>r \<in> set rows. os_hash (or_state r) = h \<longrightarrow> or_consumed r \<noteq> None)"

definition open_state :: "oauth_state \<Rightarrow> oauth_row list \<Rightarrow> bool" where
  "open_state s rows \<longleftrightarrow> \<lparr>or_state = s, or_consumed = None\<rparr> \<in> set rows"

lemma save_rows:
  "SaveOAuthState ps s rows = Inr rows' \<Longrightarrow>
     rows' = rows @ [\<lparr>or_state = s, or_consumed = None\<rparr>] \<and> os_hash s \<noteq> [] \<and>
     (\<forall>r \<in> set rows. os_id (or_state r) \<noteq> os_id s \<and> os_hash (or_state r) \<noteq> os_hash s)"
  by (auto simp: SaveOAuthState_def err_simps oauth_clash_def split: if_splits)

lemma consume_rows:
  assumes "ConsumeOAuthState h now rows = Inr (s, rows')"
  obtains r where "r \<in> set rows" "or_state r = s" "or_consumed r = None" "os_hash s = h" "now < os_expires s"
    "rows' = update_rows (\<lambda>x. os_id (or_state x) = os_id s \<and> or_consumed x = None) (\<lambda>x. x\<lparr>or_consumed := Some now\<rparr>) rows"
  using assms by (auto simp: ConsumeOAuthState_def find_Some_iff split: if_splits option.splits) (metis nth_mem)

lemma save_ok: "SaveOAuthState ps s rows = Inr rows' \<Longrightarrow> states_ok rows \<Longrightarrow> states_ok rows'"
  by (drule save_rows) (auto simp: states_ok_def)

lemma consume_ok: "ConsumeOAuthState h now rows = Inr (s, rows') \<Longrightarrow> states_ok rows \<Longrightarrow> states_ok rows'"
  by (erule consume_rows) (simp add: states_ok_def map_update_same)

lemma save_spent: "SaveOAuthState ps s rows = Inr rows' \<Longrightarrow> spent h rows \<Longrightarrow> spent h rows'"
  by (drule save_rows) (auto simp: spent_def)

lemma consume_spent: "ConsumeOAuthState h' now rows = Inr (s, rows') \<Longrightarrow> spent h rows \<Longrightarrow> spent h rows'"
  by (erule consume_rows) (fastforce simp: spent_def set_update_rows)

lemma consume_spends:
  assumes "ConsumeOAuthState h now rows = Inr (s, rows')" "states_ok rows"
  shows "spent h rows'"
proof -
  from assms(1) obtain r where r: "r \<in> set rows" "or_state r = s" "or_consumed r = None" "os_hash s = h"
    and rows': "rows' = update_rows (\<lambda>x. os_id (or_state x) = os_id s \<and> or_consumed x = None)
                          (\<lambda>x. x\<lparr>or_consumed := Some now\<rparr>) rows"
    by (rule consume_rows)
  have only: "x = r" if "x \<in> set rows" "os_hash (or_state x) = h" for x
    using assms(2) that r(1,2,4) unfolding states_ok_def distinct_map by (metis (mono_tags, lifting) inj_onD)
  have "or_consumed x \<noteq> None" if "x \<in> set rows'" "os_hash (or_state x) = h" for x
    using that r(2,3) by (auto simp: rows' set_update_rows dest: only)
  moreover have "r\<lparr>or_consumed := Some now\<rparr> \<in> set rows'" 
    unfolding rows' set_update_rows by (intro UnI2 image_eqI [of _ _ r]) (simp_all add: r)
  moreover have "os_hash (or_state (r\<lparr>or_consumed := Some now\<rparr>)) = h" using r(2,4) by simp
  ultimately show ?thesis unfolding spent_def by blast
qed

lemma spent_refused: "spent h rows \<Longrightarrow> \<exists>e. ConsumeOAuthState h now rows = Inl e"
  by (cases "ConsumeOAuthState h now rows") (auto simp: spent_def elim!: consume_rows)

interpretation spending: oidc_relation
  "\<lambda>w w'. (states_ok (ow_states w) \<longrightarrow> states_ok (ow_states w')) \<and>
          (\<forall>h. spent h (ow_states w) \<longrightarrow> spent h (ow_states w'))" "\<lambda>h. True"
  by unfold_locales (auto intro: save_ok consume_ok save_spent consume_spent)

lemma consume_open:
  assumes "ConsumeOAuthState h now rows = Inr (s', rows')" "h \<noteq> os_hash s" "states_ok rows" "open_state s rows"
  shows "open_state s rows'"
proof -
  from assms(1) obtain r where r: "r \<in> set rows" "or_state r = s'" "os_hash s' = h"
    and rows': "rows' = update_rows (\<lambda>x. os_id (or_state x) = os_id s' \<and> or_consumed x = None)
                          (\<lambda>x. x\<lparr>or_consumed := Some now\<rparr>) rows"
    by (rule consume_rows)
  let ?x = "\<lparr>or_state = s, or_consumed = None\<rparr>"
  have "os_id s \<noteq> os_id s'"
  proof
    assume "os_id s = os_id s'"
    then have "?x = r" using assms(3,4) r(1,2)
      unfolding states_ok_def distinct_map open_state_def by (metis (mono_tags, lifting) inj_onD oauth_row.select_convs(1))
    then show False using r assms(2) by auto
  qed
  then show ?thesis using assms(4) by (auto simp: open_state_def rows' set_update_rows)
qed

interpretation waiting: oidc_relation
  "\<lambda>w w'. states_ok (ow_states w) \<longrightarrow> states_ok (ow_states w') \<and> (open_state s (ow_states w) \<longrightarrow> open_state s (ow_states w'))"
  "\<lambda>h. h \<noteq> os_hash s" for s
proof unfold_locales
  show "states_ok (ow_states w) \<longrightarrow> states_ok (ow_states (w\<lparr>ow_states := rows\<rparr>)) \<and>
     (open_state s (ow_states w) \<longrightarrow> open_state s (ow_states (w\<lparr>ow_states := rows\<rparr>)))"
    if "SaveOAuthState ps s' (ow_states w) = Inr rows" for ps s' w rows
    using save_ok [OF that] save_rows [OF that] by (auto simp: open_state_def)
qed (auto intro: consume_ok consume_open)

lemma find_also: "List.find P rows = Some r \<Longrightarrow> Q r \<Longrightarrow> List.find (\<lambda>x. P x \<and> Q x) rows = Some r"
  by (induction rows) (auto split: if_splits)

lemma open_consumed:
  assumes "open_state s rows" "states_ok rows" "now < os_expires s" "os_hash s \<noteq> []"
  shows "\<exists>rows'. ConsumeOAuthState (os_hash s) now rows = Inr (s, rows')"
proof -
  have "List.find (\<lambda>r. os_hash (or_state r) = os_hash s) rows = Some \<lparr>or_state = s, or_consumed = None\<rparr>"
    using oauth_by_hash.find_unique [of rows "\<lparr>or_state = s, or_consumed = None\<rparr>"] assms(1,2)
    by (simp add: states_ok_def open_state_def)
  then have "List.find (\<lambda>r. os_hash (or_state r) = os_hash s \<and> or_consumed r = None) rows = Some \<lparr>or_state = s, or_consumed = None\<rparr>"
    by (rule find_also) simp
  then show ?thesis using assms(3,4) by (simp add: ConsumeOAuthState_def)
qed

section \<open>Properties\<close>

lemma b64_url_bytes: "list_all (\<lambda>n. b64_url_char (b64_char n) \<notin> set (map hd space_seqs)) [0..<64]"
  by code_simp

lemma spaceless_not_blank:
  assumes "spaceless s" "s \<noteq> []"
  shows "\<not> blank s"
proof -
  have "trim_left s = s" using strip_one_spaceless [OF assms(1)] by (simp add: trim_left_def strip_all_None)
  moreover have "trim_right s = s"
  proof (rule trim_right_id, intro ballI notI)
    fix t assume "t \<in> set space_seqs" "suffix t s"
    moreover from this have "t \<noteq> []" using space_seqs_nonempty by metis
    ultimately show False using assms(1)
      by (metis (no_types, lifting) hd_in_set image_eqI list.set_map set_mono_suffix spaceless_def subsetD)
  qed
  ultimately show ?thesis using assms(2) by (simp add: trim_space_def)
qed

lemma complete_exchanged:
  assumes "OIDC_Complete env p d x code state w = (r, w')" "ow_exchanges w' \<noteq> ow_exchanges w"
  obtains s rows where "ConsumeOAuthState (hashToken (oe_sha256 env) state) (cd_now d) (ow_states w) = Inr (s, rows)"
proof (cases "ConsumeOAuthState (hashToken (oe_sha256 env) state) (cd_now d) (ow_states w)")
  case (Inl e)
  then have "OIDC_Complete env p d x code state w = (r, w') \<Longrightarrow> w' = w"
    by (auto simp: OIDC_Complete_def branch_def consume_state_def act_def split: if_splits)
  then show ?thesis using assms by simp
next
  case (Inr a)
  then show ?thesis using that by (cases a) auto
qed

interpretation same_states: effect_relation "\<lambda>w w'. ow_states w' = ow_states w"
  by unfold_locales simp_all

lemma complete_consumed:
  assumes "ConsumeOAuthState (hashToken (oe_sha256 env) state) (cd_now d) (ow_states w) = Inr (s, rows)"
    "x" "\<not> blank code" "\<not> blank state"
  shows "OIDC_Complete env p d x code state w =
           (case oe_unseal env (op_key p) (os_verifier_nonce s) (os_verifier s) (os_hash s) of
              None \<Rightarrow> stop invalid_callback
            | Some verifier \<Rightarrow>
                branch (Exchange env \<lparr>er_code = code, er_redirect = os_redirect s, er_verifier = verifier,
                                      er_nonce = os_nonce s\<rparr>)
                  (\<lambda>e. stop (EWrap ''OIDC token exchange'' e)) (claimed_login env d (os_provider s)))
             (w\<lparr>ow_states := rows\<rparr>)"
proof -
  have "consume_state (hashToken (oe_sha256 env) state) (cd_now d) w = (Inr s, w\<lparr>ow_states := rows\<rparr>)"
    by (simp add: consume_state_def act_def assms(1))
  then show ?thesis using assms(2-4) by (simp add: OIDC_Complete_def)
qed

lemma callback_keeps_states:
  "keeps (\<lambda>w w'. ow_states w' = ow_states w)
     (branch (Exchange env q) (\<lambda>e. stop (EWrap t e)) (claimed_login env d providerID))"
  unfolding claimed_login_def first_login_def
  by (intro same_states.flow_rules same_states.act_R) (auto simp: keeps_def Exchange_def Let_def bind_result_Inr)

lemma exchanged_states:
  assumes "OIDC_Complete env p d x code state w = (r, w')"
    "ConsumeOAuthState (hashToken (oe_sha256 env) state) (cd_now d) (ow_states w) = Inr (s, rows)"
    "ow_exchanges w' \<noteq> ow_exchanges w"
  shows "ow_states w' = rows"
proof (cases "x \<and> \<not> blank code \<and> \<not> blank state")
  case False
  then have "w' = w" using assms(1) by (auto simp: OIDC_Complete_def split: if_splits)
  then show ?thesis using assms(3) by simp
next
  case True
  then have t: x "\<not> blank code" "\<not> blank state" by simp_all
  note m = complete_consumed [OF assms(2) t, of p]
  show ?thesis
  proof (cases "oe_unseal env (op_key p) (os_verifier_nonce s) (os_verifier s) (os_hash s)")
    case None
    then show ?thesis using m assms(1) by simp
  next
    case (Some v)
    show ?thesis using keepsD [OF callback_keeps_states] m [unfolded Some option.case assms(1), symmetric] by fastforce
  qed
qed

lemma run_states_ok: "oidc_run env tr w0 w \<Longrightarrow> ow_states w0 = [] \<Longrightarrow> states_ok (ow_states w)"
  using spending.run_R [of env tr w0 w] by (simp add: states_ok_def)

lemma complete_spent:
  assumes "spent (hashToken (oe_sha256 env) state) (ow_states w)"
  shows "\<exists>e. OIDC_Complete env p d x code state w = (Inl e, w)"
proof -
  from spent_refused [OF assms] obtain e where "ConsumeOAuthState (hashToken (oe_sha256 env) state) (cd_now d) (ow_states w) = Inl e" ..
  then show ?thesis by (simp add: OIDC_Complete_def branch_def consume_state_def act_def)
qed

text \<open>
  C1: the state of an authorization is good for one callback. After a callback that got as far as the
  token exchange, whatever its outcome, and whatever starts, callbacks and changes of the accounts
  follow, another callback that presents this state is refused: it asks the identity provider for
  nothing and changes nothing.
\<close>

theorem oidc_state_once:
  assumes "oidc_run env tr0 w0 w" "ow_states w0 = []"
    and "OIDC_Complete env p d x code state w = (r, w1)" "ow_exchanges w1 \<noteq> ow_exchanges w"
    and "oidc_run env tr w1 w2"
  shows "\<exists>e. OIDC_Complete env p' d' x' code' state w2 = (Inl e, w2)"
proof -
  obtain s rows where c: "ConsumeOAuthState (hashToken (oe_sha256 env) state) (cd_now d) (ow_states w) = Inr (s, rows)"
    using assms(3,4) by (rule complete_exchanged)
  then have "spent (hashToken (oe_sha256 env) state) (ow_states w1)"
    using consume_spends [OF c run_states_ok [OF assms(1,2)]] exchanged_states [OF assms(3) c assms(4)] by simp
  then have "spent (hashToken (oe_sha256 env) state) (ow_states w2)"
    using spending.run_R [OF assms(5)] by blast
  then show ?thesis by (rule complete_spent)
qed

lemma token_not_blank:
  assumes "b \<noteq> []"
  shows "\<not> blank (randomToken b)"
proof -
  have plain: "\<And>n. n < 64 \<Longrightarrow> b64_url_char (b64_char n) \<notin> set (map hd space_seqs)"
    using b64_url_bytes unfolding list_all_iff by simp
  have "c \<notin> set (map hd space_seqs)" if "c \<in> set (randomToken b)" for c
  proof -
    from that obtain c' where c': "c' \<in> set (b64_encode b)" "c' \<noteq> CHR ''=''" "c = b64_url_char c'"
      by (auto simp: randomToken_def b64_raw_url_def)
    then obtain n where "n < 64" "c' = b64_char n" using b64_encode_plain [OF c'(1)] by blast
    then show ?thesis using plain c'(3) by blast
  qed
  then have "spaceless (randomToken b)" by (simp add: spaceless_def)
  moreover have "randomToken b \<noteq> []"
    using assms by (cases b rule: b64_encode.cases) (auto simp: randomToken_def b64_raw_url_def)
  ultimately show ?thesis by (rule spaceless_not_blank)
qed

lemma begin_opens:
  assumes "OIDC_Begin env p d now providerID w = (Inr req, w1)"
  shows "open_state (begin_state env p d now providerID) (ow_states w1)"
    "os_hash (begin_state env p d now providerID) \<noteq> []" "az_state req = randomToken (bd_state d)"
proof -
  from assms obtain rows where
    rows: "SaveOAuthState (map ip_id (db_providers (ow_auth w))) (begin_state env p d now providerID) (ow_states w) = Inr rows"
    and w1: "w1 = w\<lparr>ow_states := rows\<rparr>" and req: "az_state req = randomToken (bd_state d)"
    by (auto simp: OIDC_Begin_def seq_Inr act_Inr bind_result_Inr split: if_splits option.splits)
  show "open_state (begin_state env p d now providerID) (ow_states w1)"
    "os_hash (begin_state env p d now providerID) \<noteq> []"
    using save_rows [OF rows] by (auto simp: w1 open_state_def)
  show "az_state req = randomToken (bd_state d)" by (rule req)
qed

lemma first_login_eq:
  "first_login env d providerID claims w =
     (let a = pending_account env d providerID claims (ow_auth w)
      in case CreatePendingExternalAccount (cd_now d) a (claimed_identity d providerID claims a) (ow_auth w) of
           Inl e \<Rightarrow> (Inl (EErr e), w)
         | Inr db \<Rightarrow> (Inr \<lparr>el_account = a, el_pending = True\<rparr>, w\<lparr>ow_auth := db\<rparr>))"
  by (simp add: first_login_def act_def Let_def split: sum.split)

lemma claimed_login_eq:
  "claimed_login env d providerID claims w =
     (if blank (cl_subject claims) then (Inl (EErr (GErr ErrForbidden ''OIDC subject is required'')), w)
      else case FindAccountByIdentity providerID (cl_subject claims) (ow_auth w) of
        Inl e \<Rightarrow> if err_is e ErrNotFound then first_login env d providerID claims w else (Inl (EErr e), w)
      | Inr a \<Rightarrow> (Inr \<lparr>el_account = a, el_pending = (acc_status a \<noteq> AccountActive)\<rparr>, w))"
  by (simp add: claimed_login_def branch_def ask_def split: sum.split)

lemma claimed_same:
  "fst (claimed_login env d providerID claims (w\<lparr>ow_states := rows, ow_exchanges := qs\<rparr>)) =
   fst (claimed_login env d providerID claims w)"
  "ow_exchanges (snd (claimed_login env d providerID claims w)) = ow_exchanges w"
  by (simp_all add: claimed_login_eq first_login_eq Let_def split: sum.split)

text \<open>
  C2: a callback is answered with the secrets of its own start. When a start returned a request, and no
  callback presented its state since, a callback in time with this state and a code goes to the
  token exchange with this code and with the redirect URI, the code verifier and the nonce of that
  start, whatever else started and ended in between, and what it returns is what the claims of the
  identity provider give with the provider the login was started for. The cipher is assumed to open
  what it sealed.
\<close>

theorem oidc_login_roundtrip:
  assumes "\<And>n m a. oe_unseal env (op_key p) n (oe_seal env (op_key p) n m a) a = Some m"
    and "oidc_run env tr0 w0 w" "ow_states w0 = []"
    and "OIDC_Begin env p d now providerID w = (Inr req, w1)" "bd_state d \<noteq> []"
    and "oidc_run env tr w1 w2" "Called (hashToken (oe_sha256 env) (az_state req)) \<notin> set tr"
    and "cd_now c < now + op_ttl p" "\<not> blank code"
    and "q = \<lparr>er_code = code, er_redirect = oc_redirect (op_config p), er_verifier = randomToken (bd_verifier d),
              er_nonce = randomToken (bd_nonce d)\<rparr>"
    and "OIDC_Complete env p c True code (az_state req) w2 = (r, w3)"
  shows "ow_exchanges w3 = ow_exchanges w2 @ [q] \<and>
         r = (case oe_exchange env (ow_exchanges w2) q of
                Inl e \<Rightarrow> Inl (EWrap ''OIDC token exchange'' e)
              | Inr claims \<Rightarrow> fst (claimed_login env c providerID claims w2))"
proof -
  let ?s = "begin_state env p d now providerID"
  note opens = begin_opens [OF assms(4)]
  have hash: "os_hash ?s = hashToken (oe_sha256 env) (az_state req)" by (simp add: begin_state_def Let_def opens(3))
  have "oidc_run env (tr0 @ [Began]) w0 w1" by (rule run_step [OF assms(2) step_begin [OF assms(4)]])
  then have ok: "states_ok (ow_states w1)" using assms(3) by (rule run_states_ok)
  have "states_ok (ow_states w1) \<longrightarrow> states_ok (ow_states w2) \<and> (open_state ?s (ow_states w1) \<longrightarrow> open_state ?s (ow_states w2))"
    using assms(6) by (rule waiting.run_R) (use assms(7) hash in auto)
  then have "states_ok (ow_states w2)" "open_state ?s (ow_states w2)" using ok opens(1) by blast+
  moreover have "cd_now c < os_expires ?s" using assms(8) by (simp add: begin_state_def Let_def)
  ultimately obtain rows where "ConsumeOAuthState (os_hash ?s) (cd_now c) (ow_states w2) = Inr (?s, rows)"
    using open_consumed opens(2) by blast
  then have c: "OIDC_Complete env p c True code (az_state req) w2 =
      branch (Exchange env q) (\<lambda>e. stop (EWrap ''OIDC token exchange'' e)) (claimed_login env c providerID)
        (w2\<lparr>ow_states := rows\<rparr>)"
    using token_not_blank [OF assms(5)] assms(9)
    by (subst complete_consumed [where s = ?s and rows = rows])
       (simp_all add: hash opens(3), simp add: begin_state_def Let_def assms(1,10))
  show ?thesis
  proof (cases "oe_exchange env (ow_exchanges w2) q")
    case (Inl e)
    then have "branch (Exchange env q) (\<lambda>e. stop (EWrap ''OIDC token exchange'' e)) (claimed_login env c providerID)
        (w2\<lparr>ow_states := rows\<rparr>) = (Inl (EWrap ''OIDC token exchange'' e), w2\<lparr>ow_states := rows, ow_exchanges := ow_exchanges w2 @ [q]\<rparr>)"
      by (simp add: branch_def Exchange_def)
    then show ?thesis using c assms(11) Inl by auto
  next
    case (Inr claims)
    then have "(r, w3) = claimed_login env c providerID claims (w2\<lparr>ow_states := rows, ow_exchanges := ow_exchanges w2 @ [q]\<rparr>)"
      using c assms(11) by (simp add: branch_def Exchange_def)
    then have "r = fst (claimed_login env c providerID claims (w2\<lparr>ow_states := rows, ow_exchanges := ow_exchanges w2 @ [q]\<rparr>))"
      "w3 = snd (claimed_login env c providerID claims (w2\<lparr>ow_states := rows, ow_exchanges := ow_exchanges w2 @ [q]\<rparr>))"
      by (metis fst_conv, metis snd_conv)
    then show ?thesis by (simp add: Inr claimed_same)
  qed
qed

lemma created_accounts:
  assumes "CreatePendingExternalAccount now a i db = Inr db'"
  shows "\<exists>b. db_accounts db' = db_accounts db @ [b] \<and> acc_status b = AccountPending \<and>
             (\<forall>c \<in> set (db_accounts db). acc_email b \<noteq> acc_email c \<and> acc_id b \<noteq> acc_id c)"
  using assms
  by (auto simp: CreatePendingExternalAccount_def Let_def err_simps account_clash_def split: if_splits)

lemma identity_found:
  assumes "FindAccountByIdentity providerID subject db = Inr a"
  shows "a \<in> set (db_accounts db) \<and>
         (\<exists>i \<in> set (db_identities db). ei_account i = acc_id a \<and> ei_provider i = providerID \<and> ei_subject i = subject)"
proof -
  from assms obtain i where f: "List.find (\<lambda>(a, i). ei_account i = acc_id a \<and> ei_provider i = providerID \<and> ei_subject i = subject)
             (List.product (db_accounts db) (db_identities db)) = Some (a, i)"
    by (auto simp: FindAccountByIdentity_def split: option.splits)
  from find_SomeD [OF this] show ?thesis by auto
qed

lemma claimed_accounts:
  assumes "claimed_login env d providerID claims w = (r, w')"
  shows "(db_accounts (ow_auth w') = db_accounts (ow_auth w) \<or>
          (\<exists>a. db_accounts (ow_auth w') = db_accounts (ow_auth w) @ [a] \<and> acc_status a = AccountPending \<and>
               (\<forall>b \<in> set (db_accounts (ow_auth w)). acc_email a \<noteq> acc_email b \<and> acc_id a \<noteq> acc_id b))) \<and>
         (\<forall>l. r = Inr l \<longrightarrow> el_pending l \<or>
            acc_status (el_account l) = AccountActive \<and> el_account l \<in> set (db_accounts (ow_auth w)) \<and>
            (\<exists>i \<in> set (db_identities (ow_auth w)). ei_account i = acc_id (el_account l) \<and>
               ei_provider i = providerID \<and> ei_subject i = cl_subject claims))"
proof (cases "FindAccountByIdentity providerID (cl_subject claims) (ow_auth w)")
  case (Inl e)
  then show ?thesis
    using assms by (auto simp: claimed_login_eq first_login_eq Let_def split: if_splits sum.splits dest: created_accounts)
next
  case (Inr a)
  then show ?thesis using assms identity_found [OF Inr] by (auto simp: claimed_login_eq split: if_splits)
qed

text \<open>
  C3: a login through an identity provider takes over no account. A callback adds at most one account,
  which is pending and has a new address, and changes no other one; an account that comes out of it
  ready for use was active before, and an identity of exactly the provider that this login was
  started for and of the subject it was answered with was linked to it. An address that matches is
  not enough.
\<close>

theorem oidc_takes_no_account:
  assumes "OIDC_Complete env p d x code state w = (r, w')"
  shows "(db_accounts (ow_auth w') = db_accounts (ow_auth w) \<or>
          (\<exists>a. db_accounts (ow_auth w') = db_accounts (ow_auth w) @ [a] \<and> acc_status a = AccountPending \<and>
               (\<forall>b \<in> set (db_accounts (ow_auth w)). acc_email a \<noteq> acc_email b \<and> acc_id a \<noteq> acc_id b))) \<and>
         (\<forall>l. r = Inr l \<longrightarrow> el_pending l \<or>
            acc_status (el_account l) = AccountActive \<and> el_account l \<in> set (db_accounts (ow_auth w)) \<and>
            (\<exists>row \<in> set (ow_states w). \<exists>q claims. \<exists>i \<in> set (db_identities (ow_auth w)).
               os_hash (or_state row) = hashToken (oe_sha256 env) state \<and> or_consumed row = None \<and>
               oe_exchange env (ow_exchanges w) q = Inr claims \<and>
               ei_account i = acc_id (el_account l) \<and> ei_provider i = os_provider (or_state row) \<and>
               ei_subject i = cl_subject claims))"
proof (cases "x \<and> \<not> blank code \<and> \<not> blank state")
  case False
  then show ?thesis using assms by (auto simp: OIDC_Complete_def split: if_splits)
next
  case True
  then have t: x "\<not> blank code" "\<not> blank state" by simp_all
  show ?thesis
  proof (cases "ConsumeOAuthState (hashToken (oe_sha256 env) state) (cd_now d) (ow_states w)")
    case (Inl e)
    then have "OIDC_Complete env p d x code state w = (Inl invalid_callback, w)"
      using t by (simp add: OIDC_Complete_def branch_def consume_state_def act_def)
    then show ?thesis using assms by simp
  next
    case (Inr sr)
    then obtain s rows where c: "ConsumeOAuthState (hashToken (oe_sha256 env) state) (cd_now d) (ow_states w) = Inr (s, rows)"
      by (cases sr) auto
    from c obtain row where row: "row \<in> set (ow_states w)" "or_state row = s" "or_consumed row = None"
      "os_hash s = hashToken (oe_sha256 env) state" by (rule consume_rows)
    note m = complete_consumed [OF c t, of p, unfolded assms]
    show ?thesis
    proof (cases "oe_unseal env (op_key p) (os_verifier_nonce s) (os_verifier s) (os_hash s)")
      case None
      then show ?thesis using m by simp
    next
      case (Some v)
      define q where "q = \<lparr>er_code = code, er_redirect = os_redirect s, er_verifier = v, er_nonce = os_nonce s\<rparr>"
      show ?thesis
      proof (cases "oe_exchange env (ow_exchanges w) q")
        case (Inl e)
        then have "(r, w') = (Inl (EWrap ''OIDC token exchange'' e), w\<lparr>ow_states := rows, ow_exchanges := ow_exchanges w @ [q]\<rparr>)"
          using m by (simp add: Some branch_def Exchange_def flip: q_def)
        then show ?thesis by simp
      next
        case (Inr claims)
        then have l: "claimed_login env d (os_provider s) claims (w\<lparr>ow_states := rows, ow_exchanges := ow_exchanges w @ [q]\<rparr>) = (r, w')"
          using m by (simp add: Some branch_def Exchange_def flip: q_def)
        show ?thesis using claimed_accounts [OF l] row Inr by simp blast
      qed
    qed
  qed
qed

section \<open>Samples\<close>

definition sample_env :: oidc_env where
  "sample_env =
     \<lparr>oe_sha256 = (\<lambda>b. CHR ''h'' # b), oe_seal = (\<lambda>k n m a. CHR ''t'' # m), oe_unseal = (\<lambda>k n c a. Some (tl c)),
      oe_with_query = (\<lambda>u q. Some (u @ ''?'' @ q)),
      oe_exchange = (\<lambda>calls q. Inr \<lparr>cl_subject = ''42'', cl_email = '' Bob@example.org'', cl_display = ''''\<rparr>)\<rparr>"

definition sample_provider :: oidc_provider where
  "sample_provider =
     \<lparr>op_config = \<lparr>oc_url = ''https://id/authorize'', oc_client = ''specwire'', oc_redirect = ''https://sw/back'',
                   oc_scopes = [''openid'']\<rparr>,
      op_key = ''k'', op_ttl = 100\<rparr>"

definition sample_logins :: oidc_world where
  "sample_logins =
     \<lparr>ow_auth = \<lparr>db_workspaces = [], db_accounts = [], db_passwords = [], db_memberships = [], db_bindings = [],
        db_sessions = [],
        db_providers = [\<lparr>ip_id = ''p1'', ip_workspace = ''w1'', ip_kind = ''oidc'', ip_name = ''Company'',
                         ip_issuer = [], ip_client = [], ip_secret = None, ip_enabled = True\<rparr>],
        db_identities = []\<rparr>,
      ow_states = [], ow_exchanges = []\<rparr>"

definition sample_draw :: begin_draw where
  "sample_draw = \<lparr>bd_state = ''sss'', bd_nonce = ''nnn'', bd_verifier = ''vvv'', bd_sealing = ''z'', bd_id = ''o1''\<rparr>"

definition sample_back :: complete_draw where
  "sample_back = \<lparr>cd_now = 50, cd_created = 51, cd_updated = 52, cd_account = ''a1'', cd_identity = ''i1''\<rparr>"

definition sample_started :: "(exec_err + authorization_request) \<times> oidc_world" where
  "sample_started = OIDC_Begin sample_env sample_provider sample_draw 10 ''p1'' sample_logins"

definition sample_returned :: "(exec_err + external_login) \<times> oidc_world" where
  "sample_returned = OIDC_Complete sample_env sample_provider sample_back True ''code'' ''c3Nz'' (snd sample_started)"

lemma sample_started_ok: "case sample_started of (Inr req, w) \<Rightarrow> az_state req = ''c3Nz'' \<and> ow_exchanges w = [] | (Inl e, w) \<Rightarrow> False"
  by code_simp

lemma sample_started_asks: "ow_exchanges (snd sample_started) = []"
  by code_simp

lemma sample_returned_asks: "length (ow_exchanges (snd sample_returned)) = 1"
  by code_simp

lemma sample_login_run: "oidc_run sample_env [Began] sample_logins (snd sample_started)"
proof -
  have "oidc_step sample_env Began sample_logins (snd sample_started)"
    by (rule step_begin [of _ sample_provider sample_draw 10 "''p1''" _ "fst sample_started"]) (simp add: sample_started_def)
  from run_step [OF run_none this] show ?thesis by simp
qed

theorem oidc_state_once_witness:
  "\<exists>e. OIDC_Complete sample_env sample_provider sample_back True ''code'' ''c3Nz'' (snd sample_returned) =
        (Inl e, snd sample_returned)"
proof (rule oidc_state_once [OF sample_login_run])
  show "ow_states sample_logins = []" by (simp add: sample_logins_def)
  show "OIDC_Complete sample_env sample_provider sample_back True ''code'' ''c3Nz'' (snd sample_started) =
      (fst sample_returned, snd sample_returned)" by (simp add: sample_returned_def)
  show "ow_exchanges (snd sample_returned) \<noteq> ow_exchanges (snd sample_started)"
  proof
    assume "ow_exchanges (snd sample_returned) = ow_exchanges (snd sample_started)"
    then show False using sample_started_asks sample_returned_asks by simp
  qed
  show "oidc_run sample_env [] (snd sample_returned) (snd sample_returned)" by (rule run_none)
qed

theorem oidc_login_roundtrip_witness:
  "ow_exchanges (snd sample_returned) =
     [\<lparr>er_code = ''code'', er_redirect = ''https://sw/back'', er_verifier = randomToken ''vvv'', er_nonce = randomToken ''nnn''\<rparr>]"
proof -
  obtain req w1 where s: "sample_started = (Inr req, w1)" "az_state req = ''c3Nz''"
    using sample_started_ok by (auto split: prod.splits sum.splits)
  let ?q = "\<lparr>er_code = ''code'', er_redirect = ''https://sw/back'', er_verifier = randomToken ''vvv'', er_nonce = randomToken ''nnn''\<rparr>"
  have "ow_exchanges (snd sample_returned) = ow_exchanges w1 @ [?q]"
  proof (rule conjunct1 [OF oidc_login_roundtrip])
    show "oidc_run sample_env [] sample_logins sample_logins" "oidc_run sample_env [] w1 w1" by (rule run_none)+
    show "OIDC_Begin sample_env sample_provider sample_draw 10 ''p1'' sample_logins = (Inr req, w1)"
      using s(1) by (simp add: sample_started_def)
    show "OIDC_Complete sample_env sample_provider sample_back True ''code'' (az_state req) w1 =
        (fst sample_returned, snd sample_returned)" by (simp add: sample_returned_def s)
    show "\<not> blank ''code''" by code_simp
  qed (simp_all add: sample_env_def sample_logins_def sample_draw_def sample_back_def sample_provider_def)
  then show ?thesis using sample_started_asks by (simp add: s(1))
qed

theorem oidc_takes_no_account_witness:
  "\<exists>a. db_accounts (ow_auth (snd sample_returned)) = db_accounts (ow_auth (snd sample_started)) @ [a] \<and>
       acc_status a = AccountPending"
proof -
  have grown: "length (db_accounts (ow_auth (snd sample_started))) < length (db_accounts (ow_auth (snd sample_returned)))"
    by code_simp
  have "OIDC_Complete sample_env sample_provider sample_back True ''code'' ''c3Nz'' (snd sample_started) =
      (fst sample_returned, snd sample_returned)" by (simp add: sample_returned_def)
  from conjunct1 [OF oidc_takes_no_account [OF this]] show ?thesis using grown by force
qed

end
