(* ===== verification/Directory.thy ===== *)
theory Directory
  imports ControlWorld
begin

text \<open>
  The directory of providers: the references to workspaces and projects of Multica
  (\<open>store/provider_refs.go\<close>), the record of capability checks (\<open>store/credentials.go\<close>), the probe
  (\<open>controlplane/provider_probe.go\<close>), and the services of \<open>controlplane/endpoints.go\<close> and
  \<open>controlplane/selectors.go\<close> with the lists of \<open>controlplane/connection.go\<close> they pass on. The
  providers answer a call from the calls made so far.
\<close>

section \<open>Tables\<close>

record multica_workspace_ref =
  mwr_id :: ID
  mwr_workspace :: ID
  mwr_instance :: ID
  mwr_external :: string
  mwr_name :: string

record multica_project_ref =
  mpr_id :: ID
  mpr_workspace :: ID
  mpr_instance :: ID
  mpr_multica_workspace :: ID
  mpr_external :: string
  mpr_title :: string
  mpr_web_url :: string

record capability_result =
  cr_capability :: string
  cr_available :: bool
  cr_reason :: string
  cr_request :: string

record capability_check =
  cc_workspace :: ID
  cc_provider :: string
  cc_instance :: ID
  cc_type :: string
  cc_resource :: string
  cc_result :: capability_result
  cc_checked :: gtime

text \<open>The endpoints, what is known of their contents, the calls of the providers, the identifiers drawn.\<close>

record gitlab_group =
  gg_instance :: ID
  gg_external :: string
  gg_full_path :: string
  gg_name :: string
  gg_parent :: string

datatype directory_call =
    CallGroups endpoint string credential
  | CallProjects endpoint gitlab_group string credential
  | CallReadiness endpoint
  | CallWorkspaces endpoint string credential
  | CallMulticaProjects endpoint multica_workspace string credential

record directory_world =
  dw_db :: endpoint_db
  dw_checks :: "capability_check list"
  dw_workspaces :: "multica_workspace_ref list"
  dw_projects :: "multica_project_ref list"
  dw_calls :: "directory_call list"
  dw_next :: nat

type_synonym 'a directory = "(directory_world, 'a) proc"

record readiness_result =
  rd_ready :: bool
  rd_reason :: string
  rd_request :: string

record directory_env =
  de_now :: gtime
  de_fresh :: "nat \<Rightarrow> ID"
  de_nonce :: "nat \<Rightarrow> bytes"
  de_vault :: "cipher option"
  de_groups :: "directory_call list \<Rightarrow> exec_err + gitlab_group list"
  de_gitlab_projects :: "directory_call list \<Rightarrow> exec_err + project_ref list"
  de_readiness :: "directory_call list \<Rightarrow> exec_err + readiness_result"
  de_workspaces :: "directory_call list \<Rightarrow> exec_err + multica_workspace list"
  de_multica_projects :: "directory_call list \<Rightarrow> exec_err + multica_project list"

definition consult :: "(directory_call list \<Rightarrow> exec_err + 'a) \<Rightarrow> directory_call \<Rightarrow> 'a directory" where
  "consult answer c w = (let calls = dw_calls w @ [c] in (answer calls, w\<lparr>dw_calls := calls\<rparr>))"

definition pick :: "(nat \<Rightarrow> 'a) \<Rightarrow> 'a directory" where
  "pick f w = (Inr (f (dw_next w)), w\<lparr>dw_next := dw_next w + 1\<rparr>)"

definition on_endpoints :: "(endpoint_db \<Rightarrow> gerr + endpoint_db) \<Rightarrow> unit directory" where
  "on_endpoints f = act (\<lambda>w. bind_result (f (dw_db w)) (\<lambda>db. Inr ((), w\<lparr>dw_db := db\<rparr>)))"

definition ask_endpoints :: "(endpoint_db \<Rightarrow> gerr + 'a) \<Rightarrow> 'a directory" where
  "ask_endpoints f = ask (\<lambda>w. f (dw_db w))"

section \<open>References to workspaces and projects\<close>

definition validateProviderRef :: "ID \<Rightarrow> ID \<Rightarrow> string \<Rightarrow> string \<Rightarrow> string \<Rightarrow> gerr + unit" where
  "validateProviderRef workspaceID instanceID externalID name kind =
     bind_result (requireWorkspaceID workspaceID) (\<lambda>_.
       if instanceID = [] \<or> blank externalID \<or> blank name
       then fail ErrInvalid (kind @ '' instance, external ID and name are required'')
       else Inr ())"

abbreviation workspace_key :: "multica_workspace_ref \<Rightarrow> ID \<times> ID \<times> string" where
  "workspace_key r \<equiv> (mwr_workspace r, mwr_instance r, mwr_external r)"

abbreviation project_key :: "multica_project_ref \<Rightarrow> ID \<times> ID \<times> string" where
  "project_key r \<equiv> (mpr_workspace r, mpr_instance r, mpr_external r)"

definition GetMulticaWorkspace ::
  "ID \<Rightarrow> ID \<Rightarrow> string \<Rightarrow> multica_workspace_ref list \<Rightarrow> gerr + multica_workspace_ref" where
  "GetMulticaWorkspace workspaceID instanceID externalID rows =
     (case List.find (\<lambda>r. workspace_key r = (workspaceID, instanceID, externalID)) rows of
        None \<Rightarrow> fail ErrNotFound (''Multica workspace '' @ externalID) | Some r \<Rightarrow> Inr r)"

definition GetMulticaWorkspaceByID ::
  "ID \<Rightarrow> ID \<Rightarrow> ID \<Rightarrow> multica_workspace_ref list \<Rightarrow> gerr + multica_workspace_ref" where
  "GetMulticaWorkspaceByID workspaceID instanceID i rows =
     (case List.find (\<lambda>r. mwr_id r = i \<and> mwr_workspace r = workspaceID \<and> mwr_instance r = instanceID) rows of
        None \<Rightarrow> fail ErrNotFound (''Multica workspace '' @ i) | Some r \<Rightarrow> Inr r)"

definition ListMulticaWorkspaces ::
  "ID \<Rightarrow> ID \<Rightarrow> multica_workspace_ref list \<Rightarrow> gerr + multica_workspace_ref list" where
  "ListMulticaWorkspaces workspaceID instanceID rows =
     bind_result (requireWorkspaceID workspaceID) (\<lambda>_.
       Inr (sort_key (\<lambda>r. (mwr_name r, mwr_external r))
         (filter (\<lambda>r. mwr_workspace r = workspaceID \<and> mwr_instance r = instanceID) rows)))"

text \<open>
  A row with the key of the new one is updated and keeps its identifier; an identifier that another key
  holds is refused.
\<close>

definition upsert_row ::
  "string \<Rightarrow> ('r \<Rightarrow> ID) \<Rightarrow> ('r \<Rightarrow> 'k) \<Rightarrow> ('r \<Rightarrow> 'r) \<Rightarrow> bool \<Rightarrow> 'r \<Rightarrow> 'r list \<Rightarrow> gerr + 'r list" where
  "upsert_row operation ident key f present new rows =
     (if list_ex (\<lambda>r. ident r = ident new \<and> key r \<noteq> key new) rows then fail ErrConflict operation
      else if list_ex (\<lambda>r. key r = key new) rows then Inr (update_rows (\<lambda>r. key r = key new) f rows)
      else if \<not> present then fail ErrConflict operation
      else Inr (rows @ [new]))"

definition UpsertMulticaWorkspace ::
  "ID \<Rightarrow> multica_workspace_ref \<Rightarrow> endpoint_db \<Rightarrow> multica_workspace_ref list \<Rightarrow>
   gerr + multica_workspace_ref \<times> multica_workspace_ref list" where
  "UpsertMulticaWorkspace newID r0 db rows =
     bind_result (validateProviderRef (mwr_workspace r0) (mwr_instance r0) (mwr_external r0) (mwr_name r0)
       ''Multica workspace'') (\<lambda>_.
       let r = (if mwr_id r0 = [] then r0\<lparr>mwr_id := newID\<rparr> else r0)
       in bind_result (upsert_row ''upsert Multica workspace'' mwr_id workspace_key (\<lambda>x. x\<lparr>mwr_name := mwr_name r\<rparr>)
            (mwr_workspace r \<in> set (ed_workspaces db) \<and> mwr_instance r \<in> set (map ep_id (ed_multica db))) r rows) (\<lambda>rows'.
          bind_result (GetMulticaWorkspace (mwr_workspace r) (mwr_instance r) (mwr_external r) rows') (\<lambda>stored.
            Inr (stored, rows'))))"

definition GetMulticaProject ::
  "ID \<Rightarrow> ID \<Rightarrow> string \<Rightarrow> multica_project_ref list \<Rightarrow> gerr + multica_project_ref" where
  "GetMulticaProject workspaceID instanceID externalID rows =
     (case List.find (\<lambda>r. project_key r = (workspaceID, instanceID, externalID)) rows of
        None \<Rightarrow> fail ErrNotFound (''Multica project '' @ externalID) | Some r \<Rightarrow> Inr r)"

definition ListMulticaProjects ::
  "ID \<Rightarrow> ID \<Rightarrow> ID \<Rightarrow> multica_project_ref list \<Rightarrow> gerr + multica_project_ref list" where
  "ListMulticaProjects workspaceID instanceID multicaWorkspaceID rows =
     bind_result (requireWorkspaceID workspaceID) (\<lambda>_.
       Inr (sort_key (\<lambda>r. (mpr_title r, mpr_external r))
         (filter (\<lambda>r. mpr_workspace r = workspaceID \<and> mpr_instance r = instanceID \<and>
                      mpr_multica_workspace r = multicaWorkspaceID) rows)))"

definition UpsertMulticaProject ::
  "ID \<Rightarrow> multica_project_ref \<Rightarrow> endpoint_db \<Rightarrow> multica_workspace_ref list \<Rightarrow> multica_project_ref list \<Rightarrow>
   gerr + multica_project_ref \<times> multica_project_ref list" where
  "UpsertMulticaProject newID r0 db workspaces rows =
     bind_result (validateProviderRef (mpr_workspace r0) (mpr_instance r0) (mpr_external r0) (mpr_title r0)
       ''Multica project'') (\<lambda>_.
       if mpr_multica_workspace r0 = [] then fail ErrInvalid ''Multica project workspace is required''
       else let r = (if mpr_id r0 = [] then r0\<lparr>mpr_id := newID\<rparr> else r0);
                known = mpr_multica_workspace r \<in> set (map mwr_id workspaces)
       in bind_result (require_row ''upsert Multica project'' known) (\<lambda>_.
          bind_result (upsert_row ''upsert Multica project'' mpr_id project_key
            (\<lambda>x. x\<lparr>mpr_multica_workspace := mpr_multica_workspace r, mpr_title := mpr_title r, mpr_web_url := mpr_web_url r\<rparr>)
            (mpr_workspace r \<in> set (ed_workspaces db) \<and> mpr_instance r \<in> set (map ep_id (ed_multica db))) r rows) (\<lambda>rows'.
          bind_result (GetMulticaProject (mpr_workspace r) (mpr_instance r) (mpr_external r) rows') (\<lambda>stored.
            Inr (stored, rows')))))"

section \<open>Capability checks\<close>

definition same_check :: "capability_check \<Rightarrow> capability_check \<Rightarrow> bool" where
  "same_check a b \<longleftrightarrow>
     cc_workspace a = cc_workspace b \<and> cc_instance a = cc_instance b \<and> cc_type a = cc_type b \<and>
     cc_resource a = cc_resource b \<and> cr_capability (cc_result a) = cr_capability (cc_result b)"

definition upsert_check :: "capability_check \<Rightarrow> capability_check list \<Rightarrow> capability_check list" where
  "upsert_check new rows =
     (if list_ex (same_check new) rows
      then update_rows (same_check new) (\<lambda>r. r\<lparr>cc_result := cc_result new, cc_checked := cc_checked new\<rparr>) rows
      else rows @ [new])"

fun record_checks ::
  "(capability_result \<Rightarrow> capability_check) \<Rightarrow> bool \<Rightarrow> capability_result list \<Rightarrow> capability_check list \<Rightarrow>
   gerr + capability_check list" where
  "record_checks row present [] rows = Inr rows"
| "record_checks row present (r # rs) rows =
     (if blank (cr_capability r) then fail ErrInvalid ''capability name is required''
      else bind_result (require_row ''record capability result'' present) (\<lambda>_.
        record_checks row present rs (upsert_check (row r) rows)))"

definition RecordCapabilityResults ::
  "gtime \<Rightarrow> ID \<Rightarrow> string \<Rightarrow> ID \<Rightarrow> string \<Rightarrow> string \<Rightarrow> capability_result list \<Rightarrow> endpoint_db \<Rightarrow> capability_check list \<Rightarrow>
   gerr + capability_check list" where
  "RecordCapabilityResults now workspaceID provider instanceID resourceType resourceID results db rows =
     bind_result (requireWorkspaceID workspaceID) (\<lambda>_.
       record_checks (\<lambda>r. \<lparr>cc_workspace = workspaceID, cc_provider = provider, cc_instance = instanceID,
                           cc_type = resourceType, cc_resource = resourceID, cc_result = r, cc_checked = now\<rparr>)
         (workspaceID \<in> set (ed_workspaces db)) results rows)"

section \<open>The probe\<close>

definition resolve_for :: "directory_env \<Rightarrow> secret_ref option \<Rightarrow> credential directory" where
  "resolve_for env ref =
     (case ref of
        None \<Rightarrow> pass None
      | Some r \<Rightarrow>
          (case de_vault env of
             None \<Rightarrow> stop (EErr (GErr ErrInvalid ''credential resolver is not configured''))
           | Some c \<Rightarrow> seq (ask_endpoints (\<lambda>db. Vault_Resolve GetSecretRecord (ci_unseal c) r (ed_secrets db)))
                         (\<lambda>material. pass (Some (r, material)))))"

definition available :: "string \<Rightarrow> capability_result" where
  "available capability = \<lparr>cr_capability = capability, cr_available = True, cr_reason = [], cr_request = []\<rparr>"

definition ProbeGitLab :: "directory_env \<Rightarrow> endpoint \<Rightarrow> capability_result list directory" where
  "ProbeGitLab env i =
     seq (resolve_for env (ep_credential i)) (\<lambda>cred.
     seq (consult (de_groups env) (CallGroups i [] cred)) (\<lambda>_. pass [available ''gitlab.groups.read'']))"

definition probe_credential :: "ID \<Rightarrow> bytes \<Rightarrow> credential" where
  "probe_credential workspaceID material =
     Some (\<lparr>secret_id = ''credential-probe'', secret_workspace = workspaceID, secret_alias = ''credential-probe'',
            secret_kind = SecretGroupCredential\<rparr>, material)"

definition ProbeGitLabCredential :: "directory_env \<Rightarrow> endpoint \<Rightarrow> bytes \<Rightarrow> capability_result list directory" where
  "ProbeGitLabCredential env i material =
     (if material = [] then stop (EErr (GErr ErrInvalid ''GitLab credential material is required''))
      else seq (consult (de_groups env) (CallGroups i [] (probe_credential (ep_workspace i) material)))
             (\<lambda>_. pass [available ''gitlab.groups.read'']))"

definition ProbeGitLabGroup ::
  "directory_env \<Rightarrow> endpoint \<Rightarrow> group_binding \<Rightarrow> bytes \<Rightarrow> capability_result list directory" where
  "ProbeGitLabGroup env i b material =
     (if material = [] then stop (EErr (GErr ErrInvalid ''Group credential material is required''))
      else let group = \<lparr>gg_instance = ep_id i, gg_external = gb_group b, gg_full_path = gb_full_path b,
                        gg_name = [], gg_parent = []\<rparr>
        in seq (consult (de_gitlab_projects env)
                 (CallProjects i group [] (probe_credential (gb_workspace b) material)))
             (\<lambda>_. pass [available ''gitlab.groups.read'', available ''gitlab.projects.read'']))"

definition ProbeMultica :: "directory_env \<Rightarrow> endpoint \<Rightarrow> capability_result list directory" where
  "ProbeMultica env i =
     seq (consult (de_readiness env) (CallReadiness i)) (\<lambda>r.
       pass [\<lparr>cr_capability = ''multica.api'', cr_available = rd_ready r, cr_reason = rd_reason r,
              cr_request = rd_request r\<rparr>])"

section \<open>Endpoints\<close>

definition availableCapabilities :: "capability_result list \<Rightarrow> string list" where
  "availableCapabilities results = map cr_capability (filter cr_available results)"

definition AddGitLab :: "endpoint \<Rightarrow> unit directory" where
  "AddGitLab i = on_endpoints (CreateGitLabInstance i)"

definition AddMultica :: "endpoint \<Rightarrow> unit directory" where
  "AddMultica i = on_endpoints (CreateMulticaInstance i)"

text \<open>\<open>probe\<close> tells whether the service was made with a probe.\<close>

definition TestGitLab :: "directory_env \<Rightarrow> bool \<Rightarrow> endpoint \<Rightarrow> capability_result list directory" where
  "TestGitLab env probe i =
     (if \<not> probe then stop (EErr (GErr ErrInvalid ''GitLab capability probe is not configured''))
      else seq (ProbeGitLab env i) (\<lambda>results.
        seq (on_endpoints (UpdateGitLabCapabilities (ep_workspace i) (ep_id i) (availableCapabilities results)))
          (\<lambda>_. pass results)))"

definition TestMultica :: "directory_env \<Rightarrow> bool \<Rightarrow> endpoint \<Rightarrow> capability_result list directory" where
  "TestMultica env probe i =
     (if \<not> probe then stop (EErr (GErr ErrInvalid ''Multica capability probe is not configured''))
      else seq (ProbeMultica env i) (\<lambda>results.
        seq (on_endpoints (UpdateMulticaCapabilities (ep_workspace i) (ep_id i) (availableCapabilities results)))
          (\<lambda>_. pass results)))"

definition ListGitLab :: "ID \<Rightarrow> endpoint list directory" where
  "ListGitLab workspaceID = ask_endpoints (ListGitLabInstances workspaceID)"

definition ListMultica :: "ID \<Rightarrow> endpoint list directory" where
  "ListMultica workspaceID = ask_endpoints (ListMulticaInstances workspaceID)"

definition first_with_id :: "string \<Rightarrow> ID \<Rightarrow> endpoint list \<Rightarrow> gerr + endpoint" where
  "first_with_id noun instanceID instances =
     (case List.find (\<lambda>i. ep_id i = instanceID) instances of
        None \<Rightarrow> fail ErrNotFound (noun @ '' instance '' @ instanceID) | Some i \<Rightarrow> Inr i)"

definition GetGitLab :: "ID \<Rightarrow> ID \<Rightarrow> endpoint directory" where
  "GetGitLab workspaceID instanceID =
     seq (ask_endpoints (ListGitLabInstances workspaceID)) (\<lambda>is. look (first_with_id ''GitLab'' instanceID is))"

definition GetMultica :: "ID \<Rightarrow> ID \<Rightarrow> endpoint directory" where
  "GetMultica workspaceID instanceID =
     seq (ask_endpoints (ListMulticaInstances workspaceID)) (\<lambda>is. look (first_with_id ''Multica'' instanceID is))"

definition DisableGitLab :: "ID \<Rightarrow> ID \<Rightarrow> unit directory" where
  "DisableGitLab workspaceID instanceID =
     (if workspaceID = [] \<or> instanceID = [] then stop (EErr (GErr ErrInvalid ''endpoint scope is required''))
      else on_endpoints (DisableGitLabInstance workspaceID instanceID))"

definition DisableMultica :: "ID \<Rightarrow> ID \<Rightarrow> unit directory" where
  "DisableMultica workspaceID instanceID =
     (if workspaceID = [] \<or> instanceID = [] then stop (EErr (GErr ErrInvalid ''endpoint scope is required''))
      else on_endpoints (DisableMulticaInstance workspaceID instanceID))"

section \<open>Selection\<close>

definition list_with ::
  "directory_env \<Rightarrow> secret_ref option \<Rightarrow> (directory_call list \<Rightarrow> exec_err + 'a) \<Rightarrow> (credential \<Rightarrow> directory_call) \<Rightarrow>
   'a directory" where
  "list_with env ref answer request = seq (resolve_for env ref) (\<lambda>cred. consult answer (request cred))"

definition ListGitLabGroups :: "directory_env \<Rightarrow> endpoint \<Rightarrow> string \<Rightarrow> secret_ref option \<Rightarrow> gitlab_group list directory" where
  "ListGitLabGroups env i q ref = list_with env ref (de_groups env) (CallGroups i q)"

definition ListGitLabProjects ::
  "directory_env \<Rightarrow> endpoint \<Rightarrow> gitlab_group \<Rightarrow> string \<Rightarrow> secret_ref option \<Rightarrow> project_ref list directory" where
  "ListGitLabProjects env i g q ref = list_with env ref (de_gitlab_projects env) (CallProjects i g q)"

definition Connection_ListMulticaWorkspaces ::
  "directory_env \<Rightarrow> endpoint \<Rightarrow> string \<Rightarrow> secret_ref option \<Rightarrow> multica_workspace list directory" where
  "Connection_ListMulticaWorkspaces env i q ref = list_with env ref (de_workspaces env) (CallWorkspaces i q)"

definition Connection_ListMulticaProjects ::
  "directory_env \<Rightarrow> endpoint \<Rightarrow> multica_workspace \<Rightarrow> string \<Rightarrow> secret_ref option \<Rightarrow> multica_project list directory" where
  "Connection_ListMulticaProjects env i mw q ref =
     list_with env ref (de_multica_projects env) (CallMulticaProjects i mw q)"

definition validateInstanceScope :: "ID \<Rightarrow> ID \<Rightarrow> gerr + unit" where
  "validateInstanceScope workspaceID instanceID =
     (if workspaceID = [] \<or> instanceID = [] then fail ErrInvalid ''provider instance scope is required'' else Inr ())"

definition GitLabGroups :: "directory_env \<Rightarrow> endpoint \<Rightarrow> string \<Rightarrow> secret_ref option \<Rightarrow> gitlab_group list directory" where
  "GitLabGroups env i q ref =
     seq (look (validateInstanceScope (ep_workspace i) (ep_id i))) (\<lambda>_. ListGitLabGroups env i (trim_space q) ref)"

definition GitLabProjects ::
  "directory_env \<Rightarrow> endpoint \<Rightarrow> gitlab_group \<Rightarrow> string \<Rightarrow> secret_ref option \<Rightarrow> project_ref list directory" where
  "GitLabProjects env i g q ref =
     seq (look (validateInstanceScope (ep_workspace i) (ep_id i))) (\<lambda>_.
       if gg_instance g \<noteq> [] \<and> gg_instance g \<noteq> ep_id i
       then stop (EErr (GErr ErrForbidden ''GitLab Group belongs to another instance''))
       else ListGitLabProjects env i g (trim_space q) ref)"

text \<open>Each item in turn, up to the first that fails.\<close>

fun collect :: "('a \<Rightarrow> 'b directory) \<Rightarrow> 'a list \<Rightarrow> 'b list directory" where
  "collect f [] = pass []"
| "collect f (x # xs) = seq (f x) (\<lambda>y. seq (collect f xs) (\<lambda>ys. pass (y # ys)))"

definition store_workspace :: "directory_env \<Rightarrow> endpoint \<Rightarrow> multica_workspace \<Rightarrow> multica_workspace_ref directory" where
  "store_workspace env i item =
     seq (pick (de_fresh env)) (\<lambda>newID.
       act (\<lambda>w. bind_result (UpsertMulticaWorkspace newID
              \<lparr>mwr_id = [], mwr_workspace = ep_workspace i, mwr_instance = ep_id i, mwr_external = mw_external item,
               mwr_name = mw_name item\<rparr> (dw_db w) (dw_workspaces w)) (\<lambda>(stored, rows).
            Inr (stored, w\<lparr>dw_workspaces := rows\<rparr>))))"

definition MulticaWorkspaces ::
  "directory_env \<Rightarrow> endpoint \<Rightarrow> string \<Rightarrow> secret_ref option \<Rightarrow> multica_workspace_ref list directory" where
  "MulticaWorkspaces env i q ref =
     seq (look (validateInstanceScope (ep_workspace i) (ep_id i))) (\<lambda>_.
     seq (Connection_ListMulticaWorkspaces env i (trim_space q) ref) (collect (store_workspace env i)))"

definition store_project ::
  "directory_env \<Rightarrow> endpoint \<Rightarrow> multica_workspace_ref \<Rightarrow> multica_project \<Rightarrow> multica_project_ref directory" where
  "store_project env i mw item =
     seq (pick (de_fresh env)) (\<lambda>newID.
       act (\<lambda>w. bind_result (UpsertMulticaProject newID
              \<lparr>mpr_id = [], mpr_workspace = ep_workspace i, mpr_instance = ep_id i, mpr_multica_workspace = mwr_id mw,
               mpr_external = mp_external item, mpr_title = mp_title item, mpr_web_url = mp_web_url item\<rparr>
              (dw_db w) (dw_workspaces w) (dw_projects w)) (\<lambda>(stored, rows).
            Inr (stored, w\<lparr>dw_projects := rows\<rparr>))))"

definition MulticaProjects ::
  "directory_env \<Rightarrow> endpoint \<Rightarrow> multica_workspace_ref \<Rightarrow> string \<Rightarrow> secret_ref option \<Rightarrow> multica_project_ref list directory" where
  "MulticaProjects env i mw q ref =
     seq (look (validateInstanceScope (ep_workspace i) (ep_id i))) (\<lambda>_.
       if mwr_workspace mw \<noteq> ep_workspace i \<or> mwr_instance mw \<noteq> ep_id i
       then stop (EErr (GErr ErrForbidden ''Multica workspace belongs to another scope''))
       else seq (Connection_ListMulticaProjects env i
              \<lparr>mw_instance = ep_id i, mw_external = mwr_external mw, mw_name = mwr_name mw\<rparr> (trim_space q) ref)
            (collect (store_project env i mw)))"

end
