(* ===== verification/CredentialService.thy ===== *)
theory CredentialService
  imports Directory
begin

text \<open>
  Credentials of GitLab, \<open>controlplane/credentials.go\<close>: a credential is put in the vault, tried at the
  provider, recorded, and then attached to the instance or the group; a rotation does the same for the
  profile a group is bound to. The probe is the one of \<open>provider_probe.go\<close>, which never returns the
  transient error that \<open>probeWithMaterial\<close> would pass on as it is. Wiping the caller's bytes at the
  end has no counterpart here.
\<close>

section \<open>Checks\<close>

definition capability_text :: "string list \<Rightarrow> string \<Rightarrow> string" where
  "capability_text missing reason =
     (if reason \<noteq> [] then ''provider capability unavailable: '' @ reason
      else ''provider capability unavailable: missing '' @
        concat (map (\<lambda>(i, c). if i = 0 then c else '', '' @ c) (zip [0..<length missing] missing)))"

definition requireCapabilities :: "capability_result list \<Rightarrow> string list \<Rightarrow> string \<Rightarrow> gerr + unit" where
  "requireCapabilities results required reason =
     (let missing = filter (\<lambda>c. c \<notin> set (availableCapabilities results)) required
      in if missing \<noteq> [] then Inl (Plain (capability_text missing reason)) else Inr ())"

definition validateInstanceCredentialInput :: "endpoint \<Rightarrow> secret_ref \<Rightarrow> string \<Rightarrow> string \<Rightarrow> gerr + unit" where
  "validateInstanceCredentialInput i ref alias kind =
     (if ep_workspace i = [] \<or> ep_id i = [] then fail ErrInvalid ''GitLab instance workspace and ID are required''
      else if blank alias then fail ErrInvalid ''credential alias is required''
      else if kind \<noteq> CredentialPAT \<and> kind \<noteq> CredentialGroupAccessToken
      then fail ErrInvalid ''unsupported GitLab credential kind''
      else if secret_kind ref \<noteq> SecretGroupCredential
      then fail ErrInvalid ''GitLab credential must use group_credential secret kind''
      else if secret_alias ref \<noteq> trim_space alias
      then fail ErrInvalid ''credential alias and secret reference alias must match''
      else if secret_workspace ref \<noteq> ep_workspace i
      then fail ErrForbidden ''credential belongs to another workspace''
      else SecretRef_Validate ref)"

definition validateGroupCredentialInput :: "ID \<Rightarrow> secret_ref \<Rightarrow> string \<Rightarrow> string \<Rightarrow> ID \<Rightarrow> gerr + unit" where
  "validateGroupCredentialInput workspaceID ref alias kind profileID =
     (if workspaceID = [] \<or> profileID = [] \<or> secret_id ref = []
      then fail ErrInvalid ''credential workspace, profile and secret IDs are required''
      else if secret_workspace ref \<noteq> workspaceID then fail ErrForbidden ''secret belongs to another workspace''
      else if blank alias then fail ErrInvalid ''credential alias is required''
      else if kind \<noteq> CredentialPAT \<and> kind \<noteq> CredentialGroupAccessToken
      then fail ErrInvalid ''unsupported Group credential kind''
      else SecretRef_Validate ref)"

section \<open>Steps\<close>

definition vault_put :: "directory_env \<Rightarrow> cipher \<Rightarrow> secret_ref \<Rightarrow> bytes \<Rightarrow> unit directory" where
  "vault_put env c ref material =
     seq (pick (de_nonce env)) (\<lambda>nonce.
       on_endpoints (\<lambda>db.
         bind_result (Vault_Put (PutSecretRecord (de_now env)) (ci_seal c) nonce ref material (ed_secrets db)) (\<lambda>t.
           Inr (db\<lparr>ed_secrets := t\<rparr>))))"

definition record_results ::
  "directory_env \<Rightarrow> ID \<Rightarrow> ID \<Rightarrow> string \<Rightarrow> string \<Rightarrow> capability_result list \<Rightarrow> unit directory" where
  "record_results env workspaceID instanceID resourceType resourceID results =
     act (\<lambda>w. bind_result (RecordCapabilityResults (de_now env) workspaceID ProviderGitLab instanceID resourceType
                   resourceID results (dw_db w) (dw_checks w)) (\<lambda>rows. Inr ((), w\<lparr>dw_checks := rows\<rparr>)))"

definition probeWithMaterial ::
  "directory_env \<Rightarrow> endpoint \<Rightarrow> group_binding \<Rightarrow> bytes \<Rightarrow> capability_result list directory" where
  "probeWithMaterial env i b material =
     branch (ProbeGitLabGroup env i b material) (\<lambda>e. stop (EWrap ''probe GitLab Group credential'' e)) pass"

definition recordAndRequire ::
  "directory_env \<Rightarrow> group_binding \<Rightarrow> endpoint \<Rightarrow> capability_result list \<Rightarrow> string list \<Rightarrow> unit directory" where
  "recordAndRequire env b i results required =
     seq (record_results env (gb_workspace b) (ep_id i) ''gitlab_group'' (gb_group b) results) (\<lambda>_.
       look (requireCapabilities results required ''configured Group credential lacks required permissions''))"

text \<open>What binding and rotation have in common: the material is stored, tried and its results recorded.\<close>

definition try_group_credential ::
  "directory_env \<Rightarrow> cipher \<Rightarrow> endpoint \<Rightarrow> group_binding \<Rightarrow> secret_ref \<Rightarrow> bytes \<Rightarrow> string list \<Rightarrow>
   capability_result list directory" where
  "try_group_credential env c i b ref material required =
     seq (vault_put env c ref material) (\<lambda>_.
     seq (probeWithMaterial env i b material) (\<lambda>results.
     seq (recordAndRequire env b i results required) (\<lambda>_. pass results)))"

section \<open>The service\<close>

text \<open>\<open>probe\<close> tells whether a probe for instances is configured.\<close>

definition BindGitLabInstanceCredential ::
  "directory_env \<Rightarrow> cipher \<Rightarrow> bool \<Rightarrow> endpoint \<Rightarrow> string \<Rightarrow> string \<Rightarrow> secret_ref \<Rightarrow> bytes \<Rightarrow> string list \<Rightarrow>
   (secret_ref \<times> capability_result list) directory" where
  "BindGitLabInstanceCredential env c probe i alias kind ref material required =
     seq (look (validateInstanceCredentialInput i ref alias kind)) (\<lambda>_.
       if \<not> probe then stop (EErr (GErr ErrInvalid ''GitLab instance credential probe is not configured''))
       else if material = [] then stop (EErr (GErr ErrInvalid ''GitLab instance credential material is required''))
       else
         seq (vault_put env c ref material) (\<lambda>_.
         branch (ProbeGitLabCredential env i material) (\<lambda>e. stop (EWrap ''probe GitLab instance credential'' e)) (\<lambda>results.
         seq (record_results env (ep_workspace i) (ep_id i) ''gitlab_instance'' (ep_id i) results) (\<lambda>_.
         seq (look (requireCapabilities results (if required = [] then [''gitlab.groups.read''] else required)
                ''configured GitLab instance credential lacks required permissions'')) (\<lambda>_.
         seq (on_endpoints (UpdateGitLabInstanceCredential (ep_workspace i) (ep_id i) (Some ref))) (\<lambda>_.
           pass (ref, results)))))))"

definition BindGroupCredential ::
  "directory_env \<Rightarrow> cipher \<Rightarrow> endpoint \<Rightarrow> group_binding \<Rightarrow> ID \<Rightarrow> string \<Rightarrow> string \<Rightarrow> secret_ref \<Rightarrow> bytes \<Rightarrow> string list \<Rightarrow>
   credential_profile directory" where
  "BindGroupCredential env c i b profileID alias kind ref material required =
     seq (look (validateGroupCredentialInput (gb_workspace b) ref alias kind profileID)) (\<lambda>_.
       if ep_workspace i \<noteq> gb_workspace b
       then stop (EErr (GErr ErrForbidden ''GitLab endpoint and Group are in different Workspaces''))
       else if secret_kind ref \<noteq> SecretGroupCredential
       then stop (EErr (GErr ErrInvalid ''Group credential must use group_credential secret kind''))
       else
         seq (try_group_credential env c i b ref material required) (\<lambda>results.
         let profile = \<lparr>cp_id = profileID, cp_workspace = gb_workspace b, cp_provider = ProviderGitLab, cp_kind = kind,
                        cp_alias = alias, cp_secret = ref, cp_status = CredentialActive,
                        cp_capabilities = availableCapabilities results\<rparr>
         in seq (on_endpoints (CreateCredentialProfile profile)) (\<lambda>_.
            seq (on_endpoints (UpdateGitLabGroupCredential (gb_workspace b) (gb_id b) profileID (Some ref))) (\<lambda>_.
              pass profile))))"

text \<open>With the alias of the profile the secret is replaced under its old identifier.\<close>

definition rotated_secret :: "credential_profile \<Rightarrow> secret_ref \<Rightarrow> secret_ref" where
  "rotated_secret old newRef =
     (if secret_alias newRef = secret_alias (cp_secret old) then newRef\<lparr>secret_id := secret_id (cp_secret old)\<rparr>
      else newRef)"

definition RotateGroupCredential ::
  "directory_env \<Rightarrow> cipher \<Rightarrow> endpoint \<Rightarrow> group_binding \<Rightarrow> secret_ref \<Rightarrow> bytes \<Rightarrow> string list \<Rightarrow>
   credential_profile directory" where
  "RotateGroupCredential env c i b newRef material required =
     (if gb_profile b = [] then stop (EErr (GErr ErrNotFound ''Group binding has no credential profile''))
      else seq (ask_endpoints (GetCredentialProfile (gb_workspace b) (gb_profile b))) (\<lambda>old.
        seq (look (validateGroupCredentialInput (gb_workspace b) newRef (secret_alias newRef) (cp_kind old) (cp_id old))) (\<lambda>_.
        if secret_kind newRef \<noteq> SecretGroupCredential
        then stop (EErr (GErr ErrInvalid ''Group credential must use group_credential secret kind''))
        else let ref = rotated_secret old newRef
        in seq (try_group_credential env c i b ref material required) (\<lambda>results.
           seq (on_endpoints (RotateCredentialProfile (gb_workspace b) (cp_id old) ref)) (\<lambda>_.
           seq (on_endpoints (UpdateGitLabGroupCredential (gb_workspace b) (gb_id b) (cp_id old) (Some ref))) (\<lambda>_.
             pass (old\<lparr>cp_secret := ref, cp_alias := secret_alias ref,
                       cp_capabilities := availableCapabilities results, cp_status := CredentialActive\<rparr>)))))))"

section \<open>What a credential that was tried leaves\<close>

interpretation same_db: effect_relation "\<lambda>w w'. dw_db w' = dw_db w"
  by unfold_locales simp_all

lemma consult_simps [simp]: "consult answer q w = (answer (dw_calls w @ [q]), w\<lparr>dw_calls := dw_calls w @ [q]\<rparr>)"
  by (simp add: consult_def Let_def)

lemma pick_simps [simp]: "pick f w = (Inr (f (dw_next w)), w\<lparr>dw_next := dw_next w + 1\<rparr>)"
  by (simp add: pick_def)

lemma on_endpoints_Inr: "on_endpoints f w = (Inr u, w') \<longleftrightarrow> (\<exists>db. f (dw_db w) = Inr db \<and> w' = w\<lparr>dw_db := db\<rparr>)"
  by (auto simp: on_endpoints_def act_Inr bind_result_Inr)

lemma on_endpoints_Inl: "on_endpoints f w = (Inl e, w') \<longleftrightarrow> (\<exists>g. e = EErr g \<and> f (dw_db w) = Inl g \<and> w' = w)"
  by (auto simp: on_endpoints_def act_Inl bind_result_Inl)

lemma vault_put_Inr:
  "vault_put env c ref material w = (Inr u, w') \<longleftrightarrow>
     (\<exists>t. Vault_Put (PutSecretRecord (de_now env)) (ci_seal c) (de_nonce env (dw_next w)) ref material
            (ed_secrets (dw_db w)) = Inr t \<and>
          w' = w\<lparr>dw_next := dw_next w + 1, dw_db := (dw_db w)\<lparr>ed_secrets := t\<rparr>\<rparr>)"
  by (auto simp: vault_put_def seq_Inr on_endpoints_Inr bind_result_Inr)

lemma vault_put_Inl:
  "vault_put env c ref material w = (Inl e, w') \<longleftrightarrow>
     (\<exists>g. e = EErr g \<and> w' = w\<lparr>dw_next := dw_next w + 1\<rparr> \<and>
          Vault_Put (PutSecretRecord (de_now env)) (ci_seal c) (de_nonce env (dw_next w)) ref material
            (ed_secrets (dw_db w)) = Inl g)"
  by (auto simp: vault_put_def seq_Inl on_endpoints_Inl bind_result_Inl)

lemma probe_db: "keeps (\<lambda>w w'. dw_db w' = dw_db w) (probeWithMaterial env i b material)"
  unfolding probeWithMaterial_def ProbeGitLabGroup_def Let_def
  by (intro same_db.flow_rules) (simp add: keeps_def)

lemma record_db: "keeps (\<lambda>w w'. dw_db w' = dw_db w) (recordAndRequire env b i results required)"
  unfolding recordAndRequire_def record_results_def
  by (intro same_db.flow_rules same_db.act_R) (auto simp: bind_result_Inr)

lemma probe_results:
  "probeWithMaterial env i b material w = (Inr results, w') \<Longrightarrow>
     material \<noteq> [] \<and> results = [available ''gitlab.groups.read'', available ''gitlab.projects.read''] \<and>
     (\<exists>g. dw_calls w' = dw_calls w @ [CallProjects i g [] (probe_credential (gb_workspace b) material)] \<and>
          gg_external g = gb_group b \<and> gg_instance g = ep_id i)"
  by (auto simp: probeWithMaterial_def branch_Inr ProbeGitLabGroup_def seq_Inr Let_def split: if_splits)

lemma required_available: "requireCapabilities results required reason = Inr () \<longleftrightarrow> set required \<subseteq> set (availableCapabilities results)"
  by (auto simp: requireCapabilities_def Let_def filter_empty_conv)

lemma try_stored:
  assumes "try_group_credential env c i b ref material required w = (r, w')" "dw_calls w' \<noteq> dw_calls w"
  obtains t where "Vault_Put (PutSecretRecord (de_now env)) (ci_seal c) (de_nonce env (dw_next w)) ref material
            (ed_secrets (dw_db w)) = Inr t" "dw_db w' = (dw_db w)\<lparr>ed_secrets := t\<rparr>"
proof (cases "vault_put env c ref material w")
  case (Pair x w1)
  show ?thesis
  proof (cases x)
    case (Inl e)
    then show ?thesis using assms Pair by (auto simp: try_group_credential_def vault_put_Inl)
  next
    case (Inr u)
    then obtain t where t: "Vault_Put (PutSecretRecord (de_now env)) (ci_seal c) (de_nonce env (dw_next w)) ref material
            (ed_secrets (dw_db w)) = Inr t" "dw_db w1 = (dw_db w)\<lparr>ed_secrets := t\<rparr>"
      using Pair by (auto simp: vault_put_Inr)
    have "keeps (\<lambda>w w'. dw_db w' = dw_db w) (seq (probeWithMaterial env i b material) (\<lambda>results.
        seq (recordAndRequire env b i results required) (\<lambda>_. pass results)))"
      by (intro same_db.flow_rules probe_db record_db)
    moreover have "seq (probeWithMaterial env i b material) (\<lambda>results.
        seq (recordAndRequire env b i results required) (\<lambda>_. pass results)) w1 = (r, w')"
      using assms(1) Pair Inr by (simp add: try_group_credential_def)
    ultimately have "dw_db w' = dw_db w1" by (rule keepsD)
    then show ?thesis using that t by simp
  qed
qed

lemma try_Inr:
  assumes "try_group_credential env c i b ref material required w = (Inr results, w')"
  obtains g where "results = [available ''gitlab.groups.read'', available ''gitlab.projects.read'']"
    "set required \<subseteq> {''gitlab.groups.read'', ''gitlab.projects.read''}"
    "dw_calls w' = dw_calls w @ [CallProjects i g [] (probe_credential (gb_workspace b) material)]"
    "gg_external g = gb_group b"
proof -
  from assms obtain w1 w2 u where w1: "vault_put env c ref material w = (Inr u, w1)"
    and w2: "probeWithMaterial env i b material w1 = (Inr results, w2)"
    and w3: "recordAndRequire env b i results required w2 = (Inr (), w')"
    by (auto simp: try_group_credential_def seq_Inr)
  have "dw_calls w1 = dw_calls w" using w1 by (auto simp: vault_put_Inr)
  moreover have "dw_calls w' = dw_calls w2" "set required \<subseteq> set (availableCapabilities results)"
    using w3 by (auto simp: recordAndRequire_def record_results_def seq_Inr act_Inr bind_result_Inr required_available)
  ultimately show ?thesis using that probe_results [OF w2] by (auto simp: availableCapabilities_def available_def)
qed

lemma stored_record:
  assumes "Vault_Put (PutSecretRecord now) seal nonce ref material t = Inr t'"
  shows "\<exists>s. GetSecretRecord (secret_workspace ref) (secret_id ref) t' = Inr s \<and> rec_ref s = ref" "secret_id ref \<noteq> []"
  using assms sql.get_put [of now ref nonce "seal nonce material (associated_data ref)" t t']
  by (auto simp: Vault_Put_def err_simps SecretRef_Validate_def split: if_splits)

lemma joined_stored:
  assumes "GetSecretRecord (secret_workspace ref) (secret_id ref) t = Inr s" "rec_ref s = ref" "secret_id ref \<noteq> []"
  shows "joined_ref (secret_workspace ref) t (Some (id_ref (secret_id ref))) = Some ref"
proof -
  have "List.find (\<lambda>s. row_id s = secret_id ref \<and> secret_workspace (rec_ref s) = secret_workspace ref) (st_rows t) = Some s"
    using assms(1) by (auto simp: GetSecretRecord_def conj_commute split: option.splits)
  then show ?thesis using assms(2,3) by (simp add: joined_ref_def id_ref_def)
qed

text \<open>What \<open>UpdateGitLabGroupCredential\<close> attached is what the reader of the binding gets.\<close>

lemma attached_group:
  assumes "UpdateGitLabGroupCredential ws i profileID (Some ref) db = Inr db'" "secret_workspace ref = ws"
    and "GetSecretRecord ws (secret_id ref) (ed_secrets db) = Inr s" "rec_ref s = ref" "secret_id ref \<noteq> []"
  shows "\<exists>b. GetGitLabGroupBinding ws i db' = Inr b \<and> gb_profile b = profileID \<and> gb_credential b = Some ref"
    "ed_secrets db' = ed_secrets db" "ed_profiles db' = ed_profiles db"
proof -
  let ?P = "\<lambda>r. gb_workspace r = ws \<and> gb_id r = i"
  from assms(1) have some: "list_ex ?P (ed_groups db)"
    and db': "db' = db\<lparr>ed_groups := update_rows ?P
                (\<lambda>r. r\<lparr>gb_credential := Some (id_ref (secret_id ref)), gb_profile := profileID\<rparr>) (ed_groups db)\<rparr>"
    by (auto simp: UpdateGitLabGroupCredential_def err_simps Let_def split: option.splits if_splits)
  from some obtain r where "List.find ?P (ed_groups db) = Some r"
    by (cases "List.find ?P (ed_groups db)") (auto simp: find_None_iff list_ex_iff)
  then show "\<exists>b. GetGitLabGroupBinding ws i db' = Inr b \<and> gb_profile b = profileID \<and> gb_credential b = Some ref"
    using joined_stored [of ref "ed_secrets db" s] assms(2-5)
    by (simp add: db' GetGitLabGroupBinding_def find_update_target)
  show "ed_secrets db' = ed_secrets db" "ed_profiles db' = ed_profiles db" by (simp_all add: db')
qed

lemma created_profile:
  assumes "CreateCredentialProfile p db = Inr db'"
  shows "ed_secrets db' = ed_secrets db"
    "\<exists>q. GetCredentialProfile (cp_workspace p) (cp_id p) db' = Inr q \<and> cp_alias q = cp_alias p \<and>
         (cp_status p \<noteq> [] \<longrightarrow> cp_status q = cp_status p) \<and> secret_id (cp_secret q) = secret_id (cp_secret p) \<and>
         cp_capabilities q = cp_capabilities p"
proof -
  let ?p = "p\<lparr>cp_secret := id_ref (secret_id (cp_secret p)),
              cp_status := or_default (cp_status p) (\<lambda>s. s = []) CredentialActive\<rparr>"
  from assms have db': "db' = db\<lparr>ed_profiles := ed_profiles db @ [?p]\<rparr>"
    and new: "\<forall>r \<in> set (ed_profiles db). cp_id p \<noteq> cp_id r"
    by (auto simp: CreateCredentialProfile_def err_simps profile_clash_def split: if_splits)
  show "ed_secrets db' = ed_secrets db" by (simp add: db')
  from new have "List.find (\<lambda>r. cp_workspace r = cp_workspace p \<and> cp_id r = cp_id p) (ed_profiles db) = None"
    by (auto simp: find_None_iff)
  then have "List.find (\<lambda>r. cp_workspace r = cp_workspace p \<and> cp_id r = cp_id p) (ed_profiles db') = Some ?p"
    by (simp add: db' find_append)
  then show "\<exists>q. GetCredentialProfile (cp_workspace p) (cp_id p) db' = Inr q \<and> cp_alias q = cp_alias p \<and>
         (cp_status p \<noteq> [] \<longrightarrow> cp_status q = cp_status p) \<and> secret_id (cp_secret q) = secret_id (cp_secret p) \<and>
         cp_capabilities q = cp_capabilities p"
    by (simp add: GetCredentialProfile_def id_ref_def or_default_def)
qed

lemma rotated_tables:
  assumes "RotateCredentialProfile ws i ref db = Inr db'"
  shows "ed_groups db' = ed_groups db" "ed_secrets db' = ed_secrets db"
  using assms by (auto simp: RotateCredentialProfile_def err_simps Let_def split: if_splits)


lemma binding_stopped:
  assumes "BindGroupCredential env c i b profileID alias kind ref material required w = (Inl e, w')"
    and "dw_calls w' \<noteq> dw_calls w"
  obtains r w1 where "try_group_credential env c i b ref material required w = (r, w1)" "dw_calls w1 = dw_calls w'"
    "ed_secrets (dw_db w') = ed_secrets (dw_db w1)"
proof -
  obtain r w1 where t: "try_group_credential env c i b ref material required w = (r, w1)"
    by (cases "try_group_credential env c i b ref material required w")
  moreover have "dw_calls w1 = dw_calls w'" "ed_secrets (dw_db w') = ed_secrets (dw_db w1)"
    using assms t
    by (auto simp: BindGroupCredential_def seq_Inl on_endpoints_Inr on_endpoints_Inl Let_def look_def created_profile
        split: if_splits sum.splits)
  ultimately show ?thesis by (rule that)
qed

lemma alias_conflict:
  assumes "s \<in> set (st_rows t)" "rec_ref s = ref"
    "secret_workspace ref' = secret_workspace ref" "secret_alias ref' = secret_alias ref" "secret_id ref' \<notin> row_id ` set (st_rows t)"
  shows "\<exists>e. Vault_Put (PutSecretRecord now) seal n ref' m t = Inl e"
proof -
  have "row_id s \<noteq> secret_id ref'" using assms(1,5) by force
  then have "list_ex (\<lambda>r. row_id r \<noteq> secret_id ref' \<and> secret_workspace (rec_ref r) = secret_workspace ref' \<and>
              secret_alias (rec_ref r) = secret_alias ref') (st_rows t)"
    using assms(1-4) by (auto simp: list_ex_iff intro!: bexI [of _ s])
  then have "PutSecretRecord now ref' nonce ciphertext t \<noteq> Inr t'" for nonce ciphertext t'
    by (auto simp: PutSecretRecord_def err_simps)
  then show ?thesis
    by (cases "Vault_Put (PutSecretRecord now) seal n ref' m t") (auto simp: Vault_Put_def err_simps split: if_splits)
qed

lemma rotated_profile:
  assumes "RotateCredentialProfile ws i ref db = Inr db'" "GetCredentialProfile ws i db = Inr old"
  shows "\<exists>p. GetCredentialProfile ws i db' = Inr p \<and> cp_alias p = cp_alias old \<and>
             cp_secret p = \<lparr>secret_id = secret_id ref, secret_workspace = ws, secret_alias = cp_alias old,
                            secret_kind = SecretGroupCredential\<rparr>"
  using assms
  by (auto simp: RotateCredentialProfile_def GetCredentialProfile_def err_simps Let_def find_update_target id_ref_def
      split: if_splits option.splits)

section \<open>Properties\<close>

text \<open>
  A credential that was bound to a group is in force. When binding succeeds, the provider was asked for
  the projects of the group with exactly this material, every capability required was one of the two
  the probe reports, the binding read back names the new profile and the reference, the reference
  opens to the material, and the profile is stored as active with what the probe reported. The cipher
  is assumed to open what it sealed.
\<close>

theorem bound_credential_in_force:
  assumes "\<And>n m a. ci_unseal c n (ci_seal c n m a) a = Some m"
    and "BindGroupCredential env c i b profileID alias kind ref material required w = (Inr profile, w')"
  shows "(\<exists>g. dw_calls w' = dw_calls w @ [CallProjects i g [] (probe_credential (gb_workspace b) material)] \<and>
              gg_external g = gb_group b) \<and>
         set required \<subseteq> {''gitlab.groups.read'', ''gitlab.projects.read''} \<and>
         (\<exists>b'. GetGitLabGroupBinding (gb_workspace b) (gb_id b) (dw_db w') = Inr b' \<and> gb_profile b' = profileID \<and>
               gb_credential b' = Some ref) \<and>
         Vault_Resolve GetSecretRecord (ci_unseal c) ref (ed_secrets (dw_db w')) = Inr material \<and>
         (\<exists>p. GetCredentialProfile (gb_workspace b) profileID (dw_db w') = Inr p \<and> cp_alias p = alias \<and>
              cp_status p = CredentialActive \<and> secret_id (cp_secret p) = secret_id ref \<and>
              cp_capabilities p = [''gitlab.groups.read'', ''gitlab.projects.read''])"
proof -
  from assms(2) obtain results w1 db1 db2 where
    v: "validateGroupCredentialInput (gb_workspace b) ref alias kind profileID = Inr ()"
    and t: "try_group_credential env c i b ref material required w = (Inr results, w1)"
    and p: "CreateCredentialProfile \<lparr>cp_id = profileID, cp_workspace = gb_workspace b, cp_provider = ProviderGitLab,
              cp_kind = kind, cp_alias = alias, cp_secret = ref, cp_status = CredentialActive,
              cp_capabilities = availableCapabilities results\<rparr> (dw_db w1) = Inr db1"
    and u: "UpdateGitLabGroupCredential (gb_workspace b) (gb_id b) profileID (Some ref) db1 = Inr db2"
    and w': "w' = w1\<lparr>dw_db := db2\<rparr>"
    by (auto simp: BindGroupCredential_def seq_Inr on_endpoints_Inr Let_def split: if_splits)
  have ws: "secret_workspace ref = gb_workspace b"
    using v by (auto simp: validateGroupCredentialInput_def split: if_splits)
  obtain g where g: "results = [available ''gitlab.groups.read'', available ''gitlab.projects.read'']"
    "set required \<subseteq> {''gitlab.groups.read'', ''gitlab.projects.read''}"
    "dw_calls w1 = dw_calls w @ [CallProjects i g [] (probe_credential (gb_workspace b) material)]"
    "gg_external g = gb_group b"
    using t by (rule try_Inr)
  then have "dw_calls w1 \<noteq> dw_calls w" by simp
  with t obtain t' where put: "Vault_Put (PutSecretRecord (de_now env)) (ci_seal c) (de_nonce env (dw_next w)) ref material
            (ed_secrets (dw_db w)) = Inr t'" and db: "dw_db w1 = (dw_db w)\<lparr>ed_secrets := t'\<rparr>"
    by (rule try_stored)
  obtain s where s: "GetSecretRecord (gb_workspace b) (secret_id ref) t' = Inr s" "rec_ref s = ref"
    using stored_record(1) [OF put] ws by auto
  have db1: "ed_secrets db1 = t'" "\<exists>p. GetCredentialProfile (gb_workspace b) profileID db1 = Inr p \<and> cp_alias p = alias \<and>
              cp_status p = CredentialActive \<and> secret_id (cp_secret p) = secret_id ref \<and>
              cp_capabilities p = [''gitlab.groups.read'', ''gitlab.projects.read'']"
    using created_profile [OF p] db g(1) by (auto simp: availableCapabilities_def available_def)
  note a = attached_group [OF u ws, of s]
  have r: "Vault_Resolve GetSecretRecord (ci_unseal c) ref t' = Inr material"
    using assms(1) put by (rule sql.Put_then_Resolve)
  show ?thesis
    using a s db1 g r stored_record(2) [OF put] unfolding w'
    by (simp add: GetCredentialProfile_def)
qed


text \<open>
  A binding that fails takes the alias with it. Once a binding got as far as the provider and failed,
  its secret stays in the table; whatever is done afterwards, while the table keeps its references every
  binding under this alias with a new reference, of any group and any material, fails before it asks the
  provider, and changes no table.
\<close>

theorem failed_binding_takes_alias:
  assumes "BindGroupCredential env c i b profileID alias kind ref material required w = (Inl e, w1)"
    "dw_calls w1 \<noteq> dw_calls w"
    and "rec_ref ` set (st_rows (ed_secrets (dw_db w1))) \<subseteq> rec_ref ` set (st_rows (ed_secrets (dw_db w2)))"
    and "secret_workspace ref' = secret_workspace ref" "secret_alias ref' = secret_alias ref"
    and "secret_id ref' \<notin> row_id ` set (st_rows (ed_secrets (dw_db w2)))"
    and "BindGroupCredential env' c' i' b' profileID' alias' kind' ref' material' required' w2 = (r, w3)"
  shows "(\<exists>e'. r = Inl e') \<and> dw_calls w3 = dw_calls w2 \<and> dw_db w3 = dw_db w2"
proof -
  from assms(1,2) obtain r1 w' where
    t: "try_group_credential env c i b ref material required w = (r1, w')" "dw_calls w' = dw_calls w1"
    and secrets: "ed_secrets (dw_db w1) = ed_secrets (dw_db w')"
    by (rule binding_stopped)
  have "dw_calls w' \<noteq> dw_calls w" using t(2) assms(2) by simp
  with t(1) obtain t' where put: "Vault_Put (PutSecretRecord (de_now env)) (ci_seal c) (de_nonce env (dw_next w)) ref material
            (ed_secrets (dw_db w)) = Inr t'" and w': "dw_db w' = (dw_db w)\<lparr>ed_secrets := t'\<rparr>"
    by (rule try_stored)
  obtain s where "GetSecretRecord (secret_workspace ref) (secret_id ref) t' = Inr s" "rec_ref s = ref"
    using stored_record(1) [OF put] by blast
  then have "ref \<in> rec_ref ` set (st_rows (ed_secrets (dw_db w1)))"
    using secrets w' by (force simp: GetSecretRecord_def dest!: find_SomeD split: option.splits)
  then obtain row where "row \<in> set (st_rows (ed_secrets (dw_db w2)))" "rec_ref row = ref" using assms(3) by auto
  then have taken: "\<exists>e. Vault_Put (PutSecretRecord now) seal n ref' m (ed_secrets (dw_db w2)) = Inl e" for now seal n m
    using alias_conflict assms(4-6) by blast
  then obtain g where "vault_put env' c' ref' material' w2 = (Inl (EErr g), w2\<lparr>dw_next := dw_next w2 + 1\<rparr>)"
    by (metis vault_put_Inl)
  then show ?thesis using assms(7)
    by (auto simp: BindGroupCredential_def try_group_credential_def look_def split: if_splits sum.splits)
qed

text \<open>
  After a rotation that succeeded the group uses the new material: its binding names the same profile
  and the reference returned, which opens to the material. The profile as it is stored keeps its alias;
  its own reference opens to the new material when the rotation kept the alias, and to nothing when
  it did not.
\<close>

theorem rotation_in_force:
  assumes "\<And>n m a. ci_unseal c n (ci_seal c n m a) a = Some m"
    and "GetCredentialProfile (gb_workspace b) (gb_profile b) (dw_db w) = Inr old"
    and "RotateGroupCredential env c i b newRef material required w = (Inr p, w')"
  shows "(\<exists>b'. GetGitLabGroupBinding (gb_workspace b) (gb_id b) (dw_db w') = Inr b' \<and> gb_profile b' = gb_profile b \<and>
               gb_credential b' = Some (cp_secret p)) \<and>
         Vault_Resolve GetSecretRecord (ci_unseal c) (cp_secret p) (ed_secrets (dw_db w')) = Inr material \<and>
         (\<exists>stored. GetCredentialProfile (gb_workspace b) (gb_profile b) (dw_db w') = Inr stored \<and> cp_alias stored = cp_alias old \<and>
            (if secret_alias newRef = cp_alias old
             then Vault_Resolve GetSecretRecord (ci_unseal c) (cp_secret stored) (ed_secrets (dw_db w')) = Inr material
             else \<exists>e. Vault_Resolve GetSecretRecord (ci_unseal c) (cp_secret stored) (ed_secrets (dw_db w')) = Inl e))"
proof -
  let ?ws = "gb_workspace b"
  let ?ref = "rotated_secret old newRef"
  have old: "cp_id old = gb_profile b" "secret_alias (cp_secret old) = cp_alias old" "secret_workspace (cp_secret old) = ?ws"
    using assms(2) by (auto simp: GetCredentialProfile_def dest!: find_SomeD split: option.splits)
  from assms(2,3) obtain results w1 db1 db2 where
    v: "validateGroupCredentialInput ?ws newRef (secret_alias newRef) (cp_kind old) (cp_id old) = Inr ()"
      "secret_kind newRef = SecretGroupCredential"
    and t: "try_group_credential env c i b ?ref material required w = (Inr results, w1)"
    and rot: "RotateCredentialProfile ?ws (cp_id old) ?ref (dw_db w1) = Inr db1"
    and u: "UpdateGitLabGroupCredential ?ws (gb_id b) (cp_id old) (Some ?ref) db1 = Inr db2"
    and w': "w' = w1\<lparr>dw_db := db2\<rparr>" and p: "cp_secret p = ?ref"
    by (auto simp: RotateGroupCredential_def seq_Inr on_endpoints_Inr ask_endpoints_def Let_def split: if_splits)
  have ref: "secret_workspace ?ref = ?ws" "secret_alias ?ref = secret_alias newRef" "secret_kind ?ref = SecretGroupCredential"
    using v by (auto simp: validateGroupCredentialInput_def rotated_secret_def split: if_splits)
  have "dw_calls w1 \<noteq> dw_calls w" using t by (auto elim: try_Inr)
  with t obtain t' where put: "Vault_Put (PutSecretRecord (de_now env)) (ci_seal c) (de_nonce env (dw_next w)) ?ref material
            (ed_secrets (dw_db w)) = Inr t'" and db: "dw_db w1 = (dw_db w)\<lparr>ed_secrets := t'\<rparr>"
    by (rule try_stored)
  obtain s where s: "GetSecretRecord ?ws (secret_id ?ref) t' = Inr s" "rec_ref s = ?ref"
    using stored_record(1) [OF put] ref(1) by auto
  have db1: "ed_secrets db1 = t'" using rotated_tables [OF rot] db by simp
  have "GetCredentialProfile ?ws (gb_profile b) (dw_db w1) = Inr old"
    using assms(2) by (simp add: db GetCredentialProfile_def)
  from rotated_profile [OF rot [unfolded old(1)] this]
  obtain stored where stored: "GetCredentialProfile ?ws (gb_profile b) db1 = Inr stored" "cp_alias stored = cp_alias old"
    "cp_secret stored = \<lparr>secret_id = secret_id ?ref, secret_workspace = ?ws, secret_alias = cp_alias old,
                        secret_kind = SecretGroupCredential\<rparr>" by blast
  have r: "Vault_Resolve GetSecretRecord (ci_unseal c) ?ref t' = Inr material"
    using assms(1) put by (rule sql.Put_then_Resolve)
  have same: "cp_secret stored = ?ref" if "secret_alias newRef = cp_alias old"
    using stored(3) ref that by simp
  have other: "\<exists>e. Vault_Resolve GetSecretRecord (ci_unseal c) (cp_secret stored) t' = Inl e" if "secret_alias newRef \<noteq> cp_alias old"
    by (rule sql.Resolve_confined [OF put]) (use stored(3) ref that in auto)
  note a = attached_group [OF u ref(1), of s]
  show ?thesis
    using a s db1 stored r same other old(1) stored_record(2) [OF put] unfolding w' p
    by (simp add: GetCredentialProfile_def)
qed


section \<open>Samples\<close>

definition directory_gitlab :: endpoint where
  "directory_gitlab =
     \<lparr>ep_id = ''g1'', ep_workspace = ''w1'', ep_name = ''GitLab'', ep_base_url = ''https://gitlab'', ep_external = [],
      ep_credential = None, ep_status = EndpointActive, ep_capabilities = []\<rparr>"

definition sample_group :: group_binding where
  "sample_group =
     \<lparr>gb_id = ''b1'', gb_workspace = ''w1'', gb_instance = ''g1'', gb_group = ''7'', gb_full_path = ''team'',
      gb_profile = [], gb_credential = None, gb_inherit = True, gb_status = EndpointActive\<rparr>"

definition sample_directory :: directory_world where
  "sample_directory =
     \<lparr>dw_db = \<lparr>ed_secrets = \<lparr>st_workspaces = [''w1''], st_rows = []\<rparr>, ed_gitlab = [directory_gitlab],
               ed_multica = [directory_gitlab], ed_groups = [sample_group], ed_profiles = []\<rparr>,
      dw_checks = [], dw_workspaces = [], dw_projects = [], dw_calls = [], dw_next = 0\<rparr>"

text \<open>The provider refuses one material.\<close>

definition sample_directory_env :: directory_env where
  "sample_directory_env =
     \<lparr>de_now = 5, de_fresh = (\<lambda>n. ''id'' @ dec_nat n), de_nonce = (\<lambda>n. ''n''), de_vault = None,
      de_groups = (\<lambda>calls. Inr []),
      de_gitlab_projects = (\<lambda>calls. case last calls of
          CallProjects i g q (Some (r, m)) \<Rightarrow> if m = ''bad'' then Inl (EErr (Plain ''401'')) else Inr []
        | _ \<Rightarrow> Inr []),
      de_readiness = (\<lambda>calls. Inl (EErr (Plain ''down''))),
      de_workspaces = (\<lambda>calls. Inr [\<lparr>mw_instance = ''g1'', mw_external = ''e1'', mw_name = ''Team''\<rparr>]),
      de_multica_projects = (\<lambda>calls. Inr [])\<rparr>"

definition directory_cipher :: cipher where
  "directory_cipher = \<lparr>ci_seal = (\<lambda>n m a. CHR ''t'' # m), ci_unseal = (\<lambda>n c a. Some (tl c))\<rparr>"

definition token_ref :: "ID \<Rightarrow> string \<Rightarrow> secret_ref" where
  "token_ref i alias = \<lparr>secret_id = i, secret_workspace = ''w1'', secret_alias = alias, secret_kind = SecretGroupCredential\<rparr>"

definition sample_bind :: "ID \<Rightarrow> bytes \<Rightarrow> directory_world \<Rightarrow> (exec_err + credential_profile) \<times> directory_world" where
  "sample_bind i material =
     BindGroupCredential sample_directory_env directory_cipher directory_gitlab sample_group ''p1'' ''token'' CredentialPAT
       (token_ref i ''token'') material [''gitlab.projects.read'']"

definition sample_rotate :: "string \<Rightarrow> bytes \<Rightarrow> directory_world \<Rightarrow> (exec_err + credential_profile) \<times> directory_world" where
  "sample_rotate alias material =
     RotateGroupCredential sample_directory_env directory_cipher directory_gitlab (sample_group\<lparr>gb_profile := ''p1''\<rparr>)
       (token_ref ''s2'' alias) material []"

definition sample_bound :: directory_world where
  "sample_bound = snd (sample_bind ''s1'' ''good'' sample_directory)"

lemma directory_cipher_opens: "ci_unseal directory_cipher n (ci_seal directory_cipher n m a) a = Some m"
  by (simp add: directory_cipher_def)

lemma length_less: "length ys < length xs \<Longrightarrow> xs \<noteq> ys"
  by auto

lemma failed_pair: "isl (fst r) \<Longrightarrow> \<exists>e. r = (Inl e, snd r)"
  by (metis isl_def prod.collapse)

lemma worked_pair: "\<not> isl (fst r) \<Longrightarrow> \<exists>x. r = (Inr x, snd r)"
  by (metis Inl_Inr_False isl_def obj_sumE prod.collapse)

theorem bound_credential_in_force_witness:
  "Vault_Resolve GetSecretRecord (ci_unseal directory_cipher) (token_ref ''s1'' ''token'') (ed_secrets (dw_db sample_bound)) =
     Inr ''good''"
proof -
  have "\<not> isl (fst (sample_bind ''s1'' ''good'' sample_directory))" by code_simp
  from worked_pair [OF this] obtain p where b: "BindGroupCredential sample_directory_env directory_cipher directory_gitlab sample_group ''p1''
      ''token'' CredentialPAT (token_ref ''s1'' ''token'') ''good'' [''gitlab.projects.read''] sample_directory = (Inr p, sample_bound)"
    by (auto simp: sample_bind_def sample_bound_def)
  show ?thesis
    by (rule conjunct1 [OF conjunct2 [OF conjunct2 [OF conjunct2 [OF bound_credential_in_force [OF directory_cipher_opens b]]]]])
qed

lemma sample_profile:
  "\<exists>old. GetCredentialProfile ''w1'' ''p1'' (dw_db sample_bound) = Inr old \<and> cp_secret old = token_ref ''s1'' ''token'' \<and>
     cp_alias old = ''token''"
  by (rule returned) code_simp


theorem sample_rotation_in_force:
  "\<exists>p. sample_rotate ''other'' ''new'' sample_bound = (Inr p, snd (sample_rotate ''other'' ''new'' sample_bound)) \<and>
     Vault_Resolve GetSecretRecord (ci_unseal directory_cipher) (cp_secret p)
       (ed_secrets (dw_db (snd (sample_rotate ''other'' ''new'' sample_bound)))) = Inr ''new''"
proof -
  obtain old where old: "GetCredentialProfile ''w1'' ''p1'' (dw_db sample_bound) = Inr old" using sample_profile by blast
  have "\<not> isl (fst (sample_rotate ''other'' ''new'' sample_bound))" by code_simp
  from worked_pair [OF this] obtain p where p: "sample_rotate ''other'' ''new'' sample_bound =
      (Inr p, snd (sample_rotate ''other'' ''new'' sample_bound))" ..
  moreover have "GetCredentialProfile (gb_workspace (sample_group\<lparr>gb_profile := ''p1''\<rparr>))
      (gb_profile (sample_group\<lparr>gb_profile := ''p1''\<rparr>)) (dw_db sample_bound) = Inr old"
    using old by (simp add: sample_group_def)
  note conjunct1 [OF conjunct2 [OF rotation_in_force [OF directory_cipher_opens this p [unfolded sample_rotate_def]]], folded sample_rotate_def]
  ultimately show ?thesis by blast
qed

theorem failed_binding_takes_alias_witness:
  "\<exists>e. fst (sample_bind ''s2'' ''good'' (snd (sample_bind ''s1'' ''bad'' sample_directory))) = Inl e"
proof -
  have "isl (fst (sample_bind ''s1'' ''bad'' sample_directory))" by code_simp
  from failed_pair [OF this] obtain e where b: "sample_bind ''s1'' ''bad'' sample_directory =
      (Inl e, snd (sample_bind ''s1'' ''bad'' sample_directory))" ..
  have calls: "dw_calls (snd (sample_bind ''s1'' ''bad'' sample_directory)) \<noteq> dw_calls sample_directory"
    by (rule length_less) code_simp
  have again: "BindGroupCredential sample_directory_env directory_cipher directory_gitlab sample_group ''p1'' ''token'' CredentialPAT
       (token_ref ''s2'' ''token'') ''good'' [''gitlab.projects.read''] (snd (sample_bind ''s1'' ''bad'' sample_directory)) =
      (fst (sample_bind ''s2'' ''good'' (snd (sample_bind ''s1'' ''bad'' sample_directory))),
       snd (sample_bind ''s2'' ''good'' (snd (sample_bind ''s1'' ''bad'' sample_directory))))"
    by (simp add: sample_bind_def)
  have "map row_id (st_rows (ed_secrets (dw_db (snd (sample_bind ''s1'' ''bad'' sample_directory))))) = [''s1'']" by code_simp
  then have "row_id ` set (st_rows (ed_secrets (dw_db (snd (sample_bind ''s1'' ''bad'' sample_directory))))) = {''s1''}"
    by (metis set_map list.set(1,2))
  then have new: "secret_id (token_ref ''s2'' ''token'') \<notin>
      row_id ` set (st_rows (ed_secrets (dw_db (snd (sample_bind ''s1'' ''bad'' sample_directory)))))"
    by (simp add: token_ref_def)
  show ?thesis
    by (rule conjunct1 [OF failed_binding_takes_alias [OF b [unfolded sample_bind_def] calls [unfolded sample_bind_def] subset_refl _ _
          new [unfolded sample_bind_def] again [unfolded sample_bind_def], folded sample_bind_def]]) (simp_all add: token_ref_def)
qed

end
