(* ===== verification/DirectoryRuns.thy ===== *)
theory DirectoryRuns
  imports CredentialService
begin

text \<open>
  The services of the directory in any order. The locale \<open>directory_relation\<close> is the interface between what
  a service does to its tables and a relation on the states that holds of all of it.
\<close>

section \<open>Histories\<close>

text \<open>The tables behind the services, and everything a service does to them.\<close>

locale directory_relation = effect_relation R for R :: "directory_world \<Rightarrow> directory_world \<Rightarrow> bool" +
  assumes R_endpoints: "R w (w\<lparr>dw_db := db\<rparr>)"
    and R_checks: "R w (w\<lparr>dw_checks := rows\<rparr>)"
    and R_workspaces: "UpsertMulticaWorkspace newID r db (dw_workspaces w) = Inr (s, rows') \<Longrightarrow> R w (w\<lparr>dw_workspaces := rows'\<rparr>)"
    and R_projects: "UpsertMulticaProject newID p db (dw_workspaces w) (dw_projects w) = Inr (q, rows'') \<Longrightarrow>
                     R w (w\<lparr>dw_projects := rows''\<rparr>)"
    and R_consult: "R w (w\<lparr>dw_calls := calls\<rparr>)"
    and R_pick: "R w (w\<lparr>dw_next := n\<rparr>)"
begin

lemma consult_R: "keeps R (consult answer q)" and pick_R: "keeps R (pick f)"
  by (simp_all add: keeps_def R_consult R_pick)

lemma on_endpoints_R: "keeps R (on_endpoints f)" and ask_endpoints_R: "keeps R (ask_endpoints g)"
  unfolding on_endpoints_def ask_endpoints_def
  by (rule act_R, auto simp: bind_result_Inr intro: R_endpoints, rule ask_R)

lemma record_R: "keeps R (record_results env ws i t k results)"
  unfolding record_results_def by (rule act_R) (auto simp: bind_result_Inr intro: R_checks)

lemma resolve_R: "keeps R (resolve_for env ref)"
  unfolding resolve_for_def by (intro flow_rules ask_endpoints_R)

lemma vault_put_R: "keeps R (vault_put env c ref material)"
  unfolding vault_put_def by (intro flow_rules pick_R on_endpoints_R)

lemmas directory_rules = flow_rules consult_R pick_R on_endpoints_R ask_endpoints_R record_R resolve_R vault_put_R

lemma collect_R: "(\<And>x. keeps R (f x)) \<Longrightarrow> keeps R (collect f xs)"
  by (induction xs) (simp_all add: flow_rules)

lemma store_workspace_R: "keeps R (store_workspace env i item)"
  unfolding store_workspace_def by (intro seq_R pick_R act_R) (auto simp: bind_result_Inr intro: R_workspaces)

lemma store_project_R: "keeps R (store_project env i mw item)"
  unfolding store_project_def by (intro seq_R pick_R act_R) (auto simp: bind_result_Inr intro: R_projects)

lemma services_R:
  "keeps R (MulticaWorkspaces env i q ref)" "keeps R (MulticaProjects env i mw q ref)"
  "keeps R (GitLabGroups env i q ref)" "keeps R (GitLabProjects env i g q ref)"
  "keeps R (TestGitLab env probe i)" "keeps R (TestMultica env probe i)"
  "keeps R (BindGitLabInstanceCredential env c probe i alias kind r material required)"
  "keeps R (BindGroupCredential env c i b profileID alias kind r material required)"
  "keeps R (RotateGroupCredential env c i b r material required)"
  unfolding MulticaWorkspaces_def MulticaProjects_def GitLabGroups_def GitLabProjects_def TestGitLab_def TestMultica_def
    ProbeGitLab_def ProbeMultica_def ListGitLabGroups_def ListGitLabProjects_def Connection_ListMulticaWorkspaces_def
    Connection_ListMulticaProjects_def list_with_def BindGitLabInstanceCredential_def BindGroupCredential_def
    RotateGroupCredential_def try_group_credential_def probeWithMaterial_def recordAndRequire_def
    ProbeGitLabGroup_def ProbeGitLabCredential_def Let_def
  by (intro directory_rules collect_R store_workspace_R store_project_R)+

end

inductive directory_step :: "directory_world \<Rightarrow> directory_world \<Rightarrow> bool" where
  step_workspaces: "MulticaWorkspaces env i q ref w = (r, w') \<Longrightarrow> directory_step w w'"
| step_projects: "MulticaProjects env i mw q ref w = (r, w') \<Longrightarrow> directory_step w w'"
| step_groups: "GitLabGroups env i q ref w = (r, w') \<Longrightarrow> directory_step w w'"
| step_gitlab_projects: "GitLabProjects env i g q ref w = (r, w') \<Longrightarrow> directory_step w w'"
| step_test_gitlab: "TestGitLab env probe i w = (r, w') \<Longrightarrow> directory_step w w'"
| step_test_multica: "TestMultica env probe i w = (r, w') \<Longrightarrow> directory_step w w'"
| step_instance: "BindGitLabInstanceCredential env c probe i alias kind ref material required w = (r, w') \<Longrightarrow> directory_step w w'"
| step_bind: "BindGroupCredential env c i b profileID alias kind ref material required w = (r, w') \<Longrightarrow> directory_step w w'"
| step_rotate: "RotateGroupCredential env c i b ref material required w = (r, w') \<Longrightarrow> directory_step w w'"
| step_tables: "directory_step w (w\<lparr>dw_db := db\<rparr>)"

context directory_relation
begin

lemma directory_step_R: "directory_step w w' \<Longrightarrow> R w w'"
  by (erule directory_step.cases) (auto intro: keepsD services_R R_endpoints)

lemma directory_run_R: "directory_step\<^sup>*\<^sup>* w w' \<Longrightarrow> R w w'"
  by (induction rule: rtranclp_induct) (auto intro: R_refl R_trans directory_step_R)

end

text \<open>The identifier of a reference never changes, and its key stays its own.\<close>

definition listed :: "directory_world \<Rightarrow> ID \<times> ID \<times> string \<Rightarrow> ID \<Rightarrow> bool" where
  "listed w k i \<longleftrightarrow> (\<exists>r \<in> set (dw_workspaces w). workspace_key r = k \<and> mwr_id r = i)"

definition workspace_keys :: "directory_world \<Rightarrow> bool" where
  "workspace_keys w \<longleftrightarrow> distinct (map workspace_key (dw_workspaces w))"

lemma distinct_map_snoc: "distinct (map f xs) \<Longrightarrow> f x \<notin> set (map f xs) \<Longrightarrow> distinct (map f (xs @ [x]))"
  by simp

lemma update_rows_member: "x \<in> set rows \<Longrightarrow> (if P x then f x else x) \<in> set (update_rows P f rows)"
  by (auto simp: update_rows_def)

lemma upsert_workspace:
  assumes "UpsertMulticaWorkspace newID r db rows = Inr (s, rows')"
  shows "distinct (map workspace_key rows) \<Longrightarrow> distinct (map workspace_key rows')"
    "x \<in> set rows \<Longrightarrow> \<exists>y \<in> set rows'. workspace_key y = workspace_key x \<and> mwr_id y = mwr_id x"
    "s \<in> set rows' \<and> workspace_key s = workspace_key r"
proof -
  define y where "y = (if mwr_id r = [] then r\<lparr>mwr_id := newID\<rparr> else r)"
  have key: "workspace_key y = workspace_key r" by (simp add: y_def)
  have u: "rows' = update_rows (\<lambda>x. workspace_key x = workspace_key y) (\<lambda>x. x\<lparr>mwr_name := mwr_name y\<rparr>) rows \<or>
           rows' = rows @ [y] \<and> (\<forall>x \<in> set rows. workspace_key x \<noteq> workspace_key y)"
    and s: "List.find (\<lambda>x. workspace_key x = workspace_key y) rows' = Some s"
    using assms unfolding UpsertMulticaWorkspace_def Let_def y_def [symmetric]
    by (auto simp: bind_result_Inr upsert_row_def GetMulticaWorkspace_def list_ex_iff split: if_splits option.splits)
  show "distinct (map workspace_key rows')" if "distinct (map workspace_key rows)"
    using u
  proof
    assume "rows' = rows @ [y] \<and> (\<forall>x \<in> set rows. workspace_key x \<noteq> workspace_key y)"
    then have rows': "rows' = rows @ [y]" and "workspace_key y \<notin> set (map workspace_key rows)"
      unfolding set_map by (blast, metis (mono_tags, lifting) imageE)
    then show ?thesis unfolding rows' using that by (intro distinct_map_snoc)
  qed (use that in \<open>simp add: map_update_same\<close>)
  show "\<exists>z \<in> set rows'. workspace_key z = workspace_key x \<and> mwr_id z = mwr_id x" if x: "x \<in> set rows"
    using u
  proof
    assume rows': "rows' = update_rows (\<lambda>x. workspace_key x = workspace_key y) (\<lambda>x. x\<lparr>mwr_name := mwr_name y\<rparr>) rows"
    show ?thesis unfolding rows' by (rule bexI [OF _ update_rows_member [OF x]]) simp
  qed (use that in auto)
  show "s \<in> set rows' \<and> workspace_key s = workspace_key r" using find_SomeD [OF s] key by auto
qed

interpretation listings: directory_relation
  "\<lambda>w w'. (workspace_keys w \<longrightarrow> workspace_keys w') \<and> (\<forall>k i. listed w k i \<longrightarrow> listed w' k i)"
proof unfold_locales
  show "(workspace_keys w \<longrightarrow> workspace_keys (w\<lparr>dw_workspaces := rows\<rparr>)) \<and>
        (\<forall>k i. listed w k i \<longrightarrow> listed (w\<lparr>dw_workspaces := rows\<rparr>) k i)"
    if "UpsertMulticaWorkspace n r db (dw_workspaces w) = Inr (s, rows)" for n r db w s rows
    using upsert_workspace(1,2) [OF that] by (auto simp: workspace_keys_def listed_def)
qed (auto simp: workspace_keys_def listed_def)

lemma collect_listed:
  assumes "collect (store_workspace env i) items w = (Inr rs, w')"
  shows "map mwr_external rs = map mw_external items \<and>
         (\<forall>r \<in> set rs. mwr_workspace r = ep_workspace i \<and> mwr_instance r = ep_id i \<and> listed w' (workspace_key r) (mwr_id r))"
  using assms
proof (induction items arbitrary: w rs)
  case (Cons item items)
  then obtain r rs' w1 where r: "store_workspace env i item w = (Inr r, w1)"
    and rs: "collect (store_workspace env i) items w1 = (Inr rs', w')" "rs = r # rs'"
    by (auto simp: seq_Inr)
  from r have "listed w1 (workspace_key r) (mwr_id r)"
    "workspace_key r = (ep_workspace i, ep_id i, mw_external item)"
    using upsert_workspace(3) by (fastforce simp: store_workspace_def seq_Inr act_Inr bind_result_Inr listed_def)+
  moreover have "listed w' k j" if "listed w1 k j" for k j
    using keepsD [OF listings.collect_R [OF listings.store_workspace_R] rs(1)] that by blast
  ultimately show ?case using Cons.IH [OF rs(1)] rs(2) by auto
qed simp

interpretation same_calls: effect_relation "\<lambda>w w'. dw_calls w' = dw_calls w"
  by unfold_locales simp_all

lemma collect_calls: "keeps (\<lambda>w w'. dw_calls w' = dw_calls w) (collect (store_workspace env i) items)"
proof (induction items)
  case (Cons item items)
  have "keeps (\<lambda>w w'. dw_calls w' = dw_calls w) (store_workspace env i item)"
    unfolding store_workspace_def
    by (intro same_calls.flow_rules same_calls.act_R) (auto simp: keeps_def bind_result_Inr)
  then show ?case using Cons by (simp add: same_calls.flow_rules)
qed (simp add: keeps_def)

lemma listing_returned:
  assumes "MulticaWorkspaces env i q ref w = (Inr rs, w')"
  obtains items where "de_workspaces env (dw_calls w') = Inr items" "map mwr_external rs = map mw_external items"
    "\<forall>r \<in> set rs. mwr_workspace r = ep_workspace i \<and> mwr_instance r = ep_id i \<and> listed w' (workspace_key r) (mwr_id r)"
proof -
  from assms obtain w1 w2 items where l: "Connection_ListMulticaWorkspaces env i (trim_space q) ref w1 = (Inr items, w2)"
    and c: "collect (store_workspace env i) items w2 = (Inr rs, w')"
    by (auto simp: MulticaWorkspaces_def seq_Inr)
  from l have "de_workspaces env (dw_calls w2) = Inr items"
    by (auto simp: Connection_ListMulticaWorkspaces_def list_with_def seq_Inr)
  moreover have "dw_calls w' = dw_calls w2" using collect_calls c by (rule keepsD)
  ultimately have "de_workspaces env (dw_calls w') = Inr items" by simp
  then show ?thesis using collect_listed [OF c] by (elim conjE) (rule that)
qed

text \<open>
  The identifiers handed out for workspaces of Multica are stable. What a listing returns has the scope of
  the instance and the order of the provider's answer, and whatever the services do afterwards, a later
  listing of the instance gives a workspace the identifier it had.
\<close>

theorem selection_stable:
  assumes "workspace_keys w"
    and "MulticaWorkspaces env i q ref w = (Inr rs, w1)"
    and "directory_step\<^sup>*\<^sup>* w1 w2"
    and "MulticaWorkspaces env' i' q' ref' w2 = (Inr rs', w3)" "ep_id i' = ep_id i" "ep_workspace i' = ep_workspace i"
  shows "(\<forall>r \<in> set rs. mwr_workspace r = ep_workspace i \<and> mwr_instance r = ep_id i) \<and>
         (\<exists>items. de_workspaces env (dw_calls w1) = Inr items \<and> map mwr_external rs = map mw_external items) \<and>
         (\<forall>r \<in> set rs. \<forall>r' \<in> set rs'. mwr_external r' = mwr_external r \<longrightarrow> mwr_id r' = mwr_id r)"
proof -
  obtain items where rs: "de_workspaces env (dw_calls w1) = Inr items" "map mwr_external rs = map mw_external items"
    "\<forall>r \<in> set rs. mwr_workspace r = ep_workspace i \<and> mwr_instance r = ep_id i \<and> listed w1 (workspace_key r) (mwr_id r)"
    using assms(2) by (rule listing_returned)
  obtain items' where rs': "\<forall>r \<in> set rs'. mwr_workspace r = ep_workspace i' \<and> mwr_instance r = ep_id i' \<and>
      listed w3 (workspace_key r) (mwr_id r)"
    using assms(4) by (rule listing_returned)
  have "directory_step w w1" "directory_step w2 w3" by (rule step_workspaces [OF assms(2)], rule step_workspaces [OF assms(4)])
  then have run: "directory_step\<^sup>*\<^sup>* w w3" "directory_step\<^sup>*\<^sup>* w1 w3" using assms(3) by (auto intro: converse_rtranclp_into_rtranclp)
  then have keys: "workspace_keys w3" using assms(1) listings.directory_run_R by blast
  have "mwr_id r' = mwr_id r" if "r \<in> set rs" "r' \<in> set rs'" "mwr_external r' = mwr_external r" for r r'
  proof -
    have "listed w3 (workspace_key r) (mwr_id r)" using rs(3) that(1) run(2) listings.directory_run_R by blast
    moreover have "listed w3 (workspace_key r) (mwr_id r')" using rs(3) rs' that assms(5,6) by auto
    ultimately show ?thesis using keys
      unfolding listed_def workspace_keys_def distinct_map by (metis (mono_tags, lifting) inj_onD)
  qed
  then show ?thesis using rs by blast
qed

theorem selection_stable_witness:
  "\<exists>rs w. MulticaWorkspaces sample_directory_env directory_gitlab [] None sample_directory = (Inr rs, w) \<and>
     map mwr_external rs = [''e1'']"
proof -
  let ?run = "MulticaWorkspaces sample_directory_env directory_gitlab [] None"
  have "\<not> isl (fst (?run sample_directory))" by code_simp
  from worked_pair [OF this] obtain rs where rs: "?run sample_directory = (Inr rs, snd (?run sample_directory))" ..
  have "\<not> isl (fst (?run (snd (?run sample_directory))))" by code_simp
  from worked_pair [OF this] obtain rs' where
    rs': "?run (snd (?run sample_directory)) = (Inr rs', snd (?run (snd (?run sample_directory))))" ..
  have "workspace_keys sample_directory" by (simp add: workspace_keys_def sample_directory_def)
  note selection_stable [OF this rs rtranclp.rtrancl_refl rs' refl refl]
  then obtain items where items: "de_workspaces sample_directory_env (dw_calls (snd (?run sample_directory))) = Inr items"
    "map mwr_external rs = map mw_external items" by blast
  from items(1) have "map mw_external items = [''e1'']" by (auto simp: sample_directory_env_def)
  with items(2) rs show ?thesis by metis
qed

end
