(* ===== verification/Spec2Isabelle.thy ===== *)
theory Spec2Isabelle
  imports ExecutorRuns RegistryStore ControlServices OIDCLogin DirectoryRuns
begin

text \<open>
  SpecWire is a server that listens to GitLab webhooks and, by flows that an administrator publishes,
  creates and completes issues in Multica. This development models the core of the Go program under
  \<open>src/bridge/internal\<close> and proves what makes it correct. This theory only collects the others.

  \<^bold>\<open>How the program works.\<close> Definitions of connectors and data models form a catalog, registered per
  workspace and seeded from embedded files. An administrator connects a GitLab project to a Multica
  project by onboarding, draws a flow as a graph of connector and generic nodes; the flow service
  validates it against the catalog, compiles it and publishes it as an immutable version, whose
  activation makes the hook at GitLab and a route from the hook to the version. The ingress verifies a
  delivery, splits it into payloads and stores, in one transaction each, the event, its execution and a
  job. Workers claim jobs under a lease and run the stored graph; connector nodes call the providers and
  keep correlations between changes and issues. Accounts, sessions and role bindings decide who may do
  what, logins are by password or by OpenID Connect, and secrets are kept in a vault.

  \<^bold>\<open>Theories and code.\<close>
  \<^item> \<open>Prelude\<close>, \<open>GoStrings\<close>, \<open>GoFloat\<close>, \<open>GoValue\<close>: what the model uses of Go - results, maps as association
    lists, \<open>strings\<close>, \<open>strconv\<close>, floats as sign, mantissa and exponent, the dynamic values of JSON.
  \<^item> \<open>Domain\<close> (\<open>domain/\<close>), \<open>Registry\<close> (\<open>registry/registry.go\<close>), \<open>Catalog\<close>, \<open>FlowNodes\<close>, \<open>GraphOrder\<close>,
    \<open>GraphSearch\<close>, \<open>NodeConfig\<close>, \<open>Validation\<close>, \<open>Simulation\<close>, \<open>Compile\<close>, \<open>Builtins\<close> (\<open>flow/\<close> and the embedded
    definitions): graphs, their checks, the evaluation of nodes, orders and searches, the dry run.
  \<^item> \<open>RegistryStore\<close> (\<open>store/registry.go\<close>, \<open>store/registry_admin.go\<close>, \<open>controlplane/registry.go\<close>): the
    definitions of a workspace with the text each was registered with, and the seeding.
  \<^item> \<open>Tables\<close>, \<open>RuntimeStore\<close>, \<open>JobQueue\<close>, \<open>RuntimeSteps\<close>, \<open>Correlations\<close> (\<open>store/runtime.go\<close>,
    \<open>store/runtime_retention.go\<close>): events, executions, nodes, jobs and correlations, and their histories.
  \<^item> \<open>FlowStore\<close>, \<open>FlowService\<close> (\<open>store/repository.go\<close>, \<open>store/flow_drafts.go\<close>, \<open>store/templates.go\<close>,
    \<open>flow/service.go\<close>): flows, drafts, versions, publication and their histories.
  \<^item> \<open>Vault\<close>, \<open>Redaction\<close>, \<open>AuditTrail\<close> (\<open>security/vault.go\<close>, \<open>store/claims.go\<close>, \<open>store/audit.go\<close>): secrets,
    what may be stored of a payload, and the audit trail with its own redaction.
  \<^item> \<open>Accounts\<close>, \<open>Authorization\<close>, \<open>OIDCLogin\<close> (\<open>store/auth_repository.go\<close>, \<open>store/oauth.go\<close>, \<open>auth/\<close>, the
    checks of \<open>httpapi/\<close>): accounts, sessions, roles and scopes, and the external login.
  \<^item> \<open>Endpoints\<close>, \<open>Connections\<close>, \<open>ControlSteps\<close> (\<open>store/endpoints.go\<close>, \<open>store/credentials.go\<close>,
    \<open>store/hooks.go\<close>): instances, connections, hooks and routes, and their histories.
  \<^item> \<open>Signature\<close>, \<open>Lifecycle\<close>, \<open>Ingress\<close> (\<open>runtime/ingress.go\<close>): signatures, what a webhook says, and the handler.
  \<^item> \<open>Effects\<close>, \<open>Executor\<close>, \<open>ExecutorRuns\<close> (\<open>runtime/executor.go\<close>, \<open>runtime/credentials.go\<close>): parts of a program
    that call a provider, the run of a flow and the work on a job, and what a run can do.
  \<^item> \<open>OnboardingStore\<close>, \<open>ControlWorld\<close>, \<open>Onboarding\<close>, \<open>OnboardingRuns\<close> (\<open>store/onboarding.go\<close>,
    \<open>store/connection_summary.go\<close>, \<open>controlplane/connection.go\<close>), \<open>HookReconciler\<close>
    (\<open>controlplane/hooks.go\<close>), \<open>ControlServices\<close>: onboarding with its checkpoints, the hook of a project
    and the rotation of its token, and what all of it does to the tables.
  \<^item> \<open>Directory\<close>, \<open>CredentialService\<close>, \<open>DirectoryRuns\<close> (\<open>store/provider_refs.go\<close>, \<open>controlplane/endpoints.go\<close>,
    \<open>selectors.go\<close>, \<open>provider_probe.go\<close>, \<open>credentials.go\<close>): endpoints, the lists an administrator chooses
    from, and the credentials of instances and groups.

  \<^bold>\<open>State and steps.\<close> A store is a record of tables, a table the list of its rows, an operation a function
  from its arguments and the state to a result and the new state, an error a value of \<open>gerr\<close>. Each
  operation of a store is one transaction of the code and one step here; an operation of a service that
  makes several calls is composed of them and is taken as one step, concurrency being the interleaving
  of steps in \<open>runtime_step\<close>, \<open>correlation_step\<close>, \<open>flow_step\<close>, \<open>control_step\<close>, \<open>onboarding_step\<close> and
  \<open>directory_step\<close>. The invariants \<open>runtime_ok\<close>, \<open>flows_ok\<close>, \<open>control_ok\<close> and \<open>onboarding_ok\<close> hold in every
  state such a history reaches from a good one. What calls a provider is a \<open>proc\<close>: it returns or fails, in
  a new state that also holds the calls made so far, and a provider answers a call from those calls; so a
  statement about calls is one about what was sent.

  \<^bold>\<open>Interfaces.\<close> They are locales, each interpreted on the definitions of the model: \<open>unique_key\<close> and
  \<open>keyed_table\<close> for tables with keys, \<open>definition_table\<close> for the three tables of definitions, \<open>topo_sorter\<close>
  for the orders of a graph, \<open>adapter_catalog\<close> for the deployed operations, \<open>secret_backend\<close> for the vault;
  and \<open>effect_relation\<close>, with \<open>quiet_relation\<close> and \<open>run_relation\<close> of the executor, \<open>quiet_control\<close>,
  \<open>control_relation\<close>, \<open>step_relation\<close> and \<open>onboarding_relation\<close> of the control plane, \<open>oidc_relation\<close> of the
  external login and \<open>directory_relation\<close> of the directory: a relation on the states that holds of every
  elementary effect holds of every run.

  \<^bold>\<open>What is shown.\<close> Of graphs: orders and searches are correct against their mathematical description, a
  publishable graph reaches an output or a terminal on every path, dry runs execute no output. Of nodes:
  a mapping gives what its rules ask for, validated filters evaluate. Of the registry: seeding is
  idempotent, except after a change of a status, and what was registered is listed. Of the runtime: a
  delivery is accepted once and a replay of a whole request changes nothing, tenants stay apart, a push
  yields one action per archived change, retries have one winner, leases protect up to a second, a worker
  settles its job by the outcome, issues are created and completed once, completed jobs and ended
  correlations are final. Of flows: publication stores what was validated, versions are immutable,
  archived is final, routes name one published version. Of the control plane: an activation installs one
  hook that opens to the token GitLab has, a rotation keeps the two in agreement, onboarding ends with
  what the probe answered and repeats nothing, and what a failure leaves behind - a hook that cannot be
  made again, a group with a refused credential. Of access: authorization is exact, sessions last from
  login to logout, an external login answers its own start once and takes over no account, secrets come
  back only to their reference, redaction leaves no sensitive member.

  \<^bold>\<open>Termination and bounds.\<close> Everything is a total function: loops are structural recursions or have a
  measure (the graph orders: nodes not yet output; the colouring search: nodes not yet coloured), and no
  fuel is used. Go's \<open>int\<close> is unbounded where the code only counts; the instants of signatures and the
  numbers of a payload wrap or saturate as in Go. Times are nanoseconds since year one, 0 being the
  zero time; stored ones are compared as text, as SQL does.

  \<^bold>\<open>Parameters.\<close> SHA-256, AES-GCM, bcrypt, random identifiers and bytes, the clock (one reading per run), the
  hash of a document, the answers of the providers, URLs built with \<open>net/url\<close>, \<open>strings.EqualFold\<close>, the
  catalog of a workspace and the secret resolver where only their result is used, and the order of Go maps
  where it can be seen, but for the last fallback of a node's input, which takes the first object of a list.

  \<^bold>\<open>Not modelled.\<close> HTTP transport and the routing of requests, JSON text (documents are their values), the
  HTTP clients of the providers, the polling loop of the worker and its locks per connection (a job is one
  step), the single-project bridge and the configuration in \<open>src/bridge/*.go\<close>, list queries with limits
  other than the audit trail's, claims of idempotency keys, failures of the database other than
  constraints, the wiping of secrets from memory. \<open>to_lower\<close> maps the letters whose image is ASCII only,
  so addresses with other capital letters are stored differently.
\<close>

end
